(* ===== verification/Damon_Prelude.thy ===== *)
theory Damon_Prelude
  imports Main "HOL-Library.Word" "HOL-Library.List_Lexorder" "HOL-Library.Char_ord"
begin

text \<open>
  Shared by every component: the \<open>Result\<close> combinators of the Rust code as functions on
  sums, the slice routines of the standard library the sources call (\<open>binary_search\<close>,
  \<open>sort_unstable\<close> with \<open>dedup\<close>, \<open>windows\<close>, checked arithmetic), and the named
  collections of simplification rules the component proofs use.
\<close>

named_theorems result_simps \<open>characterisations of Result combinators\<close>
named_theorems width_simps \<open>machine-integer arithmetic read as natural numbers\<close>

section \<open>Results\<close>

text \<open>\<open>Err e\<close> is \<open>Inl e\<close>, \<open>Ok x\<close> is \<open>Inr x\<close>; the \<open>?\<close> operator is \<open>and_then\<close>.\<close>

definition and_then :: "'e + 'a \<Rightarrow> ('a \<Rightarrow> 'e + 'b) \<Rightarrow> 'e + 'b" where
  "and_then r f = (case r of Inl e \<Rightarrow> Inl e | Inr x \<Rightarrow> f x)"

definition map_err :: "('e \<Rightarrow> 'd) \<Rightarrow> 'e + 'a \<Rightarrow> 'd + 'a" where
  "map_err g r = (case r of Inl e \<Rightarrow> Inl (g e) | Inr x \<Rightarrow> Inr x)"

definition ok_or :: "'e \<Rightarrow> 'a option \<Rightarrow> 'e + 'a" where
  "ok_or e x = (case x of None \<Rightarrow> Inl e | Some v \<Rightarrow> Inr v)"

definition is_ok :: "'e + 'a \<Rightarrow> bool" where
  "is_ok r = (case r of Inl _ \<Rightarrow> False | Inr _ \<Rightarrow> True)"

definition guard :: "bool \<Rightarrow> 'e \<Rightarrow> 'e + unit" where
  "guard b e = (if b then Inr () else Inl e)"

text \<open>\<open>for x in xs { f(x)?; }\<close>, and the same loop collecting its results.\<close>

fun try_each :: "('a \<Rightarrow> 'e + unit) \<Rightarrow> 'a list \<Rightarrow> 'e + unit" where
  "try_each f [] = Inr ()"
| "try_each f (x # xs) = and_then (f x) (\<lambda>_. try_each f xs)"

fun try_map :: "('a \<Rightarrow> 'e + 'b) \<Rightarrow> 'a list \<Rightarrow> 'e + 'b list" where
  "try_map f [] = Inr []"
| "try_map f (x # xs) = and_then (f x) (\<lambda>y. and_then (try_map f xs) (\<lambda>ys. Inr (y # ys)))"

lemma and_then_simps [simp]:
  "and_then (Inl e) f = Inl e" "and_then (Inr x) f = f x"
  by (simp_all add: and_then_def)

lemma and_then_Inr_iff [result_simps]:
  "and_then r f = Inr y \<longleftrightarrow> (\<exists>x. r = Inr x \<and> f x = Inr y)"
  by (cases r) simp_all

lemma and_then_Inl_iff:
  "and_then r f = Inl e \<longleftrightarrow> r = Inl e \<or> (\<exists>x. r = Inr x \<and> f x = Inl e)"
  by (cases r) simp_all

lemma guard_Inr_iff [simp, result_simps]: "guard b e = Inr u \<longleftrightarrow> b"
  by (simp add: guard_def)

lemma guard_Inl_iff [simp]: "guard b e = Inl d \<longleftrightarrow> \<not> b \<and> d = e"
  by (auto simp: guard_def)

lemma guard_simps [simp]: "guard True e = Inr ()" "guard False e = Inl e"
  by (simp_all add: guard_def)

lemma ok_or_Inr_iff [simp, result_simps]: "ok_or e x = Inr v \<longleftrightarrow> x = Some v"
  by (cases x) (simp_all add: ok_or_def)

lemma map_err_Inr_iff [simp, result_simps]: "map_err g r = Inr v \<longleftrightarrow> r = Inr v"
  by (cases r) (simp_all add: map_err_def)

lemma is_ok_Inr [simp]: "is_ok (Inr x)" "\<not> is_ok (Inl e)"
  by (simp_all add: is_ok_def)

lemma is_ok_iff: "is_ok r \<longleftrightarrow> (\<exists>x. r = Inr x)"
  by (cases r) simp_all

lemma try_each_Inr_iff [simp, result_simps]:
  "try_each f xs = Inr u \<longleftrightarrow> (\<forall>x\<in>set xs. f x = Inr ())"
  by (induction xs) (auto simp: and_then_Inr_iff)

lemma try_each_Inl_in: "try_each f xs = Inl e \<Longrightarrow> \<exists>x\<in>set xs. f x = Inl e"
  by (induction xs) (auto simp: and_then_Inl_iff)

lemma try_map_Inr_iff:
  "try_map f xs = Inr ys \<longleftrightarrow> list_all2 (\<lambda>x y. f x = Inr y) xs ys"
  by (induction xs arbitrary: ys) (auto simp: and_then_Inr_iff list_all2_Cons1)

lemma try_map_length: "try_map f xs = Inr ys \<Longrightarrow> length ys = length xs"
  by (simp add: try_map_Inr_iff list_all2_lengthD)

section \<open>Slices\<close>

text \<open>
  \<open>slice::binary_search\<close>: the result on an unsorted slice is unspecified by the standard
  library, so the model runs an actual bisection, and \<open>binary_search_sorted\<close> says what the
  callers rely on.
\<close>

function bisect :: "'a::linorder list \<Rightarrow> 'a \<Rightarrow> nat \<Rightarrow> nat \<Rightarrow> nat option" where
  "bisect xs k lo hi =
     (if lo < hi then
        let mid = lo + (hi - lo) div 2 in
        (if xs ! mid = k then Some mid
         else if xs ! mid < k then bisect xs k (Suc mid) hi
         else bisect xs k lo mid)
      else None)"
  by pat_completeness auto
termination
  by (relation "measure (\<lambda>(xs, k, lo, hi). hi - lo)") auto

declare bisect.simps [simp del]

definition binary_search :: "'a::linorder list \<Rightarrow> 'a \<Rightarrow> nat option" where
  "binary_search xs k = bisect xs k 0 (length xs)"

lemma bisect_Some:
  "bisect xs k lo hi = Some i \<Longrightarrow> lo \<le> i \<and> i < hi \<and> xs ! i = k"
proof (induction xs k lo hi rule: bisect.induct)
  case (1 xs k lo hi)
  let ?m = "lo + (hi - lo) div 2"
  show ?case
  proof (cases "lo < hi")
    case True
    then have "lo \<le> ?m" "?m < hi" by simp_all
    with 1 True show ?thesis
      by (auto simp: bisect.simps [of xs k lo hi] Let_def split: if_splits)
  next
    case False
    with 1 show ?thesis by (simp add: bisect.simps)
  qed
qed

lemma bisect_complete:
  "sorted xs \<Longrightarrow> hi \<le> length xs \<Longrightarrow> lo \<le> i \<Longrightarrow> i < hi \<Longrightarrow> xs ! i = k
    \<Longrightarrow> bisect xs k lo hi \<noteq> None"
proof (induction xs k lo hi rule: bisect.induct)
  case (1 xs k lo hi)
  let ?m = "lo + (hi - lo) div 2"
  from 1 have m: "lo \<le> ?m" "?m < hi" "lo < hi" by simp_all
  have step: "bisect xs k lo hi =
      (if xs ! ?m = k then Some ?m
       else if xs ! ?m < k then bisect xs k (Suc ?m) hi else bisect xs k lo ?m)"
    using m(3) by (subst bisect.simps) (simp add: Let_def)
  show ?case
  proof (cases "xs ! ?m" k rule: linorder_cases)
    case less
    have "\<not> i \<le> ?m"
    proof
      assume "i \<le> ?m"
      then have "xs ! i \<le> xs ! ?m" using "1.prems" m by (intro sorted_nth_mono) auto
      with less "1.prems" show False by simp
    qed
    with less "1.IH"(1) [OF m(3) refl] "1.prems" show ?thesis by (simp add: step)
  next
    case equal
    then show ?thesis by (simp add: step)
  next
    case greater
    have "\<not> ?m \<le> i"
    proof
      assume "?m \<le> i"
      then have "xs ! ?m \<le> xs ! i" using "1.prems" m by (intro sorted_nth_mono) auto
      with greater "1.prems" show False by simp
    qed
    moreover have "\<not> xs ! ?m < k" "xs ! ?m \<noteq> k" using greater by auto
    ultimately show ?thesis using greater "1.IH"(2) [OF m(3) refl] "1.prems" m
      by (simp add: step)
  qed
qed

lemma binary_search_SomeD:
  "binary_search xs k = Some i \<Longrightarrow> i < length xs \<and> xs ! i = k"
  by (auto simp: binary_search_def dest: bisect_Some)

lemma binary_search_sorted:
  "sorted xs \<Longrightarrow> binary_search xs k \<noteq> None \<longleftrightarrow> k \<in> set xs"
proof
  assume "binary_search xs k \<noteq> None"
  then show "k \<in> set xs" by (auto dest: binary_search_SomeD)
next
  assume s: "sorted xs" and "k \<in> set xs"
  then obtain i where "i < length xs" "xs ! i = k" by (auto simp: in_set_conv_nth)
  with s show "binary_search xs k \<noteq> None"
    unfolding binary_search_def by (intro bisect_complete [of xs _ 0 i]) auto
qed

lemma binary_search_sorted_None:
  "sorted xs \<Longrightarrow> binary_search xs k = None \<longleftrightarrow> k \<notin> set xs"
  using binary_search_sorted by blast

lemma binary_search_Nil [simp]: "binary_search [] k = None"
  by (simp add: binary_search_def bisect.simps)

text \<open>\<open>sort_unstable\<close> followed by \<open>dedup\<close>.\<close>

definition sort_dedup :: "'a::linorder list \<Rightarrow> 'a list" where
  "sort_dedup xs = remdups_adj (sort xs)"

lemma distinct_adj_strict_sorted: "distinct_adj xs \<Longrightarrow> sorted xs \<Longrightarrow> distinct xs"
proof (induction xs)
  case (Cons x xs)
  then show ?case by (cases xs) (fastforce simp: distinct_adj_Cons)+
qed simp

lemma set_sort_dedup [simp]: "set (sort_dedup xs) = set xs"
  by (simp add: sort_dedup_def)

lemma sorted_sort_dedup [simp]: "sorted (sort_dedup xs)"
  by (simp add: sort_dedup_def sorted_remdups_adj)

lemma distinct_sort_dedup [simp]: "distinct (sort_dedup xs)"
  using distinct_adj_remdups_adj [of "sort xs"] sorted_remdups_adj [of "sort xs"]
  by (simp add: sort_dedup_def distinct_adj_strict_sorted)

text \<open>\<open>xs.windows(2).any(|w| r(w[0], w[1]))\<close>\<close>

fun windows_any :: "('a \<Rightarrow> 'a \<Rightarrow> bool) \<Rightarrow> 'a list \<Rightarrow> bool" where
  "windows_any r (x # y # zs) = (r x y \<or> windows_any r (y # zs))"
| "windows_any r _ = False"


lemma windows_any_strict:
  "\<not> windows_any (\<lambda>x y. f y \<le> (f x :: 'b::linorder)) xs \<longleftrightarrow> sorted_wrt (<) (map f xs)"
proof (induction "\<lambda>x y. f y \<le> f x" xs rule: windows_any.induct)
  case (1 x y zs)
  then show ?case by (auto simp: not_le) (meson order.strict_trans)
qed simp_all

text \<open>\<open>take_while\<close> after \<open>partition_point\<close> finds a contiguous block.\<close>

definition partition_point :: "('a \<Rightarrow> bool) \<Rightarrow> 'a list \<Rightarrow> nat" where
  "partition_point p xs = length (takeWhile p xs)"

section \<open>Checked arithmetic\<close>

definition checked_add :: "'w::len word \<Rightarrow> 'w word \<Rightarrow> 'w word option" where
  "checked_add a b = (if unat a + unat b < 2 ^ LENGTH('w) then Some (a + b) else None)"

definition checked_mul :: "'w::len word \<Rightarrow> 'w word \<Rightarrow> 'w word option" where
  "checked_mul a b = (if unat a * unat b < 2 ^ LENGTH('w) then Some (a * b) else None)"

lemma unat_of_nat_small: "n < 2 ^ LENGTH('w::len) \<Longrightarrow> unat (of_nat n :: 'w word) = n"
  by (simp add: unat_of_nat)

lemma checked_add_Some_iff [width_simps]:
  "checked_add a b = Some c \<longleftrightarrow> unat a + unat b = unat c"
proof -
  have "unat (a + b) = unat a + unat b" if "unat a + unat b < 2 ^ LENGTH('a)"
    using that by (simp add: unat_word_ariths)
  moreover have "unat c < 2 ^ LENGTH('a)" by simp
  ultimately show ?thesis
    by (auto simp: checked_add_def) (metis word_unat_eq_iff)+
qed

lemma checked_add_None_iff:
  fixes a b :: "'w::len word"
  shows "checked_add a b = None \<longleftrightarrow> 2 ^ LENGTH('w) \<le> unat a + unat b"
  by (simp add: checked_add_def not_less)

lemma checked_mul_Some_iff [width_simps]:
  "checked_mul a b = Some c \<longleftrightarrow> unat a * unat b = unat c"
proof -
  have "unat (a * b) = unat a * unat b" if "unat a * unat b < 2 ^ LENGTH('a)"
    using that by (simp add: unat_word_ariths)
  moreover have "unat c < 2 ^ LENGTH('a)" by simp
  ultimately show ?thesis
    by (auto simp: checked_mul_def) (metis word_unat_eq_iff)+
qed

lemma checked_mul_None_iff:
  fixes a b :: "'w::len word"
  shows "checked_mul a b = None \<longleftrightarrow> 2 ^ LENGTH('w) \<le> unat a * unat b"
  by (simp add: checked_mul_def not_less)

end
