(* ===== verification/Rust_Base.thy ===== *)
theory Rust_Base
  imports Damon_Prelude
begin

text \<open>
  The parts of the Rust standard library the crate's own logic rests on: text as UTF-8 bytes
  (\<open>str::trim\<close>, \<open>strip_suffix\<close>, \<open>to_string\<close> and \<open>parse\<close> of integers, the UTF-8 test of
  \<open>from_utf8\<close>), paths as the component sequences that \<open>Path\<close>'s \<open>Eq\<close>, \<open>Ord\<close>,
  \<open>starts_with\<close> and \<open>strip_prefix\<close> are defined by, and \<open>Duration\<close> as its number of
  nanoseconds.
\<close>

section \<open>Machine integers\<close>

type_synonym u8 = "8 word"
type_synonym u32 = "32 word"
type_synonym u64 = "64 word"
type_synonym usize = nat
type_synonym i32 = int

abbreviation u32_max :: u32 where "u32_max \<equiv> - 1"
abbreviation u64_max :: u64 where "u64_max \<equiv> - 1"

section \<open>Text\<close>

definition byte_val :: "char \<Rightarrow> nat" where
  "byte_val c = of_char c"

definition digit_char :: "nat \<Rightarrow> char" where
  "digit_char d = ''0123456789'' ! d"

text \<open>\<open>to_digit(10)\<close>: the ASCII digits are consecutive from byte 48.\<close>

definition digit_val :: "char \<Rightarrow> nat option" where
  "digit_val c =
     (let b = byte_val c in if 48 \<le> b \<and> b < 58 then Some (b - 48) else None)"

text \<open>\<open>to_string\<close> of an unsigned integer, and \<open>parse\<close> back.\<close>

fun dec :: "nat \<Rightarrow> string" where
  "dec n = (if n < 10 then [digit_char n] else dec (n div 10) @ [digit_char (n mod 10)])"

declare dec.simps [simp del]

fun parse_digits :: "nat \<Rightarrow> string \<Rightarrow> nat option" where
  "parse_digits acc [] = Some acc"
| "parse_digits acc (c # cs) =
     (case digit_val c of None \<Rightarrow> None | Some d \<Rightarrow> parse_digits (10 * acc + d) cs)"

definition parse_nat :: "string \<Rightarrow> nat option" where
  "parse_nat s = (if s = [] then None else parse_digits 0 s)"

definition parse_unsigned :: "nat \<Rightarrow> string \<Rightarrow> nat option" where
  "parse_unsigned bits s =
     (case parse_nat (case s of c # r \<Rightarrow> if c = CHR ''+'' then r else s | [] \<Rightarrow> s) of
        Some n \<Rightarrow> if n < 2 ^ bits then Some n else None
      | None \<Rightarrow> None)"

definition parse_i32 :: "string \<Rightarrow> i32 option" where
  "parse_i32 s =
     (case s of
        c # r \<Rightarrow>
          if c = CHR ''-'' then
            (case parse_nat r of
               Some n \<Rightarrow> if n \<le> 2 ^ 31 then Some (- int n) else None | None \<Rightarrow> None)
          else
            (case parse_nat (if c = CHR ''+'' then r else s) of
               Some n \<Rightarrow> if n < 2 ^ 31 then Some (int n) else None | None \<Rightarrow> None)
      | [] \<Rightarrow> None)"

definition dec_int :: "int \<Rightarrow> string" where
  "dec_int i = (if i < 0 then CHR ''-'' # dec (nat (- i)) else dec (nat i))"

definition dec_word :: "'w::len word \<Rightarrow> string" where
  "dec_word w = dec (unat w)"

definition parse_u64 :: "string \<Rightarrow> u64 option" where
  "parse_u64 s = map_option of_nat (parse_unsigned 64 s)"

definition parse_u32 :: "string \<Rightarrow> u32 option" where
  "parse_u32 s = map_option of_nat (parse_unsigned 32 s)"

definition parse_usize :: "string \<Rightarrow> usize option" where
  "parse_usize s = parse_unsigned 64 s"

text \<open>
  \<open>str::trim\<close>. The Unicode \<open>White_Space\<close> characters, as the byte sequences that encode
  them in UTF-8.
\<close>

definition white_ascii :: "char \<Rightarrow> bool" where
  "white_ascii c = (byte_val c \<in> {9, 10, 11, 12, 13, 32})"

definition white_wide :: "nat list list" where
  "white_wide =
     [[194, 133], [194, 160], [225, 154, 128]]
     @ map (\<lambda>k. [226, 128, k]) [128, 129, 130, 131, 132, 133, 134, 135, 136, 137, 138, 168, 169, 175]
     @ [[226, 129, 159], [227, 128, 128]]"

definition white_prefix :: "nat list list \<Rightarrow> string \<Rightarrow> nat" where
  "white_prefix wide s =
     (case s of
        [] \<Rightarrow> 0
      | c # _ \<Rightarrow>
          if white_ascii c then 1
          else if byte_val c < 128 then 0
          else (case find (\<lambda>w. take (length w) (map byte_val s) = w) wide of
                  Some w \<Rightarrow> length w | None \<Rightarrow> 0))"

lemma white_prefix_le [simp]: "white_prefix wide s \<le> length s"
proof (cases s)
  case (Cons c r)
  have "length w \<le> length s" if "find (\<lambda>w. take (length w) (map byte_val s) = w) wide = Some w" for w
  proof -
    from that have "take (length w) (map byte_val s) = w" by (auto simp: find_Some_iff)
    then have "length (take (length w) (map byte_val s)) = length w" by simp
    then show ?thesis by simp
  qed
  with Cons show ?thesis by (auto simp: white_prefix_def split: option.splits)
qed (simp add: white_prefix_def)

function drop_white :: "nat list list \<Rightarrow> string \<Rightarrow> string" where
  "drop_white wide s =
     (let n = white_prefix wide s in if n = 0 then s else drop_white wide (drop n s))"
  by pat_completeness auto
termination
proof (relation "measure (\<lambda>(w, s). length s)")
  fix wide :: "nat list list" and s :: string and n
  assume n: "n = white_prefix wide s" "n \<noteq> 0"
  have "n \<le> length s" using n white_prefix_le [of wide s] by simp
  with n have "length s - n < length s" by linarith
  then show "((wide, drop n s), (wide, s)) \<in> measure (\<lambda>(w, s). length s)" by simp
qed simp

declare drop_white.simps [simp del]

definition trim :: "string \<Rightarrow> string" where
  "trim s = rev (drop_white (map rev white_wide) (rev (drop_white white_wide s)))"

definition strip_newline :: "string \<Rightarrow> string" where
  "strip_newline s = (if s \<noteq> [] \<and> last s = CHR 0x0A then butlast s else s)"

abbreviation newline :: string where "newline \<equiv> [CHR 0x0A]"

text \<open>\<open>str::contains\<close>, which compares bytes.\<close>

fun contains_text :: "string \<Rightarrow> string \<Rightarrow> bool" where
  "contains_text needle [] = (needle = [])"
| "contains_text needle (c # s) = (take (length needle) (c # s) = needle \<or> contains_text needle s)"

text \<open>\<open>from_utf8\<close>: shortest forms only, no surrogates, at most U+10FFFF.\<close>

definition continuation :: "nat \<Rightarrow> bool" where
  "continuation b = (128 \<le> b \<and> b < 192)"

fun utf8_bytes :: "nat list \<Rightarrow> bool" where
  "utf8_bytes [] = True"
| "utf8_bytes (b # bs) =
     (if b < 128 then utf8_bytes bs
      else case bs of
        [] \<Rightarrow> False
      | c # cs \<Rightarrow>
          if 194 \<le> b \<and> b < 224 then continuation c \<and> utf8_bytes cs
          else case cs of
            [] \<Rightarrow> False
          | d # ds \<Rightarrow>
              if 224 \<le> b \<and> b < 240 then
                (if b = 224 then 160 \<le> c \<and> c < 192
                 else if b = 237 then 128 \<le> c \<and> c < 160 else continuation c)
                \<and> continuation d \<and> utf8_bytes ds
              else case ds of
                [] \<Rightarrow> False
              | e # es \<Rightarrow>
                  240 \<le> b \<and> b < 245
                  \<and> (if b = 240 then 144 \<le> c \<and> c < 192
                     else if b = 244 then 128 \<le> c \<and> c < 144 else continuation c)
                  \<and> continuation d \<and> continuation e \<and> utf8_bytes es)"

definition utf8_valid :: "string \<Rightarrow> bool" where
  "utf8_valid s = utf8_bytes (map byte_val s)"

text \<open>
  \<open>to_string_lossy\<close>: every maximal ill-formed sequence becomes U+FFFD. \<open>utf8_step\<close> is the length
  of the first character or ill-formed sequence, and which of the two it is.
\<close>

definition second_of_three :: "nat \<Rightarrow> nat \<Rightarrow> bool" where
  "second_of_three b c =
     (if b = 224 then 160 \<le> c \<and> c < 192 else if b = 237 then 128 \<le> c \<and> c < 160 else continuation c)"

definition second_of_four :: "nat \<Rightarrow> nat \<Rightarrow> bool" where
  "second_of_four b c =
     (if b = 240 then 144 \<le> c \<and> c < 192 else if b = 244 then 128 \<le> c \<and> c < 144 else continuation c)"

fun utf8_step :: "nat list \<Rightarrow> nat \<times> bool" where
  "utf8_step [] = (0, True)"
| "utf8_step (b # bs) =
     (if b < 128 then (1, True)
      else if 194 \<le> b \<and> b < 224 then
        (case bs of c # _ \<Rightarrow> if continuation c then (2, True) else (1, False) | [] \<Rightarrow> (1, False))
      else if 224 \<le> b \<and> b < 240 then
        (case bs of
           c # ds \<Rightarrow>
             if \<not> second_of_three b c then (1, False)
             else (case ds of d # _ \<Rightarrow> if continuation d then (3, True) else (2, False) | [] \<Rightarrow> (2, False))
         | [] \<Rightarrow> (1, False))
      else if 240 \<le> b \<and> b < 245 then
        (case bs of
           c # ds \<Rightarrow>
             if \<not> second_of_four b c then (1, False)
             else (case ds of
                 d # es \<Rightarrow>
                   if \<not> continuation d then (2, False)
                   else (case es of e # _ \<Rightarrow> if continuation e then (4, True) else (3, False) | [] \<Rightarrow> (3, False))
               | [] \<Rightarrow> (2, False))
         | [] \<Rightarrow> (1, False))
      else (1, False))"

definition REPLACEMENT :: string where
  "REPLACEMENT = [CHR 0xEF, CHR 0xBF, CHR 0xBD]"

lemma utf8_step_positive: "0 < fst (utf8_step (b # bs))"
  by (simp split: list.split)

function to_string_lossy :: "string \<Rightarrow> string" where
  "to_string_lossy [] = []"
| "to_string_lossy (c # s) =
     (case utf8_step (map byte_val (c # s)) of
        (n, valid) \<Rightarrow> (if valid then take n (c # s) else REPLACEMENT) @ to_string_lossy (drop n (c # s)))"
  by pat_completeness auto

termination
proof (relation "measure length")
  fix c s n valid
  assume "(n, valid) = utf8_step (map byte_val (c # s))"
  then have "0 < n" using utf8_step_positive [of "byte_val c" "map byte_val s"]
    by (metis fst_conv list.simps(9))
  then show "(drop n (c # s), c # s) \<in> measure length" by simp
qed simp

lemma utf8_bytes_step:
  assumes "utf8_bytes bs"
  shows "snd (utf8_step bs) \<and> utf8_bytes (drop (fst (utf8_step bs)) bs)"
proof (cases bs)
  case (Cons b rest)
  consider "b < 128" | "194 \<le> b \<and> b < 224" | "224 \<le> b \<and> b < 240"
    | "\<not> b < 128" "\<not> (194 \<le> b \<and> b < 224)" "\<not> (224 \<le> b \<and> b < 240)" by blast
  then show ?thesis
  proof cases
    case 1
    with assms Cons show ?thesis by simp
  next
    case 2
    with assms Cons show ?thesis by (cases rest) auto
  next
    case 3
    with assms Cons obtain c d es where "rest = c # d # es" by (auto split: list.splits)
    with 3 assms Cons show ?thesis by (simp add: second_of_three_def)
  next
    case 4
    with assms Cons obtain c d e es where rest: "rest = c # d # e # es" by (auto split: list.splits)
    have "utf8_bytes (b # c # d # e # es) \<longleftrightarrow>
        240 \<le> b \<and> b < 245 \<and> second_of_four b c \<and> continuation d \<and> continuation e \<and> utf8_bytes es"
      using 4 by (simp only: second_of_four_def utf8_bytes.simps list.case if_False)
    with assms have four: "240 \<le> b" "b < 245" "second_of_four b c" "continuation d"
      "continuation e" "utf8_bytes es" unfolding Cons rest by blast+
    then have "utf8_step (b # c # d # e # es) = (4, True)" by simp
    with four show ?thesis unfolding Cons rest by (simp del: utf8_step.simps)
  qed
qed simp

lemma to_string_lossy_valid: "utf8_valid s \<Longrightarrow> to_string_lossy s = s"
proof (induction s rule: to_string_lossy.induct)
  case (2 c s)
  obtain n valid where step: "utf8_step (map byte_val (c # s)) = (n, valid)" by force
  with 2(2) utf8_bytes_step [of "map byte_val (c # s)"]
  have "valid" "utf8_valid (drop n (c # s))"
    by (simp_all only: utf8_valid_def drop_map fst_conv snd_conv)
  with 2(1) [OF step [symmetric]] have "to_string_lossy (drop n (c # s)) = drop n (c # s)" by simp
  with \<open>valid\<close> show ?case by (subst to_string_lossy.simps) (simp only: step case_prod_conv if_True append_take_drop_id)
qed simp

lemma digit_val_digit_char: "d < 10 \<Longrightarrow> digit_val (digit_char d) = Some d"
proof -
  assume "d < 10"
  then have "d \<in> {0, 1, 2, 3, 4, 5, 6, 7, 8, 9}" by auto
  then show ?thesis by (auto simp: digit_char_def digit_val_def byte_val_def)
qed

lemma parse_digits_append:
  "parse_digits acc (xs @ ys) =
     (case parse_digits acc xs of None \<Rightarrow> None | Some n \<Rightarrow> parse_digits n ys)"
  by (induction xs arbitrary: acc) (auto split: option.splits)

lemma dec_nonempty [simp]: "dec n \<noteq> []"
  by (subst dec.simps) simp

lemma parse_digits_dec: "parse_digits 0 (dec n) = Some n"
proof (induction n rule: dec.induct)
  case (1 n)
  show ?case
  proof (cases "n < 10")
    case True
    then show ?thesis by (subst dec.simps) (simp add: digit_val_digit_char)
  next
    case False
    then have "parse_digits 0 (dec n) =
        parse_digits (n div 10) [digit_char (n mod 10)]"
      using 1 by (subst dec.simps) (simp add: parse_digits_append)
    also have "\<dots> = Some n" by (simp add: digit_val_digit_char)
    finally show ?thesis .
  qed
qed

lemma dec_digits: "c \<in> set (dec n) \<Longrightarrow> \<exists>d<10. c = digit_char d"
proof (induction n rule: dec.induct)
  case (1 n)
  have m: "\<exists>d<10. digit_char (n mod 10) = digit_char d"
    by (rule exI [of _ "n mod 10"]) simp
  show ?case
  proof (cases "n < 10")
    case True
    then show ?thesis using 1(2) by (subst (asm) dec.simps) auto
  next
    case False
    then have "c \<in> set (dec (n div 10)) \<or> c = digit_char (n mod 10)"
      using 1(2) by (subst (asm) dec.simps) auto
    with 1(1) [OF False] m show ?thesis by blast
  qed
qed

lemma dec_inject [simp]: "dec m = dec n \<longleftrightarrow> m = n"
  by (metis option.inject parse_digits_dec)

lemma digit_char_cases:
  "d < 10 \<Longrightarrow> digit_char d \<in> set ''0123456789''"
  unfolding digit_char_def by (intro nth_mem) simp

lemma parse_nat_dec [simp]: "parse_nat (dec n) = Some n"
  by (simp add: parse_nat_def parse_digits_dec)

lemma dec_hd_not_sign: "hd (dec n) \<noteq> CHR ''+''" "hd (dec n) \<noteq> CHR ''-''"
  using dec_digits [of "hd (dec n)" n] digit_char_cases by (auto dest!: digit_char_cases)

lemma parse_unsigned_dec: "parse_unsigned bits (dec n) = (if n < 2 ^ bits then Some n else None)"
proof -
  have "(case dec n of c # r \<Rightarrow> if c = CHR ''+'' then r else dec n | [] \<Rightarrow> dec n) = dec n"
    using dec_hd_not_sign(1) [of n] by (cases "dec n") auto
  then show ?thesis by (simp add: parse_unsigned_def)
qed

lemma unat_less: "unat (w :: 'w::len word) < 2 ^ LENGTH('w)"
  by simp

lemma parse_u64_dec_word [simp]: "parse_u64 (dec_word w) = Some w"
  using unat_less [of w] by (simp add: parse_u64_def dec_word_def parse_unsigned_dec)

lemma parse_u32_dec_word [simp]: "parse_u32 (dec_word w) = Some w"
  using unat_less [of w] by (simp add: parse_u32_def dec_word_def parse_unsigned_dec)

lemma parse_usize_dec: "n < 2 ^ 64 \<Longrightarrow> parse_usize (dec n) = Some n"
  by (simp add: parse_usize_def parse_unsigned_dec)

lemma parse_i32_dec_int:
  "- (2 ^ 31) \<le> i \<Longrightarrow> i < 2 ^ 31 \<Longrightarrow> parse_i32 (dec_int i) = Some i"
proof (cases "i < 0")
  case True
  moreover assume "- (2 ^ 31) \<le> i"
  ultimately show ?thesis by (simp add: dec_int_def parse_i32_def)
next
  case False
  moreover assume "i < 2 ^ 31"
  moreover obtain c r where "dec (nat i) = c # r" by (cases "dec (nat i)") auto
  moreover have "c \<noteq> CHR ''+''" "c \<noteq> CHR ''-''"
    using calculation dec_hd_not_sign [of "nat i"] by simp_all
  ultimately show ?thesis
    using parse_nat_dec [of "nat i"] by (simp add: dec_int_def parse_i32_def)
qed

text \<open>Text whose ends are not white space is left alone by \<open>trim\<close>, newline or not.\<close>

definition plain_char :: "char \<Rightarrow> bool" where
  "plain_char c = (33 \<le> byte_val c \<and> byte_val c < 127)"

lemma white_prefix_plain: "s \<noteq> [] \<Longrightarrow> plain_char (hd s) \<Longrightarrow> white_prefix wide s = 0"
  by (cases s) (auto simp: white_prefix_def plain_char_def white_ascii_def)

lemma drop_white_plain: "s \<noteq> [] \<Longrightarrow> plain_char (hd s) \<Longrightarrow> drop_white wide s = s"
  by (subst drop_white.simps) (simp add: white_prefix_plain)

lemma drop_white_Nil [simp]: "drop_white wide [] = []"
  by (subst drop_white.simps) (simp add: white_prefix_def)

lemma drop_white_newline: "drop_white wide (CHR 0x0A # s) = drop_white wide s"
  by (subst drop_white.simps)
    (simp add: white_prefix_def white_ascii_def byte_val_def Let_def)

lemma trim_plain:
  assumes "s \<noteq> []" "plain_char (hd s)" "plain_char (last s)"
  shows "trim s = s" "trim (s @ newline) = s"
proof -
  have "drop_white wide s = s" "drop_white wide (s @ newline) = s @ newline" for wide
    using assms(1,2) by (simp_all add: drop_white_plain)
  moreover have "drop_white wide (rev s) = rev s" for wide
    using assms(1,3) by (simp add: drop_white_plain hd_rev)
  ultimately show "trim s = s" "trim (s @ newline) = s"
    by (simp_all add: trim_def drop_white_newline)
qed

lemma plain_dec: "c \<in> set (dec n) \<Longrightarrow> plain_char c"
proof -
  assume "c \<in> set (dec n)"
  then have "c \<in> set ''0123456789''" using dec_digits digit_char_cases by blast
  then show ?thesis by (auto simp: plain_char_def byte_val_def)
qed

lemma trim_dec [simp]: "trim (dec n) = dec n" "trim (dec n @ newline) = dec n"
  by (auto intro!: trim_plain plain_dec [of _ n])

lemma strip_newline_append [simp]: "strip_newline (s @ newline) = s"
  by (simp add: strip_newline_def)

section \<open>Paths\<close>

datatype component = RootDir | CurDir | ParentDir | Normal string

type_synonym path = "component list"

fun component_rank :: "component \<Rightarrow> nat" where
  "component_rank RootDir = 1"
| "component_rank CurDir = 2"
| "component_rank ParentDir = 3"
| "component_rank (Normal _) = 4"

fun component_name :: "component \<Rightarrow> string" where
  "component_name (Normal s) = s"
| "component_name _ = []"

instantiation component :: linorder
begin

definition less_eq_component :: "component \<Rightarrow> component \<Rightarrow> bool" where
  "less_eq_component a b =
     (component_rank a < component_rank b
      \<or> component_rank a = component_rank b \<and> component_name a \<le> component_name b)"

definition less_component :: "component \<Rightarrow> component \<Rightarrow> bool" where
  "less_component a b =
     (component_rank a < component_rank b
      \<or> component_rank a = component_rank b \<and> component_name a < component_name b)"

instance
proof
  fix a b c :: component
  show "a < b \<longleftrightarrow> a \<le> b \<and> \<not> b \<le> a"
    by (auto simp: less_eq_component_def less_component_def)
  show "a \<le> a" by (simp add: less_eq_component_def)
  show "a \<le> b \<Longrightarrow> b \<le> c \<Longrightarrow> a \<le> c"
    by (auto simp: less_eq_component_def)
  show "a \<le> b \<Longrightarrow> b \<le> a \<Longrightarrow> a = b"
    by (cases a; cases b) (auto simp: less_eq_component_def)
  show "a \<le> b \<or> b \<le> a"
    by (auto simp: less_eq_component_def)
qed

end

text \<open>
  \<open>Path::join\<close> with a literal relative path is \<open>sub\<close> with the names of its components;
  with a decimal index, \<open>child\<close>; with another path, \<open>join_path\<close>.
\<close>

definition sub :: "path \<Rightarrow> string list \<Rightarrow> path" where
  "sub p names = p @ map Normal names"

definition child :: "path \<Rightarrow> nat \<Rightarrow> path" where
  "child p i = p @ [Normal (dec i)]"

fun join_path :: "path \<Rightarrow> path \<Rightarrow> path" where
  "join_path p (RootDir # q) = RootDir # q"
| "join_path [] (CurDir # q) = CurDir # q"
| "join_path p (CurDir # q) = p @ q"
| "join_path p q = p @ q"

definition starts_with :: "path \<Rightarrow> path \<Rightarrow> bool" where
  "starts_with p root = (take (length root) p = root)"

definition strip_prefix :: "path \<Rightarrow> path \<Rightarrow> path option" where
  "strip_prefix root p = (if starts_with p root then Some (drop (length root) p) else None)"

definition ends_with :: "path \<Rightarrow> string list \<Rightarrow> bool" where
  "ends_with p names = starts_with (rev p) (rev (map Normal names))"

definition is_absolute :: "path \<Rightarrow> bool" where
  "is_absolute p = (case p of RootDir # _ \<Rightarrow> True | _ \<Rightarrow> False)"

definition file_name :: "path \<Rightarrow> string option" where
  "file_name p = (if p = [] then None else case last p of Normal s \<Rightarrow> Some s | _ \<Rightarrow> None)"

definition parent :: "path \<Rightarrow> path option" where
  "parent p = (if p = [] \<or> last p = RootDir then None else Some (butlast p))"

text \<open>A path as text: its components with slashes between them.\<close>

fun component_text :: "component \<Rightarrow> string" where
  "component_text RootDir = ''/''"
| "component_text CurDir = ''.''"
| "component_text ParentDir = ''..''"
| "component_text (Normal s) = s"

fun join_slash :: "string list \<Rightarrow> string" where
  "join_slash [] = []"
| "join_slash [t] = t"
| "join_slash (t # ts) = t @ CHR ''/'' # join_slash ts"

definition bytes_of_path :: "path \<Rightarrow> string" where
  "bytes_of_path p =
     (case p of
        RootDir # q \<Rightarrow> CHR ''/'' # join_slash (map component_text q)
      | _ \<Rightarrow> join_slash (map component_text p))"

text \<open>\<open>Path::display\<close> and \<open>to_string_lossy\<close>.\<close>

definition path_text :: "path \<Rightarrow> string" where
  "path_text p = to_string_lossy (bytes_of_path p)"

lemma starts_with_iff: "starts_with p root \<longleftrightarrow> (\<exists>q. p = root @ q)"
  unfolding starts_with_def by (metis append_eq_conv_conj append_take_drop_id)

lemma strip_prefix_Some_iff: "strip_prefix root p = Some q \<longleftrightarrow> p = root @ q"
  by (auto simp: strip_prefix_def starts_with_iff)

lemma starts_with_append [simp]: "starts_with (root @ q) root"
  by (auto simp: starts_with_iff)

lemma starts_with_trans: "starts_with p q \<Longrightarrow> starts_with q r \<Longrightarrow> starts_with p r"
  by (auto simp: starts_with_iff)

lemma join_path_relative: "\<forall>c\<in>set q. \<exists>s. c = Normal s \<Longrightarrow> join_path p q = p @ q"
  by (cases "(p, q)" rule: join_path.cases) auto

text \<open>
  Paths below a root form one block of a sorted list: everything before the block is smaller
  than the root, and the block ends at the first path that is not below it.
\<close>

lemma starts_with_ge: "starts_with p root \<Longrightarrow> root \<le> p"
proof -
  have "root \<le> root @ q" for q :: path
    by (induction root) simp_all
  then show "starts_with p root \<Longrightarrow> root \<le> p" by (auto simp: starts_with_iff)
qed

lemma below_convex:
  "root \<le> p \<Longrightarrow> p \<le> q \<Longrightarrow> starts_with q root \<Longrightarrow> starts_with p root"
proof (induction root arbitrary: p q)
  case Nil
  then show ?case by (simp add: starts_with_iff)
next
  case (Cons c root)
  then obtain q' where q: "q = c # q'" "starts_with q' root" by (auto simp: starts_with_iff)
  from Cons.prems obtain d p' where p: "p = d # p'" by (cases p) auto
  from Cons.prems p q have d: "d = c" by (auto simp: le_less)
  with Cons.prems p q have "root \<le> p'" "p' \<le> q'" by auto
  with Cons.IH q have "starts_with p' root" by blast
  with p d show ?case by (auto simp: starts_with_iff)
qed

section \<open>Durations\<close>

type_synonym duration = nat

definition as_micros :: "duration \<Rightarrow> nat" where
  "as_micros d = d div 1000"

definition as_millis :: "duration \<Rightarrow> nat" where
  "as_millis d = d div 1000000"

definition from_micros :: "u64 \<Rightarrow> duration" where
  "from_micros us = unat us * 1000"

definition from_millis :: "u64 \<Rightarrow> duration" where
  "from_millis ms = unat ms * 1000000"

lemma as_micros_from_micros [simp]: "as_micros (from_micros us) = unat us"
  by (simp add: as_micros_def from_micros_def)

lemma as_millis_from_millis [simp]: "as_millis (from_millis ms) = unat ms"
  by (simp add: as_millis_def from_millis_def)

end
