(* ===== verification/Errors.thy ===== *)
theory Errors
  imports Rust_Base
begin

text \<open>
  \<^verbatim>\<open>src/src/error.rs\<close>: the error type of the crate, with the monitoring operation of
  \<^verbatim>\<open>src/src/sysfs/abi.rs\<close> that one of its variants carries. \<open>std::io::Error\<close> is the operating
  system's number or a kind with a message. The two \<open>Debug\<close> renderings carried by
  \<open>ConfigurationMismatch\<close> are left out; its path, which says what differs, is kept. The last
  constructor is not a variant of the source: it stands for a Rust panic at an index out of range.
\<close>

datatype operation =
    VirtualAddress | FixedVirtualAddress | PhysicalAddress | UnknownOperation string

datatype io_kind =
    NotFound | PermissionDenied | Interrupted | IsADirectory | NotADirectory
  | InvalidInput | InvalidData | WriteZero | OtherKind

datatype io_error = OsError int | KindError io_kind string

fun raw_os_error :: "io_error \<Rightarrow> int option" where
  "raw_os_error (OsError code) = Some code"
| "raw_os_error (KindError _ _) = None"

fun io_error_kind :: "io_error \<Rightarrow> io_kind" where
  "io_error_kind (OsError code) =
     (if code = 2 then NotFound else if code = 1 \<or> code = 13 then PermissionDenied
      else if code = 4 then Interrupted else if code = 20 then NotADirectory
      else if code = 21 then IsADirectory else if code = 22 then InvalidInput else OtherKind)"
| "io_error_kind (KindError k _) = k"

datatype error =
    Unavailable path
  | UnsupportedPlatform
  | InvalidConfiguration string string
  | UnsupportedOperation operation
  | UnsupportedFeature string
  | InUse usize
  | KdamondRunning usize
  | ConfigurationMismatch string
  | NotRunning
  | UnexpectedKdamondState string
  | InvalidKernelValue path string string
  | InvalidRegion u64 u64
  | SnapshotSizeOverflow
  | MultipleSnapshotResults usize
  | AddressConversionOverflow u64 u64
  | AddressConversionInexact u64 u64
  | IndexOutOfBounds string usize usize
  | SessionLockBusy path
  | InvalidReceipt string
  | ReceiptMismatch string
  | SnapshotWorkerSpawn io_error
  | SnapshotWorkerDisconnected
  | PersistentStateUncertain "error option" error
  | OwnershipLost string
  | Io string path io_error
  | Rollback error error
  | Panicked string

type_synonym 'a result = "error + 'a"

fun is_resource_busy :: "error \<Rightarrow> bool" where
  "is_resource_busy (Io _ _ source) = (raw_os_error source = Some 16)"
| "is_resource_busy _ = False"

text \<open>\<open>std::error::Error::source\<close>: the cause an error reports, if any.\<close>

datatype cause = IoSource io_error | ErrorSource error

fun error_source :: "error \<Rightarrow> cause option" where
  "error_source (Io _ _ source) = Some (IoSource source)"
| "error_source (SnapshotWorkerSpawn source) = Some (IoSource source)"
| "error_source (Rollback operation _) = Some (ErrorSource operation)"
| "error_source (PersistentStateUncertain operation verification) =
     (case operation of None \<Rightarrow> Some (ErrorSource verification)
      | Some e \<Rightarrow> Some (ErrorSource e))"
| "error_source _ = None"

definition invalid :: "string \<Rightarrow> string \<Rightarrow> 'a result" where
  "invalid field reason = Inl (InvalidConfiguration field reason)"

lemma invalid_neq_Inr [simp]: "invalid f r \<noteq> Inr x" "Inr x \<noteq> invalid f r"
  by (simp_all add: invalid_def)

lemma and_then_invalid [simp]: "and_then (invalid f r) g = invalid f r"
  by (simp add: invalid_def)

text \<open>Causes are strictly smaller errors, so following \<open>source\<close> always ends.\<close>

lemma error_source_smaller: "error_source e = Some (ErrorSource d) \<Longrightarrow> size d < size e"
  by (cases e rule: error_source.cases) (auto split: option.splits)

end
