(* ===== verification/Units.thy ===== *)
theory Units
  imports Errors
begin

text \<open>
  \<^verbatim>\<open>src/src/config.rs\<close>: address units, process identifiers, monitoring intervals and region
  bounds. Each type is a record of its private fields; values come from the checked constructor
  \<open>new\<close>, whose condition is the type's invariant here.
\<close>

section \<open>Address units\<close>

record address_unit =
  unit_bytes :: u64

definition AddressUnit_ONE :: address_unit where
  "AddressUnit_ONE = \<lparr>unit_bytes = 1\<rparr>"

definition AddressUnit_new :: "u64 \<Rightarrow> address_unit result" where
  "AddressUnit_new bytes =
     (if bytes = 0 then Inl (InvalidConfiguration ''address unit'' ''must be greater than zero'')
      else Inr \<lparr>unit_bytes = bytes\<rparr>)"

definition to_bytes :: "address_unit \<Rightarrow> u64 \<Rightarrow> u64 result" where
  "to_bytes u units =
     (case checked_mul units (unit_bytes u) of
        Some bytes \<Rightarrow> Inr bytes
      | None \<Rightarrow> Inl (AddressConversionOverflow units (unit_bytes u)))"

definition units_from_bytes_exact :: "address_unit \<Rightarrow> u64 \<Rightarrow> u64 result" where
  "units_from_bytes_exact u bytes =
     (if bytes mod unit_bytes u \<noteq> 0 then Inl (AddressConversionInexact bytes (unit_bytes u))
      else Inr (bytes div unit_bytes u))"

definition floor_units :: "address_unit \<Rightarrow> u64 \<Rightarrow> u64" where
  "floor_units u bytes = bytes div unit_bytes u"

definition ceil_units :: "address_unit \<Rightarrow> u64 \<Rightarrow> u64" where
  "ceil_units u bytes =
     (let quotient = bytes div unit_bytes u in
      if bytes mod unit_bytes u = 0 then quotient else quotient + 1)"

definition units_covering_bytes :: "address_unit \<Rightarrow> u64 \<Rightarrow> u64" where
  "units_covering_bytes u bytes = ceil_units u bytes"

definition valid_unit :: "address_unit \<Rightarrow> bool" where
  "valid_unit u \<longleftrightarrow> unit_bytes u \<noteq> 0"

lemma AddressUnit_new_valid: "AddressUnit_new b = Inr u \<Longrightarrow> valid_unit u \<and> unit_bytes u = b"
  by (auto simp: AddressUnit_new_def valid_unit_def split: if_splits)

lemma valid_unit_ONE [simp]: "valid_unit AddressUnit_ONE"
  by (simp add: valid_unit_def AddressUnit_ONE_def)

lemma valid_unit_pos: "valid_unit u \<Longrightarrow> 0 < unat (unit_bytes u)"
  by (simp add: valid_unit_def unat_gt_0)

lemma to_bytes_Inr_iff [result_simps]:
  "to_bytes u n = Inr b \<longleftrightarrow> unat n * unat (unit_bytes u) = unat b"
proof (cases "checked_mul n (unit_bytes u)")
  case None
  then have "unat n * unat (unit_bytes u) \<noteq> unat b"
    by (metis checked_mul_Some_iff option.distinct(1))
  with None show ?thesis by (simp add: to_bytes_def)
next
  case (Some c)
  then have "to_bytes u n = Inr c" and "unat n * unat (unit_bytes u) = unat c"
    by (simp_all add: to_bytes_def checked_mul_Some_iff [symmetric])
  then show ?thesis by (auto simp: word_unat_eq_iff)
qed

lemma to_bytes_ONE [simp]: "to_bytes AddressUnit_ONE n = Inr n"
  by (simp add: to_bytes_Inr_iff AddressUnit_ONE_def)

lemma unat_floor_units: "unat (floor_units u b) = unat b div unat (unit_bytes u)"
  by (simp add: floor_units_def unat_div_distrib)

lemma unat_mod_zero: "(b :: u64) mod c = 0 \<longleftrightarrow> unat b mod unat c = 0"
  by (metis unat_eq_zero unat_mod_distrib)

lemma exact_Inr_iff [result_simps]:
  "units_from_bytes_exact u b = Inr n \<longleftrightarrow>
     unat b mod unat (unit_bytes u) = 0 \<and> unat n = unat b div unat (unit_bytes u)"
  unfolding units_from_bytes_exact_def unat_mod_zero
  by (auto simp: word_unat_eq_iff [of "b div unit_bytes u"] unat_div_distrib)

text \<open>The round up never wraps: a quotient with a remainder has a divisor of at least two.\<close>

lemma unat_ceil_units:
  assumes "valid_unit u"
  shows "unat (ceil_units u b) =
    unat b div unat (unit_bytes u) + (if unat b mod unat (unit_bytes u) = 0 then 0 else 1)"
proof (cases "unat b mod unat (unit_bytes u) = 0")
  case True
  then show ?thesis by (simp add: ceil_units_def Let_def unat_mod_zero unat_div_distrib)
next
  case False
  let ?q = "unat b div unat (unit_bytes u)" and ?c = "unat (unit_bytes u)"
  have "?c \<noteq> 1" using False by auto
  then have "2 \<le> ?c" using valid_unit_pos [OF assms] by linarith
  then have "?q \<le> unat b div 2" by (intro div_le_mono2) simp_all
  moreover have "unat b < 2 ^ 64" using unat_less [of b] by simp
  ultimately have "?q + 1 < 2 ^ 64" by (simp add: algebra_simps)
  then show ?thesis using False
    by (simp add: ceil_units_def Let_def unat_mod_zero unat_word_ariths unat_div_distrib)
qed

lemma floor_units_bounds:
  assumes "valid_unit u"
  shows "unat (floor_units u b) * unat (unit_bytes u) \<le> unat b"
    and "unat b < (unat (floor_units u b) + 1) * unat (unit_bytes u)"
  using valid_unit_pos [OF assms] by (simp_all add: unat_floor_units dividend_less_div_times)

lemma ceil_units_ge: 
  assumes "valid_unit u"
  shows "unat b \<le> unat (ceil_units u b) * unat (unit_bytes u)"
proof (cases "unat b mod unat (unit_bytes u) = 0")
  case True
  then show ?thesis using assms by (simp add: unat_ceil_units div_mult_mod_eq mod_0_imp_dvd)
next
  case False
  then show ?thesis using floor_units_bounds(2) [OF assms, of b] assms
    by (simp add: unat_ceil_units unat_floor_units)
qed

lemma ceil_units_least:
  assumes "valid_unit u" and "unat b \<le> n * unat (unit_bytes u)"
  shows "unat (ceil_units u b) \<le> n"
proof -
  let ?c = "unat (unit_bytes u)"
  have c: "0 < ?c" by (rule valid_unit_pos [OF assms(1)])
  have "unat b div ?c \<le> n" using assms(2) c
    by (metis div_le_mono div_mult_self_is_m)
  moreover have "unat b div ?c < n" if "unat b mod ?c \<noteq> 0"
  proof (rule ccontr)
    assume "\<not> unat b div ?c < n"
    then have "n * ?c \<le> (unat b div ?c) * ?c" by simp
    then show False using that assms(2) div_mult_mod_eq [of "unat b" ?c] by linarith
  qed
  ultimately show ?thesis using assms(1) by (auto simp: unat_ceil_units)
qed

section \<open>Process identifiers\<close>

record pid =
  pid_raw :: u32

definition Pid_new :: "u32 \<Rightarrow> pid result" where
  "Pid_new raw =
     (if raw = 0 \<or> raw > 2147483647 then
        Inl (InvalidConfiguration ''pid'' ''must be between 1 and i32::MAX'')
      else Inr \<lparr>pid_raw = raw\<rparr>)"

definition Pid_from_str :: "string \<Rightarrow> pid result" where
  "Pid_from_str value =
     (case parse_u32 value of
        None \<Rightarrow> Inl (InvalidConfiguration ''pid''
                  ''must be a positive 32-bit decimal process identifier'')
      | Some raw \<Rightarrow> Pid_new raw)"

definition Pid_display :: "pid \<Rightarrow> string" where
  "Pid_display p = dec_word (pid_raw p)"

definition valid_pid :: "pid \<Rightarrow> bool" where
  "valid_pid p \<longleftrightarrow> 0 < unat (pid_raw p) \<and> unat (pid_raw p) \<le> 2147483647"

lemma Pid_new_Inr_iff [result_simps]:
  "Pid_new r = Inr p \<longleftrightarrow> p = \<lparr>pid_raw = r\<rparr> \<and> valid_pid p"
  by (auto simp: Pid_new_def valid_pid_def word_less_nat_alt unat_gt_0)

lemma Pid_new_valid: "valid_pid p \<Longrightarrow> Pid_new (pid_raw p) = Inr p"
  by (simp add: Pid_new_Inr_iff)

section \<open>Monitoring intervals\<close>

record monitoring_intervals =
  sample_us :: u64
  aggregation_us :: u64
  update_us :: u64

definition duration_micros :: "string \<Rightarrow> duration \<Rightarrow> u64 result" where
  "duration_micros field d =
     (if as_micros d < 2 ^ 64 then
        let micros = of_nat (as_micros d) in
        (if from_micros micros \<noteq> d then
           Inl (InvalidConfiguration field ''must be exactly representable in whole microseconds'')
         else Inr micros)
      else Inl (InvalidConfiguration field ''does not fit in 64-bit microseconds''))"

definition MonitoringIntervals_new ::
    "duration \<Rightarrow> duration \<Rightarrow> duration \<Rightarrow> monitoring_intervals result" where
  "MonitoringIntervals_new sample aggregation update =
     and_then (duration_micros ''sample interval'' sample) (\<lambda>s.
     and_then (duration_micros ''aggregation interval'' aggregation) (\<lambda>a.
     and_then (duration_micros ''operations update interval'' update) (\<lambda>u.
       if s > a then
         Inl (InvalidConfiguration ''monitoring intervals''
                ''sample interval must not exceed aggregation interval'')
       else Inr \<lparr>sample_us = s, aggregation_us = a, update_us = u\<rparr>)))"

definition intervals_sample :: "monitoring_intervals \<Rightarrow> duration" where
  "intervals_sample i = from_micros (sample_us i)"

definition intervals_aggregation :: "monitoring_intervals \<Rightarrow> duration" where
  "intervals_aggregation i = from_micros (aggregation_us i)"

definition intervals_update :: "monitoring_intervals \<Rightarrow> duration" where
  "intervals_update i = from_micros (update_us i)"

definition intervals_as_micros :: "monitoring_intervals \<Rightarrow> u64 \<times> u64 \<times> u64" where
  "intervals_as_micros i = (sample_us i, aggregation_us i, update_us i)"

definition MonitoringIntervals_default :: monitoring_intervals where
  "MonitoringIntervals_default =
     \<lparr>sample_us = 5000, aggregation_us = 100000, update_us = 60000000\<rparr>"

definition valid_intervals :: "monitoring_intervals \<Rightarrow> bool" where
  "valid_intervals i \<longleftrightarrow> sample_us i \<le> aggregation_us i"

lemma duration_micros_Inr_iff [result_simps]:
  "duration_micros field d = Inr us \<longleftrightarrow> d = from_micros us"
proof
  assume "duration_micros field d = Inr us"
  then show "d = from_micros us" by (auto simp: duration_micros_def Let_def split: if_splits)
next
  assume "d = from_micros us"
  then show "duration_micros field d = Inr us"
    using unat_less [of us] by (simp add: duration_micros_def)
qed

lemma duration_micros_from_micros [simp]: "duration_micros field (from_micros us) = Inr us"
  by (simp add: duration_micros_Inr_iff)

lemma MonitoringIntervals_new_Inr_iff [result_simps]:
  "MonitoringIntervals_new s a u = Inr i \<longleftrightarrow>
     s = intervals_sample i \<and> a = intervals_aggregation i \<and> u = intervals_update i
     \<and> valid_intervals i"
  by (cases i)
    (auto simp: MonitoringIntervals_new_def and_then_Inr_iff duration_micros_Inr_iff
      intervals_sample_def intervals_aggregation_def intervals_update_def valid_intervals_def
      not_less split: if_splits)

section \<open>Region bounds\<close>

record region_bounds =
  bounds_min :: u64
  bounds_max :: u64

definition RegionBounds_new :: "u64 \<Rightarrow> u64 \<Rightarrow> region_bounds result" where
  "RegionBounds_new mn mx =
     (if mn < 3 then Inl (InvalidConfiguration ''minimum regions'' ''must be at least 3'')
      else if mn > mx then
        Inl (InvalidConfiguration ''region bounds'' ''minimum must not exceed maximum'')
      else Inr \<lparr>bounds_min = mn, bounds_max = mx\<rparr>)"

definition RegionBounds_default :: region_bounds where
  "RegionBounds_default = \<lparr>bounds_min = 10, bounds_max = 1000\<rparr>"

definition valid_bounds :: "region_bounds \<Rightarrow> bool" where
  "valid_bounds b \<longleftrightarrow> 3 \<le> bounds_min b \<and> bounds_min b \<le> bounds_max b"

lemma RegionBounds_new_Inr_iff [result_simps]:
  "RegionBounds_new mn mx = Inr b \<longleftrightarrow>
     b = \<lparr>bounds_min = mn, bounds_max = mx\<rparr> \<and> valid_bounds b"
  by (auto simp: RegionBounds_new_def valid_bounds_def not_less)

lemma defaults_valid:
  "valid_intervals MonitoringIntervals_default" "valid_bounds RegionBounds_default"
  by (simp_all add: valid_intervals_def MonitoringIntervals_default_def
      valid_bounds_def RegionBounds_default_def)

end
