(* ===== verification/Abi.thy ===== *)
theory Abi
  imports Units
begin

text \<open>
  \<^verbatim>\<open>src/src/sysfs/abi.rs\<close> and the \<open>kernel_string_enum!\<close> types of
  \<^verbatim>\<open>src/src/sysfs/configuration/model.rs\<close>: the enumerations the kernel exchanges as text, each
  with its \<open>kernel_name\<close>, its total \<open>parse\<close> and its checked \<open>from_str\<close>, and the validated
  ranges of an access pattern. The locale \<open>kernel_enum\<close> is the contract they share.
\<close>

section \<open>Tokens, counts and strings\<close>

text \<open>\<^verbatim>\<open>src/src/sysfs/configuration/helpers.rs\<close>\<close>

definition KERNEL_INDEX_MAX :: nat where
  "KERNEL_INDEX_MAX = 2147483647"

definition validate_count :: "string \<Rightarrow> nat \<Rightarrow> unit result" where
  "validate_count field count =
     (if count > KERNEL_INDEX_MAX then
        invalid field ''must fit the kernel's signed count type''
      else Inr ())"

definition ascii_whitespace :: "char \<Rightarrow> bool" where
  "ascii_whitespace c \<longleftrightarrow> byte_val c \<in> {9, 10, 12, 13, 32}"

definition validate_token :: "string \<Rightarrow> string \<Rightarrow> unit result" where
  "validate_token field value =
     (if value = [] then invalid field ''must not be empty''
      else if \<exists>byte\<in>set value. byte_val byte = 0 \<or> ascii_whitespace byte then
        invalid field ''must be one non-whitespace, non-NUL kernel token''
      else Inr ())"

definition validate_sysfs_string :: "string \<Rightarrow> string \<Rightarrow> unit result" where
  "validate_sysfs_string field value =
     (if \<exists>c\<in>set value. byte_val c \<in> {10, 13, 0} then
        invalid field ''must not contain NUL or line separators''
      else Inr ())"

definition validate_required_path :: "string \<Rightarrow> string option \<Rightarrow> unit result" where
  "validate_required_path field value =
     (case value of
        None \<Rightarrow> invalid field ''is required by the selected type''
      | Some v \<Rightarrow>
          if v = [] then invalid field ''must not be empty'' else validate_sysfs_string field v)"

definition token :: "string \<Rightarrow> bool" where
  "token s \<longleftrightarrow> s \<noteq> [] \<and> (\<forall>c\<in>set s. byte_val c \<noteq> 0 \<and> \<not> ascii_whitespace c)"

lemma validate_count_Inr_iff [simp]: "validate_count f n = Inr u \<longleftrightarrow> n \<le> KERNEL_INDEX_MAX"
  by (simp add: validate_count_def not_less)

lemma validate_token_Inr_iff [simp]: "validate_token f s = Inr u \<longleftrightarrow> token s"
  by (auto simp: validate_token_def token_def)

section \<open>Kernel enumerations\<close>

text \<open>
  What the sources rely on for every text enumeration: printing a parsed value gives back the
  text, so reading an attribute and writing it again loses nothing, even for names of a future
  kernel.
\<close>

locale kernel_enum =
  fixes kernel_name :: "'a \<Rightarrow> string"
    and parse :: "string \<Rightarrow> 'a"
    and known :: "'a \<Rightarrow> bool"
  assumes name_parse: "kernel_name (parse s) = s"
    and parse_name_known: "known x \<Longrightarrow> parse (kernel_name x) = x"
begin

lemma parse_inject: "parse s = parse t \<longleftrightarrow> s = t"
  by (metis name_parse)

lemma parse_name_iff: "parse (kernel_name x) = x \<longleftrightarrow> x \<in> range parse"
  by (metis name_parse rangeE rangeI)

lemma known_in_range: "known x \<Longrightarrow> x \<in> range parse"
  using parse_name_known parse_name_iff by blast

lemma name_inject_known:
  "known x \<Longrightarrow> known y \<Longrightarrow> kernel_name x = kernel_name y \<longleftrightarrow> x = y"
  by (metis parse_name_known)

end

subsection \<open>Monitoring operations\<close>

fun Operation_kernel_name :: "operation \<Rightarrow> string" where
  "Operation_kernel_name VirtualAddress = ''vaddr''"
| "Operation_kernel_name FixedVirtualAddress = ''fvaddr''"
| "Operation_kernel_name PhysicalAddress = ''paddr''"
| "Operation_kernel_name (UnknownOperation name) = name"

definition Operation_parse :: "string \<Rightarrow> operation" where
  "Operation_parse value =
     (if value = ''vaddr'' then VirtualAddress
      else if value = ''fvaddr'' then FixedVirtualAddress
      else if value = ''paddr'' then PhysicalAddress
      else UnknownOperation value)"

definition Operation_from_str :: "string \<Rightarrow> operation result" where
  "Operation_from_str value =
     and_then (validate_token ''monitoring operation'' value) (\<lambda>_. Inr (Operation_parse value))"

fun known_operation :: "operation \<Rightarrow> bool" where
  "known_operation (UnknownOperation _) = False"
| "known_operation _ = True"

interpretation operation_enum: kernel_enum Operation_kernel_name Operation_parse known_operation
proof
  fix s show "Operation_kernel_name (Operation_parse s) = s"
    by (simp add: Operation_parse_def)
next
  fix x assume "known_operation x"
  then show "Operation_parse (Operation_kernel_name x) = x"
    by (cases x) (simp_all add: Operation_parse_def)
qed

subsection \<open>Kdamond commands and states\<close>

datatype kdamond_command =
    CmdOn | CmdOff | Commit | CommitSchemesQuotaGoals | UpdateSchemesStats
  | UpdateSchemesTriedBytes | UpdateSchemesTriedRegions | ClearSchemesTriedRegions
  | UpdateSchemesEffectiveQuotas | UpdateTunedIntervals | UnknownCommand string

fun KdamondCommand_kernel_name :: "kdamond_command \<Rightarrow> string" where
  "KdamondCommand_kernel_name CmdOn = ''on''"
| "KdamondCommand_kernel_name CmdOff = ''off''"
| "KdamondCommand_kernel_name Commit = ''commit''"
| "KdamondCommand_kernel_name CommitSchemesQuotaGoals = ''commit_schemes_quota_goals''"
| "KdamondCommand_kernel_name UpdateSchemesStats = ''update_schemes_stats''"
| "KdamondCommand_kernel_name UpdateSchemesTriedBytes = ''update_schemes_tried_bytes''"
| "KdamondCommand_kernel_name UpdateSchemesTriedRegions = ''update_schemes_tried_regions''"
| "KdamondCommand_kernel_name ClearSchemesTriedRegions = ''clear_schemes_tried_regions''"
| "KdamondCommand_kernel_name UpdateSchemesEffectiveQuotas = ''update_schemes_effective_quotas''"
| "KdamondCommand_kernel_name UpdateTunedIntervals = ''update_tuned_intervals''"
| "KdamondCommand_kernel_name (UnknownCommand command) = command"

definition KdamondCommand_parse :: "string \<Rightarrow> kdamond_command" where
  "KdamondCommand_parse value =
     (if value = ''on'' then CmdOn
      else if value = ''off'' then CmdOff
      else if value = ''commit'' then Commit
      else if value = ''commit_schemes_quota_goals'' then CommitSchemesQuotaGoals
      else if value = ''update_schemes_stats'' then UpdateSchemesStats
      else if value = ''update_schemes_tried_bytes'' then UpdateSchemesTriedBytes
      else if value = ''update_schemes_tried_regions'' then UpdateSchemesTriedRegions
      else if value = ''clear_schemes_tried_regions'' then ClearSchemesTriedRegions
      else if value = ''update_schemes_effective_quotas'' then UpdateSchemesEffectiveQuotas
      else if value = ''update_tuned_intervals'' then UpdateTunedIntervals
      else UnknownCommand value)"

definition KdamondCommand_from_str :: "string \<Rightarrow> kdamond_command result" where
  "KdamondCommand_from_str value =
     and_then (validate_token ''kdamond command'' value) (\<lambda>_. Inr (KdamondCommand_parse value))"

fun known_command :: "kdamond_command \<Rightarrow> bool" where
  "known_command (UnknownCommand _) = False"
| "known_command _ = True"

interpretation command_enum:
  kernel_enum KdamondCommand_kernel_name KdamondCommand_parse known_command
proof
  fix s show "KdamondCommand_kernel_name (KdamondCommand_parse s) = s"
    by (simp add: KdamondCommand_parse_def)
next
  fix x assume "known_command x"
  then show "KdamondCommand_parse (KdamondCommand_kernel_name x) = x"
    by (cases x) (simp_all add: KdamondCommand_parse_def)
qed

datatype kdamond_state = StateOn | StateOff | UnknownState string

fun KdamondState_kernel_name :: "kdamond_state \<Rightarrow> string" where
  "KdamondState_kernel_name StateOn = ''on''"
| "KdamondState_kernel_name StateOff = ''off''"
| "KdamondState_kernel_name (UnknownState state) = state"

definition KdamondState_parse :: "string \<Rightarrow> kdamond_state" where
  "KdamondState_parse value =
     (if value = ''on'' then StateOn else if value = ''off'' then StateOff
      else UnknownState value)"

definition KdamondState_from_str :: "string \<Rightarrow> kdamond_state result" where
  "KdamondState_from_str value =
     and_then (validate_token ''kdamond state'' value) (\<lambda>_. Inr (KdamondState_parse value))"

fun known_state :: "kdamond_state \<Rightarrow> bool" where
  "known_state (UnknownState _) = False"
| "known_state _ = True"

interpretation state_enum: kernel_enum KdamondState_kernel_name KdamondState_parse known_state
proof
  fix s show "KdamondState_kernel_name (KdamondState_parse s) = s"
    by (simp add: KdamondState_parse_def)
next
  fix x assume "known_state x"
  then show "KdamondState_parse (KdamondState_kernel_name x) = x"
    by (cases x) (simp_all add: KdamondState_parse_def)
qed

subsection \<open>Scheme actions\<close>

datatype action =
    WillNeed | Cold | PageOut | HugePage | NoHugePage | Collapse | LruPrioritize
  | LruDeprioritize | MigrateHot | MigrateCold | DamosAllocate | DamosFree | Stat
  | UnknownAction string

fun Action_kernel_name :: "action \<Rightarrow> string" where
  "Action_kernel_name WillNeed = ''willneed''"
| "Action_kernel_name Cold = ''cold''"
| "Action_kernel_name PageOut = ''pageout''"
| "Action_kernel_name HugePage = ''hugepage''"
| "Action_kernel_name NoHugePage = ''nohugepage''"
| "Action_kernel_name Collapse = ''collapse''"
| "Action_kernel_name LruPrioritize = ''lru_prio''"
| "Action_kernel_name LruDeprioritize = ''lru_deprio''"
| "Action_kernel_name MigrateHot = ''migrate_hot''"
| "Action_kernel_name MigrateCold = ''migrate_cold''"
| "Action_kernel_name DamosAllocate = ''damos_alloc''"
| "Action_kernel_name DamosFree = ''damos_free''"
| "Action_kernel_name Stat = ''stat''"
| "Action_kernel_name (UnknownAction name) = name"

definition Action_parse :: "string \<Rightarrow> action" where
  "Action_parse value =
     (if value = ''willneed'' then WillNeed
      else if value = ''cold'' then Cold
      else if value = ''pageout'' then PageOut
      else if value = ''hugepage'' then HugePage
      else if value = ''nohugepage'' then NoHugePage
      else if value = ''collapse'' then Collapse
      else if value = ''lru_prio'' then LruPrioritize
      else if value = ''lru_deprio'' then LruDeprioritize
      else if value = ''migrate_hot'' then MigrateHot
      else if value = ''migrate_cold'' then MigrateCold
      else if value = ''damos_alloc'' then DamosAllocate
      else if value = ''damos_free'' then DamosFree
      else if value = ''stat'' then Stat
      else UnknownAction value)"

definition Action_from_str :: "string \<Rightarrow> action result" where
  "Action_from_str value =
     and_then (validate_token ''DAMOS action'' value) (\<lambda>_. Inr (Action_parse value))"

fun known_action :: "action \<Rightarrow> bool" where
  "known_action (UnknownAction _) = False"
| "known_action _ = True"

interpretation action_enum: kernel_enum Action_kernel_name Action_parse known_action
proof
  fix s show "Action_kernel_name (Action_parse s) = s"
    by (simp add: Action_parse_def)
next
  fix x assume "known_action x"
  then show "Action_parse (Action_kernel_name x) = x"
    by (cases x) (simp_all add: Action_parse_def)
qed

subsection \<open>Filter types\<close>

datatype probe_filter_type =
    PfAnonymous | PfMemoryControlGroup | PageIdleUnset | PageIdleSet | PfUnknown string

fun ProbeFilterType_kernel_name :: "probe_filter_type \<Rightarrow> string" where
  "ProbeFilterType_kernel_name PfAnonymous = ''anon''"
| "ProbeFilterType_kernel_name PfMemoryControlGroup = ''memcg''"
| "ProbeFilterType_kernel_name PageIdleUnset = ''pgidle_unset''"
| "ProbeFilterType_kernel_name PageIdleSet = ''pgidle_set''"
| "ProbeFilterType_kernel_name (PfUnknown name) = name"

definition ProbeFilterType_parse :: "string \<Rightarrow> probe_filter_type" where
  "ProbeFilterType_parse value =
     (if value = ''anon'' then PfAnonymous
      else if value = ''memcg'' then PfMemoryControlGroup
      else if value = ''pgidle_unset'' then PageIdleUnset
      else if value = ''pgidle_set'' then PageIdleSet
      else PfUnknown value)"

fun known_probe_filter :: "probe_filter_type \<Rightarrow> bool" where
  "known_probe_filter (PfUnknown _) = False"
| "known_probe_filter _ = True"

interpretation probe_filter_enum:
  kernel_enum ProbeFilterType_kernel_name ProbeFilterType_parse known_probe_filter
proof
  fix s show "ProbeFilterType_kernel_name (ProbeFilterType_parse s) = s"
    by (simp add: ProbeFilterType_parse_def)
next
  fix x assume "known_probe_filter x"
  then show "ProbeFilterType_parse (ProbeFilterType_kernel_name x) = x"
    by (cases x) (simp_all add: ProbeFilterType_parse_def)
qed

datatype scheme_filter_type =
    SfAnonymous | SfActive | SfMemoryControlGroup | SfYoung | SfHugePageSize | SfUnmapped
  | SfAddress | SfTarget | SfProbeHitsWeightedSum | SfUnknown string

fun SchemeFilterType_kernel_name :: "scheme_filter_type \<Rightarrow> string" where
  "SchemeFilterType_kernel_name SfAnonymous = ''anon''"
| "SchemeFilterType_kernel_name SfActive = ''active''"
| "SchemeFilterType_kernel_name SfMemoryControlGroup = ''memcg''"
| "SchemeFilterType_kernel_name SfYoung = ''young''"
| "SchemeFilterType_kernel_name SfHugePageSize = ''hugepage_size''"
| "SchemeFilterType_kernel_name SfUnmapped = ''unmapped''"
| "SchemeFilterType_kernel_name SfAddress = ''addr''"
| "SchemeFilterType_kernel_name SfTarget = ''target''"
| "SchemeFilterType_kernel_name SfProbeHitsWeightedSum = ''probe_hits_wsum''"
| "SchemeFilterType_kernel_name (SfUnknown value) = value"

definition SchemeFilterType_parse :: "string \<Rightarrow> scheme_filter_type" where
  "SchemeFilterType_parse value =
     (if value = ''anon'' then SfAnonymous
      else if value = ''active'' then SfActive
      else if value = ''memcg'' then SfMemoryControlGroup
      else if value = ''young'' then SfYoung
      else if value = ''hugepage_size'' then SfHugePageSize
      else if value = ''unmapped'' then SfUnmapped
      else if value = ''addr'' then SfAddress
      else if value = ''target'' then SfTarget
      else if value = ''probe_hits_wsum'' then SfProbeHitsWeightedSum
      else SfUnknown value)"

fun handled_by_operations :: "scheme_filter_type \<Rightarrow> bool option" where
  "handled_by_operations SfAddress = Some False"
| "handled_by_operations SfTarget = Some False"
| "handled_by_operations SfProbeHitsWeightedSum = Some False"
| "handled_by_operations (SfUnknown _) = None"
| "handled_by_operations _ = Some True"

fun known_scheme_filter :: "scheme_filter_type \<Rightarrow> bool" where
  "known_scheme_filter (SfUnknown _) = False"
| "known_scheme_filter _ = True"

interpretation scheme_filter_enum:
  kernel_enum SchemeFilterType_kernel_name SchemeFilterType_parse known_scheme_filter
proof
  fix s show "SchemeFilterType_kernel_name (SchemeFilterType_parse s) = s"
    by (simp add: SchemeFilterType_parse_def)
next
  fix x assume "known_scheme_filter x"
  then show "SchemeFilterType_parse (SchemeFilterType_kernel_name x) = x"
    by (cases x) (simp_all add: SchemeFilterType_parse_def)
qed

datatype sample_filter_type = CpuMask | Threads | SampleWrite | SaUnknown string

fun SampleFilterType_kernel_name :: "sample_filter_type \<Rightarrow> string" where
  "SampleFilterType_kernel_name CpuMask = ''cpumask''"
| "SampleFilterType_kernel_name Threads = ''threads''"
| "SampleFilterType_kernel_name SampleWrite = ''write''"
| "SampleFilterType_kernel_name (SaUnknown value) = value"

definition SampleFilterType_parse :: "string \<Rightarrow> sample_filter_type" where
  "SampleFilterType_parse value =
     (if value = ''cpumask'' then CpuMask else if value = ''threads'' then Threads
      else if value = ''write'' then SampleWrite else SaUnknown value)"

fun known_sample_filter :: "sample_filter_type \<Rightarrow> bool" where
  "known_sample_filter (SaUnknown _) = False"
| "known_sample_filter _ = True"

interpretation sample_filter_enum:
  kernel_enum SampleFilterType_kernel_name SampleFilterType_parse known_sample_filter
proof
  fix s show "SampleFilterType_kernel_name (SampleFilterType_parse s) = s"
    by (simp add: SampleFilterType_parse_def)
next
  fix x assume "known_sample_filter x"
  then show "SampleFilterType_parse (SampleFilterType_kernel_name x) = x"
    by (cases x) (simp_all add: SampleFilterType_parse_def)
qed

datatype probe_preparation_action = SetPageIdle | PpUnknown string

fun ProbePreparationAction_kernel_name :: "probe_preparation_action \<Rightarrow> string" where
  "ProbePreparationAction_kernel_name SetPageIdle = ''set_pgidle''"
| "ProbePreparationAction_kernel_name (PpUnknown value) = value"

definition ProbePreparationAction_parse :: "string \<Rightarrow> probe_preparation_action" where
  "ProbePreparationAction_parse value =
     (if value = ''set_pgidle'' then SetPageIdle else PpUnknown value)"

fun known_preparation :: "probe_preparation_action \<Rightarrow> bool" where
  "known_preparation (PpUnknown _) = False"
| "known_preparation _ = True"

interpretation preparation_enum:
  kernel_enum ProbePreparationAction_kernel_name ProbePreparationAction_parse known_preparation
proof
  fix s show "ProbePreparationAction_kernel_name (ProbePreparationAction_parse s) = s"
    by (simp add: ProbePreparationAction_parse_def)
next
  fix x assume "known_preparation x"
  then show "ProbePreparationAction_parse (ProbePreparationAction_kernel_name x) = x"
    by (cases x) (simp_all add: ProbePreparationAction_parse_def)
qed

subsection \<open>Watermarks and quota goals\<close>

datatype watermark_metric = WmNone | FreeMemoryRate | WmUnknown string

fun WatermarkMetric_kernel_name :: "watermark_metric \<Rightarrow> string" where
  "WatermarkMetric_kernel_name WmNone = ''none''"
| "WatermarkMetric_kernel_name FreeMemoryRate = ''free_mem_rate''"
| "WatermarkMetric_kernel_name (WmUnknown value) = value"

definition WatermarkMetric_parse :: "string \<Rightarrow> watermark_metric" where
  "WatermarkMetric_parse value =
     (if value = ''none'' then WmNone else if value = ''free_mem_rate'' then FreeMemoryRate
      else WmUnknown value)"

fun known_watermark :: "watermark_metric \<Rightarrow> bool" where
  "known_watermark (WmUnknown _) = False"
| "known_watermark _ = True"

interpretation watermark_enum:
  kernel_enum WatermarkMetric_kernel_name WatermarkMetric_parse known_watermark
proof
  fix s show "WatermarkMetric_kernel_name (WatermarkMetric_parse s) = s"
    by (simp add: WatermarkMetric_parse_def)
next
  fix x assume "known_watermark x"
  then show "WatermarkMetric_parse (WatermarkMetric_kernel_name x) = x"
    by (cases x) (simp_all add: WatermarkMetric_parse_def)
qed

datatype quota_goal_metric =
    UserInput | SomeMemoryPressureMicroseconds
  | NodeMemoryUsedBasisPoints | NodeMemoryFreeBasisPoints
  | NodeMemoryControlGroupUsedBasisPoints | NodeMemoryControlGroupFreeBasisPoints
  | ActiveMemoryBasisPoints | InactiveMemoryBasisPoints
  | NodeEligibleMemoryBasisPoints | HugePageMemoryBasisPoints | QmUnknown string

fun QuotaGoalMetric_kernel_name :: "quota_goal_metric \<Rightarrow> string" where
  "QuotaGoalMetric_kernel_name UserInput = ''user_input''"
| "QuotaGoalMetric_kernel_name SomeMemoryPressureMicroseconds = ''some_mem_psi_us''"
| "QuotaGoalMetric_kernel_name NodeMemoryUsedBasisPoints = ''node_mem_used_bp''"
| "QuotaGoalMetric_kernel_name NodeMemoryFreeBasisPoints = ''node_mem_free_bp''"
| "QuotaGoalMetric_kernel_name NodeMemoryControlGroupUsedBasisPoints = ''node_memcg_used_bp''"
| "QuotaGoalMetric_kernel_name NodeMemoryControlGroupFreeBasisPoints = ''node_memcg_free_bp''"
| "QuotaGoalMetric_kernel_name ActiveMemoryBasisPoints = ''active_mem_bp''"
| "QuotaGoalMetric_kernel_name InactiveMemoryBasisPoints = ''inactive_mem_bp''"
| "QuotaGoalMetric_kernel_name NodeEligibleMemoryBasisPoints = ''node_eligible_mem_bp''"
| "QuotaGoalMetric_kernel_name HugePageMemoryBasisPoints = ''hugepage_mem_bp''"
| "QuotaGoalMetric_kernel_name (QmUnknown value) = value"

definition QuotaGoalMetric_parse :: "string \<Rightarrow> quota_goal_metric" where
  "QuotaGoalMetric_parse value =
     (if value = ''user_input'' then UserInput
      else if value = ''some_mem_psi_us'' then SomeMemoryPressureMicroseconds
      else if value = ''node_mem_used_bp'' then NodeMemoryUsedBasisPoints
      else if value = ''node_mem_free_bp'' then NodeMemoryFreeBasisPoints
      else if value = ''node_memcg_used_bp'' then NodeMemoryControlGroupUsedBasisPoints
      else if value = ''node_memcg_free_bp'' then NodeMemoryControlGroupFreeBasisPoints
      else if value = ''active_mem_bp'' then ActiveMemoryBasisPoints
      else if value = ''inactive_mem_bp'' then InactiveMemoryBasisPoints
      else if value = ''node_eligible_mem_bp'' then NodeEligibleMemoryBasisPoints
      else if value = ''hugepage_mem_bp'' then HugePageMemoryBasisPoints
      else QmUnknown value)"

definition requires_node :: "quota_goal_metric \<Rightarrow> bool" where
  "requires_node m \<longleftrightarrow>
     m \<in> {NodeMemoryUsedBasisPoints, NodeMemoryFreeBasisPoints,
          NodeMemoryControlGroupUsedBasisPoints, NodeMemoryControlGroupFreeBasisPoints,
          NodeEligibleMemoryBasisPoints}"

definition requires_cgroup_path :: "quota_goal_metric \<Rightarrow> bool" where
  "requires_cgroup_path m \<longleftrightarrow>
     m \<in> {NodeMemoryControlGroupUsedBasisPoints, NodeMemoryControlGroupFreeBasisPoints}"

definition uses_basis_points :: "quota_goal_metric \<Rightarrow> bool" where
  "uses_basis_points m \<longleftrightarrow>
     m \<in> {NodeMemoryUsedBasisPoints, NodeMemoryFreeBasisPoints,
          NodeMemoryControlGroupUsedBasisPoints, NodeMemoryControlGroupFreeBasisPoints,
          ActiveMemoryBasisPoints, InactiveMemoryBasisPoints,
          NodeEligibleMemoryBasisPoints, HugePageMemoryBasisPoints}"

fun known_metric :: "quota_goal_metric \<Rightarrow> bool" where
  "known_metric (QmUnknown _) = False"
| "known_metric _ = True"

interpretation metric_enum:
  kernel_enum QuotaGoalMetric_kernel_name QuotaGoalMetric_parse known_metric
proof
  fix s show "QuotaGoalMetric_kernel_name (QuotaGoalMetric_parse s) = s"
    by (simp add: QuotaGoalMetric_parse_def)
next
  fix x assume "known_metric x"
  then show "QuotaGoalMetric_parse (QuotaGoalMetric_kernel_name x) = x"
    by (cases x) (simp_all add: QuotaGoalMetric_parse_def)
qed

datatype quota_goal_tuner = Consistent | Temporal | QtUnknown string

fun QuotaGoalTuner_kernel_name :: "quota_goal_tuner \<Rightarrow> string" where
  "QuotaGoalTuner_kernel_name Consistent = ''consist''"
| "QuotaGoalTuner_kernel_name Temporal = ''temporal''"
| "QuotaGoalTuner_kernel_name (QtUnknown value) = value"

definition QuotaGoalTuner_parse :: "string \<Rightarrow> quota_goal_tuner" where
  "QuotaGoalTuner_parse value =
     (if value = ''consist'' then Consistent else if value = ''temporal'' then Temporal
      else QtUnknown value)"

fun known_tuner :: "quota_goal_tuner \<Rightarrow> bool" where
  "known_tuner (QtUnknown _) = False"
| "known_tuner _ = True"

interpretation tuner_enum:
  kernel_enum QuotaGoalTuner_kernel_name QuotaGoalTuner_parse known_tuner
proof
  fix s show "QuotaGoalTuner_kernel_name (QuotaGoalTuner_parse s) = s"
    by (simp add: QuotaGoalTuner_parse_def)
next
  fix x assume "known_tuner x"
  then show "QuotaGoalTuner_parse (QuotaGoalTuner_kernel_name x) = x"
    by (cases x) (simp_all add: QuotaGoalTuner_parse_def)
qed

section \<open>Ranges and access patterns\<close>

record u64_range =
  range_min :: u64
  range_max :: u64

record u32_range =
  range32_min :: u32
  range32_max :: u32

definition u64_range_new :: "string \<Rightarrow> u64 \<Rightarrow> u64 \<Rightarrow> u64_range result" where
  "u64_range_new field mn mx =
     (if mn > mx then Inl (InvalidConfiguration field ''minimum must not exceed maximum'')
      else Inr \<lparr>range_min = mn, range_max = mx\<rparr>)"

definition u32_range_new :: "string \<Rightarrow> u32 \<Rightarrow> u32 \<Rightarrow> u32_range result" where
  "u32_range_new field mn mx =
     (if mn > mx then Inl (InvalidConfiguration field ''minimum must not exceed maximum'')
      else Inr \<lparr>range32_min = mn, range32_max = mx\<rparr>)"

definition ProbeHitsWeightedSumRange_new :: "u64 \<Rightarrow> u64 \<Rightarrow> u64_range result" where
  "ProbeHitsWeightedSumRange_new = u64_range_new ''probe hits weighted sum range''"

definition ByteSizeRange_new :: "u64 \<Rightarrow> u64 \<Rightarrow> u64_range result" where
  "ByteSizeRange_new = u64_range_new ''byte size range''"

definition RegionSizeRange_new :: "u64 \<Rightarrow> u64 \<Rightarrow> u64_range result" where
  "RegionSizeRange_new = u64_range_new ''region size range''"

definition AccessCountRange_new :: "u32 \<Rightarrow> u32 \<Rightarrow> u32_range result" where
  "AccessCountRange_new = u32_range_new ''access count range''"

definition AgeRange_new :: "u32 \<Rightarrow> u32 \<Rightarrow> u32_range result" where
  "AgeRange_new = u32_range_new ''age range''"

definition RegionSizeRange_min_bytes :: "u64_range \<Rightarrow> address_unit \<Rightarrow> u64 result" where
  "RegionSizeRange_min_bytes r u = to_bytes u (range_min r)"

definition RegionSizeRange_max_bytes :: "u64_range \<Rightarrow> address_unit \<Rightarrow> u64 result" where
  "RegionSizeRange_max_bytes r u = to_bytes u (range_max r)"

lemmas range_new_defs =
  ProbeHitsWeightedSumRange_new_def ByteSizeRange_new_def RegionSizeRange_new_def
  AccessCountRange_new_def AgeRange_new_def

record access_pattern =
  pattern_size :: u64_range
  pattern_accesses :: u32_range
  pattern_age :: u32_range

definition pattern_equivalent :: "access_pattern \<Rightarrow> access_pattern \<Rightarrow> bool" where
  "pattern_equivalent self observed =
     (if self = observed then True
      else range_min (pattern_size self) = range_min (pattern_size observed)
        \<and> range_max (pattern_size self) = u64_max
        \<and> range_max (pattern_size observed) = 4294967295
        \<and> pattern_accesses self = pattern_accesses observed
        \<and> pattern_age self = pattern_age observed)"

definition normalize_kernel_width :: "access_pattern \<Rightarrow> access_pattern \<Rightarrow> access_pattern" where
  "normalize_kernel_width self observed =
     (if pattern_equivalent self observed then self\<lparr>pattern_size := pattern_size observed\<rparr>
      else self)"

lemma u64_range_new_Inr_iff [result_simps]:
  "u64_range_new f a b = Inr r \<longleftrightarrow> r = \<lparr>range_min = a, range_max = b\<rparr> \<and> a \<le> b"
  by (auto simp: u64_range_new_def)

lemma u32_range_new_Inr_iff [result_simps]:
  "u32_range_new f a b = Inr r \<longleftrightarrow> r = \<lparr>range32_min = a, range32_max = b\<rparr> \<and> a \<le> b"
  by (auto simp: u32_range_new_def)

lemma pattern_equivalent_refl [simp]: "pattern_equivalent p p"
  by (simp add: pattern_equivalent_def)

text \<open>Normalising against the observed pattern reaches it exactly when the two are equivalent.\<close>

lemma normalize_kernel_width_eq_iff:
  "normalize_kernel_width p q = q \<longleftrightarrow> pattern_equivalent p q"
proof (cases "pattern_equivalent p q")
  case True
  then show ?thesis
    by (cases p; cases q) (auto simp: normalize_kernel_width_def pattern_equivalent_def
        split: if_splits)
next
  case False
  then have "p \<noteq> q" by auto
  with False show ?thesis by (simp add: normalize_kernel_width_def)
qed

end
