(* ===== verification/Config_Target.thy ===== *)
theory Config_Target
  imports Abi
begin

text \<open>
  \<^verbatim>\<open>src/src/sysfs/configuration/model/target.rs\<close>: initial regions, probes, operation attributes,
  sampling control and targets, with the validation of each; and the helpers of
  \<^verbatim>\<open>src/src/sysfs/configuration/helpers.rs\<close> that check regions against the kernel's alignment.
  The host page size is a parameter of the definitions that use it: the source reads it from
  the operating system.
\<close>

section \<open>Durations of the configuration\<close>

definition exact_micros :: "string \<Rightarrow> duration \<Rightarrow> u64 result" where
  "exact_micros field d =
     (if as_micros d < 2 ^ 64 then
        let micros = of_nat (as_micros d) in
        (if from_micros micros \<noteq> d then
           invalid field ''must be exactly representable in whole microseconds''
         else Inr micros)
      else invalid field ''does not fit in 64-bit microseconds'')"

definition exact_millis :: "string \<Rightarrow> duration \<Rightarrow> u64 result" where
  "exact_millis field d =
     (if as_millis d < 2 ^ 64 then
        let millis = of_nat (as_millis d) in
        (if from_millis millis \<noteq> d then
           invalid field ''must be exactly representable in whole milliseconds''
         else Inr millis)
      else invalid field ''does not fit in 64-bit milliseconds'')"

definition exact_refresh_millis :: "duration \<Rightarrow> u32 result" where
  "exact_refresh_millis d =
     and_then (exact_millis ''refresh interval'' d) (\<lambda>millis.
       if unat millis < 2 ^ 32 then Inr (of_nat (unat millis))
       else invalid ''refresh interval'' ''does not fit the kernel unsigned-int range'')"

lemma exact_micros_Inr_iff [result_simps]:
  "exact_micros field d = Inr us \<longleftrightarrow> d = from_micros us"
proof
  assume "exact_micros field d = Inr us"
  then show "d = from_micros us" by (auto simp: exact_micros_def Let_def split: if_splits)
next
  assume "d = from_micros us"
  then show "exact_micros field d = Inr us"
    using unat_less [of us] by (simp add: exact_micros_def)
qed

lemma exact_millis_Inr_iff [result_simps]:
  "exact_millis field d = Inr ms \<longleftrightarrow> d = from_millis ms"
proof
  assume "exact_millis field d = Inr ms"
  then show "d = from_millis ms" by (auto simp: exact_millis_def Let_def split: if_splits)
next
  assume "d = from_millis ms"
  then show "exact_millis field d = Inr ms"
    using unat_less [of ms] by (simp add: exact_millis_def)
qed

lemma exact_refresh_millis_Inr_iff [result_simps]:
  "exact_refresh_millis d = Inr ms \<longleftrightarrow> d = unat ms * 1000000"
proof
  assume "exact_refresh_millis d = Inr ms"
  then obtain w where w: "d = from_millis w" "unat w < 2 ^ 32" "ms = of_nat (unat w)"
    by (auto simp: exact_refresh_millis_def and_then_Inr_iff exact_millis_Inr_iff
        split: if_splits)
  have "unat (of_nat (unat w) :: u32) = unat w"
    using w(2) by (intro unat_of_nat_small) simp
  then have "unat ms = unat w" using w(3) by simp
  with w(1) show "d = unat ms * 1000000" by (simp add: from_millis_def)
next
  assume d: "d = unat ms * 1000000"
  let ?w = "of_nat (unat ms) :: u64"
  have lt: "unat ms < 2 ^ 32" using unat_less [of ms] by simp
  then have w: "unat ?w = unat ms" by (intro unat_of_nat_small) simp
  then have "exact_millis ''refresh interval'' d = Inr ?w"
    by (simp add: exact_millis_Inr_iff from_millis_def d)
  then show "exact_refresh_millis d = Inr ms"
    using w lt by (simp add: exact_refresh_millis_def)
qed

section \<open>Initial regions\<close>

record initial_region =
  init_start :: u64
  init_end :: u64

definition InitialRegion_new :: "u64 \<Rightarrow> u64 \<Rightarrow> initial_region result" where
  "InitialRegion_new start end' =
     (if start \<ge> end' then
        invalid ''initial region'' ''start must be less than the exclusive end''
      else Inr \<lparr>init_start = start, init_end = end'\<rparr>)"

definition from_byte_range_exact :: "u64 \<Rightarrow> u64 \<Rightarrow> address_unit \<Rightarrow> initial_region result" where
  "from_byte_range_exact start_bytes end_bytes u =
     and_then (units_from_bytes_exact u start_bytes) (\<lambda>s.
     and_then (units_from_bytes_exact u end_bytes) (\<lambda>e.
       InitialRegion_new s e))"

definition from_byte_range_covering :: "u64 \<Rightarrow> u64 \<Rightarrow> address_unit \<Rightarrow> initial_region result" where
  "from_byte_range_covering start_bytes end_bytes u =
     (if start_bytes \<ge> end_bytes then
        invalid ''initial byte region'' ''start must be less than the exclusive end''
      else InitialRegion_new (floor_units u start_bytes) (ceil_units u end_bytes))"

lemma InitialRegion_new_Inr_iff [result_simps]:
  "InitialRegion_new s e = Inr r \<longleftrightarrow> r = \<lparr>init_start = s, init_end = e\<rparr> \<and> s < e"
  by (auto simp: InitialRegion_new_def)

section \<open>Probes\<close>

record probe_filter_config =
  pf_type :: probe_filter_type
  pf_matching :: bool
  pf_allow :: bool
  pf_cgroup_path :: "string option"

definition ProbeFilterConfig_new :: "probe_filter_type \<Rightarrow> bool \<Rightarrow> bool \<Rightarrow> probe_filter_config" where
  "ProbeFilterConfig_new t matching allow =
     \<lparr>pf_type = t, pf_matching = matching, pf_allow = allow, pf_cgroup_path = None\<rparr>"

definition ProbeFilterConfig_memory_control_group ::
    "string \<Rightarrow> bool \<Rightarrow> bool \<Rightarrow> probe_filter_config" where
  "ProbeFilterConfig_memory_control_group p matching allow =
     \<lparr>pf_type = PfMemoryControlGroup, pf_matching = matching, pf_allow = allow,
      pf_cgroup_path = Some p\<rparr>"

definition ProbeFilterConfig_validate :: "probe_filter_config \<Rightarrow> unit result" where
  "ProbeFilterConfig_validate f =
     and_then (validate_token ''probe filter type'' (ProbeFilterType_kernel_name (pf_type f)))
     (\<lambda>_. if pf_type f = PfMemoryControlGroup then
            validate_required_path ''probe filter cgroup path'' (pf_cgroup_path f)
          else
            (case pf_cgroup_path f of
               Some p \<Rightarrow>
                 (case pf_type f of
                    PfUnknown _ \<Rightarrow> validate_sysfs_string ''probe filter cgroup path'' p
                  | _ \<Rightarrow> invalid ''probe filter payload''
                           ''a cgroup path belongs only to a memcg or unknown filter'')
             | None \<Rightarrow> Inr ()))"

record probe_preparation_config =
  prep_action :: probe_preparation_action

definition ProbePreparationConfig_new :: "probe_preparation_action \<Rightarrow> probe_preparation_config" where
  "ProbePreparationConfig_new a = \<lparr>prep_action = a\<rparr>"

definition ProbePreparationConfig_validate :: "probe_preparation_config \<Rightarrow> unit result" where
  "ProbePreparationConfig_validate p =
     validate_token ''probe preparation action''
       (ProbePreparationAction_kernel_name (prep_action p))"

record probe_config =
  probe_filters :: "probe_filter_config list"
  probe_weight :: u32
  probe_preparations :: "probe_preparation_config list"

definition ProbeConfig_validate :: "probe_config \<Rightarrow> unit result" where
  "ProbeConfig_validate p =
     and_then (validate_count ''probe filter count'' (length (probe_filters p))) (\<lambda>_.
     and_then (validate_count ''probe preparation count'' (length (probe_preparations p))) (\<lambda>_.
     and_then (try_each ProbeFilterConfig_validate (probe_filters p)) (\<lambda>_.
       try_each ProbePreparationConfig_validate (probe_preparations p))))"

section \<open>Operation attributes and sampling control\<close>

record operation_attributes =
  oa_use_reports :: bool
  oa_write_only :: bool
  oa_cpus :: string
  oa_thread_ids :: string

definition OperationAttributes_default :: operation_attributes where
  "OperationAttributes_default =
     \<lparr>oa_use_reports = False, oa_write_only = False, oa_cpus = ''all'', oa_thread_ids = []\<rparr>"

definition OperationAttributes_validate :: "operation_attributes \<Rightarrow> unit result" where
  "OperationAttributes_validate a =
     and_then (validate_sysfs_string ''operation CPU list'' (oa_cpus a)) (\<lambda>_.
       validate_sysfs_string ''operation thread list'' (oa_thread_ids a))"

record sample_filter_config =
  sf_type :: sample_filter_type
  sf_matching :: bool
  sf_allow :: bool
  sf_cpu_mask :: "string option"
  sf_thread_ids :: "string option"

definition SampleFilterConfig_new ::
    "sample_filter_type \<Rightarrow> bool \<Rightarrow> bool \<Rightarrow> sample_filter_config" where
  "SampleFilterConfig_new t matching allow =
     \<lparr>sf_type = t, sf_matching = matching, sf_allow = allow,
      sf_cpu_mask = None, sf_thread_ids = None\<rparr>"

definition SampleFilterConfig_cpu_mask :: "string \<Rightarrow> bool \<Rightarrow> bool \<Rightarrow> sample_filter_config" where
  "SampleFilterConfig_cpu_mask value' matching allow =
     (SampleFilterConfig_new CpuMask matching allow)\<lparr>sf_cpu_mask := Some value'\<rparr>"

definition SampleFilterConfig_threads :: "string \<Rightarrow> bool \<Rightarrow> bool \<Rightarrow> sample_filter_config" where
  "SampleFilterConfig_threads value' matching allow =
     (SampleFilterConfig_new Threads matching allow)\<lparr>sf_thread_ids := Some value'\<rparr>"

definition SampleFilterConfig_write :: "bool \<Rightarrow> bool \<Rightarrow> sample_filter_config" where
  "SampleFilterConfig_write matching allow = SampleFilterConfig_new SampleWrite matching allow"

definition validate_optional_string :: "string \<Rightarrow> string option \<Rightarrow> unit result" where
  "validate_optional_string field v =
     (case v of Some s \<Rightarrow> validate_sysfs_string field s | None \<Rightarrow> Inr ())"

definition SampleFilterConfig_validate :: "sample_filter_config \<Rightarrow> unit result" where
  "SampleFilterConfig_validate f =
     and_then (validate_token ''sample filter type'' (SampleFilterType_kernel_name (sf_type f)))
     (\<lambda>_. and_then
       (case sf_type f of
          CpuMask \<Rightarrow>
            and_then (validate_required_path ''sample filter CPU mask'' (sf_cpu_mask f)) (\<lambda>_.
              if sf_thread_ids f \<noteq> None then
                invalid ''sample filter payload''
                  ''a thread list does not belong to a cpumask filter''
              else Inr ())
        | Threads \<Rightarrow>
            and_then (validate_required_path ''sample filter thread list'' (sf_thread_ids f)) (\<lambda>_.
              if sf_cpu_mask f \<noteq> None then
                invalid ''sample filter payload''
                  ''a CPU mask does not belong to a threads filter''
              else Inr ())
        | SampleWrite \<Rightarrow>
            if sf_cpu_mask f \<noteq> None \<or> sf_thread_ids f \<noteq> None then
              invalid ''sample filter payload''
                ''write filters do not accept a CPU mask or thread list''
            else Inr ()
        | SaUnknown _ \<Rightarrow> Inr ())
       (\<lambda>_. and_then (validate_optional_string ''sample filter CPU mask'' (sf_cpu_mask f)) (\<lambda>_.
          validate_optional_string ''sample filter thread list'' (sf_thread_ids f))))"

record sample_primitives =
  sp_page_table :: bool
  sp_page_fault :: bool

definition SamplePrimitives_default :: sample_primitives where
  "SamplePrimitives_default = \<lparr>sp_page_table = True, sp_page_fault = False\<rparr>"

record sample_control =
  sc_primitives :: sample_primitives
  sc_filters :: "sample_filter_config list"

definition SampleControl_default :: sample_control where
  "SampleControl_default = \<lparr>sc_primitives = SamplePrimitives_default, sc_filters = []\<rparr>"

definition SampleControl_validate :: "sample_control \<Rightarrow> unit result" where
  "SampleControl_validate c =
     and_then (validate_count ''sample filter count'' (length (sc_filters c))) (\<lambda>_.
       try_each SampleFilterConfig_validate (sc_filters c))"

section \<open>Targets\<close>

record target_config =
  target_pid :: "pid option"
  target_obsolete :: bool
  target_regions :: "initial_region list"

definition TargetConfig_for_pid :: "pid \<Rightarrow> target_config" where
  "TargetConfig_for_pid p =
     \<lparr>target_pid = Some p, target_obsolete = False, target_regions = []\<rparr>"

definition TargetConfig_address_space :: target_config where
  "TargetConfig_address_space =
     \<lparr>target_pid = None, target_obsolete = False, target_regions = []\<rparr>"

fun validate_regions_from :: "u64 option \<Rightarrow> initial_region list \<Rightarrow> unit result" where
  "validate_regions_from previous_end [] = Inr ()"
| "validate_regions_from previous_end (r # rs) =
     (if init_start r \<ge> init_end r then
        invalid ''initial region'' ''start must be less than the exclusive end''
      else if (case previous_end of None \<Rightarrow> False | Some e \<Rightarrow> e > init_start r) then
        invalid ''initial regions'' ''regions must be sorted and must not overlap''
      else validate_regions_from (Some (init_end r)) rs)"

definition TargetConfig_validate :: "target_config \<Rightarrow> unit result" where
  "TargetConfig_validate t =
     and_then (validate_count ''initial region count'' (length (target_regions t))) (\<lambda>_.
       validate_regions_from None (target_regions t))"

text \<open>The specification: no region is empty and every earlier region ends before a later one.\<close>

definition disjoint_regions :: "initial_region list \<Rightarrow> bool" where
  "disjoint_regions rs \<longleftrightarrow>
     (\<forall>r\<in>set rs. init_start r < init_end r)
     \<and> sorted_wrt (\<lambda>a b. init_end a \<le> init_start b) rs"

lemma disjoint_regions_Nil [simp]: "disjoint_regions []"
  by (simp add: disjoint_regions_def)

lemma disjoint_regions_Cons:
  "disjoint_regions (r # rs) \<longleftrightarrow>
     init_start r < init_end r \<and> disjoint_regions rs
     \<and> (case rs of [] \<Rightarrow> True | s # _ \<Rightarrow> init_end r \<le> init_start s)"
  by (cases rs) (auto simp: disjoint_regions_def)

lemma validate_regions_from_Inr_iff [result_simps]:
  "validate_regions_from p rs = Inr u \<longleftrightarrow>
     disjoint_regions rs
     \<and> (case (p, rs) of (Some e, r # _) \<Rightarrow> e \<le> init_start r | _ \<Rightarrow> True)"
  by (induction p rs rule: validate_regions_from.induct)
    (auto simp: disjoint_regions_Cons not_less not_le split: option.splits list.splits)

lemma TargetConfig_validate_Inr_iff [result_simps]:
  "TargetConfig_validate t = Inr u \<longleftrightarrow>
     length (target_regions t) \<le> KERNEL_INDEX_MAX \<and> disjoint_regions (target_regions t)"
  by (simp add: TargetConfig_validate_def and_then_Inr_iff validate_regions_from_Inr_iff)

section \<open>Address units and kernel alignment\<close>

definition power_of_two :: "u64 \<Rightarrow> bool" where
  "power_of_two w \<longleftrightarrow> (\<exists>n\<in>set [0..<64]. w = 2 ^ n)"

definition validate_address_unit_for_host :: "u64 \<Rightarrow> address_unit \<Rightarrow> unit result" where
  "validate_address_unit_for_host page_size u =
     (if unit_bytes u < page_size \<and> \<not> power_of_two (unit_bytes u) then
        invalid ''address unit'' ''units smaller than the host page size must be a power of two''
      else Inr ())"

definition validate_scaled_initial_regions ::
    "target_config list \<Rightarrow> address_unit \<Rightarrow> unit result" where
  "validate_scaled_initial_regions targets u =
     try_each (\<lambda>r.
         and_then (to_bytes u (init_start r)) (\<lambda>_.
         and_then (to_bytes u (init_end r)) (\<lambda>_. Inr ())))
       (concat (map target_regions targets))"

definition minimum_region_units :: "u64 \<Rightarrow> operation \<Rightarrow> address_unit \<Rightarrow> u64 option" where
  "minimum_region_units page_size op u =
     (case op of
        VirtualAddress \<Rightarrow> Some page_size
      | FixedVirtualAddress \<Rightarrow> Some page_size
      | PhysicalAddress \<Rightarrow> Some (max (page_size div unit_bytes u) 1)
      | UnknownOperation _ \<Rightarrow> None)"

definition align_down :: "u64 \<Rightarrow> u64 \<Rightarrow> u64" where
  "align_down alignment x = x - x mod alignment"

definition align_up :: "u64 \<Rightarrow> u64 \<Rightarrow> u64 option" where
  "align_up alignment x =
     (let remainder = x mod alignment in
      if remainder = 0 then Some x else checked_add x (alignment - remainder))"

fun validate_aligned_from :: "u64 \<Rightarrow> u64 option \<Rightarrow> initial_region list \<Rightarrow> unit result" where
  "validate_aligned_from alignment previous_end [] = Inr ()"
| "validate_aligned_from alignment previous_end (r # rs) =
     (case align_up alignment (init_end r) of
        None \<Rightarrow> invalid ''initial region'' ''end overflows after kernel minimum-region alignment''
      | Some aligned_end \<Rightarrow>
          if (case previous_end of None \<Rightarrow> False
              | Some e \<Rightarrow> e > align_down alignment (init_start r)) then
            invalid ''initial regions'' ''regions overlap after kernel minimum-region alignment''
          else validate_aligned_from alignment (Some aligned_end) rs)"

definition validate_kernel_aligned_initial_regions ::
    "target_config list \<Rightarrow> u64 option \<Rightarrow> unit result" where
  "validate_kernel_aligned_initial_regions targets minimum =
     (case minimum of
        None \<Rightarrow> Inr ()
      | Some alignment \<Rightarrow>
          try_each (\<lambda>t. validate_aligned_from alignment None (target_regions t)) targets)"

text \<open>
  The regions the kernel will build: each start rounded down and each end rounded up, in
  natural numbers, where nothing wraps.
\<close>

definition kernel_start :: "nat \<Rightarrow> initial_region \<Rightarrow> nat" where
  "kernel_start a r = (unat (init_start r) div a) * a"

definition kernel_end :: "nat \<Rightarrow> initial_region \<Rightarrow> nat" where
  "kernel_end a r = ((unat (init_end r) + a - 1) div a) * a"

definition kernel_regions_ok :: "nat \<Rightarrow> initial_region list \<Rightarrow> bool" where
  "kernel_regions_ok a rs \<longleftrightarrow>
     (\<forall>r\<in>set rs. kernel_end a r < 2 ^ 64)
     \<and> successively (\<lambda>r s. kernel_end a r \<le> kernel_start a s) rs"

lemma unat_align_down: "unat (align_down a x) = (unat x div unat a) * unat a"
proof -
  have "x mod a \<le> x"
    using unat_mod_distrib [of x a] by (simp add: word_le_nat_alt)
  then have "unat (align_down a x) = unat x - unat x mod unat a"
    by (simp add: align_down_def unat_sub unat_mod_distrib)
  then show ?thesis by (simp add: minus_mod_eq_div_mult)
qed

lemma round_up_nat:
  fixes x a :: nat
  assumes "0 < a"
  shows "((x + a - 1) div a) * a = (if x mod a = 0 then x else x + (a - x mod a))"
proof (cases "x mod a = 0")
  case True
  then obtain k where k: "x = k * a" by (metis mod_0_imp_dvd dvd_div_mult_self)
  have "(k * a + (a - 1)) div a = k + (a - 1) div a"
    using assms by (subst div_mult_self3) simp_all
  then have "(k * a + a - 1) div a = k" using assms by simp
  with True k show ?thesis by simp
next
  case False
  let ?q = "x div a" and ?m = "x mod a"
  have m: "?m < a" "0 < ?m" using False assms by simp_all
  have x: "x = ?q * a + ?m" by simp
  have "x + a - 1 = (?q + 1) * a + (?m - 1)" using m x by simp
  then have "(x + a - 1) div a = ?q + 1"
    using m assms by (metis One_nat_def add.commute diff_less_Suc div_mult_self3 div_less
        add_0 less_imp_diff_less neq0_conv)
  then have "((x + a - 1) div a) * a = a + ?q * a" by simp
  moreover have "x + (a - ?m) = a + ?q * a" using m x by linarith
  ultimately show ?thesis using False by simp
qed

lemma align_up_Some_iff:
  assumes "a \<noteq> 0"
  shows "align_up a x = Some y \<longleftrightarrow> unat y = ((unat x + unat a - 1) div unat a) * unat a"
proof -
  have a: "0 < unat a" using assms by (simp add: unat_gt_0)
  have le: "unat x mod unat a \<le> unat a" using a by simp
  then have r: "unat (a - x mod a) = unat a - unat x mod unat a"
    by (simp add: unat_sub word_le_nat_alt unat_mod_distrib)
  have z: "x mod a = 0 \<longleftrightarrow> unat x mod unat a = 0" by (rule unat_mod_zero)
  show ?thesis
  proof (cases "unat x mod unat a = 0")
    case True
    then have "align_up a x = Some x" by (simp add: align_up_def Let_def z)
    then show ?thesis using True by (auto simp: round_up_nat [OF a] word_unat_eq_iff simp del: One_nat_def)
  next
    case False
    then have "align_up a x = checked_add x (a - x mod a)"
      by (simp add: align_up_def Let_def z)
    then show ?thesis using False
      by (auto simp: round_up_nat [OF a] checked_add_Some_iff r simp del: One_nat_def)
  qed
qed

lemma align_up_None_iff:
  assumes "a \<noteq> 0"
  shows "align_up a x = None \<longleftrightarrow> 2 ^ 64 \<le> ((unat x + unat a - 1) div unat a) * unat a"
proof
  let ?v = "((unat x + unat a - 1) div unat a) * unat a"
  show "2 ^ 64 \<le> ?v" if "align_up a x = None"
  proof (rule ccontr)
    assume "\<not> 2 ^ 64 \<le> ?v"
    then have "unat (of_nat ?v :: u64) = ?v" by (intro unat_of_nat_small) simp
    then have "align_up a x = Some (of_nat ?v)" using align_up_Some_iff [OF assms] by blast
    with that show False by simp
  qed
  show "align_up a x = None" if v: "2 ^ 64 \<le> ?v"
  proof (cases "align_up a x")
    case (Some y)
    then show ?thesis using v align_up_Some_iff [OF assms] unat_less [of y] by simp
  qed simp
qed

lemma validate_aligned_from_Inr_iff:
  assumes "a \<noteq> 0"
  shows "validate_aligned_from a p rs = Inr u \<longleftrightarrow>
     kernel_regions_ok (unat a) rs
     \<and> (case (p, rs) of (Some e, r # _) \<Rightarrow> unat e \<le> kernel_start (unat a) r | _ \<Rightarrow> True)"
proof (induction rs arbitrary: p)
  case Nil
  then show ?case by (cases p) (simp_all add: kernel_regions_ok_def)
next
  case (Cons r rs)
  have start: "align_down a (init_start r) < e \<longleftrightarrow> \<not> unat e \<le> kernel_start (unat a) r" for e
    by (simp add: word_less_nat_alt unat_align_down kernel_start_def not_le)
  show ?case
  proof (cases "align_up a (init_end r)")
    case None
    then have "2 ^ 64 \<le> kernel_end (unat a) r"
      by (simp add: align_up_None_iff [OF assms] kernel_end_def)
    with None show ?thesis by (simp add: kernel_regions_ok_def)
  next
    case (Some y)
    then have y: "unat y = kernel_end (unat a) r"
      by (simp add: align_up_Some_iff [OF assms] kernel_end_def)
    then have "kernel_end (unat a) r < 2 ^ 64" using unat_less [of y] by simp
    with Some y Cons.IH [of "Some y"] show ?thesis
      by (cases p; cases rs) (auto simp: kernel_regions_ok_def start)
  qed
qed

lemma validate_kernel_aligned_Inr_iff [result_simps]:
  assumes "a \<noteq> 0"
  shows "validate_kernel_aligned_initial_regions ts (Some a) = Inr u \<longleftrightarrow>
     (\<forall>t\<in>set ts. kernel_regions_ok (unat a) (target_regions t))"
  by (simp add: validate_kernel_aligned_initial_regions_def
      validate_aligned_from_Inr_iff [OF assms])

end
