(* ===== verification/Config_Scheme.thy ===== *)
theory Config_Scheme
  imports Config_Target "HOL-Library.Multiset"
begin

text \<open>
  \<^verbatim>\<open>src/src/sysfs/configuration/model/scheme.rs\<close>, with the filter layers, filter placements and
  interval goals of \<^verbatim>\<open>src/src/sysfs/configuration/model.rs\<close> and the filter canonicalisation of
  \<^verbatim>\<open>src/src/sysfs/configuration/helpers.rs\<close>: scheme filters, quotas, watermarks, migration
  destinations and schemes, each with its validation.
\<close>

section \<open>Filter layers and placements\<close>

datatype filter_layer = LayerUnified | LayerCore | LayerOperations

datatype filter_placement = Adaptive | Unified | Core | Operations

fun exact_layer :: "filter_placement \<Rightarrow> filter_layer option" where
  "exact_layer Adaptive = None"
| "exact_layer Unified = Some LayerUnified"
| "exact_layer Core = Some LayerCore"
| "exact_layer Operations = Some LayerOperations"

fun from_layer :: "filter_layer \<Rightarrow> filter_placement" where
  "from_layer LayerUnified = Unified"
| "from_layer LayerCore = Core"
| "from_layer LayerOperations = Operations"

fun layer_directory :: "filter_layer \<Rightarrow> string" where
  "layer_directory LayerUnified = ''filters''"
| "layer_directory LayerCore = ''core_filters''"
| "layer_directory LayerOperations = ''ops_filters''"

lemma exact_layer_from_layer [simp]: "exact_layer (from_layer l) = Some l"
  by (cases l) simp_all

section \<open>Interval goals\<close>

record intervals_goal =
  goal_access_bp :: u64
  goal_aggregations :: u64
  goal_min_sample :: duration
  goal_max_sample :: duration

definition IntervalsGoal_default :: intervals_goal where
  "IntervalsGoal_default =
     \<lparr>goal_access_bp = 0, goal_aggregations = 0, goal_min_sample = 0, goal_max_sample = 0\<rparr>"

definition IntervalsGoal_values :: "intervals_goal \<Rightarrow> (u64 \<times> u64 \<times> u64 \<times> u64) result" where
  "IntervalsGoal_values g =
     and_then (exact_micros ''minimum sample interval'' (goal_min_sample g)) (\<lambda>minimum.
     and_then (exact_micros ''maximum sample interval'' (goal_max_sample g)) (\<lambda>maximum.
       Inr (goal_access_bp g, goal_aggregations g, minimum, maximum)))"

definition IntervalsGoal_validate_for ::
    "intervals_goal \<Rightarrow> monitoring_intervals \<Rightarrow> unit result" where
  "IntervalsGoal_validate_for g intervals =
     and_then (IntervalsGoal_values g) (\<lambda>(access_bp, aggregations, minimum, maximum).
       if aggregations = 0 then Inr ()
       else if access_bp > 10000 then
         invalid ''monitoring intervals goal access rate'' ''must be at most 10000 basis points''
       else if minimum > maximum then
         invalid ''monitoring intervals goal''
           ''minimum sample interval must not exceed maximum''
       else
         let sample = as_micros (intervals_sample intervals) in
         if sample < unat minimum \<or> sample > unat maximum then
           invalid ''monitoring intervals goal''
             ''current sample interval must be within the tuning range''
         else Inr ())"

section \<open>Scheme filters\<close>

datatype filter_payload =
    PayloadNone | PayloadCgroupPath | PayloadAddressRange | PayloadSizeRange
  | PayloadTargetIndex | PayloadWeightedSumRange

record filter_config =
  f_placement :: filter_placement
  f_type :: scheme_filter_type
  f_matching :: bool
  f_allow :: bool
  f_cgroup_path :: "string option"
  f_address_range :: "(u64 \<times> u64) option"
  f_size_range :: "u64_range option"
  f_target_index :: "usize option"
  f_wsum_range :: "u64_range option"

definition FilterConfig_new :: "scheme_filter_type \<Rightarrow> bool \<Rightarrow> bool \<Rightarrow> filter_config" where
  "FilterConfig_new t matching allow =
     \<lparr>f_placement = Adaptive, f_type = t, f_matching = matching, f_allow = allow,
      f_cgroup_path = None, f_address_range = None, f_size_range = None,
      f_target_index = None, f_wsum_range = None\<rparr>"

definition FilterConfig_address :: "u64 \<Rightarrow> u64 \<Rightarrow> bool \<Rightarrow> bool \<Rightarrow> filter_config" where
  "FilterConfig_address first end' matching allow =
     (FilterConfig_new SfAddress matching allow)\<lparr>f_address_range := Some (first, end')\<rparr>"

definition FilterConfig_memory_control_group :: "string \<Rightarrow> bool \<Rightarrow> bool \<Rightarrow> filter_config" where
  "FilterConfig_memory_control_group p matching allow =
     (FilterConfig_new SfMemoryControlGroup matching allow)\<lparr>f_cgroup_path := Some p\<rparr>"

definition FilterConfig_huge_page_size :: "u64_range \<Rightarrow> bool \<Rightarrow> bool \<Rightarrow> filter_config" where
  "FilterConfig_huge_page_size r matching allow =
     (FilterConfig_new SfHugePageSize matching allow)\<lparr>f_size_range := Some r\<rparr>"

definition FilterConfig_target :: "usize \<Rightarrow> bool \<Rightarrow> bool \<Rightarrow> filter_config" where
  "FilterConfig_target index matching allow =
     (FilterConfig_new SfTarget matching allow)\<lparr>f_target_index := Some index\<rparr>"

definition FilterConfig_probe_hits_weighted_sum :: "u64_range \<Rightarrow> bool \<Rightarrow> bool \<Rightarrow> filter_config" where
  "FilterConfig_probe_hits_weighted_sum r matching allow =
     (FilterConfig_new SfProbeHitsWeightedSum matching allow)\<lparr>f_wsum_range := Some r\<rparr>"

definition validate_payload_fields :: "filter_config \<Rightarrow> filter_payload \<Rightarrow> unit result" where
  "validate_payload_fields f payload =
     (if (payload \<noteq> PayloadCgroupPath \<and> f_cgroup_path f \<noteq> None)
         \<or> (payload \<noteq> PayloadAddressRange \<and> f_address_range f \<noteq> None)
         \<or> (payload \<noteq> PayloadSizeRange \<and> f_size_range f \<noteq> None)
         \<or> (payload \<noteq> PayloadTargetIndex \<and> f_target_index f \<noteq> None)
         \<or> (payload \<noteq> PayloadWeightedSumRange \<and> f_wsum_range f \<noteq> None) then
        invalid ''scheme filter payload''
          ''contains data that does not belong to the selected filter type''
      else Inr ())"

definition validate_filter_payload :: "filter_config \<Rightarrow> unit result" where
  "validate_filter_payload f =
     (case f_type f of
        SfMemoryControlGroup \<Rightarrow> validate_payload_fields f PayloadCgroupPath
      | SfAddress \<Rightarrow> validate_payload_fields f PayloadAddressRange
      | SfHugePageSize \<Rightarrow> validate_payload_fields f PayloadSizeRange
      | SfTarget \<Rightarrow> validate_payload_fields f PayloadTargetIndex
      | SfProbeHitsWeightedSum \<Rightarrow> validate_payload_fields f PayloadWeightedSumRange
      | SfUnknown _ \<Rightarrow>
          if f_wsum_range f \<noteq> None then
            invalid ''scheme filter payload''
              ''a weighted-sum range requires the probe_hits_wsum filter type''
          else Inr ()
      | _ \<Rightarrow> validate_payload_fields f PayloadNone)"

definition validate_filter_required :: "filter_config \<Rightarrow> usize \<Rightarrow> unit result" where
  "validate_filter_required f target_count =
     (case f_type f of
        SfMemoryControlGroup \<Rightarrow>
          validate_required_path ''scheme filter cgroup path'' (f_cgroup_path f)
      | SfAddress \<Rightarrow>
          (case f_address_range f of
             None \<Rightarrow> invalid ''scheme address filter'' ''requires an address range''
           | Some (start, end') \<Rightarrow>
               if start > end' then
                 invalid ''scheme address filter''
                   ''start must not exceed the exclusive end boundary''
               else Inr ())
      | SfHugePageSize \<Rightarrow>
          if f_size_range f = None then
            invalid ''huge-page-size filter'' ''requires a size range''
          else Inr ()
      | SfTarget \<Rightarrow>
          (case f_target_index f of
             None \<Rightarrow> invalid ''target filter'' ''requires a target index''
           | Some index \<Rightarrow>
               and_then (validate_count ''target filter index'' index) (\<lambda>_.
                 if index \<ge> target_count then
                   invalid ''target filter index'' ''must refer to a configured target''
                 else Inr ()))
      | SfProbeHitsWeightedSum \<Rightarrow>
          if f_wsum_range f = None then
            invalid ''probe hits weighted sum filter'' ''requires a weighted-sum range''
          else Inr ()
      | _ \<Rightarrow> Inr ())"

definition FilterConfig_validate_in_layer ::
    "filter_config \<Rightarrow> filter_layer \<Rightarrow> usize \<Rightarrow> unit result" where
  "FilterConfig_validate_in_layer f layer target_count =
     and_then (validate_token ''scheme filter type'' (SchemeFilterType_kernel_name (f_type f)))
     (\<lambda>_. and_then
       (if layer = LayerCore \<and> handled_by_operations (f_type f) = Some True then
          invalid ''scheme filter layer''
            ''operations-handled filter cannot be staged in core_filters''
        else if layer = LayerOperations \<and> handled_by_operations (f_type f) = Some False then
          invalid ''scheme filter layer''
            ''core-handled filter cannot be staged in ops_filters''
        else Inr ())
     (\<lambda>_. and_then (validate_filter_payload f)
     (\<lambda>_. and_then (validate_filter_required f target_count)
     (\<lambda>_. and_then (validate_optional_string ''scheme filter cgroup path'' (f_cgroup_path f))
     (\<lambda>_. case f_target_index f of
            Some index \<Rightarrow> validate_count ''target filter index'' index
          | None \<Rightarrow> Inr ())))))"

definition FilterConfig_validate_for ::
    "filter_config \<Rightarrow> filter_layer \<Rightarrow> usize \<Rightarrow> unit result" where
  "FilterConfig_validate_for f layer target_count =
     (if (case exact_layer (f_placement f) of None \<Rightarrow> False | Some l \<Rightarrow> l \<noteq> layer) then
        invalid ''scheme filter placement''
          ''does not match the directory layer selected for validation''
      else FilterConfig_validate_in_layer f layer target_count)"

definition FilterConfig_validate :: "filter_config \<Rightarrow> usize \<Rightarrow> unit result" where
  "FilterConfig_validate f target_count =
     FilterConfig_validate_in_layer f
       (case exact_layer (f_placement f) of None \<Rightarrow> LayerUnified | Some l \<Rightarrow> l) target_count"

section \<open>Quotas and watermarks\<close>

record quota_weights =
  qw_size :: u32
  qw_accesses :: u32
  qw_age :: u32

record quota_goal_config =
  qg_metric :: quota_goal_metric
  qg_target :: u64
  qg_current :: u64
  qg_node :: "i32 option"
  qg_cgroup_path :: "string option"

definition QuotaGoalConfig_new :: "quota_goal_metric \<Rightarrow> u64 \<Rightarrow> quota_goal_config" where
  "QuotaGoalConfig_new metric target =
     \<lparr>qg_metric = metric, qg_target = target, qg_current = 0, qg_node = None, qg_cgroup_path = None\<rparr>"

definition QuotaGoalConfig_validate :: "quota_goal_config \<Rightarrow> unit result" where
  "QuotaGoalConfig_validate g =
     and_then (validate_token ''quota goal metric'' (QuotaGoalMetric_kernel_name (qg_metric g)))
     (\<lambda>_. let enabled = qg_target g \<noteq> 0 in
       if enabled \<and> uses_basis_points (qg_metric g) \<and> qg_target g > 10000 then
         invalid ''quota goal target value'' ''basis-point metrics must not exceed 10000''
       else if enabled \<and> requires_node (qg_metric g) \<and> qg_node g = None then
         invalid ''quota goal node'' ''is required by the selected metric''
       else if (case qg_node g of None \<Rightarrow> False | Some node \<Rightarrow> node < 0) then
         invalid ''quota goal node'' ''must be non-negative''
       else if enabled \<and> requires_cgroup_path (qg_metric g) then
         validate_required_path ''quota goal cgroup path'' (qg_cgroup_path g)
       else validate_optional_string ''quota goal cgroup path'' (qg_cgroup_path g))"

record quota_config =
  q_time :: duration
  q_size :: u64
  q_reset :: duration
  q_weights :: quota_weights
  q_goals :: "quota_goal_config list"
  q_tuner :: quota_goal_tuner
  q_fail_num :: u32
  q_fail_den :: u32

definition QuotaConfig_default :: quota_config where
  "QuotaConfig_default =
     \<lparr>q_time = 0, q_size = 0, q_reset = 0,
      q_weights = \<lparr>qw_size = 0, qw_accesses = 0, qw_age = 0\<rparr>, q_goals = [],
      q_tuner = Consistent, q_fail_num = 0, q_fail_den = 0\<rparr>"

definition QuotaConfig_validate :: "quota_config \<Rightarrow> unit result" where
  "QuotaConfig_validate q =
     and_then (exact_millis ''quota time'' (q_time q)) (\<lambda>_.
     and_then (exact_millis ''quota reset interval'' (q_reset q)) (\<lambda>_.
     if qw_size (q_weights q) > 1000 \<or> qw_accesses (q_weights q) > 1000
        \<or> qw_age (q_weights q) > 1000 then
       invalid ''quota prioritization weights''
         ''each weight must be at most 1000 parts per thousand''
     else
       and_then (validate_count ''quota goal count'' (length (q_goals q))) (\<lambda>_.
       and_then (try_each QuotaGoalConfig_validate (q_goals q)) (\<lambda>_.
       let has_active_goal = (\<exists>g\<in>set (q_goals q). qg_target g \<noteq> 0) in
       if (q_time q \<noteq> 0 \<or> q_size q \<noteq> 0 \<or> has_active_goal) \<and> q_reset q = 0 then
         invalid ''quota reset interval''
           ''must be non-zero when a time, size, or goal quota is enabled''
       else validate_token ''quota goal tuner'' (QuotaGoalTuner_kernel_name (q_tuner q))))))"

record watermarks_config =
  wm_metric :: watermark_metric
  wm_interval :: duration
  wm_high :: u64
  wm_middle :: u64
  wm_low :: u64

definition WatermarksConfig_default :: watermarks_config where
  "WatermarksConfig_default =
     \<lparr>wm_metric = WmNone, wm_interval = 0, wm_high = 0, wm_middle = 0, wm_low = 0\<rparr>"

definition WatermarksConfig_validate :: "watermarks_config \<Rightarrow> unit result" where
  "WatermarksConfig_validate w =
     and_then (validate_token ''watermark metric'' (WatermarkMetric_kernel_name (wm_metric w)))
     (\<lambda>_. and_then (exact_micros ''watermark interval'' (wm_interval w))
     (\<lambda>_. if wm_metric w = FreeMemoryRate then
            if wm_interval w = 0 then
              invalid ''watermark interval''
                ''must be non-zero when free-memory watermarks are enabled''
            else if wm_high w > 1000 \<or> wm_middle w > 1000 \<or> wm_low w > 1000 then
              invalid ''free-memory watermarks''
                ''values must be at most 1000 parts per thousand''
            else if wm_high w < wm_middle w \<or> wm_middle w < wm_low w then
              invalid ''watermarks'' ''values must be ordered high >= middle >= low''
            else Inr ()
          else Inr ()))"

section \<open>Schemes\<close>

record destination_config =
  dest_node :: u32
  dest_weight :: u32

definition DestinationConfig_new :: "u32 \<Rightarrow> u32 \<Rightarrow> destination_config" where
  "DestinationConfig_new node weight = \<lparr>dest_node = node, dest_weight = weight\<rparr>"

record scheme_config =
  s_action :: action
  s_pattern :: access_pattern
  s_apply_interval :: duration
  s_target_node :: "i32 option"
  s_quota :: quota_config
  s_watermarks :: watermarks_config
  s_filters :: "filter_config list"
  s_destinations :: "destination_config list"
  s_snapshot_limit :: u64

definition SchemeConfig_new :: "action \<Rightarrow> access_pattern \<Rightarrow> scheme_config" where
  "SchemeConfig_new a pattern =
     \<lparr>s_action = a, s_pattern = pattern, s_apply_interval = 0, s_target_node = None,
      s_quota = QuotaConfig_default, s_watermarks = WatermarksConfig_default,
      s_filters = [], s_destinations = [], s_snapshot_limit = 0\<rparr>"

fun total_weight_from :: "u32 \<Rightarrow> destination_config list \<Rightarrow> u32 result" where
  "total_weight_from acc [] = Inr acc"
| "total_weight_from acc (d # ds) =
     (if unat (dest_node d) > 2147483647 then
        invalid ''migration destination node''
          ''must fit the kernel's signed NUMA node identifier''
      else
        case checked_add acc (dest_weight d) of
          None \<Rightarrow> invalid ''migration destination weights''
                    ''sum must fit the kernel's unsigned-int accumulator''
        | Some acc' \<Rightarrow> total_weight_from acc' ds)"

definition SchemeConfig_validate_for :: "scheme_config \<Rightarrow> usize \<Rightarrow> unit result" where
  "SchemeConfig_validate_for s target_count =
     and_then (validate_token ''scheme action'' (Action_kernel_name (s_action s))) (\<lambda>_.
     and_then (exact_micros ''scheme apply interval'' (s_apply_interval s)) (\<lambda>_.
     and_then (QuotaConfig_validate (s_quota s)) (\<lambda>_.
     and_then (WatermarksConfig_validate (s_watermarks s)) (\<lambda>_.
     and_then (validate_count ''scheme filter count'' (length (s_filters s))) (\<lambda>_.
     and_then (try_each (\<lambda>f. FilterConfig_validate f target_count) (s_filters s)) (\<lambda>_.
     and_then (validate_count ''migration destination count'' (length (s_destinations s))) (\<lambda>_.
     and_then (total_weight_from 0 (s_destinations s)) (\<lambda>total_weight.
       if s_destinations s \<noteq> [] \<and> total_weight = 0 then
         invalid ''migration destination weights''
           ''at least one destination must have non-zero weight''
       else if (case s_target_node s of None \<Rightarrow> False | Some node \<Rightarrow> node < 0) then
         invalid ''migration target node'' ''must be non-negative, or None for NUMA_NO_NODE''
       else Inr ()))))))))"

definition is_unknown_action :: "action \<Rightarrow> bool" where
  "is_unknown_action a = (case a of UnknownAction _ \<Rightarrow> True | _ \<Rightarrow> False)"

definition known_supported :: "operation \<Rightarrow> action \<Rightarrow> bool" where
  "known_supported op a =
     (case op of
        UnknownOperation _ \<Rightarrow> True
      | PhysicalAddress \<Rightarrow>
          a \<in> {PageOut, LruPrioritize, LruDeprioritize, MigrateHot, MigrateCold, DamosAllocate,
               DamosFree, Stat} \<or> is_unknown_action a
      | _ \<Rightarrow>
          a \<in> {WillNeed, Cold, PageOut, HugePage, NoHugePage, Collapse, MigrateHot, MigrateCold,
               Stat} \<or> is_unknown_action a)"

definition SchemeConfig_validate_runnable_for ::
    "scheme_config \<Rightarrow> operation \<Rightarrow> usize \<Rightarrow> unit result" where
  "SchemeConfig_validate_runnable_for s op target_count =
     and_then (SchemeConfig_validate_for s target_count) (\<lambda>_.
       if \<not> known_supported op (s_action s) then
         invalid ''scheme action'' ''is not supported by the selected monitoring operation''
       else if s_action s \<notin> {MigrateHot, MigrateCold}
               \<and> (s_target_node s \<noteq> None \<or> s_destinations s \<noteq> []) then
         invalid ''migration destination''
           ''requires a migrate_hot or migrate_cold scheme action''
       else if (case op of PhysicalAddress \<Rightarrow> False | UnknownOperation _ \<Rightarrow> False | _ \<Rightarrow> True)
               \<and> (\<exists>g\<in>set (q_goals (s_quota s)). qg_metric g = NodeEligibleMemoryBasisPoints)
       then
         invalid ''quota goal metric''
           ''node_eligible_mem_bp requires physical-address monitoring''
       else Inr ())"

lemma total_weight_from_Inr_iff [result_simps]:
  "total_weight_from acc ds = Inr w \<longleftrightarrow>
     (\<forall>d\<in>set ds. unat (dest_node d) \<le> 2147483647)
     \<and> unat w = unat acc + sum_list (map (\<lambda>d. unat (dest_weight d)) ds)"
proof (induction acc ds rule: total_weight_from.induct)
  case (1 acc)
  then show ?case by (auto simp: word_unat_eq_iff)
next
  case (2 acc d ds)
  show ?case
  proof (cases "checked_add acc (dest_weight d)")
    case None
    then have "2 ^ 32 \<le> unat acc + unat (dest_weight d)"
      by (simp add: checked_add_None_iff)
    moreover have "unat w < 2 ^ 32" using unat_less [of w] by simp
    ultimately have "unat w \<noteq> unat acc + (unat (dest_weight d) + n)" for n
      by linarith
    with None show ?thesis by (simp add: add.assoc)
  next
    case (Some acc')
    then have "unat acc' = unat acc + unat (dest_weight d)"
      by (simp add: checked_add_Some_iff)
    with Some 2 show ?thesis by (auto simp: not_le not_less)
  qed
qed

section \<open>Filter placements as the kernel reports them\<close>

definition is_split :: "filter_config list \<Rightarrow> bool" where
  "is_split observed \<longleftrightarrow> (\<exists>f\<in>set observed. f_placement f \<in> {Core, Operations})"

definition resolve_placement :: "bool \<Rightarrow> filter_config \<Rightarrow> filter_config" where
  "resolve_placement split f =
     (if f_placement f = Adaptive then
        f\<lparr>f_placement :=
          (if split then
             if handled_by_operations (f_type f) = Some False then Core else Operations
           else Unified)\<rparr>
      else f)"

fun placement_key :: "filter_placement \<Rightarrow> nat" where
  "placement_key Core = 0"
| "placement_key Operations = 1"
| "placement_key Unified = 2"
| "placement_key Adaptive = 3"

definition canonicalize_filter_placements ::
    "filter_config list \<Rightarrow> filter_config list \<Rightarrow> filter_config list" where
  "canonicalize_filter_placements filters observed =
     (let split = is_split observed; resolved = map (resolve_placement split) filters in
      if split then sort_key (\<lambda>f. placement_key (f_placement f)) resolved else resolved)"

definition semantic_filters_match :: "filter_config list \<Rightarrow> filter_config list \<Rightarrow> bool" where
  "semantic_filters_match requested observed =
     (if requested = observed then True
      else canonicalize_filter_placements requested observed = observed)"

text \<open>
  The order in which a kernel with split directories reads filters back: all of
  \<open>core_filters\<close>, then all of \<open>ops_filters\<close>, then the unified directory.
\<close>

definition in_directory_order :: "filter_config list \<Rightarrow> filter_config list" where
  "in_directory_order fs =
     filter (\<lambda>f. f_placement f = Core) fs
     @ filter (\<lambda>f. f_placement f = Operations) fs
     @ filter (\<lambda>f. f_placement f = Unified) fs"

lemma resolve_not_adaptive [simp]: "f_placement (resolve_placement split f) \<noteq> Adaptive"
  by (simp add: resolve_placement_def)

lemma resolve_idem [simp]: "resolve_placement s (resolve_placement t f) = resolve_placement t f"
  by (simp add: resolve_placement_def [of s])

lemma resolve_fixed: "f_placement f \<noteq> Adaptive \<Longrightarrow> resolve_placement split f = f"
  by (simp add: resolve_placement_def)

lemma sort_key_three:
  fixes k :: "'a \<Rightarrow> nat"
  assumes "\<forall>x\<in>set xs. k x < 3"
  shows "sort_key k xs =
    filter (\<lambda>x. k x = 0) xs @ filter (\<lambda>x. k x = 1) xs @ filter (\<lambda>x. k x = 2) xs"
proof (rule properties_for_sort_key)
  show "mset (filter (\<lambda>x. k x = 0) xs @ filter (\<lambda>x. k x = 1) xs @ filter (\<lambda>x. k x = 2) xs)
      = mset xs"
    using assms by (induction xs) (auto simp: numeral_3_eq_3 less_Suc_eq)
  have pick: "filter (\<lambda>y. i = k y) (filter (\<lambda>x. k x = j) xs) =
      (if i = j then filter (\<lambda>x. k x = j) xs else [])" for i j
    by (induction xs) auto
  show "filter (\<lambda>y. k x = k y)
        (filter (\<lambda>x. k x = 0) xs @ filter (\<lambda>x. k x = 1) xs @ filter (\<lambda>x. k x = 2) xs)
      = filter (\<lambda>y. k x = k y) xs"
    if "x \<in> set (filter (\<lambda>x. k x = 0) xs @ filter (\<lambda>x. k x = 1) xs @ filter (\<lambda>x. k x = 2) xs)"
    for x
    using that by (auto simp: pick simp del: filter_filter One_nat_def intro: filter_cong)
  show "sorted (map k
      (filter (\<lambda>x. k x = 0) xs @ filter (\<lambda>x. k x = 1) xs @ filter (\<lambda>x. k x = 2) xs))"
    using sorted_map_same [of k "\<lambda>_. 0" xs] sorted_map_same [of k "\<lambda>_. 1" xs]
      sorted_map_same [of k "\<lambda>_. 2" xs]
    by (auto simp: sorted_append)
qed

lemma placement_key_inject [simp]: "placement_key p = placement_key q \<longleftrightarrow> p = q"
  by (cases p; cases q) simp_all

lemma placement_key_eqs:
  "placement_key p = 0 \<longleftrightarrow> p = Core" "placement_key p = Suc 0 \<longleftrightarrow> p = Operations"
  "placement_key p = 2 \<longleftrightarrow> p = Unified"
  by (cases p; simp)+

lemma canonicalize_split:
  assumes "is_split observed"
  shows "canonicalize_filter_placements fs observed =
    in_directory_order (map (resolve_placement True) fs)"
proof -
  have "placement_key (f_placement (resolve_placement True f)) < 3" for f
    by (cases "f_placement (resolve_placement True f)") (use resolve_not_adaptive in auto)
  then have "\<forall>f\<in>set (map (resolve_placement True) fs). placement_key (f_placement f) < 3"
    by auto
  from sort_key_three [OF this] show ?thesis using assms
    by (simp add: canonicalize_filter_placements_def in_directory_order_def placement_key_eqs
        cong: filter_cong)
qed

lemma canonicalize_unsplit:
  "\<not> is_split observed \<Longrightarrow>
     canonicalize_filter_placements fs observed = map (resolve_placement False) fs"
  by (simp add: canonicalize_filter_placements_def)

lemma in_directory_order_idem:
  "in_directory_order (in_directory_order fs) = in_directory_order fs"
  by (simp add: in_directory_order_def filter_filter conj_commute cong: conj_cong)

lemma canonicalize_no_adaptive:
  "f \<in> set (canonicalize_filter_placements fs observed) \<Longrightarrow> f_placement f \<noteq> Adaptive"
  by (cases "is_split observed")
    (auto simp: canonicalize_split canonicalize_unsplit in_directory_order_def)

lemma map_resolve_fixed:
  "\<forall>f\<in>set fs. f_placement f \<noteq> Adaptive \<Longrightarrow> map (resolve_placement s) fs = fs"
  by (simp add: map_idI resolve_fixed)

lemma canonicalize_idem:
  "canonicalize_filter_placements (canonicalize_filter_placements fs observed) observed
     = canonicalize_filter_placements fs observed"
proof (cases "is_split observed")
  case True
  then have "map (resolve_placement True) (canonicalize_filter_placements fs observed)
      = canonicalize_filter_placements fs observed"
    using canonicalize_no_adaptive by (intro map_resolve_fixed) blast
  with True show ?thesis by (simp add: canonicalize_split in_directory_order_idem)
next
  case False
  then show ?thesis by (simp add: canonicalize_unsplit comp_def)
qed

end
