(* ===== verification/Config_Context.thy ===== *)
theory Config_Context
  imports Config_Scheme
begin

text \<open>
  \<^verbatim>\<open>src/src/sysfs/configuration/model/context.rs\<close> and
  \<^verbatim>\<open>src/src/sysfs/configuration/model/hierarchy.rs\<close>: contexts, kdamonds and the whole hierarchy,
  their validation for staging, for starting and for a running update, and the comparison of
  an observed hierarchy with the requested one.
\<close>

section \<open>Contexts\<close>

record context_config =
  c_operation :: operation
  c_unit :: address_unit
  c_paused :: bool
  c_attributes :: operation_attributes
  c_intervals :: monitoring_intervals
  c_intervals_goal :: intervals_goal
  c_bounds :: region_bounds
  c_probes :: "probe_config list"
  c_sample_control :: sample_control
  c_targets :: "target_config list"
  c_schemes :: "scheme_config list"

definition ContextConfig_new :: "operation \<Rightarrow> context_config" where
  "ContextConfig_new op =
     \<lparr>c_operation = op, c_unit = AddressUnit_ONE, c_paused = False,
      c_attributes = OperationAttributes_default, c_intervals = MonitoringIntervals_default,
      c_intervals_goal = IntervalsGoal_default, c_bounds = RegionBounds_default,
      c_probes = [], c_sample_control = SampleControl_default, c_targets = [], c_schemes = []\<rparr>"

definition validate_operation_unit :: "u64 \<Rightarrow> context_config \<Rightarrow> unit result" where
  "validate_operation_unit page_size c =
     (case c_operation c of
        PhysicalAddress \<Rightarrow>
          and_then (validate_address_unit_for_host page_size (c_unit c)) (\<lambda>_.
            validate_scaled_initial_regions (c_targets c) (c_unit c))
      | UnknownOperation _ \<Rightarrow> Inr ()
      | _ \<Rightarrow>
          if c_unit c \<noteq> AddressUnit_ONE then
            invalid ''address unit''
              ''only physical-address monitoring supports non-one units''
          else Inr ())"

definition ContextConfig_validate :: "u64 \<Rightarrow> context_config \<Rightarrow> unit result" where
  "ContextConfig_validate page_size c =
     and_then (validate_token ''monitoring operation'' (Operation_kernel_name (c_operation c))) (\<lambda>_.
     and_then (validate_count ''target count'' (length (c_targets c))) (\<lambda>_.
     and_then (validate_count ''scheme count'' (length (c_schemes c))) (\<lambda>_.
     and_then (IntervalsGoal_validate_for (c_intervals_goal c) (c_intervals c)) (\<lambda>_.
     and_then (OperationAttributes_validate (c_attributes c)) (\<lambda>_.
     and_then (SampleControl_validate (c_sample_control c)) (\<lambda>_.
     and_then (validate_count ''monitoring probe count'' (length (c_probes c))) (\<lambda>_.
     and_then (try_each ProbeConfig_validate (c_probes c)) (\<lambda>_.
     and_then (try_each TargetConfig_validate (c_targets c)) (\<lambda>_.
     and_then (validate_operation_unit page_size c) (\<lambda>_.
     and_then (validate_kernel_aligned_initial_regions (c_targets c)
                 (minimum_region_units page_size (c_operation c) (c_unit c))) (\<lambda>_.
       try_each (\<lambda>s. SchemeConfig_validate_for s (length (c_targets c))) (c_schemes c))))))))))))"

definition retained_targets :: "context_config \<Rightarrow> target_config list" where
  "retained_targets c = filter (\<lambda>t. \<not> target_obsolete t) (c_targets c)"

definition validate_runnable_sample_control :: "context_config \<Rightarrow> unit result" where
  "validate_runnable_sample_control c =
     (let primitives = sc_primitives (c_sample_control c) in
      if sp_page_table primitives = sp_page_fault primitives then
        invalid ''sample primitives''
          ''exactly one of page-table and page-fault sampling must be enabled''
      else if sp_page_fault primitives
              \<and> c_operation c \<in> {VirtualAddress, FixedVirtualAddress} then
        invalid ''page-fault sampling'' ''is supported only for physical-address monitoring''
      else if sc_filters (c_sample_control c) \<noteq> [] \<and> \<not> sp_page_fault primitives then
        invalid ''sample filters'' ''require page-fault sampling to have an effect''
      else Inr ())"

text \<open>\<open>validate_weighted_probes\<close>: the intervals are divided in 128 bits, the sum runs in 32.\<close>

fun weighted_total :: "u32 \<Rightarrow> u32 \<Rightarrow> probe_config list \<Rightarrow> u32 result" where
  "weighted_total maximum_hits acc [] = Inr acc"
| "weighted_total maximum_hits acc (p # ps) =
     (case checked_mul (probe_weight p) maximum_hits of
        None \<Rightarrow> invalid ''weighted monitoring probes''
                  ''each weight multiplied by maximum hits must fit u32''
      | Some weighted_hits \<Rightarrow>
          (case checked_add acc weighted_hits of
             None \<Rightarrow> invalid ''weighted monitoring probes''
                       ''sum of weighted maximum hits must fit u32''
           | Some acc' \<Rightarrow> weighted_total maximum_hits acc' ps))"

definition maximum_hits :: "monitoring_intervals \<Rightarrow> nat" where
  "maximum_hits i =
     (let sample_us = max (as_micros (intervals_sample i)) 1;
          aggregation_us = as_micros (intervals_aggregation i)
      in min (max (aggregation_us div sample_us) 1) (2 ^ 32 - 1))"

definition validate_weighted_probes :: "context_config \<Rightarrow> unit result" where
  "validate_weighted_probes c =
     (if \<forall>p\<in>set (c_probes c). probe_weight p = 0 then Inr ()
      else if maximum_hits (c_intervals c) > 255 then
        invalid ''weighted monitoring probes''
          ''samples per aggregation interval must fit an 8-bit hit count''
      else
        and_then (weighted_total (of_nat (maximum_hits (c_intervals c))) 0 (c_probes c))
          (\<lambda>_. Inr ()))"

definition validate_runnable_targets :: "context_config \<Rightarrow> unit result" where
  "validate_runnable_targets c =
     (case c_operation c of
        VirtualAddress \<Rightarrow>
          if \<exists>t\<in>set (retained_targets c). target_pid t = None then
            invalid ''virtual-address target'' ''requires a process identifier''
          else Inr ()
      | FixedVirtualAddress \<Rightarrow>
          if \<exists>t\<in>set (retained_targets c). target_pid t = None then
            invalid ''fixed virtual-address target'' ''requires a process identifier''
          else if \<exists>t\<in>set (retained_targets c). target_regions t = [] then
            invalid ''fixed virtual-address target regions''
              ''requires at least one initial region per target''
          else Inr ()
      | PhysicalAddress \<Rightarrow>
          if length (c_targets c) \<noteq> 1 \<or> length (retained_targets c) \<noteq> 1 then
            invalid ''physical-address targets''
              ''requires exactly one target on current DAMON kernels''
          else if target_pid (c_targets c ! 0) \<noteq> None then
            invalid ''physical-address target'' ''must not contain a process identifier''
          else if target_regions (c_targets c ! 0) = [] then
            invalid ''physical-address target regions'' ''requires at least one initial region''
          else Inr ()
      | UnknownOperation _ \<Rightarrow> Inr ())"

definition ContextConfig_validate_runnable_for_lifecycle ::
    "u64 \<Rightarrow> bool \<Rightarrow> context_config \<Rightarrow> unit result" where
  "ContextConfig_validate_runnable_for_lifecycle page_size allow_obsolete c =
     and_then (ContextConfig_validate page_size c) (\<lambda>_.
       if \<not> allow_obsolete \<and> (\<exists>t\<in>set (c_targets c). target_obsolete t) then
         invalid ''obsolete target''
           ''is valid only as a one-shot update to a running context''
       else
         let retained_target_count = length (retained_targets c) in
         if retained_target_count = 0 then
           invalid ''monitoring targets''
             ''a running context requires at least one non-obsolete target''
         else
           and_then (validate_weighted_probes c) (\<lambda>_.
           and_then (validate_runnable_sample_control c) (\<lambda>_.
           and_then (validate_runnable_targets c) (\<lambda>_.
             try_each (\<lambda>s. SchemeConfig_validate_runnable_for s (c_operation c)
                              retained_target_count) (c_schemes c)))))"

definition ContextConfig_validate_runnable :: "u64 \<Rightarrow> context_config \<Rightarrow> unit result" where
  "ContextConfig_validate_runnable page_size c =
     ContextConfig_validate_runnable_for_lifecycle page_size False c"

definition ContextConfig_validate_running_update :: "u64 \<Rightarrow> context_config \<Rightarrow> unit result" where
  "ContextConfig_validate_running_update page_size c =
     ContextConfig_validate_runnable_for_lifecycle page_size True c"

section \<open>Kdamonds and the hierarchy\<close>

record kdamond_config =
  k_refresh :: duration
  k_contexts :: "context_config list"

record damon_config =
  d_kdamonds :: "kdamond_config list"

definition KdamondConfig_validate :: "u64 \<Rightarrow> kdamond_config \<Rightarrow> unit result" where
  "KdamondConfig_validate page_size k =
     and_then (validate_count ''context count'' (length (k_contexts k))) (\<lambda>_.
     and_then (exact_refresh_millis (k_refresh k)) (\<lambda>_.
       try_each (ContextConfig_validate page_size) (k_contexts k)))"

definition DamonConfig_validate :: "u64 \<Rightarrow> damon_config \<Rightarrow> unit result" where
  "DamonConfig_validate page_size d =
     and_then (validate_count ''kdamond count'' (length (d_kdamonds d))) (\<lambda>_.
       try_each (KdamondConfig_validate page_size) (d_kdamonds d))"

definition DamonConfig_validate_runnable_for_lifecycle ::
    "u64 \<Rightarrow> bool \<Rightarrow> damon_config \<Rightarrow> unit result" where
  "DamonConfig_validate_runnable_for_lifecycle page_size allow_obsolete d =
     and_then (DamonConfig_validate page_size d) (\<lambda>_.
       if d_kdamonds d = [] then
         invalid ''kdamond count'' ''requires at least one kdamond''
       else
         try_each (\<lambda>k.
             if length (k_contexts k) \<noteq> 1 then
               invalid ''kdamond context count''
                 ''current DAMON requires exactly one context per running kdamond''
             else if allow_obsolete then
               ContextConfig_validate_running_update page_size (k_contexts k ! 0)
             else ContextConfig_validate_runnable page_size (k_contexts k ! 0))
           (d_kdamonds d))"

definition DamonConfig_validate_runnable :: "u64 \<Rightarrow> damon_config \<Rightarrow> unit result" where
  "DamonConfig_validate_runnable page_size d =
     DamonConfig_validate_runnable_for_lifecycle page_size False d"

definition DamonConfig_validate_running_update :: "u64 \<Rightarrow> damon_config \<Rightarrow> unit result" where
  "DamonConfig_validate_running_update page_size d =
     DamonConfig_validate_runnable_for_lifecycle page_size True d"

section \<open>Equivalence with what the kernel reports\<close>

text \<open>\<open>for (x, y) in xs.iter_mut().zip(&ys)\<close>: the tail without a partner is left as it is.\<close>

fun zip_update :: "('a \<Rightarrow> 'b \<Rightarrow> 'a) \<Rightarrow> 'a list \<Rightarrow> 'b list \<Rightarrow> 'a list" where
  "zip_update f (x # xs) (y # ys) = f x y # zip_update f xs ys"
| "zip_update f xs _ = xs"

definition canonical_scheme :: "scheme_config \<Rightarrow> scheme_config \<Rightarrow> scheme_config" where
  "canonical_scheme s observed =
     s\<lparr>s_pattern := normalize_kernel_width (s_pattern s) (s_pattern observed),
       s_filters := canonicalize_filter_placements (s_filters s) (s_filters observed)\<rparr>"

definition canonical_context :: "context_config \<Rightarrow> context_config \<Rightarrow> context_config" where
  "canonical_context c observed =
     c\<lparr>c_schemes := zip_update canonical_scheme (c_schemes c) (c_schemes observed)\<rparr>"

definition canonical_kdamond :: "kdamond_config \<Rightarrow> kdamond_config \<Rightarrow> kdamond_config" where
  "canonical_kdamond k observed =
     k\<lparr>k_contexts := zip_update canonical_context (k_contexts k) (k_contexts observed)\<rparr>"

definition equivalent_after_kernel_normalization :: "damon_config \<Rightarrow> damon_config \<Rightarrow> bool" where
  "equivalent_after_kernel_normalization self observed =
     (if self = observed then True
      else self\<lparr>d_kdamonds :=
             zip_update canonical_kdamond (d_kdamonds self) (d_kdamonds observed)\<rparr> = observed)"

section \<open>The first difference\<close>

definition slash :: "string \<Rightarrow> string \<Rightarrow> string" where
  "slash base name = base @ ''/'' @ name"

definition first_target_difference ::
    "string \<Rightarrow> target_config \<Rightarrow> target_config \<Rightarrow> error" where
  "first_target_difference base expected observed =
     (if target_pid expected \<noteq> target_pid observed then
        ConfigurationMismatch (slash base ''pid_target'')
      else if target_obsolete expected \<noteq> target_obsolete observed then
        ConfigurationMismatch (slash base ''obsolete_target'')
      else ConfigurationMismatch (slash base ''regions''))"

definition first_scheme_difference ::
    "string \<Rightarrow> scheme_config \<Rightarrow> scheme_config \<Rightarrow> error" where
  "first_scheme_difference base expected observed =
     ConfigurationMismatch
       (if s_action expected \<noteq> s_action observed then slash base ''action''
        else if s_pattern expected \<noteq> s_pattern observed then slash base ''access_pattern''
        else if s_apply_interval expected \<noteq> s_apply_interval observed then
          slash base ''apply_interval_us''
        else if s_target_node expected \<noteq> s_target_node observed then slash base ''target_nid''
        else if s_quota expected \<noteq> s_quota observed then slash base ''quotas''
        else if s_watermarks expected \<noteq> s_watermarks observed then slash base ''watermarks''
        else if s_filters expected \<noteq> s_filters observed then slash base ''filters''
        else if s_destinations expected \<noteq> s_destinations observed then slash base ''dests''
        else if s_snapshot_limit expected \<noteq> s_snapshot_limit observed then
          slash base ''stats/max_nr_snapshots''
        else base)"

text \<open>The loops over zipped lists: the first index at which the elements differ.\<close>

fun first_mismatch :: "nat \<Rightarrow> 'a list \<Rightarrow> 'a list \<Rightarrow> (nat \<times> 'a \<times> 'a) option" where
  "first_mismatch i (x # xs) (y # ys) =
     (if x \<noteq> y then Some (i, x, y) else first_mismatch (Suc i) xs ys)"
| "first_mismatch i _ _ = None"

definition first_context_schemes ::
    "string \<Rightarrow> context_config \<Rightarrow> context_config \<Rightarrow> error" where
  "first_context_schemes base expected observed =
     (if length (c_schemes expected) \<noteq> length (c_schemes observed) then
        ConfigurationMismatch (slash base ''schemes/nr_schemes'')
      else case first_mismatch 0 (c_schemes expected) (c_schemes observed) of
        Some (i, e, obs) \<Rightarrow>
          first_scheme_difference (slash (slash base ''schemes'') (dec i)) e obs
      | None \<Rightarrow> ConfigurationMismatch base)"

definition first_context_targets ::
    "string \<Rightarrow> context_config \<Rightarrow> context_config \<Rightarrow> error" where
  "first_context_targets base expected observed =
     (if length (c_targets expected) \<noteq> length (c_targets observed) then
        ConfigurationMismatch (slash base ''targets/nr_targets'')
      else case first_mismatch 0 (c_targets expected) (c_targets observed) of
        Some (i, e, obs) \<Rightarrow>
          first_target_difference (slash (slash base ''targets'') (dec i)) e obs
      | None \<Rightarrow> first_context_schemes base expected observed)"

definition first_context_probes ::
    "string \<Rightarrow> context_config \<Rightarrow> context_config \<Rightarrow> error" where
  "first_context_probes base expected observed =
     (if length (c_probes expected) \<noteq> length (c_probes observed) then
        ConfigurationMismatch (slash base ''monitoring_attrs/probes/nr_probes'')
      else case first_mismatch 0 (c_probes expected) (c_probes observed) of
        Some (i, _, _) \<Rightarrow>
          ConfigurationMismatch (slash (slash base ''monitoring_attrs/probes'') (dec i))
      | None \<Rightarrow> first_context_targets base expected observed)"

definition first_context_difference ::
    "string \<Rightarrow> context_config \<Rightarrow> context_config \<Rightarrow> error" where
  "first_context_difference base expected observed =
     (if c_operation expected \<noteq> c_operation observed then
        ConfigurationMismatch (slash base ''operations'')
      else if c_unit expected \<noteq> c_unit observed then
        ConfigurationMismatch (slash base ''addr_unit'')
      else if c_paused expected \<noteq> c_paused observed then
        ConfigurationMismatch (slash base ''pause'')
      else if c_attributes expected \<noteq> c_attributes observed then
        ConfigurationMismatch (slash base ''operations_attrs'')
      else if c_intervals expected \<noteq> c_intervals observed then
        ConfigurationMismatch (slash base ''monitoring_attrs/intervals'')
      else if c_intervals_goal expected \<noteq> c_intervals_goal observed then
        ConfigurationMismatch (slash base ''monitoring_attrs/intervals/intervals_goal'')
      else if c_bounds expected \<noteq> c_bounds observed then
        ConfigurationMismatch (slash base ''monitoring_attrs/nr_regions'')
      else if c_sample_control expected \<noteq> c_sample_control observed then
        ConfigurationMismatch (slash base ''monitoring_attrs/sample'')
      else first_context_probes base expected observed)"

fun first_kdamond_difference ::
    "nat \<Rightarrow> kdamond_config list \<Rightarrow> kdamond_config list \<Rightarrow> error option" where
  "first_kdamond_difference index (expected # es) (observed # os) =
     (let base = slash ''kdamonds'' (dec index) in
      if k_refresh expected \<noteq> k_refresh observed then
        Some (ConfigurationMismatch (slash base ''refresh_ms''))
      else if length (k_contexts expected) \<noteq> length (k_contexts observed) then
        Some (ConfigurationMismatch (slash base ''contexts/nr_contexts''))
      else case first_mismatch 0 (k_contexts expected) (k_contexts observed) of
        Some (i, e, obs) \<Rightarrow>
          Some (first_context_difference (slash (slash base ''contexts'') (dec i)) e obs)
      | None \<Rightarrow> first_kdamond_difference (Suc index) es os)"
| "first_kdamond_difference index _ _ = None"

definition first_damon_difference :: "damon_config \<Rightarrow> damon_config \<Rightarrow> error option" where
  "first_damon_difference expected observed =
     (if length (d_kdamonds expected) \<noteq> length (d_kdamonds observed) then
        Some (ConfigurationMismatch ''kdamonds/nr_kdamonds'')
      else first_kdamond_difference 0 (d_kdamonds expected) (d_kdamonds observed))"

definition mismatch_error :: "damon_config \<Rightarrow> damon_config \<Rightarrow> error option" where
  "mismatch_error self observed =
     (if equivalent_after_kernel_normalization self observed then None
      else Some (case first_damon_difference self observed of
                   Some e \<Rightarrow> e | None \<Rightarrow> ConfigurationMismatch ''kdamonds''))"

section \<open>What validation promises\<close>

lemma weighted_total_Inr_iff [result_simps]:
  "weighted_total m acc ps = Inr w \<longleftrightarrow>
     unat w = unat acc + sum_list (map (\<lambda>p. unat (probe_weight p) * unat m) ps)"
proof (induction m acc ps rule: weighted_total.induct)
  case (1 m acc)
  then show ?case by (auto simp: word_unat_eq_iff)
next
  case (2 m acc p ps)
  have w: "unat w < 2 ^ 32" using unat_less [of w] by simp
  show ?case
  proof (cases "checked_mul (probe_weight p) m")
    case None
    then have "2 ^ 32 \<le> unat (probe_weight p) * unat m" by (simp add: checked_mul_None_iff)
    with w have "unat w \<noteq> unat acc + (unat (probe_weight p) * unat m + n)" for n by linarith
    with None show ?thesis by (simp add: add.assoc)
  next
    case (Some h)
    then have h: "unat h = unat (probe_weight p) * unat m" by (simp add: checked_mul_Some_iff)
    show ?thesis
    proof (cases "checked_add acc h")
      case None
      then have "2 ^ 32 \<le> unat acc + unat h" by (simp add: checked_add_None_iff)
      with w h have "unat w \<noteq> unat acc + (unat (probe_weight p) * unat m + n)" for n by linarith
      with None Some show ?thesis by (simp add: add.assoc)
    next
      case (Some acc')
      then have "unat acc' = unat acc + unat h" by (simp add: checked_add_Some_iff)
      with \<open>checked_mul (probe_weight p) m = Some h\<close> Some 2 h show ?thesis
        by (simp add: add.assoc)
    qed
  qed
qed

text \<open>
  The sum the kernel computes for one region: each probe's hit count, at most the number of
  samples of an aggregation interval, times its weight.
\<close>

lemma weighted_sum_mono:
  "length hs = length ps \<Longrightarrow> \<forall>h\<in>set hs. h \<le> m \<Longrightarrow>
     sum_list (map2 (\<lambda>p h. unat (probe_weight p) * h) ps hs)
       \<le> sum_list (map (\<lambda>p. unat (probe_weight p) * m) ps)"
proof (induction ps arbitrary: hs)
  case (Cons p ps)
  then obtain h hs' where "hs = h # hs'" by (cases hs) auto
  with Cons show ?case by (simp add: add_mono)
qed simp

lemma weighted_probes_bound:
  assumes ok: "validate_weighted_probes c = Inr ()"
    and len: "length hs = length (c_probes c)"
    and hits: "\<forall>h\<in>set hs. h \<le> maximum_hits (c_intervals c)"
  shows "sum_list (map2 (\<lambda>p h. unat (probe_weight p) * h) (c_probes c) hs) < 2 ^ 32"
proof (cases "\<forall>p\<in>set (c_probes c). probe_weight p = 0")
  case True
  then have z: "sum_list (map (\<lambda>p. unat (probe_weight p) * maximum_hits (c_intervals c))
      (c_probes c)) = 0"
    by (auto simp: sum_list_eq_0_iff)
  note weighted_sum_mono [OF len hits]
  also note z
  finally show ?thesis by (simp del: sum_list_eq_0_iff)
next
  case False
  let ?m = "maximum_hits (c_intervals c)"
  from False ok have "?m \<le> 255"
    and "\<exists>w. weighted_total (of_nat ?m) 0 (c_probes c) = Inr w"
    by (auto simp: validate_weighted_probes_def and_then_Inr_iff split: if_splits)
  then obtain w where w: "weighted_total (of_nat ?m) 0 (c_probes c) = Inr w" by blast
  have m: "unat (of_nat ?m :: u32) = ?m" using \<open>?m \<le> 255\<close> by (intro unat_of_nat_small) simp
  have "sum_list (map2 (\<lambda>p h. unat (probe_weight p) * h) (c_probes c) hs) \<le> unat w"
    using w weighted_sum_mono [OF len hits] by (simp add: weighted_total_Inr_iff m)
  also have "unat w < 2 ^ 32" using unat_less [of w] by simp
  finally show ?thesis .
qed

lemma runnable_lifecycle_Inr_iff:
  "ContextConfig_validate_runnable_for_lifecycle ps allow c = Inr u \<longleftrightarrow>
     ContextConfig_validate ps c = Inr ()
     \<and> (allow \<or> (\<forall>t\<in>set (c_targets c). \<not> target_obsolete t))
     \<and> retained_targets c \<noteq> []
     \<and> validate_weighted_probes c = Inr () \<and> validate_runnable_sample_control c = Inr ()
     \<and> validate_runnable_targets c = Inr ()
     \<and> (\<forall>s\<in>set (c_schemes c). SchemeConfig_validate_runnable_for s (c_operation c)
                                  (length (retained_targets c)) = Inr ())"
  by (auto simp: ContextConfig_validate_runnable_for_lifecycle_def and_then_Inr_iff Let_def)

lemma DamonConfig_runnable_Inr_iff:
  "DamonConfig_validate_runnable_for_lifecycle ps allow d = Inr u \<longleftrightarrow>
     DamonConfig_validate ps d = Inr () \<and> d_kdamonds d \<noteq> []
     \<and> (\<forall>k\<in>set (d_kdamonds d). \<exists>c. k_contexts k = [c]
          \<and> ContextConfig_validate_runnable_for_lifecycle ps allow c = Inr ())"
proof -
  have one: "length xs = Suc 0 \<and> P (xs ! 0) \<longleftrightarrow> (\<exists>x. xs = [x] \<and> P x)" for xs :: "'b list" and P
    by (cases xs) auto
  show ?thesis
    by (simp add: DamonConfig_validate_runnable_for_lifecycle_def and_then_Inr_iff
        ContextConfig_validate_runnable_def ContextConfig_validate_running_update_def
        one [symmetric] if_distrib [of "\<lambda>x. x = Inr ()"] cong: if_cong)
      (cases allow; auto)
qed

lemma runnable_mono:
  "ContextConfig_validate_runnable_for_lifecycle ps False c = Inr u \<Longrightarrow>
     ContextConfig_validate_runnable_for_lifecycle ps True c = Inr u"
  by (simp add: runnable_lifecycle_Inr_iff)

section \<open>Soundness of the comparison\<close>

lemma first_mismatch_None_iff:
  "length xs = length ys \<Longrightarrow> first_mismatch i xs ys = None \<longleftrightarrow> xs = ys"
  by (induction i xs ys rule: first_mismatch.induct) auto

lemma first_kdamond_difference_None:
  "length ks = length os \<Longrightarrow> first_kdamond_difference i ks os = None \<Longrightarrow> ks = os"
proof (induction i ks os rule: first_kdamond_difference.induct)
  case (1 i k ks ob os)
  then have "k_refresh k = k_refresh ob" "length (k_contexts k) = length (k_contexts ob)"
    and "first_mismatch 0 (k_contexts k) (k_contexts ob) = None"
    and "first_kdamond_difference (Suc i) ks os = None"
    by (auto simp: Let_def split: if_splits option.splits prod.splits)
  with 1 show ?case by (simp add: first_mismatch_None_iff kdamond_config.equality)
qed auto

lemma first_damon_difference_None: "first_damon_difference d ob = None \<Longrightarrow> d = ob"
  by (auto simp: first_damon_difference_def split: if_splits
      dest!: first_kdamond_difference_None intro!: damon_config.equality)

text \<open>What the comparison accepts, element by element.\<close>

definition scheme_equivalent :: "scheme_config \<Rightarrow> scheme_config \<Rightarrow> bool" where
  "scheme_equivalent s ob \<longleftrightarrow>
     pattern_equivalent (s_pattern s) (s_pattern ob)
     \<and> semantic_filters_match (s_filters s) (s_filters ob)
     \<and> s\<lparr>s_pattern := s_pattern ob, s_filters := s_filters ob\<rparr> = ob"

definition context_equivalent :: "context_config \<Rightarrow> context_config \<Rightarrow> bool" where
  "context_equivalent c ob \<longleftrightarrow>
     list_all2 scheme_equivalent (c_schemes c) (c_schemes ob)
     \<and> c\<lparr>c_schemes := c_schemes ob\<rparr> = ob"

definition kdamond_equivalent :: "kdamond_config \<Rightarrow> kdamond_config \<Rightarrow> bool" where
  "kdamond_equivalent k ob \<longleftrightarrow>
     list_all2 context_equivalent (k_contexts k) (k_contexts ob) \<and> k_refresh k = k_refresh ob"

definition damon_equivalent :: "damon_config \<Rightarrow> damon_config \<Rightarrow> bool" where
  "damon_equivalent d ob \<longleftrightarrow> list_all2 kdamond_equivalent (d_kdamonds d) (d_kdamonds ob)"

text \<open>Filters as a kernel reports them: a placement for each, split directories in order.\<close>

definition reported_filters :: "filter_config list \<Rightarrow> bool" where
  "reported_filters fs \<longleftrightarrow> canonicalize_filter_placements fs fs = fs"

definition reported_damon :: "damon_config \<Rightarrow> bool" where
  "reported_damon d \<longleftrightarrow>
     (\<forall>k\<in>set (d_kdamonds d). \<forall>c\<in>set (k_contexts k). \<forall>s\<in>set (c_schemes c).
        reported_filters (s_filters s))"

lemma semantic_filters_match_reported:
  "reported_filters ob \<Longrightarrow>
     semantic_filters_match fs ob \<longleftrightarrow> canonicalize_filter_placements fs ob = ob"
  by (auto simp: semantic_filters_match_def reported_filters_def)

lemma semantic_filters_match_refl [simp]: "semantic_filters_match fs fs"
  by (simp add: semantic_filters_match_def)

lemma scheme_equivalent_refl [simp]: "scheme_equivalent s s"
  by (simp add: scheme_equivalent_def)

lemma canonical_scheme_eq_iff:
  assumes "reported_filters (s_filters ob)"
  shows "canonical_scheme s ob = ob \<longleftrightarrow> scheme_equivalent s ob"
  unfolding canonical_scheme_def scheme_equivalent_def
    semantic_filters_match_reported [OF assms] normalize_kernel_width_eq_iff [symmetric]
  by (cases s; cases ob) auto

lemma zip_update_eq_iff:
  "zip_update f xs ys = ys \<longleftrightarrow> list_all2 (\<lambda>x y. f x y = y) xs ys"
  by (induction f xs ys rule: zip_update.induct) (auto split: list.splits)

lemma list_all2_cong_right:
  "(\<And>x y. y \<in> set ys \<Longrightarrow> P x y \<longleftrightarrow> Q x y) \<Longrightarrow> list_all2 P xs ys \<longleftrightarrow> list_all2 Q xs ys"
  by (induction ys arbitrary: xs) (auto simp: list_all2_Cons2)

lemma canonical_context_eq_iff:
  assumes "\<forall>s\<in>set (c_schemes ob). reported_filters (s_filters s)"
  shows "canonical_context c ob = ob \<longleftrightarrow> context_equivalent c ob"
proof -
  have "zip_update canonical_scheme (c_schemes c) (c_schemes ob) = c_schemes ob \<longleftrightarrow>
      list_all2 scheme_equivalent (c_schemes c) (c_schemes ob)"
    unfolding zip_update_eq_iff using assms
    by (intro list_all2_cong_right) (simp add: canonical_scheme_eq_iff)
  then show ?thesis
    unfolding canonical_context_def context_equivalent_def by (cases c; cases ob) auto
qed

lemma canonical_kdamond_eq_iff:
  assumes "\<forall>c\<in>set (k_contexts ob). \<forall>s\<in>set (c_schemes c). reported_filters (s_filters s)"
  shows "canonical_kdamond k ob = ob \<longleftrightarrow> kdamond_equivalent k ob"
proof -
  have "zip_update canonical_context (k_contexts k) (k_contexts ob) = k_contexts ob \<longleftrightarrow>
      list_all2 context_equivalent (k_contexts k) (k_contexts ob)"
    unfolding zip_update_eq_iff using assms
    by (intro list_all2_cong_right) (simp add: canonical_context_eq_iff)
  then show ?thesis
    unfolding canonical_kdamond_def kdamond_equivalent_def by (cases k; cases ob) auto
qed

lemma context_equivalent_refl [simp]: "context_equivalent c c"
  by (simp add: context_equivalent_def list_all2_refl)

lemma damon_equivalent_refl [simp]: "damon_equivalent d d"
  by (simp add: damon_equivalent_def kdamond_equivalent_def list_all2_refl)

lemma equivalent_iff:
  assumes "reported_damon ob"
  shows "equivalent_after_kernel_normalization d ob \<longleftrightarrow> damon_equivalent d ob"
proof (cases "d = ob")
  case True
  then show ?thesis by (simp add: equivalent_after_kernel_normalization_def)
next
  case False
  have "zip_update canonical_kdamond (d_kdamonds d) (d_kdamonds ob) = d_kdamonds ob \<longleftrightarrow>
      list_all2 kdamond_equivalent (d_kdamonds d) (d_kdamonds ob)"
    unfolding zip_update_eq_iff using assms
    by (intro list_all2_cong_right) (simp add: canonical_kdamond_eq_iff reported_damon_def)
  with False show ?thesis
    unfolding equivalent_after_kernel_normalization_def damon_equivalent_def
    by (cases d; cases ob) auto
qed

end
