(* ===== verification/Samples.thy ===== *)
theory Samples
  imports Config_Context
begin

text \<open>
  Concrete configurations for the witnesses: a physical-address context with one weighted
  probe, one target and one scheme, alone and as a whole hierarchy. \<open>sample_valid\<close> is the
  validator's verdict on them.
\<close>

definition sample_target :: target_config where
  "sample_target = \<lparr>target_pid = None, target_obsolete = False,
     target_regions = [\<lparr>init_start = 0, init_end = 8192\<rparr>]\<rparr>"

definition sample_pattern :: access_pattern where
  "sample_pattern = \<lparr>pattern_size = \<lparr>range_min = 0, range_max = 4096\<rparr>,
     pattern_accesses = \<lparr>range32_min = 0, range32_max = 5\<rparr>,
     pattern_age = \<lparr>range32_min = 1, range32_max = 9\<rparr>\<rparr>"

definition sample_scheme :: scheme_config where
  "sample_scheme = (SchemeConfig_new MigrateHot sample_pattern)
     \<lparr>s_filters := [FilterConfig_new SfAnonymous True False],
      s_destinations := [\<lparr>dest_node = 0, dest_weight = 3\<rparr>, \<lparr>dest_node = 1, dest_weight = 4\<rparr>]\<rparr>"

definition sample_context :: context_config where
  "sample_context = (ContextConfig_new PhysicalAddress)
     \<lparr>c_probes := [\<lparr>probe_filters = [], probe_weight = 7, probe_preparations = []\<rparr>],
      c_targets := [sample_target], c_schemes := [sample_scheme]\<rparr>"

definition sample_damon :: damon_config where
  "sample_damon = \<lparr>d_kdamonds = [\<lparr>k_refresh = 0, k_contexts = [sample_context]\<rparr>]\<rparr>"

lemmas sample_defs =
  sample_target_def sample_pattern_def sample_scheme_def sample_context_def sample_damon_def
  SchemeConfig_new_def ContextConfig_new_def FilterConfig_new_def QuotaConfig_default_def
  WatermarksConfig_default_def OperationAttributes_default_def IntervalsGoal_default_def
  MonitoringIntervals_default_def RegionBounds_default_def SampleControl_default_def
  SamplePrimitives_default_def AddressUnit_ONE_def

lemma sample_token: "token ''migrate_hot''" "token ''anon''" "token ''consist''" "token ''none''"
    "token ''paddr''"
  by (simp_all add: token_def byte_val_def ascii_whitespace_def)

text \<open>The validators, unfolded on a concrete configuration.\<close>

lemmas scheme_checks =
  SchemeConfig_validate_for_def QuotaConfig_validate_def WatermarksConfig_validate_def
  FilterConfig_validate_def FilterConfig_validate_in_layer_def validate_filter_payload_def
  validate_payload_fields_def validate_filter_required_def validate_optional_string_def
  total_weight_from_Inr_iff and_then_Inr_iff exact_micros_Inr_iff exact_millis_Inr_iff
  KERNEL_INDEX_MAX_def

lemma no_duration [simp]: "0 = from_micros us \<longleftrightarrow> us = 0" "0 = from_millis us \<longleftrightarrow> us = 0"
  by (simp_all add: from_micros_def from_millis_def unat_eq_zero)

lemma sample_scheme_valid [simp]: "SchemeConfig_validate_for sample_scheme n = Inr ()"
proof -
  have "total_weight_from 0 (s_destinations sample_scheme) = Inr 7"
    by (simp add: sample_defs checked_add_def)
  then show ?thesis
    by (simp add: scheme_checks sample_defs sample_token)
qed

lemma one_unit [simp]: "power_of_two 1"
  unfolding power_of_two_def by (rule bexI [of _ 0]) simp_all

lemma sample_context_checks:
  "ContextConfig_validate 4096 sample_context = Inr ()"
proof -
  have unit: "minimum_region_units 4096 PhysicalAddress (c_unit sample_context) = Some 4096"
    by (simp add: minimum_region_units_def sample_defs)
  have aligned: "validate_kernel_aligned_initial_regions (c_targets sample_context)
      (Some 4096) = Inr ()"
    by (simp add: validate_kernel_aligned_Inr_iff kernel_regions_ok_def kernel_start_def
        kernel_end_def sample_context_def sample_target_def)
  have unit_ok: "validate_operation_unit 4096 sample_context = Inr ()"
    by (simp add: validate_operation_unit_def validate_address_unit_for_host_def validate_scaled_initial_regions_def and_then_Inr_iff sample_defs to_bytes_def
        checked_mul_def)
  have paddr: "c_operation sample_context = PhysicalAddress" by (simp add: sample_defs)
  have "ContextConfig_validate 4096 sample_context = Inr () \<longleftrightarrow>
      IntervalsGoal_validate_for (c_intervals_goal sample_context) (c_intervals sample_context) = Inr ()
      \<and> OperationAttributes_validate (c_attributes sample_context) = Inr ()
      \<and> SampleControl_validate (c_sample_control sample_context) = Inr ()"
    using unit aligned unit_ok sample_scheme_valid
    unfolding ContextConfig_validate_def and_then_Inr_iff paddr
    by (simp add: sample_context_def ContextConfig_new_def sample_target_def KERNEL_INDEX_MAX_def
        ProbeConfig_validate_def TargetConfig_validate_Inr_iff disjoint_regions_def sample_token
        and_then_Inr_iff)
  then show ?thesis
    by (simp add: sample_defs IntervalsGoal_validate_for_def IntervalsGoal_values_def
        and_then_Inr_iff exact_micros_Inr_iff OperationAttributes_validate_def
        validate_sysfs_string_def byte_val_def SampleControl_validate_def KERNEL_INDEX_MAX_def)
qed

lemma sample_context_valid [simp]: "ContextConfig_validate_runnable 4096 sample_context = Inr ()"
proof -
  have "maximum_hits (c_intervals sample_context) = 20"
    by (simp add: maximum_hits_def sample_defs intervals_sample_def intervals_aggregation_def
        as_micros_def from_micros_def)
  then have "validate_weighted_probes sample_context = Inr ()"
    by (simp add: validate_weighted_probes_def sample_defs and_then_Inr_iff checked_mul_def
        checked_add_def)
  then show ?thesis
    unfolding ContextConfig_validate_runnable_def runnable_lifecycle_Inr_iff
    using sample_context_checks
    by (simp add: retained_targets_def validate_runnable_sample_control_def
        validate_runnable_targets_def SchemeConfig_validate_runnable_for_def sample_context_def
        ContextConfig_new_def SampleControl_default_def SamplePrimitives_default_def
        sample_target_def)
      (simp add: known_supported_def sample_defs)
qed

lemma sample_valid [simp]: "DamonConfig_validate_runnable 4096 sample_damon = Inr ()"
proof -
  have "DamonConfig_validate 4096 sample_damon = Inr ()"
    by (simp add: DamonConfig_validate_def KdamondConfig_validate_def and_then_Inr_iff
        sample_damon_def exact_refresh_millis_Inr_iff KERNEL_INDEX_MAX_def sample_context_checks
        unat_eq_zero)
  then show ?thesis
    unfolding DamonConfig_validate_runnable_def DamonConfig_runnable_Inr_iff
    using sample_context_valid by (simp add: sample_damon_def ContextConfig_validate_runnable_def)
qed

end
