(* ===== verification/Region.thy ===== *)
theory Region
  imports Units
begin

text \<open>
  \<^verbatim>\<open>src/src/region.rs\<close>: one DAMON region as the kernel reports it, the snapshot of a scheme's
  tried regions, and their views in bytes under an explicit address unit. Borrowed views are
  values here. Probe results keep the inline and the heap representation of the source;
  \<open>probe_hits_inv\<close> is what both constructors establish.
\<close>

section \<open>Probe results\<close>

definition INLINE_PROBE_HITS :: nat where
  "INLINE_PROBE_HITS = 4"

record probe_hit =
  hit_index :: usize
  hit_hits :: u8

datatype probe_hits =
    Inline (inline_indices: "usize list") (inline_hits: "u8 list") (inline_len: usize)
  | Heap (heap_indices: "usize list") (heap_hits: "u8 list")

text \<open>The copy loop over the fixed arrays of the inline representation.\<close>

fun fill_inline ::
    "nat \<Rightarrow> (usize \<times> u8) list \<Rightarrow> usize list \<Rightarrow> u8 list \<Rightarrow> usize list \<times> u8 list" where
  "fill_inline offset [] indices hits = (indices, hits)"
| "fill_inline offset ((index, value) # values) indices hits =
     fill_inline (Suc offset) values (indices[offset := index]) (hits[offset := value])"

definition ProbeHits_from_kernel :: "(usize \<times> u8) list \<Rightarrow> probe_hits" where
  "ProbeHits_from_kernel values =
     (if length values \<le> INLINE_PROBE_HITS then
        let (indices, hits) =
          fill_inline 0 values (replicate INLINE_PROBE_HITS 0) (replicate INLINE_PROBE_HITS 0)
        in Inline indices hits (length values)
      else Heap (map fst values) (map snd values))"

fun ProbeHits_indices :: "probe_hits \<Rightarrow> usize list" where
  "ProbeHits_indices (Inline indices hits len) = take len indices"
| "ProbeHits_indices (Heap indices hits) = indices"

fun ProbeHits_hits :: "probe_hits \<Rightarrow> u8 list" where
  "ProbeHits_hits (Inline indices hits len) = take len hits"
| "ProbeHits_hits (Heap indices hits) = hits"

fun probe_hits_inv :: "probe_hits \<Rightarrow> bool" where
  "probe_hits_inv (Inline indices hits len) =
     (length indices = INLINE_PROBE_HITS \<and> length hits = INLINE_PROBE_HITS
      \<and> len \<le> INLINE_PROBE_HITS)"
| "probe_hits_inv (Heap indices hits) =
     (length indices = length hits \<and> INLINE_PROBE_HITS < length indices)"

lemma fill_inline_take:
  "offset + length vs \<le> length indices \<Longrightarrow> offset + length vs \<le> length hits \<Longrightarrow>
   fill_inline offset vs indices hits = (indices', hits') \<Longrightarrow>
     length indices' = length indices \<and> length hits' = length hits
     \<and> take (offset + length vs) indices' = take offset indices @ map fst vs
     \<and> take (offset + length vs) hits' = take offset hits @ map snd vs"
proof (induction offset vs indices hits rule: fill_inline.induct)
  case (2 off ix v rs ixs hs)
  then show ?case
    by (simp add: take_Suc_conv_app_nth)
qed simp

lemma ProbeHits_from_kernel_spec:
  shows ProbeHits_from_kernel_indices: "ProbeHits_indices (ProbeHits_from_kernel vs) = map fst vs"
    and ProbeHits_from_kernel_hits: "ProbeHits_hits (ProbeHits_from_kernel vs) = map snd vs"
    and ProbeHits_from_kernel_inv: "probe_hits_inv (ProbeHits_from_kernel vs)"
proof (atomize (full), cases "length vs \<le> INLINE_PROBE_HITS")
  case True
  obtain ixs hs where f: "fill_inline 0 vs (replicate INLINE_PROBE_HITS 0)
      (replicate INLINE_PROBE_HITS 0) = (ixs, hs)" by fastforce
  show "ProbeHits_indices (ProbeHits_from_kernel vs) = map fst vs \<and>
     ProbeHits_hits (ProbeHits_from_kernel vs) = map snd vs \<and>
     probe_hits_inv (ProbeHits_from_kernel vs)"
    using True f fill_inline_take [OF _ _ f] by (simp add: ProbeHits_from_kernel_def)
qed (simp add: ProbeHits_from_kernel_def)

section \<open>Raw regions and snapshots\<close>

record raw_region =
  region_start :: u64
  region_end :: u64
  region_nr_accesses :: u32
  region_age :: u32
  region_filter_passed :: "u64 option"
  region_probe_hits :: probe_hits

definition RawRegion_from_kernel ::
    "u64 \<Rightarrow> u64 \<Rightarrow> u32 \<Rightarrow> u32 \<Rightarrow> u64 option \<Rightarrow> (usize \<times> u8) list \<Rightarrow> raw_region result" where
  "RawRegion_from_kernel start end' nr_accesses age filter_passed probe_hits =
     (if end' < start then Inl (InvalidRegion start end')
      else Inr \<lparr>region_start = start, region_end = end', region_nr_accesses = nr_accesses,
                region_age = age, region_filter_passed = filter_passed,
                region_probe_hits = ProbeHits_from_kernel probe_hits\<rparr>)"

definition raw_len_units :: "raw_region \<Rightarrow> u64" where
  "raw_len_units r = region_end r - region_start r"

definition raw_region_is_empty :: "raw_region \<Rightarrow> bool" where
  "raw_region_is_empty r = (region_start r = region_end r)"

definition raw_probe_hits :: "raw_region \<Rightarrow> u8 list" where
  "raw_probe_hits r = ProbeHits_hits (region_probe_hits r)"

definition raw_probe_indices :: "raw_region \<Rightarrow> usize list" where
  "raw_probe_indices r = ProbeHits_indices (region_probe_hits r)"

definition raw_probe_results :: "raw_region \<Rightarrow> probe_hit list" where
  "raw_probe_results r =
     map (\<lambda>(index, hits). \<lparr>hit_index = index, hit_hits = hits\<rparr>)
       (zip (raw_probe_indices r) (raw_probe_hits r))"

definition valid_raw_region :: "raw_region \<Rightarrow> bool" where
  "valid_raw_region r \<longleftrightarrow>
     region_start r \<le> region_end r \<and> probe_hits_inv (region_probe_hits r)"

datatype snapshot_completeness =
    Complete
  | Partial (partial_reported: u64) (partial_materialized: u64)
  | Inconsistent (inconsistent_reported: u64) (inconsistent_materialized: u64)
  | Unverifiable

record raw_snapshot =
  snap_regions :: "raw_region list"
  snap_reported_total :: "u64 option"
  snap_materialized_total :: u64

definition RawSnapshot_from_kernel ::
    "raw_region list \<Rightarrow> u64 option \<Rightarrow> u64 \<Rightarrow> raw_snapshot" where
  "RawSnapshot_from_kernel regions reported materialized =
     \<lparr>snap_regions = regions, snap_reported_total = reported,
      snap_materialized_total = materialized\<rparr>"

definition total_units :: "raw_snapshot \<Rightarrow> u64" where
  "total_units s =
     (case snap_reported_total s of
        Some reported \<Rightarrow> reported
      | None \<Rightarrow> snap_materialized_total s)"

definition completeness :: "raw_snapshot \<Rightarrow> snapshot_completeness" where
  "completeness s =
     (case snap_reported_total s of
        Some reported \<Rightarrow>
          if reported = snap_materialized_total s then Complete
          else if reported > snap_materialized_total s then
            Partial reported (snap_materialized_total s)
          else Inconsistent reported (snap_materialized_total s)
      | None \<Rightarrow> Unverifiable)"

definition RawSnapshot_into_parts ::
    "raw_snapshot \<Rightarrow> raw_region list \<times> u64 option \<times> u64" where
  "RawSnapshot_into_parts s =
     (snap_regions s, snap_reported_total s, snap_materialized_total s)"

section \<open>Views in bytes\<close>

record region_view =
  view_raw :: raw_region
  view_unit :: address_unit

record snapshot =
  snapshot_raw :: raw_snapshot
  snapshot_unit :: address_unit

definition with_effective_address_unit :: "raw_snapshot \<Rightarrow> address_unit \<Rightarrow> snapshot" where
  "with_effective_address_unit raw u = \<lparr>snapshot_raw = raw, snapshot_unit = u\<rparr>"

definition start_bytes :: "region_view \<Rightarrow> u64 result" where
  "start_bytes v = to_bytes (view_unit v) (region_start (view_raw v))"

definition end_bytes :: "region_view \<Rightarrow> u64 result" where
  "end_bytes v = to_bytes (view_unit v) (region_end (view_raw v))"

definition len_bytes :: "region_view \<Rightarrow> u64 result" where
  "len_bytes v = to_bytes (view_unit v) (raw_len_units (view_raw v))"

definition filter_passed_bytes :: "region_view \<Rightarrow> u64 option result" where
  "filter_passed_bytes v =
     (case region_filter_passed (view_raw v) of
        None \<Rightarrow> Inr None
      | Some units \<Rightarrow> and_then (to_bytes (view_unit v) units) (\<lambda>b. Inr (Some b)))"

definition snapshot_region :: "snapshot \<Rightarrow> usize \<Rightarrow> region_view option" where
  "snapshot_region s index =
     (if index < length (snap_regions (snapshot_raw s)) then
        Some \<lparr>view_raw = snap_regions (snapshot_raw s) ! index, view_unit = snapshot_unit s\<rparr>
      else None)"

text \<open>\<open>RegionIter\<close>: the views still to come, taken from either end.\<close>

record region_iter =
  iter_regions :: "raw_region list"
  iter_unit :: address_unit

definition snapshot_iter :: "snapshot \<Rightarrow> region_iter" where
  "snapshot_iter s = \<lparr>iter_regions = snap_regions (snapshot_raw s), iter_unit = snapshot_unit s\<rparr>"

definition region_iter_next :: "region_iter \<Rightarrow> region_view option \<times> region_iter" where
  "region_iter_next it =
     (case iter_regions it of
        [] \<Rightarrow> (None, it)
      | r # rs \<Rightarrow> (Some \<lparr>view_raw = r, view_unit = iter_unit it\<rparr>, it\<lparr>iter_regions := rs\<rparr>))"

definition region_iter_next_back :: "region_iter \<Rightarrow> region_view option \<times> region_iter" where
  "region_iter_next_back it =
     (if iter_regions it = [] then (None, it)
      else (Some \<lparr>view_raw = last (iter_regions it), view_unit = iter_unit it\<rparr>,
            it\<lparr>iter_regions := butlast (iter_regions it)\<rparr>))"

definition snapshot_total_bytes :: "snapshot \<Rightarrow> u64 result" where
  "snapshot_total_bytes s = to_bytes (snapshot_unit s) (total_units (snapshot_raw s))"

section \<open>Scoped snapshots\<close>

record target_identity =
  identity_target_index :: usize
  identity_pid :: "pid option"

datatype snapshot_scope = ScopeTarget target_identity | ScopeScheme | ScopeUngrouped

text \<open>Wall-clock instants are their distance from the epoch in nanoseconds.\<close>

record snapshot_timing =
  timing_requested_at :: int
  timing_completed_at :: int
  timing_elapsed :: duration

record scoped_snapshot =
  scoped_kdamond :: usize
  scoped_context :: usize
  scoped_scheme :: usize
  scoped_scope :: snapshot_scope
  scoped_timing :: snapshot_timing
  scoped_snapshot :: snapshot

lemma RawRegion_from_kernel_Inr_iff [result_simps]:
  "RawRegion_from_kernel s e n a f ps = Inr r \<longleftrightarrow>
     r = \<lparr>region_start = s, region_end = e, region_nr_accesses = n, region_age = a,
          region_filter_passed = f, region_probe_hits = ProbeHits_from_kernel ps\<rparr> \<and> s \<le> e"
  by (auto simp: RawRegion_from_kernel_def)

lemma RawRegion_from_kernel_valid:
  "RawRegion_from_kernel s e n a f ps = Inr r \<Longrightarrow> valid_raw_region r"
  by (simp add: RawRegion_from_kernel_Inr_iff valid_raw_region_def ProbeHits_from_kernel_inv)

lemma unat_raw_len_units:
  "valid_raw_region r \<Longrightarrow>
     unat (raw_len_units r) = unat (region_end r) - unat (region_start r)"
  by (simp add: raw_len_units_def valid_raw_region_def unat_sub)

text \<open>A region whose end converts to bytes converts entirely, consistently with its length.\<close>

lemma end_bytes_covers:
  assumes "valid_raw_region (view_raw v)" and "end_bytes v = Inr e"
  obtains s l where "start_bytes v = Inr s" "len_bytes v = Inr l" "unat s + unat l = unat e"
proof -
  let ?r = "view_raw v" and ?u = "unat (unit_bytes (view_unit v))"
  have e: "unat (region_end ?r) * ?u = unat e"
    using assms(2) by (simp add: end_bytes_def to_bytes_Inr_iff)
  have le: "unat (region_start ?r) \<le> unat (region_end ?r)"
    using assms(1) by (simp add: valid_raw_region_def word_le_nat_alt)
  have conv: "\<exists>b. to_bytes (view_unit v) n = Inr b \<and> unat b = unat n * ?u"
    if "unat n \<le> unat (region_end ?r)" for n
  proof -
    have "unat n * ?u \<le> unat e" using that by (simp add: e [symmetric])
    then have "unat n * ?u < 2 ^ 64" using unat_less [of e] by simp
    then have "to_bytes (view_unit v) n = Inr (n * unit_bytes (view_unit v))"
      by (simp add: to_bytes_def checked_mul_def)
    then show ?thesis by (auto simp: to_bytes_Inr_iff)
  qed
  obtain s where s: "start_bytes v = Inr s" "unat s = unat (region_start ?r) * ?u"
    using conv [OF le] by (auto simp: start_bytes_def)
  have "unat (raw_len_units ?r) \<le> unat (region_end ?r)"
    by (simp add: unat_raw_len_units [OF assms(1)])
  then obtain l where l: "len_bytes v = Inr l"
      "unat l = (unat (region_end ?r) - unat (region_start ?r)) * ?u"
    using conv [of "raw_len_units ?r"] unat_raw_len_units [OF assms(1)]
    by (auto simp: len_bytes_def)
  have "unat s + unat l = unat e"
    using le by (simp add: s(2) l(2) e [symmetric] diff_mult_distrib)
  with s(1) l(1) that show thesis by blast
qed

end
