(* ===== verification/Properties_Config.thy ===== *)
theory Properties_Config
  imports Samples Region
begin

text \<open>
  The properties of the data model: addresses and their units, snapshots, the kernel's names,
  and the validation and comparison of configurations. Each is followed by a witness that
  applies it to a concrete input.
\<close>

section \<open>Addresses and regions\<close>

text \<open>
  A byte range converted to a covering region under a valid address unit always succeeds
  on a non-empty range, never wraps, contains the range, and is the smallest such region: its
  start is the last unit boundary at or before the first byte, its end the first one at or
  after the exclusive end.
\<close>

lemma covering_range_tight:
  assumes "valid_unit u" and "s < e"
  shows "\<exists>r. from_byte_range_covering s e u = Inr r \<and> init_start r < init_end r
    \<and> unat (init_start r) * unat (unit_bytes u) \<le> unat s
    \<and> unat s < (unat (init_start r) + 1) * unat (unit_bytes u)
    \<and> unat e \<le> unat (init_end r) * unat (unit_bytes u)
    \<and> (\<forall>n. unat e \<le> n * unat (unit_bytes u) \<longrightarrow> unat (init_end r) \<le> n)"
proof -
  let ?c = "unat (unit_bytes u)"
  have "unat s < unat e" using assms(2) by (simp add: word_less_nat_alt)
  then have "unat (floor_units u s) * ?c < unat (ceil_units u e) * ?c"
    using floor_units_bounds(1) [OF assms(1), of s] ceil_units_ge [OF assms(1), of e] by linarith
  then have "floor_units u s < ceil_units u e" by (simp add: word_less_nat_alt)
  then have "from_byte_range_covering s e u
      = Inr \<lparr>init_start = floor_units u s, init_end = ceil_units u e\<rparr>"
    using assms(2) by (simp add: from_byte_range_covering_def InitialRegion_new_def not_le)
  then show ?thesis
    using \<open>floor_units u s < ceil_units u e\<close> floor_units_bounds [OF assms(1), of s]
      ceil_units_ge [OF assms(1), of e] ceil_units_least [OF assms(1), of e] by simp
qed

lemma covering_range_tight_witness:
  "\<exists>r. from_byte_range_covering 5000 9000 \<lparr>unit_bytes = 4096\<rparr> = Inr r
     \<and> init_start r < init_end r"
  using covering_range_tight [of "\<lparr>unit_bytes = 4096\<rparr>" 5000 9000]
  by (auto simp: valid_unit_def)

text \<open>
  The exact conversion of a byte range succeeds exactly when both ends are multiples of the
  unit and the range is not empty; the region it returns converts back to the same bytes.
\<close>

lemma exact_range_roundtrip:
  assumes "valid_unit u"
  shows "from_byte_range_exact s e u = Inr r \<longleftrightarrow>
    to_bytes u (init_start r) = Inr s \<and> to_bytes u (init_end r) = Inr e \<and> s < e"
proof -
  let ?c = "unat (unit_bytes u)"
  have c: "0 < ?c" by (rule valid_unit_pos [OF assms])
  have multiple: "m mod k = 0 \<and> i = m div k \<longleftrightarrow> i * k = m" if "0 < k" for m k i :: nat
    using that by auto
  have exact: "units_from_bytes_exact u b = Inr n \<longleftrightarrow> to_bytes u n = Inr b" for b n
    unfolding exact_Inr_iff to_bytes_Inr_iff by (rule multiple [OF c])
  have less: "init_start r < init_end r \<longleftrightarrow> s < e"
    if "to_bytes u (init_start r) = Inr s" "to_bytes u (init_end r) = Inr e"
    using that c unfolding to_bytes_Inr_iff word_less_nat_alt by (metis mult_less_cancel2)
  show ?thesis
    unfolding from_byte_range_exact_def and_then_Inr_iff InitialRegion_new_Inr_iff exact
    using less by (cases r) auto
qed

lemma exact_range_roundtrip_witness:
  "from_byte_range_exact 8192 12288 \<lparr>unit_bytes = 4096\<rparr> = Inr \<lparr>init_start = 2, init_end = 3\<rparr>"
  using exact_range_roundtrip [of "\<lparr>unit_bytes = 4096\<rparr>" 8192 12288
      "\<lparr>init_start = 2, init_end = 3\<rparr>"]
  by (simp add: valid_unit_def to_bytes_def checked_mul_def)

text \<open>
  For every region the kernel handed over, if its end address converts to bytes under the
  effective address unit then so do its start and its length, and start plus length is the end:
  a snapshot view never reports inconsistent byte values.
\<close>

lemma region_view_consistent:
  assumes "RawRegion_from_kernel s e n a f ps = Inr r"
    and "end_bytes \<lparr>view_raw = r, view_unit = u\<rparr> = Inr eb"
  shows "\<exists>sb lb. start_bytes \<lparr>view_raw = r, view_unit = u\<rparr> = Inr sb
    \<and> len_bytes \<lparr>view_raw = r, view_unit = u\<rparr> = Inr lb \<and> unat sb + unat lb = unat eb"
proof -
  have "valid_raw_region (view_raw \<lparr>view_raw = r, view_unit = u\<rparr>)"
    using RawRegion_from_kernel_valid [OF assms(1)] by simp
  from end_bytes_covers [OF this assms(2)] show ?thesis by metis
qed

lemma region_view_consistent_witness:
  "\<exists>r sb lb. RawRegion_from_kernel 2 5 1 0 None [] = Inr r
     \<and> start_bytes \<lparr>view_raw = r, view_unit = \<lparr>unit_bytes = 4096\<rparr>\<rparr> = Inr sb
     \<and> len_bytes \<lparr>view_raw = r, view_unit = \<lparr>unit_bytes = 4096\<rparr>\<rparr> = Inr lb
     \<and> unat sb + unat lb = 20480"
proof -
  obtain r where r: "RawRegion_from_kernel 2 5 1 0 None [] = Inr r" "region_end r = 5"
    by (simp add: RawRegion_from_kernel_def)
  then have "end_bytes \<lparr>view_raw = r, view_unit = \<lparr>unit_bytes = 4096\<rparr>\<rparr> = Inr 20480"
    by (simp add: end_bytes_def to_bytes_def checked_mul_def)
  from region_view_consistent [OF r(1) this] r(1) show ?thesis by auto
qed

text \<open>
  The probe results of a region read from the kernel are the indices and hit counts the
  kernel reported, in order, whether they are stored inline (at most four) or on the heap.
\<close>

lemma probe_results_preserved:
  assumes "RawRegion_from_kernel s e n a f ps = Inr r"
  shows "raw_probe_results r = map (\<lambda>(i, h). \<lparr>hit_index = i, hit_hits = h\<rparr>) ps
    \<and> valid_raw_region r"
  using assms RawRegion_from_kernel_valid [OF assms]
  by (simp add: RawRegion_from_kernel_Inr_iff raw_probe_results_def raw_probe_indices_def
      raw_probe_hits_def ProbeHits_from_kernel_indices ProbeHits_from_kernel_hits zip_map_fst_snd)

lemma probe_results_preserved_witness:
  "\<exists>r. RawRegion_from_kernel 0 1 0 0 None [(0, 1), (1, 2), (2, 3), (3, 4), (4, 5)] = Inr r
     \<and> length (raw_probe_results r) = 5"
proof -
  obtain r where r: "RawRegion_from_kernel 0 1 0 0 None
      [(0, 1), (1, 2), (2, 3), (3, 4), (4, 5)] = Inr r"
    by (simp add: RawRegion_from_kernel_def)
  from probe_results_preserved [OF this] r show ?thesis by simp
qed

section \<open>Names and values of the kernel\<close>

text \<open>
  The names of the kernel interface round trip. For operations, actions, scheme filter types
  and quota goal metrics: writing back a parsed name gives the same name, also for names this
  crate does not know; different names parse to different values; and a value is the parse of
  its own name exactly when it is the parse of some name, so an unknown variant that carries a
  known name is the only value that does not survive.
\<close>

lemma kernel_names_roundtrip:
  "Operation_kernel_name (Operation_parse s) = s
   \<and> Action_kernel_name (Action_parse s) = s
   \<and> SchemeFilterType_kernel_name (SchemeFilterType_parse s) = s
   \<and> QuotaGoalMetric_kernel_name (QuotaGoalMetric_parse s) = s
   \<and> (Operation_parse s = Operation_parse t \<longleftrightarrow> s = t) \<and> (Action_parse s = Action_parse t \<longleftrightarrow> s = t)
   \<and> (SchemeFilterType_parse s = SchemeFilterType_parse t \<longleftrightarrow> s = t)
   \<and> (QuotaGoalMetric_parse s = QuotaGoalMetric_parse t \<longleftrightarrow> s = t)
   \<and> (Action_parse (Action_kernel_name a) = a \<longleftrightarrow> a \<in> range Action_parse)
   \<and> (Operation_parse (Operation_kernel_name op) = op \<longleftrightarrow> op \<in> range Operation_parse)"
  by (intro conjI operation_enum.name_parse action_enum.name_parse scheme_filter_enum.name_parse
      metric_enum.name_parse operation_enum.parse_inject action_enum.parse_inject
      scheme_filter_enum.parse_inject metric_enum.parse_inject action_enum.parse_name_iff
      operation_enum.parse_name_iff)

section \<open>Validation\<close>

text \<open>
  A target passes validation exactly when it has at most as many regions as the kernel can
  index, every region is non-empty, and every region ends before each later one starts: the
  one-pass check with a running end decides pairwise disjointness.
\<close>

lemma target_validation_decides_disjointness:
  "TargetConfig_validate t = Inr () \<longleftrightarrow>
     length (target_regions t) \<le> KERNEL_INDEX_MAX
     \<and> (\<forall>i < length (target_regions t). init_start (target_regions t ! i)
            < init_end (target_regions t ! i))
     \<and> (\<forall>i j. i < j \<and> j < length (target_regions t) \<longrightarrow>
            init_end (target_regions t ! i) \<le> init_start (target_regions t ! j))"
proof -
  have "disjoint_regions rs \<longleftrightarrow>
      (\<forall>i < length rs. init_start (rs ! i) < init_end (rs ! i))
      \<and> (\<forall>i j. i < j \<and> j < length rs \<longrightarrow> init_end (rs ! i) \<le> init_start (rs ! j))" for rs
    by (auto simp: disjoint_regions_def all_set_conv_all_nth sorted_wrt_iff_nth_less)
  then show ?thesis by (simp add: TargetConfig_validate_Inr_iff)
qed

lemma target_validation_decides_disjointness_witness:
  "TargetConfig_validate \<lparr>target_pid = None, target_obsolete = False,
      target_regions = [\<lparr>init_start = 0, init_end = 4\<rparr>, \<lparr>init_start = 4, init_end = 9\<rparr>]\<rparr>
     = Inr ()"
  unfolding target_validation_decides_disjointness
  by (auto simp: KERNEL_INDEX_MAX_def less_Suc_eq nth_Cons')

text \<open>
  C39. The alignment check accepts the targets of a physical or virtual context exactly when the
  regions the kernel derives from them are sound: every end rounded up to the minimum region
  size fits in 64 bits, and each rounded region ends before the next one starts.
\<close>

theorem alignment_check_predicts_kernel:
  assumes "minimum_region_units ps op u = Some a" and "ps \<noteq> 0"
  shows "validate_kernel_aligned_initial_regions ts (minimum_region_units ps op u) = Inr () \<longleftrightarrow>
    (\<forall>t\<in>set ts. kernel_regions_ok (unat a) (target_regions t))"
proof -
  have "max (ps div unit_bytes u) 1 \<noteq> 0" by (metis max.cobounded2 word_le_0_iff zero_neq_one)
  then have "a \<noteq> 0" using assms
    by (auto simp: minimum_region_units_def split: operation.splits)
  then show ?thesis by (simp add: assms(1) validate_kernel_aligned_Inr_iff)
qed

theorem alignment_check_predicts_kernel_witness:
  "validate_kernel_aligned_initial_regions
     [\<lparr>target_pid = None, target_obsolete = False,
       target_regions = [\<lparr>init_start = 100, init_end = 5000\<rparr>, \<lparr>init_start = 8192, init_end = 9000\<rparr>]\<rparr>]
     (minimum_region_units 4096 PhysicalAddress AddressUnit_ONE) = Inr ()"
proof -
  have a: "minimum_region_units 4096 PhysicalAddress AddressUnit_ONE = Some 4096"
    by (simp add: minimum_region_units_def AddressUnit_ONE_def)
  show ?thesis
    by (subst alignment_check_predicts_kernel [OF a])
      (simp_all add: kernel_regions_ok_def kernel_start_def kernel_end_def)
qed

text \<open>
  C37. Weighted probes of an accepted context never overflow the kernel's 32-bit sum: whatever
  hit counts the probes reach within an aggregation interval, the weighted sum stays below
  2^32.
\<close>

theorem weighted_probes_never_overflow:
  assumes "ContextConfig_validate_runnable ps c = Inr ()"
    and "length hs = length (c_probes c)"
    and "\<forall>h\<in>set hs. h \<le> maximum_hits (c_intervals c)"
  shows "sum_list (map2 (\<lambda>p h. unat (probe_weight p) * h) (c_probes c) hs) < 2 ^ 32"
  using assms
  by (intro weighted_probes_bound)
    (auto simp: ContextConfig_validate_runnable_def runnable_lifecycle_Inr_iff)

theorem weighted_probes_never_overflow_witness:
  "sum_list (map2 (\<lambda>p h. unat (probe_weight p) * h) (c_probes sample_context) [20]) < 2 ^ 32"
proof (rule weighted_probes_never_overflow [OF sample_context_valid])
  have "maximum_hits (c_intervals sample_context) = 20"
    by (simp add: maximum_hits_def sample_defs intervals_sample_def intervals_aggregation_def
        as_micros_def from_micros_def)
  then show "\<forall>h\<in>set [20]. h \<le> maximum_hits (c_intervals sample_context)" by simp
qed (simp add: sample_defs)

text \<open>
  Migration destinations of an accepted scheme are usable by the kernel: every node fits a
  signed NUMA identifier, the weights sum to less than 2^32, and to more than zero when there
  is a destination at all.
\<close>

lemma accepted_destinations_usable:
  assumes "SchemeConfig_validate_for s n = Inr ()"
  shows "(\<forall>d\<in>set (s_destinations s). unat (dest_node d) < 2 ^ 31)
    \<and> sum_list (map (\<lambda>d. unat (dest_weight d)) (s_destinations s)) < 2 ^ 32
    \<and> (s_destinations s \<noteq> [] \<longrightarrow> 0 < sum_list (map (\<lambda>d. unat (dest_weight d)) (s_destinations s)))"
proof -
  let ?sum = "sum_list (map (\<lambda>d. unat (dest_weight d)) (s_destinations s))"
  obtain w where w: "total_weight_from 0 (s_destinations s) = Inr w"
    and nonzero: "\<not> (s_destinations s \<noteq> [] \<and> w = 0)"
    using assms by (auto simp: SchemeConfig_validate_for_def and_then_Inr_iff split: if_splits)
  then have nodes: "\<forall>d\<in>set (s_destinations s). unat (dest_node d) \<le> 2147483647"
    and sum: "unat w = ?sum"
    by (simp_all add: total_weight_from_Inr_iff)
  have "unat w < 2 ^ 32" using unat_less [of w] by simp
  moreover have "0 < unat w" if "s_destinations s \<noteq> []"
    using nonzero that by (simp add: unat_gt_0)
  ultimately show ?thesis using nodes unfolding sum by auto
qed

lemma accepted_destinations_usable_witness:
  "0 < sum_list (map (\<lambda>d. unat (dest_weight d)) (s_destinations sample_scheme))"
  using accepted_destinations_usable [OF sample_scheme_valid [of 1]] by (simp add: sample_defs)

text \<open>
  A hierarchy accepted for starting has at least one kdamond, each with exactly one
  context, and each context has valid targets of which none is obsolete; virtual-address
  targets name a process, and a physical-address context has one target with initial regions
  and no process. Whatever may be started may also be applied as an update while running.
\<close>

lemma runnable_hierarchy_sound:
  assumes "DamonConfig_validate_runnable ps d = Inr ()"
  shows "DamonConfig_validate_running_update ps d = Inr () \<and> d_kdamonds d \<noteq> []
    \<and> (\<forall>k\<in>set (d_kdamonds d). \<exists>c. k_contexts k = [c] \<and> c_targets c \<noteq> []
         \<and> (\<forall>t\<in>set (c_targets c). \<not> target_obsolete t \<and> TargetConfig_validate t = Inr ())
         \<and> (c_operation c \<in> {VirtualAddress, FixedVirtualAddress} \<longrightarrow>
              (\<forall>t\<in>set (c_targets c). target_pid t \<noteq> None))
         \<and> (c_operation c = PhysicalAddress \<longrightarrow>
              (\<exists>t. c_targets c = [t] \<and> target_pid t = None \<and> target_regions t \<noteq> [])))"
proof (intro conjI ballI)
  note iffs = DamonConfig_validate_runnable_def DamonConfig_validate_running_update_def
    DamonConfig_runnable_Inr_iff
  show "DamonConfig_validate_running_update ps d = Inr ()" "d_kdamonds d \<noteq> []"
    using assms runnable_mono by (fastforce simp: iffs)+
  fix k assume "k \<in> set (d_kdamonds d)"
  then obtain c where c: "k_contexts k = [c]"
    and ok: "ContextConfig_validate_runnable_for_lifecycle ps False c = Inr ()"
    using assms by (auto simp: iffs)
  then have fresh: "\<forall>t\<in>set (c_targets c). \<not> target_obsolete t"
    and retained: "retained_targets c \<noteq> []" and runnable: "validate_runnable_targets c = Inr ()"
    and valid: "ContextConfig_validate ps c = Inr ()"
    by (auto simp: runnable_lifecycle_Inr_iff)
  have all: "retained_targets c = c_targets c" using fresh by (simp add: retained_targets_def)
  have targets: "\<forall>t\<in>set (c_targets c). TargetConfig_validate t = Inr ()"
    using valid by (simp add: ContextConfig_validate_def and_then_Inr_iff)
  have one: "length xs = 1 \<longleftrightarrow> (\<exists>x. xs = [x])" for xs :: "target_config list"
    by (cases xs) auto
  have paddr: "\<exists>t. c_targets c = [t] \<and> target_pid t = None \<and> target_regions t \<noteq> []"
    if "c_operation c = PhysicalAddress"
    using runnable that one [of "c_targets c"]
    by (auto simp: validate_runnable_targets_def split: if_splits)
  show "\<exists>c. k_contexts k = [c] \<and> c_targets c \<noteq> []
      \<and> (\<forall>t\<in>set (c_targets c). \<not> target_obsolete t \<and> TargetConfig_validate t = Inr ())
      \<and> (c_operation c \<in> {VirtualAddress, FixedVirtualAddress} \<longrightarrow>
           (\<forall>t\<in>set (c_targets c). target_pid t \<noteq> None))
      \<and> (c_operation c = PhysicalAddress \<longrightarrow>
           (\<exists>t. c_targets c = [t] \<and> target_pid t = None \<and> target_regions t \<noteq> []))"
    using c fresh targets retained runnable paddr all
    by (intro exI [of _ c]) (auto simp: validate_runnable_targets_def split: if_splits)
qed

lemma runnable_hierarchy_sound_witness:
  "DamonConfig_validate_running_update 4096 sample_damon = Inr ()"
  using runnable_hierarchy_sound [OF sample_valid] by simp

section \<open>Comparison with what the kernel reports\<close>

text \<open>
  Resolving the placement of requested filters against the kernel's directories is a
  projection: no filter is lost, duplicated or changed except for an adaptive placement, no
  adaptive placement is left, and resolving again changes nothing. On a kernel with split
  directories the result is all core filters, then all operations filters, then the unified
  ones, each group in the order requested: the order in which the directories are read back.
\<close>

lemma filter_placement_projection:
  "canonicalize_filter_placements (canonicalize_filter_placements fs ob) ob
     = canonicalize_filter_placements fs ob
   \<and> mset (canonicalize_filter_placements fs ob) = mset (map (resolve_placement (is_split ob)) fs)
   \<and> (\<forall>f\<in>set (canonicalize_filter_placements fs ob). f_placement f \<noteq> Adaptive)
   \<and> canonicalize_filter_placements fs ob =
       (if is_split ob then in_directory_order (map (resolve_placement True) fs)
        else map (resolve_placement False) fs)"
proof (intro conjI)
  show "mset (canonicalize_filter_placements fs ob)
      = mset (map (resolve_placement (is_split ob)) fs)"
    by (simp add: canonicalize_filter_placements_def Let_def)
qed (simp_all add: canonicalize_idem canonicalize_no_adaptive canonicalize_split
    canonicalize_unsplit)

lemma filter_placement_projection_witness:
  "canonicalize_filter_placements [FilterConfig_new SfAnonymous True True] []
     = [(FilterConfig_new SfAnonymous True True)\<lparr>f_placement := Unified\<rparr>]"
  using filter_placement_projection [of "[FilterConfig_new SfAnonymous True True]" "[]"]
  by (simp add: is_split_def resolve_placement_def FilterConfig_new_def)



text \<open>
  When the comparison fails, the error is the first difference of the two hierarchies: the
  fallback that names only the root is never used.
\<close>

lemma mismatch_error_names_difference:
  assumes "mismatch_error d ob = Some e"
  shows "first_damon_difference d ob = Some e"
proof -
  from assms have "d \<noteq> ob"
    by (auto simp: mismatch_error_def equivalent_after_kernel_normalization_def)
  then obtain x where "first_damon_difference d ob = Some x"
    using first_damon_difference_None [of d ob] by fastforce
  with assms show ?thesis by (simp add: mismatch_error_def split: if_splits)
qed

lemma mismatch_error_names_difference_witness:
  "first_damon_difference \<lparr>d_kdamonds = []\<rparr> \<lparr>d_kdamonds = [\<lparr>k_refresh = 0, k_contexts = []\<rparr>]\<rparr>
     = Some (ConfigurationMismatch ''kdamonds/nr_kdamonds'')"
  by (rule mismatch_error_names_difference)
    (simp add: mismatch_error_def equivalent_after_kernel_normalization_def
      first_damon_difference_def)

text \<open>
  The path in the error may name a field the comparison accepts: the first difference is
  looked up before normalisation, so a scheme that asks for all sizes on a 32-bit kernel and
  differs only in its apply interval is reported as a mismatch of its access pattern, although
  the two patterns are equivalent.
\<close>

definition narrow_scheme :: "scheme_config \<Rightarrow> scheme_config" where
  "narrow_scheme s = s\<lparr>s_pattern := (s_pattern s)\<lparr>pattern_size :=
     (pattern_size (s_pattern s))\<lparr>range_max := 4294967295\<rparr>\<rparr>\<rparr>"

definition hierarchy_of_scheme :: "scheme_config \<Rightarrow> damon_config" where
  "hierarchy_of_scheme s = \<lparr>d_kdamonds = [\<lparr>k_refresh = 0,
     k_contexts = [(ContextConfig_new PhysicalAddress)\<lparr>c_schemes := [s]\<rparr>]\<rparr>]\<rparr>"

lemma mismatch_error_before_normalisation:
  assumes "range_max (pattern_size (s_pattern s)) = u64_max"
    and "reported_filters (s_filters s)" and "s_apply_interval s \<noteq> t"
  shows "pattern_equivalent (s_pattern s) (s_pattern (narrow_scheme s))
    \<and> mismatch_error (hierarchy_of_scheme s)
        (hierarchy_of_scheme ((narrow_scheme s)\<lparr>s_apply_interval := t\<rparr>))
      = Some (ConfigurationMismatch ''kdamonds/0/contexts/0/schemes/0/access_pattern'')"
proof -
  let ?d = "hierarchy_of_scheme s" and ?o = "(narrow_scheme s)\<lparr>s_apply_interval := t\<rparr>"
  have "reported_damon (hierarchy_of_scheme ?o)"
    using assms(2) by (simp add: reported_damon_def hierarchy_of_scheme_def narrow_scheme_def)
  moreover have "\<not> damon_equivalent ?d (hierarchy_of_scheme ?o)"
    using assms(3)
    by (cases s) (auto simp: damon_equivalent_def kdamond_equivalent_def context_equivalent_def
        scheme_equivalent_def hierarchy_of_scheme_def narrow_scheme_def)
  ultimately have mismatch: "\<not> equivalent_after_kernel_normalization ?d (hierarchy_of_scheme ?o)"
    by (simp add: equivalent_iff)
  have pattern: "s_pattern s \<noteq> s_pattern ?o" and same: "s_action s = s_action ?o"
    using assms(1)
    by (cases "s_pattern s"; cases "pattern_size (s_pattern s)"; simp add: narrow_scheme_def)+
  have "s \<noteq> ?o" using pattern by metis
  moreover have "dec 0 = ''0''" by (simp add: dec.simps [of 0] digit_char_def)
  ultimately have "first_damon_difference ?d (hierarchy_of_scheme ?o)
      = Some (ConfigurationMismatch ''kdamonds/0/contexts/0/schemes/0/access_pattern'')"
    using pattern same
    by (simp add: first_damon_difference_def hierarchy_of_scheme_def first_context_difference_def
        first_context_probes_def first_context_targets_def first_context_schemes_def
        first_scheme_difference_def slash_def ContextConfig_new_def)
  with mismatch show ?thesis using assms(1)
    by (simp add: mismatch_error_def pattern_equivalent_def narrow_scheme_def)
qed

lemma mismatch_error_before_normalisation_witness:
  "\<exists>d ob. mismatch_error d ob
     = Some (ConfigurationMismatch ''kdamonds/0/contexts/0/schemes/0/access_pattern'')"
proof -
  let ?s = "SchemeConfig_new Stat (sample_pattern\<lparr>pattern_size :=
      \<lparr>range_min = 0, range_max = u64_max\<rparr>\<rparr>)"
  have "reported_filters (s_filters ?s)"
    by (simp add: reported_filters_def SchemeConfig_new_def canonicalize_filter_placements_def)
  with mismatch_error_before_normalisation [of ?s 1] show ?thesis
    by (auto simp: SchemeConfig_new_def)
qed

end
