(* ===== verification/Sysfs_IO.thy ===== *)
theory Sysfs_IO
  imports Config_Context
begin

text \<open>
  \<^verbatim>\<open>src/src/sysfs/io.rs\<close> and the reading and writing helpers of
  \<^verbatim>\<open>src/src/sysfs/configuration/helpers.rs\<close>. The kernel is a parameter: a record of the system
  calls the sources make, each a function of a kernel state it may change, so that interference
  by other processes between two calls is part of the model. A computation takes a world (the
  kernel and the thread's write journal) to a result and the next world.
\<close>

section \<open>The kernel and its system calls\<close>

datatype file_kind = KindDir | KindFile | KindOther

record dir_entry =
  entry_name :: string
  entry_kind :: "io_error + file_kind"

record metadata =
  meta_is_dir :: bool
  meta_readonly :: bool

text \<open>
  An open file: the pieces in which the kernel hands out its content, and how the sequence
  ends. One \<open>read\<close> call returns at most the buffer's size of the first piece; an empty answer
  is the end of the file.
\<close>

record handle =
  h_pieces :: "string list"
  h_failure :: "io_error option"

record 'k sysfs =
  sys_exists :: "path \<Rightarrow> 'k \<Rightarrow> (io_error + bool) \<times> 'k"
  sys_metadata :: "path \<Rightarrow> 'k \<Rightarrow> (io_error + metadata) \<times> 'k"
  sys_read_dir :: "path \<Rightarrow> 'k \<Rightarrow> (io_error + (io_error + dir_entry) list) \<times> 'k"
  sys_open_read :: "path \<Rightarrow> 'k \<Rightarrow> (io_error + handle) \<times> 'k"
  sys_open_write :: "path \<Rightarrow> 'k \<Rightarrow> (io_error + unit) \<times> 'k"
  sys_write :: "path \<Rightarrow> string \<Rightarrow> 'k \<Rightarrow> (io_error + nat) \<times> 'k"
  sys_sleep :: "duration \<Rightarrow> 'k \<Rightarrow> 'k"
  sys_fuel :: nat

record 'k world =
  w_kernel :: 'k
  w_journal :: "path list option"

type_synonym ('k, 'a) comp = "'k world \<Rightarrow> 'a result \<times> 'k world"

definition sret :: "'a \<Rightarrow> ('k, 'a) comp" where
  "sret x w = (Inr x, w)"

definition sfail :: "error \<Rightarrow> ('k, 'a) comp" where
  "sfail e w = (Inl e, w)"

definition sbind :: "('k, 'a) comp \<Rightarrow> ('a \<Rightarrow> ('k, 'b) comp) \<Rightarrow> ('k, 'b) comp" where
  "sbind m f w = (case m w of (Inl e, w') \<Rightarrow> (Inl e, w') | (Inr x, w') \<Rightarrow> f x w')"

text \<open>A pure result inside a computation, and a computation whose error is inspected.\<close>

definition slift :: "'a result \<Rightarrow> ('k, 'a) comp" where
  "slift r w = (r, w)"

definition stry :: "('k, 'a) comp \<Rightarrow> ('a result \<Rightarrow> ('k, 'b) comp) \<Rightarrow> ('k, 'b) comp" where
  "stry m f w = (case m w of (r, w') \<Rightarrow> f r w')"

fun seach :: "('a \<Rightarrow> ('k, unit) comp) \<Rightarrow> 'a list \<Rightarrow> ('k, unit) comp" where
  "seach f [] = sret ()"
| "seach f (x # xs) = sbind (f x) (\<lambda>_. seach f xs)"

fun smap :: "('a \<Rightarrow> ('k, 'b) comp) \<Rightarrow> 'a list \<Rightarrow> ('k, 'b list) comp" where
  "smap f [] = sret []"
| "smap f (x # xs) = sbind (f x) (\<lambda>y. sbind (smap f xs) (\<lambda>ys. sret (y # ys)))"

text \<open>One system call, its error handed to the caller as a value.\<close>

definition syscall :: "('k \<Rightarrow> (io_error + 'a) \<times> 'k) \<Rightarrow> ('k, io_error + 'a) comp" where
  "syscall f w = (case f (w_kernel w) of (r, k) \<Rightarrow> (Inr r, w\<lparr>w_kernel := k\<rparr>))"

definition io_fail :: "string \<Rightarrow> path \<Rightarrow> io_error \<Rightarrow> ('k, 'a) comp" where
  "io_fail op p e = sfail (Io op p e)"

definition call :: "string \<Rightarrow> path \<Rightarrow> ('k \<Rightarrow> (io_error + 'a) \<times> 'k) \<Rightarrow> ('k, 'a) comp" where
  "call op p f =
     sbind (syscall f) (\<lambda>r. case r of Inl e \<Rightarrow> io_fail op p e | Inr x \<Rightarrow> sret x)"

lemma sbind_sret [simp]: "sbind (sret x) f = f x"
  by (simp add: fun_eq_iff sbind_def sret_def)

lemma sbind_sfail [simp]: "sbind (sfail e) f = sfail e"
  by (simp add: fun_eq_iff sbind_def sfail_def)

lemma sbind_assoc: "sbind (sbind m f) g = sbind m (\<lambda>x. sbind (f x) g)"
  by (simp add: fun_eq_iff sbind_def split: prod.splits sum.splits)

lemma sbind_Inr_iff [result_simps]:
  "sbind m f w = (Inr y, w'') \<longleftrightarrow> (\<exists>x w'. m w = (Inr x, w') \<and> f x w' = (Inr y, w''))"
  by (auto simp: sbind_def split: prod.splits sum.splits)

lemma sbind_Inl_iff:
  "sbind m f w = (Inl e, w'') \<longleftrightarrow>
     m w = (Inl e, w'') \<or> (\<exists>x w'. m w = (Inr x, w') \<and> f x w' = (Inl e, w''))"
  by (auto simp: sbind_def split: prod.splits sum.splits)

section \<open>Inspecting the hierarchy\<close>

definition path_exists :: "'k sysfs \<Rightarrow> path \<Rightarrow> ('k, bool) comp" where
  "path_exists E p = call ''inspect'' p (sys_exists E p)"

definition path_is_dir :: "'k sysfs \<Rightarrow> path \<Rightarrow> ('k, bool) comp" where
  "path_is_dir E p =
     sbind (syscall (sys_metadata E p)) (\<lambda>r.
       case r of
         Inr m \<Rightarrow> sret (meta_is_dir m)
       | Inl e \<Rightarrow> if io_error_kind e = NotFound then sret False else io_fail ''inspect'' p e)"

definition path_is_writable :: "'k sysfs \<Rightarrow> path \<Rightarrow> ('k, bool) comp" where
  "path_is_writable E p =
     sbind (call ''inspect permissions'' p (sys_metadata E p)) (\<lambda>m.
       sret (\<not> meta_readonly m))"

definition entry_path :: "path \<Rightarrow> dir_entry \<Rightarrow> path" where
  "entry_path directory e = directory @ [Normal (entry_name e)]"

fun numeric_entries ::
    "path \<Rightarrow> (io_error + dir_entry) list \<Rightarrow> usize list \<Rightarrow> usize list result" where
  "numeric_entries p [] indices = Inr indices"
| "numeric_entries p (Inl e # es) indices = Inl (Io ''read directory entry'' p e)"
| "numeric_entries p (Inr d # es) indices =
     (case entry_kind d of
        Inl e \<Rightarrow> Inl (Io ''inspect directory entry'' (entry_path p d) e)
      | Inr kind \<Rightarrow>
          if kind \<noteq> KindDir then numeric_entries p es indices
          else if \<not> utf8_valid (entry_name d) then numeric_entries p es indices
          else case parse_usize (entry_name d) of
            None \<Rightarrow> numeric_entries p es indices
          | Some index \<Rightarrow> numeric_entries p es (indices @ [index]))"

definition numeric_directory_indices :: "'k sysfs \<Rightarrow> path \<Rightarrow> ('k, usize list) comp" where
  "numeric_directory_indices E p =
     sbind (syscall (sys_read_dir E p)) (\<lambda>r.
       case r of
         Inl e \<Rightarrow> if io_error_kind e = NotFound then sret [] else io_fail ''list directory'' p e
       | Inr entries \<Rightarrow>
           sbind (slift (numeric_entries p entries [])) (\<lambda>indices. sret (sort indices)))"

text \<open>
  \<open>all_files_recursive\<close>: a stack of directories still to list. The loop ends because the
  hierarchy is finite; \<open>sys_fuel\<close> bounds the number of directories listed.
\<close>

fun walk_entries ::
    "path \<Rightarrow> (io_error + dir_entry) list \<Rightarrow> path list \<Rightarrow> path list \<Rightarrow> (path list \<times> path list) result"
  where
  "walk_entries dir [] pending files = Inr (pending, files)"
| "walk_entries dir (Inl e # es) pending files = Inl (Io ''read directory entry'' dir e)"
| "walk_entries dir (Inr d # es) pending files =
     (case entry_kind d of
        Inl e \<Rightarrow> Inl (Io ''inspect directory entry'' (entry_path dir d) e)
      | Inr KindDir \<Rightarrow> walk_entries dir es (entry_path dir d # pending) files
      | Inr KindFile \<Rightarrow> walk_entries dir es pending (files @ [entry_path dir d])
      | Inr KindOther \<Rightarrow> walk_entries dir es pending files)"

fun walk :: "nat \<Rightarrow> 'k sysfs \<Rightarrow> path list \<Rightarrow> path list \<Rightarrow> ('k, path list) comp" where
  "walk fuel E [] files = sret files"
| "walk 0 E (dir # pending) files =
     io_fail ''list directory'' dir (KindError OtherKind ''unbounded hierarchy'')"
| "walk (Suc fuel) E (dir # pending) files =
     sbind (call ''list directory'' dir (sys_read_dir E dir)) (\<lambda>entries.
     sbind (slift (walk_entries dir entries pending files)) (\<lambda>(pending', files').
       walk fuel E pending' files'))"

definition all_files_recursive :: "'k sysfs \<Rightarrow> path \<Rightarrow> ('k, path list) comp" where
  "all_files_recursive E root = walk (sys_fuel E) E [root] []"

section \<open>Reading attributes\<close>

fun read_handle :: "nat \<Rightarrow> handle \<Rightarrow> (io_error + string) \<times> handle" where
  "read_handle n h =
     (case h_pieces h of
        [] \<Rightarrow> (case h_failure h of Some e \<Rightarrow> Inl e | None \<Rightarrow> Inr [], h)
      | s # ss \<Rightarrow>
          (Inr (take n s), h\<lparr>h_pieces := if drop n s = [] then ss else drop n s # ss\<rparr>))"

definition handle_size :: "handle \<Rightarrow> nat" where
  "handle_size h = length (concat (h_pieces h)) + length (h_pieces h)"

lemma read_handle_shrinks:
  "read_handle n h = (Inr bytes, h') \<Longrightarrow> bytes \<noteq> [] \<Longrightarrow> handle_size h' < handle_size h"
  by (cases "h_pieces h") (auto simp: handle_size_def split: option.splits if_splits)

declare read_handle.simps [simp del]

text \<open>\<open>read_to_string\<close>: every piece, then the UTF-8 test.\<close>

fun read_all :: "string list \<Rightarrow> string" where
  "read_all [] = []"
| "read_all (s # ss) = (if s = [] then [] else s @ read_all ss)"

definition reaches_end :: "handle \<Rightarrow> bool" where
  "reaches_end h \<longleftrightarrow> [] \<in> set (h_pieces h) \<or> h_failure h = None"

definition read_to_string :: "handle \<Rightarrow> io_error + string" where
  "read_to_string h =
     (case (if [] \<in> set (h_pieces h) then None else h_failure h) of
        Some e \<Rightarrow> Inl e
      | None \<Rightarrow>
          if utf8_valid (read_all (h_pieces h)) then Inr (read_all (h_pieces h))
          else Inl (KindError InvalidData ''stream did not contain valid UTF-8''))"

definition read_text :: "'k sysfs \<Rightarrow> path \<Rightarrow> ('k, string) comp" where
  "read_text E p =
     sbind (call ''read'' p (sys_open_read E p)) (\<lambda>h.
       case read_to_string h of Inl e \<Rightarrow> io_fail ''read'' p e | Inr s \<Rightarrow> sret s)"

text \<open>
  \<open>match_configuration_chunk\<close>: the two counters, or \<open>None\<close> where the source returns false.
\<close>

fun match_configuration_chunk :: "string \<Rightarrow> string \<Rightarrow> nat \<times> bool \<Rightarrow> (nat \<times> bool) option" where
  "match_configuration_chunk [] expected st = Some st"
| "match_configuration_chunk (byte # bytes) expected (matched, newline_seen) =
     (if matched < length expected then
        if byte \<noteq> expected ! matched then None
        else match_configuration_chunk bytes expected (Suc matched, newline_seen)
      else
        if newline_seen \<or> byte \<noteq> CHR 0x0A then None
        else match_configuration_chunk bytes expected (matched, True))"

function match_loop :: "string \<Rightarrow> handle \<Rightarrow> nat \<times> bool \<Rightarrow> io_error + bool" where
  "match_loop expected h st =
     (case read_handle 256 h of
        (Inl e, _) \<Rightarrow> Inl e
      | (Inr bytes, h') \<Rightarrow>
          if bytes = [] then Inr (fst st = length expected)
          else case match_configuration_chunk bytes expected st of
            None \<Rightarrow> Inr False
          | Some st' \<Rightarrow> match_loop expected h' st')"
  by pat_completeness auto
termination
  by (relation "measure (\<lambda>(_, h, _). handle_size h)") (auto dest: read_handle_shrinks [OF sym])

declare match_loop.simps [simp del]

definition read_configuration_value_equals ::
    "'k sysfs \<Rightarrow> path \<Rightarrow> string \<Rightarrow> ('k, bool) comp" where
  "read_configuration_value_equals E p expected =
     sbind (syscall (sys_open_read E p)) (\<lambda>r.
       case r of
         Inl e \<Rightarrow> if io_error_kind e = NotFound then sret False
                  else io_fail ''open for reading'' p e
       | Inr h \<Rightarrow>
           (case match_loop expected h (0, False) of
              Inl e \<Rightarrow> io_fail ''read'' p e
            | Inr b \<Rightarrow> sret b))"

definition invalid_kernel_value :: "path \<Rightarrow> string \<Rightarrow> string \<Rightarrow> error" where
  "invalid_kernel_value p value expected = InvalidKernelValue p value expected"

text \<open>The 64-byte buffer of \<open>read_u64\<close>; a full buffer is an error before the next \<open>read\<close>.\<close>

datatype filled = TooLong | ReadError io_error | Filled string

function fill_buffer :: "string \<Rightarrow> handle \<Rightarrow> filled" where
  "fill_buffer used h =
     (if length used \<ge> 64 then TooLong
      else case read_handle (64 - length used) h of
        (Inl e, _) \<Rightarrow> ReadError e
      | (Inr bytes, h') \<Rightarrow> if bytes = [] then Filled used else fill_buffer (used @ bytes) h')"
  by pat_completeness auto
termination
  by (relation "measure (\<lambda>(_, h). handle_size h)") (auto dest: read_handle_shrinks [OF sym])

declare fill_buffer.simps [simp del]

definition read_u64 :: "'k sysfs \<Rightarrow> path \<Rightarrow> ('k, u64) comp" where
  "read_u64 E p =
     sbind (call ''open for reading'' p (sys_open_read E p)) (\<lambda>h.
       case fill_buffer [] h of
         TooLong \<Rightarrow> sfail (invalid_kernel_value p ''<value too long>'' ''u64'')
       | ReadError e \<Rightarrow> io_fail ''read'' p e
       | Filled bytes \<Rightarrow>
           if \<not> utf8_valid bytes then
             sfail (invalid_kernel_value p ''<non-UTF-8 value>'' ''u64'')
           else
             let value = trim bytes in
             (case parse_u64 value of
                None \<Rightarrow> sfail (invalid_kernel_value p value ''u64'')
              | Some v \<Rightarrow> sret v))"

definition read_usize :: "'k sysfs \<Rightarrow> path \<Rightarrow> ('k, usize) comp" where
  "read_usize E p = sbind (read_u64 E p) (\<lambda>v. sret (unat v))"

definition read_u32 :: "'k sysfs \<Rightarrow> path \<Rightarrow> ('k, u32) comp" where
  "read_u32 E p =
     sbind (read_u64 E p) (\<lambda>v.
       if unat v < 2 ^ 32 then sret (of_nat (unat v))
       else sfail (invalid_kernel_value p (dec_word v) ''u32''))"

definition read_u8 :: "'k sysfs \<Rightarrow> path \<Rightarrow> ('k, u8) comp" where
  "read_u8 E p =
     sbind (read_u64 E p) (\<lambda>v.
       if unat v < 2 ^ 8 then sret (of_nat (unat v))
       else sfail (invalid_kernel_value p (dec_word v) ''u8''))"

definition read_i32 :: "'k sysfs \<Rightarrow> path \<Rightarrow> ('k, i32) comp" where
  "read_i32 E p =
     sbind (read_text E p) (\<lambda>text.
       let value = trim text in
       case parse_i32 value of
         None \<Rightarrow> sfail (invalid_kernel_value p value ''i32'')
       | Some v \<Rightarrow> sret v)"

definition parse_bool :: "string \<Rightarrow> bool option" where
  "parse_bool value =
     (if value \<in> {''1'', ''Y'', ''y'', ''yes'', ''true'', ''on''} then Some True
      else if value \<in> {''0'', ''N'', ''n'', ''no'', ''false'', ''off''} then Some False
      else None)"

definition read_bool :: "'k sysfs \<Rightarrow> path \<Rightarrow> ('k, bool) comp" where
  "read_bool E p =
     sbind (read_text E p) (\<lambda>text.
       let value = trim text in
       case parse_bool value of
         None \<Rightarrow> sfail (invalid_kernel_value p value ''a Linux boolean'')
       | Some b \<Rightarrow> sret b)"

definition read_enum :: "'k sysfs \<Rightarrow> path \<Rightarrow> (string \<Rightarrow> 'a) \<Rightarrow> ('k, 'a) comp" where
  "read_enum E p parse = sbind (read_text E p) (\<lambda>value. sret (parse (trim value)))"

definition read_sysfs_string :: "'k sysfs \<Rightarrow> path \<Rightarrow> ('k, string) comp" where
  "read_sysfs_string E p = sbind (read_text E p) (\<lambda>value. sret (strip_newline value))"

section \<open>Writing attributes\<close>

definition record_write :: "path \<Rightarrow> ('k, unit) comp" where
  "record_write p w = (Inr (), w\<lparr>w_journal := map_option (\<lambda>paths. paths @ [p]) (w_journal w)\<rparr>)"

text \<open>\<open>write_once\<close>: repeated while interrupted, for at most \<open>sys_fuel\<close> interruptions.\<close>

fun write_once :: "nat \<Rightarrow> 'k sysfs \<Rightarrow> path \<Rightarrow> string \<Rightarrow> ('k, unit) comp" where
  "write_once 0 E p value = io_fail ''write'' p (KindError Interrupted ''interrupted'')"
| "write_once (Suc fuel) E p value =
     sbind (syscall (sys_write E p value)) (\<lambda>r.
       case r of
         Inl e \<Rightarrow> if io_error_kind e = Interrupted then write_once fuel E p value
                  else io_fail ''write'' p e
       | Inr written \<Rightarrow>
           if written \<noteq> length value then
             io_fail ''write complete value'' p
               (KindError WriteZero
                 (''short sysfs write: wrote '' @ dec written @ '' of '' @ dec (length value)
                  @ '' bytes''))
           else sret ())"

definition write_bytes :: "'k sysfs \<Rightarrow> path \<Rightarrow> string \<Rightarrow> ('k, unit) comp" where
  "write_bytes E p value =
     sbind (call ''open for writing'' p (sys_open_write E p)) (\<lambda>_.
     sbind (write_once (sys_fuel E) E p value) (\<lambda>_. record_write p))"

definition write_value :: "'k sysfs \<Rightarrow> path \<Rightarrow> 'w::len word \<Rightarrow> ('k, unit) comp" where
  "write_value E p v = write_bytes E p (dec_word v)"

definition write_usize :: "'k sysfs \<Rightarrow> path \<Rightarrow> usize \<Rightarrow> ('k, unit) comp" where
  "write_usize E p v = write_bytes E p (dec v)"

definition write_i32 :: "'k sysfs \<Rightarrow> path \<Rightarrow> i32 \<Rightarrow> ('k, unit) comp" where
  "write_i32 E p v = write_bytes E p (dec_int v)"

definition write_value_if_present :: "'k sysfs \<Rightarrow> path \<Rightarrow> 'w::len word \<Rightarrow> ('k, bool) comp" where
  "write_value_if_present E p v =
     sbind (path_exists E p) (\<lambda>present.
       if \<not> present then sret False
       else sbind (write_value E p v) (\<lambda>_. sret True))"

definition write_bool :: "'k sysfs \<Rightarrow> path \<Rightarrow> bool \<Rightarrow> ('k, unit) comp" where
  "write_bool E p b = write_bytes E p (if b then ''Y'' else ''N'')"

definition write_enum :: "'k sysfs \<Rightarrow> path \<Rightarrow> string \<Rightarrow> ('k, unit) comp" where
  "write_enum E p kernel_name =
     sbind (slift (validate_token ''kernel enum value'' kernel_name)) (\<lambda>_.
       write_bytes E p kernel_name)"

text \<open>
  \<open>collect_writes\<close>: the journal of one operation. The journal must not be active; the
  operation's result is returned whatever it is, and the journal is inactive afterwards.
\<close>

definition collect_writes ::
    "('k, 'a) comp \<Rightarrow> ('a result \<Rightarrow> path list \<Rightarrow> ('k, 'b) comp) \<Rightarrow> ('k, 'b) comp" where
  "collect_writes operation f w =
     (case operation (w\<lparr>w_journal := Some []\<rparr>) of
        (r, w') \<Rightarrow>
          f r (case w_journal w' of Some paths \<Rightarrow> paths | None \<Rightarrow> []) (w'\<lparr>w_journal := None\<rparr>))"

section \<open>Indexed and optional attributes\<close>

definition read_indexed :: "nat \<Rightarrow> (nat \<Rightarrow> ('k, 'a) comp) \<Rightarrow> ('k, 'a list) comp" where
  "read_indexed n read = smap read [0..<n]"

definition ensure_count :: "'k sysfs \<Rightarrow> path \<Rightarrow> nat \<Rightarrow> ('k, unit) comp" where
  "ensure_count E p n =
     sbind (slift (validate_count ''indexed child count'' n)) (\<lambda>_.
     sbind (read_usize E p) (\<lambda>current.
       if current \<noteq> n then write_usize E p n else sret ()))"

definition optional_read :: "'k sysfs \<Rightarrow> path \<Rightarrow> ('k, 'a) comp \<Rightarrow> ('k, 'a option) comp" where
  "optional_read E p read =
     sbind (path_exists E p) (\<lambda>present.
       if present then sbind read (\<lambda>x. sret (Some x)) else sret None)"

definition optional_pair ::
    "'k sysfs \<Rightarrow> path \<Rightarrow> path \<Rightarrow> ('k, 'a) comp \<Rightarrow> ('k, 'a option) comp" where
  "optional_pair E p q read =
     sbind (path_exists E p) (\<lambda>a.
       if \<not> a then sret None
       else sbind (path_exists E q) (\<lambda>b.
         if b then sbind read (\<lambda>x. sret (Some x)) else sret None))"

definition stage_optional_default ::
    "'k sysfs \<Rightarrow> path \<Rightarrow> 'a \<Rightarrow> 'a \<Rightarrow> string \<Rightarrow> ('k, unit) comp \<Rightarrow> ('k, unit) comp" where
  "stage_optional_default E p requested neutral feature stage =
     sbind (path_exists E p) (\<lambda>present.
       if present then stage
       else if requested = neutral then sret ()
       else sfail (UnsupportedFeature feature))"

section \<open>What the readers see\<close>

text \<open>
  A handle whose pieces are not empty and which ends normally has the pieces' concatenation as
  its content; how the kernel cuts it into pieces does not matter to the readers.
\<close>

definition holds_content :: "handle \<Rightarrow> string \<Rightarrow> bool" where
  "holds_content h s \<longleftrightarrow> [] \<notin> set (h_pieces h) \<and> h_failure h = None \<and> concat (h_pieces h) = s"

lemma read_handle_content:
  assumes "holds_content h s" "0 < n"
  shows "(s = [] \<and> read_handle n h = (Inr [], h))
    \<or> (\<exists>bs t h'. bs \<noteq> [] \<and> s = bs @ t \<and> length bs \<le> n
         \<and> read_handle n h = (Inr bs, h') \<and> holds_content h' t)"
proof (cases "h_pieces h")
  case Nil
  with assms show ?thesis by (simp add: holds_content_def read_handle.simps)
next
  case (Cons p ps)
  let ?h = "h\<lparr>h_pieces := if drop n p = [] then ps else drop n p # ps\<rparr>"
  have r: "read_handle n h = (Inr (take n p), ?h)"
    using Cons by (simp add: read_handle.simps)
  have "take n p \<noteq> []" using assms Cons by (auto simp: holds_content_def)
  moreover have "s = take n p @ (drop n p @ concat ps)"
    using assms Cons by (auto simp: holds_content_def)
  moreover have "holds_content ?h (drop n p @ concat ps)"
    using assms Cons by (auto simp: holds_content_def)
  ultimately show ?thesis using r
    by (intro disjI2 exI [of _ "take n p"] exI [of _ "drop n p @ concat ps"] exI [of _ ?h]) simp
qed

text \<open>The counters after the bytes \<open>c\<close>, which are a prefix of the value and its newline.\<close>

definition chunk_state :: "string \<Rightarrow> string \<Rightarrow> nat \<times> bool" where
  "chunk_state expected c = (min (length c) (length expected), length expected < length c)"

definition config_prefix :: "string \<Rightarrow> string \<Rightarrow> bool" where
  "config_prefix c expected \<longleftrightarrow> take (length c) (expected @ newline) = c"

lemma config_prefix_length: "config_prefix c expected \<Longrightarrow> length c \<le> Suc (length expected)"
proof -
  assume "config_prefix c expected"
  then have "length (take (length c) (expected @ newline)) = length c"
    by (simp only: config_prefix_def)
  then show ?thesis by (simp del: take_append)
qed

lemma config_prefix_general:
  "config_prefix (c @ [b]) expected \<longleftrightarrow>
     length c < length (expected @ newline) \<and> config_prefix c expected
     \<and> (expected @ newline) ! length c = b"
proof (cases "length c < length (expected @ newline)")
  case True
  have "take (Suc (length c)) (expected @ newline)
      = take (length c) (expected @ newline) @ [(expected @ newline) ! length c]"
    by (rule take_Suc_conv_app_nth [OF True])
  with True show ?thesis by (simp add: config_prefix_def del: take_append)
next
  case False
  then have "\<not> config_prefix (c @ [b]) expected"
    using config_prefix_length [of "c @ [b]" expected] by auto
  with False show ?thesis by simp
qed

lemma config_prefix_snoc:
  "config_prefix (c @ [b]) expected \<longleftrightarrow>
     config_prefix c expected
     \<and> (length c < length expected \<and> b = expected ! length c
        \<or> length c = length expected \<and> b = CHR 0x0A)"
proof -
  have "config_prefix (c @ [b]) expected \<longleftrightarrow>
      length c < length (expected @ newline) \<and> config_prefix c expected
      \<and> (expected @ newline) ! length c = b"
    by (rule config_prefix_general)
  then show ?thesis by (auto simp: nth_append less_Suc_eq)
qed

lemma config_prefix_append: "config_prefix (c @ d) expected \<Longrightarrow> config_prefix c expected"
  by (induction d rule: rev_induct)
    (simp_all add: config_prefix_snoc append_assoc [symmetric] del: append_assoc)

lemma match_configuration_chunk_spec:
  assumes "config_prefix c expected"
  shows "match_configuration_chunk bs expected (chunk_state expected c) =
    (if config_prefix (c @ bs) expected then Some (chunk_state expected (c @ bs)) else None)"
  using assms
proof (induction bs arbitrary: c)
  case Nil
  then show ?case by simp
next
  case (Cons b bs)
  have le: "length c \<le> Suc (length expected)" by (rule config_prefix_length [OF Cons.prems])
  show ?case
  proof (cases "config_prefix (c @ [b]) expected")
    case True
    have "match_configuration_chunk (b # bs) expected (chunk_state expected c)
        = match_configuration_chunk bs expected (chunk_state expected (c @ [b]))"
      using True by (auto simp: config_prefix_snoc chunk_state_def min_def)
    with Cons.IH [OF True] show ?thesis by simp
  next
    case False
    then have "\<not> config_prefix (c @ b # bs) expected"
      using config_prefix_append [of "c @ [b]" bs] by auto
    moreover have "match_configuration_chunk (b # bs) expected (chunk_state expected c) = None"
      using False Cons.prems le by (auto simp: config_prefix_snoc chunk_state_def min_def)
    ultimately show ?thesis by simp
  qed
qed

lemma config_prefix_complete:
  "config_prefix c expected \<Longrightarrow>
     fst (chunk_state expected c) = length expected \<longleftrightarrow> c = expected \<or> c = expected @ newline"
proof -
  assume p: "config_prefix c expected"
  note le = config_prefix_length [OF p]
  show ?thesis
  proof (cases "length c < length expected")
    case True
    then show ?thesis by (auto simp: chunk_state_def)
  next
    case False
    with le have "length c = length expected \<or> length c = length (expected @ newline)" by auto
    with p have "c = expected \<or> c = expected @ newline"
      by (elim disjE) (simp_all add: config_prefix_def)
    with False show ?thesis by (auto simp: chunk_state_def)
  qed
qed

lemma match_loop_content:
  "holds_content h s \<Longrightarrow> config_prefix c expected \<Longrightarrow>
     match_loop expected h (chunk_state expected c)
       = Inr (c @ s = expected \<or> c @ s = expected @ newline)"
proof (induction "handle_size h" arbitrary: h s c rule: less_induct)
  case less
  have "0 < (256 :: nat)" by simp
  from read_handle_content [OF less.prems(1) this] show ?case
  proof (elim disjE exE conjE)
    assume "s = []" "read_handle 256 h = (Inr [], h)"
    then show ?thesis
      using config_prefix_complete [OF less.prems(2)] by (subst match_loop.simps) simp
  next
    fix bs t h'
    assume bs: "bs \<noteq> []" "s = bs @ t" and r: "read_handle 256 h = (Inr bs, h')"
      and h': "holds_content h' t"
    have chunk: "match_configuration_chunk bs expected (chunk_state expected c) =
        (if config_prefix (c @ bs) expected then Some (chunk_state expected (c @ bs)) else None)"
      by (rule match_configuration_chunk_spec [OF less.prems(2)])
    show ?thesis
    proof (cases "config_prefix (c @ bs) expected")
      case True
      have "match_loop expected h' (chunk_state expected (c @ bs))
          = Inr ((c @ bs) @ t = expected \<or> (c @ bs) @ t = expected @ newline)"
        using read_handle_shrinks [OF r bs(1)] h' True by (rule less.hyps)
      with True r bs chunk show ?thesis by (subst match_loop.simps) simp
    next
      case False
      have "config_prefix (c @ bs) expected" if "\<exists>u. (c @ bs) @ u = expected @ newline"
        using that by (metis append_eq_conv_conj config_prefix_def)
      with False bs(2) have "c @ s \<noteq> expected" "c @ s \<noteq> expected @ newline"
        by (metis append.assoc)+
      with False r bs chunk show ?thesis by (subst match_loop.simps) simp
    qed
  qed
qed

lemma match_loop_spec:
  "holds_content h s \<Longrightarrow>
     match_loop expected h (0, False) = Inr (s = expected \<or> s = expected @ newline)"
  using match_loop_content [of h s "[]" expected]
  by (simp add: config_prefix_def chunk_state_def)

lemma fill_buffer_content:
  "holds_content h s \<Longrightarrow>
     fill_buffer used h = (if length used + length s < 64 then Filled (used @ s) else TooLong)"
proof (induction "handle_size h" arbitrary: h s used rule: less_induct)
  case less
  show ?case
  proof (cases "length used < 64")
    case True
    then have "0 < 64 - length used" by simp
    from read_handle_content [OF less.prems this] show ?thesis
    proof (elim disjE exE conjE)
      assume "s = []" "read_handle (64 - length used) h = (Inr [], h)"
      with True show ?thesis by (subst fill_buffer.simps) simp
    next
      fix bs t h'
      assume bs: "bs \<noteq> []" "s = bs @ t" and h': "holds_content h' t"
        and r: "read_handle (64 - length used) h = (Inr bs, h')"
      have "fill_buffer (used @ bs) h' =
          (if length (used @ bs) + length t < 64 then Filled ((used @ bs) @ t) else TooLong)"
        using read_handle_shrinks [OF r bs(1)] h' by (rule less.hyps)
      with True bs r show ?thesis by (subst fill_buffer.simps) simp
    qed
  next
    case False
    then show ?thesis by (subst fill_buffer.simps) simp
  qed
qed

lemma read_to_string_content:
  assumes "holds_content h s"
  shows "read_to_string h =
    (if utf8_valid s then Inr s
     else Inl (KindError InvalidData ''stream did not contain valid UTF-8''))"
proof -
  have "[] \<notin> set ps \<Longrightarrow> read_all ps = concat ps" for ps
    by (induction ps) auto
  with assms show ?thesis by (auto simp: read_to_string_def holds_content_def)
qed

section \<open>The readers on a file whose content is known\<close>

text \<open>\<open>opens E p w h k\<close>: opening \<open>p\<close> for reading succeeds with the handle \<open>h\<close>.\<close>

abbreviation opens :: "'k sysfs \<Rightarrow> path \<Rightarrow> 'k world \<Rightarrow> handle \<Rightarrow> 'k \<Rightarrow> bool" where
  "opens E p w h k \<equiv> sys_open_read E p (w_kernel w) = (Inr h, k)"

lemma read_configuration_value_equals_content:
  "opens E p w h k \<Longrightarrow> holds_content h s \<Longrightarrow>
     read_configuration_value_equals E p expected w
       = (Inr (s = expected \<or> s = expected @ newline), w\<lparr>w_kernel := k\<rparr>)"
  by (simp add: read_configuration_value_equals_def sbind_def syscall_def match_loop_spec sret_def)

lemma read_text_content:
  "opens E p w h k \<Longrightarrow> holds_content h s \<Longrightarrow> utf8_valid s \<Longrightarrow>
     read_text E p w = (Inr s, w\<lparr>w_kernel := k\<rparr>)"
  by (simp add: read_text_def call_def sbind_def syscall_def read_to_string_content sret_def)

lemma read_u64_content:
  "opens E p w h k \<Longrightarrow> holds_content h s \<Longrightarrow>
     read_u64 E p w =
       (if 64 \<le> length s then Inl (InvalidKernelValue p ''<value too long>'' ''u64'')
        else if \<not> utf8_valid s then Inl (InvalidKernelValue p ''<non-UTF-8 value>'' ''u64'')
        else ok_or (InvalidKernelValue p (trim s) ''u64'') (parse_u64 (trim s)),
        w\<lparr>w_kernel := k\<rparr>)"
  by (auto simp: read_u64_def call_def sbind_def syscall_def sret_def sfail_def fill_buffer_content
      invalid_kernel_value_def ok_or_def Let_def split: option.splits)

lemma length_dec: "n < 10 ^ Suc d \<Longrightarrow> length (dec n) \<le> Suc d"
proof (induction d arbitrary: n)
  case 0
  then show ?case by (simp add: dec.simps [of n])
next
  case (Suc d)
  then have "n div 10 < 10 ^ Suc d" by (auto simp: less_mult_imp_div_less)
  with Suc.IH show ?case by (simp add: dec.simps [of n])
qed

lemma length_dec_word: "length (dec_word (w :: u64)) \<le> 20"
proof -
  have "unat w < 10 ^ Suc 19" using unat_less [of w] by simp
  from length_dec [OF this] show ?thesis by (simp add: dec_word_def)
qed

lemma utf8_ascii: "\<forall>c\<in>set s. byte_val c < 128 \<Longrightarrow> utf8_valid s"
  by (induction s) (simp_all add: utf8_valid_def)

lemma byte_digit: "d < 10 \<Longrightarrow> byte_val (digit_char d) < 128"
proof -
  assume "d < 10"
  then have "d \<in> {0, 1, 2, 3, 4, 5, 6, 7, 8, 9}" by auto
  then show ?thesis by (auto simp: digit_char_def byte_val_def)
qed

lemma utf8_dec_word [simp]: "utf8_valid (dec_word w)" "utf8_valid (dec_word w @ newline)"
  by (rule utf8_ascii, auto simp: dec_word_def byte_val_def dest!: dec_digits
      intro: byte_digit [unfolded byte_val_def])+

text \<open>A decimal attribute, with or without its newline, reads back as its value.\<close>

lemma read_u64_dec_word:
  assumes "opens E p w h k" and "holds_content h (dec_word v) \<or> holds_content h (dec_word v @ newline)"
  shows "read_u64 E p w = (Inr v, w\<lparr>w_kernel := k\<rparr>)"
proof -
  have t: "trim (dec_word v) = dec_word v" "trim (dec_word v @ newline) = dec_word v"
    using trim_dec by (simp_all add: dec_word_def)
  have short: "\<not> 64 \<le> length (dec_word v)" "\<not> 64 \<le> length (dec_word v @ newline)"
    using length_dec_word [of v] by simp_all
  from assms(2) show ?thesis
    by (elim disjE; simp only: read_u64_content [OF assms(1)] short if_False utf8_dec_word
        not_True_eq_False t parse_u64_dec_word ok_or_def option.case)
qed

end
