(* ===== verification/Fingerprint.thy ===== *)
theory Fingerprint
  imports Sysfs_IO "HOL-Library.Product_Lexorder"
begin

text \<open>
  \<^verbatim>\<open>src/src/sysfs/ownership.rs\<close>: the writable configuration below a root as a sorted list of
  entries, its comparison with the current hierarchy, and its restoration. The lists of ignored
  and selected paths are searched by bisection, as in the source.
\<close>

section \<open>Entries\<close>

record config_entry =
  ce_path :: path
  ce_value :: string

record writable_value =
  wv_path :: path
  wv_value :: string

record observed_configuration =
  oc_configuration :: damon_config
  oc_values :: "writable_value list"

type_synonym fingerprint = "config_entry list"

record config_snapshot =
  cs_root :: path
  cs_entries :: fingerprint

definition is_member :: "path list \<Rightarrow> path \<Rightarrow> bool" where
  "is_member paths p = (binary_search paths p \<noteq> None)"

lemma is_member_sorted: "sorted paths \<Longrightarrow> is_member paths p \<longleftrightarrow> p \<in> set paths"
  using binary_search_sorted [of paths p] by (simp add: is_member_def)

lemma is_member_Nil [simp]: "\<not> is_member [] p"
  by (simp add: is_member_def)

section \<open>Which files belong to the configuration\<close>

definition is_reconstruction_count :: "path \<Rightarrow> bool" where
  "is_reconstruction_count p =
     (case file_name p of
        None \<Rightarrow> False
      | Some name \<Rightarrow>
          utf8_valid name \<and> take 3 name = ''nr_'' \<and> name \<noteq> ''nr_accesses_permil'')"

definition is_runtime_attribute :: "path \<Rightarrow> bool" where
  "is_runtime_attribute relative =
     (if (case file_name relative of
            None \<Rightarrow> False | Some name \<Rightarrow> name \<in> {''state'', ''pid'', ''avail_operations''})
         \<or> Normal ''tried_regions'' \<in> set relative
         \<or> ends_with relative [''quotas'', ''effective_bytes''] then True
      else
        (case parent relative of None \<Rightarrow> False | Some p \<Rightarrow> ends_with p [''stats''])
        \<and> \<not> ends_with relative [''stats'', ''max_nr_snapshots''])"

definition relative_to :: "path \<Rightarrow> path \<Rightarrow> path" where
  "relative_to root p = (case strip_prefix root p of Some q \<Rightarrow> q | None \<Rightarrow> p)"

definition read_configuration_value :: "'k sysfs \<Rightarrow> path \<Rightarrow> ('k, string) comp" where
  "read_configuration_value E p = sbind (read_text E p) (\<lambda>value. sret (strip_newline value))"

fun select_writable :: "'k sysfs \<Rightarrow> path \<Rightarrow> path list \<Rightarrow> path list \<Rightarrow> ('k, path list) comp" where
  "select_writable E root [] selected = sret selected"
| "select_writable E root (p # ps) selected =
     (case strip_prefix root p of
        None \<Rightarrow> io_fail ''inspect configuration path'' p
                  (KindError InvalidData ''path escaped kdamond root'')
      | Some relative \<Rightarrow>
          if is_runtime_attribute relative then select_writable E root ps selected
          else sbind (path_is_writable E p) (\<lambda>writable.
            if \<not> writable then select_writable E root ps selected
            else select_writable E root ps (selected @ [p])))"

definition writable_configuration_files :: "'k sysfs \<Rightarrow> path \<Rightarrow> ('k, path list) comp" where
  "writable_configuration_files E root =
     sbind (all_files_recursive E root) (\<lambda>files.
     sbind (select_writable E root files []) (\<lambda>paths. sret (sort paths)))"

definition capture_configuration :: "'k sysfs \<Rightarrow> path \<Rightarrow> ('k, fingerprint) comp" where
  "capture_configuration E root =
     sbind (writable_configuration_files E root)
       (smap (\<lambda>p. sbind (read_configuration_value E p) (\<lambda>value.
          sret \<lparr>ce_path = p, ce_value = value\<rparr>)))"

definition observed_attribute_paths :: "'k sysfs \<Rightarrow> path \<Rightarrow> ('k, string list) comp" where
  "observed_attribute_paths E root =
     sbind (all_files_recursive E root) (\<lambda>files.
       sret (sort (List.map_filter (\<lambda>p.
         map_option (\<lambda>q. to_string_lossy (bytes_of_path q)) (strip_prefix root p)) files)))"

section \<open>Comparing with the current hierarchy\<close>

text \<open>The loop shared by every comparison: entries for which \<open>skip\<close> holds are not read.\<close>

fun check_entries ::
    "'k sysfs \<Rightarrow> (config_entry \<Rightarrow> bool) \<Rightarrow> config_entry list \<Rightarrow> ('k, bool) comp" where
  "check_entries E skip [] = sret True"
| "check_entries E skip (e # es) =
     (if skip e then check_entries E skip es
      else sbind (read_configuration_value_equals E (ce_path e) (ce_value e)) (\<lambda>equal.
        if \<not> equal then sret False else check_entries E skip es))"

definition matches_current_except ::
    "'k sysfs \<Rightarrow> fingerprint \<Rightarrow> path list \<Rightarrow> ('k, bool) comp" where
  "matches_current_except E es ignored =
     check_entries E (\<lambda>e. is_member ignored (ce_path e)) es"

definition fingerprint_matches_current :: "'k sysfs \<Rightarrow> fingerprint \<Rightarrow> ('k, bool) comp" where
  "fingerprint_matches_current E es = matches_current_except E es []"

definition equals_except :: "fingerprint \<Rightarrow> fingerprint \<Rightarrow> path list \<Rightarrow> bool" where
  "equals_except self other ignored =
     (filter (\<lambda>e. \<not> is_member ignored (ce_path e)) self
      = filter (\<lambda>e. \<not> is_member ignored (ce_path e)) other)"

definition matches_current_under_except ::
    "'k sysfs \<Rightarrow> fingerprint \<Rightarrow> path \<Rightarrow> path list \<Rightarrow> ('k, bool) comp" where
  "matches_current_under_except E es root ignored =
     (let start = partition_point (\<lambda>e. ce_path e < root) es in
      check_entries E (\<lambda>e. is_member ignored (ce_path e))
        (takeWhile (\<lambda>e. starts_with (ce_path e) root) (drop start es)))"

definition matches_current_outside_except ::
    "'k sysfs \<Rightarrow> fingerprint \<Rightarrow> path \<Rightarrow> path list \<Rightarrow> ('k, bool) comp" where
  "matches_current_outside_except E es ignored_root ignored =
     check_entries E
       (\<lambda>e. starts_with (ce_path e) ignored_root \<or> is_member ignored (ce_path e)) es"

fun refresh_entries :: "'k sysfs \<Rightarrow> path list \<Rightarrow> fingerprint \<Rightarrow> ('k, fingerprint) comp" where
  "refresh_entries E [] es = sret es"
| "refresh_entries E (p # ps) es =
     (case binary_search (map ce_path es) p of
        None \<Rightarrow> sfail (OwnershipLost ''a controlled configuration path disappeared'')
      | Some i \<Rightarrow>
          sbind (read_configuration_value E p) (\<lambda>value.
            refresh_entries E ps (es[i := (es ! i)\<lparr>ce_value := value\<rparr>])))"

definition refreshed_paths_except ::
    "'k sysfs \<Rightarrow> fingerprint \<Rightarrow> path list \<Rightarrow> path list \<Rightarrow> ('k, fingerprint) comp" where
  "refreshed_paths_except E es paths ignored =
     sbind (refresh_entries E paths es) (\<lambda>refreshed.
     sbind (matches_current_except E refreshed ignored) (\<lambda>ok.
       if \<not> ok then sfail (OwnershipLost ''the staged writable configuration changed'')
       else sret refreshed))"

section \<open>Snapshots\<close>

definition snapshot_capture :: "'k sysfs \<Rightarrow> path \<Rightarrow> ('k, config_snapshot) comp" where
  "snapshot_capture E root =
     sbind (capture_configuration E root) (\<lambda>es. sret \<lparr>cs_root = root, cs_entries = es\<rparr>)"

definition snapshot_matches_current_except ::
    "'k sysfs \<Rightarrow> config_snapshot \<Rightarrow> path list \<Rightarrow> ('k, bool) comp" where
  "snapshot_matches_current_except E s ignored = matches_current_except E (cs_entries s) ignored"

definition snapshot_matches_complete_current_except ::
    "'k sysfs \<Rightarrow> config_snapshot \<Rightarrow> path list \<Rightarrow> ('k, bool) comp" where
  "snapshot_matches_complete_current_except E s ignored =
     sbind (capture_configuration E (cs_root s)) (\<lambda>current.
       sret (equals_except (cs_entries s) current ignored))"

definition snapshot_matches_current_under_except ::
    "'k sysfs \<Rightarrow> config_snapshot \<Rightarrow> path \<Rightarrow> path list \<Rightarrow> ('k, bool) comp" where
  "snapshot_matches_current_under_except E s root ignored =
     matches_current_under_except E (cs_entries s) root ignored"

definition snapshot_matches_current_outside_except ::
    "'k sysfs \<Rightarrow> config_snapshot \<Rightarrow> path \<Rightarrow> path list \<Rightarrow> ('k, bool) comp" where
  "snapshot_matches_current_outside_except E s root ignored =
     matches_current_outside_except E (cs_entries s) root ignored"

definition snapshot_refreshed_paths_except ::
    "'k sysfs \<Rightarrow> config_snapshot \<Rightarrow> path list \<Rightarrow> path list \<Rightarrow> ('k, config_snapshot) comp" where
  "snapshot_refreshed_paths_except E s paths ignored =
     sbind (refreshed_paths_except E (cs_entries s) paths ignored) (\<lambda>es.
       sret \<lparr>cs_root = cs_root s, cs_entries = es\<rparr>)"

definition writable_values :: "config_snapshot \<Rightarrow> writable_value list" where
  "writable_values s =
     map (\<lambda>e. \<lparr>wv_path = relative_to (cs_root s) (ce_path e), wv_value = ce_value e\<rparr>)
       (cs_entries s)"

definition into_observed :: "config_snapshot \<Rightarrow> damon_config \<Rightarrow> observed_configuration" where
  "into_observed s configuration =
     \<lparr>oc_configuration = configuration, oc_values = writable_values s\<rparr>"

definition relative_component :: "component \<Rightarrow> bool" where
  "relative_component c = (case c of Normal _ \<Rightarrow> True | _ \<Rightarrow> False)"

fun entries_of_values :: "path \<Rightarrow> writable_value list \<Rightarrow> config_entry list \<Rightarrow> fingerprint result"
  where
  "entries_of_values root [] es = Inr es"
| "entries_of_values root (v # vs) es =
     (if wv_path v = [] \<or> is_absolute (wv_path v)
         \<or> (\<exists>c\<in>set (wv_path v). \<not> relative_component c) then
        Inl (InvalidReceipt ''contains a non-relative writable path'')
      else entries_of_values root vs
             (es @ [\<lparr>ce_path = join_path root (wv_path v), ce_value = wv_value v\<rparr>]))"

definition from_writable_values :: "path \<Rightarrow> writable_value list \<Rightarrow> config_snapshot result" where
  "from_writable_values root vs =
     and_then (entries_of_values root vs []) (\<lambda>es.
       let sorted_entries = sort_key ce_path es in
       if windows_any (\<lambda>a b. ce_path a = ce_path b) sorted_entries then
         Inl (InvalidReceipt ''contains duplicate writable paths'')
       else Inr \<lparr>cs_root = root, cs_entries = sorted_entries\<rparr>)"

definition affected_by_write :: "config_snapshot \<Rightarrow> path \<Rightarrow> path list" where
  "affected_by_write s write =
     write #
     (if \<not> is_reconstruction_count (relative_to (cs_root s) write) then []
      else case parent write of
        None \<Rightarrow> []
      | Some p \<Rightarrow> map ce_path (filter (\<lambda>e. starts_with (ce_path e) p) (cs_entries s)))"

definition paths_affected_by_writes :: "config_snapshot \<Rightarrow> path list \<Rightarrow> path list" where
  "paths_affected_by_writes s writes =
     sort_dedup (concat (map (affected_by_write s) writes))"

definition snapshot_matches_current :: "'k sysfs \<Rightarrow> config_snapshot \<Rightarrow> ('k, bool) comp" where
  "snapshot_matches_current E s =
     sbind (capture_configuration E (cs_root s)) (\<lambda>current. sret (current = cs_entries s))"

definition values_match_current :: "'k sysfs \<Rightarrow> config_snapshot \<Rightarrow> ('k, bool) comp" where
  "values_match_current E s = fingerprint_matches_current E (cs_entries s)"

section \<open>Restoration\<close>

definition restoration_key :: "path \<Rightarrow> config_entry \<Rightarrow> nat \<times> bool \<times> path" where
  "restoration_key root e =
     (let relative = relative_to root (ce_path e) in
      (length relative, \<not> is_reconstruction_count relative, ce_path e))"

definition restoration_order :: "path \<Rightarrow> config_entry list \<Rightarrow> config_entry list" where
  "restoration_order root es = sort_key (restoration_key root) es"

definition restore_entry :: "'k sysfs \<Rightarrow> path list \<Rightarrow> config_entry \<Rightarrow> ('k, unit) comp" where
  "restore_entry E ignored e =
     (if is_member ignored (ce_path e) then sret ()
      else if is_reconstruction_count (ce_path e) then
        write_bytes E (ce_path e) (ce_value e)
      else
        sbind (read_configuration_value_equals E (ce_path e) (ce_value e)) (\<lambda>equal.
          if \<not> equal then write_bytes E (ce_path e) (ce_value e) else sret ()))"

definition restore_except :: "'k sysfs \<Rightarrow> config_snapshot \<Rightarrow> path list \<Rightarrow> ('k, unit) comp" where
  "restore_except E s ignored =
     sbind (seach (restore_entry E ignored) (restoration_order (cs_root s) (cs_entries s))) (\<lambda>_.
     sbind (snapshot_matches_current_except E s ignored) (\<lambda>ok.
       if \<not> ok then
         sfail (OwnershipLost
           ''the restored hierarchy does not match its captured configuration'')
       else sret ()))"

definition restore :: "'k sysfs \<Rightarrow> config_snapshot \<Rightarrow> ('k, unit) comp" where
  "restore E s = restore_except E s []"

definition verify_restored :: "'k sysfs \<Rightarrow> config_entry \<Rightarrow> ('k, unit) comp" where
  "verify_restored E e =
     sbind (read_configuration_value_equals E (ce_path e) (ce_value e)) (\<lambda>equal.
       if \<not> equal then
         sfail (OwnershipLost ''a transaction path changed during partial rollback'')
       else sret ())"

definition restore_paths_except ::
    "'k sysfs \<Rightarrow> config_snapshot \<Rightarrow> path list \<Rightarrow> path list \<Rightarrow> ('k, unit) comp" where
  "restore_paths_except E s paths ignored =
     sbind (seach (restore_entry E ignored)
              (restoration_order (cs_root s)
                 (filter (\<lambda>e. is_member paths (ce_path e)) (cs_entries s)))) (\<lambda>_.
       seach (verify_restored E)
         (filter (\<lambda>e. is_member paths (ce_path e) \<and> \<not> is_member ignored (ce_path e))
           (cs_entries s)))"

section \<open>Sorted entries\<close>

definition sorted_entries :: "fingerprint \<Rightarrow> bool" where
  "sorted_entries es \<longleftrightarrow> sorted (map ce_path es) \<and> distinct (map ce_path es)"

definition below_root :: "path \<Rightarrow> config_entry \<Rightarrow> bool" where
  "below_root root e \<longleftrightarrow>
     (\<exists>names. names \<noteq> [] \<and> ce_path e = root @ map Normal names)"

definition valid_snapshot :: "config_snapshot \<Rightarrow> bool" where
  "valid_snapshot s \<longleftrightarrow> sorted_entries (cs_entries s) \<and> (\<forall>e\<in>set (cs_entries s). below_root (cs_root s) e)"

lemma check_entries_filter:
  "check_entries E skip es = check_entries E (\<lambda>_. False) (filter (\<lambda>e. \<not> skip e) es)"
  by (induction es) (simp_all cong: if_cong)

lemma block_of_root:
  assumes "sorted (map ce_path es)"
  shows "takeWhile (\<lambda>e. starts_with (ce_path e) root)
      (drop (partition_point (\<lambda>e. ce_path e < root) es) es)
    = filter (\<lambda>e. starts_with (ce_path e) root) es"
  using assms
proof (induction es)
  case Nil
  then show ?case by simp
next
  case (Cons e es)
  show ?case
  proof (cases "ce_path e < root")
    case True
    then have "\<not> starts_with (ce_path e) root" using starts_with_ge by (meson not_le)
    with True Cons show ?thesis by (simp add: partition_point_def)
  next
    case False
    have ge: "root \<le> ce_path x" if "x \<in> set es" for x
      using that False Cons.prems by (auto simp: not_less)
    then have pp: "partition_point (\<lambda>e. ce_path e < root) es = 0"
      by (cases es) (auto simp: partition_point_def not_less)
    show ?thesis
    proof (cases "starts_with (ce_path e) root")
      case True
      with False pp Cons show ?thesis by (simp add: partition_point_def)
    next
      case nb: False
      have "\<not> starts_with (ce_path x) root" if "x \<in> set es" for x
      proof
        assume "starts_with (ce_path x) root"
        moreover have "ce_path e \<le> ce_path x" using that Cons.prems by auto
        ultimately show False using nb False below_convex [of root "ce_path e" "ce_path x"]
          by (simp add: not_less)
      qed
      then have "filter (\<lambda>e. starts_with (ce_path e) root) es = []"
        by (simp add: filter_empty_conv)
      with nb False show ?thesis by (simp add: partition_point_def)
    qed
  qed
qed

lemma relative_component_iff: "relative_component c \<longleftrightarrow> c = Normal (component_name c)"
  by (cases c) (simp_all add: relative_component_def)

lemma join_relative_components:
  "\<forall>c\<in>set q. relative_component c \<Longrightarrow> join_path p q = p @ q"
  by (rule join_path_relative) (metis relative_component_iff)

lemma entries_of_values_Inr_iff:
  "entries_of_values root vs es = Inr es' \<longleftrightarrow>
     (\<forall>v\<in>set vs. wv_path v \<noteq> [] \<and> (\<forall>c\<in>set (wv_path v). relative_component c))
     \<and> es' = es @ map (\<lambda>v. \<lparr>ce_path = root @ wv_path v, ce_value = wv_value v\<rparr>) vs"
proof (induction vs arbitrary: es)
  case Nil
  then show ?case by auto
next
  case (Cons v vs)
  have abs: "\<not> is_absolute (wv_path v)" if "\<forall>c\<in>set (wv_path v). relative_component c"
    using that by (cases "wv_path v")
      (auto simp: is_absolute_def relative_component_def split: component.splits)
  show ?case
    using abs by (auto simp: Cons.IH join_relative_components)
qed

lemma below_root_relative:
  assumes "below_root root e"
  shows "relative_to root (ce_path e) \<noteq> []"
    and "\<forall>c\<in>set (relative_to root (ce_path e)). relative_component c"
    and "root @ relative_to root (ce_path e) = ce_path e"
  using assms by (auto simp: below_root_def relative_to_def strip_prefix_def starts_with_def
      relative_component_def)

lemma windows_any_eq_sorted:
  assumes "sorted (map f xs)"
  shows "windows_any (\<lambda>a b. f a = f b) xs \<longleftrightarrow> \<not> distinct (map f xs)"
  using assms
proof (induction "\<lambda>a b. f a = f b" xs rule: windows_any.induct)
  case (1 x y zs)
  have "f x \<in> f ` set zs \<Longrightarrow> f x = f y" using 1(2) by (auto intro: antisym)
  with 1 show ?case by auto
qed simp_all

text \<open>A valid snapshot survives the round trip through its relative writable values.\<close>

lemma from_writable_values_roundtrip:
  assumes "valid_snapshot s"
  shows "from_writable_values (cs_root s) (writable_values s) = Inr s"
proof -
  have below: "\<forall>e\<in>set (cs_entries s). below_root (cs_root s) e"
    and srt: "sorted (map ce_path (cs_entries s))" and dst: "distinct (map ce_path (cs_entries s))"
    using assms by (simp_all add: valid_snapshot_def sorted_entries_def)
  have "map (\<lambda>v. \<lparr>ce_path = cs_root s @ wv_path v, ce_value = wv_value v\<rparr>) (writable_values s)
      = cs_entries s"
    using below by (auto simp: writable_values_def below_root_relative(3) intro!: map_idI)
  then have "entries_of_values (cs_root s) (writable_values s) [] = Inr (cs_entries s)"
    using below below_root_relative(1,2)
    by (simp add: entries_of_values_Inr_iff) (fastforce simp: writable_values_def)
  moreover have "sort_key ce_path (cs_entries s) = cs_entries s"
    by (rule sort_key_id_if_sorted [OF srt])
  moreover have "\<not> windows_any (\<lambda>a b. ce_path a = ce_path b) (cs_entries s)"
    using srt dst by (simp add: windows_any_eq_sorted)
  ultimately show ?thesis by (simp add: from_writable_values_def)
qed

text \<open>Whatever is accepted is a valid snapshot.\<close>

lemma from_writable_values_valid:
  assumes "from_writable_values root vs = Inr s"
  shows "valid_snapshot s \<and> cs_root s = root"
proof -
  let ?es = "map (\<lambda>v. \<lparr>ce_path = root @ wv_path v, ce_value = wv_value v\<rparr>) vs"
  from assms have rel: "\<forall>v\<in>set vs. wv_path v \<noteq> [] \<and> (\<forall>c\<in>set (wv_path v). relative_component c)"
    and nodup: "\<not> windows_any (\<lambda>a b. ce_path a = ce_path b) (sort_key ce_path ?es)"
    and s: "s = \<lparr>cs_root = root, cs_entries = sort_key ce_path ?es\<rparr>"
    by (auto simp: from_writable_values_def and_then_Inr_iff entries_of_values_Inr_iff Let_def
        split: if_splits)
  have "below_root root e" if "e \<in> set ?es" for e
  proof -
    from that rel obtain q where q: "q \<noteq> []" "\<forall>c\<in>set q. relative_component c" "ce_path e = root @ q"
      by auto
    then have "map (\<lambda>c. Normal (component_name c)) q = q"
      by (intro map_idI) (metis relative_component_iff)
    then have "q = map Normal (map component_name q)" by (simp add: comp_def)
    with q show ?thesis unfolding below_root_def by (metis map_is_Nil_conv)
  qed
  moreover have "sorted_entries (sort_key ce_path ?es)"
    using nodup windows_any_eq_sorted [of ce_path "sort_key ce_path ?es"]
    by (simp add: sorted_entries_def)
  ultimately show ?thesis by (simp add: valid_snapshot_def s)
qed

section \<open>The order of restoration\<close>

lemma restoration_order_set [simp]: "set (restoration_order root es) = set es"
  by (simp add: restoration_order_def)

lemma restoration_order_sorted: "sorted (map (restoration_key root) (restoration_order root es))"
  by (simp add: restoration_order_def)

lemma sorted_key_less_nth:
  assumes "sorted (map k xs)" "i < length xs" "j < length xs" "k (xs ! i) < k (xs ! j)"
  shows "i < j"
proof (rule ccontr)
  assume "\<not> i < j"
  then have "k (xs ! j) \<le> k (xs ! i)"
    using sorted_nth_mono [OF assms(1), of j i] assms(2,3) by simp
  with assms(4) show False by simp
qed

text \<open>
  A count that rebuilds a directory comes before every plain attribute it may reset: those are
  in the same directory or deeper.
\<close>

lemma restoration_count_first:
  assumes "below_root root c" "below_root root e"
    and "is_reconstruction_count (relative_to root (ce_path c))"
    and "\<not> is_reconstruction_count (relative_to root (ce_path e))"
    and "parent (ce_path c) = Some dir" "starts_with (ce_path e) dir" "ce_path e \<noteq> dir"
  shows "restoration_key root c < restoration_key root e"
proof -
  from assms(5) have c: "length (ce_path c) = Suc (length dir)"
    by (auto simp: parent_def split: if_splits)
  from assms(6,7) obtain q where "ce_path e = dir @ q" "q \<noteq> []" by (auto simp: starts_with_iff)
  then have e: "length (ce_path c) \<le> length (ce_path e)" using c by (cases q) auto
  have "length (relative_to root (ce_path x)) = length (ce_path x) - length root"
    if "below_root root x" for x
    using that by (auto simp: below_root_def relative_to_def strip_prefix_def starts_with_def)
  with assms(1-4) e show ?thesis by (auto simp: restoration_key_def Let_def less_prod_def)
qed

section \<open>Affected paths\<close>

lemma affected_sorted [simp]: "sorted (paths_affected_by_writes s ws)"
  by (simp add: paths_affected_by_writes_def)

lemma affected_distinct [simp]: "distinct (paths_affected_by_writes s ws)"
  by (simp add: paths_affected_by_writes_def)

lemma affected_set:
  "set (paths_affected_by_writes s ws) =
     set ws \<union> {ce_path e | e w dir. e \<in> set (cs_entries s) \<and> w \<in> set ws
        \<and> is_reconstruction_count (relative_to (cs_root s) w) \<and> parent w = Some dir
        \<and> starts_with (ce_path e) dir}"
proof -
  have one: "set (affected_by_write s w) =
      insert w {ce_path e | e dir. e \<in> set (cs_entries s)
        \<and> is_reconstruction_count (relative_to (cs_root s) w) \<and> parent w = Some dir
        \<and> starts_with (ce_path e) dir}" for w
  proof (cases "parent w")
    case (Some dir)
    then show ?thesis by (auto simp: affected_by_write_def)
  qed (simp add: affected_by_write_def)
  show ?thesis
    by (simp add: paths_affected_by_writes_def one) blast
qed

end
