(* ===== verification/Traces.thy ===== *)
theory Traces
  imports Fingerprint
begin

text \<open>
  System calls made visible: \<open>traced E\<close> is the kernel \<open>E\<close> with a log of the calls in its
  state. A computation over it \<open>emits\<close> only events that satisfy a predicate when this holds for
  every world, so it holds against every kernel, whatever it answers. What \<open>E\<close> answers may even
  depend on the calls made so far; its own changes of the log are replaced by the logging. The
  rules follow the combinators, one for each, and one for each input-output function of
  \<^verbatim>\<open>src/src/sysfs/io.rs\<close>.
\<close>

datatype event =
    EvExists path | EvMetadata path | EvReadDir path | EvOpenRead path
  | EvOpenWrite path | EvWrite path string | EvSleep duration

definition logging ::
    "event \<Rightarrow> ('k \<times> event list \<Rightarrow> 'a \<times> ('k \<times> event list)) \<Rightarrow> 'k \<times> event list \<Rightarrow> 'a \<times> ('k \<times> event list)" where
  "logging ev f k = (case f k of (r, k') \<Rightarrow> (r, (fst k', snd k @ [ev])))"

definition traced :: "('k \<times> event list) sysfs \<Rightarrow> ('k \<times> event list) sysfs" where
  "traced E =
     \<lparr>sys_exists = (\<lambda>p. logging (EvExists p) (sys_exists E p)),
      sys_metadata = (\<lambda>p. logging (EvMetadata p) (sys_metadata E p)),
      sys_read_dir = (\<lambda>p. logging (EvReadDir p) (sys_read_dir E p)),
      sys_open_read = (\<lambda>p. logging (EvOpenRead p) (sys_open_read E p)),
      sys_open_write = (\<lambda>p. logging (EvOpenWrite p) (sys_open_write E p)),
      sys_write = (\<lambda>p v. logging (EvWrite p v) (sys_write E p v)),
      sys_sleep = (\<lambda>d k. (fst (sys_sleep E d k), snd k @ [EvSleep d])),
      sys_fuel = sys_fuel E\<rparr>"

text \<open>A kernel that knows nothing of the log.\<close>

definition beside_log :: "('k \<Rightarrow> 'a \<times> 'k) \<Rightarrow> 'k \<times> 'l \<Rightarrow> 'a \<times> ('k \<times> 'l)" where
  "beside_log f k = (case f (fst k) of (r, k') \<Rightarrow> (r, (k', snd k)))"

definition unlogged :: "'k sysfs \<Rightarrow> ('k \<times> 'l) sysfs" where
  "unlogged E =
     \<lparr>sys_exists = (\<lambda>p. beside_log (sys_exists E p)), sys_metadata = (\<lambda>p. beside_log (sys_metadata E p)),
      sys_read_dir = (\<lambda>p. beside_log (sys_read_dir E p)), sys_open_read = (\<lambda>p. beside_log (sys_open_read E p)),
      sys_open_write = (\<lambda>p. beside_log (sys_open_write E p)), sys_write = (\<lambda>p v. beside_log (sys_write E p v)),
      sys_sleep = (\<lambda>d k. (sys_sleep E d (fst k), snd k)), sys_fuel = sys_fuel E\<rparr>"

definition trace :: "('k \<times> event list) world \<Rightarrow> event list" where
  "trace w = snd (w_kernel w)"

definition emits :: "(event \<Rightarrow> bool) \<Rightarrow> ('k \<times> event list, 'a) comp \<Rightarrow> bool" where
  "emits P m \<longleftrightarrow> (\<forall>w. \<exists>evs. trace (snd (m w)) = trace w @ evs \<and> (\<forall>ev\<in>set evs. P ev))"

named_theorems emits_rules \<open>which events a computation can emit\<close>

lemma emitsI:
  "(\<And>w. \<exists>evs. trace (snd (m w)) = trace w @ evs \<and> (\<forall>ev\<in>set evs. P ev)) \<Longrightarrow> emits P m"
  by (simp add: emits_def)

lemma emits_silent: "(\<And>w. trace (snd (m w)) = trace w) \<Longrightarrow> emits P m"
  by (auto simp: emits_def intro: exI [of _ "[]"])

lemma emits_mono: "emits P m \<Longrightarrow> (\<And>ev. P ev \<Longrightarrow> Q ev) \<Longrightarrow> emits Q m"
  unfolding emits_def by meson

lemma emits_sret [emits_rules]: "emits P (sret x)"
  by (rule emits_silent) (simp add: sret_def)

lemma emits_sfail [emits_rules]: "emits P (sfail e)"
  by (rule emits_silent) (simp add: sfail_def)

lemma emits_io_fail [emits_rules]: "emits P (io_fail op p e)"
  by (simp add: io_fail_def emits_sfail)

lemma emits_slift [emits_rules]: "emits P (slift r)"
  by (rule emits_silent) (simp add: slift_def)

lemma emits_sbind [emits_rules]:
  assumes m: "emits P m" and f: "\<And>x. emits P (f x)"
  shows "emits P (sbind m f)"
proof (rule emitsI)
  fix w
  obtain evs where evs: "trace (snd (m w)) = trace w @ evs" "\<forall>ev\<in>set evs. P ev"
    using m by (auto simp: emits_def)
  show "\<exists>evs. trace (snd (sbind m f w)) = trace w @ evs \<and> (\<forall>ev\<in>set evs. P ev)"
  proof (cases "m w")
    case (Pair r w')
    show ?thesis
    proof (cases r)
      case (Inl e)
      with Pair evs show ?thesis by (auto simp: sbind_def)
    next
      case (Inr x)
      obtain evs' where "trace (snd (f x w')) = trace w' @ evs'" "\<forall>ev\<in>set evs'. P ev"
        using f [of x] by (auto simp: emits_def)
      with Pair Inr evs show ?thesis
        by (intro exI [of _ "evs @ evs'"]) (auto simp: sbind_def)
    qed
  qed
qed

lemma emits_stry [emits_rules]:
  assumes m: "emits P m" and f: "\<And>r. emits P (f r)"
  shows "emits P (stry m f)"
proof (rule emitsI)
  fix w
  obtain r w' where mw: "m w = (r, w')" by (cases "m w")
  obtain evs where "trace w' = trace w @ evs" "\<forall>ev\<in>set evs. P ev"
    using m mw by (auto simp: emits_def dest: spec [of _ w])
  moreover obtain evs' where "trace (snd (f r w')) = trace w' @ evs'" "\<forall>ev\<in>set evs'. P ev"
    using f [of r] by (auto simp: emits_def)
  ultimately show "\<exists>evs. trace (snd (stry m f w)) = trace w @ evs \<and> (\<forall>ev\<in>set evs. P ev)"
    by (intro exI [of _ "evs @ evs'"]) (auto simp: stry_def mw)
qed

lemma emits_if [emits_rules]:
  "(b \<Longrightarrow> emits P m) \<Longrightarrow> (\<not> b \<Longrightarrow> emits P n) \<Longrightarrow> emits P (if b then m else n)"
  by simp

lemma emits_option [emits_rules]:
  "(x = None \<Longrightarrow> emits P m) \<Longrightarrow> (\<And>y. x = Some y \<Longrightarrow> emits P (f y)) \<Longrightarrow>
     emits P (case x of None \<Rightarrow> m | Some y \<Rightarrow> f y)"
  by (cases x) simp_all

lemma emits_sum [emits_rules]:
  "(\<And>e. x = Inl e \<Longrightarrow> emits P (f e)) \<Longrightarrow> (\<And>y. x = Inr y \<Longrightarrow> emits P (g y)) \<Longrightarrow>
     emits P (case x of Inl e \<Rightarrow> f e | Inr y \<Rightarrow> g y)"
  by (cases x) simp_all

lemma emits_prod [emits_rules]:
  "(\<And>a b. x = (a, b) \<Longrightarrow> emits P (f a b)) \<Longrightarrow> emits P (case x of (a, b) \<Rightarrow> f a b)"
  by (cases x) simp

lemma emits_let [emits_rules]: "emits P (f x) \<Longrightarrow> emits P (Let x f)"
  by simp

lemma emits_seach [emits_rules]: "(\<And>x. x \<in> set xs \<Longrightarrow> emits P (f x)) \<Longrightarrow> emits P (seach f xs)"
  by (induction xs) (auto intro!: emits_rules)

lemma emits_smap [emits_rules]: "(\<And>x. x \<in> set xs \<Longrightarrow> emits P (f x)) \<Longrightarrow> emits P (smap f xs)"
  by (induction xs) (auto intro!: emits_rules)

lemma emits_record_write [emits_rules]: "emits P (record_write p)"
  by (rule emits_silent) (simp add: record_write_def trace_def)

lemma emits_collect [emits_rules]:
  assumes m: "emits P m" and f: "\<And>r ps. emits P (f r ps)"
  shows "emits P (collect_writes m f)"
proof (rule emitsI)
  fix w :: "('a \<times> event list) world"
  let ?w = "w\<lparr>w_journal := Some []\<rparr>"
  obtain r w' where mw: "m ?w = (r, w')" by (cases "m ?w")
  obtain evs where e: "trace w' = trace w @ evs" "\<forall>ev\<in>set evs. P ev"
    using m mw by (auto simp: emits_def trace_def dest: spec [of _ ?w])
  let ?ps = "case w_journal w' of Some paths \<Rightarrow> paths | None \<Rightarrow> []"
  let ?w' = "w'\<lparr>w_journal := None\<rparr>"
  obtain evs' where "trace (snd (f r ?ps ?w')) = trace ?w' @ evs'" "\<forall>ev\<in>set evs'. P ev"
    using f [of r ?ps] by (auto simp: emits_def)
  moreover have "trace ?w' = trace w'" by (simp add: trace_def)
  ultimately show "\<exists>evs. trace (snd (collect_writes m f w)) = trace w @ evs \<and> (\<forall>ev\<in>set evs. P ev)"
    using e by (intro exI [of _ "evs @ evs'"]) (auto simp: collect_writes_def mw)
qed

lemma emits_syscall:
  "P ev \<Longrightarrow> emits P (syscall (logging ev f))"
  by (auto simp: emits_def syscall_def logging_def trace_def split: prod.splits)

lemma emits_call:
  "P ev \<Longrightarrow> emits P (call op p (logging ev f))"
  by (auto simp: call_def intro!: emits_rules emits_syscall)

lemma traced_sels [simp]:
  "sys_exists (traced E) p = logging (EvExists p) (sys_exists E p)"
  "sys_metadata (traced E) p = logging (EvMetadata p) (sys_metadata E p)"
  "sys_read_dir (traced E) p = logging (EvReadDir p) (sys_read_dir E p)"
  "sys_open_read (traced E) p = logging (EvOpenRead p) (sys_open_read E p)"
  "sys_open_write (traced E) p = logging (EvOpenWrite p) (sys_open_write E p)"
  "sys_write (traced E) p v = logging (EvWrite p v) (sys_write E p v)"
  "sys_fuel (traced E) = sys_fuel E"
  by (simp_all add: traced_def)

section \<open>Reading emits no write\<close>

fun is_write :: "event \<Rightarrow> bool" where
  "is_write (EvOpenWrite _) = True"
| "is_write (EvWrite _ _) = True"
| "is_write _ = False"

text \<open>A predicate that allows every event except writes, which it judges by their path.\<close>

definition writes_within :: "(path \<Rightarrow> bool) \<Rightarrow> event \<Rightarrow> bool" where
  "writes_within Q ev =
     (case ev of EvOpenWrite p \<Rightarrow> Q p | EvWrite p _ \<Rightarrow> Q p | _ \<Rightarrow> True)"

lemma writes_within_simps [simp]:
  "writes_within Q (EvExists p)" "writes_within Q (EvMetadata p)"
  "writes_within Q (EvReadDir p)" "writes_within Q (EvOpenRead p)"
  "writes_within Q (EvSleep d)"
  "writes_within Q (EvOpenWrite p) \<longleftrightarrow> Q p" "writes_within Q (EvWrite p v) \<longleftrightarrow> Q p"
  by (simp_all add: writes_within_def)

lemma writes_within_mono: "(\<And>p. Q p \<Longrightarrow> R p) \<Longrightarrow> writes_within Q ev \<Longrightarrow> writes_within R ev"
  by (cases ev) auto

lemma writes_within_False: "writes_within (\<lambda>_. False) ev \<longleftrightarrow> \<not> is_write ev"
  by (cases ev) auto

abbreviation writes_only :: "(path \<Rightarrow> bool) \<Rightarrow> ('k \<times> event list, 'a) comp \<Rightarrow> bool" where
  "writes_only Q m \<equiv> emits (writes_within Q) m"

lemma writes_only_mono: "writes_only Q m \<Longrightarrow> (\<And>p. Q p \<Longrightarrow> R p) \<Longrightarrow> writes_only R m"
  by (erule emits_mono) (rule writes_within_mono)

lemma read_only_writes: "writes_only (\<lambda>_. False) m \<Longrightarrow> writes_only Q m"
  by (erule writes_only_mono) simp

lemmas io_defs =
  path_exists_def path_is_dir_def path_is_writable_def numeric_directory_indices_def
  read_text_def read_configuration_value_equals_def read_u64_def read_usize_def read_u32_def
  read_u8_def read_i32_def read_bool_def read_enum_def read_sysfs_string_def

lemma reads_emit [emits_rules]:
  "writes_only Q (path_exists (traced E) p)"
  "writes_only Q (path_is_dir (traced E) p)"
  "writes_only Q (path_is_writable (traced E) p)"
  "writes_only Q (numeric_directory_indices (traced E) p)"
  "writes_only Q (read_text (traced E) p)"
  "writes_only Q (read_configuration_value_equals (traced E) p expected)"
  "writes_only Q (read_u64 (traced E) p)"
  "writes_only Q (read_usize (traced E) p)"
  "writes_only Q (read_u32 (traced E) p)"
  "writes_only Q (read_u8 (traced E) p)"
  "writes_only Q (read_i32 (traced E) p)"
  "writes_only Q (read_bool (traced E) p)"
  "writes_only Q (read_enum (traced E) p parse)"
  "writes_only Q (read_sysfs_string (traced E) p)"
  unfolding io_defs traced_sels
  by (intro emits_rules emits_call emits_syscall; (simp split: filled.split; intro emits_rules conjI impI allI)?)+

section \<open>Writing emits writes of the named file\<close>

lemma write_once_emits: "Q p \<Longrightarrow> writes_only Q (write_once n (traced E) p v)"
  by (induction n) (auto intro!: emits_rules emits_syscall)

lemma writes_emit [emits_rules]:
  "Q p \<Longrightarrow> writes_only Q (write_bytes (traced E) p s)"
  "Q p \<Longrightarrow> writes_only Q (write_value (traced E) p v)"
  "Q p \<Longrightarrow> writes_only Q (write_usize (traced E) p n)"
  "Q p \<Longrightarrow> writes_only Q (write_i32 (traced E) p i)"
  "Q p \<Longrightarrow> writes_only Q (write_bool (traced E) p b)"
  "Q p \<Longrightarrow> writes_only Q (write_enum (traced E) p name)"
  "Q p \<Longrightarrow> writes_only Q (write_value_if_present (traced E) p v)"
  "Q p \<Longrightarrow> writes_only Q (ensure_count (traced E) p n)"
  unfolding write_bytes_def write_value_def write_usize_def write_i32_def write_bool_def
    write_enum_def write_value_if_present_def ensure_count_def traced_sels
  by (auto intro!: emits_rules emits_call write_once_emits)

lemma indexed_emit [emits_rules]:
  "(\<And>i. i < n \<Longrightarrow> writes_only Q (f i)) \<Longrightarrow> writes_only Q (read_indexed n f)"
  "writes_only Q r \<Longrightarrow> writes_only Q (optional_read (traced E) p r)"
  "writes_only Q s \<Longrightarrow> writes_only Q (optional_pair (traced E) p q s)"
  "writes_only Q m \<Longrightarrow> writes_only Q (stage_optional_default (traced E) p x y feature m)"
  unfolding read_indexed_def optional_read_def optional_pair_def stage_optional_default_def
  by (auto intro!: emits_rules)

section \<open>Capturing, comparing and restoring\<close>

lemma walk_emits: "writes_only Q (walk n (traced E) pending files)"
  by (induction n "traced E" pending files rule: walk.induct)
    (auto intro!: emits_rules emits_call split: prod.splits)

lemma select_writable_emits: "writes_only Q (select_writable (traced E) root ps sel)"
  by (induction ps arbitrary: sel) (auto intro!: emits_rules)

lemma captures_emit [emits_rules]:
  "writes_only Q (all_files_recursive (traced E) root)"
  "writes_only Q (writable_configuration_files (traced E) root)"
  "writes_only Q (read_configuration_value (traced E) root)"
  "writes_only Q (capture_configuration (traced E) root)"
  "writes_only Q (snapshot_capture (traced E) root)"
  unfolding all_files_recursive_def writable_configuration_files_def capture_configuration_def
    snapshot_capture_def read_configuration_value_def
  by (auto intro!: emits_rules walk_emits select_writable_emits)

lemma check_entries_emits [emits_rules]: "writes_only Q (check_entries (traced E) skip es)"
  by (induction es) (auto intro!: emits_rules)

lemma refresh_entries_emits: "writes_only Q (refresh_entries (traced E) ps es)"
  by (induction ps arbitrary: es) (auto intro!: emits_rules)

lemma comparisons_emit [emits_rules]:
  "writes_only Q (matches_current_except (traced E) es ignored)"
  "writes_only Q (fingerprint_matches_current (traced E) es)"
  "writes_only Q (matches_current_under_except (traced E) es root ignored)"
  "writes_only Q (matches_current_outside_except (traced E) es root ignored)"
  "writes_only Q (refreshed_paths_except (traced E) es paths ignored)"
  "writes_only Q (snapshot_matches_current_except (traced E) s ignored)"
  "writes_only Q (snapshot_matches_complete_current_except (traced E) s ignored)"
  "writes_only Q (snapshot_matches_current_under_except (traced E) s root ignored)"
  "writes_only Q (snapshot_matches_current_outside_except (traced E) s root ignored)"
  "writes_only Q (snapshot_refreshed_paths_except (traced E) s paths ignored)"
  "writes_only Q (snapshot_matches_current (traced E) s)"
  "writes_only Q (values_match_current (traced E) s)"
  unfolding matches_current_except_def fingerprint_matches_current_def
    matches_current_under_except_def matches_current_outside_except_def
    refreshed_paths_except_def snapshot_matches_current_except_def
    snapshot_matches_complete_current_except_def snapshot_matches_current_under_except_def
    snapshot_matches_current_outside_except_def snapshot_refreshed_paths_except_def
    snapshot_matches_current_def values_match_current_def
  by (auto intro!: emits_rules refresh_entries_emits)

text \<open>Restoring writes configuration entries only, and none of the ignored ones.\<close>

definition restorable :: "config_entry list \<Rightarrow> path list \<Rightarrow> path \<Rightarrow> bool" where
  "restorable es ignored p \<longleftrightarrow> \<not> is_member ignored p \<and> (\<exists>e\<in>set es. ce_path e = p)"

lemma restore_entry_emits:
  "e \<in> set es \<Longrightarrow> writes_only (restorable es ignored) (restore_entry (traced E) ignored e)"
  unfolding restore_entry_def by (auto intro!: emits_rules simp: restorable_def)

lemma restore_except_emits:
  "writes_only (restorable (cs_entries s) ignored) (restore_except (traced E) s ignored)"
  unfolding restore_except_def by (auto intro!: emits_rules restore_entry_emits)

lemma restore_paths_except_emits:
  "writes_only (restorable (filter (\<lambda>e. is_member paths (ce_path e)) (cs_entries s)) ignored)
     (restore_paths_except (traced E) s paths ignored)"
  unfolding restore_paths_except_def verify_restored_def
  by (auto intro!: emits_rules restore_entry_emits)

section \<open>Attributes below a directory\<close>

text \<open>
  \<open>descends p q\<close>: \<open>q\<close> is \<open>p\<close> or below it. \<open>attribute_of p q\<close>: \<open>q\<close> is a file below \<open>p\<close> other
  than a kdamond's \<open>state\<close>, the file that takes commands.
\<close>

definition descends :: "path \<Rightarrow> path \<Rightarrow> bool" where
  "descends p q \<longleftrightarrow> (\<exists>names. q = p @ map Normal names)"

definition attribute_of :: "path \<Rightarrow> path \<Rightarrow> bool" where
  "attribute_of p q \<longleftrightarrow>
     (\<exists>names. names \<noteq> [] \<and> q = p @ map Normal names \<and> last names \<noteq> ''state'')"

lemma descends_refl [simp]: "descends p p"
  by (simp add: descends_def)

lemma descends_sub [simp]: "descends p q \<Longrightarrow> descends p (sub q names)"
  unfolding descends_def sub_def by (metis append.assoc map_append)

lemma descends_child [simp]: "descends p q \<Longrightarrow> descends p (child q i)"
  unfolding descends_def child_def by (metis append.assoc list.map(1,2) map_append)

lemma attribute_of_sub [simp]:
  "descends p q \<Longrightarrow> names \<noteq> [] \<Longrightarrow> last names \<noteq> ''state'' \<Longrightarrow> attribute_of p (sub q names)"
proof -
  assume "descends p q" "names \<noteq> []" "last names \<noteq> ''state''"
  then obtain ns where "sub q names = p @ map Normal (ns @ names)"
    by (auto simp: descends_def sub_def)
  with \<open>names \<noteq> []\<close> \<open>last names \<noteq> ''state''\<close> show ?thesis
    unfolding attribute_of_def by (intro exI [of _ "ns @ names"]) simp
qed

end
