(* ===== verification/Handles.thy ===== *)
theory Handles
  imports Traces Region
begin

text \<open>
  The typed handles on the DAMON hierarchy: \<^verbatim>\<open>src/src/sysfs/admin.rs\<close>,
  \<^verbatim>\<open>src/src/sysfs/context.rs\<close>, \<^verbatim>\<open>src/src/sysfs/target.rs\<close>, \<^verbatim>\<open>src/src/sysfs/probe.rs\<close> and
  \<^verbatim>\<open>src/src/sysfs/scheme/mod.rs\<close>. Each handle type of the source holds one path, which is its
  value here; a method is a computation on that path, named after its type.
\<close>

text \<open>Several steps in a row, each a \<open>?\<close> of the source.\<close>

fun steps :: "('k, unit) comp list \<Rightarrow> ('k, unit) comp" where
  "steps [] = sret ()"
| "steps (m # ms) = sbind m (\<lambda>_. steps ms)"

section \<open>Kdamonds and the admin directory\<close>

text \<open>\<open>duration_millis\<close> and \<open>duration_micros\<close> of \<^verbatim>\<open>src/src/sysfs/io.rs\<close>.\<close>

definition io_duration_millis :: "duration \<Rightarrow> u32 result" where
  "io_duration_millis d =
     (if as_millis d < 2 ^ 32 then
        let milliseconds = of_nat (as_millis d) :: u32 in
        (if from_millis (of_nat (unat milliseconds)) \<noteq> d then
           invalid ''refresh interval'' ''must be exactly representable in whole milliseconds''
         else Inr milliseconds)
      else invalid ''refresh interval'' ''does not fit in the kernel unsigned-int range'')"

definition io_duration_micros :: "duration \<Rightarrow> u64 result" where
  "io_duration_micros d =
     (if as_micros d < 2 ^ 64 then
        let micros = of_nat (as_micros d) in
        (if from_micros micros \<noteq> d then
           invalid ''apply interval'' ''must be exactly representable in whole microseconds''
         else Inr micros)
      else invalid ''apply interval'' ''does not fit in 64-bit microseconds'')"

definition Admin_kdamond_count :: "'k sysfs \<Rightarrow> path \<Rightarrow> ('k, usize) comp" where
  "Admin_kdamond_count E h = read_usize E (sub h [''kdamonds'', ''nr_kdamonds''])"

definition Admin_set_kdamond_count :: "'k sysfs \<Rightarrow> path \<Rightarrow> usize \<Rightarrow> ('k, unit) comp" where
  "Admin_set_kdamond_count E h n =
     sbind (slift (validate_count ''kdamond count'' n)) (\<lambda>_. write_usize E (sub h [''kdamonds'', ''nr_kdamonds'']) n)"

definition Admin_kdamond :: "path \<Rightarrow> usize \<Rightarrow> path" where
  "Admin_kdamond h i = child (sub h [''kdamonds'']) i"

definition Admin_open :: "'k sysfs \<Rightarrow> path \<Rightarrow> ('k, path) comp" where
  "Admin_open E root =
     sbind (path_exists E (sub root [''kdamonds'', ''nr_kdamonds''])) (\<lambda>exists.
       if \<not> exists then sfail (Unavailable root)
       else sbind (Admin_kdamond_count E root) (\<lambda>_. sret root))"

definition Kdamond_state :: "'k sysfs \<Rightarrow> path \<Rightarrow> ('k, kdamond_state) comp" where
  "Kdamond_state E h =
     sbind (read_text E (sub h [''state''])) (\<lambda>value. slift (KdamondState_from_str (trim value)))"

definition Kdamond_command :: "'k sysfs \<Rightarrow> path \<Rightarrow> kdamond_command \<Rightarrow> ('k, unit) comp" where
  "Kdamond_command E h command =
     sbind (slift (validate_token ''kdamond command'' (KdamondCommand_kernel_name command))) (\<lambda>_.
       write_bytes E (sub h [''state'']) (KdamondCommand_kernel_name command))"

definition Kdamond_pid :: "'k sysfs \<Rightarrow> path \<Rightarrow> ('k, pid option) comp" where
  "Kdamond_pid E h =
     sbind (read_i32 E (sub h [''pid''])) (\<lambda>raw.
       if raw < 0 then sret None
       else case Pid_new (of_nat (nat raw)) of
         Inr p \<Rightarrow> sret (Some p)
       | Inl _ \<Rightarrow> sfail (invalid_kernel_value (sub h [''pid'']) (dec_int raw)
                           ''a process ID or -1''))"

definition Kdamond_refresh_interval :: "'k sysfs \<Rightarrow> path \<Rightarrow> ('k, duration) comp" where
  "Kdamond_refresh_interval E h =
     sbind (read_u32 E (sub h [''refresh_ms''])) (\<lambda>milliseconds.
       sret (from_millis (of_nat (unat milliseconds))))"

definition Kdamond_set_refresh_interval :: "'k sysfs \<Rightarrow> path \<Rightarrow> duration \<Rightarrow> ('k, unit) comp" where
  "Kdamond_set_refresh_interval E h interval =
     sbind (slift (io_duration_millis interval)) (\<lambda>milliseconds.
       write_value E (sub h [''refresh_ms'']) milliseconds)"

definition Kdamond_set_default_refresh_interval_if_present ::
    "'k sysfs \<Rightarrow> path \<Rightarrow> ('k, unit) comp" where
  "Kdamond_set_default_refresh_interval_if_present E h =
     sbind (write_value_if_present E (sub h [''refresh_ms'']) (0 :: u8)) (\<lambda>_. sret ())"

definition Kdamond_context_count :: "'k sysfs \<Rightarrow> path \<Rightarrow> ('k, usize) comp" where
  "Kdamond_context_count E h = read_usize E (sub h [''contexts'', ''nr_contexts''])"

definition Kdamond_set_context_count :: "'k sysfs \<Rightarrow> path \<Rightarrow> usize \<Rightarrow> ('k, unit) comp" where
  "Kdamond_set_context_count E h n =
     sbind (slift (validate_count ''context count'' n)) (\<lambda>_. write_usize E (sub h [''contexts'', ''nr_contexts'']) n)"

definition Kdamond_context :: "path \<Rightarrow> usize \<Rightarrow> path" where
  "Kdamond_context h i = child (sub h [''contexts'']) i"

definition Admin_configuration_snapshot :: "'k sysfs \<Rightarrow> path \<Rightarrow> ('k, config_snapshot) comp" where
  "Admin_configuration_snapshot E h = snapshot_capture E h"

definition Kdamond_configuration_fingerprint :: "'k sysfs \<Rightarrow> path \<Rightarrow> ('k, fingerprint) comp" where
  "Kdamond_configuration_fingerprint E h = capture_configuration E h"

section \<open>Contexts\<close>

text \<open>\<open>str::lines\<close>: split at line feeds, a carriage return before one dropped, no last empty line.\<close>

fun split_lines :: "string \<Rightarrow> string \<Rightarrow> string list" where
  "split_lines acc [] = (if acc = [] then [] else [acc])"
| "split_lines acc (c # cs) =
     (if c = CHR 0x0A then
        (if acc \<noteq> [] \<and> last acc = CHR 0x0D then butlast acc else acc) # split_lines [] cs
      else split_lines (acc @ [c]) cs)"

definition Context_available_operations :: "'k sysfs \<Rightarrow> path \<Rightarrow> ('k, operation list) comp" where
  "Context_available_operations E h =
     sbind (read_text E (sub h [''avail_operations''])) (\<lambda>value.
       sret (map Operation_parse
               (filter (\<lambda>line. line \<noteq> []) (map trim (split_lines [] value)))))"

definition Context_available_operations_if_present ::
    "'k sysfs \<Rightarrow> path \<Rightarrow> ('k, operation list option) comp" where
  "Context_available_operations_if_present E h =
     sbind (path_exists E (sub h [''avail_operations''])) (\<lambda>present.
       if present then sbind (Context_available_operations E h) (\<lambda>ops. sret (Some ops))
       else sret None)"

definition Context_operation :: "'k sysfs \<Rightarrow> path \<Rightarrow> ('k, operation) comp" where
  "Context_operation E h = read_enum E (sub h [''operations'']) Operation_parse"

definition Context_set_operation :: "'k sysfs \<Rightarrow> path \<Rightarrow> operation \<Rightarrow> ('k, unit) comp" where
  "Context_set_operation E h value =
     sbind (slift (validate_token ''monitoring operation'' (Operation_kernel_name value))) (\<lambda>_.
       write_bytes E (sub h [''operations'']) (Operation_kernel_name value))"

definition Context_address_unit :: "'k sysfs \<Rightarrow> path \<Rightarrow> ('k, address_unit) comp" where
  "Context_address_unit E h =
     sbind (read_u64 E (sub h [''addr_unit''])) (\<lambda>bytes.
       case AddressUnit_new bytes of
         Inr u \<Rightarrow> sret u
       | Inl _ \<Rightarrow> sfail (invalid_kernel_value (sub h [''addr_unit'']) (dec_word bytes)
                           ''a non-zero address unit''))"

definition Context_set_address_unit :: "'k sysfs \<Rightarrow> path \<Rightarrow> address_unit \<Rightarrow> ('k, unit) comp" where
  "Context_set_address_unit E h u = write_value E (sub h [''addr_unit'']) (unit_bytes u)"

definition Context_pause_control_available :: "'k sysfs \<Rightarrow> path \<Rightarrow> ('k, bool) comp" where
  "Context_pause_control_available E h = path_exists E (sub h [''pause''])"

definition Context_intervals :: "'k sysfs \<Rightarrow> path \<Rightarrow> ('k, monitoring_intervals) comp" where
  "Context_intervals E h =
     (let p = sub h [''monitoring_attrs'', ''intervals''] in
      sbind (read_u64 E (sub p [''sample_us''])) (\<lambda>s.
      sbind (read_u64 E (sub p [''aggr_us''])) (\<lambda>a.
      sbind (read_u64 E (sub p [''update_us''])) (\<lambda>u.
        slift (MonitoringIntervals_new (from_micros s) (from_micros a) (from_micros u))))))"

definition Context_set_intervals ::
    "'k sysfs \<Rightarrow> path \<Rightarrow> monitoring_intervals \<Rightarrow> ('k, unit) comp" where
  "Context_set_intervals E h intervals =
     (let p = sub h [''monitoring_attrs'', ''intervals''] in
      case intervals_as_micros intervals of (sample, aggregation, update) \<Rightarrow>
        steps [write_value E (sub p [''sample_us'']) sample,
               write_value E (sub p [''aggr_us'']) aggregation,
               write_value E (sub p [''update_us'']) update])"

definition Context_region_bounds :: "'k sysfs \<Rightarrow> path \<Rightarrow> ('k, region_bounds) comp" where
  "Context_region_bounds E h =
     (let p = sub h [''monitoring_attrs'', ''nr_regions''] in
      sbind (read_u64 E (sub p [''min''])) (\<lambda>mn.
      sbind (read_u64 E (sub p [''max''])) (\<lambda>mx. slift (RegionBounds_new mn mx))))"

definition Context_set_region_bounds ::
    "'k sysfs \<Rightarrow> path \<Rightarrow> region_bounds \<Rightarrow> ('k, unit) comp" where
  "Context_set_region_bounds E h bounds =
     (let p = sub h [''monitoring_attrs'', ''nr_regions''] in
      steps [write_value E (sub p [''min'']) (bounds_min bounds),
             write_value E (sub p [''max'']) (bounds_max bounds)])"

definition Context_is_paused :: "'k sysfs \<Rightarrow> path \<Rightarrow> ('k, bool) comp" where
  "Context_is_paused E h = read_bool E (sub h [''pause''])"

definition Context_set_paused :: "'k sysfs \<Rightarrow> path \<Rightarrow> bool \<Rightarrow> ('k, unit) comp" where
  "Context_set_paused E h value = write_bool E (sub h [''pause'']) value"

definition Context_probe_count :: "'k sysfs \<Rightarrow> path \<Rightarrow> ('k, usize) comp" where
  "Context_probe_count E h = read_usize E (sub h [''monitoring_attrs'', ''probes'', ''nr_probes''])"

definition Context_set_probe_count :: "'k sysfs \<Rightarrow> path \<Rightarrow> usize \<Rightarrow> ('k, unit) comp" where
  "Context_set_probe_count E h n =
     sbind (slift (validate_count ''monitoring probe count'' n)) (\<lambda>_. write_usize E (sub h [''monitoring_attrs'', ''probes'', ''nr_probes'']) n)"

definition Context_probe :: "path \<Rightarrow> usize \<Rightarrow> path" where
  "Context_probe h i = child (sub h [''monitoring_attrs'', ''probes'']) i"

definition Context_target_count :: "'k sysfs \<Rightarrow> path \<Rightarrow> ('k, usize) comp" where
  "Context_target_count E h = read_usize E (sub h [''targets'', ''nr_targets''])"

definition Context_set_target_count :: "'k sysfs \<Rightarrow> path \<Rightarrow> usize \<Rightarrow> ('k, unit) comp" where
  "Context_set_target_count E h n =
     sbind (slift (validate_count ''target count'' n)) (\<lambda>_. write_usize E (sub h [''targets'', ''nr_targets'']) n)"

definition Context_target :: "path \<Rightarrow> usize \<Rightarrow> path" where
  "Context_target h i = child (sub h [''targets'']) i"

definition Context_scheme_count :: "'k sysfs \<Rightarrow> path \<Rightarrow> ('k, usize) comp" where
  "Context_scheme_count E h = read_usize E (sub h [''schemes'', ''nr_schemes''])"

definition Context_set_scheme_count :: "'k sysfs \<Rightarrow> path \<Rightarrow> usize \<Rightarrow> ('k, unit) comp" where
  "Context_set_scheme_count E h n =
     sbind (slift (validate_count ''scheme count'' n)) (\<lambda>_. write_usize E (sub h [''schemes'', ''nr_schemes'']) n)"

definition Context_scheme :: "path \<Rightarrow> usize \<Rightarrow> path" where
  "Context_scheme h i = child (sub h [''schemes'']) i"

section \<open>Targets\<close>

definition Target_pid :: "'k sysfs \<Rightarrow> path \<Rightarrow> ('k, pid option) comp" where
  "Target_pid E h =
     sbind (read_i32 E (sub h [''pid_target''])) (\<lambda>raw.
       if raw = 0 then sret None
       else if raw < 0 then
         sfail (invalid_kernel_value (sub h [''pid_target'']) (dec_int raw) ''a process ID or zero'')
       else case Pid_new (of_nat (nat raw)) of
         Inr p \<Rightarrow> sret (Some p)
       | Inl _ \<Rightarrow> sfail (invalid_kernel_value (sub h [''pid_target'']) (dec_int raw)
                           ''a process ID''))"

definition Target_set_pid :: "'k sysfs \<Rightarrow> path \<Rightarrow> pid \<Rightarrow> ('k, unit) comp" where
  "Target_set_pid E h p = write_value E (sub h [''pid_target'']) (pid_raw p)"

definition Target_clear_pid :: "'k sysfs \<Rightarrow> path \<Rightarrow> ('k, unit) comp" where
  "Target_clear_pid E h = write_value E (sub h [''pid_target'']) (0 :: u8)"

definition Target_is_obsolete :: "'k sysfs \<Rightarrow> path \<Rightarrow> ('k, bool) comp" where
  "Target_is_obsolete E h = read_bool E (sub h [''obsolete_target''])"

definition Target_set_obsolete :: "'k sysfs \<Rightarrow> path \<Rightarrow> bool \<Rightarrow> ('k, unit) comp" where
  "Target_set_obsolete E h value = write_bool E (sub h [''obsolete_target'']) value"

definition Target_initial_region_count :: "'k sysfs \<Rightarrow> path \<Rightarrow> ('k, usize) comp" where
  "Target_initial_region_count E h = read_usize E (sub h [''regions'', ''nr_regions''])"

definition Target_set_initial_region_count :: "'k sysfs \<Rightarrow> path \<Rightarrow> usize \<Rightarrow> ('k, unit) comp" where
  "Target_set_initial_region_count E h n =
     sbind (slift (validate_count ''initial region count'' n)) (\<lambda>_. write_usize E (sub h [''regions'', ''nr_regions'']) n)"

section \<open>Probes\<close>

definition Probe_filter_count :: "'k sysfs \<Rightarrow> path \<Rightarrow> ('k, usize) comp" where
  "Probe_filter_count E h = read_usize E (sub h [''filters'', ''nr_filters''])"

definition Probe_set_filter_count :: "'k sysfs \<Rightarrow> path \<Rightarrow> usize \<Rightarrow> ('k, unit) comp" where
  "Probe_set_filter_count E h n =
     sbind (slift (validate_count ''probe filter count'' n)) (\<lambda>_. write_usize E (sub h [''filters'', ''nr_filters'']) n)"

definition Probe_filter :: "path \<Rightarrow> usize \<Rightarrow> path" where
  "Probe_filter h i = child (sub h [''filters'']) i"

definition ProbeFilter_filter_type :: "'k sysfs \<Rightarrow> path \<Rightarrow> ('k, probe_filter_type) comp" where
  "ProbeFilter_filter_type E h = read_enum E (sub h [''type'']) ProbeFilterType_parse"

definition ProbeFilter_set_filter_type :: "'k sysfs \<Rightarrow> path \<Rightarrow> probe_filter_type \<Rightarrow> ('k, unit) comp" where
  "ProbeFilter_set_filter_type E h value =
     sbind (slift (validate_token ''probe filter type'' (ProbeFilterType_kernel_name value))) (\<lambda>_.
       write_bytes E (sub h [''type'']) (ProbeFilterType_kernel_name value))"

definition ProbeFilter_matching :: "'k sysfs \<Rightarrow> path \<Rightarrow> ('k, bool) comp" where
  "ProbeFilter_matching E h = read_bool E (sub h [''matching''])"

definition ProbeFilter_set_matching :: "'k sysfs \<Rightarrow> path \<Rightarrow> bool \<Rightarrow> ('k, unit) comp" where
  "ProbeFilter_set_matching E h value = write_bool E (sub h [''matching'']) value"

definition ProbeFilter_allowed :: "'k sysfs \<Rightarrow> path \<Rightarrow> ('k, bool) comp" where
  "ProbeFilter_allowed E h = read_bool E (sub h [''allow''])"

definition ProbeFilter_set_allowed :: "'k sysfs \<Rightarrow> path \<Rightarrow> bool \<Rightarrow> ('k, unit) comp" where
  "ProbeFilter_set_allowed E h value = write_bool E (sub h [''allow'']) value"

definition ProbeFilter_cgroup_path :: "'k sysfs \<Rightarrow> path \<Rightarrow> ('k, string) comp" where
  "ProbeFilter_cgroup_path E h = read_sysfs_string E (sub h [''path''])"

definition ProbeFilter_set_cgroup_path :: "'k sysfs \<Rightarrow> path \<Rightarrow> string \<Rightarrow> ('k, unit) comp" where
  "ProbeFilter_set_cgroup_path E h value =
     sbind (slift (validate_sysfs_string ''probe filter cgroup path'' value)) (\<lambda>_. write_bytes E (sub h [''path'']) value)"

section \<open>Schemes\<close>

definition is_kernel_ulong_width_error :: "error \<Rightarrow> bool" where
  "is_kernel_ulong_width_error e =
     (case e of Io _ _ source \<Rightarrow> raw_os_error source \<in> {Some 22, Some 34} | _ \<Rightarrow> False)"

definition select_kernel_ulong_max :: "(u64 \<Rightarrow> ('k, unit) comp) \<Rightarrow> ('k, u64) comp" where
  "select_kernel_ulong_max write =
     stry (write u64_max) (\<lambda>r.
       case r of
         Inr _ \<Rightarrow> sret u64_max
       | Inl e \<Rightarrow>
           if is_kernel_ulong_width_error e then
             sbind (write 4294967295) (\<lambda>_. sret 4294967295)
           else sfail e)"

definition write_kernel_ulong_max :: "'k sysfs \<Rightarrow> path \<Rightarrow> ('k, u64) comp" where
  "write_kernel_ulong_max E p = select_kernel_ulong_max (\<lambda>value. write_value E p value)"

definition read_region_size_range :: "'k sysfs \<Rightarrow> path \<Rightarrow> ('k, u64_range) comp" where
  "read_region_size_range E p =
     sbind (read_u64 E (sub p [''min''])) (\<lambda>mn.
     sbind (read_u64 E (sub p [''max''])) (\<lambda>mx. slift (RegionSizeRange_new mn mx)))"

definition read_access_count_range :: "'k sysfs \<Rightarrow> path \<Rightarrow> ('k, u32_range) comp" where
  "read_access_count_range E p =
     sbind (read_u32 E (sub p [''min''])) (\<lambda>mn.
     sbind (read_u32 E (sub p [''max''])) (\<lambda>mx. slift (AccessCountRange_new mn mx)))"

definition read_age_range :: "'k sysfs \<Rightarrow> path \<Rightarrow> ('k, u32_range) comp" where
  "read_age_range E p =
     sbind (read_u32 E (sub p [''min''])) (\<lambda>mn.
     sbind (read_u32 E (sub p [''max''])) (\<lambda>mx. slift (AgeRange_new mn mx)))"

definition write_region_size_range :: "'k sysfs \<Rightarrow> path \<Rightarrow> u64_range \<Rightarrow> ('k, unit) comp" where
  "write_region_size_range E p r =
     steps [write_value E (sub p [''min'']) (range_min r),
            write_value E (sub p [''max'']) (range_max r)]"

definition write_access_count_range :: "'k sysfs \<Rightarrow> path \<Rightarrow> u32_range \<Rightarrow> ('k, unit) comp" where
  "write_access_count_range E p r =
     steps [write_value E (sub p [''min'']) (range32_min r),
            write_value E (sub p [''max'']) (range32_max r)]"

definition write_age_range :: "'k sysfs \<Rightarrow> path \<Rightarrow> u32_range \<Rightarrow> ('k, unit) comp" where
  "write_age_range E p r =
     steps [write_value E (sub p [''min'']) (range32_min r),
            write_value E (sub p [''max'']) (range32_max r)]"

definition Scheme_access_pattern :: "'k sysfs \<Rightarrow> path \<Rightarrow> ('k, access_pattern) comp" where
  "Scheme_access_pattern E h =
     (let p = sub h [''access_pattern''] in
      sbind (read_region_size_range E (sub p [''sz''])) (\<lambda>size.
      sbind (read_access_count_range E (sub p [''nr_accesses''])) (\<lambda>accesses.
      sbind (read_age_range E (sub p [''age''])) (\<lambda>age.
        sret \<lparr>pattern_size = size, pattern_accesses = accesses, pattern_age = age\<rparr>))))"

definition Scheme_set_access_pattern :: "'k sysfs \<Rightarrow> path \<Rightarrow> access_pattern \<Rightarrow> ('k, unit) comp" where
  "Scheme_set_access_pattern E h pattern =
     (let p = sub h [''access_pattern''] in
      steps [write_region_size_range E (sub p [''sz'']) (pattern_size pattern),
             write_access_count_range E (sub p [''nr_accesses'']) (pattern_accesses pattern),
             write_age_range E (sub p [''age'']) (pattern_age pattern)])"

definition Scheme_set_access_pattern_adaptive ::
    "'k sysfs \<Rightarrow> path \<Rightarrow> access_pattern \<Rightarrow> ('k, unit) comp" where
  "Scheme_set_access_pattern_adaptive E h pattern =
     (let p = sub h [''access_pattern'']; size = sub p [''sz''] in
      steps [write_value E (sub size [''min'']) (range_min (pattern_size pattern)),
             if range_max (pattern_size pattern) = u64_max then
               sbind (write_kernel_ulong_max E (sub size [''max''])) (\<lambda>_. sret ())
             else write_value E (sub size [''max'']) (range_max (pattern_size pattern)),
             write_access_count_range E (sub p [''nr_accesses'']) (pattern_accesses pattern),
             write_age_range E (sub p [''age'']) (pattern_age pattern)])"

definition Scheme_set_match_all :: "'k sysfs \<Rightarrow> path \<Rightarrow> ('k, unit) comp" where
  "Scheme_set_match_all E h =
     (let p = sub h [''access_pattern'']; size = sub p [''sz''] in
      steps [write_value E (sub size [''min'']) (0 :: u8),
             sbind (write_kernel_ulong_max E (sub size [''max''])) (\<lambda>_. sret ()),
             seach (\<lambda>name.
                 steps [write_value E (sub p [name, ''min'']) (0 :: u8),
                        write_value E (sub p [name, ''max'']) u32_max])
               [''nr_accesses'', ''age'']])"

definition Scheme_set_apply_interval :: "'k sysfs \<Rightarrow> path \<Rightarrow> duration \<Rightarrow> ('k, unit) comp" where
  "Scheme_set_apply_interval E h interval =
     sbind (slift (io_duration_micros interval)) (\<lambda>us.
       write_value E (sub h [''apply_interval_us'']) us)"

text \<open>One probe result of a tried region: its index and hits, if the kernel shows them.\<close>

definition read_probe_result ::
    "'k sysfs \<Rightarrow> path \<Rightarrow> usize \<Rightarrow> ('k, (usize \<times> u8) option) comp" where
  "read_probe_result E probes i =
     sbind (path_exists E (sub (child probes i) [''hits''])) (\<lambda>present.
       if present then
         sbind (read_u8 E (sub (child probes i) [''hits''])) (\<lambda>hits. sret (Some (i, hits)))
       else sret None)"

definition read_probe_results :: "'k sysfs \<Rightarrow> path \<Rightarrow> ('k, (usize \<times> u8) list) comp" where
  "read_probe_results E probes =
     sbind (path_is_dir E probes) (\<lambda>is_dir.
       if is_dir then
         sbind (numeric_directory_indices E probes) (\<lambda>indices.
         sbind (smap (read_probe_result E probes) indices) (\<lambda>results.
           sret (List.map_filter (\<lambda>x. x) results)))
       else sret [])"

definition read_region :: "'k sysfs \<Rightarrow> path \<Rightarrow> ('k, raw_region) comp" where
  "read_region E p =
     sbind (read_u64 E (sub p [''start''])) (\<lambda>start.
     sbind (read_u64 E (sub p [''end''])) (\<lambda>end'.
     sbind (read_u32 E (sub p [''nr_accesses''])) (\<lambda>nr_accesses.
     sbind (read_u32 E (sub p [''age''])) (\<lambda>age.
     sbind (optional_read E (sub p [''sz_filter_passed''])
              (read_u64 E (sub p [''sz_filter_passed'']))) (\<lambda>filter_passed.
     sbind (read_probe_results E (sub p [''probes''])) (\<lambda>probe_hits.
       slift (RawRegion_from_kernel start end' nr_accesses age filter_passed probe_hits)))))))"

fun read_regions ::
    "'k sysfs \<Rightarrow> path \<Rightarrow> usize list \<Rightarrow> u64 \<Rightarrow> raw_region list \<Rightarrow> ('k, raw_region list \<times> u64) comp"
  where
  "read_regions E base [] computed regions = sret (regions, computed)"
| "read_regions E base (i # indices) computed regions =
     sbind (read_region E (child base i)) (\<lambda>region.
       case checked_add computed (raw_len_units region) of
         None \<Rightarrow> sfail SnapshotSizeOverflow
       | Some computed' \<Rightarrow> read_regions E base indices computed' (regions @ [region]))"

definition Scheme_tried_regions :: "'k sysfs \<Rightarrow> path \<Rightarrow> ('k, raw_snapshot) comp" where
  "Scheme_tried_regions E h =
     (let base = sub h [''tried_regions'']; total_bytes_path = sub base [''total_bytes''] in
      sbind (optional_read E total_bytes_path (read_u64 E total_bytes_path)) (\<lambda>reported.
      sbind (numeric_directory_indices E base) (\<lambda>indices.
      sbind (read_regions E base indices 0 []) (\<lambda>(regions, computed).
        sret (RawSnapshot_from_kernel regions reported computed)))))"

definition Scheme_action :: "'k sysfs \<Rightarrow> path \<Rightarrow> ('k, action) comp" where
  "Scheme_action E h = read_enum E (sub h [''action'']) Action_parse"

definition Scheme_set_action :: "'k sysfs \<Rightarrow> path \<Rightarrow> action \<Rightarrow> ('k, unit) comp" where
  "Scheme_set_action E h value =
     sbind (slift (validate_token ''scheme action'' (Action_kernel_name value))) (\<lambda>_.
       write_bytes E (sub h [''action'']) (Action_kernel_name value))"

definition Scheme_apply_interval :: "'k sysfs \<Rightarrow> path \<Rightarrow> ('k, duration) comp" where
  "Scheme_apply_interval E h = sbind (read_u64 E (sub h [''apply_interval_us''])) (\<lambda>v. sret (from_micros v))"

definition Scheme_tried_bytes_units :: "'k sysfs \<Rightarrow> path \<Rightarrow> ('k, u64) comp" where
  "Scheme_tried_bytes_units E h = read_u64 E (sub h [''tried_regions'', ''total_bytes''])"

section \<open>What the handles write\<close>

lemma steps_emit [emits_rules]: "(\<And>m. m \<in> set ms \<Longrightarrow> emits P m) \<Longrightarrow> emits P (steps ms)"
  by (induction ms) (auto intro!: emits_rules)

lemma handle_reads_emit [emits_rules]:
  "writes_only Q (Admin_kdamond_count (traced E) q)"
  "writes_only Q (Kdamond_context_count (traced E) q)"
  "writes_only Q (Context_operation (traced E) q)"
  "writes_only Q (Context_is_paused (traced E) q)"
  "writes_only Q (Context_probe_count (traced E) q)"
  "writes_only Q (Context_target_count (traced E) q)"
  "writes_only Q (Context_scheme_count (traced E) q)"
  "writes_only Q (Target_is_obsolete (traced E) q)"
  "writes_only Q (Target_initial_region_count (traced E) q)"
  "writes_only Q (Probe_filter_count (traced E) q)"
  "writes_only Q (ProbeFilter_filter_type (traced E) q)"
  "writes_only Q (ProbeFilter_matching (traced E) q)"
  "writes_only Q (ProbeFilter_allowed (traced E) q)"
  "writes_only Q (ProbeFilter_cgroup_path (traced E) q)"
  "writes_only Q (Scheme_action (traced E) q)"
  "writes_only Q (Scheme_apply_interval (traced E) q)"
  "writes_only Q (Scheme_tried_bytes_units (traced E) q)"
  "writes_only Q (Admin_open (traced E) q)"
  "writes_only Q (Kdamond_state (traced E) q)"
  "writes_only Q (Kdamond_pid (traced E) q)"
  "writes_only Q (Kdamond_refresh_interval (traced E) q)"
  "writes_only Q (Context_available_operations (traced E) q)"
  "writes_only Q (Context_address_unit (traced E) q)"
  "writes_only Q (Context_pause_control_available (traced E) q)"
  "writes_only Q (Context_intervals (traced E) q)"
  "writes_only Q (Context_region_bounds (traced E) q)"
  "writes_only Q (Target_pid (traced E) q)"
  "writes_only Q (read_region_size_range (traced E) q)"
  "writes_only Q (read_access_count_range (traced E) q)"
  "writes_only Q (read_age_range (traced E) q)"
  "writes_only Q (Scheme_access_pattern (traced E) q)"
  "writes_only Q (Admin_configuration_snapshot (traced E) q)"
  "writes_only Q (Kdamond_configuration_fingerprint (traced E) q)"
  unfolding Admin_kdamond_count_def Kdamond_context_count_def Context_operation_def
    Context_is_paused_def Context_probe_count_def Context_target_count_def
    Context_scheme_count_def Target_is_obsolete_def Target_initial_region_count_def
    Probe_filter_count_def ProbeFilter_filter_type_def ProbeFilter_matching_def
    ProbeFilter_allowed_def ProbeFilter_cgroup_path_def Scheme_action_def
    Scheme_apply_interval_def Scheme_tried_bytes_units_def Admin_open_def Kdamond_state_def
    Kdamond_pid_def Kdamond_refresh_interval_def Context_available_operations_def
    Context_address_unit_def Context_pause_control_available_def Context_intervals_def
    Context_region_bounds_def Target_pid_def read_region_size_range_def
    read_access_count_range_def read_age_range_def Scheme_access_pattern_def
    Admin_configuration_snapshot_def Kdamond_configuration_fingerprint_def
  by (auto intro!: emits_rules simp: Let_def Admin_kdamond_count_def)

lemma handle_writes_emit [emits_rules]:
  assumes "descends p q"
  shows
  "writes_only (attribute_of p) (Admin_set_kdamond_count (traced E) q x0)"
  "writes_only (attribute_of p) (Kdamond_set_context_count (traced E) q x1)"
  "writes_only (attribute_of p) (Context_set_operation (traced E) q x2)"
  "writes_only (attribute_of p) (Context_set_paused (traced E) q x3)"
  "writes_only (attribute_of p) (Context_set_probe_count (traced E) q x4)"
  "writes_only (attribute_of p) (Context_set_target_count (traced E) q x5)"
  "writes_only (attribute_of p) (Context_set_scheme_count (traced E) q x6)"
  "writes_only (attribute_of p) (Target_set_obsolete (traced E) q x7)"
  "writes_only (attribute_of p) (Target_set_initial_region_count (traced E) q x8)"
  "writes_only (attribute_of p) (Probe_set_filter_count (traced E) q x9)"
  "writes_only (attribute_of p) (ProbeFilter_set_filter_type (traced E) q x10)"
  "writes_only (attribute_of p) (ProbeFilter_set_matching (traced E) q x11)"
  "writes_only (attribute_of p) (ProbeFilter_set_allowed (traced E) q x12)"
  "writes_only (attribute_of p) (ProbeFilter_set_cgroup_path (traced E) q x13)"
  "writes_only (attribute_of p) (Scheme_set_action (traced E) q x14)"
  "writes_only (attribute_of p) (Kdamond_set_refresh_interval (traced E) q d)"
  "writes_only (attribute_of p) (Kdamond_set_default_refresh_interval_if_present (traced E) q)"
  "writes_only (attribute_of p) (Context_set_address_unit (traced E) q u)"
  "writes_only (attribute_of p) (Context_set_intervals (traced E) q i)"
  "writes_only (attribute_of p) (Context_set_region_bounds (traced E) q b)"
  "writes_only (attribute_of p) (Target_set_pid (traced E) q pid)"
  "writes_only (attribute_of p) (Target_clear_pid (traced E) q)"
  "writes_only (attribute_of p) (Scheme_set_apply_interval (traced E) q d)"
  using assms
  unfolding Admin_set_kdamond_count_def Kdamond_set_context_count_def Context_set_operation_def
    Context_set_paused_def Context_set_probe_count_def Context_set_target_count_def
    Context_set_scheme_count_def Target_set_obsolete_def Target_set_initial_region_count_def
    Probe_set_filter_count_def ProbeFilter_set_filter_type_def ProbeFilter_set_matching_def
    ProbeFilter_set_allowed_def ProbeFilter_set_cgroup_path_def Scheme_set_action_def
    Kdamond_set_refresh_interval_def Kdamond_set_default_refresh_interval_if_present_def
    Context_set_address_unit_def Context_set_intervals_def Context_set_region_bounds_def
    Target_set_pid_def Target_clear_pid_def Scheme_set_apply_interval_def
  by (auto intro!: emits_rules simp: Let_def split: prod.splits)

lemma select_ulong_emits:
  "(\<And>v. emits P (f v)) \<Longrightarrow> emits P (select_kernel_ulong_max f)"
  unfolding select_kernel_ulong_max_def by (auto intro!: emits_rules)

lemma pattern_writes_emit [emits_rules]:
  assumes "descends p q"
  shows "writes_only (attribute_of p) (write_access_count_range (traced E) q a)"
    "writes_only (attribute_of p) (write_age_range (traced E) q a)"
    "writes_only (attribute_of p) (write_region_size_range (traced E) q s)"
    "writes_only (attribute_of p) (Scheme_set_access_pattern (traced E) q x)"
    "writes_only (attribute_of p) (Scheme_set_access_pattern_adaptive (traced E) q x)"
    "writes_only (attribute_of p) (Scheme_set_match_all (traced E) q)"
  using assms unfolding write_access_count_range_def write_age_range_def
    write_region_size_range_def Scheme_set_access_pattern_def
    Scheme_set_access_pattern_adaptive_def Scheme_set_match_all_def write_kernel_ulong_max_def
  by (auto intro!: emits_rules select_ulong_emits simp: Let_def)

lemma tried_regions_emit [emits_rules]: "writes_only Q (Scheme_tried_regions (traced E) q)"
proof -
  have "writes_only Q (read_regions (traced E) base ixs c rs)" for base ixs c rs
    unfolding read_region_def read_probe_results_def read_probe_result_def
    by (induction ixs arbitrary: c rs)
      (auto intro!: emits_rules simp: read_region_def read_probe_results_def read_probe_result_def)
  then show ?thesis
    unfolding Scheme_tried_regions_def Let_def by (auto intro!: emits_rules)
qed

end
