(* ===== verification/Attributes.thy ===== *)
theory Attributes
  imports Handles
begin

text \<open>
  The typed handles of nested attributes, with the read-back and the staging of each:
  \<^verbatim>\<open>src/src/sysfs/configuration/attributes.rs\<close> and its submodules
  \<^verbatim>\<open>attributes/quota.rs\<close>, \<^verbatim>\<open>attributes/watermark.rs\<close> and \<^verbatim>\<open>attributes/filter.rs\<close>. A handle is
  its path.
\<close>

section \<open>Staging only what differs\<close>

definition needs_stage :: "'a option \<Rightarrow> 'a \<Rightarrow> bool" where
  "needs_stage observed requested = (observed \<noteq> Some requested)"

definition stage_if :: "bool \<Rightarrow> ('k, unit) comp \<Rightarrow> ('k, unit) comp" where
  "stage_if b m = (if b then m else sret ())"

definition stage_option :: "('a \<Rightarrow> ('k, unit) comp) \<Rightarrow> 'a option \<Rightarrow> ('k, unit) comp" where
  "stage_option f x = (case x of None \<Rightarrow> sret () | Some v \<Rightarrow> f v)"

text \<open>An observed list is compared by index only when it has the requested length.\<close>

definition comparable :: "'a list option \<Rightarrow> 'a list \<Rightarrow> 'a list option" where
  "comparable observed xs =
     (case observed of
        None \<Rightarrow> None
      | Some v \<Rightarrow> if length v = length xs then Some v else None)"

definition stage_children ::
    "(nat \<Rightarrow> 'a \<Rightarrow> 'a option \<Rightarrow> ('k, unit) comp) \<Rightarrow> 'a list \<Rightarrow> 'a list option \<Rightarrow> ('k, unit) comp" where
  "stage_children f xs observed =
     seach (\<lambda>i. f i (xs ! i) (map_option (\<lambda>v. v ! i) observed)) [0..<length xs]"

definition stage_changed ::
    "(nat \<Rightarrow> 'a \<Rightarrow> ('k, unit) comp) \<Rightarrow> 'a list \<Rightarrow> 'a list option \<Rightarrow> ('k, unit) comp" where
  "stage_changed f xs observed =
     seach (\<lambda>i. stage_if (needs_stage (map_option (\<lambda>v. v ! i) observed) (xs ! i)) (f i (xs ! i)))
       [0..<length xs]"

section \<open>Initial regions\<close>

definition InitialRegion_start :: "'k sysfs \<Rightarrow> path \<Rightarrow> ('k, u64) comp" where
  "InitialRegion_start E h = read_u64 E (sub h [''start''])"

definition InitialRegion_set_start :: "'k sysfs \<Rightarrow> path \<Rightarrow> u64 \<Rightarrow> ('k, unit) comp" where
  "InitialRegion_set_start E h value = write_value E (sub h [''start'']) value"

definition InitialRegion_end :: "'k sysfs \<Rightarrow> path \<Rightarrow> ('k, u64) comp" where
  "InitialRegion_end E h = read_u64 E (sub h [''end''])"

definition InitialRegion_set_end :: "'k sysfs \<Rightarrow> path \<Rightarrow> u64 \<Rightarrow> ('k, unit) comp" where
  "InitialRegion_set_end E h value = write_value E (sub h [''end'']) value"

definition InitialRegion_configuration :: "'k sysfs \<Rightarrow> path \<Rightarrow> ('k, initial_region) comp" where
  "InitialRegion_configuration E h =
     sbind (InitialRegion_start E h) (\<lambda>s.
     sbind (InitialRegion_end E h) (\<lambda>e. sret \<lparr>init_start = s, init_end = e\<rparr>))"

definition InitialRegion_stage_configuration ::
    "'k sysfs \<Rightarrow> path \<Rightarrow> initial_region \<Rightarrow> ('k, unit) comp" where
  "InitialRegion_stage_configuration E h config =
     sbind (slift (InitialRegion_new (init_start config) (init_end config))) (\<lambda>_.
       steps [InitialRegion_set_start E h (init_start config),
              InitialRegion_set_end E h (init_end config)])"

section \<open>Operation attributes\<close>

definition OperationAttributes_use_reports :: "'k sysfs \<Rightarrow> path \<Rightarrow> ('k, bool) comp" where
  "OperationAttributes_use_reports E h = read_bool E (sub h [''use_reports''])"

definition OperationAttributes_set_use_reports :: "'k sysfs \<Rightarrow> path \<Rightarrow> bool \<Rightarrow> ('k, unit) comp" where
  "OperationAttributes_set_use_reports E h value = write_bool E (sub h [''use_reports'']) value"

definition OperationAttributes_write_only :: "'k sysfs \<Rightarrow> path \<Rightarrow> ('k, bool) comp" where
  "OperationAttributes_write_only E h = read_bool E (sub h [''write_only''])"

definition OperationAttributes_set_write_only :: "'k sysfs \<Rightarrow> path \<Rightarrow> bool \<Rightarrow> ('k, unit) comp" where
  "OperationAttributes_set_write_only E h value = write_bool E (sub h [''write_only'']) value"

definition OperationAttributes_cpus :: "'k sysfs \<Rightarrow> path \<Rightarrow> ('k, string) comp" where
  "OperationAttributes_cpus E h = read_sysfs_string E (sub h [''cpus''])"

definition OperationAttributes_set_cpus :: "'k sysfs \<Rightarrow> path \<Rightarrow> string \<Rightarrow> ('k, unit) comp" where
  "OperationAttributes_set_cpus E h value =
     sbind (slift (validate_sysfs_string ''operation CPU list'' value)) (\<lambda>_. write_bytes E (sub h [''cpus'']) value)"

definition OperationAttributes_thread_ids :: "'k sysfs \<Rightarrow> path \<Rightarrow> ('k, string) comp" where
  "OperationAttributes_thread_ids E h = read_sysfs_string E (sub h [''tids''])"

definition OperationAttributes_set_thread_ids :: "'k sysfs \<Rightarrow> path \<Rightarrow> string \<Rightarrow> ('k, unit) comp" where
  "OperationAttributes_set_thread_ids E h value =
     sbind (slift (validate_sysfs_string ''operation thread list'' value)) (\<lambda>_. write_bytes E (sub h [''tids'']) value)"

definition OperationAttributes_configuration ::
    "'k sysfs \<Rightarrow> path \<Rightarrow> ('k, operation_attributes) comp" where
  "OperationAttributes_configuration E h =
     sbind (OperationAttributes_use_reports E h) (\<lambda>use_reports.
     sbind (OperationAttributes_write_only E h) (\<lambda>write_only.
     sbind (OperationAttributes_cpus E h) (\<lambda>cpus.
     sbind (OperationAttributes_thread_ids E h) (\<lambda>thread_ids.
       sret \<lparr>oa_use_reports = use_reports, oa_write_only = write_only, oa_cpus = cpus,
             oa_thread_ids = thread_ids\<rparr>))))"

definition OperationAttributes_stage_configuration ::
    "'k sysfs \<Rightarrow> path \<Rightarrow> operation_attributes \<Rightarrow> ('k, unit) comp" where
  "OperationAttributes_stage_configuration E h config =
     steps [OperationAttributes_set_use_reports E h (oa_use_reports config),
            OperationAttributes_set_write_only E h (oa_write_only config),
            OperationAttributes_set_cpus E h (oa_cpus config),
            OperationAttributes_set_thread_ids E h (oa_thread_ids config)]"

section \<open>Probe preparations\<close>

definition ProbePreparation_action :: "'k sysfs \<Rightarrow> path \<Rightarrow> ('k, probe_preparation_action) comp" where
  "ProbePreparation_action E h = read_enum E (sub h [''prep_action'']) ProbePreparationAction_parse"

definition ProbePreparation_set_action :: "'k sysfs \<Rightarrow> path \<Rightarrow> probe_preparation_action \<Rightarrow> ('k, unit) comp" where
  "ProbePreparation_set_action E h value = write_enum E (sub h [''prep_action'']) (ProbePreparationAction_kernel_name value)"

definition ProbePreparation_configuration ::
    "'k sysfs \<Rightarrow> path \<Rightarrow> ('k, probe_preparation_config) comp" where
  "ProbePreparation_configuration E h =
     sbind (ProbePreparation_action E h) (\<lambda>a. sret \<lparr>prep_action = a\<rparr>)"

definition ProbePreparation_stage_configuration ::
    "'k sysfs \<Rightarrow> path \<Rightarrow> probe_preparation_config \<Rightarrow> ('k, unit) comp" where
  "ProbePreparation_stage_configuration E h config =
     ProbePreparation_set_action E h (prep_action config)"

section \<open>Sampling control\<close>

definition SampleFilter_filter_type :: "'k sysfs \<Rightarrow> path \<Rightarrow> ('k, sample_filter_type) comp" where
  "SampleFilter_filter_type E h = read_enum E (sub h [''type'']) SampleFilterType_parse"

definition SampleFilter_set_filter_type :: "'k sysfs \<Rightarrow> path \<Rightarrow> sample_filter_type \<Rightarrow> ('k, unit) comp" where
  "SampleFilter_set_filter_type E h value = write_enum E (sub h [''type'']) (SampleFilterType_kernel_name value)"

definition SampleFilter_matching :: "'k sysfs \<Rightarrow> path \<Rightarrow> ('k, bool) comp" where
  "SampleFilter_matching E h = read_bool E (sub h [''matching''])"

definition SampleFilter_set_matching :: "'k sysfs \<Rightarrow> path \<Rightarrow> bool \<Rightarrow> ('k, unit) comp" where
  "SampleFilter_set_matching E h value = write_bool E (sub h [''matching'']) value"

definition SampleFilter_allowed :: "'k sysfs \<Rightarrow> path \<Rightarrow> ('k, bool) comp" where
  "SampleFilter_allowed E h = read_bool E (sub h [''allow''])"

definition SampleFilter_set_allowed :: "'k sysfs \<Rightarrow> path \<Rightarrow> bool \<Rightarrow> ('k, unit) comp" where
  "SampleFilter_set_allowed E h value = write_bool E (sub h [''allow'']) value"

definition SampleFilter_cpu_mask :: "'k sysfs \<Rightarrow> path \<Rightarrow> ('k, string) comp" where
  "SampleFilter_cpu_mask E h = read_sysfs_string E (sub h [''cpumask''])"

definition SampleFilter_set_cpu_mask :: "'k sysfs \<Rightarrow> path \<Rightarrow> string \<Rightarrow> ('k, unit) comp" where
  "SampleFilter_set_cpu_mask E h value =
     sbind (slift (validate_sysfs_string ''sample filter CPU mask'' value)) (\<lambda>_. write_bytes E (sub h [''cpumask'']) value)"

definition SampleFilter_thread_ids :: "'k sysfs \<Rightarrow> path \<Rightarrow> ('k, string) comp" where
  "SampleFilter_thread_ids E h = read_sysfs_string E (sub h [''tid_arr''])"

definition SampleFilter_set_thread_ids :: "'k sysfs \<Rightarrow> path \<Rightarrow> string \<Rightarrow> ('k, unit) comp" where
  "SampleFilter_set_thread_ids E h value =
     sbind (slift (validate_sysfs_string ''sample filter thread list'' value)) (\<lambda>_. write_bytes E (sub h [''tid_arr'']) value)"

definition SampleControl_page_table_enabled :: "'k sysfs \<Rightarrow> path \<Rightarrow> ('k, bool) comp" where
  "SampleControl_page_table_enabled E h = read_bool E (sub h [''primitives'', ''page_table''])"

definition SampleControl_set_page_table_enabled :: "'k sysfs \<Rightarrow> path \<Rightarrow> bool \<Rightarrow> ('k, unit) comp" where
  "SampleControl_set_page_table_enabled E h value = write_bool E (sub h [''primitives'', ''page_table'']) value"

definition SampleControl_page_fault_enabled :: "'k sysfs \<Rightarrow> path \<Rightarrow> ('k, bool) comp" where
  "SampleControl_page_fault_enabled E h = read_bool E (sub h [''primitives'', ''page_fault''])"

definition SampleControl_set_page_fault_enabled :: "'k sysfs \<Rightarrow> path \<Rightarrow> bool \<Rightarrow> ('k, unit) comp" where
  "SampleControl_set_page_fault_enabled E h value = write_bool E (sub h [''primitives'', ''page_fault'']) value"

definition SampleControl_filter_count :: "'k sysfs \<Rightarrow> path \<Rightarrow> ('k, usize) comp" where
  "SampleControl_filter_count E h = read_usize E (sub h [''filters'', ''nr_filters''])"

definition SampleControl_set_filter_count :: "'k sysfs \<Rightarrow> path \<Rightarrow> usize \<Rightarrow> ('k, unit) comp" where
  "SampleControl_set_filter_count E h n =
     sbind (slift (validate_count ''sample filter count'' n)) (\<lambda>_. write_usize E (sub h [''filters'', ''nr_filters'']) n)"

definition SampleControl_filter :: "path \<Rightarrow> usize \<Rightarrow> path" where
  "SampleControl_filter h i = child (sub h [''filters'']) i"

definition SampleFilter_configuration ::
    "'k sysfs \<Rightarrow> path \<Rightarrow> ('k, sample_filter_config) comp" where
  "SampleFilter_configuration E h =
     sbind (SampleFilter_filter_type E h) (\<lambda>filter_type.
     sbind (SampleFilter_matching E h) (\<lambda>matching.
     sbind (SampleFilter_allowed E h) (\<lambda>allow.
       let config = SampleFilterConfig_new filter_type matching allow in
       case filter_type of
         CpuMask \<Rightarrow>
           sbind (SampleFilter_cpu_mask E h) (\<lambda>v. sret (config\<lparr>sf_cpu_mask := Some v\<rparr>))
       | Threads \<Rightarrow>
           sbind (SampleFilter_thread_ids E h) (\<lambda>v. sret (config\<lparr>sf_thread_ids := Some v\<rparr>))
       | SaUnknown _ \<Rightarrow>
           sbind (optional_read E (sub h [''cpumask'']) (SampleFilter_cpu_mask E h)) (\<lambda>m.
           sbind (optional_read E (sub h [''tid_arr'']) (SampleFilter_thread_ids E h)) (\<lambda>t.
             sret (config\<lparr>sf_cpu_mask := m, sf_thread_ids := t\<rparr>)))
       | SampleWrite \<Rightarrow> sret config)))"

definition SampleFilter_stage_configuration ::
    "'k sysfs \<Rightarrow> path \<Rightarrow> sample_filter_config \<Rightarrow> ('k, unit) comp" where
  "SampleFilter_stage_configuration E h config =
     steps [SampleFilter_set_filter_type E h (sf_type config),
            SampleFilter_set_matching E h (sf_matching config),
            SampleFilter_set_allowed E h (sf_allow config),
            stage_option (SampleFilter_set_cpu_mask E h) (sf_cpu_mask config),
            stage_option (SampleFilter_set_thread_ids E h) (sf_thread_ids config)]"

definition SampleControl_configuration :: "'k sysfs \<Rightarrow> path \<Rightarrow> ('k, sample_control) comp" where
  "SampleControl_configuration E h =
     sbind (SampleControl_page_table_enabled E h) (\<lambda>page_table.
     sbind (SampleControl_page_fault_enabled E h) (\<lambda>page_fault.
     sbind (SampleControl_filter_count E h) (\<lambda>n.
     sbind (read_indexed n (\<lambda>i. SampleFilter_configuration E (SampleControl_filter h i))) (\<lambda>filters.
       sret \<lparr>sc_primitives = \<lparr>sp_page_table = page_table, sp_page_fault = page_fault\<rparr>,
             sc_filters = filters\<rparr>))))"

definition SampleControl_stage_configuration ::
    "'k sysfs \<Rightarrow> path \<Rightarrow> sample_control \<Rightarrow> ('k, unit) comp" where
  "SampleControl_stage_configuration E h config =
     steps [SampleControl_set_page_table_enabled E h (sp_page_table (sc_primitives config)),
            SampleControl_set_page_fault_enabled E h (sp_page_fault (sc_primitives config)),
            ensure_count E (sub h [''filters'', ''nr_filters'']) (length (sc_filters config)),
            stage_children (\<lambda>i f _. SampleFilter_stage_configuration E (SampleControl_filter h i) f)
              (sc_filters config) None]"

section \<open>Quota goals and quotas\<close>

definition QuotaGoal_metric :: "'k sysfs \<Rightarrow> path \<Rightarrow> ('k, quota_goal_metric) comp" where
  "QuotaGoal_metric E h = read_enum E (sub h [''target_metric'']) QuotaGoalMetric_parse"

definition QuotaGoal_set_metric :: "'k sysfs \<Rightarrow> path \<Rightarrow> quota_goal_metric \<Rightarrow> ('k, unit) comp" where
  "QuotaGoal_set_metric E h value = write_enum E (sub h [''target_metric'']) (QuotaGoalMetric_kernel_name value)"

definition QuotaGoal_target_value :: "'k sysfs \<Rightarrow> path \<Rightarrow> ('k, u64) comp" where
  "QuotaGoal_target_value E h = read_u64 E (sub h [''target_value''])"

definition QuotaGoal_set_target_value :: "'k sysfs \<Rightarrow> path \<Rightarrow> u64 \<Rightarrow> ('k, unit) comp" where
  "QuotaGoal_set_target_value E h value = write_value E (sub h [''target_value'']) value"

definition QuotaGoal_current_value :: "'k sysfs \<Rightarrow> path \<Rightarrow> ('k, u64) comp" where
  "QuotaGoal_current_value E h = read_u64 E (sub h [''current_value''])"

definition QuotaGoal_set_current_value :: "'k sysfs \<Rightarrow> path \<Rightarrow> u64 \<Rightarrow> ('k, unit) comp" where
  "QuotaGoal_set_current_value E h value = write_value E (sub h [''current_value'']) value"

definition QuotaGoal_node_id :: "'k sysfs \<Rightarrow> path \<Rightarrow> ('k, i32) comp" where
  "QuotaGoal_node_id E h = read_i32 E (sub h [''nid''])"

definition QuotaGoal_set_node_id :: "'k sysfs \<Rightarrow> path \<Rightarrow> i32 \<Rightarrow> ('k, unit) comp" where
  "QuotaGoal_set_node_id E h value = write_i32 E (sub h [''nid'']) value"

definition QuotaGoal_cgroup_path :: "'k sysfs \<Rightarrow> path \<Rightarrow> ('k, string) comp" where
  "QuotaGoal_cgroup_path E h = read_sysfs_string E (sub h [''path''])"

definition QuotaGoal_set_cgroup_path :: "'k sysfs \<Rightarrow> path \<Rightarrow> string \<Rightarrow> ('k, unit) comp" where
  "QuotaGoal_set_cgroup_path E h value =
     sbind (slift (validate_sysfs_string ''quota goal cgroup path'' value)) (\<lambda>_. write_bytes E (sub h [''path'']) value)"

definition Quotas_time :: "'k sysfs \<Rightarrow> path \<Rightarrow> ('k, duration) comp" where
  "Quotas_time E h = sbind (read_u64 E (sub h [''ms''])) (\<lambda>v. sret (from_millis v))"

definition Quotas_set_time :: "'k sysfs \<Rightarrow> path \<Rightarrow> duration \<Rightarrow> ('k, unit) comp" where
  "Quotas_set_time E h value =
     sbind (slift (exact_millis ''quota time'' value)) (\<lambda>v. write_value E (sub h [''ms'']) v)"

definition Quotas_size_units :: "'k sysfs \<Rightarrow> path \<Rightarrow> ('k, u64) comp" where
  "Quotas_size_units E h = read_u64 E (sub h [''bytes''])"

definition Quotas_set_size_units :: "'k sysfs \<Rightarrow> path \<Rightarrow> u64 \<Rightarrow> ('k, unit) comp" where
  "Quotas_set_size_units E h value = write_value E (sub h [''bytes'']) value"

definition Quotas_reset_interval :: "'k sysfs \<Rightarrow> path \<Rightarrow> ('k, duration) comp" where
  "Quotas_reset_interval E h = sbind (read_u64 E (sub h [''reset_interval_ms''])) (\<lambda>v. sret (from_millis v))"

definition Quotas_set_reset_interval :: "'k sysfs \<Rightarrow> path \<Rightarrow> duration \<Rightarrow> ('k, unit) comp" where
  "Quotas_set_reset_interval E h value =
     sbind (slift (exact_millis ''quota reset interval'' value)) (\<lambda>v. write_value E (sub h [''reset_interval_ms'']) v)"

definition Quotas_effective_size_units :: "'k sysfs \<Rightarrow> path \<Rightarrow> ('k, u64) comp" where
  "Quotas_effective_size_units E h = read_u64 E (sub h [''effective_bytes''])"

definition Quotas_goal_tuner :: "'k sysfs \<Rightarrow> path \<Rightarrow> ('k, quota_goal_tuner) comp" where
  "Quotas_goal_tuner E h = read_enum E (sub h [''goal_tuner'']) QuotaGoalTuner_parse"

definition Quotas_set_goal_tuner :: "'k sysfs \<Rightarrow> path \<Rightarrow> quota_goal_tuner \<Rightarrow> ('k, unit) comp" where
  "Quotas_set_goal_tuner E h value = write_enum E (sub h [''goal_tuner'']) (QuotaGoalTuner_kernel_name value)"

definition Quotas_failure_charge_numerator :: "'k sysfs \<Rightarrow> path \<Rightarrow> ('k, u32) comp" where
  "Quotas_failure_charge_numerator E h = read_u32 E (sub h [''fail_charge_num''])"

definition Quotas_set_failure_charge_numerator :: "'k sysfs \<Rightarrow> path \<Rightarrow> u32 \<Rightarrow> ('k, unit) comp" where
  "Quotas_set_failure_charge_numerator E h value = write_value E (sub h [''fail_charge_num'']) value"

definition Quotas_failure_charge_denominator :: "'k sysfs \<Rightarrow> path \<Rightarrow> ('k, u32) comp" where
  "Quotas_failure_charge_denominator E h = read_u32 E (sub h [''fail_charge_denom''])"

definition Quotas_set_failure_charge_denominator :: "'k sysfs \<Rightarrow> path \<Rightarrow> u32 \<Rightarrow> ('k, unit) comp" where
  "Quotas_set_failure_charge_denominator E h value = write_value E (sub h [''fail_charge_denom'']) value"

definition Quotas_goal_count :: "'k sysfs \<Rightarrow> path \<Rightarrow> ('k, usize) comp" where
  "Quotas_goal_count E h = read_usize E (sub h [''goals'', ''nr_goals''])"

definition Quotas_set_goal_count :: "'k sysfs \<Rightarrow> path \<Rightarrow> usize \<Rightarrow> ('k, unit) comp" where
  "Quotas_set_goal_count E h n =
     sbind (slift (validate_count ''quota goal count'' n)) (\<lambda>_. write_usize E (sub h [''goals'', ''nr_goals'']) n)"

definition Quotas_goal :: "path \<Rightarrow> usize \<Rightarrow> path" where
  "Quotas_goal h i = child (sub h [''goals'']) i"

definition is_unknown_metric :: "quota_goal_metric \<Rightarrow> bool" where
  "is_unknown_metric m = (case m of QmUnknown _ \<Rightarrow> True | _ \<Rightarrow> False)"

definition QuotaGoal_configuration :: "'k sysfs \<Rightarrow> path \<Rightarrow> ('k, quota_goal_config) comp" where
  "QuotaGoal_configuration E h =
     sbind (optional_read E (sub h [''target_metric'']) (QuotaGoal_metric E h)) (\<lambda>read_metric.
     let metric = (case read_metric of None \<Rightarrow> UserInput | Some m \<Rightarrow> m) in
     sbind (if requires_node metric \<or> is_unknown_metric metric then
              sbind (QuotaGoal_node_id E h) (\<lambda>v. sret (Some v)) else sret None) (\<lambda>node.
     sbind (if requires_cgroup_path metric \<or> is_unknown_metric metric then
              sbind (QuotaGoal_cgroup_path E h) (\<lambda>v. sret (Some v)) else sret None) (\<lambda>cgroup.
     sbind (QuotaGoal_target_value E h) (\<lambda>target.
     sbind (QuotaGoal_current_value E h) (\<lambda>current.
       sret \<lparr>qg_metric = metric, qg_target = target, qg_current = current, qg_node = node,
             qg_cgroup_path = cgroup\<rparr>)))))"

definition QuotaGoal_stage_configuration ::
    "'k sysfs \<Rightarrow> path \<Rightarrow> quota_goal_config \<Rightarrow> ('k, unit) comp" where
  "QuotaGoal_stage_configuration E h config =
     sbind (path_exists E (sub h [''target_metric''])) (\<lambda>present.
       steps [if present then QuotaGoal_set_metric E h (qg_metric config)
              else if qg_metric config \<noteq> UserInput then
                sfail (UnsupportedFeature ''DAMOS quota goal metrics'')
              else sret (),
              QuotaGoal_set_target_value E h (qg_target config),
              QuotaGoal_set_current_value E h (qg_current config),
              stage_option (QuotaGoal_set_node_id E h) (qg_node config),
              stage_option (QuotaGoal_set_cgroup_path E h) (qg_cgroup_path config)])"

definition Quotas_validate_goals :: "quota_goal_config list \<Rightarrow> unit result" where
  "Quotas_validate_goals goals =
     and_then (validate_count ''quota goal count'' (length goals)) (\<lambda>_.
       try_each QuotaGoalConfig_validate goals)"

definition Quotas_weights :: "'k sysfs \<Rightarrow> path \<Rightarrow> ('k, quota_weights) comp" where
  "Quotas_weights E h =
     (let p = sub h [''weights''] in
      sbind (read_u32 E (sub p [''sz_permil''])) (\<lambda>size.
      sbind (read_u32 E (sub p [''nr_accesses_permil''])) (\<lambda>accesses.
      sbind (read_u32 E (sub p [''age_permil''])) (\<lambda>age.
        sret \<lparr>qw_size = size, qw_accesses = accesses, qw_age = age\<rparr>))))"

definition Quotas_set_weights :: "'k sysfs \<Rightarrow> path \<Rightarrow> quota_weights \<Rightarrow> ('k, unit) comp" where
  "Quotas_set_weights E h weights =
     (let p = sub h [''weights''] in
      steps [write_value E (sub p [''sz_permil'']) (qw_size weights),
             write_value E (sub p [''nr_accesses_permil'']) (qw_accesses weights),
             write_value E (sub p [''age_permil'']) (qw_age weights)])"

definition Quotas_goal_configurations ::
    "'k sysfs \<Rightarrow> path \<Rightarrow> ('k, quota_goal_config list) comp" where
  "Quotas_goal_configurations E h =
     sbind (path_exists E (sub h [''goals'', ''nr_goals''])) (\<lambda>present.
       if \<not> present then sret []
       else sbind (Quotas_goal_count E h) (\<lambda>n.
         smap (\<lambda>i. QuotaGoal_configuration E (Quotas_goal h i)) [0..<n]))"

definition Quotas_configuration :: "'k sysfs \<Rightarrow> path \<Rightarrow> ('k, quota_config) comp" where
  "Quotas_configuration E h =
     sbind (Quotas_time E h) (\<lambda>time.
     sbind (Quotas_size_units E h) (\<lambda>size.
     sbind (Quotas_reset_interval E h) (\<lambda>reset.
     sbind (Quotas_weights E h) (\<lambda>weights.
     sbind (Quotas_goal_configurations E h) (\<lambda>goals.
     sbind (optional_read E (sub h [''goal_tuner'']) (Quotas_goal_tuner E h)) (\<lambda>tuner.
     sbind (optional_read E (sub h [''fail_charge_num''])
              (Quotas_failure_charge_numerator E h)) (\<lambda>num.
     sbind (optional_read E (sub h [''fail_charge_denom''])
              (Quotas_failure_charge_denominator E h)) (\<lambda>den.
       sret \<lparr>q_time = time, q_size = size, q_reset = reset, q_weights = weights,
             q_goals = goals,
             q_tuner = (case tuner of None \<Rightarrow> Consistent | Some t \<Rightarrow> t),
             q_fail_num = (case num of None \<Rightarrow> 0 | Some v \<Rightarrow> v),
             q_fail_den = (case den of None \<Rightarrow> 0 | Some v \<Rightarrow> v)\<rparr>))))))))"

definition Quotas_stage_goals_from ::
    "'k sysfs \<Rightarrow> path \<Rightarrow> quota_goal_config list \<Rightarrow> quota_goal_config list option \<Rightarrow> ('k, unit) comp"
  where
  "Quotas_stage_goals_from E h goals observed =
     sbind (slift (Quotas_validate_goals goals)) (\<lambda>_.
       if observed = Some goals then sret ()
       else
         sbind (path_exists E (sub h [''goals'', ''nr_goals''])) (\<lambda>present.
           if \<not> present then
             if goals = [] then sret () else sfail (UnsupportedFeature ''DAMOS quota goals'')
           else
             steps [ensure_count E (sub h [''goals'', ''nr_goals'']) (length goals),
                    stage_changed (\<lambda>i. QuotaGoal_stage_configuration E (Quotas_goal h i))
                      goals (comparable observed goals)]))"

definition Quotas_stage_configuration_from ::
    "'k sysfs \<Rightarrow> path \<Rightarrow> quota_config \<Rightarrow> quota_config option \<Rightarrow> ('k, unit) comp" where
  "Quotas_stage_configuration_from E h config observed =
     (if observed = Some config then sret ()
      else steps
        [stage_if (needs_stage (map_option q_time observed) (q_time config))
           (Quotas_set_time E h (q_time config)),
         stage_if (needs_stage (map_option q_size observed) (q_size config))
           (Quotas_set_size_units E h (q_size config)),
         stage_if (needs_stage (map_option q_reset observed) (q_reset config))
           (Quotas_set_reset_interval E h (q_reset config)),
         stage_if (needs_stage (map_option q_weights observed) (q_weights config))
           (Quotas_set_weights E h (q_weights config)),
         stage_if (needs_stage (map_option q_goals observed) (q_goals config))
           (Quotas_stage_goals_from E h (q_goals config) (map_option q_goals observed)),
         stage_if (needs_stage (map_option q_tuner observed) (q_tuner config))
           (stage_optional_default E (sub h [''goal_tuner'']) (q_tuner config) Consistent
              ''DAMOS quota goal tuner'' (Quotas_set_goal_tuner E h (q_tuner config))),
         stage_if (needs_stage (map_option q_fail_num observed) (q_fail_num config))
           (stage_optional_default E (sub h [''fail_charge_num'']) (q_fail_num config) 0
              ''DAMOS failure charge ratio''
              (Quotas_set_failure_charge_numerator E h (q_fail_num config))),
         stage_if (needs_stage (map_option q_fail_den observed) (q_fail_den config))
           (stage_optional_default E (sub h [''fail_charge_denom'']) (q_fail_den config) 0
              ''DAMOS failure charge ratio''
              (Quotas_set_failure_charge_denominator E h (q_fail_den config)))])"

section \<open>Watermarks\<close>

definition Watermarks_metric :: "'k sysfs \<Rightarrow> path \<Rightarrow> ('k, watermark_metric) comp" where
  "Watermarks_metric E h = read_enum E (sub h [''metric'']) WatermarkMetric_parse"

definition Watermarks_set_metric :: "'k sysfs \<Rightarrow> path \<Rightarrow> watermark_metric \<Rightarrow> ('k, unit) comp" where
  "Watermarks_set_metric E h value = write_enum E (sub h [''metric'']) (WatermarkMetric_kernel_name value)"

definition Watermarks_interval :: "'k sysfs \<Rightarrow> path \<Rightarrow> ('k, duration) comp" where
  "Watermarks_interval E h = sbind (read_u64 E (sub h [''interval_us''])) (\<lambda>v. sret (from_micros v))"

definition Watermarks_set_interval :: "'k sysfs \<Rightarrow> path \<Rightarrow> duration \<Rightarrow> ('k, unit) comp" where
  "Watermarks_set_interval E h value =
     sbind (slift (exact_micros ''watermark interval'' value)) (\<lambda>v. write_value E (sub h [''interval_us'']) v)"

definition Watermarks_high :: "'k sysfs \<Rightarrow> path \<Rightarrow> ('k, u64) comp" where
  "Watermarks_high E h = read_u64 E (sub h [''high''])"

definition Watermarks_set_high :: "'k sysfs \<Rightarrow> path \<Rightarrow> u64 \<Rightarrow> ('k, unit) comp" where
  "Watermarks_set_high E h value = write_value E (sub h [''high'']) value"

definition Watermarks_middle :: "'k sysfs \<Rightarrow> path \<Rightarrow> ('k, u64) comp" where
  "Watermarks_middle E h = read_u64 E (sub h [''mid''])"

definition Watermarks_set_middle :: "'k sysfs \<Rightarrow> path \<Rightarrow> u64 \<Rightarrow> ('k, unit) comp" where
  "Watermarks_set_middle E h value = write_value E (sub h [''mid'']) value"

definition Watermarks_low :: "'k sysfs \<Rightarrow> path \<Rightarrow> ('k, u64) comp" where
  "Watermarks_low E h = read_u64 E (sub h [''low''])"

definition Watermarks_set_low :: "'k sysfs \<Rightarrow> path \<Rightarrow> u64 \<Rightarrow> ('k, unit) comp" where
  "Watermarks_set_low E h value = write_value E (sub h [''low'']) value"

definition Watermarks_configuration :: "'k sysfs \<Rightarrow> path \<Rightarrow> ('k, watermarks_config) comp" where
  "Watermarks_configuration E h =
     sbind (Watermarks_metric E h) (\<lambda>metric.
     sbind (Watermarks_interval E h) (\<lambda>interval.
     sbind (Watermarks_high E h) (\<lambda>high.
     sbind (Watermarks_middle E h) (\<lambda>middle.
     sbind (Watermarks_low E h) (\<lambda>low.
       sret \<lparr>wm_metric = metric, wm_interval = interval, wm_high = high, wm_middle = middle,
             wm_low = low\<rparr>)))))"

definition Watermarks_stage_configuration_from ::
    "'k sysfs \<Rightarrow> path \<Rightarrow> watermarks_config \<Rightarrow> watermarks_config option \<Rightarrow> ('k, unit) comp" where
  "Watermarks_stage_configuration_from E h config observed =
     (if observed = Some config then sret ()
      else steps
        [stage_if (needs_stage (map_option wm_metric observed) (wm_metric config))
           (Watermarks_set_metric E h (wm_metric config)),
         stage_if (needs_stage (map_option wm_interval observed) (wm_interval config))
           (Watermarks_set_interval E h (wm_interval config)),
         stage_if (needs_stage (map_option wm_high observed) (wm_high config))
           (Watermarks_set_high E h (wm_high config)),
         stage_if (needs_stage (map_option wm_middle observed) (wm_middle config))
           (Watermarks_set_middle E h (wm_middle config)),
         stage_if (needs_stage (map_option wm_low observed) (wm_low config))
           (Watermarks_set_low E h (wm_low config))])"

section \<open>Scheme filters\<close>

definition SchemeFilter_filter_type :: "'k sysfs \<Rightarrow> path \<Rightarrow> ('k, scheme_filter_type) comp" where
  "SchemeFilter_filter_type E h = read_enum E (sub h [''type'']) SchemeFilterType_parse"

definition SchemeFilter_set_filter_type :: "'k sysfs \<Rightarrow> path \<Rightarrow> scheme_filter_type \<Rightarrow> ('k, unit) comp" where
  "SchemeFilter_set_filter_type E h value = write_enum E (sub h [''type'']) (SchemeFilterType_kernel_name value)"

definition SchemeFilter_matching :: "'k sysfs \<Rightarrow> path \<Rightarrow> ('k, bool) comp" where
  "SchemeFilter_matching E h = read_bool E (sub h [''matching''])"

definition SchemeFilter_set_matching :: "'k sysfs \<Rightarrow> path \<Rightarrow> bool \<Rightarrow> ('k, unit) comp" where
  "SchemeFilter_set_matching E h value = write_bool E (sub h [''matching'']) value"

definition SchemeFilter_cgroup_path :: "'k sysfs \<Rightarrow> path \<Rightarrow> ('k, string) comp" where
  "SchemeFilter_cgroup_path E h = read_sysfs_string E (sub h [''memcg_path''])"

definition SchemeFilter_set_cgroup_path :: "'k sysfs \<Rightarrow> path \<Rightarrow> string \<Rightarrow> ('k, unit) comp" where
  "SchemeFilter_set_cgroup_path E h value =
     sbind (slift (validate_sysfs_string ''scheme filter cgroup path'' value)) (\<lambda>_. write_bytes E (sub h [''memcg_path'']) value)"

definition SchemeFilter_address_start :: "'k sysfs \<Rightarrow> path \<Rightarrow> ('k, u64) comp" where
  "SchemeFilter_address_start E h = read_u64 E (sub h [''addr_start''])"

definition SchemeFilter_set_address_start :: "'k sysfs \<Rightarrow> path \<Rightarrow> u64 \<Rightarrow> ('k, unit) comp" where
  "SchemeFilter_set_address_start E h value = write_value E (sub h [''addr_start'']) value"

definition SchemeFilter_address_end :: "'k sysfs \<Rightarrow> path \<Rightarrow> ('k, u64) comp" where
  "SchemeFilter_address_end E h = read_u64 E (sub h [''addr_end''])"

definition SchemeFilter_set_address_end :: "'k sysfs \<Rightarrow> path \<Rightarrow> u64 \<Rightarrow> ('k, unit) comp" where
  "SchemeFilter_set_address_end E h value = write_value E (sub h [''addr_end'']) value"

definition SchemeFilter_minimum_size_bytes :: "'k sysfs \<Rightarrow> path \<Rightarrow> ('k, u64) comp" where
  "SchemeFilter_minimum_size_bytes E h = read_u64 E (sub h [''min''])"

definition SchemeFilter_set_minimum_size_bytes :: "'k sysfs \<Rightarrow> path \<Rightarrow> u64 \<Rightarrow> ('k, unit) comp" where
  "SchemeFilter_set_minimum_size_bytes E h value = write_value E (sub h [''min'']) value"

definition SchemeFilter_maximum_size_bytes :: "'k sysfs \<Rightarrow> path \<Rightarrow> ('k, u64) comp" where
  "SchemeFilter_maximum_size_bytes E h = read_u64 E (sub h [''max''])"

definition SchemeFilter_set_maximum_size_bytes :: "'k sysfs \<Rightarrow> path \<Rightarrow> u64 \<Rightarrow> ('k, unit) comp" where
  "SchemeFilter_set_maximum_size_bytes E h value = write_value E (sub h [''max'']) value"

definition SchemeFilter_minimum_probe_hits_weighted_sum :: "'k sysfs \<Rightarrow> path \<Rightarrow> ('k, u64) comp" where
  "SchemeFilter_minimum_probe_hits_weighted_sum E h = read_u64 E (sub h [''min''])"

definition SchemeFilter_set_minimum_probe_hits_weighted_sum :: "'k sysfs \<Rightarrow> path \<Rightarrow> u64 \<Rightarrow> ('k, unit) comp" where
  "SchemeFilter_set_minimum_probe_hits_weighted_sum E h value = write_value E (sub h [''min'']) value"

definition SchemeFilter_maximum_probe_hits_weighted_sum :: "'k sysfs \<Rightarrow> path \<Rightarrow> ('k, u64) comp" where
  "SchemeFilter_maximum_probe_hits_weighted_sum E h = read_u64 E (sub h [''max''])"

definition SchemeFilter_set_maximum_probe_hits_weighted_sum :: "'k sysfs \<Rightarrow> path \<Rightarrow> u64 \<Rightarrow> ('k, unit) comp" where
  "SchemeFilter_set_maximum_probe_hits_weighted_sum E h value = write_value E (sub h [''max'']) value"

definition SchemeFilter_set_target_index :: "'k sysfs \<Rightarrow> path \<Rightarrow> usize \<Rightarrow> ('k, unit) comp" where
  "SchemeFilter_set_target_index E h n =
     sbind (slift (validate_count ''target filter index'' n)) (\<lambda>_. write_usize E (sub h [''damon_target_idx'']) n)"

fun first_existing :: "'k sysfs \<Rightarrow> path list \<Rightarrow> ('k, path option) comp" where
  "first_existing E [] = sret None"
| "first_existing E (p # ps) =
     sbind (path_exists E p) (\<lambda>present.
       if present then sret (Some p) else first_existing E ps)"

definition SchemeFilter_allow_path :: "'k sysfs \<Rightarrow> path \<Rightarrow> ('k, path option) comp" where
  "SchemeFilter_allow_path E h = first_existing E [sub h [''allow''], sub h [''pass'']]"

definition SchemeFilter_allowed :: "'k sysfs \<Rightarrow> path \<Rightarrow> ('k, bool) comp" where
  "SchemeFilter_allowed E h =
     sbind (SchemeFilter_allow_path E h) (\<lambda>p.
       case p of None \<Rightarrow> sret False | Some q \<Rightarrow> read_bool E q)"

definition SchemeFilter_set_allowed :: "'k sysfs \<Rightarrow> path \<Rightarrow> bool \<Rightarrow> ('k, unit) comp" where
  "SchemeFilter_set_allowed E h value =
     sbind (SchemeFilter_allow_path E h) (\<lambda>p.
       case p of
         Some q \<Rightarrow> write_bool E q value
       | None \<Rightarrow>
           if \<not> value then sret ()
           else sfail (UnsupportedFeature ''DAMOS filter allow control''))"

definition SchemeFilter_target_index :: "'k sysfs \<Rightarrow> path \<Rightarrow> ('k, usize) comp" where
  "SchemeFilter_target_index E h =
     sbind (read_i32 E (sub h [''damon_target_idx''])) (\<lambda>value.
       if 0 \<le> value then sret (nat value)
       else sfail (invalid_kernel_value (sub h [''damon_target_idx'']) (dec_int value)
                     ''a non-negative target index''))"

definition SchemeFilter_size_range :: "'k sysfs \<Rightarrow> path \<Rightarrow> ('k, u64_range) comp" where
  "SchemeFilter_size_range E h =
     sbind (SchemeFilter_minimum_size_bytes E h) (\<lambda>mn.
     sbind (SchemeFilter_maximum_size_bytes E h) (\<lambda>mx. slift (ByteSizeRange_new mn mx)))"

definition SchemeFilter_configuration :: "'k sysfs \<Rightarrow> path \<Rightarrow> ('k, filter_config) comp" where
  "SchemeFilter_configuration E h =
     sbind (SchemeFilter_filter_type E h) (\<lambda>filter_type.
     sbind (SchemeFilter_matching E h) (\<lambda>matching.
     sbind (SchemeFilter_allowed E h) (\<lambda>allow.
       let config = FilterConfig_new filter_type matching allow in
       case filter_type of
         SfMemoryControlGroup \<Rightarrow>
           sbind (SchemeFilter_cgroup_path E h) (\<lambda>p. sret (config\<lparr>f_cgroup_path := Some p\<rparr>))
       | SfAddress \<Rightarrow>
           sbind (SchemeFilter_address_start E h) (\<lambda>s.
           sbind (SchemeFilter_address_end E h) (\<lambda>e.
             sret (config\<lparr>f_address_range := Some (s, e)\<rparr>)))
       | SfHugePageSize \<Rightarrow>
           sbind (SchemeFilter_size_range E h) (\<lambda>r. sret (config\<lparr>f_size_range := Some r\<rparr>))
       | SfTarget \<Rightarrow>
           sbind (SchemeFilter_target_index E h) (\<lambda>i. sret (config\<lparr>f_target_index := Some i\<rparr>))
       | SfProbeHitsWeightedSum \<Rightarrow>
           sbind (SchemeFilter_minimum_probe_hits_weighted_sum E h) (\<lambda>mn.
           sbind (SchemeFilter_maximum_probe_hits_weighted_sum E h) (\<lambda>mx.
           sbind (slift (ProbeHitsWeightedSumRange_new mn mx)) (\<lambda>r.
             sret (config\<lparr>f_wsum_range := Some r\<rparr>))))
       | SfUnknown _ \<Rightarrow>
           sbind (optional_read E (sub h [''memcg_path'']) (SchemeFilter_cgroup_path E h)) (\<lambda>p.
           sbind (optional_pair E (sub h [''addr_start'']) (sub h [''addr_end''])
                    (sbind (SchemeFilter_address_start E h) (\<lambda>s.
                     sbind (SchemeFilter_address_end E h) (\<lambda>e. sret (s, e))))) (\<lambda>a.
           sbind (optional_pair E (sub h [''min'']) (sub h [''max''])
                    (SchemeFilter_size_range E h)) (\<lambda>r.
           sbind (optional_read E (sub h [''damon_target_idx''])
                    (SchemeFilter_target_index E h)) (\<lambda>i.
             sret (config\<lparr>f_cgroup_path := p, f_address_range := a, f_size_range := r,
                           f_target_index := i\<rparr>)))))
       | _ \<Rightarrow> sret config)))"

definition SchemeFilter_stage_configuration ::
    "'k sysfs \<Rightarrow> path \<Rightarrow> filter_config \<Rightarrow> ('k, unit) comp" where
  "SchemeFilter_stage_configuration E h config =
     steps [SchemeFilter_set_filter_type E h (f_type config),
            SchemeFilter_set_matching E h (f_matching config),
            SchemeFilter_set_allowed E h (f_allow config),
            stage_option (SchemeFilter_set_cgroup_path E h) (f_cgroup_path config),
            stage_option (\<lambda>(s, e). steps [SchemeFilter_set_address_start E h s,
                                           SchemeFilter_set_address_end E h e])
              (f_address_range config),
            stage_option (\<lambda>r. steps [SchemeFilter_set_minimum_size_bytes E h (range_min r),
                                       SchemeFilter_set_maximum_size_bytes E h (range_max r)])
              (f_size_range config),
            stage_option (SchemeFilter_set_target_index E h) (f_target_index config),
            stage_option
              (\<lambda>r. steps [SchemeFilter_set_minimum_probe_hits_weighted_sum E h (range_min r),
                           SchemeFilter_set_maximum_probe_hits_weighted_sum E h (range_max r)])
              (f_wsum_range config)]"

section \<open>Migration destinations\<close>

definition Destination_node_id :: "'k sysfs \<Rightarrow> path \<Rightarrow> ('k, u32) comp" where
  "Destination_node_id E h = read_u32 E (sub h [''id''])"

definition Destination_set_node_id :: "'k sysfs \<Rightarrow> path \<Rightarrow> u32 \<Rightarrow> ('k, unit) comp" where
  "Destination_set_node_id E h value = write_value E (sub h [''id'']) value"

definition Destination_weight :: "'k sysfs \<Rightarrow> path \<Rightarrow> ('k, u32) comp" where
  "Destination_weight E h = read_u32 E (sub h [''weight''])"

definition Destination_set_weight :: "'k sysfs \<Rightarrow> path \<Rightarrow> u32 \<Rightarrow> ('k, unit) comp" where
  "Destination_set_weight E h value = write_value E (sub h [''weight'']) value"

definition Destination_configuration :: "'k sysfs \<Rightarrow> path \<Rightarrow> ('k, destination_config) comp" where
  "Destination_configuration E h =
     sbind (Destination_node_id E h) (\<lambda>n.
     sbind (Destination_weight E h) (\<lambda>w. sret \<lparr>dest_node = n, dest_weight = w\<rparr>))"

definition Destination_stage_configuration ::
    "'k sysfs \<Rightarrow> path \<Rightarrow> destination_config \<Rightarrow> ('k, unit) comp" where
  "Destination_stage_configuration E h config =
     steps [Destination_set_node_id E h (dest_node config),
            Destination_set_weight E h (dest_weight config)]"

section \<open>What reading and staging emit\<close>

lemma staging_emit [emits_rules]:
  "(b \<Longrightarrow> emits P m) \<Longrightarrow> emits P (stage_if b m)"
  "(\<And>v. x = Some v \<Longrightarrow> emits P (f v)) \<Longrightarrow> emits P (stage_option f x)"
  "(\<And>i y ob. emits P (g i y ob)) \<Longrightarrow> emits P (stage_children g ys obs)"
  "(\<And>i z. emits P (h i z)) \<Longrightarrow> emits P (stage_changed h zs obs')"
  by (auto simp: stage_if_def stage_option_def stage_children_def stage_changed_def
      intro!: emits_rules)

lemma first_existing_emits [emits_rules]: "writes_only Q (first_existing (traced E) ps)"
  by (induction ps) (auto intro!: emits_rules)

lemma emits_enum_cases [emits_rules]:
  "(sf = CpuMask \<Longrightarrow> emits P m1) \<Longrightarrow> (sf = Threads \<Longrightarrow> emits P m2) \<Longrightarrow>
   (sf = SampleWrite \<Longrightarrow> emits P m3) \<Longrightarrow> (\<And>s. sf = SaUnknown s \<Longrightarrow> emits P (m4 s)) \<Longrightarrow>
     emits P (case sf of CpuMask \<Rightarrow> m1 | Threads \<Rightarrow> m2 | SampleWrite \<Rightarrow> m3 | SaUnknown s \<Rightarrow> m4 s)"
  by (cases sf) simp_all

lemma descends_dirs [simp]:
  assumes "descends p q"
  shows
    "descends p (Admin_kdamond q i)"
    "descends p (Kdamond_context q i)"
    "descends p (Context_probe q i)"
    "descends p (Context_target q i)"
    "descends p (Context_scheme q i)"
    "descends p (Probe_filter q i)"
    "descends p (SampleControl_filter q i)"
    "descends p (Quotas_goal q i)"
  using assms
  unfolding Admin_kdamond_def Kdamond_context_def Context_probe_def Context_target_def
    Context_scheme_def Probe_filter_def SampleControl_filter_def Quotas_goal_def
  by simp_all

lemma attribute_reads_emit [emits_rules]:
  "writes_only Q (InitialRegion_start (traced E) q)"
  "writes_only Q (InitialRegion_end (traced E) q)"
  "writes_only Q (OperationAttributes_use_reports (traced E) q)"
  "writes_only Q (OperationAttributes_write_only (traced E) q)"
  "writes_only Q (OperationAttributes_cpus (traced E) q)"
  "writes_only Q (OperationAttributes_thread_ids (traced E) q)"
  "writes_only Q (ProbePreparation_action (traced E) q)"
  "writes_only Q (SampleFilter_filter_type (traced E) q)"
  "writes_only Q (SampleFilter_matching (traced E) q)"
  "writes_only Q (SampleFilter_allowed (traced E) q)"
  "writes_only Q (SampleFilter_cpu_mask (traced E) q)"
  "writes_only Q (SampleFilter_thread_ids (traced E) q)"
  "writes_only Q (SampleControl_page_table_enabled (traced E) q)"
  "writes_only Q (SampleControl_page_fault_enabled (traced E) q)"
  "writes_only Q (SampleControl_filter_count (traced E) q)"
  "writes_only Q (QuotaGoal_metric (traced E) q)"
  "writes_only Q (QuotaGoal_target_value (traced E) q)"
  "writes_only Q (QuotaGoal_current_value (traced E) q)"
  "writes_only Q (QuotaGoal_node_id (traced E) q)"
  "writes_only Q (QuotaGoal_cgroup_path (traced E) q)"
  "writes_only Q (Quotas_time (traced E) q)"
  "writes_only Q (Quotas_size_units (traced E) q)"
  "writes_only Q (Quotas_reset_interval (traced E) q)"
  "writes_only Q (Quotas_effective_size_units (traced E) q)"
  "writes_only Q (Quotas_goal_tuner (traced E) q)"
  "writes_only Q (Quotas_failure_charge_numerator (traced E) q)"
  "writes_only Q (Quotas_failure_charge_denominator (traced E) q)"
  "writes_only Q (Quotas_goal_count (traced E) q)"
  "writes_only Q (Watermarks_metric (traced E) q)"
  "writes_only Q (Watermarks_interval (traced E) q)"
  "writes_only Q (Watermarks_high (traced E) q)"
  "writes_only Q (Watermarks_middle (traced E) q)"
  "writes_only Q (Watermarks_low (traced E) q)"
  "writes_only Q (SchemeFilter_filter_type (traced E) q)"
  "writes_only Q (SchemeFilter_matching (traced E) q)"
  "writes_only Q (SchemeFilter_cgroup_path (traced E) q)"
  "writes_only Q (SchemeFilter_address_start (traced E) q)"
  "writes_only Q (SchemeFilter_address_end (traced E) q)"
  "writes_only Q (SchemeFilter_minimum_size_bytes (traced E) q)"
  "writes_only Q (SchemeFilter_maximum_size_bytes (traced E) q)"
  "writes_only Q (SchemeFilter_minimum_probe_hits_weighted_sum (traced E) q)"
  "writes_only Q (SchemeFilter_maximum_probe_hits_weighted_sum (traced E) q)"
  "writes_only Q (Destination_node_id (traced E) q)"
  "writes_only Q (Destination_weight (traced E) q)"
  unfolding InitialRegion_start_def InitialRegion_end_def OperationAttributes_use_reports_def
    OperationAttributes_write_only_def OperationAttributes_cpus_def
    OperationAttributes_thread_ids_def ProbePreparation_action_def SampleFilter_filter_type_def
    SampleFilter_matching_def SampleFilter_allowed_def SampleFilter_cpu_mask_def
    SampleFilter_thread_ids_def SampleControl_page_table_enabled_def
    SampleControl_page_fault_enabled_def SampleControl_filter_count_def QuotaGoal_metric_def
    QuotaGoal_target_value_def QuotaGoal_current_value_def QuotaGoal_node_id_def
    QuotaGoal_cgroup_path_def Quotas_time_def Quotas_size_units_def Quotas_reset_interval_def
    Quotas_effective_size_units_def Quotas_goal_tuner_def Quotas_failure_charge_numerator_def
    Quotas_failure_charge_denominator_def Quotas_goal_count_def Watermarks_metric_def
    Watermarks_interval_def Watermarks_high_def Watermarks_middle_def Watermarks_low_def
    SchemeFilter_filter_type_def SchemeFilter_matching_def SchemeFilter_cgroup_path_def
    SchemeFilter_address_start_def SchemeFilter_address_end_def
    SchemeFilter_minimum_size_bytes_def SchemeFilter_maximum_size_bytes_def
    SchemeFilter_minimum_probe_hits_weighted_sum_def
    SchemeFilter_maximum_probe_hits_weighted_sum_def Destination_node_id_def
    Destination_weight_def
  by (auto intro!: emits_rules)

lemma InitialRegion_configuration_emits [emits_rules]: "writes_only Q (InitialRegion_configuration (traced E) q)"
  unfolding InitialRegion_configuration_def Let_def by (intro emits_rules)

lemma OperationAttributes_configuration_emits [emits_rules]: "writes_only Q (OperationAttributes_configuration (traced E) q)"
  unfolding OperationAttributes_configuration_def Let_def by (intro emits_rules)

lemma ProbePreparation_configuration_emits [emits_rules]: "writes_only Q (ProbePreparation_configuration (traced E) q)"
  unfolding ProbePreparation_configuration_def Let_def by (intro emits_rules)

lemma SampleFilter_configuration_emits [emits_rules]: "writes_only Q (SampleFilter_configuration (traced E) q)"
  unfolding SampleFilter_configuration_def Let_def by (intro emits_rules)

lemma SampleControl_configuration_emits [emits_rules]: "writes_only Q (SampleControl_configuration (traced E) q)"
  unfolding SampleControl_configuration_def Let_def by (intro emits_rules)

lemma QuotaGoal_configuration_emits [emits_rules]: "writes_only Q (QuotaGoal_configuration (traced E) q)"
  unfolding QuotaGoal_configuration_def Let_def by (intro emits_rules)

lemma Quotas_weights_emits [emits_rules]: "writes_only Q (Quotas_weights (traced E) q)"
  unfolding Quotas_weights_def Let_def by (intro emits_rules)

lemma Quotas_goal_configurations_emits [emits_rules]: "writes_only Q (Quotas_goal_configurations (traced E) q)"
  unfolding Quotas_goal_configurations_def Let_def by (intro emits_rules)

lemma Quotas_configuration_emits [emits_rules]: "writes_only Q (Quotas_configuration (traced E) q)"
  unfolding Quotas_configuration_def Let_def by (intro emits_rules)

lemma Watermarks_configuration_emits [emits_rules]: "writes_only Q (Watermarks_configuration (traced E) q)"
  unfolding Watermarks_configuration_def Let_def by (intro emits_rules)

lemma SchemeFilter_allow_path_emits [emits_rules]: "writes_only Q (SchemeFilter_allow_path (traced E) q)"
  unfolding SchemeFilter_allow_path_def Let_def by (intro emits_rules)

lemma SchemeFilter_allowed_emits [emits_rules]: "writes_only Q (SchemeFilter_allowed (traced E) q)"
  unfolding SchemeFilter_allowed_def Let_def by (intro emits_rules)

lemma SchemeFilter_target_index_emits [emits_rules]: "writes_only Q (SchemeFilter_target_index (traced E) q)"
  unfolding SchemeFilter_target_index_def Let_def by (intro emits_rules)

lemma SchemeFilter_size_range_emits [emits_rules]: "writes_only Q (SchemeFilter_size_range (traced E) q)"
  unfolding SchemeFilter_size_range_def Let_def by (intro emits_rules)

lemma Destination_configuration_emits [emits_rules]: "writes_only Q (Destination_configuration (traced E) q)"
  unfolding Destination_configuration_def Let_def by (intro emits_rules)

lemma SchemeFilter_configuration_emits [emits_rules]:
  "writes_only Q (SchemeFilter_configuration (traced E) q)"
  unfolding SchemeFilter_configuration_def Let_def
  by (intro emits_rules) (simp split: scheme_filter_type.split, intro emits_rules conjI impI allI)

lemma attribute_writes_emit [emits_rules]:
  assumes "descends p q"
  shows
  "writes_only (attribute_of p) (InitialRegion_set_start (traced E) q x0)"
  "writes_only (attribute_of p) (InitialRegion_set_end (traced E) q x1)"
  "writes_only (attribute_of p) (OperationAttributes_set_use_reports (traced E) q x2)"
  "writes_only (attribute_of p) (OperationAttributes_set_write_only (traced E) q x3)"
  "writes_only (attribute_of p) (OperationAttributes_set_cpus (traced E) q x4)"
  "writes_only (attribute_of p) (OperationAttributes_set_thread_ids (traced E) q x5)"
  "writes_only (attribute_of p) (ProbePreparation_set_action (traced E) q x6)"
  "writes_only (attribute_of p) (SampleFilter_set_filter_type (traced E) q x7)"
  "writes_only (attribute_of p) (SampleFilter_set_matching (traced E) q x8)"
  "writes_only (attribute_of p) (SampleFilter_set_allowed (traced E) q x9)"
  "writes_only (attribute_of p) (SampleFilter_set_cpu_mask (traced E) q x10)"
  "writes_only (attribute_of p) (SampleFilter_set_thread_ids (traced E) q x11)"
  "writes_only (attribute_of p) (SampleControl_set_page_table_enabled (traced E) q x12)"
  "writes_only (attribute_of p) (SampleControl_set_page_fault_enabled (traced E) q x13)"
  "writes_only (attribute_of p) (SampleControl_set_filter_count (traced E) q x14)"
  "writes_only (attribute_of p) (QuotaGoal_set_metric (traced E) q x15)"
  "writes_only (attribute_of p) (QuotaGoal_set_target_value (traced E) q x16)"
  "writes_only (attribute_of p) (QuotaGoal_set_current_value (traced E) q x17)"
  "writes_only (attribute_of p) (QuotaGoal_set_node_id (traced E) q x18)"
  "writes_only (attribute_of p) (QuotaGoal_set_cgroup_path (traced E) q x19)"
  "writes_only (attribute_of p) (Quotas_set_time (traced E) q x20)"
  "writes_only (attribute_of p) (Quotas_set_size_units (traced E) q x21)"
  "writes_only (attribute_of p) (Quotas_set_reset_interval (traced E) q x22)"
  "writes_only (attribute_of p) (Quotas_set_goal_tuner (traced E) q x23)"
  "writes_only (attribute_of p) (Quotas_set_failure_charge_numerator (traced E) q x24)"
  "writes_only (attribute_of p) (Quotas_set_failure_charge_denominator (traced E) q x25)"
  "writes_only (attribute_of p) (Quotas_set_goal_count (traced E) q x26)"
  "writes_only (attribute_of p) (Watermarks_set_metric (traced E) q x27)"
  "writes_only (attribute_of p) (Watermarks_set_interval (traced E) q x28)"
  "writes_only (attribute_of p) (Watermarks_set_high (traced E) q x29)"
  "writes_only (attribute_of p) (Watermarks_set_middle (traced E) q x30)"
  "writes_only (attribute_of p) (Watermarks_set_low (traced E) q x31)"
  "writes_only (attribute_of p) (SchemeFilter_set_filter_type (traced E) q x32)"
  "writes_only (attribute_of p) (SchemeFilter_set_matching (traced E) q x33)"
  "writes_only (attribute_of p) (SchemeFilter_set_cgroup_path (traced E) q x34)"
  "writes_only (attribute_of p) (SchemeFilter_set_address_start (traced E) q x35)"
  "writes_only (attribute_of p) (SchemeFilter_set_address_end (traced E) q x36)"
  "writes_only (attribute_of p) (SchemeFilter_set_minimum_size_bytes (traced E) q x37)"
  "writes_only (attribute_of p) (SchemeFilter_set_maximum_size_bytes (traced E) q x38)"
  "writes_only (attribute_of p) (SchemeFilter_set_minimum_probe_hits_weighted_sum (traced E) q x39)"
  "writes_only (attribute_of p) (SchemeFilter_set_maximum_probe_hits_weighted_sum (traced E) q x40)"
  "writes_only (attribute_of p) (SchemeFilter_set_target_index (traced E) q x41)"
  "writes_only (attribute_of p) (Destination_set_node_id (traced E) q x42)"
  "writes_only (attribute_of p) (Destination_set_weight (traced E) q x43)"
  "writes_only (attribute_of p) (Quotas_set_weights (traced E) q w)"
  using assms
  unfolding InitialRegion_set_start_def InitialRegion_set_end_def
    OperationAttributes_set_use_reports_def OperationAttributes_set_write_only_def
    OperationAttributes_set_cpus_def OperationAttributes_set_thread_ids_def
    ProbePreparation_set_action_def SampleFilter_set_filter_type_def SampleFilter_set_matching_def
    SampleFilter_set_allowed_def SampleFilter_set_cpu_mask_def SampleFilter_set_thread_ids_def
    SampleControl_set_page_table_enabled_def SampleControl_set_page_fault_enabled_def
    SampleControl_set_filter_count_def QuotaGoal_set_metric_def QuotaGoal_set_target_value_def
    QuotaGoal_set_current_value_def QuotaGoal_set_node_id_def QuotaGoal_set_cgroup_path_def
    Quotas_set_time_def Quotas_set_size_units_def Quotas_set_reset_interval_def
    Quotas_set_goal_tuner_def Quotas_set_failure_charge_numerator_def
    Quotas_set_failure_charge_denominator_def Quotas_set_goal_count_def Watermarks_set_metric_def
    Watermarks_set_interval_def Watermarks_set_high_def Watermarks_set_middle_def
    Watermarks_set_low_def SchemeFilter_set_filter_type_def SchemeFilter_set_matching_def
    SchemeFilter_set_cgroup_path_def SchemeFilter_set_address_start_def
    SchemeFilter_set_address_end_def SchemeFilter_set_minimum_size_bytes_def
    SchemeFilter_set_maximum_size_bytes_def SchemeFilter_set_minimum_probe_hits_weighted_sum_def
    SchemeFilter_set_maximum_probe_hits_weighted_sum_def SchemeFilter_set_target_index_def
    Destination_set_node_id_def Destination_set_weight_def Quotas_set_weights_def
  by (auto intro!: emits_rules simp: Let_def)

text \<open>A rule that uses what the first computation can return.\<close>

lemma emits_sbind_post:
  assumes m: "emits P m" and post: "\<And>w x w'. m w = (Inr x, w') \<Longrightarrow> R x"
    and f: "\<And>x. R x \<Longrightarrow> emits P (f x)"
  shows "emits P (sbind m f)"
proof -
  have "sbind m f = sbind m (\<lambda>x. if R x then f x else sfail NotRunning)"
    using post by (auto simp: sbind_def fun_eq_iff split: prod.splits sum.splits)
  moreover have "emits P (sbind m (\<lambda>x. if R x then f x else sfail NotRunning))"
    using m f by (intro emits_rules)
  ultimately show ?thesis by simp
qed

lemma first_existing_in:
  "first_existing E ps w = (Inr (Some q), w') \<Longrightarrow> q \<in> set ps"
  by (induction ps arbitrary: w)
    (auto simp: sbind_Inr_iff sret_def split: if_splits)

lemma SchemeFilter_set_allowed_emits [emits_rules]:
  assumes "descends p q"
  shows "writes_only (attribute_of p) (SchemeFilter_set_allowed (traced E) q b)"
  unfolding SchemeFilter_set_allowed_def
proof (rule emits_sbind_post)
  show "writes_only (attribute_of p) (SchemeFilter_allow_path (traced E) q)"
    by (rule emits_rules)
next
  fix w x w' assume "SchemeFilter_allow_path (traced E) q w = (Inr x, w')"
  then have "f \<in> set [sub q [''allow''], sub q [''pass'']]" if "x = Some f" for f
    using that unfolding SchemeFilter_allow_path_def by (intro first_existing_in) simp
  then show "\<forall>f. x = Some f \<longrightarrow> attribute_of p f" using assms by auto
next
  fix x assume "\<forall>f. x = Some f \<longrightarrow> attribute_of p f"
  then show "writes_only (attribute_of p)
      (case x of None \<Rightarrow> if \<not> b then sret ()
                  else sfail (UnsupportedFeature ''DAMOS filter allow control'')
       | Some f \<Rightarrow> write_bool (traced E) f b)"
    by (intro emits_rules) simp
qed

lemma attribute_stages_emit_0 [emits_rules]:
  assumes "descends p q"
  shows
  "writes_only (attribute_of p) (InitialRegion_stage_configuration (traced E) q ir)"
  "writes_only (attribute_of p) (OperationAttributes_stage_configuration (traced E) q oa)"
  "writes_only (attribute_of p) (ProbePreparation_stage_configuration (traced E) q pp)"
  "writes_only (attribute_of p) (SampleFilter_stage_configuration (traced E) q sf)"
  "writes_only (attribute_of p) (SchemeFilter_stage_configuration (traced E) q fc)"
  "writes_only (attribute_of p) (Destination_stage_configuration (traced E) q dc)"
  "writes_only (attribute_of p) (QuotaGoal_stage_configuration (traced E) q g)"
  "writes_only (attribute_of p) (Watermarks_stage_configuration_from (traced E) q wc ob)"
  using assms
  unfolding InitialRegion_stage_configuration_def OperationAttributes_stage_configuration_def
    ProbePreparation_stage_configuration_def SampleFilter_stage_configuration_def
    SchemeFilter_stage_configuration_def Destination_stage_configuration_def
    QuotaGoal_stage_configuration_def Watermarks_stage_configuration_from_def
  by (auto intro!: emits_rules)

lemma attribute_stages_emit_1 [emits_rules]:
  assumes "descends p q"
  shows
  "writes_only (attribute_of p) (SampleControl_stage_configuration (traced E) q sc)"
  "writes_only (attribute_of p) (Quotas_stage_goals_from (traced E) q gs og)"
  using assms
  unfolding SampleControl_stage_configuration_def Quotas_stage_goals_from_def
  by (auto intro!: emits_rules)

lemma attribute_stages_emit_2 [emits_rules]:
  assumes "descends p q"
  shows
  "writes_only (attribute_of p) (Quotas_stage_configuration_from (traced E) q qc oq)"
  using assms
  unfolding Quotas_stage_configuration_from_def
  by (auto intro!: emits_rules)

end
