(* ===== verification/Staging.thy ===== *)
theory Staging
  imports Attributes
begin

text \<open>
  \<^verbatim>\<open>src/src/sysfs/configuration/staging.rs\<close>: reading a configuration back from the hierarchy
  and staging one, attribute by attribute, writing only what differs from an observed one.
\<close>

section \<open>Targets\<close>

definition Target_initial_region :: "path \<Rightarrow> usize \<Rightarrow> path" where
  "Target_initial_region h i = child (sub h [''regions'']) i"

definition Target_configuration :: "'k sysfs \<Rightarrow> path \<Rightarrow> ('k, target_config) comp" where
  "Target_configuration E h =
     sbind (path_exists E (sub h [''regions'', ''nr_regions''])) (\<lambda>present.
     sbind (if present then
              sbind (Target_initial_region_count E h) (\<lambda>n.
                read_indexed n (\<lambda>i. InitialRegion_configuration E (Target_initial_region h i)))
            else sret []) (\<lambda>regions.
     sbind (Target_pid E h) (\<lambda>p.
     sbind (optional_read E (sub h [''obsolete_target'']) (Target_is_obsolete E h)) (\<lambda>obsolete.
       sret \<lparr>target_pid = p,
             target_obsolete = (case obsolete of None \<Rightarrow> False | Some b \<Rightarrow> b),
             target_regions = regions\<rparr>))))"

definition Target_stage_configuration_from ::
    "'k sysfs \<Rightarrow> path \<Rightarrow> target_config \<Rightarrow> target_config option \<Rightarrow> ('k, unit) comp" where
  "Target_stage_configuration_from E h config observed =
     (if observed = Some config then sret ()
      else steps
        [stage_if (needs_stage (map_option target_pid observed) (target_pid config))
           (case target_pid config of
              Some p \<Rightarrow> Target_set_pid E h p
            | None \<Rightarrow> Target_clear_pid E h),
         stage_if (needs_stage (map_option target_obsolete observed) (target_obsolete config))
           (stage_optional_default E (sub h [''obsolete_target'']) (target_obsolete config) False
              ''obsolete DAMON targets'' (Target_set_obsolete E h (target_obsolete config))),
         sbind (path_exists E (sub h [''regions'', ''nr_regions''])) (\<lambda>present.
           if present then
             steps [ensure_count E (sub h [''regions'', ''nr_regions''])
                      (length (target_regions config)),
                    stage_changed
                      (\<lambda>i. InitialRegion_stage_configuration E (Target_initial_region h i))
                      (target_regions config)
                      (comparable (map_option target_regions observed) (target_regions config))]
           else if target_regions config \<noteq> [] then
             sfail (UnsupportedFeature ''DAMON initial regions'')
           else sret ())])"

section \<open>Probes\<close>

definition Probe_weight :: "'k sysfs \<Rightarrow> path \<Rightarrow> ('k, u32) comp" where
  "Probe_weight E h = read_u32 E (sub h [''weight''])"

definition Probe_set_weight :: "'k sysfs \<Rightarrow> path \<Rightarrow> u32 \<Rightarrow> ('k, unit) comp" where
  "Probe_set_weight E h value = write_value E (sub h [''weight'']) value"

definition Probe_preparation_count :: "'k sysfs \<Rightarrow> path \<Rightarrow> ('k, usize) comp" where
  "Probe_preparation_count E h = read_usize E (sub h [''preps'', ''nr_preps''])"

definition Probe_set_preparation_count :: "'k sysfs \<Rightarrow> path \<Rightarrow> usize \<Rightarrow> ('k, unit) comp" where
  "Probe_set_preparation_count E h n =
     sbind (slift (validate_count ''probe preparation count'' n)) (\<lambda>_. write_usize E (sub h [''preps'', ''nr_preps'']) n)"

definition Probe_preparation :: "path \<Rightarrow> usize \<Rightarrow> path" where
  "Probe_preparation h i = child (sub h [''preps'']) i"

definition ProbeFilter_configuration :: "'k sysfs \<Rightarrow> path \<Rightarrow> ('k, probe_filter_config) comp" where
  "ProbeFilter_configuration E h =
     sbind (ProbeFilter_filter_type E h) (\<lambda>filter_type.
     sbind (case filter_type of
              PfMemoryControlGroup \<Rightarrow> sbind (ProbeFilter_cgroup_path E h) (\<lambda>p. sret (Some p))
            | PfUnknown _ \<Rightarrow> sbind (ProbeFilter_cgroup_path E h) (\<lambda>p. sret (Some p))
            | _ \<Rightarrow> sret None) (\<lambda>cgroup_path.
     sbind (ProbeFilter_matching E h) (\<lambda>matching.
     sbind (ProbeFilter_allowed E h) (\<lambda>allow.
       sret \<lparr>pf_type = filter_type, pf_matching = matching, pf_allow = allow,
             pf_cgroup_path = cgroup_path\<rparr>))))"

definition ProbeFilter_stage_configuration ::
    "'k sysfs \<Rightarrow> path \<Rightarrow> probe_filter_config \<Rightarrow> ('k, unit) comp" where
  "ProbeFilter_stage_configuration E h config =
     steps [ProbeFilter_set_filter_type E h (pf_type config),
            ProbeFilter_set_matching E h (pf_matching config),
            ProbeFilter_set_allowed E h (pf_allow config),
            stage_option (ProbeFilter_set_cgroup_path E h) (pf_cgroup_path config)]"

definition Probe_configuration :: "'k sysfs \<Rightarrow> path \<Rightarrow> ('k, probe_config) comp" where
  "Probe_configuration E h =
     sbind (Probe_filter_count E h) (\<lambda>n.
     sbind (read_indexed n (\<lambda>i. ProbeFilter_configuration E (Probe_filter h i))) (\<lambda>filters.
     sbind (optional_read E (sub h [''weight'']) (Probe_weight E h)) (\<lambda>weight.
     sbind (path_exists E (sub h [''preps'', ''nr_preps''])) (\<lambda>present.
     sbind (if present then
              sbind (Probe_preparation_count E h) (\<lambda>m.
                read_indexed m (\<lambda>i. ProbePreparation_configuration E (Probe_preparation h i)))
            else sret []) (\<lambda>preparations.
       sret \<lparr>probe_filters = filters,
             probe_weight = (case weight of None \<Rightarrow> 0 | Some v \<Rightarrow> v),
             probe_preparations = preparations\<rparr>)))))"

definition Probe_stage_configuration_from ::
    "'k sysfs \<Rightarrow> path \<Rightarrow> probe_config \<Rightarrow> probe_config option \<Rightarrow> ('k, unit) comp" where
  "Probe_stage_configuration_from E h config observed =
     (if observed = Some config then sret ()
      else steps
        [ensure_count E (sub h [''filters'', ''nr_filters'']) (length (probe_filters config)),
         stage_changed (\<lambda>i. ProbeFilter_stage_configuration E (Probe_filter h i))
           (probe_filters config)
           (comparable (map_option probe_filters observed) (probe_filters config)),
         stage_if (needs_stage (map_option probe_weight observed) (probe_weight config))
           (stage_optional_default E (sub h [''weight'']) (probe_weight config) 0
              ''DAMON probe weights'' (Probe_set_weight E h (probe_weight config))),
         sbind (path_exists E (sub h [''preps'', ''nr_preps''])) (\<lambda>present.
           if present then
             steps [ensure_count E (sub h [''preps'', ''nr_preps''])
                      (length (probe_preparations config)),
                    stage_changed
                      (\<lambda>i. ProbePreparation_stage_configuration E (Probe_preparation h i))
                      (probe_preparations config)
                      (comparable (map_option probe_preparations observed)
                         (probe_preparations config))]
           else if probe_preparations config \<noteq> [] then
             sfail (UnsupportedFeature ''DAMON probe preparations'')
           else sret ())])"

section \<open>Schemes\<close>

definition Scheme_target_node :: "'k sysfs \<Rightarrow> path \<Rightarrow> ('k, i32) comp" where
  "Scheme_target_node E h = read_i32 E (sub h [''target_nid''])"

definition Scheme_set_target_node :: "'k sysfs \<Rightarrow> path \<Rightarrow> i32 \<Rightarrow> ('k, unit) comp" where
  "Scheme_set_target_node E h value = write_i32 E (sub h [''target_nid'']) value"

definition Scheme_quotas :: "path \<Rightarrow> path" where
  "Scheme_quotas h = sub h [''quotas'']"

definition Scheme_watermarks :: "path \<Rightarrow> path" where
  "Scheme_watermarks h = sub h [''watermarks'']"

definition Scheme_destination_count :: "'k sysfs \<Rightarrow> path \<Rightarrow> ('k, usize) comp" where
  "Scheme_destination_count E h = read_usize E (sub h [''dests'', ''nr_dests''])"

definition Scheme_set_destination_count :: "'k sysfs \<Rightarrow> path \<Rightarrow> usize \<Rightarrow> ('k, unit) comp" where
  "Scheme_set_destination_count E h n =
     sbind (slift (validate_count ''migration destination count'' n)) (\<lambda>_. write_usize E (sub h [''dests'', ''nr_dests'']) n)"

definition Scheme_destination :: "path \<Rightarrow> usize \<Rightarrow> path" where
  "Scheme_destination h i = child (sub h [''dests'']) i"

definition Scheme_application_snapshot_limit :: "'k sysfs \<Rightarrow> path \<Rightarrow> ('k, u64) comp" where
  "Scheme_application_snapshot_limit E h = read_u64 E (sub h [''stats'', ''max_nr_snapshots''])"

definition Scheme_set_application_snapshot_limit :: "'k sysfs \<Rightarrow> path \<Rightarrow> u64 \<Rightarrow> ('k, unit) comp" where
  "Scheme_set_application_snapshot_limit E h value = write_value E (sub h [''stats'', ''max_nr_snapshots'']) value"

definition Scheme_filter_count :: "'k sysfs \<Rightarrow> path \<Rightarrow> filter_layer \<Rightarrow> ('k, usize) comp" where
  "Scheme_filter_count E h layer = read_usize E (sub h [layer_directory layer, ''nr_filters''])"

definition Scheme_set_filter_count ::
    "'k sysfs \<Rightarrow> path \<Rightarrow> filter_layer \<Rightarrow> usize \<Rightarrow> ('k, unit) comp" where
  "Scheme_set_filter_count E h layer n =
     sbind (slift (validate_count ''scheme filter count'' n)) (\<lambda>_.
       write_usize E (sub h [layer_directory layer, ''nr_filters'']) n)"

definition Scheme_filter :: "path \<Rightarrow> filter_layer \<Rightarrow> usize \<Rightarrow> path" where
  "Scheme_filter h layer i = child (sub h [layer_directory layer]) i"

record scheme_stats =
  st_regions_tried :: u64
  st_size_tried :: u64
  st_regions_applied :: u64
  st_size_applied :: u64
  st_ops_filter_passed :: "u64 option"
  st_quota_exceeds :: u64
  st_snapshots :: "u64 option"
  st_snapshot_limit :: "u64 option"

definition Scheme_stats :: "'k sysfs \<Rightarrow> path \<Rightarrow> ('k, scheme_stats) comp" where
  "Scheme_stats E h =
     (let p = sub h [''stats''] in
      sbind (read_u64 E (sub p [''nr_tried''])) (\<lambda>a.
      sbind (read_u64 E (sub p [''sz_tried''])) (\<lambda>b.
      sbind (read_u64 E (sub p [''nr_applied''])) (\<lambda>c.
      sbind (read_u64 E (sub p [''sz_applied''])) (\<lambda>d.
      sbind (optional_read E (sub p [''sz_ops_filter_passed''])
               (read_u64 E (sub p [''sz_ops_filter_passed'']))) (\<lambda>e.
      sbind (read_u64 E (sub p [''qt_exceeds''])) (\<lambda>f.
      sbind (optional_read E (sub p [''nr_snapshots''])
               (read_u64 E (sub p [''nr_snapshots'']))) (\<lambda>g.
      sbind (optional_read E (sub p [''max_nr_snapshots''])
               (read_u64 E (sub p [''max_nr_snapshots'']))) (\<lambda>i.
        sret \<lparr>st_regions_tried = a, st_size_tried = b, st_regions_applied = c,
              st_size_applied = d, st_ops_filter_passed = e, st_quota_exceeds = f,
              st_snapshots = g, st_snapshot_limit = i\<rparr>)))))))))"

definition Scheme_read_filter_layer ::
    "'k sysfs \<Rightarrow> path \<Rightarrow> filter_layer \<Rightarrow> ('k, filter_config list) comp" where
  "Scheme_read_filter_layer E h layer =
     sbind (path_exists E (sub h [layer_directory layer, ''nr_filters''])) (\<lambda>present.
       if \<not> present then sret []
       else sbind (Scheme_filter_count E h layer) (\<lambda>n.
         read_indexed n (\<lambda>i.
           sbind (SchemeFilter_configuration E (Scheme_filter h layer i)) (\<lambda>config.
             sret (config\<lparr>f_placement := from_layer layer\<rparr>)))))"

definition Scheme_read_destinations :: "'k sysfs \<Rightarrow> path \<Rightarrow> ('k, destination_config list) comp" where
  "Scheme_read_destinations E h =
     sbind (path_exists E (sub h [''dests'', ''nr_dests''])) (\<lambda>present.
       if \<not> present then sret []
       else sbind (Scheme_destination_count E h) (\<lambda>n.
         read_indexed n (\<lambda>i. Destination_configuration E (Scheme_destination h i))))"

definition Scheme_configuration :: "'k sysfs \<Rightarrow> path \<Rightarrow> ('k, scheme_config) comp" where
  "Scheme_configuration E h =
     sbind (Scheme_read_filter_layer E h LayerCore) (\<lambda>core.
     sbind (Scheme_read_filter_layer E h LayerOperations) (\<lambda>ops.
     sbind (Scheme_read_filter_layer E h LayerUnified) (\<lambda>unified.
     sbind (Scheme_action E h) (\<lambda>act.
     sbind (Scheme_access_pattern E h) (\<lambda>pattern.
     sbind (optional_read E (sub h [''apply_interval_us'']) (Scheme_apply_interval E h)) (\<lambda>apply.
     sbind (optional_read E (sub h [''target_nid'']) (Scheme_target_node E h)) (\<lambda>node.
     sbind (Quotas_configuration E (Scheme_quotas h)) (\<lambda>quota.
     sbind (Watermarks_configuration E (Scheme_watermarks h)) (\<lambda>watermarks.
     sbind (Scheme_read_destinations E h) (\<lambda>destinations.
     sbind (optional_read E (sub h [''stats'', ''max_nr_snapshots''])
              (Scheme_application_snapshot_limit E h)) (\<lambda>limit.
       sret \<lparr>s_action = act, s_pattern = pattern,
             s_apply_interval = (case apply of None \<Rightarrow> 0 | Some d \<Rightarrow> d),
             s_target_node = (case node of None \<Rightarrow> None
                              | Some n \<Rightarrow> if n \<noteq> -1 then Some n else None),
             s_quota = quota, s_watermarks = watermarks, s_filters = core @ ops @ unified,
             s_destinations = destinations,
             s_snapshot_limit = (case limit of None \<Rightarrow> 0 | Some v \<Rightarrow> v)\<rparr>)))))))))))"

definition Scheme_stage_filter_layer ::
    "'k sysfs \<Rightarrow> path \<Rightarrow> filter_layer \<Rightarrow> filter_config list \<Rightarrow> ('k, unit) comp" where
  "Scheme_stage_filter_layer E h layer filters =
     steps [ensure_count E (sub h [layer_directory layer, ''nr_filters'']) (length filters),
            stage_children
              (\<lambda>i f _. SchemeFilter_stage_configuration E (Scheme_filter h layer i) f) filters None]"

definition layer_feature :: "filter_layer \<Rightarrow> string" where
  "layer_feature layer =
     (case layer of
        LayerUnified \<Rightarrow> ''unified DAMOS filters''
      | LayerCore \<Rightarrow> ''core DAMOS filters''
      | LayerOperations \<Rightarrow> ''operations DAMOS filters'')"

definition Scheme_stage_filter_layer_if_present ::
    "'k sysfs \<Rightarrow> path \<Rightarrow> filter_layer \<Rightarrow> filter_config list \<Rightarrow> bool \<Rightarrow> ('k, unit) comp" where
  "Scheme_stage_filter_layer_if_present E h layer filters present =
     (if present then Scheme_stage_filter_layer E h layer filters
      else if filters = [] then sret ()
      else sfail (UnsupportedFeature (layer_feature layer)))"

text \<open>The loop that distributes the filters over the three directories.\<close>

fun distribute_filters ::
    "filter_config list \<Rightarrow> filter_config list \<times> filter_config list \<times> filter_config list
      \<Rightarrow> filter_config list \<times> filter_config list \<times> filter_config list" where
  "distribute_filters [] acc = acc"
| "distribute_filters (f # fs) (core, ops, unified) =
     distribute_filters fs
       (case f_placement f of
          Core \<Rightarrow> (core @ [f], ops, unified)
        | Operations \<Rightarrow> (core, ops @ [f], unified)
        | Unified \<Rightarrow> (core, ops, unified @ [f])
        | Adaptive \<Rightarrow>
            if handled_by_operations (f_type f) = Some False then (core @ [f], ops, unified)
            else (core, ops @ [f], unified))"

definition Scheme_stage_semantic_filters ::
    "'k sysfs \<Rightarrow> path \<Rightarrow> filter_config list \<Rightarrow> ('k, unit) comp" where
  "Scheme_stage_semantic_filters E h filters =
     sbind (path_exists E (sub h [''core_filters'', ''nr_filters''])) (\<lambda>has_core.
     sbind (path_exists E (sub h [''ops_filters'', ''nr_filters''])) (\<lambda>has_operations.
     sbind (path_exists E (sub h [''filters'', ''nr_filters''])) (\<lambda>has_unified.
       if has_core \<or> has_operations then
         (case distribute_filters filters ([], [], []) of (core, ops, unified) \<Rightarrow>
            steps [Scheme_stage_filter_layer_if_present E h LayerCore core has_core,
                   Scheme_stage_filter_layer_if_present E h LayerOperations ops has_operations,
                   Scheme_stage_filter_layer_if_present E h LayerUnified unified has_unified])
       else if has_unified then
         if \<exists>f\<in>set filters. f_placement f \<in> {Core, Operations} then
           sfail (UnsupportedFeature ''split DAMOS filter placement'')
         else Scheme_stage_filter_layer E h LayerUnified filters
       else if filters = [] then sret ()
       else sfail (UnsupportedFeature ''DAMOS filters''))))"

definition Scheme_stage_configuration_from ::
    "'k sysfs \<Rightarrow> path \<Rightarrow> scheme_config \<Rightarrow> scheme_config option \<Rightarrow> ('k, unit) comp" where
  "Scheme_stage_configuration_from E h config observed =
     (if observed = Some config then sret ()
      else steps
        [stage_if (needs_stage (map_option s_action observed) (s_action config))
           (Scheme_set_action E h (s_action config)),
         stage_if (case observed of None \<Rightarrow> True
                   | Some v \<Rightarrow> \<not> pattern_equivalent (s_pattern config) (s_pattern v))
           (Scheme_set_access_pattern_adaptive E h (s_pattern config)),
         stage_if (needs_stage (map_option s_apply_interval observed) (s_apply_interval config))
           (stage_optional_default E (sub h [''apply_interval_us'']) (s_apply_interval config) 0
              ''DAMOS apply intervals''
              (Scheme_set_apply_interval E h (s_apply_interval config))),
         stage_if (needs_stage (map_option s_target_node observed) (s_target_node config))
           (sbind (path_exists E (sub h [''target_nid''])) (\<lambda>present.
              if present then
                Scheme_set_target_node E h
                  (case s_target_node config of None \<Rightarrow> -1 | Some n \<Rightarrow> n)
              else if s_target_node config \<noteq> None then
                sfail (UnsupportedFeature ''DAMOS migration'')
              else sret ())),
         Quotas_stage_configuration_from E (Scheme_quotas h) (s_quota config)
           (map_option s_quota observed),
         Watermarks_stage_configuration_from E (Scheme_watermarks h) (s_watermarks config)
           (map_option s_watermarks observed),
         stage_if (case observed of None \<Rightarrow> True
                   | Some v \<Rightarrow> \<not> semantic_filters_match (s_filters config) (s_filters v))
           (Scheme_stage_semantic_filters E h (s_filters config)),
         stage_if (needs_stage (map_option s_destinations observed) (s_destinations config))
           (sbind (path_exists E (sub h [''dests'', ''nr_dests''])) (\<lambda>present.
              if present then
                steps [ensure_count E (sub h [''dests'', ''nr_dests''])
                         (length (s_destinations config)),
                       stage_changed
                         (\<lambda>i. Destination_stage_configuration E (Scheme_destination h i))
                         (s_destinations config)
                         (comparable (map_option s_destinations observed)
                            (s_destinations config))]
              else if s_destinations config \<noteq> [] then
                sfail (UnsupportedFeature ''DAMOS migration destinations'')
              else sret ())),
         stage_if (needs_stage (map_option s_snapshot_limit observed) (s_snapshot_limit config))
           (stage_optional_default E (sub h [''stats'', ''max_nr_snapshots''])
              (s_snapshot_limit config) 0 ''DAMOS application snapshot limit''
              (Scheme_set_application_snapshot_limit E h (s_snapshot_limit config)))])"

section \<open>Contexts\<close>

definition Context_operation_attributes :: "path \<Rightarrow> path" where
  "Context_operation_attributes h = sub h [''operations_attrs'']"

definition Context_sample_control :: "path \<Rightarrow> path" where
  "Context_sample_control h = sub h [''monitoring_attrs'', ''sample'']"

definition Context_goal_path :: "path \<Rightarrow> path" where
  "Context_goal_path h = sub h [''monitoring_attrs'', ''intervals'', ''intervals_goal'']"

definition Context_intervals_goal :: "'k sysfs \<Rightarrow> path \<Rightarrow> ('k, intervals_goal) comp" where
  "Context_intervals_goal E h =
     (let p = Context_goal_path h in
      sbind (read_u64 E (sub p [''access_bp''])) (\<lambda>access.
      sbind (read_u64 E (sub p [''aggrs''])) (\<lambda>aggrs.
      sbind (read_u64 E (sub p [''min_sample_us''])) (\<lambda>mn.
      sbind (read_u64 E (sub p [''max_sample_us''])) (\<lambda>mx.
        sret \<lparr>goal_access_bp = access, goal_aggregations = aggrs,
              goal_min_sample = from_micros mn, goal_max_sample = from_micros mx\<rparr>)))))"

definition Context_write_intervals_goal ::
    "'k sysfs \<Rightarrow> path \<Rightarrow> intervals_goal \<Rightarrow> ('k, unit) comp" where
  "Context_write_intervals_goal E h goal =
     sbind (slift (IntervalsGoal_values goal)) (\<lambda>(access, aggregations, minimum, maximum).
       let p = Context_goal_path h in
       steps [write_value E (sub p [''access_bp'']) access,
              write_value E (sub p [''aggrs'']) aggregations,
              write_value E (sub p [''min_sample_us'']) minimum,
              write_value E (sub p [''max_sample_us'']) maximum])"

definition Context_set_intervals_goal ::
    "'k sysfs \<Rightarrow> path \<Rightarrow> intervals_goal \<Rightarrow> ('k, unit) comp" where
  "Context_set_intervals_goal E h goal =
     sbind (Context_intervals E h) (\<lambda>intervals.
     sbind (slift (IntervalsGoal_validate_for goal intervals)) (\<lambda>_.
       Context_write_intervals_goal E h goal))"

definition Context_configuration :: "'k sysfs \<Rightarrow> path \<Rightarrow> ('k, context_config) comp" where
  "Context_configuration E h =
     sbind (Context_target_count E h) (\<lambda>nt.
     sbind (read_indexed nt (\<lambda>i. Target_configuration E (Context_target h i))) (\<lambda>targets.
     sbind (Context_scheme_count E h) (\<lambda>ns.
     sbind (read_indexed ns (\<lambda>i. Scheme_configuration E (Context_scheme h i))) (\<lambda>schemes.
     sbind (path_exists E (sub h [''monitoring_attrs'', ''probes'', ''nr_probes''])) (\<lambda>has_probes.
     sbind (if has_probes then
              sbind (Context_probe_count E h) (\<lambda>np.
                read_indexed np (\<lambda>i. Probe_configuration E (Context_probe h i)))
            else sret []) (\<lambda>probes.
     sbind (Context_operation E h) (\<lambda>op.
     sbind (optional_read E (sub h [''addr_unit'']) (Context_address_unit E h)) (\<lambda>unit.
     sbind (optional_read E (sub h [''pause'']) (Context_is_paused E h)) (\<lambda>paused.
     sbind (path_exists E (sub h [''operations_attrs''])) (\<lambda>has_attributes.
     sbind (if has_attributes then
              OperationAttributes_configuration E (Context_operation_attributes h)
            else sret OperationAttributes_default) (\<lambda>attributes.
     sbind (Context_intervals E h) (\<lambda>intervals.
     sbind (optional_read E (sub (Context_goal_path h) [''access_bp''])
              (Context_intervals_goal E h)) (\<lambda>goal.
     sbind (Context_region_bounds E h) (\<lambda>bounds.
     sbind (path_exists E (sub h [''monitoring_attrs'', ''sample''])) (\<lambda>has_sample.
     sbind (if has_sample then SampleControl_configuration E (Context_sample_control h)
            else sret SampleControl_default) (\<lambda>control.
       sret \<lparr>c_operation = op,
             c_unit = (case unit of None \<Rightarrow> AddressUnit_ONE | Some u \<Rightarrow> u),
             c_paused = (case paused of None \<Rightarrow> False | Some b \<Rightarrow> b),
             c_attributes = attributes, c_intervals = intervals,
             c_intervals_goal = (case goal of None \<Rightarrow> IntervalsGoal_default | Some g \<Rightarrow> g),
             c_bounds = bounds, c_probes = probes, c_sample_control = control,
             c_targets = targets, c_schemes = schemes\<rparr>))))))))))))))))"

definition Context_stage_scalar_configuration_from ::
    "'k sysfs \<Rightarrow> path \<Rightarrow> context_config \<Rightarrow> context_config option \<Rightarrow> ('k, unit) comp" where
  "Context_stage_scalar_configuration_from E h config observed =
     steps
       [stage_if (needs_stage (map_option c_operation observed) (c_operation config))
          (Context_set_operation E h (c_operation config)),
        stage_if (needs_stage (map_option c_unit observed) (c_unit config))
          (stage_optional_default E (sub h [''addr_unit'']) (c_unit config) AddressUnit_ONE
             ''DAMON address units'' (Context_set_address_unit E h (c_unit config))),
        stage_if (needs_stage (map_option c_paused observed) (c_paused config))
          (stage_optional_default E (sub h [''pause'']) (c_paused config) False
             ''DAMON context pause'' (Context_set_paused E h (c_paused config))),
        stage_if (needs_stage (map_option c_attributes observed) (c_attributes config))
          (stage_optional_default E (sub h [''operations_attrs'']) (c_attributes config)
             OperationAttributes_default ''DAMON operation attributes''
             (OperationAttributes_stage_configuration E (Context_operation_attributes h)
                (c_attributes config))),
        stage_if (needs_stage (map_option c_intervals observed) (c_intervals config))
          (Context_set_intervals E h (c_intervals config)),
        stage_if (needs_stage (map_option c_intervals_goal observed) (c_intervals_goal config))
          (stage_optional_default E (sub (Context_goal_path h) [''access_bp''])
             (c_intervals_goal config) IntervalsGoal_default ''DAMON monitoring intervals goal''
             (Context_write_intervals_goal E h (c_intervals_goal config))),
        stage_if (needs_stage (map_option c_bounds observed) (c_bounds config))
          (Context_set_region_bounds E h (c_bounds config))]"

definition Context_stage_child_configuration_from ::
    "'k sysfs \<Rightarrow> path \<Rightarrow> context_config \<Rightarrow> context_config option \<Rightarrow> ('k, unit) comp" where
  "Context_stage_child_configuration_from E h config observed =
     steps
       [sbind (path_exists E (sub h [''monitoring_attrs'', ''probes'', ''nr_probes''])) (\<lambda>present.
          if present then
            steps [ensure_count E (sub h [''monitoring_attrs'', ''probes'', ''nr_probes''])
                     (length (c_probes config)),
                   stage_children
                     (\<lambda>i. Probe_stage_configuration_from E (Context_probe h i))
                     (c_probes config)
                     (comparable (map_option c_probes observed) (c_probes config))]
          else if c_probes config \<noteq> [] then
            sfail (UnsupportedFeature ''DAMON monitoring probes'')
          else sret ()),
        stage_if (needs_stage (map_option c_sample_control observed) (c_sample_control config))
          (stage_optional_default E (sub h [''monitoring_attrs'', ''sample''])
             (c_sample_control config) SampleControl_default ''DAMON sample controls''
             (SampleControl_stage_configuration E (Context_sample_control h)
                (c_sample_control config))),
        ensure_count E (sub h [''targets'', ''nr_targets'']) (length (c_targets config)),
        stage_children (\<lambda>i. Target_stage_configuration_from E (Context_target h i))
          (c_targets config) (comparable (map_option c_targets observed) (c_targets config)),
        ensure_count E (sub h [''schemes'', ''nr_schemes'']) (length (c_schemes config)),
        stage_children (\<lambda>i. Scheme_stage_configuration_from E (Context_scheme h i))
          (c_schemes config) (comparable (map_option c_schemes observed) (c_schemes config))]"

definition Context_stage_validated_configuration_from ::
    "'k sysfs \<Rightarrow> path \<Rightarrow> context_config \<Rightarrow> context_config option \<Rightarrow> ('k, unit) comp" where
  "Context_stage_validated_configuration_from E h config observed =
     (if observed = Some config then sret ()
      else steps [Context_stage_scalar_configuration_from E h config observed,
                  Context_stage_child_configuration_from E h config observed])"

definition Context_stage_configuration ::
    "u64 \<Rightarrow> 'k sysfs \<Rightarrow> path \<Rightarrow> context_config \<Rightarrow> ('k, unit) comp" where
  "Context_stage_configuration page_size E h config =
     sbind (slift (ContextConfig_validate page_size config)) (\<lambda>_.
       Context_stage_validated_configuration_from E h config None)"

section \<open>Kdamonds and the hierarchy\<close>

definition Kdamond_configuration :: "'k sysfs \<Rightarrow> path \<Rightarrow> ('k, kdamond_config) comp" where
  "Kdamond_configuration E h =
     sbind (optional_read E (sub h [''refresh_ms'']) (Kdamond_refresh_interval E h)) (\<lambda>refresh.
     sbind (Kdamond_context_count E h) (\<lambda>n.
     sbind (read_indexed n (\<lambda>i. Context_configuration E (Kdamond_context h i))) (\<lambda>contexts.
       sret \<lparr>k_refresh = (case refresh of None \<Rightarrow> 0 | Some d \<Rightarrow> d), k_contexts = contexts\<rparr>)))"

definition Kdamond_stage_validated_configuration_from ::
    "'k sysfs \<Rightarrow> path \<Rightarrow> kdamond_config \<Rightarrow> kdamond_config option \<Rightarrow> ('k, unit) comp" where
  "Kdamond_stage_validated_configuration_from E h config observed =
     (if observed = Some config then sret ()
      else steps
        [stage_if (needs_stage (map_option k_refresh observed) (k_refresh config))
           (stage_optional_default E (sub h [''refresh_ms'']) (k_refresh config) 0
              ''periodic DAMON sysfs refresh''
              (Kdamond_set_refresh_interval E h (k_refresh config))),
         ensure_count E (sub h [''contexts'', ''nr_contexts'']) (length (k_contexts config)),
         stage_children (\<lambda>i. Context_stage_validated_configuration_from E (Kdamond_context h i))
           (k_contexts config)
           (comparable (map_option k_contexts observed) (k_contexts config))])"

definition Kdamond_stage_configuration ::
    "u64 \<Rightarrow> 'k sysfs \<Rightarrow> path \<Rightarrow> kdamond_config \<Rightarrow> ('k, unit) comp" where
  "Kdamond_stage_configuration page_size E h config =
     sbind (slift (KdamondConfig_validate page_size config)) (\<lambda>_.
       Kdamond_stage_validated_configuration_from E h config None)"

definition Admin_configuration :: "'k sysfs \<Rightarrow> path \<Rightarrow> ('k, damon_config) comp" where
  "Admin_configuration E h =
     sbind (Admin_kdamond_count E h) (\<lambda>n.
     sbind (read_indexed n (\<lambda>i. Kdamond_configuration E (Admin_kdamond h i))) (\<lambda>kdamonds.
       sret \<lparr>d_kdamonds = kdamonds\<rparr>))"

definition Admin_stage_validated_configuration_from ::
    "'k sysfs \<Rightarrow> path \<Rightarrow> damon_config \<Rightarrow> damon_config option \<Rightarrow> ('k, unit) comp" where
  "Admin_stage_validated_configuration_from E h config observed =
     (if observed = Some config then sret ()
      else steps
        [ensure_count E (sub h [''kdamonds'', ''nr_kdamonds'']) (length (d_kdamonds config)),
         stage_children (\<lambda>i. Kdamond_stage_validated_configuration_from E (Admin_kdamond h i))
           (d_kdamonds config)
           (comparable (map_option d_kdamonds observed) (d_kdamonds config))])"

definition Admin_stage_configuration ::
    "u64 \<Rightarrow> 'k sysfs \<Rightarrow> path \<Rightarrow> damon_config \<Rightarrow> ('k, unit) comp" where
  "Admin_stage_configuration page_size E h config =
     sbind (slift (DamonConfig_validate page_size config)) (\<lambda>_.
       Admin_stage_validated_configuration_from E h config None)"

definition Admin_observed_configuration ::
    "'k sysfs \<Rightarrow> path \<Rightarrow> ('k, observed_configuration) comp" where
  "Admin_observed_configuration E h =
     sbind (Admin_configuration_snapshot E h) (\<lambda>snap.
     sbind (Admin_configuration E h) (\<lambda>configuration.
     sbind (snapshot_matches_complete_current_except E snap []) (\<lambda>same.
       if \<not> same then
         sfail (OwnershipLost ''the DAMON hierarchy changed while it was being observed'')
       else sret (into_observed snap configuration))))"

section \<open>Filters: the directories staged are the directories read\<close>

lemma distribute_filters_eq:
  "distribute_filters fs (core, ops, unified) =
     (core @ filter (\<lambda>f. f_placement (resolve_placement True f) = Core) fs,
      ops @ filter (\<lambda>f. f_placement (resolve_placement True f) = Operations) fs,
      unified @ filter (\<lambda>f. f_placement (resolve_placement True f) = Unified) fs)"
proof (induction fs arbitrary: core ops unified)
  case (Cons f fs)
  then show ?case
    by (cases "f_placement f") (simp_all add: resolve_placement_def)
qed simp

section \<open>Staging writes attributes only\<close>

lemma descends_staging [simp]:
  assumes "descends p q"
  shows
    "descends p (Target_initial_region q i)"
    "descends p (Probe_preparation q i)"
    "descends p (Scheme_destination q i)"
    "descends p (Scheme_filter q layer i)"
    "descends p (Scheme_quotas q)"
    "descends p (Scheme_watermarks q)"
    "descends p (Context_operation_attributes q)"
    "descends p (Context_sample_control q)"
    "descends p (Context_goal_path q)"
  using assms
  unfolding Target_initial_region_def Probe_preparation_def Scheme_destination_def
    Scheme_quotas_def Scheme_watermarks_def Context_operation_attributes_def
    Context_sample_control_def Context_goal_path_def Scheme_filter_def
  by simp_all

lemma staging_reads_emit [emits_rules]:
  "writes_only Q (Probe_weight (traced E) q)"
  "writes_only Q (Probe_preparation_count (traced E) q)"
  "writes_only Q (Scheme_target_node (traced E) q)"
  "writes_only Q (Scheme_destination_count (traced E) q)"
  "writes_only Q (Scheme_application_snapshot_limit (traced E) q)"
  unfolding Probe_weight_def Probe_preparation_count_def Scheme_target_node_def
    Scheme_destination_count_def Scheme_application_snapshot_limit_def
  by (auto intro!: emits_rules)

lemma staging_writes_emit [emits_rules]:
  assumes "descends p q"
  shows
  "writes_only (attribute_of p) (Probe_set_weight (traced E) q x0)"
  "writes_only (attribute_of p) (Probe_set_preparation_count (traced E) q x1)"
  "writes_only (attribute_of p) (Scheme_set_target_node (traced E) q x2)"
  "writes_only (attribute_of p) (Scheme_set_destination_count (traced E) q x3)"
  "writes_only (attribute_of p) (Scheme_set_application_snapshot_limit (traced E) q x4)"
  using assms
  unfolding Probe_set_weight_def Probe_set_preparation_count_def Scheme_set_target_node_def
    Scheme_set_destination_count_def Scheme_set_application_snapshot_limit_def
  by (auto intro!: emits_rules simp: Let_def)

lemma Scheme_filter_count_emits [emits_rules]: "writes_only Q (Scheme_filter_count (traced E) q layer)"
  unfolding Scheme_filter_count_def Let_def by (intro emits_rules)

lemma Target_configuration_emits [emits_rules]: "writes_only Q (Target_configuration (traced E) q)"
  unfolding Target_configuration_def Let_def by (intro emits_rules)

lemma Scheme_stats_emits [emits_rules]: "writes_only Q (Scheme_stats (traced E) q)"
  unfolding Scheme_stats_def Let_def by (intro emits_rules)

lemma Scheme_read_filter_layer_emits [emits_rules]: "writes_only Q (Scheme_read_filter_layer (traced E) q layer)"
  unfolding Scheme_read_filter_layer_def Let_def by (intro emits_rules)

lemma Scheme_read_destinations_emits [emits_rules]: "writes_only Q (Scheme_read_destinations (traced E) q)"
  unfolding Scheme_read_destinations_def Let_def by (intro emits_rules)

lemma Scheme_configuration_emits [emits_rules]: "writes_only Q (Scheme_configuration (traced E) q)"
  unfolding Scheme_configuration_def Let_def by (intro emits_rules)

lemma Context_intervals_goal_emits [emits_rules]: "writes_only Q (Context_intervals_goal (traced E) q)"
  unfolding Context_intervals_goal_def Let_def by (intro emits_rules)

lemma ProbeFilter_configuration_emits [emits_rules]:
  "writes_only Q (ProbeFilter_configuration (traced E) q)"
  unfolding ProbeFilter_configuration_def
  by (intro emits_rules) (simp split: probe_filter_type.split, intro emits_rules conjI impI allI)+

lemma Probe_configuration_emits [emits_rules]: "writes_only Q (Probe_configuration (traced E) q)"
  unfolding Probe_configuration_def Let_def
  by (intro emits_rules handle_reads_emit)

lemma Context_configuration_emits [emits_rules]: "writes_only Q (Context_configuration (traced E) q)"
  unfolding Context_configuration_def Let_def
  by (intro emits_rules handle_reads_emit)

lemma Kdamond_configuration_emits [emits_rules]: "writes_only Q (Kdamond_configuration (traced E) q)"
  unfolding Kdamond_configuration_def Let_def
  by (intro emits_rules handle_reads_emit)

lemma Admin_configuration_emits [emits_rules]: "writes_only Q (Admin_configuration (traced E) q)"
  unfolding Admin_configuration_def Let_def
  by (intro emits_rules handle_reads_emit)

lemma Admin_observed_configuration_emits [emits_rules]: "writes_only Q (Admin_observed_configuration (traced E) q)"
  unfolding Admin_observed_configuration_def Let_def
  by (intro emits_rules handle_reads_emit)

lemma Target_stage_configuration_from_emits [emits_rules]:
  "descends p q \<Longrightarrow> writes_only (attribute_of p) (Target_stage_configuration_from (traced E) q c ob)"
  unfolding Target_stage_configuration_from_def Let_def by (auto intro!: emits_rules split: prod.splits)

lemma ProbeFilter_stage_configuration_emits [emits_rules]:
  "descends p q \<Longrightarrow> writes_only (attribute_of p) (ProbeFilter_stage_configuration (traced E) q c)"
  unfolding ProbeFilter_stage_configuration_def Let_def by (auto intro!: emits_rules split: prod.splits)

lemma Probe_stage_configuration_from_emits [emits_rules]:
  "descends p q \<Longrightarrow> writes_only (attribute_of p) (Probe_stage_configuration_from (traced E) q c ob)"
  unfolding Probe_stage_configuration_from_def Let_def by (auto intro!: emits_rules split: prod.splits)

lemma Scheme_stage_filter_layer_emits [emits_rules]:
  "descends p q \<Longrightarrow> writes_only (attribute_of p) (Scheme_stage_filter_layer (traced E) q layer fs)"
  unfolding Scheme_stage_filter_layer_def Let_def by (auto intro!: emits_rules split: prod.splits)

lemma Scheme_stage_filter_layer_if_present_emits [emits_rules]:
  "descends p q \<Longrightarrow> writes_only (attribute_of p) (Scheme_stage_filter_layer_if_present (traced E) q layer fs b)"
  unfolding Scheme_stage_filter_layer_if_present_def Let_def by (auto intro!: emits_rules split: prod.splits)

lemma Scheme_stage_semantic_filters_emits [emits_rules]:
  "descends p q \<Longrightarrow> writes_only (attribute_of p) (Scheme_stage_semantic_filters (traced E) q fs)"
  unfolding Scheme_stage_semantic_filters_def Let_def by (auto intro!: emits_rules split: prod.splits)

lemma Scheme_stage_configuration_from_emits [emits_rules]:
  "descends p q \<Longrightarrow> writes_only (attribute_of p) (Scheme_stage_configuration_from (traced E) q c ob)"
  unfolding Scheme_stage_configuration_from_def Let_def by (auto intro!: emits_rules split: prod.splits)

lemma Context_write_intervals_goal_emits [emits_rules]:
  "descends p q \<Longrightarrow> writes_only (attribute_of p) (Context_write_intervals_goal (traced E) q g)"
  unfolding Context_write_intervals_goal_def Let_def by (auto intro!: emits_rules split: prod.splits)

lemma Context_set_intervals_goal_emits [emits_rules]:
  "descends p q \<Longrightarrow> writes_only (attribute_of p) (Context_set_intervals_goal (traced E) q g)"
  unfolding Context_set_intervals_goal_def Let_def by (auto intro!: emits_rules split: prod.splits)

lemma Context_stage_scalar_configuration_from_emits [emits_rules]:
  "descends p q \<Longrightarrow> writes_only (attribute_of p) (Context_stage_scalar_configuration_from (traced E) q c ob)"
  unfolding Context_stage_scalar_configuration_from_def Let_def by (auto intro!: emits_rules split: prod.splits)

lemma Context_stage_child_configuration_from_emits [emits_rules]:
  "descends p q \<Longrightarrow> writes_only (attribute_of p) (Context_stage_child_configuration_from (traced E) q c ob)"
  unfolding Context_stage_child_configuration_from_def Let_def by (auto intro!: emits_rules split: prod.splits)

lemma Context_stage_validated_configuration_from_emits [emits_rules]:
  "descends p q \<Longrightarrow> writes_only (attribute_of p) (Context_stage_validated_configuration_from (traced E) q c ob)"
  unfolding Context_stage_validated_configuration_from_def Let_def by (auto intro!: emits_rules split: prod.splits)

lemma Context_stage_configuration_emits [emits_rules]:
  "descends p q \<Longrightarrow> writes_only (attribute_of p) (Context_stage_configuration ps (traced E) q c)"
  unfolding Context_stage_configuration_def Let_def by (auto intro!: emits_rules split: prod.splits)

lemma Kdamond_stage_validated_configuration_from_emits [emits_rules]:
  "descends p q \<Longrightarrow> writes_only (attribute_of p) (Kdamond_stage_validated_configuration_from (traced E) q c ob)"
  unfolding Kdamond_stage_validated_configuration_from_def Let_def by (auto intro!: emits_rules split: prod.splits)

lemma Kdamond_stage_configuration_emits [emits_rules]:
  "descends p q \<Longrightarrow> writes_only (attribute_of p) (Kdamond_stage_configuration ps (traced E) q c)"
  unfolding Kdamond_stage_configuration_def Let_def by (auto intro!: emits_rules split: prod.splits)

lemma Admin_stage_validated_configuration_from_emits [emits_rules]:
  "descends p q \<Longrightarrow> writes_only (attribute_of p) (Admin_stage_validated_configuration_from (traced E) q c ob)"
  unfolding Admin_stage_validated_configuration_from_def Let_def by (auto intro!: emits_rules split: prod.splits)

lemma Admin_stage_configuration_emits [emits_rules]:
  "descends p q \<Longrightarrow> writes_only (attribute_of p) (Admin_stage_configuration ps (traced E) q c)"
  unfolding Admin_stage_configuration_def Let_def by (auto intro!: emits_rules split: prod.splits)

end
