(* ===== verification/Table_Kernel.thy ===== *)
theory Table_Kernel
  imports Sysfs_IO
begin

text \<open>
  A kernel for the witnesses: its state is the table of its files. A file that exists can be
  read and written; every directory lists as empty. The lemmas evaluate the input-output functions
  of \<^verbatim>\<open>src/src/sysfs/io.rs\<close> on it.
\<close>

definition table_missing :: io_error where
  "table_missing = KindError NotFound ''no such file''"

definition single_piece :: "string \<Rightarrow> handle" where
  "single_piece s = \<lparr>h_pieces = (if s = [] then [] else [s]), h_failure = None\<rparr>"

definition table_kernel :: "(path \<times> string) list sysfs" where
  "table_kernel =
     \<lparr>sys_exists = (\<lambda>p k. (Inr (map_of k p \<noteq> None), k)),
      sys_metadata = (\<lambda>p k. (case map_of k p of
          None \<Rightarrow> Inl table_missing
        | Some _ \<Rightarrow> Inr \<lparr>meta_is_dir = False, meta_readonly = False\<rparr>, k)),
      sys_read_dir = (\<lambda>p k. (Inr [], k)),
      sys_open_read = (\<lambda>p k. (case map_of k p of
          None \<Rightarrow> Inl table_missing | Some s \<Rightarrow> Inr (single_piece s), k)),
      sys_open_write = (\<lambda>p k. (if map_of k p = None then Inl table_missing else Inr (), k)),
      sys_write = (\<lambda>p v k. (Inr (length v), (p, v) # k)),
      sys_sleep = (\<lambda>_ k. k), sys_fuel = 4\<rparr>"

abbreviation file_in :: "path \<Rightarrow> string \<Rightarrow> (path \<times> string) list world" where
  "file_in p s \<equiv> \<lparr>w_kernel = [(p, s)], w_journal = None\<rparr>"

lemma single_piece_content [simp]: "holds_content (single_piece s) s"
  by (simp add: holds_content_def single_piece_def)

lemma table_opens [simp]:
  "map_of k p = Some s \<Longrightarrow> sys_open_read table_kernel p k = (Inr (single_piece s), k)"
  by (simp add: table_kernel_def)

lemma table_exists [simp]: "path_exists table_kernel p w = (Inr (map_of (w_kernel w) p \<noteq> None), w)"
  by (simp add: path_exists_def call_def syscall_def sbind_def sret_def table_kernel_def)

lemma table_read_u64 [simp]:
  "map_of (w_kernel w) p = Some (dec_word v @ newline) \<Longrightarrow> read_u64 table_kernel p w = (Inr v, w)"
  using read_u64_dec_word [OF table_opens [of "w_kernel w" p], of "dec_word v @ newline" v]
    single_piece_content [of "dec_word v @ newline"] by simp

lemma table_compare [simp]:
  "map_of (w_kernel w) p = Some s \<Longrightarrow>
     read_configuration_value_equals table_kernel p expected w
       = (Inr (s = expected \<or> s = expected @ newline), w)"
  by (subst read_configuration_value_equals_content [OF table_opens single_piece_content]) simp_all

lemma table_read_text [simp]:
  "map_of (w_kernel w) p = Some s \<Longrightarrow> utf8_valid s \<Longrightarrow> read_text table_kernel p w = (Inr s, w)"
  by (subst read_text_content [OF table_opens single_piece_content]) simp_all

lemma table_write [simp]:
  "map_of (w_kernel w) p = Some old \<Longrightarrow> w_journal w = None \<Longrightarrow>
     write_bytes table_kernel p v w = (Inr (), w\<lparr>w_kernel := (p, v) # w_kernel w\<rparr>)"
  by (simp add: write_bytes_def call_def syscall_def sbind_def sret_def table_kernel_def
      record_write_def eval_nat_numeral)

end
