(* ===== verification/Properties_Sysfs.thy ===== *)
theory Properties_Sysfs
  imports Staging Samples Table_Kernel
begin

text \<open>
  The properties of the sysfs layer: reading attributes, comparing and restoring snapshots, and
  what the staging of a configuration writes. Where a property needs a file system with known
  content, its witness uses \<open>table_kernel\<close>, a kernel whose state is the table of its files.
\<close>

section \<open>Reading\<close>

text \<open>
  Comparing an attribute with a value depends only on the attribute's content, not on how
  the kernel cuts it into chunks: for a file that opens and reads to its end, the answer is
  whether the content is the value or the value followed by one newline.
\<close>

lemma comparison_ignores_chunks:
  assumes "sys_open_read E p (w_kernel w) = (Inr h, k)" and "holds_content h s"
  shows "read_configuration_value_equals E p expected w
    = (Inr (s = expected \<or> s = expected @ newline), w\<lparr>w_kernel := k\<rparr>)"
  by (rule read_configuration_value_equals_content [OF assms])

lemma comparison_ignores_chunks_witness:
  "fst (read_configuration_value_equals table_kernel [RootDir] ''off'' (file_in [RootDir] (''off'' @ newline)))
     = Inr True
   \<and> fst (read_configuration_value_equals table_kernel [RootDir] ''of'' (file_in [RootDir] (''off'' @ newline)))
     = Inr False"
  by (simp add: comparison_ignores_chunks [OF _ single_piece_content])

text \<open>
  A 64-bit value written as the crate writes it is read back as itself, whether or not the
  kernel appends a newline when it shows the attribute.
\<close>

lemma decimal_attribute_roundtrip:
  assumes "sys_open_read E p (w_kernel w) = (Inr h, k)"
    and "holds_content h (dec_word v) \<or> holds_content h (dec_word v @ newline)"
  shows "read_u64 E p w = (Inr v, w\<lparr>w_kernel := k\<rparr>)"
  by (rule read_u64_dec_word [OF assms])

lemma decimal_attribute_roundtrip_witness:
  "fst (read_u64 table_kernel [RootDir] (file_in [RootDir] (dec_word (42 :: u64) @ newline))) = Inr 42"
proof -
  have "sys_open_read table_kernel [RootDir] (w_kernel (file_in [RootDir] (dec_word (42 :: u64) @ newline)))
      = (Inr (single_piece (dec_word (42 :: u64) @ newline)), [([RootDir], dec_word (42 :: u64) @ newline)])" by simp
  from decimal_attribute_roundtrip [OF this, of 42] show ?thesis by simp
qed

text \<open>
  A numeric attribute of 64 bytes or more is rejected whatever it holds, also one of
  exactly 64 bytes that fits the buffer; a shorter one is judged by its trimmed text alone.
\<close>

lemma numeric_attribute_length_limit:
  assumes "sys_open_read E p (w_kernel w) = (Inr h, k)" and "holds_content h s"
    and "utf8_valid s"
  shows "fst (read_u64 E p w) =
    (if length s < 64 then ok_or (InvalidKernelValue p (trim s) ''u64'') (parse_u64 (trim s))
     else Inl (InvalidKernelValue p ''<value too long>'' ''u64''))"
  by (simp add: read_u64_content [OF assms(1,2)] assms(3))

lemma numeric_attribute_length_limit_witness:
  "fst (read_u64 table_kernel [RootDir] (file_in [RootDir] (replicate 64 (CHR ''0''))))
     = Inl (InvalidKernelValue [RootDir] ''<value too long>'' ''u64'')"
proof -
  let ?s = "replicate 64 (CHR ''0'')"
  have utf8: "utf8_valid ?s" by (rule utf8_ascii) (simp add: byte_val_def)
  have open_s: "sys_open_read table_kernel [RootDir] (w_kernel (file_in [RootDir] ?s))
      = (Inr (single_piece ?s), [([RootDir], ?s)])" by simp
  have "\<not> length ?s < 64" by simp
  with numeric_attribute_length_limit [OF open_s single_piece_content utf8] show ?thesis
    by (simp only: if_False)
qed

text \<open>
  A snapshot of tried regions is internally consistent: every region is valid, and the
  materialized total is the exact sum of the region lengths, never a wrapped one, so the
  snapshot's completeness compares the kernel's own total with what was actually read.
\<close>

lemma read_regions_total:
  "read_regions E base is c rs w = (Inr (rs', c'), w') \<Longrightarrow>
     \<exists>new. rs' = rs @ new \<and> (\<forall>r\<in>set new. valid_raw_region r)
       \<and> unat c' = unat c + sum_list (map (\<lambda>r. unat (raw_len_units r)) new)"
proof (induction "is" arbitrary: c rs w)
  case Nil
  then show ?case by (auto simp: sret_def)
next
  case (Cons i rest)
  then obtain r w1 d where r: "read_region E (child base i) w = (Inr r, w1)"
    and d: "checked_add c (raw_len_units r) = Some d"
    and rest: "read_regions E base rest d (rs @ [r]) w1 = (Inr (rs', c'), w')"
    by (auto simp: sbind_Inr_iff sfail_def split: option.splits)
  from Cons.IH [OF rest] obtain new where new: "rs' = (rs @ [r]) @ new"
    "\<forall>r\<in>set new. valid_raw_region r"
    "unat c' = unat d + sum_list (map (\<lambda>r. unat (raw_len_units r)) new)" by blast
  have "valid_raw_region r" using r
    by (auto simp: read_region_def sbind_Inr_iff slift_def dest: RawRegion_from_kernel_valid)
  moreover have "unat d = unat c + unat (raw_len_units r)"
    using d by (simp add: checked_add_Some_iff)
  ultimately show ?case using new by (intro exI [of _ "r # new"]) simp
qed

lemma tried_regions_total_exact:
  assumes "Scheme_tried_regions E h w = (Inr snap, w')"
  shows "(\<forall>r\<in>set (snap_regions snap). valid_raw_region r)
    \<and> unat (snap_materialized_total snap)
        = sum_list (map (\<lambda>r. unat (region_end r) - unat (region_start r)) (snap_regions snap))
    \<and> (completeness snap = Complete \<longleftrightarrow>
         snap_reported_total snap = Some (snap_materialized_total snap))"
proof -
  obtain rs c reported w1 "is" w2 where
    "read_regions E (sub h [''tried_regions'']) is 0 [] w1 = (Inr (rs, c), w2)"
    and snap: "snap = RawSnapshot_from_kernel rs reported c"
    using assms by (auto simp: Scheme_tried_regions_def Let_def sbind_Inr_iff sret_def)
  from read_regions_total [OF this(1)] have valid: "\<forall>r\<in>set rs. valid_raw_region r"
    and sum: "unat c = sum_list (map (\<lambda>r. unat (raw_len_units r)) rs)" by auto
  have "map (\<lambda>r. unat (raw_len_units r)) rs
      = map (\<lambda>r. unat (region_end r) - unat (region_start r)) rs"
    using valid by (simp add: unat_raw_len_units)
  with valid sum show ?thesis unfolding snap
    by (auto simp: RawSnapshot_from_kernel_def completeness_def split: option.splits)
qed

lemma tried_regions_total_exact_witness:
  "\<exists>snap w'. Scheme_tried_regions table_kernel [] \<lparr>w_kernel = [], w_journal = None\<rparr> = (Inr snap, w')
     \<and> unat (snap_materialized_total snap) = 0"
proof -
  obtain snap w' where s: "Scheme_tried_regions table_kernel [] \<lparr>w_kernel = [], w_journal = None\<rparr>
      = (Inr snap, w')" "snap_regions snap = []"
    by (auto simp: Scheme_tried_regions_def Let_def optional_read_def path_exists_def call_def
        syscall_def sbind_def table_kernel_def numeric_directory_indices_def table_missing_def
        sret_def slift_def RawSnapshot_from_kernel_def io_error_kind.simps)
  from tried_regions_total_exact [OF s(1)] s show ?thesis by auto
qed

section \<open>Snapshots\<close>

text \<open>
  Checking only the entries below one root reads exactly the entries below it that are not
  ignored, in order: starting at the partition point and stopping at the first entry outside
  the root misses nothing, because the entries are sorted.
\<close>

lemma scan_below_root_complete:
  assumes "sorted_entries es" and "sorted ignored"
  shows "matches_current_under_except E es root ignored =
    check_entries E (\<lambda>_. False)
      (filter (\<lambda>e. starts_with (ce_path e) root \<and> ce_path e \<notin> set ignored) es)"
proof -
  have "takeWhile (\<lambda>e. starts_with (ce_path e) root)
      (drop (partition_point (\<lambda>e. ce_path e < root) es) es)
    = filter (\<lambda>e. starts_with (ce_path e) root) es"
    using assms(1) by (intro block_of_root) (simp add: sorted_entries_def)
  then show ?thesis
    using is_member_sorted [OF assms(2)]
    unfolding matches_current_under_except_def Let_def
    by (subst check_entries_filter) (simp add: conj_commute)
qed

lemma scan_below_root_complete_witness:
  "matches_current_under_except table_kernel [\<lparr>ce_path = [Normal ''a''], ce_value = ''1''\<rparr>,
       \<lparr>ce_path = [Normal ''b'', Normal ''c''], ce_value = ''2''\<rparr>] [Normal ''b''] []
     = check_entries table_kernel (\<lambda>_. False) [\<lparr>ce_path = [Normal ''b'', Normal ''c''], ce_value = ''2''\<rparr>]"
  by (subst scan_below_root_complete)
    (simp_all add: sorted_entries_def starts_with_def less_component_def less_eq_component_def)

text \<open>
  A valid snapshot survives the journey through its relative writable values, which is how
  a receipt stores it: parsing them below the same root gives the snapshot back.
\<close>

lemma writable_values_roundtrip:
  assumes "valid_snapshot s"
  shows "from_writable_values (cs_root s) (writable_values s) = Inr s"
  by (rule from_writable_values_roundtrip [OF assms])

lemma writable_values_roundtrip_witness:
  "from_writable_values [RootDir] (writable_values \<lparr>cs_root = [RootDir],
       cs_entries = [\<lparr>ce_path = [RootDir, Normal ''a''], ce_value = ''1''\<rparr>]\<rparr>)
     = Inr \<lparr>cs_root = [RootDir],
            cs_entries = [\<lparr>ce_path = [RootDir, Normal ''a''], ce_value = ''1''\<rparr>]\<rparr>"
proof -
  let ?s = "\<lparr>cs_root = [RootDir],
      cs_entries = [\<lparr>ce_path = [RootDir, Normal ''a''], ce_value = ''1''\<rparr>]\<rparr>"
  have "valid_snapshot ?s"
    by (auto simp: valid_snapshot_def sorted_entries_def below_root_def intro: exI [of _ "[''a'']"])
  from writable_values_roundtrip [OF this] show ?thesis by simp
qed

text \<open>
  Values from an untrusted receipt are accepted only as a valid snapshot of the requested
  root: every path is below it with ordinary names only, so no value can address a file
  elsewhere, no path occurs twice, and the accepted snapshot holds exactly the given values.
\<close>

lemma receipt_values_confined:
  assumes "from_writable_values root vs = Inr s"
  shows "cs_root s = root \<and> sorted_entries (cs_entries s)
    \<and> (\<forall>e\<in>set (cs_entries s). below_root root e)
    \<and> mset (cs_entries s)
        = mset (map (\<lambda>v. \<lparr>ce_path = root @ wv_path v, ce_value = wv_value v\<rparr>) vs)"
proof -
  from from_writable_values_valid [OF assms] have "valid_snapshot s" "cs_root s = root" by auto
  moreover have "cs_entries s = sort_key ce_path
      (map (\<lambda>v. \<lparr>ce_path = root @ wv_path v, ce_value = wv_value v\<rparr>) vs)"
    using assms
    by (auto simp: from_writable_values_def and_then_Inr_iff entries_of_values_Inr_iff Let_def
        split: if_splits)
  ultimately show ?thesis by (simp add: valid_snapshot_def)
qed

lemma receipt_values_confined_witness:
  "\<exists>s. from_writable_values [RootDir] [\<lparr>wv_path = [Normal ''a''], wv_value = ''1''\<rparr>] = Inr s
     \<and> sorted_entries (cs_entries s)"
proof -
  obtain s where "from_writable_values [RootDir] [\<lparr>wv_path = [Normal ''a''], wv_value = ''1''\<rparr>] = Inr s"
    by (simp add: from_writable_values_def is_absolute_def relative_component_def)
  with receipt_values_confined [OF this] show ?thesis by blast
qed

text \<open>
  Restoration writes the counts that rebuild directories before the attributes those
  rebuilds reset: in the order of restoration, a count comes before every plain attribute in
  its own directory or below it.
\<close>

lemma counts_restored_first:
  assumes "valid_snapshot s"
    and "i < length (cs_entries s)" and "j < length (cs_entries s)"
    and "restoration_order (cs_root s) (cs_entries s) ! i = c"
    and "restoration_order (cs_root s) (cs_entries s) ! j = e"
    and "is_reconstruction_count (relative_to (cs_root s) (ce_path c))"
    and "\<not> is_reconstruction_count (relative_to (cs_root s) (ce_path e))"
    and "parent (ce_path c) = Some dir" and "starts_with (ce_path e) dir" and "ce_path e \<noteq> dir"
  shows "i < j"
proof -
  let ?order = "restoration_order (cs_root s) (cs_entries s)"
  have len: "length ?order = length (cs_entries s)" by (simp add: restoration_order_def)
  have "c \<in> set (cs_entries s)" "e \<in> set (cs_entries s)"
    using assms(2-5) len nth_mem [of i ?order] nth_mem [of j ?order] by auto
  then have "below_root (cs_root s) c" "below_root (cs_root s) e"
    using assms(1) by (auto simp: valid_snapshot_def)
  from restoration_count_first [OF this assms(6-10)]
  show ?thesis
    using sorted_key_less_nth [OF restoration_order_sorted, of i "cs_root s" "cs_entries s" j]
      assms(2-5) len by simp
qed

lemma counts_restored_first_witness:
  "restoration_order [] [\<lparr>ce_path = [Normal ''a''], ce_value = ''1''\<rparr>,
       \<lparr>ce_path = [Normal ''nr_x''], ce_value = ''2''\<rparr>]
     = [\<lparr>ce_path = [Normal ''nr_x''], ce_value = ''2''\<rparr>, \<lparr>ce_path = [Normal ''a''], ce_value = ''1''\<rparr>]
   \<and> (0 :: nat) < 1"
proof -
  let ?c = "\<lparr>ce_path = [Normal ''nr_x''], ce_value = ''2''\<rparr>"
    and ?a = "\<lparr>ce_path = [Normal ''a''], ce_value = ''1''\<rparr>"
  let ?s = "\<lparr>cs_root = [], cs_entries = [?a, ?c]\<rparr>"
  have count: "is_reconstruction_count [Normal ''nr_x'']" "\<not> is_reconstruction_count [Normal ''a'']"
    by (simp_all add: is_reconstruction_count_def file_name_def utf8_valid_def byte_val_def)
  have order: "restoration_order [] [?a, ?c] = [?c, ?a]"
    by (simp add: restoration_order_def restoration_key_def relative_to_def strip_prefix_def
        starts_with_def count less_eq_prod_def less_prod_def)
  have "valid_snapshot ?s"
    by (auto simp: valid_snapshot_def sorted_entries_def below_root_def less_eq_component_def
        less_component_def
        intro: exI [of _ "[''nr_x'']"] exI [of _ "[''a'']"])
  from counts_restored_first [OF this, of 0 1 ?c ?a "[]"] order count show ?thesis
    by (simp add: relative_to_def strip_prefix_def starts_with_def parent_def)
qed

text \<open>
  Against every kernel, restoring a snapshot writes only files the snapshot captured, and
  none of the ignored ones: no write lands anywhere else, however the files answer.
\<close>

lemma restore_writes_captured_only:
  "writes_only (restorable (cs_entries s) ignored) (restore_except (traced E) s ignored)
   \<and> writes_only (restorable (filter (\<lambda>e. is_member paths (ce_path e)) (cs_entries s)) ignored)
       (restore_paths_except (traced E) s paths ignored)"
  by (intro conjI restore_except_emits restore_paths_except_emits)

text \<open>
  The paths affected by a list of writes are, sorted and without repetition, the written
  paths themselves and, for each write to a count, every captured file in the directory the
  count rebuilds or below it.
\<close>

lemma affected_paths_exact:
  "sorted (paths_affected_by_writes s ws) \<and> distinct (paths_affected_by_writes s ws)
   \<and> set (paths_affected_by_writes s ws) =
       set ws \<union> {ce_path e | e w dir. e \<in> set (cs_entries s) \<and> w \<in> set ws
          \<and> is_reconstruction_count (relative_to (cs_root s) w) \<and> parent w = Some dir
          \<and> starts_with (ce_path e) dir}"
  by (simp add: affected_set)

section \<open>Staging\<close>

text \<open>
  C29. Staging a configuration writes only attributes below the DAMON administration directory,
  and never a \<open>state\<close> file, the one that takes commands: whatever the kernel answers, staging
  starts, stops and commits nothing.
\<close>

theorem staging_never_commands:
  "writes_only (attribute_of admin)
     (Admin_stage_validated_configuration_from (traced E) admin config observed)
   \<and> writes_only (attribute_of admin) (Admin_stage_configuration ps (traced E) admin config)"
  by (intro conjI Admin_stage_validated_configuration_from_emits Admin_stage_configuration_emits)
    simp_all

text \<open>
  C38. Filters staged on a kernel with split directories are distributed so that reading the
  three directories back, each filter with the placement of its directory, gives the filters in
  exactly the canonical order the comparison with the kernel expects.
\<close>

theorem staged_filters_read_back:
  assumes "is_split observed" and "distribute_filters fs ([], [], []) = (core, ops, unified)"
  shows "map (\<lambda>f. f\<lparr>f_placement := from_layer LayerCore\<rparr>) core
     @ map (\<lambda>f. f\<lparr>f_placement := from_layer LayerOperations\<rparr>) ops
     @ map (\<lambda>f. f\<lparr>f_placement := from_layer LayerUnified\<rparr>) unified
   = canonicalize_filter_placements fs observed"
proof -
  have place: "map (\<lambda>f. f\<lparr>f_placement := p\<rparr>)
      (filter (\<lambda>f. f_placement (resolve_placement True f) = p) fs)
    = filter (\<lambda>f. f_placement f = p) (map (resolve_placement True) fs)" for p
    by (induction fs) (auto simp: resolve_placement_def)
  show ?thesis using assms(2)
    by (auto simp: distribute_filters_eq canonicalize_split [OF assms(1)] in_directory_order_def
        place)
qed

theorem staged_filters_read_back_witness:
  "canonicalize_filter_placements
      [FilterConfig_new SfYoung True True, FilterConfig_new SfTarget True True]
      [(FilterConfig_new SfAnonymous True True)\<lparr>f_placement := Core\<rparr>]
    = [(FilterConfig_new SfTarget True True)\<lparr>f_placement := Core\<rparr>,
       (FilterConfig_new SfYoung True True)\<lparr>f_placement := Operations\<rparr>]"
proof -
  let ?fs = "[FilterConfig_new SfYoung True True, FilterConfig_new SfTarget True True]"
    and ?ob = "[(FilterConfig_new SfAnonymous True True)\<lparr>f_placement := Core\<rparr>]"
  have "is_split ?ob" by (simp add: is_split_def)
  moreover have "distribute_filters ?fs ([], [], []) =
      ([FilterConfig_new SfTarget True True], [FilterConfig_new SfYoung True True], [])"
    by (simp add: FilterConfig_new_def)
  ultimately show ?thesis by (simp add: staged_filters_read_back [symmetric])
qed

end
