(* ===== verification/Ownership.thy ===== *)
theory Ownership
  imports Staging
begin

text \<open>
  \<^verbatim>\<open>src/src/monitor/ownership.rs\<close>: retries while the kernel is busy, the staging transaction
  and its verification, the restoration of a previous configuration, and the checks a controller
  makes that the hierarchy it staged is still its own.
\<close>

section \<open>Retrying while busy\<close>

definition MAX_RETRIES :: nat where
  "MAX_RETRIES = 5"

definition INITIAL_DELAY_MS :: u64 where
  "INITIAL_DELAY_MS = 10"

definition thread_sleep :: "'k sysfs \<Rightarrow> duration \<Rightarrow> ('k, unit) comp" where
  "thread_sleep E d w = (Inr (), w\<lparr>w_kernel := sys_sleep E d (w_kernel w)\<rparr>)"

function retry_from :: "'k sysfs \<Rightarrow> ('k, 'a) comp \<Rightarrow> nat \<Rightarrow> ('k, 'a) comp" where
  "retry_from E operation retries =
     stry operation (\<lambda>r.
       case r of
         Inl e \<Rightarrow>
           if is_resource_busy e \<and> retries < MAX_RETRIES then
             sbind (thread_sleep E (from_millis (push_bit retries INITIAL_DELAY_MS))) (\<lambda>_.
               retry_from E operation (Suc retries))
           else sfail e
       | Inr x \<Rightarrow> sret x)"
  by pat_completeness auto
termination
  by (relation "measure (\<lambda>(_, _, retries). MAX_RETRIES - retries)") auto

declare retry_from.simps [simp del]

definition retry_busy :: "'k sysfs \<Rightarrow> ('k, 'a) comp \<Rightarrow> ('k, 'a) comp" where
  "retry_busy E operation = retry_from E operation 0"

section \<open>The hierarchy is stopped\<close>

fun ensure_stopped_from :: "'k sysfs \<Rightarrow> path \<Rightarrow> nat list \<Rightarrow> ('k, unit) comp" where
  "ensure_stopped_from E admin [] = sret ()"
| "ensure_stopped_from E admin (index # rest) =
     sbind (Kdamond_state E (Admin_kdamond admin index)) (\<lambda>state.
       case state of
         StateOff \<Rightarrow> ensure_stopped_from E admin rest
       | StateOn \<Rightarrow> sfail (KdamondRunning index)
       | UnknownState s \<Rightarrow> sfail (UnexpectedKdamondState s))"

definition ensure_hierarchy_stopped :: "'k sysfs \<Rightarrow> path \<Rightarrow> ('k, unit) comp" where
  "ensure_hierarchy_stopped E admin =
     sbind (Admin_kdamond_count E admin) (\<lambda>n.
     sbind (ensure_stopped_from E admin [0..<n]) (\<lambda>_.
     sbind (Admin_kdamond_count E admin) (\<lambda>m.
       if m \<noteq> n then
         sfail (OwnershipLost ''the kdamond count changed while checking transaction safety'')
       else sret ())))"

section \<open>Staging and restoring\<close>

fun replaceable_configuration_read_error :: "error \<Rightarrow> bool" where
  "replaceable_configuration_read_error (InvalidConfiguration _ _) = True"
| "replaceable_configuration_read_error (InvalidKernelValue _ _ _) = True"
| "replaceable_configuration_read_error _ = False"

record staged_configuration =
  sc_previous :: config_snapshot
  sc_current :: config_snapshot

definition stage_and_verify_configuration ::
    "'k sysfs \<Rightarrow> path \<Rightarrow> damon_config \<Rightarrow> damon_config option \<Rightarrow> ('k, config_snapshot) comp" where
  "stage_and_verify_configuration E admin config observed =
     sbind (retry_busy E (sbind (ensure_hierarchy_stopped E admin) (\<lambda>_.
              Admin_stage_validated_configuration_from E admin config observed))) (\<lambda>_.
     sbind (retry_busy E (ensure_hierarchy_stopped E admin)) (\<lambda>_.
     sbind (retry_busy E (Admin_configuration_snapshot E admin)) (\<lambda>staged.
     sbind (retry_busy E (Admin_configuration E admin)) (\<lambda>now.
       case mismatch_error config now of
         Some e \<Rightarrow> sfail e
       | None \<Rightarrow>
           sbind (retry_busy E (values_match_current E staged)) (\<lambda>same.
             if \<not> same then
               sfail (OwnershipLost
                 ''the staged DAMON hierarchy changed during verification'')
             else sbind (retry_busy E (ensure_hierarchy_stopped E admin)) (\<lambda>_. sret staged))))))"

definition restore_configuration :: "'k sysfs \<Rightarrow> path \<Rightarrow> config_snapshot \<Rightarrow> ('k, unit) comp" where
  "restore_configuration E admin snap =
     sbind (retry_busy E (ensure_hierarchy_stopped E admin)) (\<lambda>_.
     sbind (retry_busy E (sbind (ensure_hierarchy_stopped E admin) (\<lambda>_. restore E snap))) (\<lambda>_.
     sbind (retry_busy E (ensure_hierarchy_stopped E admin)) (\<lambda>_.
     sbind (retry_busy E (snapshot_matches_current E snap)) (\<lambda>same.
       if \<not> same then
         sfail (OwnershipLost ''the restored DAMON hierarchy changed during verification'')
       else sret ()))))"

definition restore_after_capability_probe ::
    "'k sysfs \<Rightarrow> path \<Rightarrow> path \<Rightarrow> fingerprint \<Rightarrow> config_snapshot \<Rightarrow> ('k, unit) comp" where
  "restore_after_capability_probe E admin kdamond fp previous =
     sbind (Admin_kdamond_count E admin) (\<lambda>n.
     sbind (if n \<noteq> 1 then sret False else fingerprint_matches_current E fp) (\<lambda>same.
       if \<not> same then
         sfail (OwnershipLost ''the staged capability-probe configuration changed'')
       else
         sbind (retry_busy E (Kdamond_state E kdamond)) (\<lambda>state.
           case state of
             StateOff \<Rightarrow> restore_configuration E admin previous
           | StateOn \<Rightarrow>
               sfail (OwnershipLost ''the capability-probe kdamond was started externally'')
           | UnknownState _ \<Rightarrow>
               sfail (OwnershipLost ''the capability-probe kdamond state changed''))))"

section \<open>Ownership of what was staged\<close>

record staged_ownership =
  so_configuration :: config_snapshot
  so_volatile :: "path list"
  so_kdamond_count :: usize

definition tuned_paths :: "path \<Rightarrow> nat \<Rightarrow> nat \<Rightarrow> context_config \<Rightarrow> path list" where
  "tuned_paths admin k c config =
     (if goal_aggregations (c_intervals_goal config) = 0 then []
      else
        let intervals = sub (Kdamond_context (Admin_kdamond admin k) c)
                          [''monitoring_attrs'', ''intervals''] in
        [sub intervals [''sample_us''], sub intervals [''aggr_us'']])"

definition volatile_paths_of :: "path \<Rightarrow> damon_config \<Rightarrow> path list" where
  "volatile_paths_of admin config =
     concat (map (\<lambda>(k, kconfig).
         concat (map (\<lambda>(c, cconfig). tuned_paths admin k c cconfig)
           (enumerate 0 (k_contexts kconfig))))
       (enumerate 0 (d_kdamonds config)))"

definition StagedOwnership_new ::
    "config_snapshot \<Rightarrow> path \<Rightarrow> damon_config \<Rightarrow> staged_ownership" where
  "StagedOwnership_new configuration admin config =
     \<lparr>so_configuration = configuration, so_volatile = sort (volatile_paths_of admin config),
      so_kdamond_count = length (d_kdamonds config)\<rparr>"

definition StagedOwnership_from_parts ::
    "config_snapshot \<Rightarrow> path list \<Rightarrow> usize \<Rightarrow> staged_ownership" where
  "StagedOwnership_from_parts configuration volatile n =
     \<lparr>so_configuration = configuration, so_volatile = sort_dedup volatile, so_kdamond_count = n\<rparr>"

definition with_configuration :: "staged_ownership \<Rightarrow> config_snapshot \<Rightarrow> staged_ownership" where
  "with_configuration s configuration = s\<lparr>so_configuration := configuration\<rparr>"

definition verify_count :: "'k sysfs \<Rightarrow> staged_ownership \<Rightarrow> path \<Rightarrow> ('k, unit) comp" where
  "verify_count E s admin =
     sbind (Admin_kdamond_count E admin) (\<lambda>n.
       if n \<noteq> so_kdamond_count s then
         sfail (OwnershipLost ''the staged kdamond count changed'')
       else sret ())"

definition verify_staged :: "'k sysfs \<Rightarrow> staged_ownership \<Rightarrow> path \<Rightarrow> ('k, unit) comp" where
  "verify_staged E s admin =
     sbind (verify_count E s admin) (\<lambda>_.
     sbind (snapshot_matches_current_except E (so_configuration s) (so_volatile s)) (\<lambda>same.
       if \<not> same then sfail (OwnershipLost ''the staged writable configuration changed'')
       else sret ()))"

definition verify_complete :: "'k sysfs \<Rightarrow> staged_ownership \<Rightarrow> path \<Rightarrow> ('k, unit) comp" where
  "verify_complete E s admin =
     sbind (verify_count E s admin) (\<lambda>_.
     sbind (snapshot_matches_complete_current_except E (so_configuration s) (so_volatile s))
       (\<lambda>same.
         if \<not> same then
           sfail (OwnershipLost ''the complete staged writable hierarchy changed'')
         else sret ()))"

definition verify_kdamond_configuration ::
    "'k sysfs \<Rightarrow> staged_ownership \<Rightarrow> path \<Rightarrow> usize \<Rightarrow> ('k, unit) comp" where
  "verify_kdamond_configuration E s admin index =
     sbind (snapshot_matches_current_under_except E (so_configuration s)
              (Admin_kdamond admin index) (so_volatile s)) (\<lambda>same.
       if \<not> same then sfail (OwnershipLost ''the staged writable configuration changed'')
       else sret ())"

definition running_thread_pid :: "'k sysfs \<Rightarrow> path \<Rightarrow> ('k, pid) comp" where
  "running_thread_pid E kdamond =
     sbind (retry_busy E (Kdamond_state E kdamond)) (\<lambda>state.
       case state of
         StateOff \<Rightarrow> sfail NotRunning
       | UnknownState s \<Rightarrow> sfail (UnexpectedKdamondState s)
       | StateOn \<Rightarrow>
           sbind (retry_busy E (Kdamond_pid E kdamond)) (\<lambda>p.
             case p of
               Some v \<Rightarrow> sret v
             | None \<Rightarrow>
                 sfail (OwnershipLost ''a running kdamond did not expose a kernel-thread ID'')))"

definition with_rollback :: "error \<Rightarrow> 'a result \<Rightarrow> error" where
  "with_rollback operation rollback_result =
     (case rollback_result of
        Inr _ \<Rightarrow> operation
      | Inl rollback \<Rightarrow> Rollback operation rollback)"

lemma volatile_sorted [simp]:
  "sorted (so_volatile (StagedOwnership_new c a d))"
  "sorted (so_volatile (StagedOwnership_from_parts c v n))"
  by (simp_all add: StagedOwnership_new_def StagedOwnership_from_parts_def)

section \<open>What the retry loop does\<close>

text \<open>
  The attempts of one \<open>retry_busy\<close>: a run of busy answers, each followed by its delay, and the
  last answer, which is returned. At most six attempts are made.
\<close>

fun busy_run :: "'k sysfs \<Rightarrow> ('k, 'a) comp \<Rightarrow> nat \<Rightarrow> nat \<Rightarrow> 'k world \<Rightarrow> 'a result \<times> 'k world \<Rightarrow> bool"
  where
  "busy_run E operation retries 0 w out \<longleftrightarrow> operation w = out"
| "busy_run E operation retries (Suc n) w out \<longleftrightarrow>
     (\<exists>e w'. operation w = (Inl e, w') \<and> is_resource_busy e
        \<and> busy_run E operation (Suc retries) n
            (snd (thread_sleep E (10000000 * 2 ^ retries) w')) out)"

lemma delay_nanoseconds:
  assumes "retries < MAX_RETRIES"
  shows "from_millis (push_bit retries INITIAL_DELAY_MS) = 10000000 * 2 ^ retries"
proof -
  from assms have "retries \<in> {0, 1, 2, 3, 4}" by (auto simp: MAX_RETRIES_def)
  then show ?thesis by (auto simp: from_millis_def INITIAL_DELAY_MS_def push_bit_eq_mult)
qed

lemma retry_from_run:
  "retries \<le> MAX_RETRIES \<Longrightarrow>
     \<exists>n. n \<le> MAX_RETRIES - retries
       \<and> busy_run E operation retries n w (retry_from E operation retries w)
       \<and> (n < MAX_RETRIES - retries \<longrightarrow>
            (\<forall>e w'. retry_from E operation retries w = (Inl e, w') \<longrightarrow> \<not> is_resource_busy e))"
proof (induction E operation retries arbitrary: w rule: retry_from.induct)
  case (1 E operation retries)
  obtain r w1 where op: "operation w = (r, w1)" by (cases "operation w")
  show ?case
  proof (cases "\<exists>e. r = Inl e \<and> is_resource_busy e \<and> retries < MAX_RETRIES")
    case True
    then obtain e where e: "r = Inl e" "is_resource_busy e" "retries < MAX_RETRIES" by blast
    let ?d = "from_millis (push_bit retries INITIAL_DELAY_MS)"
    let ?w = "snd (thread_sleep E ?d w1)"
    have step: "retry_from E operation retries w = retry_from E operation (Suc retries) ?w"
      using op e by (subst retry_from.simps) (simp add: stry_def sbind_def thread_sleep_def)
    obtain n where n: "n \<le> MAX_RETRIES - Suc retries"
      "busy_run E operation (Suc retries) n ?w (retry_from E operation (Suc retries) ?w)"
      "n < MAX_RETRIES - Suc retries \<longrightarrow>
        (\<forall>e w'. retry_from E operation (Suc retries) ?w = (Inl e, w') \<longrightarrow> \<not> is_resource_busy e)"
      using "1.IH" [of e ?w] e by auto
    show ?thesis
      using n op e by (intro exI [of _ "Suc n"]) (auto simp: step delay_nanoseconds)
  next
    case False
    then have "retry_from E operation retries w = (r, w1)"
      using op by (subst retry_from.simps)
        (auto simp: stry_def sfail_def sret_def split: sum.splits)
    with False op show ?thesis by (intro exI [of _ 0]) auto
  qed
qed

lemma retry_busy_ok [simp]: "operation w = (Inr x, w') \<Longrightarrow> retry_busy E operation w = (Inr x, w')"
  by (simp add: retry_busy_def retry_from.simps [of E operation 0] stry_def sret_def)

section \<open>What is read and written\<close>

lemma thread_sleep_emits: "P (EvSleep d) \<Longrightarrow> emits P (thread_sleep (traced E) d)"
  by (auto simp: emits_def thread_sleep_def trace_def traced_def)

lemma retry_from_emits:
  assumes "emits P m" and "\<And>d. P (EvSleep d)"
  shows "emits P (retry_from (traced E) m n)"
  using assms
proof (induction "traced E" m n rule: retry_from.induct)
  case (1 operation retries)
  then show ?case
    by (subst retry_from.simps) (auto intro!: emits_rules thread_sleep_emits)
qed

lemma retry_busy_traced: "emits P m \<Longrightarrow> (\<And>d. P (EvSleep d)) \<Longrightarrow> emits P (retry_busy (traced E) m)"
  by (simp add: retry_busy_def retry_from_emits)

lemma retry_busy_emits [emits_rules]: "writes_only Q m \<Longrightarrow> writes_only Q (retry_busy (traced E) m)"
  by (simp add: retry_busy_traced)

lemma emits_state_cases [emits_rules]:
  "(s = StateOn \<Longrightarrow> emits P m1) \<Longrightarrow> (s = StateOff \<Longrightarrow> emits P m2) \<Longrightarrow>
   (\<And>u. s = UnknownState u \<Longrightarrow> emits P (m3 u)) \<Longrightarrow>
     emits P (case s of StateOn \<Rightarrow> m1 | StateOff \<Rightarrow> m2 | UnknownState u \<Rightarrow> m3 u)"
  by (cases s) simp_all

lemma ensure_stopped_from_emits: "writes_only Q (ensure_stopped_from (traced E) a ns)"
  by (induction ns) (auto intro!: emits_rules)

lemma ensure_hierarchy_stopped_emits [emits_rules]:
  "writes_only Q (ensure_hierarchy_stopped (traced E) a)"
  unfolding ensure_hierarchy_stopped_def by (intro emits_rules ensure_stopped_from_emits)

lemma ownership_checks_emit [emits_rules]:
  "writes_only Q (verify_count (traced E) s a)"
  "writes_only Q (verify_staged (traced E) s a)"
  "writes_only Q (verify_complete (traced E) s a)"
  "writes_only Q (verify_kdamond_configuration (traced E) s a i)"
  "writes_only Q (running_thread_pid (traced E) a)"
  unfolding verify_count_def verify_staged_def verify_complete_def
    verify_kdamond_configuration_def running_thread_pid_def
  by (intro emits_rules)+

lemma stage_and_verify_emits [emits_rules]:
  "descends p a \<Longrightarrow>
     writes_only (attribute_of p) (stage_and_verify_configuration (traced E) a c ob)"
  unfolding stage_and_verify_configuration_def by (intro emits_rules)

lemma restore_configuration_emits:
  "writes_only (restorable (cs_entries s) []) (restore_configuration (traced E) a s)"
  unfolding restore_configuration_def restore_def
  by (intro emits_rules restore_except_emits)

end
