(* ===== verification/Yields.thy ===== *)
theory Yields
  imports Ownership
begin

text \<open>
  What a computation can return. \<open>yields Q m\<close>: against every kernel and in every world, a
  successful run of \<open>m\<close> returns a value that satisfies \<open>Q\<close>. The rules follow the combinators.
  With them: what a captured snapshot looks like, whatever the kernel answers.
\<close>

section \<open>Rules\<close>

definition yields :: "('a \<Rightarrow> bool) \<Rightarrow> ('k, 'a) comp \<Rightarrow> bool" where
  "yields Q m \<longleftrightarrow> (\<forall>w x w'. m w = (Inr x, w') \<longrightarrow> Q x)"

named_theorems yields_rules \<open>what a computation can return\<close>

lemma yieldsD: "yields Q m \<Longrightarrow> m w = (Inr x, w') \<Longrightarrow> Q x"
  by (auto simp: yields_def)

lemma yields_mono: "yields Q m \<Longrightarrow> (\<And>x. Q x \<Longrightarrow> R x) \<Longrightarrow> yields R m"
  by (auto simp: yields_def)

lemma yields_True [simp]: "yields (\<lambda>_. True) m"
  by (simp add: yields_def)

lemma yields_sret [yields_rules]: "Q x \<Longrightarrow> yields Q (sret x)"
  by (simp add: yields_def sret_def)

lemma yields_sfail [yields_rules]: "yields Q (sfail e)" "yields Q (io_fail op p err)"
  by (simp_all add: yields_def sfail_def io_fail_def)

lemma yields_slift: "(\<And>x. r = Inr x \<Longrightarrow> Q x) \<Longrightarrow> yields Q (slift r)"
  by (simp add: yields_def slift_def)

lemma yields_sbind: "yields P m \<Longrightarrow> (\<And>x. P x \<Longrightarrow> yields Q (f x)) \<Longrightarrow> yields Q (sbind m f)"
  unfolding yields_def sbind_Inr_iff by blast

lemma yields_sbind_any [yields_rules]: "(\<And>x. yields Q (f x)) \<Longrightarrow> yields Q (sbind m f)"
  by (rule yields_sbind [of "\<lambda>_. True"]) simp_all

lemma yields_stry [yields_rules]: "(\<And>r. yields Q (f r)) \<Longrightarrow> yields Q (stry m f)"
  by (auto simp: yields_def stry_def split: prod.splits)

lemma yields_cases [yields_rules]:
  "(b \<Longrightarrow> yields Q m) \<Longrightarrow> (\<not> b \<Longrightarrow> yields Q n) \<Longrightarrow> yields Q (if b then m else n)"
  "(ox = None \<Longrightarrow> yields Q m) \<Longrightarrow> (\<And>y. ox = Some y \<Longrightarrow> yields Q (f y)) \<Longrightarrow>
     yields Q (case ox of None \<Rightarrow> m | Some y \<Rightarrow> f y)"
  "(\<And>e. r = Inl e \<Longrightarrow> yields Q (g e)) \<Longrightarrow> (\<And>z. r = Inr z \<Longrightarrow> yields Q (h z)) \<Longrightarrow>
     yields Q (case r of Inl e \<Rightarrow> g e | Inr z \<Rightarrow> h z)"
  "yields Q (k x) \<Longrightarrow> yields Q (Let x k)"
  by (simp_all split: option.splits sum.splits)

lemma yields_smap:
  assumes "\<And>x. x \<in> set xs \<Longrightarrow> yields (R x) (f x)"
  shows "yields (list_all2 R xs) (smap f xs)"
  using assms
proof (induction xs)
  case Nil
  then show ?case by (simp add: yields_sret)
next
  case (Cons x xs)
  show ?case
    unfolding smap.simps
    by (rule yields_sbind [of "R x"], simp add: Cons.prems,
        rule yields_sbind [of "list_all2 R xs"], simp add: Cons)
      (simp add: yields_sret)
qed

lemma yields_retry_from: "yields Q m \<Longrightarrow> yields Q (retry_from E m n)"
proof (induction E m n rule: retry_from.induct)
  case (1 E m n)
  show ?case
  proof (subst retry_from.simps, unfold yields_def, intro allI impI)
    fix w x w'
    assume run: "stry m (\<lambda>r. case r of
         Inl e \<Rightarrow> if is_resource_busy e \<and> n < MAX_RETRIES
           then sbind (thread_sleep E (from_millis (push_bit n INITIAL_DELAY_MS)))
             (\<lambda>_. retry_from E m (Suc n))
           else sfail e
       | Inr x \<Rightarrow> sret x) w = (Inr x, w')"
    obtain r w1 where m: "m w = (r, w1)" by (cases "m w")
    show "Q x"
    proof (cases r)
      case (Inr y)
      with run m have "m w = (Inr x, w')" by (simp add: stry_def sret_def)
      with "1.prems" show ?thesis by (rule yieldsD)
    next
      case (Inl e)
      show ?thesis
      proof (cases "is_resource_busy e \<and> n < MAX_RETRIES")
        case True
        with 1 Inl have "yields Q (retry_from E m (Suc n))" by auto
        with run m Inl True show ?thesis
          by (auto simp: stry_def sbind_Inr_iff yields_def)
      next
        case False
        with run m Inl show ?thesis by (auto simp: stry_def sfail_def)
      qed
    qed
  qed
qed

lemma yields_retry_busy: "yields Q m \<Longrightarrow> yields Q (retry_busy E m)"
  by (simp add: retry_busy_def yields_retry_from)

section \<open>Captured snapshots\<close>

text \<open>Sorted entries, every one an attribute below the root and none a \<open>state\<close> file.\<close>

definition captured_from :: "path \<Rightarrow> fingerprint \<Rightarrow> bool" where
  "captured_from root es \<longleftrightarrow>
     sorted (map ce_path es) \<and> (\<forall>e\<in>set es. attribute_of root (ce_path e))"

definition captured_snapshot :: "path \<Rightarrow> config_snapshot \<Rightarrow> bool" where
  "captured_snapshot root s \<longleftrightarrow> cs_root s = root \<and> captured_from root (cs_entries s)"

definition below :: "path \<Rightarrow> path \<Rightarrow> bool" where
  "below root p \<longleftrightarrow> (\<exists>names. names \<noteq> [] \<and> p = root @ map Normal names)"

lemma below_entry: "descends root dir \<Longrightarrow> below root (entry_path dir d)"
  by (auto simp: descends_def below_def entry_path_def intro: exI [of _ "names @ [entry_name d]" for names])

lemma below_descends: "below root p \<Longrightarrow> descends root p"
  by (auto simp: below_def descends_def)

lemma walk_entries_below:
  "walk_entries dir ds pending files = Inr (pending', files') \<Longrightarrow> descends root dir \<Longrightarrow>
     \<forall>p\<in>set pending. descends root p \<Longrightarrow> \<forall>p\<in>set files. below root p \<Longrightarrow>
     (\<forall>p\<in>set pending'. descends root p) \<and> (\<forall>p\<in>set files'. below root p)"
proof (induction dir ds pending files arbitrary: pending' files' rule: walk_entries.induct)
  case (3 dir d es pending files)
  then show ?case
    by (auto split: sum.splits file_kind.splits simp: below_entry below_descends)
qed auto

lemma walk_yields:
  "\<forall>p\<in>set pending. descends root p \<Longrightarrow> \<forall>p\<in>set files. below root p \<Longrightarrow>
     yields (\<lambda>ps. \<forall>p\<in>set ps. below root p) (walk fuel E pending files)"
proof (induction fuel E pending files rule: walk.induct)
  case (3 fuel E dir pending files)
  show ?case
    unfolding walk.simps
  proof (rule yields_sbind_any, rule yields_sbind, rule yields_slift)
    fix entries pf
    assume r: "walk_entries dir entries pending files = Inr pf"
    show "(\<forall>p\<in>set (fst pf). descends root p) \<and> (\<forall>p\<in>set (snd pf). below root p)"
      using walk_entries_below [of dir entries pending files "fst pf" "snd pf" root] r 3 by simp
  next
    fix entries pf
    assume "(\<forall>p\<in>set (fst pf). descends root p) \<and> (\<forall>p\<in>set (snd pf). below root p)"
    then show "yields (\<lambda>ps. \<forall>p\<in>set ps. below root p) (case pf of (pending', files') \<Rightarrow>
        walk fuel E pending' files')"
      using 3 by (cases pf) auto
  qed
qed (auto intro: yields_rules)

lemma configuration_file_attribute:
  assumes "below root p" and "strip_prefix root p = Some rel" and "\<not> is_runtime_attribute rel"
  shows "attribute_of root p"
proof -
  obtain names where n: "names \<noteq> []" "p = root @ map Normal names"
    using assms(1) by (auto simp: below_def)
  then have "rel = map Normal names" using assms(2) by (simp add: strip_prefix_Some_iff)
  with assms(3) n have "last names \<noteq> ''state''"
    by (auto simp: is_runtime_attribute_def file_name_def last_map split: if_splits)
  with n show ?thesis by (auto simp: attribute_of_def)
qed

lemma select_writable_yields:
  "\<forall>p\<in>set ps. below root p \<Longrightarrow> \<forall>p\<in>set sel. attribute_of root p \<Longrightarrow>
     yields (\<lambda>ps. \<forall>p\<in>set ps. attribute_of root p) (select_writable E root ps sel)"
proof (induction E root ps sel rule: select_writable.induct)
  case (2 E root p ps sel)
  have rest: "yields (\<lambda>ps. \<forall>p\<in>set ps. attribute_of root p) (select_writable E root ps (sel @ [p]))"
    if "strip_prefix root p = Some rel" "\<not> is_runtime_attribute rel" for rel
    using 2 that by (auto simp: configuration_file_attribute)
  show ?case
    unfolding select_writable.simps
    by (intro yields_rules) (use 2 in \<open>auto intro: rest\<close>)
qed (auto intro: yields_rules)

lemma writable_configuration_files_yields:
  "yields (\<lambda>ps. sorted ps \<and> (\<forall>p\<in>set ps. attribute_of root p)) (writable_configuration_files E root)"
  unfolding writable_configuration_files_def all_files_recursive_def
  by (rule yields_sbind [OF walk_yields [where root = root]], simp, simp,
      rule yields_sbind [OF select_writable_yields], assumption, simp)
    (simp add: yields_sret)

lemma entries_paths:
  "list_all2 (\<lambda>p (e :: config_entry). ce_path e = p) ps es \<Longrightarrow> map ce_path es = ps"
  by (induction ps es rule: list_all2_induct) simp_all

lemma capture_configuration_yields: "yields (captured_from root) (capture_configuration E root)"
  unfolding capture_configuration_def
proof (rule yields_sbind [OF writable_configuration_files_yields])
  fix ps
  assume ps: "sorted ps \<and> (\<forall>p\<in>set ps. attribute_of root p)"
  have "yields (list_all2 (\<lambda>p (e :: config_entry). ce_path e = p) ps)
      (smap (\<lambda>p. sbind (read_configuration_value E p)
         (\<lambda>value. sret \<lparr>ce_path = p, ce_value = value\<rparr>)) ps)"
    by (rule yields_smap) (auto intro!: yields_rules)
  then show "yields (captured_from root)
      (smap (\<lambda>p. sbind (read_configuration_value E p)
         (\<lambda>value. sret \<lparr>ce_path = p, ce_value = value\<rparr>)) ps)"
  proof (rule yields_mono)
    fix es
    assume "list_all2 (\<lambda>p (e :: config_entry). ce_path e = p) ps es"
    then have "map ce_path es = ps" by (rule entries_paths)
    with ps show "captured_from root es" by (auto simp: captured_from_def)
  qed
qed

lemma snapshot_capture_yields: "yields (captured_snapshot root) (snapshot_capture E root)"
  unfolding snapshot_capture_def
  by (rule yields_sbind [OF capture_configuration_yields])
    (simp add: yields_sret captured_snapshot_def)

text \<open>What a restoration of a captured snapshot writes: attributes below the root.\<close>

lemma restore_paths_except_attributes:
  assumes "captured_snapshot root s"
  shows "writes_only (attribute_of root) (restore_paths_except (traced E) s paths ignored)"
  by (rule writes_only_mono [OF restore_paths_except_emits])
    (use assms in \<open>auto simp: restorable_def captured_snapshot_def captured_from_def\<close>)

end
