(* ===== verification/Stateful.thy ===== *)
theory Stateful
  imports Yields
begin

text \<open>
  Operations with \<open>&mut self\<close>: they take the state of the object and return it with their result,
  also when they fail, because a failed operation may have changed it. Their combinators, with
  weakest preconditions on the state and rules for the system calls they emit.
\<close>

section \<open>Combinators\<close>

type_synonym ('s, 'k, 'a) stcomp = "'s \<Rightarrow> ('k, 'a result \<times> 's) comp"

definition mret :: "'a \<Rightarrow> ('s, 'k, 'a) stcomp" where
  "mret x s = sret (Inr x, s)"

definition mfail :: "error \<Rightarrow> ('s, 'k, 'a) stcomp" where
  "mfail e s = sret (Inl e, s)"

definition mcatch :: "('s, 'k, 'a) stcomp \<Rightarrow> ('a result \<Rightarrow> ('s, 'k, 'b) stcomp) \<Rightarrow> ('s, 'k, 'b) stcomp" where
  "mcatch m f s = sbind (m s) (\<lambda>(r, s'). f r s')"

definition mbind :: "('s, 'k, 'a) stcomp \<Rightarrow> ('a \<Rightarrow> ('s, 'k, 'b) stcomp) \<Rightarrow> ('s, 'k, 'b) stcomp" where
  "mbind m f = mcatch m (\<lambda>r. case r of Inl e \<Rightarrow> mfail e | Inr x \<Rightarrow> f x)"

text \<open>A \<open>&self\<close> computation inside a \<open>&mut self\<close> one.\<close>

definition mread :: "('s \<Rightarrow> ('k, 'a) comp) \<Rightarrow> ('s, 'k, 'a) stcomp" where
  "mread c s = stry (c s) (\<lambda>r. sret (r, s))"

section \<open>Weakest preconditions on the state\<close>

text \<open>
  \<open>mwp m s Q\<close>: against every kernel, \<open>m\<close> in the state \<open>s\<close> ends with a result and a state
  that satisfy \<open>Q\<close>.
\<close>

definition mwp ::
    "('s, 'k, 'a) stcomp \<Rightarrow> 's \<Rightarrow> ('a result \<Rightarrow> 's \<Rightarrow> bool) \<Rightarrow> bool" where
  "mwp m s Q \<longleftrightarrow> (\<forall>w. \<exists>r s' w'. m s w = (Inr (r, s'), w') \<and> Q r s')"

named_theorems mwp_rules \<open>weakest preconditions of stateful operations\<close>

lemma mwpD: "mwp m s Q \<Longrightarrow> m s w = (Inr (r, s'), w') \<Longrightarrow> Q r s'"
  by (auto simp: mwp_def dest: spec [of _ w])

lemma mwp_mono: "mwp m s Q \<Longrightarrow> (\<And>r s'. Q r s' \<Longrightarrow> R r s') \<Longrightarrow> mwp m s R"
  unfolding mwp_def by blast

lemma mwp_mret [mwp_rules]: "Q (Inr x) s \<Longrightarrow> mwp (mret x) s Q"
  by (simp add: mwp_def mret_def sret_def)

lemma mwp_mfail [mwp_rules]: "Q (Inl e) s \<Longrightarrow> mwp (mfail e) s Q"
  by (simp add: mwp_def mfail_def sret_def)

lemma mwp_mread [mwp_rules]: "(\<And>r. Q r s) \<Longrightarrow> mwp (mread c) s Q"
  by (simp add: mwp_def mread_def stry_def sret_def split: prod.splits)

lemma mwp_mcatch [mwp_rules]: "mwp m s (\<lambda>r s'. mwp (f r) s' Q) \<Longrightarrow> mwp (mcatch m f) s Q"
  unfolding mwp_def mcatch_def sbind_def
proof (intro allI)
  fix w
  assume "\<forall>w. \<exists>r s' w'. m s w = (Inr (r, s'), w')
      \<and> (\<forall>w. \<exists>ra s'a w'. f r s' w = (Inr (ra, s'a), w') \<and> Q ra s'a)"
  then obtain r s' w' where "m s w = (Inr (r, s'), w')"
    and "\<exists>ra s'a w''. f r s' w' = (Inr (ra, s'a), w'') \<and> Q ra s'a" by blast
  then show "\<exists>r s' w'. (case m s w of (Inl e, w') \<Rightarrow> (Inl e, w')
      | (Inr x, w') \<Rightarrow> (case x of (r, s') \<Rightarrow> f r s') w') = (Inr (r, s'), w') \<and> Q r s'"
    by simp
qed

lemma mwp_mbind [mwp_rules]:
  "mwp m s (\<lambda>r s'. case r of Inl e \<Rightarrow> Q (Inl e) s' | Inr x \<Rightarrow> mwp (f x) s' Q) \<Longrightarrow>
     mwp (mbind m f) s Q"
  unfolding mbind_def
  by (rule mwp_mcatch, erule mwp_mono) (auto split: sum.splits intro: mwp_mfail)

text \<open>Unfolding an operation whose equation mentions the record it is run on.\<close>

lemma mwp_enter: "mwp (\<lambda>_. m s) s Q \<Longrightarrow> mwp m s Q"
  by (simp add: mwp_def)

lemma mwp_leave: "mwp m s Q \<Longrightarrow> mwp (\<lambda>_. m s) s Q"
  by (simp add: mwp_def)

lemma mwp_mread_sum:
  "(\<And>x. Q (Inr x) s) \<Longrightarrow> (\<And>e. Q (Inl e) s) \<Longrightarrow> mwp (mread c) s Q"
  by (rule mwp_mread) (metis sum.exhaust)

lemma mwp_mread_yields:
  assumes "yields P (c s)" and "\<And>x. P x \<Longrightarrow> Q (Inr x) s" and "\<And>e. Q (Inl e) s"
  shows "mwp (mread c) s Q"
  unfolding mwp_def mread_def stry_def sret_def
proof (intro allI)
  fix w
  obtain r w' where run: "c s w = (r, w')" by (cases "c s w")
  have "Q r s"
  proof (cases r)
    case (Inr x)
    with run assms show ?thesis by (auto dest: yieldsD)
  qed (simp add: assms(3))
  with run show "\<exists>r s' w'. (case c s w of (r, w') \<Rightarrow> (Inr (r, s), w')) = (Inr (r, s'), w') \<and> Q r s'"
    by simp
qed

section \<open>Events of stateful operations\<close>

lemma emits_pure [emits_rules]: "emits P (mret x s)" "emits P (mfail e s)"
  by (simp_all add: mret_def mfail_def emits_sret)

lemma memits_mread: "emits P (c s) \<Longrightarrow> emits P (mread c s)"
  by (simp add: mread_def emits_stry emits_sret)

text \<open>The continuation is reached only with a result the first computation can give.\<close>

lemma emits_at_mcatch:
  assumes m: "emits P (m s)" and wp: "mwp m s Q" and f: "\<And>r s'. Q r s' \<Longrightarrow> emits P (f r s')"
  shows "emits P (mcatch m f s)"
proof (rule emitsI)
  fix w
  obtain r s' w' where run: "m s w = (Inr (r, s'), w')" and Q: "Q r s'"
    using wp by (auto simp: mwp_def dest: spec [of _ w])
  obtain evs where "trace w' = trace w @ evs" "\<forall>ev\<in>set evs. P ev"
    using m run by (auto simp: emits_def dest: spec [of _ w])
  moreover obtain evs' where "trace (snd (f r s' w')) = trace w' @ evs'" "\<forall>ev\<in>set evs'. P ev"
    using f [OF Q] by (auto simp: emits_def)
  ultimately show "\<exists>evs. trace (snd (mcatch m f s w)) = trace w @ evs \<and> (\<forall>ev\<in>set evs. P ev)"
    by (intro exI [of _ "evs @ evs'"]) (auto simp: mcatch_def sbind_def run)
qed

lemma emits_at_mbind:
  assumes "emits P (m s)" and "mwp m s Q" and "\<And>x s'. Q (Inr x) s' \<Longrightarrow> emits P (f x s')"
  shows "emits P (mbind m f s)"
  unfolding mbind_def
  by (rule emits_at_mcatch [OF assms(1,2)]) (auto split: sum.split intro: assms(3) emits_rules)

lemma emits_read_mcatch:
  assumes "emits P (c s)" and "\<And>r. emits P (f r s)"
  shows "emits P (mcatch (mread c) f s)"
  by (rule emits_at_mcatch [where Q = "\<lambda>_ s'. s' = s"])
    (auto intro: memits_mread mwp_mread assms)

lemma emits_read_mbind:
  assumes "emits P (c s)" and "\<And>x. emits P (f x s)"
  shows "emits P (mbind (mread c) f s)"
  unfolding mbind_def
  by (rule emits_read_mcatch) (auto split: sum.split intro: assms emits_rules)

lemma emits_sbind_yields:
  assumes m: "emits P m" and y: "yields Q m" and f: "\<And>x. Q x \<Longrightarrow> emits P (f x)"
  shows "emits P (sbind m f)"
proof -
  have only: "sbind m f = sbind m (\<lambda>x. if Q x then f x else sret undefined)"
    using y by (auto simp: sbind_def yields_def fun_eq_iff split: prod.splits sum.splits)
  show ?thesis
    by (subst only, rule emits_sbind [OF m], rule emits_if) (simp_all add: f emits_sret)
qed

text \<open>The continuation of a reading sees only what the reading can return.\<close>

lemma emits_mread_yields:
  assumes "emits P (c s)" and "yields Q (c s)" and "\<And>x. Q x \<Longrightarrow> emits P (f x s)"
  shows "emits P (mbind (mread c) f s)"
  by (rule emits_at_mbind [where Q = "\<lambda>r s'. s' = s \<and> (\<forall>x. r = Inr x \<longrightarrow> Q x)"],
      rule memits_mread, rule assms(1), rule mwp_mread_yields [where c = c, OF assms(2)])
    (auto intro: assms(3))

end
