(* ===== verification/Hierarchy.thy ===== *)
theory Hierarchy
  imports Stateful
begin

text \<open>
  \<^verbatim>\<open>src/src/monitor/hierarchy.rs\<close>: the owner of a whole staged hierarchy. Its state is a record;
  an operation with \<open>&mut self\<close> takes the record and returns it with its result, also when it
  fails, because a failed operation may have changed it.
\<close>

section \<open>State\<close>

datatype session_state = Staged | Running pid | UnidentifiedRunning

record managed_hierarchy =
  mh_admin :: path
  mh_previous :: "config_snapshot option"
  mh_staged :: staged_ownership
  mh_states :: "session_state list"
  mh_owns :: bool

type_synonym ('k, 'a) mcomp = "(managed_hierarchy, 'k, 'a) stcomp"

text \<open>The field updates of the owner's operations.\<close>

definition mset_state :: "usize \<Rightarrow> session_state \<Rightarrow> ('k, unit) mcomp" where
  "mset_state i st s = sret (Inr (), s\<lparr>mh_states := (mh_states s)[i := st]\<rparr>)"

definition mset_staged :: "staged_ownership \<Rightarrow> ('k, unit) mcomp" where
  "mset_staged so s = sret (Inr (), s\<lparr>mh_staged := so\<rparr>)"

definition Hierarchy_kdamond :: "managed_hierarchy \<Rightarrow> usize \<Rightarrow> path" where
  "Hierarchy_kdamond s i = Admin_kdamond (mh_admin s) i"

section \<open>Checks\<close>

definition UNIDENTIFIED :: error where
  "UNIDENTIFIED = OwnershipLost ''the kdamond started but its identity was not captured''"

definition STARTED_BY_OTHER :: error where
  "STARTED_BY_OTHER = OwnershipLost ''the staged kdamond was started by another controller''"

definition PID_CHANGED :: error where
  "PID_CHANGED = OwnershipLost ''the kdamond kernel-thread ID changed''"

definition validate_kdamond_index :: "managed_hierarchy \<Rightarrow> usize \<Rightarrow> unit result" where
  "validate_kdamond_index s i =
     (if i \<ge> length (mh_states s) then
        Inl (IndexOutOfBounds ''kdamond'' i (length (mh_states s)))
      else Inr ())"

definition expected_running_pid :: "managed_hierarchy \<Rightarrow> usize \<Rightarrow> pid result" where
  "expected_running_pid s i =
     and_then (validate_kdamond_index s i) (\<lambda>_.
       case mh_states s ! i of
         Running p \<Rightarrow> Inr p
       | Staged \<Rightarrow> Inl NotRunning
       | UnidentifiedRunning \<Rightarrow> Inl UNIDENTIFIED)"

definition current_pid :: "'k sysfs \<Rightarrow> path \<Rightarrow> ('k, pid) comp" where
  "current_pid E kdamond =
     sbind (retry_busy E (Kdamond_pid E kdamond)) (\<lambda>p.
       case p of Some v \<Rightarrow> sret v | None \<Rightarrow> sfail NotRunning)"

definition verify_running_identity_with ::
    "'k sysfs \<Rightarrow> managed_hierarchy \<Rightarrow> usize \<Rightarrow> path \<Rightarrow> ('k, unit) comp" where
  "verify_running_identity_with E s i kdamond =
     sbind (Admin_kdamond_count E (mh_admin s)) (\<lambda>n.
       if n \<noteq> length (mh_states s) then
         sfail (OwnershipLost ''the staged kdamond count changed'')
       else
         sbind (slift (expected_running_pid s i)) (\<lambda>expected.
         sbind (current_pid E kdamond) (\<lambda>current.
           if current \<noteq> expected then sfail PID_CHANGED else sret ())))"

definition verify_running_identity_only ::
    "'k sysfs \<Rightarrow> managed_hierarchy \<Rightarrow> usize \<Rightarrow> ('k, unit) comp" where
  "verify_running_identity_only E s i =
     sbind (slift (validate_kdamond_index s i)) (\<lambda>_.
       verify_running_identity_with E s i (Hierarchy_kdamond s i))"

definition verify_running_identity ::
    "'k sysfs \<Rightarrow> managed_hierarchy \<Rightarrow> usize \<Rightarrow> ('k, unit) comp" where
  "verify_running_identity E s i =
     sbind (verify_staged E (mh_staged s) (mh_admin s)) (\<lambda>_. verify_running_identity_only E s i)"

definition verify_running_identity_without_count ::
    "'k sysfs \<Rightarrow> managed_hierarchy \<Rightarrow> usize \<Rightarrow> ('k, unit) comp" where
  "verify_running_identity_without_count E s i =
     sbind (slift (expected_running_pid s i)) (\<lambda>expected.
     sbind (current_pid E (Hierarchy_kdamond s i)) (\<lambda>current.
       if current \<noteq> expected then sfail PID_CHANGED else sret ()))"

definition verify_running_state_and_identity_without_count ::
    "'k sysfs \<Rightarrow> managed_hierarchy \<Rightarrow> usize \<Rightarrow> ('k, unit) comp" where
  "verify_running_state_and_identity_without_count E s i =
     sbind (slift (expected_running_pid s i)) (\<lambda>expected.
     sbind (running_thread_pid E (Hierarchy_kdamond s i)) (\<lambda>current.
       if current \<noteq> expected then sfail PID_CHANGED else sret ()))"

definition verify_running :: "'k sysfs \<Rightarrow> managed_hierarchy \<Rightarrow> usize \<Rightarrow> ('k, unit) comp" where
  "verify_running E s i =
     sbind (slift (validate_kdamond_index s i)) (\<lambda>_.
     sbind (verify_staged E (mh_staged s) (mh_admin s)) (\<lambda>_.
       verify_running_state_and_identity_without_count E s i))"

text \<open>A kdamond the session has not started must be off.\<close>

definition verify_off :: "'k sysfs \<Rightarrow> managed_hierarchy \<Rightarrow> usize \<Rightarrow> ('k, unit) comp" where
  "verify_off E s i =
     sbind (retry_busy E (Kdamond_state E (Hierarchy_kdamond s i))) (\<lambda>state.
       case state of
         StateOff \<Rightarrow> sret ()
       | StateOn \<Rightarrow> sfail STARTED_BY_OTHER
       | UnknownState u \<Rightarrow> sfail (UnexpectedKdamondState u))"

definition verify_owned_one :: "'k sysfs \<Rightarrow> managed_hierarchy \<Rightarrow> usize \<Rightarrow> ('k, unit) comp" where
  "verify_owned_one E s i =
     (case mh_states s ! i of
        Staged \<Rightarrow> verify_off E s i
      | Running _ \<Rightarrow> verify_running_state_and_identity_without_count E s i
      | UnidentifiedRunning \<Rightarrow> sfail UNIDENTIFIED)"

definition verify_owned_state :: "'k sysfs \<Rightarrow> managed_hierarchy \<Rightarrow> ('k, unit) comp" where
  "verify_owned_state E s =
     (if \<not> mh_owns s then sfail NotRunning
      else
        sbind (verify_staged E (mh_staged s) (mh_admin s)) (\<lambda>_.
          seach (verify_owned_one E s) [0..<length (mh_states s)]))"

definition verify_identity_one :: "'k sysfs \<Rightarrow> managed_hierarchy \<Rightarrow> usize \<Rightarrow> ('k, unit) comp" where
  "verify_identity_one E s i =
     (case mh_states s ! i of
        Staged \<Rightarrow>
          sbind (retry_busy E (Kdamond_state E (Hierarchy_kdamond s i))) (\<lambda>state.
            if state \<noteq> StateOff then sfail (OwnershipLost ''a staged kdamond state changed'')
            else sret ())
      | Running _ \<Rightarrow> verify_running_identity_without_count E s i
      | UnidentifiedRunning \<Rightarrow> sfail UNIDENTIFIED)"

definition verify_owned_identities_only :: "'k sysfs \<Rightarrow> managed_hierarchy \<Rightarrow> ('k, unit) comp" where
  "verify_owned_identities_only E s =
     sbind (Admin_kdamond_count E (mh_admin s)) (\<lambda>n.
       if n \<noteq> length (mh_states s) then
         sfail (OwnershipLost ''the staged kdamond count changed'')
       else seach (verify_identity_one E s) [0..<length (mh_states s)])"

definition command_after_ownership_check ::
    "'k sysfs \<Rightarrow> managed_hierarchy \<Rightarrow> usize \<Rightarrow> kdamond_command \<Rightarrow> ('k, unit) comp" where
  "command_after_ownership_check E s i command =
     sbind (verify_running E s i) (\<lambda>_.
       retry_busy E (Kdamond_command E (Hierarchy_kdamond s i) command))"

section \<open>Construction and inspection\<close>

definition ManagedHierarchy_new ::
    "'k sysfs \<Rightarrow> path \<Rightarrow> staged_configuration \<Rightarrow> damon_config \<Rightarrow> ('k, managed_hierarchy) comp"
  where
  "ManagedHierarchy_new E admin staged_config config =
     (let staged = StagedOwnership_new (sc_current staged_config) admin config in
      stry (verify_staged E staged admin) (\<lambda>r.
        case r of
          Inl operation \<Rightarrow>
            stry (restore_configuration E admin (sc_previous staged_config)) (\<lambda>rollback.
              sfail (with_rollback operation rollback))
        | Inr _ \<Rightarrow>
            sret \<lparr>mh_admin = admin, mh_previous = Some (sc_previous staged_config),
                  mh_staged = staged,
                  mh_states = replicate (length (d_kdamonds config)) Staged,
                  mh_owns = True\<rparr>))"

definition Hierarchy_runtime_batch ::
    "'k sysfs \<Rightarrow> ('k, 'a) mcomp \<Rightarrow> ('k, 'a) mcomp" where
  "Hierarchy_runtime_batch E operation =
     mbind (mread (verify_owned_state E)) (\<lambda>_.
     mcatch operation (\<lambda>result.
     mbind (mread (verify_owned_state E)) (\<lambda>_.
       case result of Inl e \<Rightarrow> mfail e | Inr x \<Rightarrow> mret x)))"

definition Hierarchy_read_batch ::
    "'k sysfs \<Rightarrow> managed_hierarchy \<Rightarrow> ('k, 'a) comp \<Rightarrow> ('k, 'a) comp" where
  "Hierarchy_read_batch E s operation =
     sbind (verify_owned_state E s) (\<lambda>_.
     stry operation (\<lambda>result.
     sbind (verify_owned_state E s) (\<lambda>_. slift result)))"

definition Hierarchy_is_running ::
    "'k sysfs \<Rightarrow> managed_hierarchy \<Rightarrow> usize \<Rightarrow> ('k, bool) comp" where
  "Hierarchy_is_running E s i =
     sbind (slift (validate_kdamond_index s i)) (\<lambda>_.
       case mh_states s ! i of
         Staged \<Rightarrow>
           sbind (verify_staged E (mh_staged s) (mh_admin s)) (\<lambda>_.
           sbind (verify_off E s i) (\<lambda>_. sret False))
       | Running _ \<Rightarrow>
           stry (verify_running E s i) (\<lambda>r.
             case r of
               Inr _ \<Rightarrow> sret True
             | Inl e \<Rightarrow> if e = NotRunning then sret False else sfail e)
       | UnidentifiedRunning \<Rightarrow> sfail UNIDENTIFIED)"

definition Hierarchy_configuration ::
    "'k sysfs \<Rightarrow> managed_hierarchy \<Rightarrow> ('k, damon_config) comp" where
  "Hierarchy_configuration E s =
     sbind (verify_owned_state E s) (\<lambda>_.
     sbind (retry_busy E (Admin_configuration E (mh_admin s))) (\<lambda>configuration.
     sbind (verify_owned_state E s) (\<lambda>_. sret configuration)))"

definition Hierarchy_observed_configuration ::
    "'k sysfs \<Rightarrow> managed_hierarchy \<Rightarrow> ('k, observed_configuration) comp" where
  "Hierarchy_observed_configuration E s =
     sbind (verify_owned_state E s) (\<lambda>_.
     sbind (retry_busy E (Admin_observed_configuration E (mh_admin s))) (\<lambda>observation.
     sbind (verify_owned_state E s) (\<lambda>_. sret observation)))"

definition Hierarchy_scheme ::
    "'k sysfs \<Rightarrow> managed_hierarchy \<Rightarrow> usize \<Rightarrow> usize \<Rightarrow> usize \<Rightarrow> ('k, path) comp" where
  "Hierarchy_scheme E s k c i =
     sbind (slift (validate_kdamond_index s k)) (\<lambda>_.
     let kdamond = Hierarchy_kdamond s k in
     sbind (Kdamond_context_count E kdamond) (\<lambda>nc.
       if c \<ge> nc then sfail (IndexOutOfBounds ''context'' c nc)
       else
         let context = Kdamond_context kdamond c in
         sbind (Context_scheme_count E context) (\<lambda>ns.
           if i \<ge> ns then sfail (IndexOutOfBounds ''scheme'' i ns)
           else sret (Context_scheme context i))))"

section \<open>Starting and stopping\<close>

definition start_one :: "'k sysfs \<Rightarrow> usize \<Rightarrow> ('k, unit) mcomp" where
  "start_one E i =
     mbind (mread (\<lambda>s. retry_busy E (Kdamond_command E (Hierarchy_kdamond s i) CmdOn))) (\<lambda>_.
     mbind (mset_state i UnidentifiedRunning) (\<lambda>_.
     mbind (mread (\<lambda>s. running_thread_pid E (Hierarchy_kdamond s i))) (\<lambda>p.
     mbind (mset_state i (Running p)) (\<lambda>_.
     mbind (mread (\<lambda>s. verify_running_identity_only E s i)) (\<lambda>_.
       mread (\<lambda>s. verify_kdamond_configuration E (mh_staged s) (mh_admin s) i))))))"

definition read_state :: "'k sysfs \<Rightarrow> usize \<Rightarrow> ('k, kdamond_state) mcomp" where
  "read_state E i = mread (\<lambda>s. retry_busy E (Kdamond_state E (Hierarchy_kdamond s i)))"

definition stop_running :: "'k sysfs \<Rightarrow> usize \<Rightarrow> pid \<Rightarrow> ('k, unit) mcomp" where
  "stop_running E i expected =
     mbind (mread (\<lambda>s. current_pid E (Hierarchy_kdamond s i))) (\<lambda>current.
       if current \<noteq> expected then mfail PID_CHANGED
       else
         mbind (mread (\<lambda>s. retry_busy E (Kdamond_command E (Hierarchy_kdamond s i) CmdOff))) (\<lambda>_.
         mbind (read_state E i) (\<lambda>state.
           case state of
             StateOff \<Rightarrow> mset_state i Staged
           | StateOn \<Rightarrow>
               mfail (OwnershipLost ''the kdamond restarted while it was being stopped'')
           | UnknownState u \<Rightarrow> mfail (UnexpectedKdamondState u))))"

definition stop_in_state :: "'k sysfs \<Rightarrow> usize \<Rightarrow> session_state \<Rightarrow> ('k, unit) mcomp" where
  "stop_in_state E i session =
     (case session of
        Staged \<Rightarrow>
          mbind (read_state E i) (\<lambda>state.
            case state of
              StateOff \<Rightarrow> mret ()
            | StateOn \<Rightarrow> mfail STARTED_BY_OTHER
            | UnknownState u \<Rightarrow> mfail (UnexpectedKdamondState u))
      | Running expected \<Rightarrow>
          mbind (read_state E i) (\<lambda>state.
            case state of
              StateOff \<Rightarrow> mset_state i Staged
            | StateOn \<Rightarrow> stop_running E i expected
            | UnknownState u \<Rightarrow> mfail (UnexpectedKdamondState u))
      | UnidentifiedRunning \<Rightarrow>
          mbind (read_state E i) (\<lambda>state.
            case state of
              StateOff \<Rightarrow> mset_state i Staged
            | StateOn \<Rightarrow>
                mfail (OwnershipLost
                  ''cannot safely stop a kdamond before its kernel-thread ID was captured'')
            | UnknownState u \<Rightarrow> mfail (UnexpectedKdamondState u)))"

definition stop_one :: "'k sysfs \<Rightarrow> usize \<Rightarrow> ('k, unit) mcomp" where
  "stop_one E i s = stop_in_state E i (mh_states s ! i) s"

definition keep_first :: "error option \<Rightarrow> error \<Rightarrow> error option" where
  "keep_first first_error e = (case first_error of None \<Rightarrow> Some e | Some d \<Rightarrow> Some d)"

fun rollback_from :: "'k sysfs \<Rightarrow> nat list \<Rightarrow> error option \<Rightarrow> ('k, error option) mcomp" where
  "rollback_from E [] first_error s = mret first_error s"
| "rollback_from E (i # rest) first_error s =
     (if mh_states s ! i = Staged then rollback_from E rest first_error s
      else
        mcatch (mread (\<lambda>s. verify_kdamond_configuration E (mh_staged s) (mh_admin s) i)) (\<lambda>r.
          case r of
            Inl e \<Rightarrow> rollback_from E rest (keep_first first_error e)
          | Inr _ \<Rightarrow>
              mcatch (stop_one E i) (\<lambda>r.
                case r of
                  Inl e \<Rightarrow> rollback_from E rest (keep_first first_error e)
                | Inr _ \<Rightarrow> rollback_from E rest first_error)) s)"

definition rollback_started :: "'k sysfs \<Rightarrow> ('k, unit) mcomp" where
  "rollback_started E s =
     (if \<forall>st\<in>set (mh_states s). st = Staged then mret () s
      else
        mbind (mread (\<lambda>s. verify_count E (mh_staged s) (mh_admin s))) (\<lambda>_.
        mbind (rollback_from E (rev [0..<length (mh_states s)]) None) (\<lambda>first_error.
          case first_error of Some e \<Rightarrow> mfail e | None \<Rightarrow> mret ())) s)"

text \<open>The error of a failed start, after the kdamonds already started are stopped again.\<close>

definition fail_with_rollback :: "'k sysfs \<Rightarrow> error \<Rightarrow> ('k, unit) mcomp" where
  "fail_with_rollback E operation =
     mcatch (rollback_started E) (\<lambda>r. mfail (with_rollback operation r))"

lemma fail_with_rollback_fails: "fail_with_rollback E e s w \<noteq> (Inr (Inr x, s'), w')"
  by (auto simp: fail_with_rollback_def mcatch_def mfail_def sbind_def sret_def
      split: prod.splits sum.splits)

fun check_startable :: "nat \<Rightarrow> session_state list \<Rightarrow> unit result" where
  "check_startable i [] = Inr ()"
| "check_startable i (Staged # rest) = check_startable (Suc i) rest"
| "check_startable i (Running _ # rest) = Inl (KdamondRunning i)"
| "check_startable i (UnidentifiedRunning # rest) = Inl UNIDENTIFIED"

fun start_from :: "'k sysfs \<Rightarrow> nat list \<Rightarrow> ('k, unit) mcomp" where
  "start_from E [] =
     mcatch (mread (verify_owned_state E)) (\<lambda>r.
       case r of Inl e \<Rightarrow> fail_with_rollback E e | Inr _ \<Rightarrow> mret ())"
| "start_from E (i # rest) =
     mcatch (mread (\<lambda>s.
         sbind (verify_count E (mh_staged s) (mh_admin s)) (\<lambda>_.
           verify_kdamond_configuration E (mh_staged s) (mh_admin s) i))) (\<lambda>r.
       case r of
         Inl e \<Rightarrow> fail_with_rollback E e
       | Inr _ \<Rightarrow>
           mcatch (start_one E i) (\<lambda>r.
             case r of
               Inl e \<Rightarrow> fail_with_rollback E e
             | Inr _ \<Rightarrow> start_from E rest))"

definition start_all :: "'k sysfs \<Rightarrow> ('k, unit) mcomp" where
  "start_all E s =
     (if \<not> mh_owns s then mfail NotRunning s
      else case check_startable 0 (mh_states s) of
        Inl e \<Rightarrow> mfail e s
      | Inr _ \<Rightarrow>
          mbind (mread (\<lambda>s. verify_staged E (mh_staged s) (mh_admin s))) (\<lambda>_.
          mbind (mread (\<lambda>s. seach (verify_off E s) [0..<length (mh_states s)])) (\<lambda>_.
            start_from E [0..<length (mh_states s)])) s)"

fun stop_from :: "'k sysfs \<Rightarrow> nat list \<Rightarrow> error option \<Rightarrow> ('k, error option) mcomp" where
  "stop_from E [] first_error = mret first_error"
| "stop_from E (i # rest) first_error =
     mcatch (mread (\<lambda>s. verify_count E (mh_staged s) (mh_admin s))) (\<lambda>r.
       case r of
         Inl e \<Rightarrow> mret (keep_first first_error e)
       | Inr _ \<Rightarrow>
           mcatch (mread (\<lambda>s. verify_kdamond_configuration E (mh_staged s) (mh_admin s) i)) (\<lambda>r.
             case r of
               Inl e \<Rightarrow> stop_from E rest (keep_first first_error e)
             | Inr _ \<Rightarrow>
                 mcatch (stop_one E i) (\<lambda>r.
                   case r of
                     Inl e \<Rightarrow> stop_from E rest (keep_first first_error e)
                   | Inr _ \<Rightarrow> stop_from E rest first_error)))"

definition stop_all :: "'k sysfs \<Rightarrow> ('k, unit) mcomp" where
  "stop_all E s =
     (if \<not> mh_owns s then mret () s
      else
        mbind (mread (\<lambda>s. verify_count E (mh_staged s) (mh_admin s))) (\<lambda>_.
        mbind (stop_from E (rev [0..<length (mh_states s)]) None) (\<lambda>first_error.
          case first_error of
            Some e \<Rightarrow> mfail e
          | None \<Rightarrow> mread (\<lambda>s. verify_staged E (mh_staged s) (mh_admin s)))) s)"

definition mset_owns :: "bool \<Rightarrow> ('k, unit) mcomp" where
  "mset_owns b s = sret (Inr (), s\<lparr>mh_owns := b\<rparr>)"

definition close_inner :: "'k sysfs \<Rightarrow> ('k, unit) mcomp" where
  "close_inner E s =
     (if \<not> mh_owns s then mret () s
      else
        mbind (stop_all E) (\<lambda>_.
        mbind (mread (\<lambda>s. verify_staged E (mh_staged s) (mh_admin s))) (\<lambda>_.
          case mh_previous s of
            None \<Rightarrow>
              mfail (OwnershipLost ''the managed hierarchy has no restoration snapshot'')
          | Some previous \<Rightarrow>
              mbind (mread (\<lambda>s. retry_busy E (snapshot_matches_current E previous))) (\<lambda>same.
              mbind (mread (\<lambda>s. if \<not> same then restore_configuration E (mh_admin s) previous
                                 else sret ())) (\<lambda>_.
                mset_owns False)))) s)"

definition disarm_cleanup :: "managed_hierarchy \<Rightarrow> managed_hierarchy" where
  "disarm_cleanup s = s\<lparr>mh_previous := None, mh_owns := False\<rparr>"

text \<open>\<open>Drop\<close>: a hierarchy with a restoration snapshot is closed; the outcome is ignored.\<close>

definition Hierarchy_drop :: "'k sysfs \<Rightarrow> managed_hierarchy \<Rightarrow> ('k, managed_hierarchy) comp" where
  "Hierarchy_drop E s =
     (if mh_previous s \<noteq> None then sbind (close_inner E s) (\<lambda>(_, s'). sret s') else sret s)"

section \<open>Attaching to and leaving a persistent hierarchy\<close>

fun attach_identities ::
    "session_state list \<Rightarrow> nat option \<Rightarrow> (usize \<times> pid) list \<Rightarrow> session_state list result" where
  "attach_identities states previous [] = Inr states"
| "attach_identities states previous ((i, p) # rest) =
     (if i \<ge> length states then
        Inl (InvalidReceipt ''a running kdamond identity is outside the hierarchy'')
      else if (case previous of None \<Rightarrow> False | Some q \<Rightarrow> q \<ge> i) then
        Inl (InvalidReceipt ''running kdamond identities are not distinct and ordered'')
      else attach_identities (states[i := Running p]) (Some i) rest)"

definition attach_persistent ::
    "'k sysfs \<Rightarrow> path \<Rightarrow> staged_ownership \<Rightarrow> (usize \<times> pid) list \<Rightarrow> ('k, managed_hierarchy) comp"
  where
  "attach_persistent E admin staged identities =
     sbind (verify_complete E staged admin) (\<lambda>_.
     sbind (slift (attach_identities (replicate (so_kdamond_count staged) Staged) None identities))
       (\<lambda>states.
         let managed = \<lparr>mh_admin = admin, mh_previous = None, mh_staged = staged,
                        mh_states = states, mh_owns = True\<rparr> in
         sbind (verify_owned_state E managed) (\<lambda>_. sret managed)))"

record persistent_parts =
  pp_configuration :: config_snapshot
  pp_volatile :: "path list"
  pp_kdamond_count :: usize
  pp_identities :: "(usize \<times> pid) list"

fun running_identities :: "nat \<Rightarrow> session_state list \<Rightarrow> (usize \<times> pid) list result" where
  "running_identities i [] = Inr []"
| "running_identities i (Running p # rest) =
     and_then (running_identities (Suc i) rest) (\<lambda>ids. Inr ((i, p) # ids))"
| "running_identities i (Staged # rest) = running_identities (Suc i) rest"
| "running_identities i (UnidentifiedRunning # rest) = Inl UNIDENTIFIED"

definition persistent_parts_of ::
    "'k sysfs \<Rightarrow> managed_hierarchy \<Rightarrow> ('k, persistent_parts) comp" where
  "persistent_parts_of E s =
     sbind (verify_owned_state E s) (\<lambda>_.
     sbind (verify_complete E (mh_staged s) (mh_admin s)) (\<lambda>_.
     sbind (slift (running_identities 0 (mh_states s))) (\<lambda>ids.
       sret \<lparr>pp_configuration = so_configuration (mh_staged s),
             pp_volatile = so_volatile (mh_staged s),
             pp_kdamond_count = length (mh_states s), pp_identities = ids\<rparr>)))"

section \<open>Weakest preconditions of the field updates\<close>

lemma mwp_mset_state [mwp_rules]:
  "Q (Inr ()) (s\<lparr>mh_states := (mh_states s)[i := st]\<rparr>) \<Longrightarrow> mwp (mset_state i st) s Q"
  by (simp add: mwp_def mset_state_def sret_def)

lemma mwp_mset_owns [mwp_rules]:
  "Q (Inr ()) (s\<lparr>mh_owns := b\<rparr>) \<Longrightarrow> mwp (mset_owns b) s Q"
  by (simp add: mwp_def mset_owns_def sret_def)

lemma mwp_mset_staged [mwp_rules]:
  "Q (Inr ()) (s\<lparr>mh_staged := so\<rparr>) \<Longrightarrow> mwp (mset_staged so) s Q"
  by (simp add: mwp_def mset_staged_def sret_def)

section \<open>The session states\<close>

definition same_owner :: "managed_hierarchy \<Rightarrow> managed_hierarchy \<Rightarrow> bool" where
  "same_owner s s' \<longleftrightarrow>
     s' = s\<lparr>mh_states := mh_states s'\<rparr> \<and> length (mh_states s') = length (mh_states s)"

lemma same_owner_refl [simp]: "same_owner s s"
  by (simp add: same_owner_def)

lemma same_owner_trans: "same_owner s t \<Longrightarrow> same_owner t u \<Longrightarrow> same_owner s u"
  by (cases s; cases t; cases u) (simp add: same_owner_def)

lemma same_owner_update [simp]: "same_owner s (s\<lparr>mh_states := (mh_states s)[i := st]\<rparr>)"
  by (simp add: same_owner_def)

lemma same_owner_sels:
  "same_owner s s' \<Longrightarrow> mh_staged s' = mh_staged s \<and> mh_admin s' = mh_admin s
     \<and> mh_owns s' = mh_owns s \<and> mh_previous s' = mh_previous s
     \<and> length (mh_states s') = length (mh_states s)"
  by (cases s; cases s') (auto simp: same_owner_def)

definition all_staged :: "managed_hierarchy \<Rightarrow> bool" where
  "all_staged s \<longleftrightarrow> (\<forall>st\<in>set (mh_states s). st = Staged)"

definition is_running_state :: "session_state \<Rightarrow> bool" where
  "is_running_state st \<longleftrightarrow> (\<exists>p. st = Running p)"

definition all_running :: "managed_hierarchy \<Rightarrow> bool" where
  "all_running s \<longleftrightarrow> (\<forall>st\<in>set (mh_states s). is_running_state st)"

lemma start_one_wp:
  "mwp (start_one E i) s (\<lambda>r s'. same_owner s s'
      \<and> (\<forall>j. j \<noteq> i \<longrightarrow> mh_states s' ! j = mh_states s ! j)
      \<and> (r = Inr () \<longrightarrow> i < length (mh_states s) \<longrightarrow> is_running_state (mh_states s' ! i)))"
  unfolding start_one_def is_running_state_def
  by (intro mwp_rules, simp split: sum.split, intro allI impI mwp_rules)
    (auto split: sum.splits intro!: mwp_rules)

text \<open>A kdamond that is stopped becomes staged; a failure to stop it changes nothing.\<close>

lemma stop_one_wp:
  assumes "i < length (mh_states s)"
  shows "mwp (stop_one E i) s (\<lambda>r s'.
    s' = (case r of Inl _ \<Rightarrow> s | Inr _ \<Rightarrow> s\<lparr>mh_states := (mh_states s)[i := Staged]\<rparr>))"
proof -
  let ?Q = "\<lambda>(r :: unit result) s'. s' = (case r of Inl _ \<Rightarrow> s
      | Inr _ \<Rightarrow> s\<lparr>mh_states := (mh_states s)[i := Staged]\<rparr>)"
  have read: "mwp (mbind (read_state E i) f) s ?Q"
    if "\<And>st. mwp (f st) s ?Q" for f
    unfolding read_state_def using that by (intro mwp_rules) (simp split: sum.split)
  have running: "mwp (stop_running E i p) s ?Q" for p
    unfolding stop_running_def read_state_def
    by (auto split: sum.split kdamond_state.split intro!: mwp_rules)
  have enter: "mwp (stop_in_state E i (mh_states s ! i)) s ?Q \<Longrightarrow> mwp (stop_one E i) s ?Q"
    by (simp add: mwp_def stop_one_def)
  show ?thesis
  proof (cases "mh_states s ! i")
    case Staged
    then have same: "s\<lparr>mh_states := (mh_states s)[i := Staged]\<rparr> = s"
      using assms list_update_id [of "mh_states s" i] by simp
    show ?thesis
      by (rule enter, simp add: stop_in_state_def Staged, rule read)
        (auto split: kdamond_state.split intro!: mwp_rules simp: same)
  next
    case (Running p)
    show ?thesis
      by (rule enter, simp add: stop_in_state_def Running, rule read)
        (auto split: kdamond_state.split intro!: mwp_rules running)
  next
    case UnidentifiedRunning
    show ?thesis
      by (rule enter, simp add: stop_in_state_def UnidentifiedRunning, rule read)
        (auto split: kdamond_state.split intro!: mwp_rules)
  qed
qed

section \<open>Stopping and rolling back\<close>

text \<open>What stopping may do to the states: some become staged, the others keep their value.\<close>

definition only_stops :: "managed_hierarchy \<Rightarrow> managed_hierarchy \<Rightarrow> bool" where
  "only_stops s s' \<longleftrightarrow> same_owner s s'
     \<and> (\<forall>j < length (mh_states s). mh_states s' ! j = Staged \<or> mh_states s' ! j = mh_states s ! j)"

lemma only_stops_refl [simp]: "only_stops s s"
  by (simp add: only_stops_def)

lemma only_stops_trans:
  assumes "only_stops s t" "only_stops t u"
  shows "only_stops s u"
proof -
  have "same_owner s u" using assms by (auto simp: only_stops_def intro: same_owner_trans)
  moreover have "length (mh_states t) = length (mh_states s)"
    using assms by (simp add: only_stops_def same_owner_def)
  ultimately show ?thesis using assms unfolding only_stops_def by metis
qed

lemma only_stops_update [simp]: "only_stops s (s\<lparr>mh_states := (mh_states s)[i := Staged]\<rparr>)"
  by (cases "i < length (mh_states s)") (simp_all add: only_stops_def nth_list_update)

lemma only_stops_Staged:
  "only_stops s s' \<Longrightarrow> i < length (mh_states s) \<Longrightarrow> mh_states s ! i = Staged \<Longrightarrow>
     mh_states s' ! i = Staged"
  by (auto simp: only_stops_def)

lemma only_stops_length: "only_stops s s' \<Longrightarrow> length (mh_states s') = length (mh_states s)"
  by (simp add: only_stops_def same_owner_def)

text \<open>The loops collect the first error; without one, every index they visited is staged.\<close>

definition stopped_through :: "nat list \<Rightarrow> error option \<Rightarrow> managed_hierarchy \<Rightarrow>
    error option result \<Rightarrow> managed_hierarchy \<Rightarrow> bool" where
  "stopped_through is first_error s r s' \<longleftrightarrow> only_stops s s'
     \<and> (\<exists>fe. r = Inr fe
          \<and> (fe = None \<longrightarrow> first_error = None \<and> (\<forall>i\<in>set is. mh_states s' ! i = Staged)))"

lemma keep_first_Some [simp]: "keep_first fe e \<noteq> None"
  by (simp add: keep_first_def split: option.splits)

lemma stopped_through_step:
  assumes "only_stops s t" and "stopped_through is fe' t r s'" and "i < length (mh_states s)"
    and "fe' = fe \<and> mh_states t ! i = Staged \<or> fe' \<noteq> None"
  shows "stopped_through (i # is) fe s r s'"
  using assms only_stops_Staged [of t s' i] only_stops_length [of s t]
  by (auto simp: stopped_through_def intro: only_stops_trans)

lemma stopped_through_fail [simp]: "stopped_through is fe s (Inr (keep_first d e)) s"
  by (simp add: stopped_through_def)

lemma rollback_from_wp:
  "\<forall>i\<in>set is. i < length (mh_states s) \<Longrightarrow>
     mwp (rollback_from E is fe) s (stopped_through is fe s)"
proof (induction "is" arbitrary: s fe)
  case Nil
  show ?case
    by (rule mwp_enter, simp only: rollback_from.simps, rule mwp_leave, rule mwp_mret)
      (simp add: stopped_through_def)
next
  case (Cons i rest)
  then have i: "i < length (mh_states s)" and rest: "\<forall>i\<in>set rest. i < length (mh_states s)"
    by simp_all
  have continue: "mwp (rollback_from E rest fe') t (stopped_through (i # rest) fe s)"
    if "only_stops s t" "fe' = fe \<and> mh_states t ! i = Staged \<or> fe' \<noteq> None" for t fe'
    using rest only_stops_length [OF that(1)] that i
    by (intro mwp_mono [OF Cons.IH [of t fe']] stopped_through_step) auto
  show ?case
  proof (cases "mh_states s ! i = Staged")
    case True
    show ?thesis
      by (rule mwp_enter, simp only: rollback_from.simps True simp_thms if_True, rule mwp_leave,
          rule continue) (simp_all add: True)
  next
    case False
    have stop: "mwp (mcatch (stop_one E i) (\<lambda>r. case r of
        Inl e \<Rightarrow> rollback_from E rest (keep_first fe e)
      | Inr _ \<Rightarrow> rollback_from E rest fe)) s (stopped_through (i # rest) fe s)"
      by (rule mwp_mcatch, rule mwp_mono [OF stop_one_wp [OF i]])
        (auto intro!: continue simp: i split: sum.split)
    show ?thesis
      by (rule mwp_enter, simp only: rollback_from.simps False if_False, rule mwp_leave,
          rule mwp_mcatch, rule mwp_mread) (auto intro!: continue stop split: sum.split)
  qed
qed

lemma all_staged_nth:
  "length (mh_states s') = n \<Longrightarrow> \<forall>i < n. mh_states s' ! i = Staged \<Longrightarrow> all_staged s'"
  by (auto simp: all_staged_def in_set_conv_nth)

lemma stopped_through_all:
  "stopped_through (rev [0..<length (mh_states s)]) fe s (Inr None) s' \<Longrightarrow> all_staged s'"
  by (rule all_staged_nth [OF only_stops_length]) (auto simp: stopped_through_def)

lemma rollback_started_wp:
  "mwp (rollback_started E) s (\<lambda>r s'. only_stops s s' \<and> (r = Inr () \<longrightarrow> all_staged s'))"
proof (cases "\<forall>st\<in>set (mh_states s). st = Staged")
  case True
  show ?thesis
    by (rule mwp_enter, simp only: rollback_started_def if_P [OF True], rule mwp_leave,
        rule mwp_mret) (simp add: all_staged_def True)
next
  case False
  let ?n = "length (mh_states s)"
  have loop: "mwp (mbind (rollback_from E (rev [0..<?n]) None) (\<lambda>first_error.
      case first_error of Some e \<Rightarrow> mfail e | None \<Rightarrow> mret ())) s
      (\<lambda>r s'. only_stops s s' \<and> (r = Inr () \<longrightarrow> all_staged s'))"
  proof (rule mwp_mbind, rule mwp_mono [OF rollback_from_wp], goal_cases)
    case (2 r s')
    note through = this
    then obtain fe where "r = Inr fe" "only_stops s s'" by (auto simp: stopped_through_def)
    with through show ?case by (cases fe) (auto intro!: mwp_rules dest: stopped_through_all)
  qed simp
  show ?thesis
    by (rule mwp_enter, simp only: rollback_started_def if_not_P [OF False], rule mwp_leave,
        rule mwp_mbind, rule mwp_mread) (auto intro!: loop split: sum.split)
qed

lemma fail_with_rollback_wp:
  "mwp (fail_with_rollback E e) s (\<lambda>r s'. only_stops s s'
     \<and> (r = Inl e \<and> all_staged s' \<or> (\<exists>b. r = Inl (Rollback e b))))"
  unfolding fail_with_rollback_def
  apply (rule mwp_mcatch, rule mwp_mono [OF rollback_started_wp], rule mwp_mfail)
  subgoal for r s'
    by (cases r) (simp_all add: with_rollback_def)
  done

lemma stop_from_wp:
  "\<forall>i\<in>set is. i < length (mh_states s) \<Longrightarrow>
     mwp (stop_from E is fe) s (stopped_through is fe s)"
proof (induction "is" arbitrary: s fe)
  case Nil
  show ?case by (auto simp: stopped_through_def intro!: mwp_rules)
next
  case (Cons i rest)
  then have i: "i < length (mh_states s)" and rest: "\<forall>i\<in>set rest. i < length (mh_states s)"
    by simp_all
  have continue: "mwp (stop_from E rest fe') t (stopped_through (i # rest) fe s)"
    if "only_stops s t" "fe' = fe \<and> mh_states t ! i = Staged \<or> fe' \<noteq> None" for t fe'
    using rest only_stops_length [OF that(1)] that i
    by (intro mwp_mono [OF Cons.IH [of t fe']] stopped_through_step) auto
  have stop: "mwp (mcatch (stop_one E i) (\<lambda>r. case r of
      Inl e \<Rightarrow> stop_from E rest (keep_first fe e)
    | Inr _ \<Rightarrow> stop_from E rest fe)) s (stopped_through (i # rest) fe s)"
    by (rule mwp_mcatch, rule mwp_mono [OF stop_one_wp [OF i]])
      (auto intro!: continue simp: i split: sum.split)
  have configured: "mwp (mcatch (mread (\<lambda>s. verify_kdamond_configuration E (mh_staged s)
        (mh_admin s) i)) (\<lambda>r. case r of
      Inl e \<Rightarrow> stop_from E rest (keep_first fe e)
    | Inr _ \<Rightarrow> mcatch (stop_one E i) (\<lambda>r. case r of
          Inl e \<Rightarrow> stop_from E rest (keep_first fe e)
        | Inr _ \<Rightarrow> stop_from E rest fe))) s (stopped_through (i # rest) fe s)"
    by (rule mwp_mcatch, rule mwp_mread) (auto intro!: continue stop split: sum.split)
  show ?case
    by (simp only: stop_from.simps, rule mwp_mcatch, rule mwp_mread)
      (auto split: sum.split intro!: mwp_mret stopped_through_fail configured)
qed

text \<open>A stop of everything the owner controls: no kdamond is left running unless it fails.\<close>

lemma stop_all_wp:
  assumes "mh_owns s"
  shows "mwp (stop_all E) s (\<lambda>r s'. only_stops s s' \<and> (r = Inr () \<longrightarrow> all_staged s'))"
proof -
  have own: "\<not> mh_owns s \<longleftrightarrow> False" using assms by simp
  let ?n = "length (mh_states s)"
  have loop: "mwp (mbind (stop_from E (rev [0..<?n]) None) (\<lambda>first_error.
      case first_error of Some e \<Rightarrow> mfail e
      | None \<Rightarrow> mread (\<lambda>s. verify_staged E (mh_staged s) (mh_admin s)))) s
      (\<lambda>r s'. only_stops s s' \<and> (r = Inr () \<longrightarrow> all_staged s'))"
  proof (rule mwp_mbind, rule mwp_mono [OF stop_from_wp], goal_cases)
    case (2 r s')
    note through = this
    then obtain fe where "r = Inr fe" "only_stops s s'" by (auto simp: stopped_through_def)
    with through show ?case by (cases fe) (auto intro!: mwp_rules dest: stopped_through_all)
  qed simp
  show ?thesis
    by (rule mwp_enter, simp only: stop_all_def own if_False, rule mwp_leave,
        rule mwp_mbind, rule mwp_mread) (auto intro!: loop split: sum.split)
qed

text \<open>Closing gives up the hierarchy exactly when it succeeds, with everything stopped.\<close>

definition closed_from :: "managed_hierarchy \<Rightarrow> unit result \<Rightarrow> managed_hierarchy \<Rightarrow> bool" where
  "closed_from s r s' \<longleftrightarrow>
     (case r of
        Inr _ \<Rightarrow> all_staged s' \<and> only_stops s (s'\<lparr>mh_owns := True\<rparr>) \<and> \<not> mh_owns s'
      | Inl _ \<Rightarrow> only_stops s s')"

lemma close_inner_wp:
  assumes "mh_owns s"
  shows "mwp (close_inner E) s (closed_from s)"
proof -
  have own: "\<not> mh_owns s \<longleftrightarrow> False" using assms by simp
  have leave: "closed_from s (Inr ()) (t\<lparr>mh_owns := False\<rparr>)"
    if "only_stops s t" "all_staged t" for t
  proof -
    have "t\<lparr>mh_owns := True\<rparr> = t" using that(1) assms
      by (cases t) (auto simp: only_stops_def same_owner_def)
    with that show ?thesis by (simp add: closed_from_def all_staged_def)
  qed
  show ?thesis
  proof (cases "mh_previous s")
    case None
    show ?thesis
      apply (rule mwp_enter, simp only: close_inner_def own if_False None option.case, rule mwp_leave)
      apply (rule mwp_mbind, rule mwp_mono [OF stop_all_wp [OF assms]])
      apply (auto simp: closed_from_def split: sum.split intro!: mwp_mbind mwp_mread mwp_mfail)
      done
  next
    case (Some previous)
    show ?thesis
      apply (rule mwp_enter, simp only: close_inner_def own if_False Some option.case, rule mwp_leave)
      apply (rule mwp_mbind, rule mwp_mono [OF stop_all_wp [OF assms]])
      apply (auto split: sum.split intro!: mwp_mbind mwp_mread mwp_mset_owns leave)
      apply (auto simp: closed_from_def)
      done
  qed
qed

section \<open>Starting\<close>

definition started_through :: "nat list \<Rightarrow> managed_hierarchy \<Rightarrow> unit result \<Rightarrow>
    managed_hierarchy \<Rightarrow> bool" where
  "started_through is s r s' \<longleftrightarrow> same_owner s s'
     \<and> (case r of
          Inr _ \<Rightarrow> (\<forall>i\<in>set is. is_running_state (mh_states s' ! i))
                  \<and> (\<forall>j. j \<notin> set is \<longrightarrow> mh_states s' ! j = mh_states s ! j)
        | Inl e \<Rightarrow> all_staged s' \<or> (\<exists>a b. e = Rollback a b))"

lemma started_Nil [simp]: "started_through [] s (Inr ()) s"
  by (simp add: started_through_def)

lemma fail_started_wp:
  "same_owner s t \<Longrightarrow> mwp (fail_with_rollback E e) t (started_through is s)"
  by (rule mwp_mono [OF fail_with_rollback_wp])
    (auto simp: started_through_def only_stops_def intro: same_owner_trans)

lemma start_from_wp:
  "distinct is \<Longrightarrow> \<forall>i\<in>set is. i < length (mh_states s) \<Longrightarrow>
     mwp (start_from E is) s (started_through is s)"
proof (induction "is" arbitrary: s)
  case Nil
  show ?case
    by (simp only: start_from.simps, rule mwp_mcatch, rule mwp_mread)
      (auto split: sum.split intro!: fail_started_wp mwp_mret started_Nil)
next
  case (Cons i rest)
  then have i: "i < length (mh_states s)" and rest: "\<forall>i\<in>set rest. i < length (mh_states s)"
    and d: "distinct rest" "i \<notin> set rest" by simp_all
  have continue: "mwp (start_from E rest) t (started_through (i # rest) s)"
    if t: "same_owner s t" "\<forall>j. j \<noteq> i \<longrightarrow> mh_states t ! j = mh_states s ! j"
      "is_running_state (mh_states t ! i)" for t
  proof (rule mwp_mono [OF Cons.IH [OF d(1)]])
    show "\<forall>j\<in>set rest. j < length (mh_states t)"
      using rest same_owner_sels [OF t(1)] by simp
    show "started_through (i # rest) s r s'" if "started_through rest t r s'" for r s'
      using that t d by (auto simp: started_through_def intro: same_owner_trans split: sum.splits)
  qed
  have start: "mwp (mcatch (start_one E i) (\<lambda>r. case r of
      Inl e \<Rightarrow> fail_with_rollback E e | Inr _ \<Rightarrow> start_from E rest)) s
      (started_through (i # rest) s)"
    by (rule mwp_mcatch, rule mwp_mono [OF start_one_wp])
      (auto split: sum.split intro!: continue fail_started_wp simp: i)
  show ?case
    by (simp only: start_from.simps, rule mwp_mcatch, rule mwp_mread)
      (auto split: sum.split intro!: start fail_started_wp)
qed

lemma check_startable_Inr_iff: "check_startable n sts = Inr u \<longleftrightarrow> (\<forall>st\<in>set sts. st = Staged)"
  by (induction n sts rule: check_startable.induct) auto

text \<open>The outcome of a start: everything runs, or nothing does, or the error is a \<open>Rollback\<close>.\<close>

definition start_outcome :: "managed_hierarchy \<Rightarrow> unit result \<Rightarrow> managed_hierarchy \<Rightarrow> bool" where
  "start_outcome s r s' \<longleftrightarrow> same_owner s s'
     \<and> (case r of Inr _ \<Rightarrow> all_running s'
        | Inl e \<Rightarrow> all_staged s' \<or> (\<exists>a b. e = Rollback a b))"

lemma start_all_wp:
  assumes "mh_owns s" "all_staged s"
  shows "mwp (start_all E) s (start_outcome s)"
proof -
  have own: "\<not> mh_owns s \<longleftrightarrow> False" using assms by simp
  have check: "check_startable 0 (mh_states s) = Inr ()"
    using assms(2) by (simp add: check_startable_Inr_iff all_staged_def)
  let ?n = "length (mh_states s)"
  have loop: "mwp (start_from E [0..<?n]) s (start_outcome s)"
  proof (rule mwp_mono [OF start_from_wp])
    show "start_outcome s r s'" if "started_through [0..<?n] s r s'" for r s'
      using that same_owner_sels [of s s']
      by (auto simp: start_outcome_def started_through_def all_running_def in_set_conv_nth
          split: sum.splits)
  qed simp_all
  have failed: "start_outcome s (Inl e) s" for e
    using assms(2) by (simp add: start_outcome_def)
  show ?thesis
    by (rule mwp_enter, simp only: start_all_def own check if_False sum.case, rule mwp_leave,
        intro mwp_mbind mwp_mread)
      (auto intro!: loop failed mwp_mbind mwp_mread split: sum.split)
qed

end
