(* ===== verification/Hierarchy_Traces.thy ===== *)
theory Hierarchy_Traces
  imports Hierarchy
begin

text \<open>
  What the owner of a hierarchy writes. Every check only reads; starting, stopping and rolling
  back write only commands, to the \<open>state\<close> files of the kdamonds it staged.
\<close>

section \<open>Events of the field updates\<close>

lemma memits_simps [emits_rules]:
  "emits P (mset_state i st s)"
  "emits P (mset_owns b s)" "emits P (mset_staged so s)"
  by (simp_all add: mset_state_def mset_owns_def mset_staged_def emits_sret)

section \<open>The checks only read\<close>

lemma checks_emit [emits_rules]:
  "writes_only Q (current_pid (traced E) q)"
  "writes_only Q (verify_running_identity_with (traced E) s i q)"
  "writes_only Q (verify_running_identity_only (traced E) s i)"
  "writes_only Q (verify_running_identity (traced E) s i)"
  "writes_only Q (verify_running_identity_without_count (traced E) s i)"
  "writes_only Q (verify_running_state_and_identity_without_count (traced E) s i)"
  "writes_only Q (verify_running (traced E) s i)"
  "writes_only Q (verify_off (traced E) s i)"
  unfolding current_pid_def verify_running_identity_with_def verify_running_identity_only_def
    verify_running_identity_def verify_running_identity_without_count_def
    verify_running_state_and_identity_without_count_def verify_running_def verify_off_def
  by (intro emits_rules)+

lemma emits_session_cases [emits_rules]:
  "(st = Staged \<Longrightarrow> emits P a) \<Longrightarrow> (\<And>p. st = Running p \<Longrightarrow> emits P (b p)) \<Longrightarrow>
   (st = UnidentifiedRunning \<Longrightarrow> emits P c) \<Longrightarrow>
     emits P (case st of Staged \<Rightarrow> a | Running p \<Rightarrow> b p | UnidentifiedRunning \<Rightarrow> c)"
  by (cases st) simp_all

lemma owned_checks_emit [emits_rules]:
  "writes_only Q (verify_owned_one (traced E) s i)"
  "writes_only Q (verify_owned_state (traced E) s)"
  "writes_only Q (verify_identity_one (traced E) s i)"
  "writes_only Q (verify_owned_identities_only (traced E) s)"
  "writes_only Q (Hierarchy_is_running (traced E) s i)"
  "writes_only Q (Hierarchy_configuration (traced E) s)"
  unfolding verify_owned_one_def verify_owned_state_def verify_identity_one_def
    verify_owned_identities_only_def Hierarchy_is_running_def Hierarchy_configuration_def
  by (intro emits_rules)+

section \<open>Starting and stopping write commands only\<close>

definition state_file :: "path \<Rightarrow> usize \<Rightarrow> path" where
  "state_file admin i = sub (Admin_kdamond admin i) [''state'']"

text \<open>Every write is one of the commands, to the \<open>state\<close> file of a kdamond in the set.\<close>

definition commands_to :: "path \<Rightarrow> nat set \<Rightarrow> string set \<Rightarrow> event \<Rightarrow> bool" where
  "commands_to admin I cmds ev =
     (case ev of
        EvOpenWrite p \<Rightarrow> p \<in> state_file admin ` I
      | EvWrite p v \<Rightarrow> p \<in> state_file admin ` I \<and> v \<in> cmds
      | _ \<Rightarrow> True)"

lemma commands_to_simps [simp]:
  "commands_to a I C (EvExists p)" "commands_to a I C (EvMetadata p)"
  "commands_to a I C (EvReadDir p)" "commands_to a I C (EvOpenRead p)"
  "commands_to a I C (EvSleep d)"
  "commands_to a I C (EvOpenWrite p) \<longleftrightarrow> p \<in> state_file a ` I"
  "commands_to a I C (EvWrite p v) \<longleftrightarrow> p \<in> state_file a ` I \<and> v \<in> C"
  by (simp_all add: commands_to_def)

lemma reads_are_commands: "writes_only (\<lambda>_. False) m \<Longrightarrow> emits (commands_to a I C) m"
  by (erule emits_mono) (simp add: writes_within_False, rename_tac ev, case_tac ev, simp_all)

lemma check_commands:
  "emits (commands_to a I C) (verify_count (traced E) so adm)"
  "emits (commands_to a I C) (verify_staged (traced E) so adm)"
  "emits (commands_to a I C) (verify_kdamond_configuration (traced E) so adm i)"
  "emits (commands_to a I C) (running_thread_pid (traced E) q)"
  "emits (commands_to a I C) (verify_running_identity_only (traced E) s i)"
  "emits (commands_to a I C) (verify_owned_state (traced E) s)"
  by (intro reads_are_commands emits_rules)+

lemma commands_to_mono:
  "commands_to a I C ev \<Longrightarrow> I \<subseteq> J \<Longrightarrow> C \<subseteq> D \<Longrightarrow> commands_to a J D ev"
  by (cases ev) auto

lemma write_once_commands:
  "p \<in> state_file a ` I \<Longrightarrow> v \<in> C \<Longrightarrow> emits (commands_to a I C) (write_once n (traced E) p v)"
  by (induction n) (auto intro!: emits_rules emits_syscall)

lemma command_emits:
  assumes "i \<in> I" and "KdamondCommand_kernel_name c \<in> C"
  shows "emits (commands_to a I C) (retry_busy (traced E) (Kdamond_command (traced E) (Admin_kdamond a i) c))"
  unfolding Kdamond_command_def write_bytes_def
  using assms
  by (intro retry_busy_traced emits_rules)
    (auto intro!: emits_call write_once_commands simp: state_file_def)

text \<open>The names of the commands a lifecycle writes.\<close>

lemma command_names [simp]:
  "KdamondCommand_kernel_name CmdOn = ''on''" "KdamondCommand_kernel_name CmdOff = ''off''"
  by simp_all

lemma read_state_emits: "emits (commands_to a I C) (read_state (traced E) i s)"
  unfolding read_state_def by (intro memits_mread reads_are_commands emits_rules)

lemma emits_read_state_mbind:
  "(\<And>x. emits (commands_to a I C) (f x s)) \<Longrightarrow>
     emits (commands_to a I C) (mbind (read_state (traced E) i) f s)"
  unfolding read_state_def by (rule emits_read_mbind) (auto intro: reads_are_commands emits_rules)

lemma emits_kdamond_state_cases:
  "(\<And>u. emits P (f u s)) \<Longrightarrow> emits P (g s) \<Longrightarrow> emits P (h s) \<Longrightarrow>
     emits P ((case st of StateOn \<Rightarrow> h | StateOff \<Rightarrow> g | UnknownState u \<Rightarrow> f u) s)"
  by (cases st) simp_all

text \<open>Only a kdamond with a recorded thread identifier is ever told to stop.\<close>

lemma stop_one_emits:
  assumes "i \<in> I"
  shows "emits (commands_to (mh_admin s) (if is_running_state (mh_states s ! i) then I else {}) {''off''})
    (stop_one (traced E) i s)"
proof -
  have command: "emits (commands_to (mh_admin s) I {''off''})
      (retry_busy (traced E) (Kdamond_command (traced E) (Hierarchy_kdamond s i) CmdOff))"
    unfolding Hierarchy_kdamond_def by (rule command_emits) (simp_all add: assms)
  have pid: "emits (commands_to (mh_admin s) I {''off''})
      (current_pid (traced E) (Hierarchy_kdamond s i))"
    by (intro reads_are_commands emits_rules)
  have running: "emits (commands_to (mh_admin s) I {''off''}) (stop_running (traced E) i p s)" for p
    unfolding stop_running_def
    by (rule emits_read_mbind, rule pid)
      (auto intro!: emits_read_mbind command emits_read_state_mbind emits_kdamond_state_cases
        emits_rules)
  show ?thesis
    unfolding stop_one_def stop_in_state_def is_running_state_def
    by (cases "mh_states s ! i")
      (auto intro!: emits_read_state_mbind emits_kdamond_state_cases emits_rules running)
qed

lemma stop_one_emits_off:
  assumes "i \<in> I" and "mh_admin s = a"
  shows "emits (commands_to a I {''off''}) (stop_one (traced E) i s)"
  using stop_one_emits [OF assms(1), of s E] assms(2)
  by (auto elim!: emits_mono commands_to_mono split: if_splits)

lemma emits_set_mbind:
  "emits P (f () (s\<lparr>mh_states := (mh_states s)[i := st]\<rparr>)) \<Longrightarrow> emits P (mbind (mset_state i st) f s)"
  by (rule emits_at_mbind [where Q = "\<lambda>_ s'. s' = s\<lparr>mh_states := (mh_states s)[i := st]\<rparr>"])
    (auto intro: emits_rules mwp_mset_state)

lemma start_one_emits:
  assumes "i \<in> I" and "mh_admin s = a"
  shows "emits (commands_to a I {''on''}) (start_one (traced E) i s)"
proof -
  have command: "emits (commands_to a I {''on''})
      (retry_busy (traced E) (Kdamond_command (traced E) (Admin_kdamond a i) CmdOn))"
    by (rule command_emits) (simp_all add: assms)
  show ?thesis
    unfolding start_one_def Hierarchy_kdamond_def
    by (auto intro!: emits_read_mbind command emits_set_mbind memits_mread check_commands
        simp: assms(2))
qed

text \<open>The loops: what a visited kdamond may be sent, over a record that keeps its owner.\<close>

lemma stop_one_owner: "i < length (mh_states s) \<Longrightarrow> mwp (stop_one E i) s (\<lambda>_ s'. same_owner s s')"
  by (rule mwp_mono [OF stop_one_wp]) (auto split: sum.splits)

lemma rollback_from_emits:
  "mh_admin s = a \<Longrightarrow> \<forall>i\<in>set is. i \<in> I \<and> i < length (mh_states s) \<Longrightarrow>
     emits (commands_to a I {''off''}) (rollback_from (traced E) is fe s)"
proof (induction "is" arbitrary: s fe)
  case Nil
  then show ?case by (simp add: emits_rules)
next
  case (Cons i rest)
  then have i: "i \<in> I" "i < length (mh_states s)" by simp_all
  have continue: "emits (commands_to a I {''off''}) (rollback_from (traced E) rest fe' t)"
    if "same_owner s t" for fe' t
    using Cons.prems same_owner_sels [OF that] by (intro Cons.IH) auto
  have stop: "emits (commands_to a I {''off''}) (mcatch (stop_one (traced E) i) (\<lambda>r. case r of
        Inl e \<Rightarrow> rollback_from (traced E) rest (keep_first fe e)
      | Inr _ \<Rightarrow> rollback_from (traced E) rest fe) s)"
    by (rule emits_at_mcatch [OF stop_one_emits_off [OF i(1) Cons.prems(1)] stop_one_owner [OF i(2)]])
      (auto split: sum.split intro: continue)
  have "emits (commands_to a I {''off''}) (mcatch (mread (\<lambda>s.
        verify_kdamond_configuration (traced E) (mh_staged s) (mh_admin s) i)) (\<lambda>r. case r of
        Inl e \<Rightarrow> rollback_from (traced E) rest (keep_first fe e)
      | Inr _ \<Rightarrow> mcatch (stop_one (traced E) i) (\<lambda>r. case r of
            Inl e \<Rightarrow> rollback_from (traced E) rest (keep_first fe e)
          | Inr _ \<Rightarrow> rollback_from (traced E) rest fe)) s)"
    by (rule emits_read_mcatch, rule reads_are_commands)
      (auto intro!: emits_rules stop continue split: sum.split)
  with continue [of s fe] show ?case by simp
qed

lemma rollback_started_emits:
  assumes "mh_admin s = a"
  shows "emits (commands_to a {..<length (mh_states s)} {''off''}) (rollback_started (traced E) s)"
proof -
  let ?n = "length (mh_states s)"
  have loop: "emits (commands_to a {..<?n} {''off''})
      (mbind (rollback_from (traced E) (rev [0..<?n]) None) (\<lambda>first_error.
         case first_error of Some e \<Rightarrow> mfail e | None \<Rightarrow> mret ()) s)"
    by (rule emits_at_mbind [where Q = "\<lambda>_ _. True"])
      (auto intro!: rollback_from_emits mwp_mono [OF rollback_from_wp] emits_rules assms
        split: option.split)
  have "emits (commands_to a {..<?n} {''off''})
      (mbind (mread (\<lambda>s. verify_count (traced E) (mh_staged s) (mh_admin s))) (\<lambda>_.
       mbind (rollback_from (traced E) (rev [0..<?n]) None) (\<lambda>first_error.
         case first_error of Some e \<Rightarrow> mfail e | None \<Rightarrow> mret ())) s)"
    by (rule emits_read_mbind, rule reads_are_commands) (auto intro!: emits_rules loop)
  then show ?thesis by (simp add: rollback_started_def emits_rules)
qed

lemma fail_with_rollback_emits:
  assumes "mh_admin s = a" and "length (mh_states s) = n"
  shows "emits (commands_to a {..<n} {''on'', ''off''}) (fail_with_rollback (traced E) e s)"
  unfolding fail_with_rollback_def
  by (rule emits_at_mcatch [where Q = "\<lambda>_ _. True"])
    (use assms in \<open>auto intro!: emits_mono [OF rollback_started_emits] emits_rules
      mwp_mono [OF rollback_started_wp] elim!: commands_to_mono\<close>)

lemma start_from_emits:
  "mh_admin s = a \<Longrightarrow> length (mh_states s) = n \<Longrightarrow> \<forall>i\<in>set is. i < n \<Longrightarrow>
     emits (commands_to a {..<n} {''on'', ''off''}) (start_from (traced E) is s)"
proof (induction "is" arbitrary: s)
  case Nil
  then show ?case
    unfolding start_from.simps
    by (intro emits_read_mcatch check_commands)
      (auto intro: emits_rules fail_with_rollback_emits split: sum.split)
next
  case (Cons i rest)
  have continue: "emits (commands_to a {..<n} {''on'', ''off''}) (start_from (traced E) rest t)"
    and fail: "emits (commands_to a {..<n} {''on'', ''off''}) (fail_with_rollback (traced E) e t)"
    if "same_owner s t" for t e
    using Cons.prems same_owner_sels [OF that]
    by (simp_all add: Cons.IH fail_with_rollback_emits)
  have start: "emits (commands_to a {..<n} {''on'', ''off''}) (start_one (traced E) i s)"
    using Cons.prems start_one_emits [of i "{..<n}" s a E]
    by (auto elim!: emits_mono commands_to_mono)
  have "emits (commands_to a {..<n} {''on'', ''off''}) (mcatch (start_one (traced E) i) (\<lambda>r.
      case r of Inl e \<Rightarrow> fail_with_rollback (traced E) e | Inr _ \<Rightarrow> start_from (traced E) rest) s)"
    by (rule emits_at_mcatch [OF start mwp_mono [OF start_one_wp]])
      (auto split: sum.split intro: continue fail)
  then show ?case
    unfolding start_from.simps
    by (intro emits_read_mcatch check_commands)
      (auto intro: emits_rules check_commands fail split: sum.split)
qed

lemma start_all_emits:
  "emits (commands_to (mh_admin s) {..<length (mh_states s)} {''on'', ''off''})
     (start_all (traced E) s)"
proof (cases "mh_owns s \<and> check_startable 0 (mh_states s) = Inr ()")
  case True
  have "emits (commands_to (mh_admin s) {..<length (mh_states s)} {''on'', ''off''})
      (mbind (mread (\<lambda>s. verify_staged (traced E) (mh_staged s) (mh_admin s))) (\<lambda>_.
       mbind (mread (\<lambda>s. seach (verify_off (traced E) s) [0..<length (mh_states s)])) (\<lambda>_.
         start_from (traced E) [0..<length (mh_states s)])) s)"
    by (intro emits_read_mbind start_from_emits reads_are_commands emits_rules) auto
  with True show ?thesis by (simp add: start_all_def)
next
  case False
  then show ?thesis by (auto simp: start_all_def emits_rules split: sum.split)
qed

lemma stop_from_emits:
  "mh_admin s = a \<Longrightarrow> \<forall>i\<in>set is. i \<in> I \<and> i < length (mh_states s) \<Longrightarrow>
     emits (commands_to a I {''off''}) (stop_from (traced E) is fe s)"
proof (induction "is" arbitrary: s fe)
  case Nil
  then show ?case by (simp add: emits_rules)
next
  case (Cons i rest)
  then have i: "i \<in> I" "i < length (mh_states s)" by simp_all
  have continue: "emits (commands_to a I {''off''}) (stop_from (traced E) rest fe' t)"
    if "same_owner s t" for fe' t
    using Cons.prems same_owner_sels [OF that] by (intro Cons.IH) auto
  have stop: "emits (commands_to a I {''off''}) (mcatch (stop_one (traced E) i) (\<lambda>r. case r of
        Inl e \<Rightarrow> stop_from (traced E) rest (keep_first fe e)
      | Inr _ \<Rightarrow> stop_from (traced E) rest fe) s)"
    by (rule emits_at_mcatch [OF stop_one_emits_off [OF i(1) Cons.prems(1)] stop_one_owner [OF i(2)]])
      (auto split: sum.split intro: continue)
  have "emits (commands_to a I {''off''}) (mcatch (mread (\<lambda>s.
        verify_kdamond_configuration (traced E) (mh_staged s) (mh_admin s) i)) (\<lambda>r. case r of
        Inl e \<Rightarrow> stop_from (traced E) rest (keep_first fe e)
      | Inr _ \<Rightarrow> mcatch (stop_one (traced E) i) (\<lambda>r. case r of
            Inl e \<Rightarrow> stop_from (traced E) rest (keep_first fe e)
          | Inr _ \<Rightarrow> stop_from (traced E) rest fe)) s)"
    by (rule emits_read_mcatch, rule reads_are_commands)
      (auto intro!: emits_rules stop continue split: sum.split)
  then show ?case
    unfolding stop_from.simps
    by (intro emits_read_mcatch check_commands) (auto intro: emits_rules split: sum.split)
qed

lemma stop_all_emits:
  "emits (commands_to (mh_admin s) {..<length (mh_states s)} {''off''}) (stop_all (traced E) s)"
proof (cases "mh_owns s")
  case True
  let ?n = "length (mh_states s)"
  have loop: "emits (commands_to (mh_admin s) {..<?n} {''off''})
      (mbind (stop_from (traced E) (rev [0..<?n]) None) (\<lambda>first_error.
         case first_error of Some e \<Rightarrow> mfail e
         | None \<Rightarrow> mread (\<lambda>s. verify_staged (traced E) (mh_staged s) (mh_admin s))) s)"
    by (rule emits_at_mbind [OF stop_from_emits mwp_mono [OF stop_from_wp, where R = "\<lambda>_ _. True"]])
      (auto intro!: emits_rules memits_mread check_commands split: option.split)
  have "emits (commands_to (mh_admin s) {..<?n} {''off''})
      (mbind (mread (\<lambda>s. verify_count (traced E) (mh_staged s) (mh_admin s))) (\<lambda>_.
       mbind (stop_from (traced E) (rev [0..<?n]) None) (\<lambda>first_error.
         case first_error of Some e \<Rightarrow> mfail e
         | None \<Rightarrow> mread (\<lambda>s. verify_staged (traced E) (mh_staged s) (mh_admin s)))) s)"
    by (rule emits_read_mbind, rule reads_are_commands) (auto intro!: emits_rules loop)
  with True show ?thesis by (simp add: stop_all_def)
next
  case False
  then show ?thesis by (simp add: stop_all_def emits_rules)
qed

text \<open>Closing stops the kdamonds and restores what the snapshot captured, and writes nothing else.\<close>

definition close_events :: "managed_hierarchy \<Rightarrow> event \<Rightarrow> bool" where
  "close_events s ev \<longleftrightarrow>
     commands_to (mh_admin s) {..<length (mh_states s)} {''off''} ev
     \<or> (\<exists>previous. mh_previous s = Some previous
          \<and> writes_within (restorable (cs_entries previous) []) ev)"

lemma close_inner_emits: "emits (close_events s) (close_inner (traced E) s)"
proof (cases "mh_owns s")
  case True
  have own: "\<not> mh_owns s \<longleftrightarrow> False" using True by simp
  have stop: "emits (close_events s) (stop_all (traced E) s)"
    by (rule emits_mono [OF stop_all_emits]) (simp add: close_events_def)
  have check: "emits (close_events s) (verify_staged (traced E) so a)" for so a
    by (rule emits_mono [OF check_commands(2)
          [of "mh_admin s" "{..<length (mh_states s)}" "{''off''}"]]) (simp add: close_events_def)
  have reads: "emits (close_events s) (retry_busy (traced E) (snapshot_matches_current (traced E) previous))"
    for previous
    by (rule emits_mono [OF reads_are_commands [of _ "mh_admin s" "{..<length (mh_states s)}" "{''off''}"]])
      (auto intro: emits_rules simp: close_events_def)
  have restores: "emits (close_events s) (restore_configuration (traced E) a previous)"
    if "mh_previous s = Some previous" for a previous
    by (rule emits_mono [OF restore_configuration_emits]) (simp add: close_events_def that)
  have "emits (close_events s) (mbind (stop_all (traced E)) (\<lambda>_.
      mbind (mread (\<lambda>s. verify_staged (traced E) (mh_staged s) (mh_admin s))) (\<lambda>_.
        case mh_previous s of
          None \<Rightarrow> mfail (OwnershipLost ''the managed hierarchy has no restoration snapshot'')
        | Some previous \<Rightarrow>
            mbind (mread (\<lambda>s. retry_busy (traced E) (snapshot_matches_current (traced E) previous)))
              (\<lambda>same. mbind (mread (\<lambda>s. if \<not> same then
                  restore_configuration (traced E) (mh_admin s) previous else sret ())) (\<lambda>_.
                mset_owns False)))) s)"
    by (rule emits_at_mbind [OF stop mwp_mono [OF stop_all_wp [OF True], where R = "\<lambda>_ _. True"]])
      (auto intro!: emits_read_mbind check reads restores emits_sret
        memits_simps emits_pure split: option.split)
  with True show ?thesis by (simp add: close_inner_def)
next
  case False
  then show ?thesis by (simp add: close_inner_def emits_rules)
qed

end
