(* ===== verification/Sample_Owner.thy ===== *)
theory Sample_Owner
  imports Hierarchy_Traces Samples Table_Kernel
begin

text \<open>
  Concrete owners and the files of one kdamond, for the witnesses of the monitor layer, with the
  lemmas that evaluate the owner's operations on them.
\<close>

section \<open>A hierarchy for the witnesses\<close>

text \<open>An owner of two staged kdamonds over an empty table of files, and one that owns nothing.\<close>

definition sample_owner :: "session_state list \<Rightarrow> managed_hierarchy" where
  "sample_owner states =
     \<lparr>mh_admin = [RootDir], mh_previous = None,
      mh_staged = \<lparr>so_configuration = \<lparr>cs_root = [RootDir], cs_entries = []\<rparr>,
                   so_volatile = [], so_kdamond_count = length states\<rparr>,
      mh_states = states, mh_owns = True\<rparr>"

definition empty_world :: "(path \<times> string) list world" where
  "empty_world = \<lparr>w_kernel = [], w_journal = None\<rparr>"

text \<open>The files of one kdamond, with the given state and thread identifier 77.\<close>

definition one_kdamond :: "string \<Rightarrow> (path \<times> string) list world" where
  "one_kdamond st =
     \<lparr>w_kernel =
        [([RootDir, Normal ''kdamonds'', Normal ''nr_kdamonds''], dec_word (1 :: u64) @ newline),
         ([RootDir, Normal ''kdamonds'', Normal ''0'', Normal ''state''], st),
         ([RootDir, Normal ''kdamonds'', Normal ''0'', Normal ''pid''], dec_int 77 @ newline)],
      w_journal = None\<rparr>"

lemma trim_names [simp]: "trim ''on'' = ''on''" "trim ''off'' = ''off''"
  by (rule trim_plain; simp add: plain_char_def byte_val_def)+

lemma utf8_names [simp]: "utf8_valid ''on''" "utf8_valid ''off''" "utf8_valid (dec_int 77 @ newline)"
  by (rule utf8_ascii, auto simp: byte_val_def dec_int_def dest!: dec_digits
      intro: byte_digit [unfolded byte_val_def])+

lemma dec_0 [simp]: "dec 0 = ''0''"
  by (simp add: dec.simps [of 0] digit_char_def)

lemma table_kdamond_state [simp]:
  "map_of (w_kernel w) (sub q [''state'']) = Some ''on'' \<Longrightarrow> Kdamond_state table_kernel q w = (Inr StateOn, w)"
  "map_of (w_kernel w) (sub q [''state'']) = Some ''off'' \<Longrightarrow> Kdamond_state table_kernel q w = (Inr StateOff, w)"
  by (simp_all add: Kdamond_state_def sbind_def KdamondState_from_str_def KdamondState_parse_def
      slift_def and_then_def validate_token_def byte_val_def ascii_whitespace_def)

lemma table_kdamond_command [simp]:
  "map_of (w_kernel w) (sub q [''state'']) = Some old \<Longrightarrow> w_journal w = None \<Longrightarrow>
     Kdamond_command table_kernel q CmdOn w
       = (Inr (), w\<lparr>w_kernel := (sub q [''state''], ''on'') # w_kernel w\<rparr>)"
  "map_of (w_kernel w) (sub q [''state'']) = Some old \<Longrightarrow> w_journal w = None \<Longrightarrow>
     Kdamond_command table_kernel q CmdOff w
       = (Inr (), w\<lparr>w_kernel := (sub q [''state''], ''off'') # w_kernel w\<rparr>)"
  by (simp_all add: Kdamond_command_def sbind_def slift_def validate_token_def byte_val_def
      ascii_whitespace_def)

lemma table_kdamond_pid [simp]:
  "map_of (w_kernel w) (sub q [''pid'']) = Some (dec_int 77 @ newline) \<Longrightarrow>
     Kdamond_pid table_kernel q w = (Inr (Some \<lparr>pid_raw = 77\<rparr>), w)"
proof -
  assume a: "map_of (w_kernel w) (sub q [''pid'']) = Some (dec_int 77 @ newline)"
  have "trim (dec_int 77 @ newline) = dec_int 77" by (simp add: dec_int_def)
  then have "read_i32 table_kernel (sub q [''pid'']) w = (Inr 77, w)"
    by (simp add: read_i32_def sbind_def a parse_i32_dec_int sret_def)
  then show ?thesis
    by (simp add: Kdamond_pid_def sbind_def Pid_new_def sret_def)
qed

text \<open>Every directory lists as empty, so a capture of this kernel is empty.\<close>

lemma table_capture [simp]: "capture_configuration table_kernel root w = (Inr [], w)"
proof -
  have "walk 4 table_kernel [root] [] w = (Inr [], w)"
    by (simp add: eval_nat_numeral sbind_def call_def syscall_def slift_def sret_def table_kernel_def)
  then show ?thesis
    by (simp add: capture_configuration_def writable_configuration_files_def all_files_recursive_def
        sbind_def sret_def table_kernel_def)
qed

lemma sample_owner_sels [simp]:
  "mh_owns (sample_owner sts)" "mh_states (sample_owner sts) = sts"
  "mh_admin (sample_owner sts) = [RootDir]" "mh_previous (sample_owner sts) = None"
  by (simp_all add: sample_owner_def)

text \<open>The owner's operations, unfolded on a concrete record and world.\<close>

lemmas owner_evaluation =
  sample_owner_def mbind_def mcatch_def mread_def stry_def sbind_def sret_def slift_def mret_def
  mfail_def mset_state_def mset_owns_def verify_staged_def verify_count_def
  Admin_kdamond_count_def read_usize_def snapshot_matches_current_except_def
  matches_current_except_def verify_off_def sub_def Hierarchy_kdamond_def Admin_kdamond_def
  child_def verify_kdamond_configuration_def snapshot_matches_current_under_except_def
  matches_current_under_except_def partition_point_def running_thread_pid_def
  verify_running_identity_only_def validate_kdamond_index_def verify_running_identity_with_def
  expected_running_pid_def current_pid_def verify_owned_state_def verify_owned_one_def
  verify_running_state_and_identity_without_count_def stop_one_def stop_in_state_def
  stop_running_def read_state_def

lemma stop_all_evaluates:
  "\<exists>w'. stop_all table_kernel ((sample_owner [Running \<lparr>pid_raw = 77\<rparr>])\<lparr>mh_previous := previous\<rparr>)
       (one_kdamond ''on'')
     = (Inr (Inr (), (sample_owner [Staged])\<lparr>mh_previous := previous\<rparr>), w')
     \<and> w_journal w' = None \<and> (\<forall>p. map_of (w_kernel w') p =
         (if p = [RootDir, Normal ''kdamonds'', Normal ''0'', Normal ''state''] then Some ''off''
          else map_of (w_kernel (one_kdamond ''on'')) p))"
  by (simp add: stop_all_def owner_evaluation one_kdamond_def)

end
