(* ===== verification/Properties_Monitor.thy ===== *)
theory Properties_Monitor
  imports Sample_Owner Properties_Sysfs
begin

text \<open>
  The properties of the monitor layer: retrying, ownership checks, and the life cycle of a
  staged hierarchy. They hold against every kernel: what it answers, and what other processes
  change between two calls, is arbitrary.
\<close>

section \<open>Retrying\<close>

text \<open>
  C40. An operation is attempted at most six times. Every attempt but the last was answered
  with EBUSY and followed by a delay of 10 ms, doubled each time; the last answer is returned
  unchanged, and it is EBUSY only after all six attempts.
\<close>

theorem retry_busy_bounded:
  "\<exists>n\<le>5. busy_run E operation 0 n w (retry_busy E operation w)
     \<and> (n < 5 \<longrightarrow> (\<forall>e w'. retry_busy E operation w = (Inl e, w') \<longrightarrow> \<not> is_resource_busy e))"
  using retry_from_run [of 0 E operation w] by (auto simp: retry_busy_def MAX_RETRIES_def)

theorem retry_busy_bounded_witness:
  "\<exists>n\<le>5. busy_run table_kernel (sret True) 0 n empty_world
     (retry_busy table_kernel (sret True) empty_world)"
  using retry_busy_bounded [of table_kernel "sret True" empty_world] by blast

section \<open>Writes\<close>

text \<open>
  Staging with verification writes only attributes below the administration directory and
  never a \<open>state\<close> file; verifying ownership, in all its forms, writes nothing at all.
\<close>

lemma staging_and_checks_harmless:
  "writes_only (attribute_of admin)
     (stage_and_verify_configuration (traced E) admin config observed)
   \<and> writes_only (\<lambda>_. False) (verify_owned_state (traced E) s)
   \<and> writes_only (\<lambda>_. False) (verify_owned_identities_only (traced E) s)
   \<and> writes_only (\<lambda>_. False) (verify_complete (traced E) (mh_staged s) (mh_admin s))
   \<and> writes_only (\<lambda>_. False) (Hierarchy_is_running (traced E) s i)
   \<and> writes_only (\<lambda>_. False) (Hierarchy_configuration (traced E) s)"
  by (intro conjI emits_rules) simp

text \<open>
  A life cycle writes nothing but commands to the \<open>state\<close> files of the kdamonds it staged:
  starting everything writes \<open>on\<close> and, when it has to roll back, \<open>off\<close>; stopping everything and
  rolling back write only \<open>off\<close>; closing writes \<open>off\<close> and the files its snapshot captured.
\<close>

lemma lifecycle_writes:
  "emits (commands_to (mh_admin s) {..<length (mh_states s)} {''on'', ''off''}) (start_all (traced E) s)
   \<and> emits (commands_to (mh_admin s) {..<length (mh_states s)} {''off''}) (stop_all (traced E) s)
   \<and> emits (commands_to (mh_admin s) {..<length (mh_states s)} {''off''}) (rollback_started (traced E) s)
   \<and> emits (close_events s) (close_inner (traced E) s)"
  by (intro conjI start_all_emits stop_all_emits rollback_started_emits close_inner_emits refl)

text \<open>
  A kdamond is told to stop only if this session recorded its kernel-thread identifier:
  stopping one in any other session state writes nothing at all, and stopping one that runs
  writes at most \<open>off\<close> to its own \<open>state\<close> file.
\<close>

lemma stop_only_identified:
  "emits (commands_to (mh_admin s) (if is_running_state (mh_states s ! i) then {i} else {}) {''off''})
     (stop_one (traced E) i s)"
  by (rule stop_one_emits) simp

text \<open>
  C10. When the kernel thread behind a running kdamond is not the one this session started, the
  stop fails with the loss of ownership at that point: the record is unchanged and no call to
  the kernel follows the reading of the thread identifier.
\<close>

theorem stop_foreign_thread_refused:
  assumes "mh_states s ! i = Running expected"
    and "retry_busy E (Kdamond_state E (Hierarchy_kdamond s i)) w = (Inr StateOn, w1)"
    and "current_pid E (Hierarchy_kdamond s i) w1 = (Inr current, w2)"
    and "current \<noteq> expected"
  shows "stop_one E i s w = (Inr (Inl PID_CHANGED, s), w2)"
  using assms
  by (simp add: stop_one_def stop_in_state_def stop_running_def read_state_def mbind_def mcatch_def
      mread_def stry_def sbind_def sret_def mfail_def)

theorem stop_foreign_thread_refused_witness:
  "fst (stop_one table_kernel 0 (sample_owner [Running \<lparr>pid_raw = 5\<rparr>]) (one_kdamond ''on''))
     = Inr (Inl PID_CHANGED, sample_owner [Running \<lparr>pid_raw = 5\<rparr>])"
proof -
  let ?w = "one_kdamond ''on''" and ?s = "sample_owner [Running \<lparr>pid_raw = 5\<rparr>]"
  have files: "map_of (w_kernel ?w) (sub (Hierarchy_kdamond ?s 0) [''state'']) = Some ''on''"
    "map_of (w_kernel ?w) (sub (Hierarchy_kdamond ?s 0) [''pid'']) = Some (dec_int 77 @ newline)"
    by (simp_all add: one_kdamond_def Hierarchy_kdamond_def Admin_kdamond_def sub_def child_def)
  have "current_pid table_kernel (Hierarchy_kdamond ?s 0) ?w = (Inr \<lparr>pid_raw = 77\<rparr>, ?w)"
    by (simp add: current_pid_def sbind_def files sret_def)
  from stop_foreign_thread_refused [OF _ _ this, of "\<lparr>pid_raw = 5\<rparr>" ?w] files
  show ?thesis by simp
qed

section \<open>The life cycle\<close>

text \<open>
  C1. Starting a staged hierarchy is all or nothing: if it succeeds every kdamond runs with a
  recorded thread identifier; if it fails every kdamond is stopped again, unless the error is a
  \<open>Rollback\<close> that says the stopping failed too. The rest of the owner's record is unchanged.
\<close>

theorem start_all_or_nothing:
  assumes "mh_owns s" and "all_staged s" and "start_all E s w = (Inr (r, s'), w')"
  shows "s' = s\<lparr>mh_states := mh_states s'\<rparr> \<and> length (mh_states s') = length (mh_states s)
    \<and> (case r of Inr _ \<Rightarrow> all_running s'
       | Inl e \<Rightarrow> all_staged s' \<or> (\<exists>operation rollback. e = Rollback operation rollback))"
  using mwpD [OF start_all_wp [OF assms(1,2)] assms(3)]
  by (simp add: start_outcome_def same_owner_def)

theorem start_all_or_nothing_witness:
  "\<exists>s' w'. start_all table_kernel (sample_owner [Staged]) (one_kdamond ''off'') = (Inr (Inr (), s'), w')
     \<and> all_running s'"
proof -
  let ?s = "sample_owner [Staged]"
  have "\<exists>s' w'. start_all table_kernel ?s (one_kdamond ''off'') = (Inr (Inr (), s'), w')"
    by (simp add: start_all_def start_one_def owner_evaluation one_kdamond_def)
  then obtain s' w' where run: "start_all table_kernel ?s (one_kdamond ''off'') = (Inr (Inr (), s'), w')"
    by blast
  have "all_staged ?s" by (simp add: all_staged_def)
  from start_all_or_nothing [OF _ this run] run show ?thesis by auto
qed

text \<open>
  Stopping never starts anything: every kdamond's session state is kept or becomes staged,
  and when the stop succeeds all of them are staged. Each kdamond is tried even when an earlier
  one failed, and the first error is the one reported.
\<close>

lemma stop_all_stops:
  assumes "mh_owns s" and "stop_all E s w = (Inr (r, s'), w')"
  shows "s' = s\<lparr>mh_states := mh_states s'\<rparr> \<and> length (mh_states s') = length (mh_states s)
    \<and> (\<forall>j < length (mh_states s). mh_states s' ! j \<in> {Staged, mh_states s ! j})
    \<and> (r = Inr () \<longrightarrow> (\<forall>st\<in>set (mh_states s'). st = Staged))"
  using mwpD [OF stop_all_wp [OF assms(1)] assms(2)]
  by (auto simp: only_stops_def same_owner_def all_staged_def)

lemma stop_all_stops_witness:
  "\<exists>s' w'. stop_all table_kernel (sample_owner [Running \<lparr>pid_raw = 77\<rparr>]) (one_kdamond ''on'')
       = (Inr (Inr (), s'), w')
     \<and> (\<forall>st\<in>set (mh_states s'). st = Staged)"
proof -
  have "(sample_owner sts)\<lparr>mh_previous := None\<rparr> = sample_owner sts" for sts
    by (simp add: sample_owner_def)
  with stop_all_evaluates [of None] obtain s' w' where
    run: "stop_all table_kernel (sample_owner [Running \<lparr>pid_raw = 77\<rparr>]) (one_kdamond ''on'')
      = (Inr (Inr (), s'), w')" by auto
  from stop_all_stops [OF _ run] run show ?thesis by auto
qed

text \<open>
  Closing gives up ownership exactly when it succeeds, and then every kdamond is stopped;
  when it fails the owner keeps the hierarchy and can close again; closing what is not owned,
  as after a successful close, succeeds without any call to the kernel.
\<close>

lemma close_gives_up_ownership:
  assumes "close_inner E s w = (Inr (r, s'), w')"
  shows "(mh_owns s' \<longleftrightarrow> mh_owns s \<and> r \<noteq> Inr ())
    \<and> (mh_owns s \<and> r = Inr () \<longrightarrow> all_staged s')
    \<and> (\<not> mh_owns s \<longrightarrow> r = Inr () \<and> s' = s \<and> w' = w)"
proof (cases "mh_owns s")
  case True
  from mwpD [OF close_inner_wp [OF True] assms] True show ?thesis
    by (cases r) (auto simp: closed_from_def only_stops_def dest: same_owner_sels)
next
  case False
  with assms show ?thesis by (simp add: close_inner_def mret_def sret_def)
qed

lemma close_gives_up_ownership_witness:
  "\<exists>s' w'. close_inner table_kernel ((sample_owner [Running \<lparr>pid_raw = 77\<rparr>])
         \<lparr>mh_previous := Some \<lparr>cs_root = [RootDir], cs_entries = []\<rparr>\<rparr>) (one_kdamond ''on'')
       = (Inr (Inr (), s'), w')
     \<and> \<not> mh_owns s' \<and> all_staged s'"
proof -
  let ?snap = "\<lparr>cs_root = [RootDir], cs_entries = []\<rparr>"
  let ?s = "(sample_owner [Running \<lparr>pid_raw = 77\<rparr>])\<lparr>mh_previous := Some ?snap\<rparr>"
  obtain w1 where stop: "stop_all table_kernel ?s (one_kdamond ''on'')
      = (Inr (Inr (), (sample_owner [Staged])\<lparr>mh_previous := Some ?snap\<rparr>), w1)"
    and files: "\<forall>p. map_of (w_kernel w1) p =
         (if p = [RootDir, Normal ''kdamonds'', Normal ''0'', Normal ''state''] then Some ''off''
          else map_of (w_kernel (one_kdamond ''on'')) p)"
    using stop_all_evaluates by blast
  have "snapshot_matches_current table_kernel ?snap w1 = (Inr True, w1)"
    by (simp add: snapshot_matches_current_def capture_configuration_def sbind_def sret_def
        writable_configuration_files_def all_files_recursive_def table_kernel_def call_def
        syscall_def slift_def eval_nat_numeral)
  then have "\<exists>s' w'. close_inner table_kernel ?s (one_kdamond ''on'') = (Inr (Inr (), s'), w')"
    by (simp add: close_inner_def mbind_def [of "stop_all _"] mcatch_def [of "stop_all _"] sbind_def stop)
      (simp add: owner_evaluation files one_kdamond_def)
  then obtain s' w' where run: "close_inner table_kernel ?s (one_kdamond ''on'') = (Inr (Inr (), s'), w')"
    by blast
  from close_gives_up_ownership [OF run] run show ?thesis by (auto simp: sample_owner_def)
qed

end
