(* ===== verification/Capabilities.thy ===== *)
theory Capabilities
  imports Table_Kernel
begin

text \<open>
  \<^verbatim>\<open>src/src/sysfs/capabilities/model.rs\<close>: the features a kernel's DAMON interface may have, how
  well each is supported, and the queries and corrections on a discovered set. A feature's
  constructor is the source's variant after \<open>Feature_\<close>.
\<close>

section \<open>Features\<close>

datatype sysfs_feature =
    Feature_VirtualAddressOperation | Feature_PhysicalAddressOperation
  | Feature_FixedVirtualAddressOperation | Feature_Schemes | Feature_SchemeTimeQuota
  | Feature_SchemeSizeQuota | Feature_SchemePrioritization | Feature_SchemeWatermarks
  | Feature_SchemeSuccessfulStats | Feature_SchemeQuotaExceededStats
  | Feature_AvailableOperations | Feature_OnlineParametersCommit | Feature_PeriodicRefresh
  | Feature_AddressUnit | Feature_ContextPause | Feature_AttributeProbeCount
  | Feature_ProbeFilterCount | Feature_ProbeFilterType | Feature_ProbeFilterMatching
  | Feature_ProbeFilterAllow | Feature_ProbeFilterPath | Feature_SchemeApplyInterval
  | Feature_ObsoleteTarget | Feature_InitialRegions | Feature_TriedRegions
  | Feature_TriedRegionsTotalBytes | Feature_SchemeFilters | Feature_SchemeFilterAnonymous
  | Feature_SchemeFilterMemoryControlGroup | Feature_SchemeFilterAddress
  | Feature_SchemeFilterTarget | Feature_SchemeFilterYoung | Feature_SchemeFilterHugePageSize
  | Feature_SchemeFilterUnmapped | Feature_SchemeFilterActive
  | Feature_SchemeFilterProbeHitsWeightedSum | Feature_SeparateSchemeFilterDirectories
  | Feature_SchemeFilterAllow | Feature_SchemeQuotaGoals | Feature_SchemeQuotaEffectiveBytes
  | Feature_SchemeQuotaGoalMetric | Feature_SchemeQuotaGoalSomePsi
  | Feature_SchemeQuotaGoalNodeMemory | Feature_SchemeQuotaGoalNodeMemoryControlGroup
  | Feature_SchemeQuotaGoalActiveMemory | Feature_SchemeQuotaGoalNodeEligibleMemory
  | Feature_SchemeQuotaGoalHugePageMemory | Feature_SchemeQuotaGoalTuner
  | Feature_SchemeQuotaFailureChargeRatio | Feature_SchemeMigration | Feature_SchemeDestinations
  | Feature_SchemeOperationsFilterPassedBytes | Feature_SchemeApplicationSnapshotCount
  | Feature_SchemeApplicationSnapshotLimit | Feature_CollapseAction
  | Feature_DamosAllocateAction | Feature_DamosFreeAction | Feature_MonitoringIntervalsGoal
  | Feature_AttributeMonitoring | Feature_ProbeTypeAnonymous
  | Feature_ProbeTypeMemoryControlGroup | Feature_ProbeWeight | Feature_ProbePreparations
  | Feature_ProbePreparationSetPageIdle | Feature_ProbeTypePageIdleUnset
  | Feature_ProbeTypePageIdleSet | Feature_SampleControl | Feature_OperationAttributes

primrec damo_name :: "sysfs_feature \<Rightarrow> string option" where
  "damo_name Feature_VirtualAddressOperation = Some ''sysfs/vaddr''"
| "damo_name Feature_PhysicalAddressOperation = Some ''sysfs/paddr''"
| "damo_name Feature_FixedVirtualAddressOperation = Some ''sysfs/fvaddr''"
| "damo_name Feature_Schemes = Some ''sysfs/schemes''"
| "damo_name Feature_SchemeTimeQuota = Some ''sysfs/schemes_time_quota''"
| "damo_name Feature_SchemeSizeQuota = Some ''sysfs/schemes_size_quota''"
| "damo_name Feature_SchemePrioritization = Some ''sysfs/schemes_prioritization''"
| "damo_name Feature_SchemeWatermarks = Some ''sysfs/schemes_wmarks''"
| "damo_name Feature_SchemeSuccessfulStats = Some ''sysfs/schemes_stat_succ''"
| "damo_name Feature_SchemeQuotaExceededStats = Some ''sysfs/schemes_stat_qt_exceed''"
| "damo_name Feature_AvailableOperations = Some ''sysfs/avail_ops''"
| "damo_name Feature_OnlineParametersCommit = Some ''sysfs/online_params_commit''"
| "damo_name Feature_PeriodicRefresh = Some ''sysfs/refresh_ms''"
| "damo_name Feature_AddressUnit = Some ''sysfs/addr_unit''"
| "damo_name Feature_ContextPause = Some ''sysfs/ctx_pause''"
| "damo_name Feature_AttributeProbeCount = None"
| "damo_name Feature_ProbeFilterCount = None"
| "damo_name Feature_ProbeFilterType = None"
| "damo_name Feature_ProbeFilterMatching = None"
| "damo_name Feature_ProbeFilterAllow = None"
| "damo_name Feature_ProbeFilterPath = None"
| "damo_name Feature_SchemeApplyInterval = Some ''sysfs/schemes_apply_interval''"
| "damo_name Feature_ObsoleteTarget = Some ''sysfs/obsolete_target''"
| "damo_name Feature_InitialRegions = Some ''sysfs/init_regions''"
| "damo_name Feature_TriedRegions = Some ''sysfs/schemes_tried_regions''"
| "damo_name Feature_TriedRegionsTotalBytes = Some ''sysfs/schemes_tried_regions_sz''"
| "damo_name Feature_SchemeFilters = Some ''sysfs/schemes_filters''"
| "damo_name Feature_SchemeFilterAnonymous = Some ''sysfs/schemes_filters_anon''"
| "damo_name Feature_SchemeFilterMemoryControlGroup = Some ''sysfs/schemes_filters_memcg''"
| "damo_name Feature_SchemeFilterAddress = Some ''sysfs/schemes_filters_addr''"
| "damo_name Feature_SchemeFilterTarget = Some ''sysfs/schemes_filters_target''"
| "damo_name Feature_SchemeFilterYoung = Some ''sysfs/schemes_filters_young''"
| "damo_name Feature_SchemeFilterHugePageSize = Some ''sysfs/schemes_filters_hugepage_size''"
| "damo_name Feature_SchemeFilterUnmapped = Some ''sysfs/schemes_filters_unmapped''"
| "damo_name Feature_SchemeFilterActive = Some ''sysfs/schemes_filters_active''"
| "damo_name Feature_SchemeFilterProbeHitsWeightedSum = Some ''sysfs/damos_filter_probe_hits_wsum''"
| "damo_name Feature_SeparateSchemeFilterDirectories = Some ''sysfs/schemes_filters_core_ops_dirs''"
| "damo_name Feature_SchemeFilterAllow = Some ''sysfs/allow_filter''"
| "damo_name Feature_SchemeQuotaGoals = Some ''sysfs/schemes_quota_goals''"
| "damo_name Feature_SchemeQuotaEffectiveBytes = Some ''sysfs/schemes_quota_effective_bytes''"
| "damo_name Feature_SchemeQuotaGoalMetric = Some ''sysfs/schemes_quota_goal_metric''"
| "damo_name Feature_SchemeQuotaGoalSomePsi = Some ''sysfs/schemes_quota_goal_some_psi''"
| "damo_name Feature_SchemeQuotaGoalNodeMemory = Some ''sysfs/schemes_quota_goal_node_mem_used_free''"
| "damo_name Feature_SchemeQuotaGoalNodeMemoryControlGroup = Some ''sysfs/schemes_quota_goal_node_memcg_used_free''"
| "damo_name Feature_SchemeQuotaGoalActiveMemory = Some ''sysfs/damos_quota_goal_in_active_mem_bp''"
| "damo_name Feature_SchemeQuotaGoalNodeEligibleMemory = Some ''sysfs/damos_quota_goal_node_eligible_mem_bp''"
| "damo_name Feature_SchemeQuotaGoalHugePageMemory = None"
| "damo_name Feature_SchemeQuotaGoalTuner = Some ''sysfs/damos_quota_goal_tuner''"
| "damo_name Feature_SchemeQuotaFailureChargeRatio = Some ''sysfs/damos_quota_fail_charge_ratio''"
| "damo_name Feature_SchemeMigration = Some ''sysfs/schemes_migrate''"
| "damo_name Feature_SchemeDestinations = Some ''sysfs/schemes_dests''"
| "damo_name Feature_SchemeOperationsFilterPassedBytes = Some ''sysfs/sz_ops_filter_passed''"
| "damo_name Feature_SchemeApplicationSnapshotCount = Some ''sysfs/damos_stat_nr_snapshots''"
| "damo_name Feature_SchemeApplicationSnapshotLimit = Some ''sysfs/damos_max_nr_snapshots''"
| "damo_name Feature_CollapseAction = Some ''sysfs/damos_action_collapse''"
| "damo_name Feature_DamosAllocateAction = None"
| "damo_name Feature_DamosFreeAction = None"
| "damo_name Feature_MonitoringIntervalsGoal = Some ''sysfs/intervals_goal''"
| "damo_name Feature_AttributeMonitoring = Some ''sysfs/attrs_monitoring''"
| "damo_name Feature_ProbeTypeAnonymous = Some ''sysfs/probe_type_anon''"
| "damo_name Feature_ProbeTypeMemoryControlGroup = Some ''sysfs/probe_type_memcg''"
| "damo_name Feature_ProbeWeight = Some ''sysfs/probe_weights''"
| "damo_name Feature_ProbePreparations = Some ''sysfs/probe_preps''"
| "damo_name Feature_ProbePreparationSetPageIdle = Some ''sysfs/probe_prep_set_pgidle''"
| "damo_name Feature_ProbeTypePageIdleUnset = Some ''sysfs/probe_type_pgidle_unset''"
| "damo_name Feature_ProbeTypePageIdleSet = Some ''sysfs/probe_type_pgidle_set''"
| "damo_name Feature_SampleControl = Some ''sysfs/damon_sample_control''"
| "damo_name Feature_OperationAttributes = Some ''sysfs/ops_attrs''"

datatype capability_support = Supported | Unsupported | RequiresStaging | Unverified

record feature_cap =
  fc_feature :: sysfs_feature
  fc_support :: capability_support

record operation_cap =
  opc_operation :: operation
  opc_support :: capability_support

record capabilities =
  cap_operations :: "operation_cap list"
  cap_features :: "feature_cap list"
  cap_attribute_paths :: "string list"

section \<open>Lists of features\<close>

definition feature_support :: "feature_cap list \<Rightarrow> sysfs_feature \<Rightarrow> capability_support" where
  "feature_support cs f =
     (case find (\<lambda>c. fc_feature c = f) cs of None \<Rightarrow> Unsupported | Some c \<Rightarrow> fc_support c)"

fun set_feature_support ::
    "feature_cap list \<Rightarrow> sysfs_feature \<Rightarrow> capability_support \<Rightarrow> feature_cap list" where
  "set_feature_support [] f s = []"
| "set_feature_support (c # cs) f s =
     (if fc_feature c = f then c\<lparr>fc_support := s\<rparr> # cs else c # set_feature_support cs f s)"

fun capability_support_rank :: "capability_support \<Rightarrow> nat" where
  "capability_support_rank Unsupported = 0"
| "capability_support_rank RequiresStaging = 1"
| "capability_support_rank Unverified = 2"
| "capability_support_rank Supported = 3"

fun merge_one :: "feature_cap \<Rightarrow> feature_cap list \<Rightarrow> feature_cap list" where
  "merge_one a [] = [a]"
| "merge_one a (c # cs) =
     (if fc_feature c = fc_feature a then
        (if capability_support_rank (fc_support a) > capability_support_rank (fc_support c)
         then c\<lparr>fc_support := fc_support a\<rparr> else c) # cs
      else c # merge_one a cs)"

definition merge_feature_capabilities ::
    "feature_cap list \<Rightarrow> feature_cap list \<Rightarrow> feature_cap list" where
  "merge_feature_capabilities cs additions = fold merge_one additions cs"

section \<open>Queries\<close>

definition operation_support :: "capabilities \<Rightarrow> operation \<Rightarrow> capability_support option" where
  "operation_support c op =
     map_option opc_support (find (\<lambda>o'. opc_operation o' = op) (cap_operations c))"

definition supports_operation :: "capabilities \<Rightarrow> operation \<Rightarrow> bool" where
  "supports_operation c op = (operation_support c op = Some Supported)"

definition Capabilities_feature_support :: "capabilities \<Rightarrow> sysfs_feature \<Rightarrow> capability_support" where
  "Capabilities_feature_support c f = feature_support (cap_features c) f"

definition damo_feature_support :: "capabilities \<Rightarrow> string \<Rightarrow> capability_support option" where
  "damo_feature_support c name =
     map_option fc_support (find (\<lambda>f. damo_name (fc_feature f) = Some name) (cap_features c))"

definition has_attribute :: "capabilities \<Rightarrow> string \<Rightarrow> bool" where
  "has_attribute c relative_path = (binary_search (cap_attribute_paths c) relative_path \<noteq> None)"

section \<open>Corrections\<close>

definition operation_features :: "(operation \<times> sysfs_feature) list" where
  "operation_features =
     [(VirtualAddress, Feature_VirtualAddressOperation),
      (PhysicalAddress, Feature_PhysicalAddressOperation),
      (FixedVirtualAddress, Feature_FixedVirtualAddressOperation)]"

definition sync_one :: "operation \<times> sysfs_feature \<Rightarrow> capabilities \<Rightarrow> capabilities" where
  "sync_one of_feature c =
     c\<lparr>cap_features := set_feature_support (cap_features c) (snd of_feature)
        (case operation_support c (fst of_feature) of Some s \<Rightarrow> s | None \<Rightarrow> Unsupported)\<rparr>"

definition sync_operation_features :: "capabilities \<Rightarrow> capabilities" where
  "sync_operation_features c = fold sync_one operation_features c"

definition replace_operations :: "operation_cap list \<Rightarrow> capabilities \<Rightarrow> capabilities" where
  "replace_operations ops c = sync_operation_features (c\<lparr>cap_operations := ops\<rparr>)"

fun confirm_in :: "operation \<Rightarrow> operation_cap list \<Rightarrow> operation_cap list" where
  "confirm_in op [] = [\<lparr>opc_operation = op, opc_support = Supported\<rparr>]"
| "confirm_in op (c # cs) =
     (if opc_operation c = op then c\<lparr>opc_support := Supported\<rparr> # cs else c # confirm_in op cs)"

definition confirm_operation :: "operation \<Rightarrow> capabilities \<Rightarrow> capabilities" where
  "confirm_operation op c =
     sync_operation_features (c\<lparr>cap_operations := confirm_in op (cap_operations c)\<rparr>)"

definition confirm_feature :: "sysfs_feature \<Rightarrow> capabilities \<Rightarrow> capabilities" where
  "confirm_feature f c = c\<lparr>cap_features := set_feature_support (cap_features c) f Supported\<rparr>"

definition reject_feature :: "sysfs_feature \<Rightarrow> capabilities \<Rightarrow> capabilities" where
  "reject_feature f c = c\<lparr>cap_features := set_feature_support (cap_features c) f Unsupported\<rparr>"

definition apply_feature_capabilities :: "feature_cap list \<Rightarrow> capabilities \<Rightarrow> capabilities" where
  "apply_feature_capabilities fs c =
     c\<lparr>cap_features :=
        fold (\<lambda>f cs. set_feature_support cs (fc_feature f) (fc_support f)) fs (cap_features c)\<rparr>"

section \<open>What the lists hold\<close>

lemma set_feature_support_features [simp]:
  "map fc_feature (set_feature_support cs f s) = map fc_feature cs"
  by (induction cs) auto

lemma feature_support_Cons [simp]:
  "feature_support (c # cs) f = (if fc_feature c = f then fc_support c else feature_support cs f)"
  by (simp add: feature_support_def)

lemma feature_support_Nil [simp]: "feature_support [] f = Unsupported"
  by (simp add: feature_support_def)

lemma feature_support_set [simp]:
  "feature_support (set_feature_support cs f s) g =
     (if g = f \<and> f \<in> fc_feature ` set cs then s else feature_support cs g)"
  by (induction cs) auto

lemma apply_features [simp]:
  "map fc_feature (fold (\<lambda>f cs. set_feature_support cs (fc_feature f) (fc_support f)) fs cs)
     = map fc_feature cs"
  by (induction fs arbitrary: cs) simp_all

text \<open>Merging takes the better support of each feature, in whatever order.\<close>

lemma rank_eq [simp]: "capability_support_rank a = capability_support_rank b \<longleftrightarrow> a = b"
  by (cases a; cases b) simp_all

lemma merge_one_features [simp]:
  "fc_feature a \<in> fc_feature ` set cs \<Longrightarrow> map fc_feature (merge_one a cs) = map fc_feature cs"
  by (induction cs) auto

lemma feature_support_merge_one:
  "feature_support (merge_one a cs) f =
     (if f = fc_feature a \<and> capability_support_rank (feature_support cs f) < capability_support_rank (fc_support a)
      then fc_support a else feature_support cs f)"
  by (cases "fc_support a"; induction cs) auto

lemma rank_merge_one:
  "capability_support_rank (feature_support (merge_one a cs) f) =
     (if fc_feature a = f
      then max (capability_support_rank (fc_support a)) (capability_support_rank (feature_support cs f))
      else capability_support_rank (feature_support cs f))"
  by (auto simp: feature_support_merge_one)

definition ranks_of :: "sysfs_feature \<Rightarrow> feature_cap list \<Rightarrow> nat list" where
  "ranks_of f cs = map (\<lambda>c. capability_support_rank (fc_support c)) (filter (\<lambda>c. fc_feature c = f) cs)"

lemma merge_rank:
  "capability_support_rank (feature_support (merge_feature_capabilities cs additions) f) =
     Max (set (capability_support_rank (feature_support cs f) # ranks_of f additions))"
  unfolding Max.set_eq_fold
  by (induction additions arbitrary: cs)
    (auto simp: merge_feature_capabilities_def ranks_of_def rank_merge_one)

text \<open>The three features of the known operations say what the operations say.\<close>

definition operations_synced :: "capabilities \<Rightarrow> bool" where
  "operations_synced c \<longleftrightarrow>
     (\<forall>(op, f) \<in> set operation_features. f \<in> fc_feature ` set (cap_features c) \<longrightarrow>
        Capabilities_feature_support c f
          = (case operation_support c op of Some s \<Rightarrow> s | None \<Rightarrow> Unsupported))"

lemma sync_features [simp]:
  "map fc_feature (cap_features (sync_operation_features c)) = map fc_feature (cap_features c)"
  "cap_operations (sync_operation_features c) = cap_operations c"
  "cap_attribute_paths (sync_operation_features c) = cap_attribute_paths c"
  by (simp_all add: sync_operation_features_def operation_features_def sync_one_def)

lemma sync_operation_features_synced: "operations_synced (sync_operation_features c)"
proof -
  have members: "fc_feature ` set (set_feature_support cs f s) = fc_feature ` set cs" for cs f s
    by (metis list.set_map set_feature_support_features)
  show ?thesis
    by (auto simp: operations_synced_def sync_operation_features_def operation_features_def
        sync_one_def Capabilities_feature_support_def operation_support_def members)
qed

lemma confirm_in_find:
  "map_option opc_support (find (\<lambda>o'. opc_operation o' = op') (confirm_in op ops)) =
     (if op' = op then Some Supported
      else map_option opc_support (find (\<lambda>o'. opc_operation o' = op') ops))"
  by (induction ops) auto

lemma confirm_operation_support:
  "operation_support (confirm_operation op c) op' =
     (if op' = op then Some Supported else operation_support c op')"
  by (simp add: confirm_operation_def operation_support_def confirm_in_find)

end
