(* ===== verification/Discovery.thy ===== *)
theory Discovery
  imports Capabilities Hierarchy_Traces
begin

text \<open>
  \<^verbatim>\<open>src/src/sysfs/capabilities/discovery.rs\<close>: what a kernel's DAMON interface offers, found by
  looking at which files exist, and by writing candidate values where only a write can tell. With
  the staging of a capability probe from \<^verbatim>\<open>src/src/monitor/ownership.rs\<close> and the capabilities of
  an owned hierarchy.
\<close>

section \<open>Support of one feature\<close>

definition feature_capability :: "sysfs_feature \<Rightarrow> capability_support \<Rightarrow> feature_cap" where
  "feature_capability f s = \<lparr>fc_feature = f, fc_support = s\<rparr>"

definition operation_capability :: "operation \<Rightarrow> capability_support \<Rightarrow> operation_cap" where
  "operation_capability op s = \<lparr>opc_operation = op, opc_support = s\<rparr>"

definition unverified_value_support :: "capability_support \<Rightarrow> capability_support" where
  "unverified_value_support s = (if s = Supported then Unverified else s)"

definition combine_support :: "capability_support \<Rightarrow> capability_support \<Rightarrow> capability_support" where
  "combine_support semantic structural =
     (if semantic = Unsupported \<or> structural = Unsupported then Unsupported
      else if semantic = RequiresStaging \<or> structural = RequiresStaging then RequiresStaging
      else if semantic = Unverified \<or> structural = Unverified then Unverified
      else Supported)"

definition support_for_path :: "'k sysfs \<Rightarrow> path \<Rightarrow> ('k, capability_support) comp" where
  "support_for_path E p =
     sbind (path_exists E p) (\<lambda>present. sret (if present then Supported else Unsupported))"

definition support_for_directory :: "'k sysfs \<Rightarrow> path \<Rightarrow> ('k, capability_support) comp" where
  "support_for_directory E p =
     sbind (path_is_dir E p) (\<lambda>dir. sret (if dir then Supported else Unsupported))"

definition path_feature_capabilities ::
    "'k sysfs \<Rightarrow> (sysfs_feature \<times> path) list \<Rightarrow> ('k, feature_cap list) comp" where
  "path_feature_capabilities E features =
     smap (\<lambda>(f, p). sbind (support_for_path E p) (\<lambda>s. sret (feature_capability f s))) features"

fun indexed_attributes ::
    "'k sysfs \<Rightarrow> (path \<times> path) list \<Rightarrow> bool \<Rightarrow> ('k, capability_support) comp" where
  "indexed_attributes E [] needs_staging =
     sret (if needs_staging then RequiresStaging else Unsupported)"
| "indexed_attributes E ((count_path, attribute) # ps) needs_staging =
     sbind (path_exists E attribute) (\<lambda>present.
       if present then sret Supported
       else sbind (path_exists E count_path) (\<lambda>counted.
         if counted then
           sbind (read_usize E count_path) (\<lambda>n. indexed_attributes E ps (needs_staging \<or> n = 0))
         else indexed_attributes E ps needs_staging))"

definition indexed_attribute_support ::
    "'k sysfs \<Rightarrow> (path \<times> path) list \<Rightarrow> ('k, capability_support) comp" where
  "indexed_attribute_support E paths = indexed_attributes E paths False"

definition indexed_child_support :: "'k sysfs \<Rightarrow> path \<Rightarrow> path \<Rightarrow> ('k, capability_support) comp" where
  "indexed_child_support E count_path child_path =
     sbind (path_exists E count_path) (\<lambda>counted.
       if \<not> counted then sret Unsupported
       else sbind (read_usize E count_path) (\<lambda>n.
         if n = 0 then sret RequiresStaging else support_for_directory E child_path))"

definition child_attribute_support ::
    "'k sysfs \<Rightarrow> capability_support \<Rightarrow> path \<Rightarrow> ('k, capability_support) comp" where
  "child_attribute_support E child_support attribute =
     (if child_support = Supported then support_for_path E attribute else sret child_support)"

fun filter_values :: "'k sysfs \<Rightarrow> path list \<Rightarrow> bool \<Rightarrow> ('k, capability_support) comp" where
  "filter_values E [] unstaged_child =
     sret (if unstaged_child then RequiresStaging else Unsupported)"
| "filter_values E (directory # ds) unstaged_child =
     sbind (path_is_dir E directory) (\<lambda>dir.
       if \<not> dir then filter_values E ds unstaged_child
       else sbind (path_exists E (sub directory [''nr_filters''])) (\<lambda>counted.
         if \<not> counted then filter_values E ds unstaged_child
         else sbind (read_usize E (sub directory [''nr_filters''])) (\<lambda>n.
           if n = 0 then filter_values E ds True
           else sbind (path_exists E (sub directory [''0'', ''type''])) (\<lambda>typed.
             if typed then sret Unverified else filter_values E ds unstaged_child))))"

definition filter_value_support :: "'k sysfs \<Rightarrow> path list \<Rightarrow> ('k, capability_support) comp" where
  "filter_value_support E directories = filter_values E directories False"

section \<open>Passive inspection\<close>

definition context_semantic_capabilities ::
    "'k sysfs \<Rightarrow> path \<Rightarrow> path \<Rightarrow> ('k, feature_cap list) comp" where
  "context_semantic_capabilities E kdamond context =
     (let probes = sub context [''monitoring_attrs'', ''probes'', ''nr_probes''] in
      sbind (path_feature_capabilities E
        [(Feature_Schemes, sub context [''schemes'', ''nr_schemes'']),
         (Feature_AvailableOperations, sub context [''avail_operations'']),
         (Feature_OnlineParametersCommit, sub context [''avail_operations'']),
         (Feature_PeriodicRefresh, sub kdamond [''refresh_ms'']),
         (Feature_AddressUnit, sub context [''addr_unit'']),
         (Feature_ContextPause, sub context [''pause'']),
         (Feature_AttributeProbeCount, probes),
         (Feature_AttributeMonitoring, probes),
         (Feature_MonitoringIntervalsGoal,
            sub context [''monitoring_attrs'', ''intervals'', ''intervals_goal'', ''access_bp'']),
         (Feature_SampleControl, sub context [''monitoring_attrs'', ''sample'']),
         (Feature_OperationAttributes, sub context [''operations_attrs''])]) (\<lambda>others.
      sret (map (\<lambda>f. feature_capability f Unsupported)
              [Feature_VirtualAddressOperation, Feature_PhysicalAddressOperation,
               Feature_FixedVirtualAddressOperation] @ others)))"

definition scheme_semantic_capabilities ::
    "'k sysfs \<Rightarrow> path \<Rightarrow> ('k, feature_cap list) comp" where
  "scheme_semantic_capabilities E scheme =
     (let quotas = sub scheme [''quotas'']; stats = sub scheme [''stats''];
          tried_regions = sub scheme [''tried_regions''] in
      sbind (path_feature_capabilities E
        [(Feature_SchemeTimeQuota, sub quotas [''ms'']),
         (Feature_SchemeSizeQuota, sub quotas [''bytes'']),
         (Feature_SchemePrioritization, sub quotas [''weights'', ''sz_permil'']),
         (Feature_SchemeWatermarks, sub scheme [''watermarks'', ''metric'']),
         (Feature_SchemeSuccessfulStats, sub stats [''nr_applied'']),
         (Feature_SchemeQuotaExceededStats, sub stats [''qt_exceeds'']),
         (Feature_SchemeApplyInterval, sub scheme [''apply_interval_us'']),
         (Feature_SchemeQuotaGoals, sub quotas [''goals'', ''nr_goals'']),
         (Feature_SchemeQuotaEffectiveBytes, sub quotas [''effective_bytes'']),
         (Feature_SchemeMigration, sub scheme [''target_nid'']),
         (Feature_SchemeDestinations, sub scheme [''dests'', ''nr_dests'']),
         (Feature_SchemeOperationsFilterPassedBytes, sub stats [''sz_ops_filter_passed'']),
         (Feature_SchemeApplicationSnapshotCount, sub stats [''nr_snapshots'']),
         (Feature_SchemeApplicationSnapshotLimit, sub stats [''max_nr_snapshots'']),
         (Feature_SchemeQuotaGoalTuner, sub quotas [''goal_tuner'']),
         (Feature_SchemeQuotaFailureChargeRatio, sub quotas [''fail_charge_denom'']),
         (Feature_TriedRegionsTotalBytes, sub tried_regions [''total_bytes''])]) (\<lambda>files.
      sbind (smap (\<lambda>(f, d). sbind (support_for_directory E d) (\<lambda>s. sret (feature_capability f s)))
        [(Feature_SchemeFilters, sub scheme [''filters'']),
         (Feature_SeparateSchemeFilterDirectories, sub scheme [''core_filters'']),
         (Feature_TriedRegions, tried_regions)]) (\<lambda>directories.
      sret (files @ directories))))"

definition target_support :: "'k sysfs \<Rightarrow> usize \<Rightarrow> path \<Rightarrow> ('k, capability_support) comp" where
  "target_support E target_count p =
     (if target_count = 0 then sret RequiresStaging else support_for_path E p)"

definition target_semantic_capabilities ::
    "'k sysfs \<Rightarrow> path \<Rightarrow> usize \<Rightarrow> ('k, feature_cap list) comp" where
  "target_semantic_capabilities E context target_count =
     (let target = Context_target context 0 in
      sbind (target_support E target_count (sub target [''regions'', ''nr_regions''])) (\<lambda>regions.
      sbind (target_support E target_count (sub target [''obsolete_target''])) (\<lambda>obsolete.
      sret [feature_capability Feature_InitialRegions regions,
            feature_capability Feature_ObsoleteTarget obsolete])))"

definition scheme_filter_capabilities ::
    "'k sysfs \<Rightarrow> path \<Rightarrow> ('k, feature_cap list) comp" where
  "scheme_filter_capabilities E scheme =
     (let filters = sub scheme [''filters'']; core_filters = sub scheme [''core_filters''];
          ops_filters = sub scheme [''ops_filters''] in
      sbind (filter_value_support E [filters, core_filters, ops_filters]) (\<lambda>support.
      sbind (indexed_attribute_support E
        [(sub ops_filters [''nr_filters''], sub ops_filters [''0'', ''allow'']),
         (sub ops_filters [''nr_filters''], sub ops_filters [''0'', ''pass'']),
         (sub filters [''nr_filters''], sub filters [''0'', ''allow'']),
         (sub filters [''nr_filters''], sub filters [''0'', ''pass''])]) (\<lambda>allow.
      sret (map (\<lambda>f. feature_capability f support)
              [Feature_SchemeFilterAnonymous, Feature_SchemeFilterMemoryControlGroup,
               Feature_SchemeFilterAddress, Feature_SchemeFilterTarget, Feature_SchemeFilterYoung,
               Feature_SchemeFilterHugePageSize, Feature_SchemeFilterUnmapped,
               Feature_SchemeFilterActive, Feature_SchemeFilterProbeHitsWeightedSum]
            @ [feature_capability Feature_SchemeFilterAllow allow]))))"

definition quota_goal_capabilities ::
    "'k sysfs \<Rightarrow> path \<Rightarrow> ('k, feature_cap list) comp" where
  "quota_goal_capabilities E scheme =
     (let goals = sub scheme [''quotas'', ''goals'']; goal = sub goals [''0''] in
      sbind (indexed_child_support E (sub goals [''nr_goals'']) goal) (\<lambda>goal_support.
      sbind (child_attribute_support E goal_support (sub goal [''target_metric''])) (\<lambda>metric_support.
      let semantic_metric_support = unverified_value_support metric_support in
      sbind (child_attribute_support E goal_support (sub goal [''nid''])) (\<lambda>node_support.
      sbind (child_attribute_support E goal_support (sub goal [''path''])) (\<lambda>cgroup_support.
      sbind (support_for_path E (sub scheme [''action''])) (\<lambda>action.
      let action_support = unverified_value_support action in
      sret [feature_capability Feature_SchemeQuotaGoalMetric metric_support,
            feature_capability Feature_SchemeQuotaGoalSomePsi semantic_metric_support,
            feature_capability Feature_SchemeQuotaGoalNodeMemory
              (combine_support semantic_metric_support node_support),
            feature_capability Feature_SchemeQuotaGoalNodeMemoryControlGroup
              (combine_support semantic_metric_support cgroup_support),
            feature_capability Feature_SchemeQuotaGoalActiveMemory semantic_metric_support,
            feature_capability Feature_SchemeQuotaGoalNodeEligibleMemory
              (combine_support semantic_metric_support node_support),
            feature_capability Feature_SchemeQuotaGoalHugePageMemory semantic_metric_support,
            feature_capability Feature_CollapseAction action_support,
            feature_capability Feature_DamosAllocateAction action_support,
            feature_capability Feature_DamosFreeAction action_support]))))))"

definition probe_semantic_capabilities ::
    "'k sysfs \<Rightarrow> path \<Rightarrow> ('k, feature_cap list) comp" where
  "probe_semantic_capabilities E context =
     (let probes = sub context [''monitoring_attrs'', ''probes'']; probe = sub probes [''0''] in
      sbind (indexed_child_support E (sub probes [''nr_probes'']) probe) (\<lambda>probe_support.
      sbind (if probe_support = Supported
             then indexed_child_support E (sub probe [''filters'', ''nr_filters''])
                    (sub probe [''filters'', ''0''])
             else sret probe_support) (\<lambda>filter_support.
      sbind (if probe_support = Supported then support_for_directory E (sub probe [''preps''])
             else sret probe_support) (\<lambda>prep_support.
      sbind (if prep_support = Supported
             then indexed_child_support E (sub probe [''preps'', ''nr_preps''])
                    (sub probe [''preps'', ''0''])
             else sret prep_support) (\<lambda>prep_child_support.
      let filter_value_support = unverified_value_support filter_support in
      sbind (child_attribute_support E probe_support (sub probe [''weight''])) (\<lambda>weight_support.
      sbind (child_attribute_support E prep_child_support
               (sub probe [''preps'', ''0'', ''prep_action''])) (\<lambda>prep_action_support.
      sret [feature_capability Feature_ProbeTypeAnonymous filter_value_support,
            feature_capability Feature_ProbeTypeMemoryControlGroup filter_value_support,
            feature_capability Feature_ProbeWeight weight_support,
            feature_capability Feature_ProbePreparations prep_support,
            feature_capability Feature_ProbePreparationSetPageIdle
              (unverified_value_support prep_action_support),
            feature_capability Feature_ProbeTypePageIdleUnset filter_value_support,
            feature_capability Feature_ProbeTypePageIdleSet filter_value_support])))))))"

definition probe_feature_capabilities ::
    "'k sysfs \<Rightarrow> path \<Rightarrow> ('k, feature_cap list) comp" where
  "probe_feature_capabilities E context =
     (let probes = sub context [''monitoring_attrs'', ''probes''];
          probe_filter = sub probes [''0'', ''filters'', ''0''] in
      sbind (support_for_path E (sub probes [''nr_probes''])) (\<lambda>probe_count_support.
      sbind (if probe_count_support \<noteq> Supported then sret probe_count_support
             else sbind (Context_probe_count E context) (\<lambda>n.
               if n = 0 then sret RequiresStaging
               else support_for_path E (sub probes [''0'', ''filters'', ''nr_filters''])))
        (\<lambda>probe_filter_count_support.
      sbind (if probe_filter_count_support \<noteq> Supported then sret probe_filter_count_support
             else sbind (Probe_filter_count E (Context_probe context 0)) (\<lambda>n.
               sret (if n = 0 then RequiresStaging else Supported))) (\<lambda>attribute_support.
      sbind (smap (\<lambda>(f, name).
               sbind (if attribute_support = Supported
                      then support_for_path E (sub probe_filter [name])
                      else sret attribute_support) (\<lambda>s. sret (feature_capability f s)))
             [(Feature_ProbeFilterType, ''type''), (Feature_ProbeFilterMatching, ''matching''),
              (Feature_ProbeFilterAllow, ''allow''), (Feature_ProbeFilterPath, ''path'')])
        (\<lambda>attributes.
      sret (feature_capability Feature_ProbeFilterCount probe_filter_count_support # attributes))))))"

definition semantic_feature_capabilities ::
    "'k sysfs \<Rightarrow> path \<Rightarrow> path \<Rightarrow> path \<Rightarrow> usize \<Rightarrow> ('k, feature_cap list) comp" where
  "semantic_feature_capabilities E kdamond context scheme target_count =
     sbind (context_semantic_capabilities E kdamond context) (\<lambda>a.
     sbind (scheme_semantic_capabilities E scheme) (\<lambda>b.
     sbind (target_semantic_capabilities E context target_count) (\<lambda>c.
     sbind (scheme_filter_capabilities E scheme) (\<lambda>d.
     sbind (quota_goal_capabilities E scheme) (\<lambda>e.
     sbind (probe_semantic_capabilities E context) (\<lambda>f.
       sret (a @ b @ c @ d @ e @ f)))))))"

section \<open>Operations\<close>

definition known_operations :: "operation list" where
  "known_operations = [VirtualAddress, PhysicalAddress, FixedVirtualAddress]"

definition is_unknown_operation :: "operation \<Rightarrow> bool" where
  "is_unknown_operation op = (case op of UnknownOperation _ \<Rightarrow> True | _ \<Rightarrow> False)"

definition listed_operation_capabilities :: "operation list \<Rightarrow> operation_cap list" where
  "listed_operation_capabilities available =
     map (\<lambda>op. operation_capability op (if op \<in> set available then Supported else Unsupported))
       known_operations
     @ map (\<lambda>op. operation_capability op Supported) (filter is_unknown_operation available)"

definition passive_operation_capabilities :: "operation \<Rightarrow> operation_cap list" where
  "passive_operation_capabilities selected =
     map (\<lambda>op. operation_capability op (if op = selected then Unverified else RequiresStaging))
       known_operations
     @ (if is_unknown_operation selected then [operation_capability selected Unverified] else [])"

section \<open>Discovery\<close>

definition merge_scheme ::
    "'k sysfs \<Rightarrow> path \<Rightarrow> feature_cap list \<Rightarrow> ('k, feature_cap list) comp" where
  "merge_scheme E scheme features =
     sbind (scheme_semantic_capabilities E scheme) (\<lambda>a.
     let features = merge_feature_capabilities features a in
     sbind (scheme_filter_capabilities E scheme) (\<lambda>b.
     let features = merge_feature_capabilities features b in
     sbind (quota_goal_capabilities E scheme) (\<lambda>c.
       sret (merge_feature_capabilities features c))))"

fun merge_schemes ::
    "'k sysfs \<Rightarrow> path \<Rightarrow> usize list \<Rightarrow> feature_cap list \<Rightarrow> ('k, feature_cap list) comp"
  where
  "merge_schemes E context [] features = sret features"
| "merge_schemes E context (i # is) features =
     sbind (merge_scheme E (Context_scheme context i) features) (merge_schemes E context is)"

definition check_scheme_index :: "usize \<Rightarrow> usize \<Rightarrow> unit result" where
  "check_scheme_index n i = (if i \<ge> n then Inl (IndexOutOfBounds ''scheme'' i n) else Inr ())"

definition Kdamond_capabilities_for_schemes ::
    "'k sysfs \<Rightarrow> path \<Rightarrow> usize \<Rightarrow> usize list \<Rightarrow> ('k, capabilities) comp" where
  "Kdamond_capabilities_for_schemes E kdamond context_index scheme_indices =
     sbind (Kdamond_context_count E kdamond) (\<lambda>context_count.
     if context_index \<ge> context_count
     then sfail (IndexOutOfBounds ''context'' context_index context_count)
     else
       let context = Kdamond_context kdamond context_index in
       sbind (Context_scheme_count E context) (\<lambda>scheme_count.
       sbind (seach (\<lambda>i. slift (check_scheme_index scheme_count i)) scheme_indices) (\<lambda>_.
       case scheme_indices of
         [] \<Rightarrow> sfail (InvalidConfiguration ''capability scheme indexes''
                  ''must contain at least one scheme index'')
       | first # remaining \<Rightarrow>
           sbind (Context_target_count E context) (\<lambda>target_count.
           sbind (semantic_feature_capabilities E kdamond context (Context_scheme context first)
                    target_count) (\<lambda>semantic.
           sbind (probe_feature_capabilities E context) (\<lambda>probes.
           sbind (merge_schemes E context remaining (semantic @ probes)) (\<lambda>features.
           sbind (if feature_support features Feature_AvailableOperations = Supported
                  then sbind (Context_available_operations E context) (\<lambda>available.
                    sret (listed_operation_capabilities available))
                  else sbind (Context_operation E context) (\<lambda>selected.
                    sret (passive_operation_capabilities selected))) (\<lambda>operations.
           sbind (observed_attribute_paths E kdamond) (\<lambda>paths.
             sret (sync_operation_features
               \<lparr>cap_operations = operations, cap_features = features,
                cap_attribute_paths = paths\<rparr>))))))))))"

definition Kdamond_capabilities ::
    "'k sysfs \<Rightarrow> path \<Rightarrow> usize \<Rightarrow> usize \<Rightarrow> ('k, capabilities) comp" where
  "Kdamond_capabilities E kdamond context_index scheme_index =
     Kdamond_capabilities_for_schemes E kdamond context_index [scheme_index]"

end
