(* ===== verification/Capability_Probe.thy ===== *)
theory Capability_Probe
  imports Discovery
begin

text \<open>
  The probing half of \<^verbatim>\<open>src/src/sysfs/capabilities/discovery.rs\<close>: candidate values are written
  and read back, and what was there is put back. With \<open>stage_capability_probe\<close> of
  \<^verbatim>\<open>src/src/monitor/ownership.rs\<close>, and the capabilities of an owned hierarchy from \<^verbatim>\<open>src/src/monitor/hierarchy.rs\<close>.
\<close>

section \<open>Trying and putting back\<close>

fun is_unsupported_value_write :: "error \<Rightarrow> bool" where
  "is_unsupported_value_write (Io _ _ source) = (raw_os_error source = Some 22)"
| "is_unsupported_value_write _ = False"

fun after_probe :: "'a result \<Rightarrow> unit result \<Rightarrow> 'a result" where
  "after_probe (Inr x) (Inr _) = Inr x"
| "after_probe (Inl operation) (Inr _) = Inl operation"
| "after_probe (Inr _) (Inl restoring) = Inl restoring"
| "after_probe (Inl operation) (Inl rollback) = Inl (Rollback operation rollback)"

text \<open>The probe, then the restoration whatever the probe's result, then both results.\<close>

definition probe_and_restore :: "('k, 'a) comp \<Rightarrow> ('k, unit) comp \<Rightarrow> ('k, 'a) comp" where
  "probe_and_restore probe restoration =
     stry probe (\<lambda>p. stry restoration (\<lambda>r. slift (after_probe p r)))"

fun try_value :: "'k sysfs \<Rightarrow> path list \<Rightarrow> string \<Rightarrow> ('k, capability_support) comp" where
  "try_value E [] v = sret Unsupported"
| "try_value E (p # ps) v =
     sbind (path_exists E p) (\<lambda>present.
       if \<not> present then try_value E ps v
       else stry (write_bytes E p v) (\<lambda>r.
         case r of
           Inr _ \<Rightarrow>
             sbind (read_text E p) (\<lambda>observed.
               if trim observed = v then sret Supported else try_value E ps v)
         | Inl e \<Rightarrow> if is_unsupported_value_write e then try_value E ps v else sfail e))"

definition reset_counts :: "'k sysfs \<Rightarrow> path list \<Rightarrow> ('k, unit) comp" where
  "reset_counts E paths =
     seach (\<lambda>p. sbind (path_exists E p) (\<lambda>present.
       if present then write_value E p (1 :: u8) else sret ())) paths"

definition probe_accepted_values ::
    "'k sysfs \<Rightarrow> path list \<Rightarrow> path list \<Rightarrow> (sysfs_feature \<times> string) list
       \<Rightarrow> ('k, feature_cap list) comp" where
  "probe_accepted_values E value_paths reset_count_paths candidates =
     probe_and_restore
       (smap (\<lambda>(f, v). sbind (try_value E value_paths v) (\<lambda>s. sret (feature_capability f s))) candidates)
       (reset_counts E reset_count_paths)"

definition try_preserving :: "'k sysfs \<Rightarrow> path \<Rightarrow> string \<Rightarrow> ('k, capability_support) comp" where
  "try_preserving E p v =
     stry (write_bytes E p v) (\<lambda>r.
       case r of
         Inr _ \<Rightarrow>
           sbind (read_text E p) (\<lambda>observed.
             sret (if trim observed = v then Supported else Unsupported))
       | Inl e \<Rightarrow> if is_unsupported_value_write e then sret Unsupported else sfail e)"

definition probe_accepted_values_preserving ::
    "'k sysfs \<Rightarrow> path \<Rightarrow> (sysfs_feature \<times> string) list \<Rightarrow> ('k, feature_cap list) comp" where
  "probe_accepted_values_preserving E p candidates =
     sbind (path_exists E p) (\<lambda>present.
       if \<not> present then sret (map (\<lambda>(f, _). feature_capability f Unsupported) candidates)
       else
         sbind (read_text E p) (\<lambda>original.
           probe_and_restore
             (smap (\<lambda>(f, v). sbind (try_preserving E p v) (\<lambda>s. sret (feature_capability f s))) candidates)
             (write_bytes E p original)))"

section \<open>Probing a staged kdamond\<close>

definition try_operation :: "'k sysfs \<Rightarrow> path \<Rightarrow> operation \<Rightarrow> ('k, operation_cap) comp" where
  "try_operation E context candidate =
     stry (Context_set_operation E context candidate) (\<lambda>r.
       case r of
         Inr _ \<Rightarrow>
           sbind (Context_operation E context) (\<lambda>observed.
             sret (operation_capability candidate (if observed = candidate then Unverified else Unsupported)))
       | Inl e \<Rightarrow>
           if is_unsupported_value_write e then sret (operation_capability candidate Unsupported)
           else sfail e)"

definition probe_operations :: "'k sysfs \<Rightarrow> path \<Rightarrow> usize \<Rightarrow> ('k, operation_cap list) comp" where
  "probe_operations E kdamond context_index =
     (let context = Kdamond_context kdamond context_index in
      sbind (Context_available_operations_if_present E context) (\<lambda>listed.
        case listed of
          Some operations \<Rightarrow> sret (listed_operation_capabilities operations)
        | None \<Rightarrow>
            sbind (Context_operation E context) (\<lambda>original.
              probe_and_restore
                (sbind (smap (try_operation E context) known_operations) (\<lambda>tried.
                   sret ((if is_unknown_operation original
                          then [operation_capability original Unverified] else []) @ tried)))
                (Context_set_operation E context original))))"

definition stage_optional_capability_children ::
    "'k sysfs \<Rightarrow> path \<Rightarrow> usize \<Rightarrow> usize \<Rightarrow> usize \<Rightarrow> ('k, unit) comp" where
  "stage_optional_capability_children E kdamond context_index target_index scheme_index =
     (let context = Kdamond_context kdamond context_index;
          target = Context_target context target_index; scheme = Context_scheme context scheme_index in
      seach (\<lambda>p. sbind (write_value_if_present E p (1 :: u8)) (\<lambda>_. sret ()))
        [sub target [''regions'', ''nr_regions''],
         sub scheme [''quotas'', ''goals'', ''nr_goals''],
         sub scheme [''core_filters'', ''nr_filters''],
         sub scheme [''ops_filters'', ''nr_filters''],
         sub scheme [''filters'', ''nr_filters''],
         sub scheme [''dests'', ''nr_dests'']])"

definition stage_optional_probe_capability_children ::
    "'k sysfs \<Rightarrow> path \<Rightarrow> usize \<Rightarrow> usize \<Rightarrow> ('k, unit) comp" where
  "stage_optional_probe_capability_children E kdamond context_index probe_index =
     sbind (write_value_if_present E
              (sub (Context_probe (Kdamond_context kdamond context_index) probe_index)
                 [''preps'', ''nr_preps'']) (1 :: u8)) (\<lambda>_. sret ())"

text \<open>The \<open>type\<close> file of the first child beside a count file: \<open>with_file_name("0").join("type")\<close>.\<close>

definition first_type :: "path \<Rightarrow> path" where
  "first_type count_path = butlast count_path @ [Normal ''0'', Normal ''type'']"

fun existing_types :: "'k sysfs \<Rightarrow> path list \<Rightarrow> ('k, path list) comp" where
  "existing_types E [] = sret []"
| "existing_types E (p # ps) =
     sbind (path_exists E p) (\<lambda>present.
     sbind (existing_types E ps) (\<lambda>types.
       sret (if present then first_type p # types else types)))"

definition probe_semantic_filter_capabilities ::
    "'k sysfs \<Rightarrow> path \<Rightarrow> usize \<Rightarrow> usize \<Rightarrow> ('k, feature_cap list) comp" where
  "probe_semantic_filter_capabilities E kdamond context_index scheme_index =
     (let context = Kdamond_context kdamond context_index;
          scheme = Context_scheme context scheme_index;
          scheme_filter_counts =
            [sub scheme [''filters'', ''nr_filters''], sub scheme [''core_filters'', ''nr_filters''],
             sub scheme [''ops_filters'', ''nr_filters'']];
          probe_filter_count =
            sub context [''monitoring_attrs'', ''probes'', ''0'', ''filters'', ''nr_filters''] in
      sbind (existing_types E scheme_filter_counts) (\<lambda>scheme_filter_types.
      sbind (probe_accepted_values E scheme_filter_types scheme_filter_counts
               [(Feature_SchemeFilterAnonymous, ''anon''),
                (Feature_SchemeFilterMemoryControlGroup, ''memcg''),
                (Feature_SchemeFilterAddress, ''addr''), (Feature_SchemeFilterTarget, ''target''),
                (Feature_SchemeFilterYoung, ''young''),
                (Feature_SchemeFilterHugePageSize, ''hugepage_size''),
                (Feature_SchemeFilterUnmapped, ''unmapped''), (Feature_SchemeFilterActive, ''active''),
                (Feature_SchemeFilterProbeHitsWeightedSum, ''probe_hits_wsum'')]) (\<lambda>capabilities.
      sbind (path_exists E probe_filter_count) (\<lambda>present.
        if present then
          sbind (probe_accepted_values E [first_type probe_filter_count] [probe_filter_count]
                   [(Feature_ProbeTypeAnonymous, ''anon''),
                    (Feature_ProbeTypeMemoryControlGroup, ''memcg''),
                    (Feature_ProbeTypePageIdleUnset, ''pgidle_unset''),
                    (Feature_ProbeTypePageIdleSet, ''pgidle_set'')]) (\<lambda>probe_types.
            sret (capabilities @ probe_types))
        else sret capabilities))))"

definition probe_semantic_value_capabilities ::
    "'k sysfs \<Rightarrow> path \<Rightarrow> usize \<Rightarrow> usize \<Rightarrow> ('k, feature_cap list) comp" where
  "probe_semantic_value_capabilities E kdamond context_index scheme_index =
     (let context = Kdamond_context kdamond context_index;
          scheme = Context_scheme context scheme_index in
      sbind (probe_accepted_values_preserving E (sub scheme [''action''])
               [(Feature_CollapseAction, ''collapse''), (Feature_DamosAllocateAction, ''damos_alloc''),
                (Feature_DamosFreeAction, ''damos_free'')]) (\<lambda>actions.
      sbind (probe_accepted_values_preserving E
               (sub scheme [''quotas'', ''goals'', ''0'', ''target_metric''])
               [(Feature_SchemeQuotaGoalSomePsi, ''some_mem_psi_us''),
                (Feature_SchemeQuotaGoalNodeMemory, ''node_mem_used_bp''),
                (Feature_SchemeQuotaGoalNodeMemoryControlGroup, ''node_memcg_used_bp''),
                (Feature_SchemeQuotaGoalActiveMemory, ''active_mem_bp''),
                (Feature_SchemeQuotaGoalNodeEligibleMemory, ''node_eligible_mem_bp''),
                (Feature_SchemeQuotaGoalHugePageMemory, ''hugepage_mem_bp'')]) (\<lambda>metrics.
      sbind (probe_accepted_values_preserving E
               (sub context [''monitoring_attrs'', ''probes'', ''0'', ''preps'', ''0'', ''prep_action''])
               [(Feature_ProbePreparationSetPageIdle, ''set_pgidle'')]) (\<lambda>preparations.
      sret (actions @ metrics @ preparations)))))"

section \<open>The capability probe\<close>

definition stage_probe_children :: "'k sysfs \<Rightarrow> path \<Rightarrow> path \<Rightarrow> ('k, unit) comp" where
  "stage_probe_children E kdamond context =
     sbind (retry_busy E (Context_set_probe_count E context 1)) (\<lambda>_.
     sbind (Kdamond_capabilities E kdamond 0 0) (\<lambda>with_probe.
     sbind (if Capabilities_feature_support with_probe Feature_ProbeFilterCount = Supported
            then retry_busy E (Probe_set_filter_count E (Context_probe context 0) 1)
            else sret ()) (\<lambda>_.
       retry_busy E (stage_optional_probe_capability_children E kdamond 0 0))))"

definition stage_capability_probe :: "'k sysfs \<Rightarrow> path \<Rightarrow> ('k, capabilities \<times> fingerprint) comp" where
  "stage_capability_probe E kdamond =
     (let context = Kdamond_context kdamond 0 in
      sbind (Kdamond_set_default_refresh_interval_if_present E kdamond) (\<lambda>_.
      sbind (retry_busy E (Kdamond_set_context_count E kdamond 1)) (\<lambda>_.
      sbind (retry_busy E (Context_set_target_count E context 1)) (\<lambda>_.
      sbind (retry_busy E (Context_set_scheme_count E context 1)) (\<lambda>_.
      sbind (stage_optional_capability_children E kdamond 0 0 0) (\<lambda>_.
      sbind (Kdamond_capabilities E kdamond 0 0) (\<lambda>preliminary.
      sbind (if Capabilities_feature_support preliminary Feature_AttributeProbeCount = Supported
             then stage_probe_children E kdamond context else sret ()) (\<lambda>_.
      sbind (retry_busy E (probe_semantic_filter_capabilities E kdamond 0 0)) (\<lambda>filter_capabilities.
      sbind (retry_busy E (probe_semantic_value_capabilities E kdamond 0 0)) (\<lambda>value_capabilities.
      sbind (Kdamond_capabilities E kdamond 0 0) (\<lambda>capabilities.
      sbind (retry_busy E (probe_operations E kdamond 0)) (\<lambda>operations.
      sbind (Kdamond_configuration_fingerprint E kdamond) (\<lambda>fp.
        sret (replace_operations operations
                (apply_feature_capabilities (filter_capabilities @ value_capabilities) capabilities),
              fp))))))))))))))"

section \<open>The capabilities of an owned hierarchy\<close>

definition Hierarchy_capabilities ::
    "'k sysfs \<Rightarrow> managed_hierarchy \<Rightarrow> usize \<Rightarrow> usize \<Rightarrow> usize \<Rightarrow> ('k, capabilities) comp" where
  "Hierarchy_capabilities E s k c i =
     sbind (slift (validate_kdamond_index s k)) (\<lambda>_.
     sbind (verify_owned_state E s) (\<lambda>_.
     sbind (retry_busy E (Kdamond_capabilities E (Hierarchy_kdamond s k) c i)) (\<lambda>capabilities.
     sbind (verify_owned_state E s) (\<lambda>_. sret capabilities))))"

end
