(* ===== verification/Capability_Lemmas.thy ===== *)
theory Capability_Lemmas
  imports Capability_Probe
begin

text \<open>
  Discovery lists every feature once, whatever the kernel answers, and only reads. Probing writes
  attributes only, and ends by writing back what it read.
\<close>

section \<open>Every feature is listed once\<close>

definition discovered_features :: "sysfs_feature list" where
  "discovered_features =
     [Feature_VirtualAddressOperation, Feature_PhysicalAddressOperation,
      Feature_FixedVirtualAddressOperation, Feature_Schemes, Feature_AvailableOperations,
      Feature_OnlineParametersCommit, Feature_PeriodicRefresh, Feature_AddressUnit,
      Feature_ContextPause, Feature_AttributeProbeCount, Feature_AttributeMonitoring,
      Feature_MonitoringIntervalsGoal, Feature_SampleControl, Feature_OperationAttributes]"

definition scheme_features :: "sysfs_feature list" where
  "scheme_features =
     [Feature_SchemeTimeQuota, Feature_SchemeSizeQuota, Feature_SchemePrioritization,
      Feature_SchemeWatermarks, Feature_SchemeSuccessfulStats, Feature_SchemeQuotaExceededStats,
      Feature_SchemeApplyInterval, Feature_SchemeQuotaGoals, Feature_SchemeQuotaEffectiveBytes,
      Feature_SchemeMigration, Feature_SchemeDestinations,
      Feature_SchemeOperationsFilterPassedBytes, Feature_SchemeApplicationSnapshotCount,
      Feature_SchemeApplicationSnapshotLimit, Feature_SchemeQuotaGoalTuner,
      Feature_SchemeQuotaFailureChargeRatio, Feature_TriedRegionsTotalBytes,
      Feature_SchemeFilters, Feature_SeparateSchemeFilterDirectories, Feature_TriedRegions]"

definition filter_features :: "sysfs_feature list" where
  "filter_features =
     [Feature_SchemeFilterAnonymous, Feature_SchemeFilterMemoryControlGroup,
      Feature_SchemeFilterAddress, Feature_SchemeFilterTarget, Feature_SchemeFilterYoung,
      Feature_SchemeFilterHugePageSize, Feature_SchemeFilterUnmapped, Feature_SchemeFilterActive,
      Feature_SchemeFilterProbeHitsWeightedSum, Feature_SchemeFilterAllow]"

definition goal_features :: "sysfs_feature list" where
  "goal_features =
     [Feature_SchemeQuotaGoalMetric, Feature_SchemeQuotaGoalSomePsi,
      Feature_SchemeQuotaGoalNodeMemory, Feature_SchemeQuotaGoalNodeMemoryControlGroup,
      Feature_SchemeQuotaGoalActiveMemory, Feature_SchemeQuotaGoalNodeEligibleMemory,
      Feature_SchemeQuotaGoalHugePageMemory, Feature_CollapseAction,
      Feature_DamosAllocateAction, Feature_DamosFreeAction]"

definition probe_features :: "sysfs_feature list" where
  "probe_features =
     [Feature_ProbeTypeAnonymous, Feature_ProbeTypeMemoryControlGroup, Feature_ProbeWeight,
      Feature_ProbePreparations, Feature_ProbePreparationSetPageIdle,
      Feature_ProbeTypePageIdleUnset, Feature_ProbeTypePageIdleSet, Feature_ProbeFilterCount,
      Feature_ProbeFilterType, Feature_ProbeFilterMatching, Feature_ProbeFilterAllow,
      Feature_ProbeFilterPath]"

definition all_features :: "sysfs_feature list" where
  "all_features =
     discovered_features @ scheme_features @ [Feature_InitialRegions, Feature_ObsoleteTarget]
     @ filter_features @ goal_features @ probe_features"

lemmas feature_lists =
  all_features_def discovered_features_def scheme_features_def filter_features_def
  goal_features_def probe_features_def

lemma all_features_distinct: "distinct all_features"
  by (simp add: feature_lists)

lemma all_features_complete: "f \<in> set all_features"
  by (cases f) (simp_all add: feature_lists)

abbreviation lists :: "sysfs_feature list \<Rightarrow> ('k, feature_cap list) comp \<Rightarrow> bool" where
  "lists fs m \<equiv> yields (\<lambda>cs. map fc_feature cs = fs) m"

lemma feature_capability_feature [simp]: "fc_feature (feature_capability f s) = f"
  by (simp add: feature_capability_def)

lemma smap_lists:
  "lists (map fst fs) (smap (\<lambda>(f, p). sbind (g f p) (\<lambda>s. sret (feature_capability f s))) fs)"
proof (induction fs)
  case Nil
  then show ?case by (simp add: yields_sret)
next
  case (Cons fp fs)
  have head: "yields (\<lambda>c. fc_feature c = fst fp)
      (case fp of (f, p) \<Rightarrow> sbind (g f p) (\<lambda>s. sret (feature_capability f s)))"
    by (cases fp) (auto intro!: yields_rules)
  show ?case
    unfolding smap.simps by (rule yields_sbind [OF head], rule yields_sbind [OF Cons]) (simp add: yields_sret)
qed

lemma path_features_list: "lists (map fst fs) (path_feature_capabilities E fs)"
  unfolding path_feature_capabilities_def by (rule smap_lists)

lemma context_list: "lists discovered_features (context_semantic_capabilities E kdamond context)"
  unfolding context_semantic_capabilities_def Let_def
  by (rule yields_sbind [OF path_features_list])
    (simp add: yields_sret discovered_features_def)

lemma scheme_list: "lists scheme_features (scheme_semantic_capabilities E scheme)"
  unfolding scheme_semantic_capabilities_def Let_def
  by (rule yields_sbind [OF path_features_list], rule yields_sbind [OF smap_lists])
    (simp add: yields_sret scheme_features_def)

lemma target_list: "lists [Feature_InitialRegions, Feature_ObsoleteTarget]
    (target_semantic_capabilities E context n)"
  unfolding target_semantic_capabilities_def Let_def by (auto intro!: yields_rules)

lemma filter_list: "lists filter_features (scheme_filter_capabilities E scheme)"
  unfolding scheme_filter_capabilities_def Let_def
  by (auto intro!: yields_rules simp: filter_features_def)

lemma goal_list: "lists goal_features (quota_goal_capabilities E scheme)"
  unfolding quota_goal_capabilities_def Let_def
  by (auto intro!: yields_rules simp: goal_features_def)

lemma probe_list:
  "lists (take 7 probe_features) (probe_semantic_capabilities E context)"
  "lists (drop 7 probe_features) (probe_feature_capabilities E context)"
  unfolding probe_semantic_capabilities_def probe_feature_capabilities_def Let_def
   apply (intro yields_sbind_any, simp add: yields_sret probe_features_def)
  apply (intro yields_sbind_any [where m = "support_for_path _ _"] yields_sbind_any [where m = "If _ _ _"],
      rule yields_sbind [OF smap_lists], simp add: yields_sret probe_features_def)
  done

text \<open>Merging the other schemes keeps the list.\<close>

lemma merge_features [simp]:
  "fc_feature ` set additions \<subseteq> fc_feature ` set cs \<Longrightarrow>
     map fc_feature (merge_feature_capabilities cs additions) = map fc_feature cs"
proof (induction additions arbitrary: cs)
  case (Cons a additions)
  then have one: "map fc_feature (merge_one a cs) = map fc_feature cs" by simp
  then have "fc_feature ` set (merge_one a cs) = fc_feature ` set cs"
    by (metis list.set_map)
  with Cons.IH [of "merge_one a cs"] Cons.prems one show ?case
    by (simp add: merge_feature_capabilities_def)
qed (simp add: merge_feature_capabilities_def)

lemma merge_all [simp]:
  "map fc_feature cs = all_features \<Longrightarrow>
     map fc_feature (merge_feature_capabilities cs additions) = all_features"
  using merge_features [of additions cs] all_features_complete
  by (metis list.set_map subsetI)

lemma merge_scheme_list:
  assumes "map fc_feature cs = all_features"
  shows "lists all_features (merge_scheme E scheme cs)"
  unfolding merge_scheme_def Let_def
  by (intro yields_sbind_any yields_sret) (simp add: assms)

lemma merge_schemes_list:
  "map fc_feature cs = all_features \<Longrightarrow> lists all_features (merge_schemes E context is cs)"
proof (induction "is" arbitrary: cs)
  case Nil
  then show ?case by (simp add: yields_sret)
next
  case (Cons i "is")
  then show ?case
    by (simp only: merge_schemes.simps, intro yields_sbind [OF merge_scheme_list]) auto
qed

lemma semantic_list:
  "lists (discovered_features @ scheme_features @ [Feature_InitialRegions, Feature_ObsoleteTarget]
      @ filter_features @ goal_features @ take 7 probe_features)
    (semantic_feature_capabilities E kdamond context scheme n)"
  unfolding semantic_feature_capabilities_def
  by (rule yields_sbind [OF context_list], rule yields_sbind [OF scheme_list],
      rule yields_sbind [OF target_list], rule yields_sbind [OF filter_list],
      rule yields_sbind [OF goal_list], rule yields_sbind [OF probe_list(1)])
    (simp add: yields_sret)

text \<open>What a set of capabilities satisfies, after discovery and after every correction.\<close>

definition capabilities_wf :: "capabilities \<Rightarrow> bool" where
  "capabilities_wf c \<longleftrightarrow>
     map fc_feature (cap_features c) = all_features
     \<and> (\<forall>op f. (op, f) \<in> set operation_features \<longrightarrow>
          Capabilities_feature_support c f
            = (case operation_support c op of Some s \<Rightarrow> s | None \<Rightarrow> Unsupported))
     \<and> sorted (cap_attribute_paths c)"

lemma synced_wf:
  assumes "map fc_feature (cap_features c) = all_features" and "sorted (cap_attribute_paths c)"
  shows "capabilities_wf (sync_operation_features c)"
proof -
  have "f \<in> fc_feature ` set (cap_features (sync_operation_features c))" for f
    using assms(1) all_features_complete by (metis list.set_map sync_features(1))
  with sync_operation_features_synced [of c] assms show ?thesis
    by (auto simp: capabilities_wf_def operations_synced_def)
qed

lemma observed_attribute_paths_sorted: "yields sorted (observed_attribute_paths E root)"
  unfolding observed_attribute_paths_def by (auto intro!: yields_rules)

lemma Kdamond_capabilities_for_schemes_wf:
  "yields capabilities_wf (Kdamond_capabilities_for_schemes E kdamond c is)"
proof -
  have merged: "lists all_features (sbind (semantic_feature_capabilities E kdamond ctx scheme n) (\<lambda>semantic.
      sbind (probe_feature_capabilities E ctx) (\<lambda>probes.
      merge_schemes E ctx rest (semantic @ probes))))" for ctx scheme n rest
    by (rule yields_sbind [OF semantic_list], rule yields_sbind [OF probe_list(2)],
        rule merge_schemes_list) (simp add: all_features_def)
  have finish: "yields capabilities_wf (sbind (observed_attribute_paths E kdamond) (\<lambda>paths.
      sret (sync_operation_features \<lparr>cap_operations = operations, cap_features = features,
        cap_attribute_paths = paths\<rparr>)))" if "map fc_feature features = all_features" for operations features
    by (rule yields_sbind [OF observed_attribute_paths_sorted], rule yields_sret, rule synced_wf)
      (simp_all add: that)
  have all: "yields capabilities_wf (sbind (semantic_feature_capabilities E kdamond ctx scheme n) (\<lambda>semantic.
      sbind (probe_feature_capabilities E ctx) (\<lambda>probes.
      sbind (merge_schemes E ctx rest (semantic @ probes)) (\<lambda>features.
      sbind (ops features) (\<lambda>operations.
      sbind (observed_attribute_paths E kdamond) (\<lambda>paths.
        sret (sync_operation_features \<lparr>cap_operations = operations, cap_features = features,
          cap_attribute_paths = paths\<rparr>)))))))" for ctx scheme n rest ops
    using yields_sbind [OF merged, where Q = capabilities_wf and
        f = "\<lambda>features. sbind (ops features) (\<lambda>operations.
          sbind (observed_attribute_paths E kdamond) (\<lambda>paths.
            sret (sync_operation_features \<lparr>cap_operations = operations, cap_features = features,
              cap_attribute_paths = paths\<rparr>)))"]
    by (simp add: sbind_assoc finish yields_sbind_any)
  show ?thesis
    unfolding Kdamond_capabilities_for_schemes_def Let_def
    by (auto intro!: yields_sbind_any yields_cases yields_sfail all split: list.split)
qed

lemma corrections_wf:
  assumes "capabilities_wf c"
  shows "capabilities_wf (replace_operations ops c)"
    and "capabilities_wf (confirm_operation op c)"
    and "capabilities_wf (replace_operations ops (apply_feature_capabilities fs c))"
  unfolding replace_operations_def confirm_operation_def apply_feature_capabilities_def
  by (rule synced_wf; use assms in \<open>simp add: capabilities_wf_def\<close>)+

lemma has_attribute_member:
  "capabilities_wf c \<Longrightarrow> has_attribute c p \<longleftrightarrow> p \<in> set (cap_attribute_paths c)"
  unfolding has_attribute_def by (rule binary_search_sorted) (simp add: capabilities_wf_def)

section \<open>Discovery only reads\<close>

lemma support_emit [emits_rules]:
  "writes_only Q (support_for_path (traced E) p)"
  "writes_only Q (support_for_directory (traced E) p)"
  "writes_only Q (indexed_child_support (traced E) p p')"
  "writes_only Q (child_attribute_support (traced E) s p)"
  "writes_only Q (target_support (traced E) n p)"
  unfolding support_for_path_def support_for_directory_def indexed_child_support_def
    child_attribute_support_def target_support_def
  by (intro emits_rules)+

lemma indexed_attributes_emits: "writes_only Q (indexed_attributes (traced E) ps b)"
  by (induction "traced E" ps b rule: indexed_attributes.induct) (auto intro!: emits_rules)

lemma filter_values_emits: "writes_only Q (filter_values (traced E) ds b)"
  by (induction "traced E" ds b rule: filter_values.induct) (auto intro!: emits_rules)

lemma capability_groups_emit [emits_rules]:
  "writes_only Q (path_feature_capabilities (traced E) fs)"
  "writes_only Q (context_semantic_capabilities (traced E) p q)"
  "writes_only Q (scheme_semantic_capabilities (traced E) p)"
  "writes_only Q (target_semantic_capabilities (traced E) p n)"
  "writes_only Q (scheme_filter_capabilities (traced E) p)"
  "writes_only Q (quota_goal_capabilities (traced E) p)"
  "writes_only Q (probe_semantic_capabilities (traced E) p)"
  "writes_only Q (probe_feature_capabilities (traced E) p)"
  unfolding path_feature_capabilities_def context_semantic_capabilities_def
    scheme_semantic_capabilities_def target_semantic_capabilities_def
    scheme_filter_capabilities_def quota_goal_capabilities_def probe_semantic_capabilities_def
    probe_feature_capabilities_def Let_def filter_value_support_def indexed_attribute_support_def
  by (intro emits_rules indexed_attributes_emits filter_values_emits)+

lemma merge_schemes_emits: "writes_only Q (merge_schemes (traced E) p is cs)"
  by (induction "is" arbitrary: cs) (auto simp: merge_scheme_def Let_def intro!: emits_rules)

lemma emits_list [emits_rules]:
  "(xs = [] \<Longrightarrow> emits P a) \<Longrightarrow> (\<And>y ys. xs = y # ys \<Longrightarrow> emits P (b y ys)) \<Longrightarrow>
     emits P (case xs of [] \<Rightarrow> a | y # ys \<Rightarrow> b y ys)"
  by (cases xs) simp_all

lemma observed_attribute_paths_emits [emits_rules]:
  "writes_only Q (observed_attribute_paths (traced E) p)"
  unfolding observed_attribute_paths_def by (intro emits_rules)

lemma capabilities_emit [emits_rules]:
  "writes_only Q (Kdamond_capabilities_for_schemes (traced E) p c is)"
  "writes_only Q (Kdamond_capabilities (traced E) p c i)"
  "writes_only Q (Hierarchy_capabilities (traced E) s k c i)"
  unfolding Hierarchy_capabilities_def Kdamond_capabilities_def Kdamond_capabilities_for_schemes_def
    semantic_feature_capabilities_def Let_def
  by (intro emits_rules merge_schemes_emits)+

section \<open>Probing writes attributes\<close>

lemma probe_and_restore_emits:
  "emits P m \<Longrightarrow> emits P r \<Longrightarrow> emits P (probe_and_restore m r)"
  unfolding probe_and_restore_def by (intro emits_rules)

lemma try_value_emits:
  "\<forall>p\<in>set ps. Q p \<Longrightarrow> writes_only Q (try_value (traced E) ps v)"
  by (induction "traced E" ps v rule: try_value.induct)
    (auto intro!: emits_rules split: sum.split)

lemma probe_accepted_values_emits:
  "\<forall>p\<in>set ps. Q p \<Longrightarrow> \<forall>p\<in>set counts. Q p \<Longrightarrow>
     writes_only Q (probe_accepted_values (traced E) ps counts candidates)"
  unfolding probe_accepted_values_def reset_counts_def
  by (intro probe_and_restore_emits emits_rules try_value_emits) auto

lemma probe_accepted_values_preserving_emits [emits_rules]:
  "Q p \<Longrightarrow> writes_only Q (probe_accepted_values_preserving (traced E) p candidates)"
  unfolding probe_accepted_values_preserving_def try_preserving_def
  by (intro emits_rules probe_and_restore_emits)

lemma existing_types_yields:
  "yields (\<lambda>ts. set ts \<subseteq> first_type ` set ps) (existing_types E ps)"
proof (induction ps)
  case Nil
  then show ?case by (simp add: yields_sret)
next
  case (Cons p ps)
  show ?case
    by (simp only: existing_types.simps, rule yields_sbind_any, rule yields_sbind [OF Cons.IH])
      (auto intro!: yields_sret)
qed

lemma existing_types_emits [emits_rules]: "writes_only Q (existing_types (traced E) ps)"
  by (induction ps) (auto intro!: emits_rules)

lemma first_type_sub: "names \<noteq> [] \<Longrightarrow> first_type (sub q names) = sub q (butlast names @ [''0'', ''type''])"
  by (simp add: first_type_def sub_def butlast_append map_butlast)

lemma probe_semantic_filter_capabilities_emits [emits_rules]:
  assumes "descends p k"
  shows "writes_only (attribute_of p) (probe_semantic_filter_capabilities (traced E) k c i)"
  unfolding probe_semantic_filter_capabilities_def Let_def Kdamond_context_def Context_scheme_def
  by (rule emits_sbind_yields [OF _ existing_types_yields], rule emits_rules)
    (use assms in \<open>auto intro!: emits_rules probe_accepted_values_emits simp: first_type_sub\<close>)

lemma probe_semantic_value_capabilities_emits [emits_rules]:
  assumes "descends p k"
  shows "writes_only (attribute_of p) (probe_semantic_value_capabilities (traced E) k c i)"
  unfolding probe_semantic_value_capabilities_def Let_def Kdamond_context_def Context_scheme_def
  by (intro emits_rules) (use assms in simp_all)

lemma probe_operations_emits [emits_rules]:
  assumes "descends p k"
  shows "writes_only (attribute_of p) (probe_operations (traced E) k c)"
  unfolding probe_operations_def try_operation_def Let_def Kdamond_context_def
    Context_available_operations_if_present_def
  by (intro emits_rules probe_and_restore_emits) (use assms in simp_all)

lemma stage_children_emit [emits_rules]:
  assumes "descends p k"
  shows "writes_only (attribute_of p) (stage_optional_capability_children (traced E) k c t i)"
    and "writes_only (attribute_of p) (stage_optional_probe_capability_children (traced E) k c i)"
  unfolding stage_optional_capability_children_def stage_optional_probe_capability_children_def
    Let_def Kdamond_context_def Context_scheme_def Context_target_def Context_probe_def
  using assms by (auto intro!: emits_rules)

lemma stage_capability_probe_emits:
  assumes "descends p k"
  shows "writes_only (attribute_of p) (stage_capability_probe (traced E) k)"
  unfolding stage_capability_probe_def stage_probe_children_def Let_def Kdamond_context_def
    Context_probe_def
  by (intro emits_rules) (use assms in simp_all)

section \<open>Probing ends by writing back\<close>

lemma probe_and_restore_Inr:
  "probe_and_restore m r w = (Inr x, w') \<longleftrightarrow>
     (\<exists>w1. m w = (Inr x, w1) \<and> r w1 = (Inr (), w'))"
  by (auto simp: probe_and_restore_def stry_def slift_def split: prod.splits elim: after_probe.elims)

lemma probe_and_restore_runs:
  "snd (probe_and_restore m r w) = snd (r (snd (m w)))"
  by (simp add: probe_and_restore_def stry_def slift_def split: prod.splits)

end
