(* ===== verification/Hierarchy_Update.thy ===== *)
theory Hierarchy_Update
  imports Hierarchy
begin

text \<open>
  The updates of a hierarchy the session owns, from \<^verbatim>\<open>src/src/monitor/hierarchy.rs\<close>: the replacement
  of a stopped configuration, the update of running kdamonds and of the quota goals of one scheme.
  Each is a transaction. It captures what is staged, stages and commits the request, and on an
  error restores and commits what was captured. An index out of range is \<open>Panicked\<close>, which no
  rollback catches.
\<close>

section \<open>What is checked before a transaction\<close>

definition SELECTED :: string where
  "SELECTED = ''selected kdamond indexes''"

fun select_indices :: "nat \<Rightarrow> bool list \<Rightarrow> nat list \<Rightarrow> nat list result" where
  "select_indices managed seen [] = Inr []"
| "select_indices managed seen (i # rest) =
     (if i \<ge> managed then Inl (IndexOutOfBounds ''kdamond'' i managed)
      else if seen ! i then invalid SELECTED ''must not contain duplicates''
      else and_then (select_indices managed (seen[i := True]) rest) (\<lambda>is. Inr (i # is)))"

definition validate_selected_indices :: "nat list \<Rightarrow> nat \<Rightarrow> nat \<Rightarrow> nat list result" where
  "validate_selected_indices requested managed_count requested_count =
     (if requested_count \<noteq> managed_count then
        invalid ''managed hierarchy kdamond count'' ''must match the owned hierarchy''
      else select_indices managed_count (replicate managed_count False) requested)"

fun obsolete_targets_match :: "target_config list \<Rightarrow> target_config list \<Rightarrow> unit result" where
  "obsolete_targets_match previous [] = Inr ()"
| "obsolete_targets_match previous (requested # rest) =
     and_then
       (if \<not> target_obsolete requested then Inr ()
        else case previous of
          [] \<Rightarrow> invalid ''obsolete target'' ''must identify an existing target at the same index''
        | p # _ \<Rightarrow>
            if target_obsolete p \<or> requested\<lparr>target_obsolete := False\<rparr> \<noteq> p then
              invalid ''obsolete target'' ''must match the existing target at the same index''
            else Inr ())
       (\<lambda>_. obsolete_targets_match (tl previous) rest)"

definition validate_obsolete_target_updates :: "damon_config \<Rightarrow> damon_config \<Rightarrow> unit result" where
  "validate_obsolete_target_updates previous requested =
     try_each (\<lambda>(pk, rk).
         try_each (\<lambda>(pc, rc). obsolete_targets_match (c_targets pc) (c_targets rc))
           (zip (k_contexts pk) (k_contexts rk)))
       (zip (d_kdamonds previous) (d_kdamonds requested))"

definition kdamond_configurations_equivalent :: "kdamond_config \<Rightarrow> kdamond_config \<Rightarrow> bool" where
  "kdamond_configurations_equivalent expected observed =
     equivalent_after_kernel_normalization \<lparr>d_kdamonds = [expected]\<rparr> \<lparr>d_kdamonds = [observed]\<rparr>"

text \<open>\<open>config.kdamonds[index]\<close>.\<close>

definition kdamond_at :: "damon_config \<Rightarrow> nat \<Rightarrow> kdamond_config result" where
  "kdamond_at config i =
     (if i < length (d_kdamonds config) then Inr (d_kdamonds config ! i)
      else Inl (Panicked ''index out of bounds''))"

definition is_panic :: "error \<Rightarrow> bool" where
  "is_panic e = (case e of Panicked _ \<Rightarrow> True | _ \<Rightarrow> False)"

fun contains_obsolete_targets :: "damon_config \<Rightarrow> nat list \<Rightarrow> bool result" where
  "contains_obsolete_targets config [] = Inr False"
| "contains_obsolete_targets config (i # rest) =
     and_then (kdamond_at config i) (\<lambda>k.
       if \<exists>c\<in>set (k_contexts k). \<exists>t\<in>set (c_targets c). target_obsolete t then Inr True
       else contains_obsolete_targets config rest)"

definition drop_obsolete :: "context_config \<Rightarrow> context_config" where
  "drop_obsolete c = c\<lparr>c_targets := filter (\<lambda>t. \<not> target_obsolete t) (c_targets c)\<rparr>"

definition clean_kdamond :: "kdamond_config \<Rightarrow> kdamond_config" where
  "clean_kdamond k = k\<lparr>k_contexts := map drop_obsolete (k_contexts k)\<rparr>"

fun without_obsolete_targets :: "damon_config \<Rightarrow> nat list \<Rightarrow> damon_config result" where
  "without_obsolete_targets config [] = Inr config"
| "without_obsolete_targets config (i # rest) =
     and_then (kdamond_at config i) (\<lambda>k.
       without_obsolete_targets
         (config\<lparr>d_kdamonds := (d_kdamonds config)[i := clean_kdamond k]\<rparr>) rest)"

text \<open>
  The intervals of a context the kernel tunes, or tuned before, are not compared: the observed
  ones are replaced by the requested ones, the update interval excepted.
\<close>

definition was_tuned :: "damon_config option \<Rightarrow> nat \<Rightarrow> nat \<Rightarrow> bool" where
  "was_tuned previous k c =
     (case previous of
        None \<Rightarrow> False
      | Some config \<Rightarrow>
          k < length (d_kdamonds config)
          \<and> c < length (k_contexts (d_kdamonds config ! k))
          \<and> goal_aggregations (c_intervals_goal (k_contexts (d_kdamonds config ! k) ! c)) \<noteq> 0)"

definition normalize_context ::
    "bool \<Rightarrow> context_config \<Rightarrow> context_config \<Rightarrow> context_config result" where
  "normalize_context tuned requested observed =
     (if goal_aggregations (c_intervals_goal requested) = 0 \<and> \<not> tuned then Inr observed
      else and_then (MonitoringIntervals_new (intervals_sample (c_intervals requested))
                       (intervals_aggregation (c_intervals requested))
                       (intervals_update (c_intervals observed)))
             (\<lambda>i. Inr (observed\<lparr>c_intervals := i\<rparr>)))"

fun normalize_contexts ::
    "(nat \<Rightarrow> bool) \<Rightarrow> nat \<Rightarrow> context_config list \<Rightarrow> context_config list \<Rightarrow> context_config list result"
  where
  "normalize_contexts tuned c (r # rs) (x # xs) =
     and_then (normalize_context (tuned c) r x) (\<lambda>y.
     and_then (normalize_contexts tuned (Suc c) rs xs) (\<lambda>ys. Inr (y # ys)))"
| "normalize_contexts tuned c rs xs = Inr xs"

fun normalize_kdamonds ::
    "(nat \<Rightarrow> nat \<Rightarrow> bool) \<Rightarrow> nat \<Rightarrow> kdamond_config list \<Rightarrow> kdamond_config list
       \<Rightarrow> kdamond_config list result" where
  "normalize_kdamonds tuned k (r # rs) (x # xs) =
     and_then (normalize_contexts (tuned k) 0 (k_contexts r) (k_contexts x)) (\<lambda>cs.
     and_then (normalize_kdamonds tuned (Suc k) rs xs) (\<lambda>ys. Inr (x\<lparr>k_contexts := cs\<rparr> # ys)))"
| "normalize_kdamonds tuned k rs xs = Inr xs"

definition normalize_running_tuned_intervals ::
    "damon_config \<Rightarrow> damon_config option \<Rightarrow> damon_config \<Rightarrow> damon_config result" where
  "normalize_running_tuned_intervals requested previous observed =
     and_then (normalize_kdamonds (was_tuned previous) 0 (d_kdamonds requested)
                 (d_kdamonds observed))
       (\<lambda>ks. Inr (observed\<lparr>d_kdamonds := ks\<rparr>))"

text \<open>
  Unselected kdamonds must match what is staged; the configuration that takes effect keeps what
  is staged for them.
\<close>

fun keep_unselected ::
    "damon_config \<Rightarrow> damon_config \<Rightarrow> damon_config \<Rightarrow> nat list \<Rightarrow> nat list \<Rightarrow> damon_config
       \<Rightarrow> damon_config result" where
  "keep_unselected config normalized previous selected [] effective = Inr effective"
| "keep_unselected config normalized previous selected (i # rest) effective =
     (if i \<in> set selected then
        keep_unselected config normalized previous selected rest effective
      else
        and_then (kdamond_at config i) (\<lambda>requested.
        and_then (kdamond_at normalized i) (\<lambda>staged.
          if \<not> kdamond_configurations_equivalent requested staged then
            invalid ''unselected kdamond configuration''
              ''must match the currently staged configuration''
          else
            and_then (kdamond_at previous i) (\<lambda>k.
              keep_unselected config normalized previous selected rest
                (effective\<lparr>d_kdamonds := (d_kdamonds effective)[i := k]\<rparr>)))))"

section \<open>Staging and committing\<close>

definition commit_one :: "'k sysfs \<Rightarrow> managed_hierarchy \<Rightarrow> kdamond_command \<Rightarrow> usize \<Rightarrow> ('k, unit) comp"
  where
  "commit_one E s command i =
     sbind (verify_running_identity_only E s i) (\<lambda>_.
     sbind (retry_busy E (Kdamond_command E (Hierarchy_kdamond s i) command)) (\<lambda>_.
       verify_running_identity_only E s i))"

text \<open>
  Staging a configuration against what was observed, and the checks that it is what is now
  staged; the same steps stage the request and the request without its obsolete targets.
\<close>

definition stage_running ::
    "'k sysfs \<Rightarrow> managed_hierarchy \<Rightarrow> damon_config \<Rightarrow> damon_config option \<Rightarrow> string
       \<Rightarrow> ('k, config_snapshot) comp" where
  "stage_running E s config observed lost =
     sbind (retry_busy E (sbind (verify_owned_identities_only E s) (\<lambda>_.
              Admin_stage_validated_configuration_from E (mh_admin s) config observed))) (\<lambda>_.
     sbind (verify_owned_identities_only E s) (\<lambda>_.
     sbind (retry_busy E (Admin_configuration_snapshot E (mh_admin s))) (\<lambda>snapshot.
     sbind (retry_busy E (Admin_configuration E (mh_admin s))) (\<lambda>staged.
     sbind (slift (normalize_running_tuned_intervals config observed staged)) (\<lambda>staged_config.
       case mismatch_error config staged_config of
         Some e \<Rightarrow> sfail e
       | None \<Rightarrow>
           sbind (retry_busy E (values_match_current E snapshot)) (\<lambda>same.
             if \<not> same then sfail (OwnershipLost lost)
             else sbind (verify_owned_identities_only E s) (\<lambda>_. sret snapshot)))))))"

definition stage_and_commit_running ::
    "'k sysfs \<Rightarrow> damon_config \<Rightarrow> damon_config option \<Rightarrow> nat list \<Rightarrow> managed_hierarchy
       \<Rightarrow> ('k, staged_ownership) comp" where
  "stage_and_commit_running E config observed selected s =
     sbind (verify_owned_identities_only E s) (\<lambda>_.
     sbind (stage_running E s config observed
              ''the running DAMON hierarchy changed during staging'') (\<lambda>snapshot.
     sbind (seach (commit_one E s Commit) selected) (\<lambda>_.
     sbind (slift (contains_obsolete_targets config selected)) (\<lambda>obsolete.
       if obsolete then
         sbind (slift (without_obsolete_targets config selected)) (\<lambda>cleaned.
         sbind (stage_running E s cleaned (Some config)
                  ''the running DAMON hierarchy changed during obsolete-target cleanup'')
           (\<lambda>cleaned_snapshot.
             let staged = StagedOwnership_new cleaned_snapshot (mh_admin s) cleaned in
             sbind (verify_staged E staged (mh_admin s)) (\<lambda>_. sret staged)))
       else
         let staged = StagedOwnership_new snapshot (mh_admin s) config in
         sbind (verify_staged E staged (mh_admin s)) (\<lambda>_. sret staged)))))"

text \<open>The attributes of a changed goal, whose values staging may have changed.\<close>

definition goal_paths :: "path \<Rightarrow> quota_goal_config \<Rightarrow> path list" where
  "goal_paths goal_path goal =
     [sub goal_path [''target_metric''], sub goal_path [''target_value''],
      sub goal_path [''current_value'']]
     @ (if qg_node goal \<noteq> None then [sub goal_path [''nid'']] else [])
     @ (if qg_cgroup_path goal \<noteq> None then [sub goal_path [''path'']] else [])"

definition changed_goal_paths ::
    "path \<Rightarrow> quota_goal_config list \<Rightarrow> quota_goal_config list \<Rightarrow> path list" where
  "changed_goal_paths quotas goals values =
     concat (map (\<lambda>(i, goal, old). if old = goal then [] else goal_paths (Quotas_goal quotas i) goal)
       (enumerate 0 (zip goals values)))"

definition unchanged_goals_match ::
    "'k sysfs \<Rightarrow> managed_hierarchy \<Rightarrow> path \<Rightarrow> quota_goal_config list \<Rightarrow> quota_goal_config list option
       \<Rightarrow> ('k, bool) comp" where
  "unchanged_goals_match E s quotas goals observed =
     (case observed of
        Some values \<Rightarrow>
          if length values = length goals then
            snapshot_matches_current_except E (so_configuration (mh_staged s))
              (sort_dedup (so_volatile (mh_staged s) @ changed_goal_paths quotas goals values))
          else
            snapshot_matches_current_outside_except E (so_configuration (mh_staged s))
              (sub quotas [''goals'']) (so_volatile (mh_staged s))
      | None \<Rightarrow>
          snapshot_matches_current_outside_except E (so_configuration (mh_staged s))
            (sub quotas [''goals'']) (so_volatile (mh_staged s)))"

definition stage_and_commit_quota_goals ::
    "'k sysfs \<Rightarrow> path \<Rightarrow> quota_goal_config list \<Rightarrow> quota_goal_config list option \<Rightarrow> usize
       \<Rightarrow> managed_hierarchy \<Rightarrow> ('k, staged_ownership) comp" where
  "stage_and_commit_quota_goals E quotas goals observed k s =
     sbind (verify_owned_identities_only E s) (\<lambda>_.
     sbind (retry_busy E (sbind (verify_owned_identities_only E s) (\<lambda>_.
              Quotas_stage_goals_from E quotas goals observed))) (\<lambda>_.
     sbind (verify_owned_identities_only E s) (\<lambda>_.
     sbind (unchanged_goals_match E s quotas goals observed) (\<lambda>unchanged.
       if \<not> unchanged then
         sfail (OwnershipLost ''the running DAMON hierarchy changed during quota-goal staging'')
       else
         sbind (retry_busy E (Admin_configuration_snapshot E (mh_admin s))) (\<lambda>snapshot.
         sbind (retry_busy E (Quotas_goal_configurations E quotas)) (\<lambda>staged_goals.
           if staged_goals \<noteq> goals then sfail (ConfigurationMismatch ''quotas/goals'')
           else
             sbind (retry_busy E (values_match_current E snapshot)) (\<lambda>same.
               if \<not> same then
                 sfail (OwnershipLost
                   ''the running DAMON hierarchy changed during quota-goal staging'')
               else
                 sbind (verify_owned_identities_only E s) (\<lambda>_.
                 sbind (commit_one E s CommitSchemesQuotaGoals k) (\<lambda>_.
                 let staged = with_configuration (mh_staged s) snapshot in
                 sbind (verify_staged E staged (mh_admin s)) (\<lambda>_. sret staged))))))))))"

section \<open>Restoring and committing\<close>

definition restore_written ::
    "'k sysfs \<Rightarrow> managed_hierarchy \<Rightarrow> config_snapshot \<Rightarrow> path list \<Rightarrow> ('k, unit) comp" where
  "restore_written E s snapshot writes =
     retry_busy E (restore_paths_except E snapshot (paths_affected_by_writes snapshot writes)
       (so_volatile (mh_staged s)))"

definition unchanged_except_volatile ::
    "'k sysfs \<Rightarrow> managed_hierarchy \<Rightarrow> config_snapshot \<Rightarrow> string \<Rightarrow> ('k, unit) comp" where
  "unchanged_except_volatile E s snapshot lost =
     sbind (retry_busy E (snapshot_matches_current_except E snapshot (so_volatile (mh_staged s))))
       (\<lambda>same. if \<not> same then sfail (OwnershipLost lost) else sret ())"

definition restore_written_and_commit_running ::
    "'k sysfs \<Rightarrow> managed_hierarchy \<Rightarrow> config_snapshot \<Rightarrow> path list \<Rightarrow> nat list \<Rightarrow> ('k, unit) comp"
  where
  "restore_written_and_commit_running E s snapshot writes selected =
     sbind (restore_written E s snapshot writes) (\<lambda>_. seach (commit_one E s Commit) selected)"

definition restore_written_and_commit_quota_goals ::
    "'k sysfs \<Rightarrow> managed_hierarchy \<Rightarrow> config_snapshot \<Rightarrow> path list \<Rightarrow> usize \<Rightarrow> ('k, unit) comp"
  where
  "restore_written_and_commit_quota_goals E s snapshot writes k =
     sbind (restore_written E s snapshot writes) (\<lambda>_.
       commit_one E s CommitSchemesQuotaGoals k)"

definition verify_rollback_boundary ::
    "'k sysfs \<Rightarrow> managed_hierarchy \<Rightarrow> config_snapshot \<Rightarrow> path list \<Rightarrow> ('k, unit) comp" where
  "verify_rollback_boundary E s snapshot writes =
     (let allowed = sort_dedup (paths_affected_by_writes snapshot writes
                                  @ so_volatile (mh_staged s)) in
      sbind (retry_busy E (snapshot_matches_current_except E snapshot allowed)) (\<lambda>same.
        if \<not> same then
          sfail (OwnershipLost ''an unrelated writable value changed during the transaction'')
        else sret ()))"

definition restore_and_commit_running ::
    "'k sysfs \<Rightarrow> config_snapshot \<Rightarrow> damon_config \<Rightarrow> nat list \<Rightarrow> path list \<Rightarrow> managed_hierarchy
       \<Rightarrow> ('k, staged_ownership) comp" where
  "restore_and_commit_running E snapshot config selected writes s =
     sbind (verify_owned_identities_only E s) (\<lambda>_.
     stry (verify_rollback_boundary E s snapshot writes) (\<lambda>r.
       case r of
         Inl boundary \<Rightarrow>
           stry (restore_written_and_commit_running E s snapshot writes selected) (\<lambda>rollback.
             sfail (with_rollback boundary rollback))
       | Inr _ \<Rightarrow>
           sbind (restore_written E s snapshot writes) (\<lambda>_.
           sbind (verify_owned_identities_only E s) (\<lambda>_.
           sbind (unchanged_except_volatile E s snapshot
                    ''the running DAMON hierarchy changed during rollback'') (\<lambda>_.
           sbind (seach (commit_one E s Commit) selected) (\<lambda>_.
           sbind (retry_busy E (Admin_configuration_snapshot E (mh_admin s))) (\<lambda>current.
           sbind (unchanged_except_volatile E s snapshot
                    ''the running DAMON hierarchy changed after rollback commit'') (\<lambda>_.
             let staged = StagedOwnership_new current (mh_admin s) config in
             sbind (verify_staged E staged (mh_admin s)) (\<lambda>_. sret staged)))))))))"

definition restore_and_commit_quota_goals ::
    "'k sysfs \<Rightarrow> config_snapshot \<Rightarrow> usize \<Rightarrow> path list \<Rightarrow> managed_hierarchy
       \<Rightarrow> ('k, staged_ownership) comp" where
  "restore_and_commit_quota_goals E snapshot k writes s =
     sbind (verify_owned_identities_only E s) (\<lambda>_.
     stry (verify_rollback_boundary E s snapshot writes) (\<lambda>r.
       case r of
         Inl boundary \<Rightarrow>
           stry (restore_written_and_commit_quota_goals E s snapshot writes k) (\<lambda>rollback.
             sfail (with_rollback boundary rollback))
       | Inr _ \<Rightarrow>
           sbind (restore_written E s snapshot writes) (\<lambda>_.
           sbind (commit_one E s CommitSchemesQuotaGoals k) (\<lambda>_.
           sbind (unchanged_except_volatile E s snapshot
                    ''the running DAMON hierarchy changed after quota-goal rollback'') (\<lambda>_.
           sbind (retry_busy E (Admin_configuration_snapshot E (mh_admin s))) (\<lambda>current.
             let staged = with_configuration (mh_staged s) current in
             sbind (verify_staged E staged (mh_admin s)) (\<lambda>_. sret staged)))))))"

section \<open>The transactions\<close>

text \<open>
  The outcome of a transaction. What it staged becomes the record's on success; on an error what
  the rollback staged does, and the error of the operation is reported. When the rollback fails
  too, both errors are reported and the record keeps what it had.
\<close>

definition roll_back :: "('k, staged_ownership) comp \<Rightarrow> error \<Rightarrow> ('k, unit) mcomp" where
  "roll_back rollback operation s =
     (if is_panic operation then mfail operation s
      else stry rollback (\<lambda>r.
        case r of
          Inr staged \<Rightarrow> sret (Inl operation, s\<lparr>mh_staged := staged\<rparr>)
        | Inl e \<Rightarrow> mfail (if is_panic e then e else Rollback operation e) s))"

definition journalled_transaction ::
    "(managed_hierarchy \<Rightarrow> ('k, staged_ownership) comp)
       \<Rightarrow> (path list \<Rightarrow> managed_hierarchy \<Rightarrow> ('k, staged_ownership) comp) \<Rightarrow> ('k, unit) mcomp" where
  "journalled_transaction operation rollback s =
     collect_writes (operation s) (\<lambda>r writes.
       case r of
         Inr staged \<Rightarrow> sret (Inr (), s\<lparr>mh_staged := staged\<rparr>)
       | Inl e \<Rightarrow> roll_back (rollback writes s) e s)"

definition CAPTURE_LOST :: error where
  "CAPTURE_LOST = OwnershipLost
     ''the running DAMON hierarchy changed while its rollback state was captured''"

definition capture_rollback_state ::
    "'k sysfs \<Rightarrow> managed_hierarchy \<Rightarrow> ('k, config_snapshot \<times> damon_config) comp" where
  "capture_rollback_state E s =
     sbind (verify_owned_state E s) (\<lambda>_.
     sbind (retry_busy E (Admin_configuration_snapshot E (mh_admin s))) (\<lambda>snapshot.
     sbind (retry_busy E (Admin_configuration E (mh_admin s))) (\<lambda>previous.
     sbind (retry_busy E (snapshot_matches_current_except E snapshot (so_volatile (mh_staged s))))
       (\<lambda>same.
         if \<not> same then sfail CAPTURE_LOST
         else sbind (verify_owned_state E s) (\<lambda>_. sret (snapshot, previous))))))"

definition check_update_request ::
    "u64 \<Rightarrow> damon_config \<Rightarrow> nat list \<Rightarrow> managed_hierarchy \<Rightarrow> nat list result" where
  "check_update_request page_size config indices s =
     and_then (DamonConfig_validate_running_update page_size config) (\<lambda>_.
     and_then (validate_selected_indices indices (length (mh_states s))
                 (length (d_kdamonds config))) (\<lambda>selected.
       if selected = [] then invalid SELECTED ''must contain at least one index''
       else and_then (try_each (\<lambda>i. and_then (expected_running_pid s i) (\<lambda>_. Inr ())) selected)
              (\<lambda>_. Inr selected)))"

definition effective_configuration ::
    "damon_config \<Rightarrow> damon_config \<Rightarrow> nat \<Rightarrow> nat list \<Rightarrow> damon_config result" where
  "effective_configuration config previous n selected =
     and_then (normalize_running_tuned_intervals config (Some previous) previous) (\<lambda>normalized.
     and_then (keep_unselected config normalized previous selected [0..<n] config) (\<lambda>effective.
     and_then (validate_obsolete_target_updates previous effective) (\<lambda>_. Inr effective)))"

definition update_configuration ::
    "'k sysfs \<Rightarrow> u64 \<Rightarrow> damon_config \<Rightarrow> nat list \<Rightarrow> ('k, unit) mcomp" where
  "update_configuration E page_size config indices =
     mbind (mread (\<lambda>s. slift (check_update_request page_size config indices s))) (\<lambda>selected.
     mbind (mread (\<lambda>s. capture_rollback_state E s)) (\<lambda>(previous_snapshot, previous).
     mbind (mread (\<lambda>s. slift (effective_configuration config previous (length (mh_states s))
                                selected))) (\<lambda>effective.
       journalled_transaction
         (stage_and_commit_running E effective (Some previous) selected)
         (restore_and_commit_running E previous_snapshot previous selected))))"

definition capture_quota ::
    "'k sysfs \<Rightarrow> usize \<Rightarrow> usize \<Rightarrow> usize \<Rightarrow> managed_hierarchy
       \<Rightarrow> ('k, config_snapshot \<times> path \<times> quota_config) comp" where
  "capture_quota E k c i s =
     sbind (verify_owned_state E s) (\<lambda>_.
     sbind (retry_busy E (Admin_configuration_snapshot E (mh_admin s))) (\<lambda>snapshot.
     sbind (Hierarchy_scheme E s k c i) (\<lambda>scheme.
     let quotas = Scheme_quotas scheme in
     sbind (retry_busy E (Quotas_configuration E quotas)) (\<lambda>quota.
     sbind (retry_busy E (snapshot_matches_current_except E snapshot (so_volatile (mh_staged s))))
       (\<lambda>same.
         if \<not> same then sfail CAPTURE_LOST
         else sbind (verify_owned_state E s) (\<lambda>_. sret (snapshot, quotas, quota)))))))"

definition check_goals_request ::
    "usize \<Rightarrow> quota_goal_config list \<Rightarrow> managed_hierarchy \<Rightarrow> unit result" where
  "check_goals_request k goals s =
     and_then (validate_kdamond_index s k) (\<lambda>_.
     and_then (Quotas_validate_goals goals) (\<lambda>_.
     and_then (expected_running_pid s k) (\<lambda>_. Inr ())))"

definition update_scheme_quota_goals ::
    "'k sysfs \<Rightarrow> usize \<Rightarrow> usize \<Rightarrow> usize \<Rightarrow> quota_goal_config list \<Rightarrow> ('k, unit) mcomp" where
  "update_scheme_quota_goals E k c i goals =
     mbind (mread (\<lambda>s. slift (check_goals_request k goals s))) (\<lambda>_.
     mbind (mread (\<lambda>s. capture_quota E k c i s)) (\<lambda>(previous_snapshot, quotas, quota).
     mbind (mread (\<lambda>s. slift (QuotaConfig_validate (quota\<lparr>q_goals := goals\<rparr>)))) (\<lambda>_.
       if goals = q_goals quota then mret ()
       else
         journalled_transaction
           (stage_and_commit_quota_goals E quotas goals (Some (q_goals quota)) k)
           (restore_and_commit_quota_goals E previous_snapshot k))))"

section \<open>Replacing a stopped configuration\<close>

fun first_unstaged :: "nat \<Rightarrow> session_state list \<Rightarrow> nat option" where
  "first_unstaged i [] = None"
| "first_unstaged i (st # rest) = (if st \<noteq> Staged then Some i else first_unstaged (Suc i) rest)"

definition check_replacement :: "u64 \<Rightarrow> damon_config \<Rightarrow> managed_hierarchy \<Rightarrow> unit result" where
  "check_replacement page_size config s =
     and_then (DamonConfig_validate_runnable page_size config) (\<lambda>_.
       if length (d_kdamonds config) \<noteq> length (mh_states s) then
         invalid ''managed hierarchy kdamond count'' ''cannot change while the hierarchy is owned''
       else case first_unstaged 0 (mh_states s) of
         Some i \<Rightarrow> Inl (KdamondRunning i)
       | None \<Rightarrow> Inr ())"

definition capture_staged :: "'k sysfs \<Rightarrow> managed_hierarchy \<Rightarrow> ('k, damon_config) comp" where
  "capture_staged E s =
     sbind (verify_staged E (mh_staged s) (mh_admin s)) (\<lambda>_.
     sbind (retry_busy E (ensure_hierarchy_stopped E (mh_admin s))) (\<lambda>_.
     sbind (retry_busy E (Admin_configuration E (mh_admin s))) (\<lambda>previous.
     sbind (verify_staged E (mh_staged s) (mh_admin s)) (\<lambda>_. sret previous))))"

definition stage_replacement ::
    "'k sysfs \<Rightarrow> damon_config \<Rightarrow> damon_config option \<Rightarrow> managed_hierarchy \<Rightarrow> ('k, staged_ownership) comp"
  where
  "stage_replacement E config observed s =
     sbind (stage_and_verify_configuration E (mh_admin s) config observed) (\<lambda>current.
       sret (StagedOwnership_new current (mh_admin s) config))"

definition replace_staged_configuration ::
    "'k sysfs \<Rightarrow> u64 \<Rightarrow> damon_config \<Rightarrow> ('k, unit) mcomp" where
  "replace_staged_configuration E page_size config =
     mbind (mread (\<lambda>s. slift (check_replacement page_size config s))) (\<lambda>_.
     mbind (mread (\<lambda>s. capture_staged E s)) (\<lambda>previous.
     mcatch (mread (stage_replacement E config (Some previous))) (\<lambda>r.
       case r of
         Inr staged \<Rightarrow> mset_staged staged
       | Inl e \<Rightarrow> (\<lambda>s. roll_back (stage_replacement E previous None s) e s))))"

end
