(* ===== verification/Update_Lemmas.thy ===== *)
theory Update_Lemmas
  imports Hierarchy_Update Hierarchy_Traces
begin

text \<open>
  What an update checks, what configuration it makes effective, what it writes and what it
  leaves of the owner's record.
\<close>

section \<open>The selection of kdamonds\<close>

lemma select_indices_Inr_iff:
  "length seen = m \<Longrightarrow>
     select_indices m seen is = Inr out \<longleftrightarrow>
       out = is \<and> distinct is \<and> (\<forall>i\<in>set is. i < m \<and> \<not> seen ! i)"
proof (induction "is" arbitrary: seen out)
  case Nil
  then show ?case by auto
next
  case (Cons i rest)
  show ?case
  proof (cases "i < m \<and> \<not> seen ! i")
    case True
    have "select_indices m (seen[i := True]) rest = Inr out' \<longleftrightarrow>
        out' = rest \<and> distinct rest \<and> (\<forall>j\<in>set rest. j < m \<and> \<not> seen[i := True] ! j)" for out'
      using Cons by simp
    moreover have "(\<forall>j\<in>set rest. j < m \<and> \<not> seen[i := True] ! j) \<longleftrightarrow>
        i \<notin> set rest \<and> (\<forall>j\<in>set rest. j < m \<and> \<not> seen ! j)"
      using Cons.prems True by (auto simp: nth_list_update)
    ultimately show ?thesis using True by (auto simp: and_then_Inr_iff)
  next
    case False
    then show ?thesis by auto
  qed
qed

lemma validate_selected_indices_Inr_iff:
  "validate_selected_indices requested managed_count requested_count = Inr selected \<longleftrightarrow>
     requested_count = managed_count \<and> selected = requested \<and> distinct requested
     \<and> (\<forall>i\<in>set requested. i < managed_count)"
  by (auto simp: validate_selected_indices_def select_indices_Inr_iff)

lemma expected_running_pid_Inr_iff:
  "expected_running_pid s i = Inr p \<longleftrightarrow> i < length (mh_states s) \<and> mh_states s ! i = Running p"
  by (auto simp: expected_running_pid_def validate_kdamond_index_def and_then_Inr_iff
      split: session_state.splits)

lemma check_update_request_Inr_iff:
  "check_update_request ps config indices s = Inr selected \<longleftrightarrow>
     DamonConfig_validate_running_update ps config = Inr ()
     \<and> length (d_kdamonds config) = length (mh_states s)
     \<and> selected = indices \<and> indices \<noteq> [] \<and> distinct indices
     \<and> (\<forall>i\<in>set indices. i < length (mh_states s) \<and> is_running_state (mh_states s ! i))"
proof -
  have each: "try_each (\<lambda>i. and_then (expected_running_pid s i) (\<lambda>_. Inr ())) is = Inr () \<longleftrightarrow>
      (\<forall>i\<in>set is. i < length (mh_states s) \<and> is_running_state (mh_states s ! i))" for "is"
    by (auto simp: and_then_Inr_iff expected_running_pid_Inr_iff is_running_state_def)
  show ?thesis
    by (auto simp del: try_each_Inr_iff
        simp: check_update_request_def and_then_Inr_iff validate_selected_indices_Inr_iff each)
qed

section \<open>Obsolete targets\<close>

definition has_obsolete :: "kdamond_config \<Rightarrow> bool" where
  "has_obsolete k \<longleftrightarrow> (\<exists>c\<in>set (k_contexts k). \<exists>t\<in>set (c_targets c). target_obsolete t)"

lemma kdamond_at_in_range [simp]:
  "i < length (d_kdamonds config) \<Longrightarrow> kdamond_at config i = Inr (d_kdamonds config ! i)"
  by (simp add: kdamond_at_def)

lemma contains_obsolete_targets_eq:
  "\<forall>i\<in>set is. i < length (d_kdamonds config) \<Longrightarrow>
     contains_obsolete_targets config is = Inr (\<exists>i\<in>set is. has_obsolete (d_kdamonds config ! i))"
  by (induction "is") (auto simp: has_obsolete_def)

lemma clean_kdamond_clean [simp]: "\<not> has_obsolete (clean_kdamond k)"
  by (auto simp: has_obsolete_def clean_kdamond_def drop_obsolete_def)

lemma clean_kdamond_idem [simp]: "clean_kdamond (clean_kdamond k) = clean_kdamond k"
  by (simp add: clean_kdamond_def drop_obsolete_def comp_def)

lemma without_obsolete_targets_nth:
  "\<forall>i\<in>set is. i < length (d_kdamonds config) \<Longrightarrow>
     \<exists>cleaned. without_obsolete_targets config is = Inr cleaned
       \<and> length (d_kdamonds cleaned) = length (d_kdamonds config)
       \<and> (\<forall>i < length (d_kdamonds config). d_kdamonds cleaned ! i =
            (if i \<in> set is then clean_kdamond (d_kdamonds config ! i) else d_kdamonds config ! i))"
proof (induction "is" arbitrary: config)
  case Nil
  then show ?case by simp
next
  case (Cons i rest)
  let ?c = "config\<lparr>d_kdamonds := (d_kdamonds config)[i := clean_kdamond (d_kdamonds config ! i)]\<rparr>"
  obtain cleaned where "without_obsolete_targets ?c rest = Inr cleaned"
    "length (d_kdamonds cleaned) = length (d_kdamonds ?c)"
    "\<forall>j < length (d_kdamonds ?c). d_kdamonds cleaned ! j =
       (if j \<in> set rest then clean_kdamond (d_kdamonds ?c ! j) else d_kdamonds ?c ! j)"
    using Cons.IH [of ?c] Cons.prems by auto
  with Cons.prems show ?case
    by (intro exI [of _ cleaned]) (auto simp: nth_list_update)
qed

lemma obsolete_targets_match_Inr_iff:
  "obsolete_targets_match previous requested = Inr () \<longleftrightarrow>
     (\<forall>i < length requested. target_obsolete (requested ! i) \<longrightarrow>
        i < length previous \<and> \<not> target_obsolete (previous ! i)
        \<and> (requested ! i)\<lparr>target_obsolete := False\<rparr> = previous ! i)"
proof (induction previous requested rule: obsolete_targets_match.induct)
  case (1 previous)
  then show ?case by simp
next
  case (2 previous requested rest)
  have step: "obsolete_targets_match previous (requested # rest) = Inr () \<longleftrightarrow>
      (target_obsolete requested \<longrightarrow> 0 < length previous \<and> \<not> target_obsolete (previous ! 0)
         \<and> requested\<lparr>target_obsolete := False\<rparr> = previous ! 0)
      \<and> obsolete_targets_match (tl previous) rest = Inr ()"
    by (cases previous) (simp_all add: and_then_Inr_iff)
  have shift: "(i < length (tl previous) \<and> \<not> target_obsolete (tl previous ! i) \<and> x = tl previous ! i)
      = (Suc i < length previous \<and> \<not> target_obsolete (previous ! Suc i) \<and> x = previous ! Suc i)"
    for i x
    by (cases previous) simp_all
  show ?case
    unfolding step 2 shift by (simp only: length_Cons All_less_Suc2 nth_Cons_0 nth_Cons_Suc)
qed

section \<open>Tuned intervals\<close>


text \<open>The reference: what the comparison expects of a context whose intervals are tuned.\<close>

definition settled_context :: "bool \<Rightarrow> context_config \<Rightarrow> context_config \<Rightarrow> context_config" where
  "settled_context tuned requested observed =
     (if goal_aggregations (c_intervals_goal requested) = 0 \<and> \<not> tuned then observed
      else observed\<lparr>c_intervals :=
             (c_intervals requested)\<lparr>update_us := update_us (c_intervals observed)\<rparr>\<rparr>)"

lemma normalize_context_eq:
  assumes "valid_intervals (c_intervals requested)"
  shows "normalize_context tuned requested observed = Inr (settled_context tuned requested observed)"
proof -
  let ?i = "(c_intervals requested)\<lparr>update_us := update_us (c_intervals observed)\<rparr>"
  have "MonitoringIntervals_new (intervals_sample (c_intervals requested))
      (intervals_aggregation (c_intervals requested)) (intervals_update (c_intervals observed)) = Inr ?i"
    using assms
    by (simp add: MonitoringIntervals_new_Inr_iff intervals_sample_def intervals_aggregation_def
        intervals_update_def valid_intervals_def)
  then show ?thesis by (simp add: normalize_context_def settled_context_def)
qed

lemma normalize_contexts_eq:
  "\<forall>r\<in>set rs. valid_intervals (c_intervals r) \<Longrightarrow>
     \<exists>ys. normalize_contexts tuned c rs xs = Inr ys \<and> length ys = length xs
       \<and> (\<forall>j < length xs. ys ! j =
            (if j < length rs then settled_context (tuned (c + j)) (rs ! j) (xs ! j) else xs ! j))"
proof (induction tuned c rs xs rule: normalize_contexts.induct)
  case (1 tuned c r rs x xs)
  then obtain ys where "normalize_contexts tuned (Suc c) rs xs = Inr ys" "length ys = length xs"
    "\<forall>j < length xs. ys ! j = (if j < length rs
       then settled_context (tuned (Suc c + j)) (rs ! j) (xs ! j) else xs ! j)"
    by (auto simp: normalize_context_eq)
  with 1(2) show ?case
    by (intro exI [of _ "settled_context (tuned c) r x # ys"])
      (auto simp: normalize_context_eq All_less_Suc2)
qed auto

definition intervals_valid :: "damon_config \<Rightarrow> bool" where
  "intervals_valid d \<longleftrightarrow>
     (\<forall>k\<in>set (d_kdamonds d). \<forall>c\<in>set (k_contexts k). valid_intervals (c_intervals c))"

lemma normalize_kdamonds_eq:
  "\<forall>r\<in>set rs. \<forall>c\<in>set (k_contexts r). valid_intervals (c_intervals c) \<Longrightarrow>
     \<exists>ys. normalize_kdamonds tuned k rs xs = Inr ys \<and> length ys = length xs
       \<and> (\<forall>j < length xs. k_refresh (ys ! j) = k_refresh (xs ! j)
            \<and> length (k_contexts (ys ! j)) = length (k_contexts (xs ! j))
            \<and> (\<forall>c < length (k_contexts (xs ! j)). k_contexts (ys ! j) ! c =
                 (if j < length rs \<and> c < length (k_contexts (rs ! j))
                  then settled_context (tuned (k + j) c) (k_contexts (rs ! j) ! c) (k_contexts (xs ! j) ! c)
                  else k_contexts (xs ! j) ! c)))"
proof (induction tuned k rs xs rule: normalize_kdamonds.induct)
  case (1 tuned k r rs x xs)
  obtain cs where cs: "normalize_contexts (tuned k) 0 (k_contexts r) (k_contexts x) = Inr cs"
    "length cs = length (k_contexts x)"
    "\<forall>j < length (k_contexts x). cs ! j = (if j < length (k_contexts r)
       then settled_context (tuned k j) (k_contexts r ! j) (k_contexts x ! j) else k_contexts x ! j)"
    using normalize_contexts_eq [of "k_contexts r" "tuned k" 0 "k_contexts x"] 1(2) by auto
  obtain ys where ys: "normalize_kdamonds tuned (Suc k) rs xs = Inr ys" "length ys = length xs"
    "\<forall>j < length xs. k_refresh (ys ! j) = k_refresh (xs ! j)
       \<and> length (k_contexts (ys ! j)) = length (k_contexts (xs ! j))
       \<and> (\<forall>c < length (k_contexts (xs ! j)). k_contexts (ys ! j) ! c =
            (if j < length rs \<and> c < length (k_contexts (rs ! j))
             then settled_context (tuned (Suc k + j) c) (k_contexts (rs ! j) ! c) (k_contexts (xs ! j) ! c)
             else k_contexts (xs ! j) ! c))"
    using 1 by auto
  show ?case
    by (intro exI [of _ "x\<lparr>k_contexts := cs\<rparr> # ys"])
      (use cs ys in \<open>auto simp: All_less_Suc2\<close>)
qed auto

section \<open>The configuration that takes effect\<close>

lemma keep_unselected_nth:
  "keep_unselected config normalized previous selected is effective = Inr out \<Longrightarrow>
     length (d_kdamonds out) = length (d_kdamonds effective)
     \<and> (\<forall>i < length (d_kdamonds effective). d_kdamonds out ! i =
          (if i \<in> set is \<and> i \<notin> set selected then d_kdamonds previous ! i
           else d_kdamonds effective ! i))
     \<and> (\<forall>i\<in>set is. i \<notin> set selected \<longrightarrow> i < length (d_kdamonds previous)
          \<and> kdamond_configurations_equivalent (d_kdamonds config ! i) (d_kdamonds normalized ! i))"
proof (induction "is" arbitrary: effective)
  case Nil
  then show ?case by simp
next
  case (Cons i rest)
  show ?case
  proof (cases "i \<in> set selected")
    case True
    with Cons show ?thesis by auto
  next
    case False
    let ?e = "effective\<lparr>d_kdamonds := (d_kdamonds effective)[i := d_kdamonds previous ! i]\<rparr>"
    have step: "keep_unselected config normalized previous selected rest ?e = Inr out"
      "i < length (d_kdamonds previous)"
      "kdamond_configurations_equivalent (d_kdamonds config ! i) (d_kdamonds normalized ! i)"
      using Cons.prems False
      by (auto simp: and_then_Inr_iff kdamond_at_def split: if_splits)
    have other: "(d_kdamonds effective)[i := d_kdamonds previous ! i] ! j = d_kdamonds effective ! j"
      if "j \<in> set selected" for j
      using that False by (metis nth_list_update_neq)
    from Cons.IH [OF step(1)] step(2,3) False show ?thesis
      by (auto simp: nth_list_update other)
  qed
qed

section \<open>What a transaction leaves of the record\<close>

text \<open>What was staged is a capture of the administration directory, and its ignored paths are sorted.\<close>

definition staged_wf :: "path \<Rightarrow> staged_ownership \<Rightarrow> bool" where
  "staged_wf admin so \<longleftrightarrow> captured_snapshot admin (so_configuration so) \<and> sorted (so_volatile so)"

text \<open>A transaction changes nothing of the record but what is staged.\<close>

definition only_restaged :: "managed_hierarchy \<Rightarrow> 'r \<Rightarrow> managed_hierarchy \<Rightarrow> bool" where
  "only_restaged s r s' \<longleftrightarrow>
     s' = s\<lparr>mh_staged := mh_staged s'\<rparr>
     \<and> (staged_wf (mh_admin s) (mh_staged s) \<longrightarrow> staged_wf (mh_admin s) (mh_staged s'))"

lemma only_restaged_refl [simp]: "only_restaged s r s"
  by (simp add: only_restaged_def)

lemma only_restaged_staged [simp]:
  "staged_wf (mh_admin s) so \<Longrightarrow> only_restaged s r (s\<lparr>mh_staged := so\<rparr>)"
  by (simp add: only_restaged_def)

lemma staged_new_wf [simp]:
  "captured_snapshot a c \<Longrightarrow> staged_wf a (StagedOwnership_new c admin d)"
  by (simp add: staged_wf_def StagedOwnership_new_def)

lemma with_configuration_wf [simp]:
  "staged_wf a so \<Longrightarrow> captured_snapshot a c \<Longrightarrow> staged_wf a (with_configuration so c)"
  by (simp add: staged_wf_def with_configuration_def)

lemma snapshot_yields:
  "yields (captured_snapshot a) (retry_busy E (Admin_configuration_snapshot E a))"
  unfolding Admin_configuration_snapshot_def
  by (rule yields_retry_busy [OF snapshot_capture_yields])

lemma stage_running_yields: "yields (captured_snapshot (mh_admin s)) (stage_running E s config observed lost)"
  unfolding stage_running_def
  by (rule yields_sbind_any, rule yields_sbind_any, rule yields_sbind [OF snapshot_yields])
    (auto intro!: yields_rules)

lemma stage_and_commit_running_yields:
  "yields (staged_wf (mh_admin s)) (stage_and_commit_running E config observed selected s)"
  unfolding stage_and_commit_running_def Let_def
  apply (rule yields_sbind_any, rule yields_sbind [OF stage_running_yields])
  apply (rule yields_sbind_any, rule yields_sbind_any, rule yields_cases)
   apply (rule yields_sbind_any, rule yields_sbind [OF stage_running_yields])
   apply (auto intro!: yields_rules)
  done

lemma restore_and_commit_running_yields:
  "yields (staged_wf (mh_admin s)) (restore_and_commit_running E snapshot config selected writes s)"
  unfolding restore_and_commit_running_def Let_def
  by (intro yields_rules yields_sbind [OF snapshot_yields]) (auto intro!: yields_rules)

lemma stage_and_commit_quota_goals_yields:
  assumes "staged_wf (mh_admin s) (mh_staged s)"
  shows "yields (staged_wf (mh_admin s)) (stage_and_commit_quota_goals E quotas goals observed k s)"
  unfolding stage_and_commit_quota_goals_def Let_def
  by (intro yields_sbind [OF snapshot_yields] yields_rules) (auto intro!: yields_rules simp: assms)

lemma restore_and_commit_quota_goals_yields:
  assumes "staged_wf (mh_admin s) (mh_staged s)"
  shows "yields (staged_wf (mh_admin s)) (restore_and_commit_quota_goals E snapshot k writes s)"
  unfolding restore_and_commit_quota_goals_def Let_def
  by (intro yields_sbind [OF snapshot_yields] yields_rules) (auto intro!: yields_rules simp: assms)

lemma roll_back_wp:
  assumes "staged_wf (mh_admin s) (mh_staged s) \<Longrightarrow> yields (staged_wf (mh_admin s)) rollback"
  shows "mwp (roll_back rollback operation) s (only_restaged s)"
proof (unfold mwp_def, intro allI)
  fix w
  obtain r w' where run: "rollback w = (r, w')" by (cases "rollback w")
  then show "\<exists>r s' w'. roll_back rollback operation s w = (Inr (r, s'), w') \<and> only_restaged s r s'"
    using assms
    by (cases r)
      (auto simp: roll_back_def mfail_def sret_def stry_def only_restaged_def dest: yieldsD)
qed

lemma journalled_transaction_wp:
  assumes "staged_wf (mh_admin s) (mh_staged s) \<Longrightarrow> yields (staged_wf (mh_admin s)) (operation s)"
    and "\<And>writes. staged_wf (mh_admin s) (mh_staged s) \<Longrightarrow> yields (staged_wf (mh_admin s)) (rollback writes s)"
  shows "mwp (journalled_transaction operation rollback) s (only_restaged s)"
proof (unfold mwp_def, intro allI)
  fix w
  obtain r w' where run: "operation s (w\<lparr>w_journal := Some []\<rparr>) = (r, w')"
    by (cases "operation s (w\<lparr>w_journal := Some []\<rparr>)")
  show "\<exists>r s' w'. journalled_transaction operation rollback s w = (Inr (r, s'), w')
      \<and> only_restaged s r s'"
  proof (cases r)
    case (Inr staged)
    with run assms(1) show ?thesis
      by (auto simp: journalled_transaction_def collect_writes_def sret_def only_restaged_def
          dest: yieldsD)
  next
    case (Inl e)
    let ?ws = "case w_journal w' of Some paths \<Rightarrow> paths | None \<Rightarrow> []"
    have "mwp (roll_back (rollback ?ws s) e) s (only_restaged s)"
      using assms(2) by (intro roll_back_wp)
    with run Inl show ?thesis
      by (simp add: journalled_transaction_def collect_writes_def mwp_def)
  qed
qed

lemma update_configuration_wp: "mwp (update_configuration E ps config indices) s (only_restaged s)"
  unfolding update_configuration_def
  by (intro mwp_mbind mwp_mread_sum)
    (auto intro!: mwp_mbind mwp_mread_sum journalled_transaction_wp
      stage_and_commit_running_yields restore_and_commit_running_yields)

lemma update_scheme_quota_goals_wp:
  "mwp (update_scheme_quota_goals E k c i goals) s (only_restaged s)"
  unfolding update_scheme_quota_goals_def
  by (intro mwp_mbind mwp_mread_sum)
    (auto intro!: mwp_mbind mwp_mread_sum mwp_mret journalled_transaction_wp
      stage_and_commit_quota_goals_yields restore_and_commit_quota_goals_yields)

lemma stage_and_verify_yields:
  "yields (captured_snapshot a) (stage_and_verify_configuration E a config observed)"
  unfolding stage_and_verify_configuration_def
  by (rule yields_sbind_any, rule yields_sbind_any, rule yields_sbind [OF snapshot_yields])
    (auto intro!: yields_rules)

lemma stage_replacement_yields:
  "yields (staged_wf (mh_admin s)) (stage_replacement E config observed s)"
  unfolding stage_replacement_def
  by (rule yields_sbind [OF stage_and_verify_yields]) (simp add: yields_sret)

lemma mwp_at: "mwp (f s) s Q \<Longrightarrow> mwp (\<lambda>s. f s s) s Q"
  by (simp add: mwp_def)

lemma replace_staged_configuration_wp:
  "mwp (replace_staged_configuration E ps config) s (only_restaged s)"
proof -
  have undo: "mwp (\<lambda>s. roll_back (stage_replacement E previous None s) e s) s (only_restaged s)"
    for previous e
    by (rule mwp_at, rule roll_back_wp, rule stage_replacement_yields)
  have stage: "mwp (mcatch (mread (stage_replacement E config (Some previous))) (\<lambda>r.
      case r of Inr staged \<Rightarrow> mset_staged staged
      | Inl e \<Rightarrow> (\<lambda>s. roll_back (stage_replacement E previous None s) e s))) s (only_restaged s)"
    for previous
    by (rule mwp_mcatch, rule mwp_mread_yields [OF stage_replacement_yields])
      (simp_all add: mwp_mset_staged undo)
  show ?thesis
    unfolding replace_staged_configuration_def
    by (intro mwp_mbind mwp_mread_sum) (simp_all add: mwp_mbind mwp_mread_sum stage)
qed

end
