(* ===== verification/Update_Traces.thy ===== *)
theory Update_Traces
  imports Update_Lemmas
begin

text \<open>
  What an update writes: attributes below the administration directory, while it stages or rolls
  back, and its commit command to the \<open>state\<close> files of the selected kdamonds.
\<close>

section \<open>Events of an update\<close>

definition update_event :: "path \<Rightarrow> nat set \<Rightarrow> string set \<Rightarrow> event \<Rightarrow> bool" where
  "update_event admin I cmds ev \<longleftrightarrow>
     writes_within (attribute_of admin) ev \<or> commands_to admin I cmds ev"

lemma update_event_sleep [simp]: "update_event a I C (EvSleep d)"
  by (simp add: update_event_def)

lemma attributes_update: "writes_only (attribute_of a) m \<Longrightarrow> emits (update_event a I C) m"
  by (erule emits_mono) (simp add: update_event_def)

lemma commands_update: "emits (commands_to a I C) m \<Longrightarrow> emits (update_event a I C) m"
  by (erule emits_mono) (simp add: update_event_def)

lemma reads_update:
  "emits (update_event a I C) (verify_owned_identities_only (traced E) s)"
  "emits (update_event a I C) (verify_rollback_boundary (traced E) s snapshot writes)"
  "emits (update_event a I C) (unchanged_except_volatile (traced E) s snapshot lost)"
  "emits (update_event a I C) (retry_busy (traced E) (Admin_configuration_snapshot (traced E) q))"
  "emits (update_event a I C) (retry_busy (traced E) (Quotas_goal_configurations (traced E) q))"
  "emits (update_event a I C) (retry_busy (traced E) (values_match_current (traced E) snapshot))"
  "emits (update_event a I C) (unchanged_goals_match (traced E) s q goals observed)"
  "emits (update_event a I C) (verify_staged (traced E) so q)"
  unfolding verify_rollback_boundary_def unchanged_except_volatile_def unchanged_goals_match_def Let_def
  by (intro attributes_update emits_rules)+

section \<open>Its parts\<close>

lemma commit_one_emits:
  assumes "i \<in> I" and "KdamondCommand_kernel_name c \<in> C" and "mh_admin s = a"
  shows "emits (update_event a I C) (commit_one (traced E) s c i)"
  unfolding commit_one_def Hierarchy_kdamond_def assms(3)
  by (intro emits_sbind commands_update command_emits check_commands assms(1,2))

lemma commit_all_emits:
  assumes "set is \<subseteq> I" and "KdamondCommand_kernel_name c \<in> C" and "mh_admin s = a"
  shows "emits (update_event a I C) (seach (commit_one (traced E) s c) is)"
  using assms by (intro emits_seach commit_one_emits) auto

lemma stage_running_emits:
  "emits (update_event (mh_admin s) I C) (stage_running (traced E) s config observed lost)"
  unfolding stage_running_def by (intro attributes_update emits_rules descends_refl)

lemma restore_written_emits:
  assumes "captured_snapshot a snapshot"
  shows "emits (update_event a I C) (restore_written (traced E) s snapshot writes)"
  unfolding restore_written_def
  by (intro attributes_update retry_busy_emits restore_paths_except_attributes assms)

lemma stage_and_commit_running_emits:
  assumes "set selected \<subseteq> I" and "''commit'' \<in> C"
  shows "emits (update_event (mh_admin s) I C)
    (stage_and_commit_running (traced E) config observed selected s)"
  unfolding stage_and_commit_running_def Let_def
  using assms
  by (intro emits_sbind emits_if emits_slift emits_sret reads_update stage_running_emits
      commit_all_emits) simp_all

lemma restore_and_commit_running_emits:
  assumes "set selected \<subseteq> I" and "''commit'' \<in> C" and "captured_snapshot (mh_admin s) snapshot"
  shows "emits (update_event (mh_admin s) I C)
    (restore_and_commit_running (traced E) snapshot config selected writes s)"
  unfolding restore_and_commit_running_def restore_written_and_commit_running_def Let_def
  using assms
  by (intro emits_sbind emits_stry emits_sum emits_sfail emits_sret reads_update
      restore_written_emits commit_all_emits) simp_all

lemma stage_goals_emits:
  assumes "descends (mh_admin s) quotas"
  shows "emits (update_event (mh_admin s) I C) (retry_busy (traced E)
    (sbind (verify_owned_identities_only (traced E) s) (\<lambda>_.
       Quotas_stage_goals_from (traced E) quotas goals observed)))"
  by (intro attributes_update emits_rules assms)

lemma stage_and_commit_quota_goals_emits:
  assumes "k \<in> I" and "''commit_schemes_quota_goals'' \<in> C" and "descends (mh_admin s) quotas"
  shows "emits (update_event (mh_admin s) I C)
    (stage_and_commit_quota_goals (traced E) quotas goals observed k s)"
  unfolding stage_and_commit_quota_goals_def Let_def
  using assms
  by (intro emits_sbind emits_if emits_sfail emits_sret reads_update stage_goals_emits
      commit_one_emits) simp_all

lemma restore_and_commit_quota_goals_emits:
  assumes "k \<in> I" and "''commit_schemes_quota_goals'' \<in> C" and "captured_snapshot (mh_admin s) snapshot"
  shows "emits (update_event (mh_admin s) I C)
    (restore_and_commit_quota_goals (traced E) snapshot k writes s)"
  unfolding restore_and_commit_quota_goals_def restore_written_and_commit_quota_goals_def Let_def
  using assms
  by (intro emits_sbind emits_stry emits_sum emits_sfail emits_sret reads_update
      restore_written_emits commit_one_emits) simp_all

section \<open>The transactions\<close>

lemma roll_back_emits: "emits P rollback \<Longrightarrow> emits P (roll_back rollback operation s)"
  unfolding roll_back_def
  by (auto intro!: emits_rules simp: mfail_def)

lemma journalled_transaction_emits:
  "emits P (operation s) \<Longrightarrow> (\<And>writes. emits P (rollback writes s)) \<Longrightarrow>
     emits P (journalled_transaction operation rollback s)"
  unfolding journalled_transaction_def
  by (intro emits_collect) (auto intro!: emits_rules roll_back_emits split: sum.split)

lemma capture_emits:
  "writes_only Q (capture_rollback_state (traced E) s)"
  "writes_only Q (capture_quota (traced E) k c i s)"
  "writes_only Q (capture_staged (traced E) s)"
  unfolding capture_rollback_state_def capture_quota_def capture_staged_def Hierarchy_scheme_def Let_def
  by (intro emits_rules)+

lemma capture_rollback_state_yields:
  "yields (\<lambda>(snapshot, previous). captured_snapshot (mh_admin s) snapshot) (capture_rollback_state E s)"
  unfolding capture_rollback_state_def
  by (rule yields_sbind_any, rule yields_sbind [OF snapshot_yields])
    (auto intro!: yields_rules)

lemma Hierarchy_scheme_yields:
  "yields (descends (mh_admin s)) (Hierarchy_scheme E s k c i)"
  unfolding Hierarchy_scheme_def Let_def Hierarchy_kdamond_def
  by (auto intro!: yields_rules)

lemma capture_quota_yields:
  "yields (\<lambda>(snapshot, quotas, quota). captured_snapshot (mh_admin s) snapshot
      \<and> descends (mh_admin s) quotas) (capture_quota E k c i s)"
  unfolding capture_quota_def Let_def
  by (rule yields_sbind_any, rule yields_sbind [OF snapshot_yields],
      rule yields_sbind [OF Hierarchy_scheme_yields])
    (auto intro!: yields_rules)

lemma update_configuration_emits:
  "emits (update_event (mh_admin s) (set indices) {''commit''})
     (update_configuration (traced E) ps config indices s)"
  unfolding update_configuration_def
proof (rule emits_mread_yields [where Q = "\<lambda>selected. selected = indices"], goal_cases)
  case 1
  show ?case by (rule emits_slift)
next
  case 2
  show ?case by (rule yields_slift) (simp add: check_update_request_Inr_iff)
next
  case (3 selected)
  show ?case
  proof (rule emits_mread_yields [OF _ capture_rollback_state_yields], goal_cases)
    case 1
    show ?case by (rule attributes_update, rule capture_emits)
  next
    case (2 captured)
    with 3 show ?case
      by (cases captured)
        (auto intro!: emits_read_mbind emits_slift journalled_transaction_emits
          stage_and_commit_running_emits restore_and_commit_running_emits)
  qed
qed

lemma update_scheme_quota_goals_emits:
  "emits (update_event (mh_admin s) {k} {''commit_schemes_quota_goals''})
     (update_scheme_quota_goals (traced E) k c i goals s)"
  unfolding update_scheme_quota_goals_def
proof (rule emits_read_mbind, rule emits_slift, rule emits_mread_yields [OF _ capture_quota_yields],
    goal_cases)
  case 1
  show ?case by (rule attributes_update, rule capture_emits)
next
  case (2 u captured)
  then show ?case
    by (cases captured)
      (auto intro!: emits_read_mbind emits_slift journalled_transaction_emits emits_rules
        stage_and_commit_quota_goals_emits restore_and_commit_quota_goals_emits)
qed

lemma replace_staged_configuration_emits:
  "writes_only (attribute_of (mh_admin s)) (replace_staged_configuration (traced E) ps config s)"
proof -
  have stage: "writes_only (attribute_of (mh_admin s)) (stage_replacement (traced E) c ob s)" for c ob
    unfolding stage_replacement_def by (intro emits_rules descends_refl)
  show ?thesis
    unfolding replace_staged_configuration_def
    by (intro emits_read_mbind emits_read_mcatch emits_slift capture_emits stage)
      (auto intro!: roll_back_emits stage emits_rules split: sum.split)
qed

end
