(* ===== verification/Runtime.thy ===== *)
theory Runtime
  imports Update_Traces
begin

text \<open>
  \<^verbatim>\<open>src/src/monitor/runtime.rs\<close>: access to one running kdamond of an owned hierarchy, the batches
  that run several queries between two ownership checks, and pausing a context. A batch caches
  the number of contexts and one context with its number of schemes. The closure a batch runs is
  any computation on the batch.
\<close>

section \<open>Batches\<close>

record runtime_batch =
  rb_hierarchy :: managed_hierarchy
  rb_index :: usize
  rb_kdamond :: path
  rb_context_count :: "usize option"
  rb_cached :: "(usize \<times> path \<times> usize) option"

type_synonym ('k, 'a) bcomp = "(runtime_batch, 'k, 'a) stcomp"

definition new_batch :: "managed_hierarchy \<Rightarrow> usize \<Rightarrow> runtime_batch" where
  "new_batch s i =
     \<lparr>rb_hierarchy = s, rb_index = i, rb_kdamond = Hierarchy_kdamond s i,
      rb_context_count = None, rb_cached = None\<rparr>"

definition set_context_count :: "usize \<Rightarrow> ('k, unit) bcomp" where
  "set_context_count n b = sret (Inr (), b\<lparr>rb_context_count := Some n\<rparr>)"

definition set_cached :: "usize \<times> path \<times> usize \<Rightarrow> ('k, unit) bcomp" where
  "set_cached entry b = sret (Inr (), b\<lparr>rb_cached := Some entry\<rparr>)"

definition load_scheme :: "'k sysfs \<Rightarrow> usize \<Rightarrow> usize \<Rightarrow> ('k, path) bcomp" where
  "load_scheme E c i b =
     (let context = Kdamond_context (rb_kdamond b) c in
      mbind (mread (\<lambda>_. Context_scheme_count E context)) (\<lambda>n.
        if i \<ge> n then mfail (IndexOutOfBounds ''scheme'' i n)
        else mbind (set_cached (c, context, n)) (\<lambda>_. mret (Context_scheme context i))) b)"

definition find_scheme :: "'k sysfs \<Rightarrow> usize \<Rightarrow> usize \<Rightarrow> usize \<Rightarrow> ('k, path) bcomp" where
  "find_scheme E c i contexts b =
     (if c \<ge> contexts then mfail (IndexOutOfBounds ''context'' c contexts) b
      else case rb_cached b of
        Some (cached_index, context, scheme_count) \<Rightarrow>
          if cached_index = c then
            (if i \<ge> scheme_count then mfail (IndexOutOfBounds ''scheme'' i scheme_count) b
             else mret (Context_scheme context i) b)
          else load_scheme E c i b
      | None \<Rightarrow> load_scheme E c i b)"

definition cached_scheme :: "'k sysfs \<Rightarrow> usize \<Rightarrow> usize \<Rightarrow> ('k, path) bcomp" where
  "cached_scheme E c i b =
     (case rb_context_count b of
        Some n \<Rightarrow> find_scheme E c i n b
      | None \<Rightarrow>
          mbind (mread (\<lambda>b. Kdamond_context_count E (rb_kdamond b))) (\<lambda>n.
          mbind (set_context_count n) (\<lambda>_. find_scheme E c i n)) b)"

definition Batch_verify_identity :: "'k sysfs \<Rightarrow> ('k, unit) bcomp" where
  "Batch_verify_identity E =
     mread (\<lambda>b. verify_running_identity_with E (rb_hierarchy b) (rb_index b) (rb_kdamond b))"

definition Batch_issue_command :: "'k sysfs \<Rightarrow> kdamond_command \<Rightarrow> ('k, unit) bcomp" where
  "Batch_issue_command E command =
     mbind (Batch_verify_identity E) (\<lambda>_.
       mread (\<lambda>b. retry_busy E (Kdamond_command E (rb_kdamond b) command)))"

definition Batch_command :: "'k sysfs \<Rightarrow> kdamond_command \<Rightarrow> ('k, unit) bcomp" where
  "Batch_command E command =
     mbind (Batch_issue_command E command) (\<lambda>_. Batch_verify_identity E)"

text \<open>A value the kernel has already written out, and one it is first told to write out.\<close>

definition cached_query :: "'k sysfs \<Rightarrow> usize \<Rightarrow> usize \<Rightarrow> (path \<Rightarrow> ('k, 'a) comp) \<Rightarrow> ('k, 'a) bcomp"
  where
  "cached_query E c i read =
     mbind (cached_scheme E c i) (\<lambda>scheme.
     mbind (mread (\<lambda>_. read scheme)) (\<lambda>x.
     mbind (Batch_verify_identity E) (\<lambda>_. mret x)))"

definition updated_query ::
    "'k sysfs \<Rightarrow> kdamond_command \<Rightarrow> usize \<Rightarrow> usize \<Rightarrow> (path \<Rightarrow> ('k, 'a) comp) \<Rightarrow> ('k, 'a) bcomp" where
  "updated_query E command c i read =
     mbind (cached_scheme E c i) (\<lambda>scheme.
     mbind (Batch_issue_command E command) (\<lambda>_.
     mbind (mread (\<lambda>_. read scheme)) (\<lambda>x.
     mbind (Batch_verify_identity E) (\<lambda>_. mret x))))"

definition read_effective_quota :: "'k sysfs \<Rightarrow> path \<Rightarrow> ('k, u64) comp" where
  "read_effective_quota E scheme = Quotas_effective_size_units E (Scheme_quotas scheme)"

definition Batch_scheme_stats :: "'k sysfs \<Rightarrow> usize \<Rightarrow> usize \<Rightarrow> ('k, scheme_stats) bcomp" where
  "Batch_scheme_stats E c i = updated_query E UpdateSchemesStats c i (Scheme_stats E)"

definition Batch_cached_scheme_stats :: "'k sysfs \<Rightarrow> usize \<Rightarrow> usize \<Rightarrow> ('k, scheme_stats) bcomp" where
  "Batch_cached_scheme_stats E c i = cached_query E c i (Scheme_stats E)"

definition Batch_tried_regions :: "'k sysfs \<Rightarrow> usize \<Rightarrow> usize \<Rightarrow> ('k, raw_snapshot) bcomp" where
  "Batch_tried_regions E c i =
     updated_query E UpdateSchemesTriedRegions c i (Scheme_tried_regions E)"

definition Batch_cached_tried_regions :: "'k sysfs \<Rightarrow> usize \<Rightarrow> usize \<Rightarrow> ('k, raw_snapshot) bcomp"
  where
  "Batch_cached_tried_regions E c i = cached_query E c i (Scheme_tried_regions E)"

definition Batch_tried_bytes_units :: "'k sysfs \<Rightarrow> usize \<Rightarrow> usize \<Rightarrow> ('k, u64) bcomp" where
  "Batch_tried_bytes_units E c i =
     updated_query E UpdateSchemesTriedBytes c i (Scheme_tried_bytes_units E)"

definition Batch_cached_tried_bytes_units :: "'k sysfs \<Rightarrow> usize \<Rightarrow> usize \<Rightarrow> ('k, u64) bcomp" where
  "Batch_cached_tried_bytes_units E c i = cached_query E c i (Scheme_tried_bytes_units E)"

definition Batch_effective_quota_units :: "'k sysfs \<Rightarrow> usize \<Rightarrow> usize \<Rightarrow> ('k, u64) bcomp" where
  "Batch_effective_quota_units E c i =
     updated_query E UpdateSchemesEffectiveQuotas c i (read_effective_quota E)"

definition Batch_cached_effective_quota_units :: "'k sysfs \<Rightarrow> usize \<Rightarrow> usize \<Rightarrow> ('k, u64) bcomp"
  where
  "Batch_cached_effective_quota_units E c i = cached_query E c i (read_effective_quota E)"

definition Batch_update_tuned_intervals :: "'k sysfs \<Rightarrow> ('k, unit) bcomp" where
  "Batch_update_tuned_intervals E = Batch_command E UpdateTunedIntervals"

definition Batch_clear_tried_regions :: "'k sysfs \<Rightarrow> ('k, unit) bcomp" where
  "Batch_clear_tried_regions E = Batch_command E ClearSchemesTriedRegions"

text \<open>A read batch has the same fields and only queries of values already written out.\<close>

definition ReadBatch_scheme_stats :: "'k sysfs \<Rightarrow> usize \<Rightarrow> usize \<Rightarrow> ('k, scheme_stats) bcomp" where
  "ReadBatch_scheme_stats E c i = cached_query E c i (Scheme_stats E)"

definition ReadBatch_tried_regions :: "'k sysfs \<Rightarrow> usize \<Rightarrow> usize \<Rightarrow> ('k, raw_snapshot) bcomp" where
  "ReadBatch_tried_regions E c i = cached_query E c i (Scheme_tried_regions E)"

definition ReadBatch_tried_bytes_units :: "'k sysfs \<Rightarrow> usize \<Rightarrow> usize \<Rightarrow> ('k, u64) bcomp" where
  "ReadBatch_tried_bytes_units E c i = cached_query E c i (Scheme_tried_bytes_units E)"

definition ReadBatch_effective_quota_units :: "'k sysfs \<Rightarrow> usize \<Rightarrow> usize \<Rightarrow> ('k, u64) bcomp" where
  "ReadBatch_effective_quota_units E c i = cached_query E c i (read_effective_quota E)"

text \<open>A batch over one kdamond inside a batch over the hierarchy, to run queries or only to read.\<close>

definition HierarchyBatch_kdamond :: "managed_hierarchy \<Rightarrow> usize \<Rightarrow> runtime_batch result" where
  "HierarchyBatch_kdamond s i = and_then (expected_running_pid s i) (\<lambda>_. Inr (new_batch s i))"

definition HierarchyReadBatch_kdamond :: "managed_hierarchy \<Rightarrow> usize \<Rightarrow> runtime_batch result" where
  "HierarchyReadBatch_kdamond s i = and_then (expected_running_pid s i) (\<lambda>_. Inr (new_batch s i))"

section \<open>One running kdamond\<close>

definition batch_between_checks ::
    "'k sysfs \<Rightarrow> managed_hierarchy \<Rightarrow> usize \<Rightarrow> ('k, 'a) bcomp \<Rightarrow> ('k, 'a) comp" where
  "batch_between_checks E s i operation =
     sbind (verify_running E s i) (\<lambda>_.
     sbind (operation (new_batch s i)) (\<lambda>(result, _).
     sbind (verify_running_identity E s i) (\<lambda>_. slift result)))"

definition Managed_runtime :: "managed_hierarchy \<Rightarrow> usize \<Rightarrow> usize result" where
  "Managed_runtime s i = and_then (expected_running_pid s i) (\<lambda>_. Inr i)"

definition Managed_runtime_batch :: "'k sysfs \<Rightarrow> usize \<Rightarrow> ('k, 'a) bcomp \<Rightarrow> ('k, 'a) mcomp" where
  "Managed_runtime_batch E i operation = mread (\<lambda>s. batch_between_checks E s i operation)"

definition Managed_read_batch ::
    "'k sysfs \<Rightarrow> managed_hierarchy \<Rightarrow> usize \<Rightarrow> ('k, 'a) bcomp \<Rightarrow> ('k, 'a) comp" where
  "Managed_read_batch E s i operation = batch_between_checks E s i operation"

definition Managed_scheme_stats :: "'k sysfs \<Rightarrow> usize \<Rightarrow> usize \<Rightarrow> usize \<Rightarrow> ('k, scheme_stats) mcomp" where
  "Managed_scheme_stats E k c i = Managed_runtime_batch E k (Batch_scheme_stats E c i)"

definition Managed_tried_regions :: "'k sysfs \<Rightarrow> usize \<Rightarrow> usize \<Rightarrow> usize \<Rightarrow> ('k, raw_snapshot) mcomp" where
  "Managed_tried_regions E k c i = Managed_runtime_batch E k (Batch_tried_regions E c i)"

definition Managed_tried_bytes_units :: "'k sysfs \<Rightarrow> usize \<Rightarrow> usize \<Rightarrow> usize \<Rightarrow> ('k, u64) mcomp" where
  "Managed_tried_bytes_units E k c i = Managed_runtime_batch E k (Batch_tried_bytes_units E c i)"

definition Managed_effective_quota_units :: "'k sysfs \<Rightarrow> usize \<Rightarrow> usize \<Rightarrow> usize \<Rightarrow> ('k, u64) mcomp" where
  "Managed_effective_quota_units E k c i =
     Managed_runtime_batch E k (Batch_effective_quota_units E c i)"

definition Managed_update_tuned_intervals :: "'k sysfs \<Rightarrow> usize \<Rightarrow> ('k, unit) mcomp" where
  "Managed_update_tuned_intervals E k = Managed_runtime_batch E k (Batch_update_tuned_intervals E)"

definition Managed_clear_tried_regions :: "'k sysfs \<Rightarrow> usize \<Rightarrow> ('k, unit) mcomp" where
  "Managed_clear_tried_regions E k = Managed_runtime_batch E k (Batch_clear_tried_regions E)"

text \<open>The cached reads outside a batch.\<close>

definition managed_cached ::
    "'k sysfs \<Rightarrow> managed_hierarchy \<Rightarrow> usize \<Rightarrow> usize \<Rightarrow> usize \<Rightarrow> (path \<Rightarrow> ('k, 'a) comp) \<Rightarrow> ('k, 'a) comp"
  where
  "managed_cached E s k c i read =
     sbind (verify_running E s k) (\<lambda>_.
     sbind (Hierarchy_scheme E s k c i) (\<lambda>scheme.
     sbind (read scheme) (\<lambda>x.
     sbind (verify_running_identity E s k) (\<lambda>_. sret x))))"

definition Managed_cached_scheme_stats ::
    "'k sysfs \<Rightarrow> managed_hierarchy \<Rightarrow> usize \<Rightarrow> usize \<Rightarrow> usize \<Rightarrow> ('k, scheme_stats) comp" where
  "Managed_cached_scheme_stats E s k c i = managed_cached E s k c i (Scheme_stats E)"

definition Managed_cached_tried_regions ::
    "'k sysfs \<Rightarrow> managed_hierarchy \<Rightarrow> usize \<Rightarrow> usize \<Rightarrow> usize \<Rightarrow> ('k, raw_snapshot) comp" where
  "Managed_cached_tried_regions E s k c i = managed_cached E s k c i (Scheme_tried_regions E)"

definition Managed_cached_tried_bytes_units ::
    "'k sysfs \<Rightarrow> managed_hierarchy \<Rightarrow> usize \<Rightarrow> usize \<Rightarrow> usize \<Rightarrow> ('k, u64) comp" where
  "Managed_cached_tried_bytes_units E s k c i = managed_cached E s k c i (Scheme_tried_bytes_units E)"

definition Managed_cached_effective_quota_units ::
    "'k sysfs \<Rightarrow> managed_hierarchy \<Rightarrow> usize \<Rightarrow> usize \<Rightarrow> usize \<Rightarrow> ('k, u64) comp" where
  "Managed_cached_effective_quota_units E s k c i = managed_cached E s k c i (read_effective_quota E)"

section \<open>Pausing a context\<close>

definition check_pause ::
    "'k sysfs \<Rightarrow> managed_hierarchy \<Rightarrow> usize \<Rightarrow> usize \<Rightarrow> ('k, bool) comp" where
  "check_pause E s k c =
     sbind (verify_running E s k) (\<lambda>_.
     let kdamond = Hierarchy_kdamond s k in
     sbind (Kdamond_context_count E kdamond) (\<lambda>n.
       if c \<ge> n then sfail (IndexOutOfBounds ''context'' c n)
       else
         sbind (Context_pause_control_available E (Kdamond_context kdamond c)) (\<lambda>available.
           if \<not> available then sfail (UnsupportedFeature ''DAMON context pause'')
           else Context_is_paused E (Kdamond_context kdamond c))))"

definition mset_configuration :: "config_snapshot \<Rightarrow> ('k, unit) mcomp" where
  "mset_configuration configuration s =
     sret (Inr (), s\<lparr>mh_staged := with_configuration (mh_staged s) configuration\<rparr>)"

definition commit_pause ::
    "'k sysfs \<Rightarrow> usize \<Rightarrow> usize \<Rightarrow> bool \<Rightarrow> managed_hierarchy \<Rightarrow> ('k, config_snapshot) comp" where
  "commit_pause E k c paused s =
     (let kdamond = Hierarchy_kdamond s k; context = Kdamond_context kdamond c in
      sbind (retry_busy E (Kdamond_command E kdamond Commit)) (\<lambda>_.
      sbind (verify_running_identity_only E s k) (\<lambda>_.
      sbind (Context_is_paused E context) (\<lambda>observed.
        if observed \<noteq> paused then
          sfail (ConfigurationMismatch (''contexts/'' @ dec c @ ''/pause''))
        else
          sbind (snapshot_refreshed_paths_except E (so_configuration (mh_staged s))
                   [sub context [''pause'']] (so_volatile (mh_staged s))) (\<lambda>refreshed.
          sbind (verify_running_identity_only E s k) (\<lambda>_. sret refreshed))))))"

definition revert_pause ::
    "'k sysfs \<Rightarrow> usize \<Rightarrow> usize \<Rightarrow> bool \<Rightarrow> config_snapshot \<Rightarrow> managed_hierarchy
       \<Rightarrow> ('k, config_snapshot) comp" where
  "revert_pause E k c previous fingerprint s =
     (let kdamond = Hierarchy_kdamond s k; context = Kdamond_context kdamond c in
      sbind (Context_set_paused E context previous) (\<lambda>_.
      sbind (retry_busy E (Kdamond_command E kdamond Commit)) (\<lambda>_.
      sbind (snapshot_refreshed_paths_except E fingerprint [sub context [''pause'']]
               (so_volatile (mh_staged s))) (\<lambda>restored.
      sbind (verify_running_identity_only E s k) (\<lambda>_. sret restored)))))"

definition change_pause ::
    "'k sysfs \<Rightarrow> usize \<Rightarrow> usize \<Rightarrow> bool \<Rightarrow> bool \<Rightarrow> config_snapshot \<Rightarrow> ('k, unit) mcomp" where
  "change_pause E k c previous paused fingerprint =
     mbind (mread (\<lambda>s. Context_set_paused E (Kdamond_context (Hierarchy_kdamond s k) c) paused)) (\<lambda>_.
     mcatch (mbind (mread (commit_pause E k c paused)) mset_configuration) (\<lambda>r.
       case r of
         Inr _ \<Rightarrow> mret ()
       | Inl operation \<Rightarrow>
           mcatch (mbind (mread (revert_pause E k c previous fingerprint)) mset_configuration)
             (\<lambda>rollback. mfail (with_rollback operation rollback))))"

definition set_context_paused :: "'k sysfs \<Rightarrow> usize \<Rightarrow> usize \<Rightarrow> bool \<Rightarrow> ('k, unit) mcomp" where
  "set_context_paused E k c paused =
     mbind (mread (\<lambda>s. check_pause E s k c)) (\<lambda>previous.
       if previous = paused then mread (\<lambda>s. verify_running_identity E s k)
       else (\<lambda>s. change_pause E k c previous paused (so_configuration (mh_staged s)) s))"

definition pause_context :: "'k sysfs \<Rightarrow> usize \<Rightarrow> usize \<Rightarrow> ('k, unit) mcomp" where
  "pause_context E k c = set_context_paused E k c True"

definition resume_context :: "'k sysfs \<Rightarrow> usize \<Rightarrow> usize \<Rightarrow> ('k, unit) mcomp" where
  "resume_context E k c = set_context_paused E k c False"

text \<open>The operations of the view of one running kdamond.\<close>

definition Managed_is_running :: "'k sysfs \<Rightarrow> managed_hierarchy \<Rightarrow> usize \<Rightarrow> ('k, bool) comp" where
  "Managed_is_running E s k = Hierarchy_is_running E s k"

definition Managed_pause :: "'k sysfs \<Rightarrow> usize \<Rightarrow> ('k, unit) mcomp" where
  "Managed_pause E k = pause_context E k 0"

definition Managed_resume :: "'k sysfs \<Rightarrow> usize \<Rightarrow> ('k, unit) mcomp" where
  "Managed_resume E k = resume_context E k 0"

definition Managed_update_scheme_quota_goals ::
    "'k sysfs \<Rightarrow> usize \<Rightarrow> usize \<Rightarrow> usize \<Rightarrow> quota_goal_config list \<Rightarrow> ('k, unit) mcomp" where
  "Managed_update_scheme_quota_goals E k c i goals = update_scheme_quota_goals E k c i goals"

end
