(* ===== verification/Runtime_Lemmas.thy ===== *)
theory Runtime_Lemmas
  imports Runtime
begin

text \<open>
  What a batch caches and that the cached look-up agrees with the direct one; what queries and
  pauses write; what a pause leaves of the owner's record.
\<close>

section \<open>What a batch caches\<close>

text \<open>What is cached describes the kdamond's own contexts.\<close>

definition batch_wf :: "runtime_batch \<Rightarrow> bool" where
  "batch_wf b \<longleftrightarrow>
     rb_kdamond b = Hierarchy_kdamond (rb_hierarchy b) (rb_index b)
     \<and> (case rb_cached b of None \<Rightarrow> True
        | Some (c, context, n) \<Rightarrow>
            context = Kdamond_context (rb_kdamond b) c
            \<and> (\<exists>contexts. rb_context_count b = Some contexts \<and> c < contexts))"

definition same_batch :: "runtime_batch \<Rightarrow> runtime_batch \<Rightarrow> bool" where
  "same_batch b b' \<longleftrightarrow>
     rb_hierarchy b' = rb_hierarchy b \<and> rb_index b' = rb_index b \<and> rb_kdamond b' = rb_kdamond b"

lemma same_batch_refl [simp]: "same_batch b b"
  by (simp add: same_batch_def)

lemma new_batch_wf [simp]: "batch_wf (new_batch s i)"
  by (simp add: batch_wf_def new_batch_def)

lemma mwp_set_context_count [mwp_rules]:
  "Q (Inr ()) (b\<lparr>rb_context_count := Some n\<rparr>) \<Longrightarrow> mwp (set_context_count n) b Q"
  by (simp add: mwp_def set_context_count_def sret_def)

lemma mwp_set_cached [mwp_rules]:
  "Q (Inr ()) (b\<lparr>rb_cached := Some entry\<rparr>) \<Longrightarrow> mwp (set_cached entry) b Q"
  by (simp add: mwp_def set_cached_def sret_def)

definition scheme_of :: "runtime_batch \<Rightarrow> usize \<Rightarrow> usize \<Rightarrow> path result \<Rightarrow> runtime_batch \<Rightarrow> bool" where
  "scheme_of b c i r b' \<longleftrightarrow> batch_wf b' \<and> same_batch b b'
     \<and> (\<forall>p. r = Inr p \<longrightarrow> p = Context_scheme (Kdamond_context (rb_kdamond b) c) i)"

lemma load_scheme_wp:
  assumes "batch_wf b" "rb_context_count b = Some contexts" "c < contexts"
  shows "mwp (load_scheme E c i) b (scheme_of b c i)"
  by (rule mwp_enter, simp only: load_scheme_def Let_def, rule mwp_leave, intro mwp_mbind mwp_mread_sum)
    (use assms in \<open>auto simp: scheme_of_def batch_wf_def same_batch_def
      intro!: mwp_mbind mwp_set_cached mwp_mret mwp_mfail\<close>)

lemma find_scheme_wp:
  assumes "batch_wf b" "rb_context_count b = Some contexts"
  shows "mwp (find_scheme E c i contexts) b (scheme_of b c i)"
proof (cases "c < contexts")
  case False
  then show ?thesis
    by (intro mwp_enter [of "find_scheme E c i contexts"])
      (use assms in \<open>simp add: find_scheme_def mwp_def mfail_def sret_def scheme_of_def\<close>)
next
  case True
  note load = load_scheme_wp [OF assms True, of E i]
  show ?thesis
  proof (cases "\<exists>context n. rb_cached b = Some (c, context, n)")
    case True
    with assms \<open>c < contexts\<close> show ?thesis
      by (intro mwp_enter [of "find_scheme E c i contexts"])
        (auto simp: find_scheme_def mwp_def mfail_def mret_def sret_def scheme_of_def batch_wf_def)
  next
    case False
    have "find_scheme E c i contexts b = load_scheme E c i b"
      using False \<open>c < contexts\<close> by (auto simp: find_scheme_def split: option.splits)
    with load show ?thesis by (simp add: mwp_def)
  qed
qed

lemma cached_scheme_wp:
  assumes "batch_wf b"
  shows "mwp (cached_scheme E c i) b (scheme_of b c i)"
proof (cases "rb_context_count b")
  case (Some n)
  then have "cached_scheme E c i b = find_scheme E c i n b" by (simp add: cached_scheme_def)
  with find_scheme_wp [OF assms Some] show ?thesis by (simp add: mwp_def)
next
  case None
  let ?b = "\<lambda>n. b\<lparr>rb_context_count := Some n\<rparr>"
  have "mwp (find_scheme E c i n) (?b n) (scheme_of b c i)" for n
    by (rule mwp_mono [OF find_scheme_wp [of "?b n" n]])
      (use assms None in \<open>auto simp: batch_wf_def scheme_of_def same_batch_def split: option.splits\<close>)
  then show ?thesis
    by (intro mwp_enter [of "cached_scheme E c i"], simp only: cached_scheme_def None option.case,
        intro mwp_leave mwp_mbind mwp_mread_sum)
      (use assms in \<open>auto simp: scheme_of_def intro!: mwp_mbind mwp_set_context_count\<close>)
qed

text \<open>A second look at the same context makes no system call.\<close>

lemma cached_scheme_hit:
  assumes "rb_context_count b = Some contexts" and "c < contexts" and "rb_cached b = Some (c, context, n)"
  shows "cached_scheme E c i b w =
    (Inr (if i < n then Inr (Context_scheme context i) else Inl (IndexOutOfBounds ''scheme'' i n), b), w)"
  using assms by (simp add: cached_scheme_def find_scheme_def mret_def mfail_def sret_def)

lemma cached_scheme_fills:
  assumes "cached_scheme E c i b w = (Inr (Inr p, b'), w')" and "batch_wf b"
  shows "\<exists>contexts n. rb_context_count b' = Some contexts \<and> c < contexts
    \<and> rb_cached b' = Some (c, Kdamond_context (rb_kdamond b) c, n) \<and> i < n"
proof -
  have find: "\<exists>n. rb_context_count b' = Some contexts \<and> c < contexts
      \<and> rb_cached b' = Some (c, Kdamond_context (rb_kdamond d) c, n) \<and> i < n"
    if "find_scheme E c i contexts d v = (Inr (Inr p, b'), w')" "rb_context_count d = Some contexts"
      "rb_cached d = rb_cached b" "rb_kdamond d = rb_kdamond b" for contexts d v
    using that assms(2)
    by (auto simp: find_scheme_def load_scheme_def mbind_def mcatch_def mread_def stry_def sbind_def
        sret_def mfail_def mret_def set_cached_def batch_wf_def Let_def
        split: if_splits option.splits prod.splits sum.splits)
  show ?thesis
  proof (cases "rb_context_count b")
    case (Some n)
    with assms(1) find [of n b w] show ?thesis by (auto simp: cached_scheme_def)
  next
    case None
    with assms(1) obtain n v where "find_scheme E c i n (b\<lparr>rb_context_count := Some n\<rparr>) v = (Inr (Inr p, b'), w')"
      by (auto simp: cached_scheme_def mbind_def mcatch_def mread_def stry_def sbind_def sret_def
          mfail_def set_context_count_def split: prod.splits sum.splits)
    from find [OF this] show ?thesis by auto
  qed
qed

section \<open>The cached look-up is the direct one\<close>

text \<open>
  What a batch has cached is what the kernel would still answer in a world: the counts are the
  ones read again, and reading them again changes nothing.
\<close>

definition answers :: "('k, 'a) comp \<Rightarrow> 'a \<Rightarrow> 'k world \<Rightarrow> bool" where
  "answers m x w \<longleftrightarrow> m w = (Inr x, w)"

definition cache_current :: "'k sysfs \<Rightarrow> runtime_batch \<Rightarrow> 'k world \<Rightarrow> bool" where
  "cache_current E b w \<longleftrightarrow>
     (\<forall>n. rb_context_count b = Some n \<longrightarrow> answers (Kdamond_context_count E (rb_kdamond b)) n w)
     \<and> (\<forall>c context n. rb_cached b = Some (c, context, n) \<longrightarrow>
          answers (Context_scheme_count E context) n w)"

lemma cached_scheme_direct:
  assumes "batch_wf b" and "cache_current E b w"
    and "rb_index b < length (mh_states (rb_hierarchy b))"
  shows "stry (Hierarchy_scheme E (rb_hierarchy b) (rb_index b) c i) (\<lambda>r. sret r) w
    = sbind (cached_scheme E c i b) (\<lambda>(r, b'). sret r) w"
  using assms
  by (auto simp: Hierarchy_scheme_def cached_scheme_def find_scheme_def load_scheme_def
      validate_kdamond_index_def slift_def sbind_def stry_def sret_def sfail_def mret_def mfail_def
      mbind_def mcatch_def mread_def set_cached_def set_context_count_def batch_wf_def
      cache_current_def answers_def Let_def split: prod.splits sum.splits option.splits)

section \<open>What a batch writes\<close>

lemma emits_any_mbind:
  "emits P (m s) \<Longrightarrow> (\<And>x s'. emits P (f x s')) \<Longrightarrow> emits P (mbind m f s)"
  unfolding mbind_def mcatch_def
  by (rule emits_sbind) (auto intro!: emits_rules split: prod.split sum.split)

lemma set_emits [emits_rules]:
  "emits P (set_context_count n b)" "emits P (set_cached entry b)"
  by (simp_all add: set_context_count_def set_cached_def emits_sret)

lemma load_scheme_emits: "writes_only Q (load_scheme (traced E) c i b)"
  unfolding load_scheme_def Let_def
  by (rule emits_read_mbind) (auto intro!: emits_rules emits_at_mbind [where Q = "\<lambda>_ _. True"]
      mwp_set_cached)

lemma find_scheme_emits: "writes_only Q (find_scheme (traced E) c i n b)"
  unfolding find_scheme_def
  by (auto intro!: emits_rules load_scheme_emits split: option.split)

lemma cached_scheme_emits: "writes_only Q (cached_scheme (traced E) c i b)"
  unfolding cached_scheme_def
  by (auto intro!: emits_read_mbind emits_rules emits_at_mbind [where Q = "\<lambda>_ _. True"]
      mwp_set_context_count find_scheme_emits split: option.split)

text \<open>The events of a batch: commands to the kdamond it is over.\<close>

definition batch_event :: "runtime_batch \<Rightarrow> string set \<Rightarrow> event \<Rightarrow> bool" where
  "batch_event b = commands_to (mh_admin (rb_hierarchy b)) {rb_index b}"

lemma reads_batch: "writes_only (\<lambda>_. False) m \<Longrightarrow> emits (batch_event b C) m"
  unfolding batch_event_def by (rule reads_are_commands)

lemma verify_identity_emits: "emits (batch_event b C) (Batch_verify_identity (traced E) b')"
  unfolding Batch_verify_identity_def
  by (intro reads_batch memits_mread emits_rules)

lemma verify_identity_same: "mwp (Batch_verify_identity E) b (\<lambda>_ b'. b' = b)"
  unfolding Batch_verify_identity_def by (rule mwp_mread) simp

lemma Batch_issue_command_same: "mwp (Batch_issue_command E command) b (\<lambda>_ b'. b' = b)"
  unfolding Batch_issue_command_def
  by (rule mwp_mbind, rule mwp_mono [OF verify_identity_same])
    (auto split: sum.split intro: mwp_mread)

lemma Batch_issue_command_emits:
  assumes "batch_wf b" and "KdamondCommand_kernel_name command \<in> C"
  shows "emits (batch_event b C) (Batch_issue_command (traced E) command b)"
  unfolding Batch_issue_command_def
  using assms
  by (intro emits_at_mbind [OF verify_identity_emits verify_identity_same])
    (auto simp: batch_wf_def batch_event_def Hierarchy_kdamond_def intro!: memits_mread command_emits)

lemma Batch_command_emits:
  assumes "batch_wf b" and "KdamondCommand_kernel_name command \<in> C"
  shows "emits (batch_event b C) (Batch_command (traced E) command b)"
  unfolding Batch_command_def
  by (intro emits_at_mbind [OF Batch_issue_command_emits [OF assms] Batch_issue_command_same]
      verify_identity_emits)

lemma read_and_verify_emits:
  assumes "\<And>p. writes_only (\<lambda>_. False) (f p)"
  shows "emits (batch_event b C) (mbind (mread (\<lambda>_. f p)) (\<lambda>x.
    mbind (Batch_verify_identity (traced E)) (\<lambda>_. mret x)) b')"
  by (rule emits_read_mbind, rule reads_batch, rule assms,
      rule emits_at_mbind [OF verify_identity_emits verify_identity_same]) (rule emits_rules)

lemma cached_query_emits:
  assumes "\<And>p. writes_only (\<lambda>_. False) (f p)"
  shows "writes_only (\<lambda>_. False) (cached_query (traced E) c i f b)"
  unfolding cached_query_def Batch_verify_identity_def
  by (intro emits_any_mbind cached_scheme_emits memits_mread emits_rules assms)

lemma updated_query_emits:
  assumes "batch_wf b" and "KdamondCommand_kernel_name command \<in> C"
    and "\<And>p. writes_only (\<lambda>_. False) (f p)"
  shows "emits (batch_event b C) (updated_query (traced E) command c i f b)"
  unfolding updated_query_def
proof (rule emits_at_mbind [OF reads_batch [OF cached_scheme_emits] cached_scheme_wp [OF assms(1)]])
  fix p b'
  assume of_b: "scheme_of b c i (Inr p) b'"
  then have b': "batch_wf b'" "batch_event b' = batch_event b"
    by (auto simp: scheme_of_def same_batch_def batch_event_def)
  show "emits (batch_event b C) (mbind (Batch_issue_command (traced E) command) (\<lambda>_.
      mbind (mread (\<lambda>_. f p)) (\<lambda>x. mbind (Batch_verify_identity (traced E)) (\<lambda>_. mret x))) b')"
    unfolding b'(2) [symmetric]
    by (intro emits_at_mbind [OF Batch_issue_command_emits Batch_issue_command_same]
        read_and_verify_emits b' assms)
qed

text \<open>The commands of the queries that first have the kernel write its values out.\<close>

lemma query_emits:
  assumes "batch_wf b"
  shows
  "emits (batch_event b {''update_schemes_stats''}) (Batch_scheme_stats (traced E) c i b)"
  "emits (batch_event b {''update_schemes_tried_regions''}) (Batch_tried_regions (traced E) c i b)"
  "emits (batch_event b {''update_schemes_tried_bytes''}) (Batch_tried_bytes_units (traced E) c i b)"
  "emits (batch_event b {''update_schemes_effective_quotas''}) (Batch_effective_quota_units (traced E) c i b)"
  "emits (batch_event b {''update_tuned_intervals''}) (Batch_update_tuned_intervals (traced E) b)"
  "emits (batch_event b {''clear_schemes_tried_regions''}) (Batch_clear_tried_regions (traced E) b)"
  unfolding Batch_scheme_stats_def Batch_tried_regions_def Batch_tried_bytes_units_def
    Batch_effective_quota_units_def Batch_update_tuned_intervals_def Batch_clear_tried_regions_def
    read_effective_quota_def
  by (intro updated_query_emits Batch_command_emits assms emits_rules; simp)+

lemma cached_queries_emit:
  "writes_only (\<lambda>_. False) (Batch_cached_scheme_stats (traced E) c i b)"
  "writes_only (\<lambda>_. False) (Batch_cached_tried_regions (traced E) c i b)"
  "writes_only (\<lambda>_. False) (Batch_cached_tried_bytes_units (traced E) c i b)"
  "writes_only (\<lambda>_. False) (Batch_cached_effective_quota_units (traced E) c i b)"
  unfolding Batch_cached_scheme_stats_def Batch_cached_tried_regions_def
    Batch_cached_tried_bytes_units_def Batch_cached_effective_quota_units_def read_effective_quota_def
  by (intro cached_query_emits emits_rules)+

lemma batch_between_checks_emits:
  assumes "emits (commands_to (mh_admin s) {i} C) (operation (new_batch s i))"
  shows "emits (commands_to (mh_admin s) {i} C) (batch_between_checks (traced E) s i operation)"
  unfolding batch_between_checks_def
  by (rule emits_sbind, rule reads_are_commands, rule emits_rules, rule emits_sbind, rule assms)
    (auto intro!: emits_sbind emits_slift reads_are_commands emits_rules split: prod.split)

text \<open>A batch's value is returned only after the identity was verified again.\<close>

lemma batch_between_checks_verified:
  assumes "batch_between_checks E s i operation w = (Inr x, w')"
  shows "\<exists>b w0 w1 w2. verify_running E s i w = (Inr (), w0)
    \<and> operation (new_batch s i) w0 = (Inr (Inr x, b), w1)
    \<and> verify_running_identity E s i w1 = (Inr (), w')"
  using assms
  by (auto simp: batch_between_checks_def sbind_def slift_def split: prod.splits sum.splits)

section \<open>Pausing\<close>

lemma refresh_entries_yields:
  "captured_from root es \<Longrightarrow> yields (captured_from root) (refresh_entries E ps es)"
proof (induction ps arbitrary: es)
  case Nil
  then show ?case by (simp add: yields_sret)
next
  case (Cons p ps)
  have "captured_from root (es[i := (es ! i)\<lparr>ce_value := value\<rparr>])"
    if "binary_search (map ce_path es) p = Some i" for i "value"
  proof (cases "i < length es")
    case True
    have paths: "map ce_path (es[i := (es ! i)\<lparr>ce_value := value\<rparr>]) = map ce_path es"
      by (simp add: map_update list_update_same_conv True)
    have "set (map ce_path es) = ce_path ` set es" by simp
    with paths Cons.prems show ?thesis
      unfolding captured_from_def by (metis (no_types, lifting) image_eqI imageE list.set_map)
  qed (use Cons.prems in \<open>simp add: list_update_beyond\<close>)
  with Cons.IH show ?case
    by (auto intro!: yields_rules split: option.split)
qed

lemma snapshot_refreshed_yields:
  "captured_snapshot root s \<Longrightarrow>
     yields (captured_snapshot root) (snapshot_refreshed_paths_except E s paths ignored)"
  unfolding snapshot_refreshed_paths_except_def refreshed_paths_except_def
  by (rule yields_sbind [where P = "captured_from root"],
      rule yields_sbind [OF refresh_entries_yields [where root = root]])
    (auto simp: captured_snapshot_def intro!: yields_rules)

lemma commit_pause_yields:
  "captured_snapshot root (so_configuration (mh_staged s)) \<Longrightarrow>
     yields (captured_snapshot root) (commit_pause E k c paused s)"
  unfolding commit_pause_def Let_def
  by (intro yields_rules yields_sbind [OF snapshot_refreshed_yields]) (auto intro!: yields_rules)

lemma revert_pause_yields:
  "captured_snapshot root fingerprint \<Longrightarrow>
     yields (captured_snapshot root) (revert_pause E k c previous fingerprint s)"
  unfolding revert_pause_def Let_def
  by (intro yields_rules yields_sbind [OF snapshot_refreshed_yields]) (auto intro!: yields_rules)

text \<open>Pausing changes nothing of the owner's record but the staged configuration.\<close>

lemma mset_configuration_wp:
  "(captured_snapshot (mh_admin s) (so_configuration (mh_staged s)) \<Longrightarrow>
      captured_snapshot (mh_admin s) configuration) \<Longrightarrow>
     mwp (mset_configuration configuration) s (only_restaged s)"
  by (auto simp: mwp_def mset_configuration_def sret_def only_restaged_def staged_wf_def
      with_configuration_def)

lemma read_configuration_wp:
  assumes "captured_snapshot (mh_admin s) (so_configuration (mh_staged s)) \<Longrightarrow>
    yields (captured_snapshot (mh_admin s)) (m s)"
  shows "mwp (mbind (mread m) mset_configuration) s (\<lambda>r s'. only_restaged s r s' \<and> (\<forall>e. r = Inl e \<longrightarrow> s' = s))"
proof -
  have "yields (\<lambda>x. captured_snapshot (mh_admin s) (so_configuration (mh_staged s)) \<longrightarrow>
      captured_snapshot (mh_admin s) x) (m s)"
    using assms by (cases "captured_snapshot (mh_admin s) (so_configuration (mh_staged s))") simp_all
  then show ?thesis
    by (intro mwp_mbind, rule mwp_mread_yields [where c = m])
      (auto simp: mwp_def mset_configuration_def sret_def only_restaged_def staged_wf_def
        with_configuration_def)
qed

lemma change_pause_wp:
  assumes "fingerprint = so_configuration (mh_staged s)"
  shows "mwp (change_pause E k c previous paused fingerprint) s (only_restaged s)"
proof -
  have undo: "mwp (mcatch (mbind (mread (revert_pause E k c previous fingerprint)) mset_configuration)
      (\<lambda>rollback. mfail (with_rollback operation rollback))) s (only_restaged s)" for operation
    by (rule mwp_mcatch, rule mwp_mono [OF read_configuration_wp])
      (auto simp: assms intro: revert_pause_yields mwp_mfail simp: only_restaged_def)
  have last: "mwp (case r of Inr _ \<Rightarrow> mret ()
      | Inl operation \<Rightarrow> mcatch (mbind (mread (revert_pause E k c previous fingerprint)) mset_configuration)
          (\<lambda>rollback. mfail (with_rollback operation rollback))) s' (only_restaged s)"
    if "only_restaged s r s' \<and> (\<forall>e. r = Inl e \<longrightarrow> s' = s)" for r s'
    using that by (cases r) (auto intro: undo mwp_mret simp: only_restaged_def)
  show ?thesis
    unfolding change_pause_def
    by (intro mwp_mbind mwp_mread_sum only_restaged_refl, simp only: sum.case,
        rule mwp_mcatch, rule mwp_mono [OF read_configuration_wp])
      (auto intro: commit_pause_yields last)
qed

lemma set_context_paused_wp: "mwp (set_context_paused E k c paused) s (only_restaged s)"
  unfolding set_context_paused_def
  by (intro mwp_mbind mwp_mread_sum only_restaged_refl)
    (auto intro!: mwp_mread mwp_at [where f = "\<lambda>s. change_pause E k c x paused (so_configuration (mh_staged s))" for x]
      change_pause_wp)

text \<open>What it writes: the context's \<open>pause\<close> file and the commit of its kdamond.\<close>

lemma pause_reads:
  "writes_only (\<lambda>_. False) (check_pause (traced E) s k c)"
  "writes_only (\<lambda>_. False) (Context_is_paused (traced E) q)"
  unfolding check_pause_def Let_def by (intro emits_rules)+

definition pause_event :: "path \<Rightarrow> usize \<Rightarrow> usize \<Rightarrow> event \<Rightarrow> bool" where
  "pause_event admin k c ev \<longleftrightarrow>
     writes_within (\<lambda>p. p = sub (Kdamond_context (Admin_kdamond admin k) c) [''pause'']) ev
     \<or> commands_to admin {k} {''commit''} ev"

lemma reads_pause: "writes_only (\<lambda>_. False) m \<Longrightarrow> emits (pause_event a k c) m"
  by (erule emits_mono) (simp add: pause_event_def writes_within_False, rename_tac ev, case_tac ev, simp_all)

lemma commit_emits:
  "emits (pause_event a k c)
     (retry_busy (traced E) (Kdamond_command (traced E) (Admin_kdamond a k) Commit))"
  by (rule emits_mono [OF command_emits [where I = "{k}" and C = "{''commit''}"]])
    (simp_all add: pause_event_def)

lemma set_paused_emits:
  "emits (pause_event a k c) (Context_set_paused (traced E) (Kdamond_context (Admin_kdamond a k) c) b)"
  unfolding Context_set_paused_def
  by (rule emits_mono [where P = "writes_within (\<lambda>p. p = sub (Kdamond_context (Admin_kdamond a k) c) [''pause''])"])
    (auto intro!: emits_rules simp: pause_event_def)

lemma pause_parts_emit:
  "emits (pause_event (mh_admin s) k c) (commit_pause (traced E) k c paused s)"
  "emits (pause_event (mh_admin s) k c) (revert_pause (traced E) k c previous fingerprint s)"
  unfolding commit_pause_def revert_pause_def Let_def Hierarchy_kdamond_def
  by (auto intro!: emits_sbind emits_if emits_sret emits_sfail commit_emits set_paused_emits
      intro: reads_pause emits_rules)

lemma mset_configuration_emits [emits_rules]: "emits P (mset_configuration configuration s)"
  by (simp add: mset_configuration_def emits_sret)

lemma store_keeps:
  "mwp (mbind (mread m) mset_configuration) s (\<lambda>r s'. \<forall>e. r = Inl e \<longrightarrow> s' = s)"
  by (intro mwp_mbind mwp_mread_sum) (simp_all add: mwp_def mset_configuration_def sret_def)

lemma store_emits:
  "emits P (m s) \<Longrightarrow> emits P (mbind (mread m) mset_configuration s)"
  by (rule emits_read_mbind) (auto intro: emits_rules)

lemma undo_emits:
  "emits (pause_event (mh_admin s) k c) (mcatch (mbind (mread (revert_pause (traced E) k c
      previous fingerprint)) mset_configuration) (\<lambda>rollback. mfail (with_rollback operation rollback)) s)"
  unfolding mcatch_def
  by (rule emits_sbind, rule store_emits [where m = "revert_pause (traced E) k c previous fingerprint"],
      rule pause_parts_emit) (auto intro: emits_rules split: prod.split)

lemma change_pause_emits:
  "emits (pause_event (mh_admin s) k c) (change_pause (traced E) k c previous paused fingerprint s)"
  unfolding change_pause_def
  by (rule emits_read_mbind, unfold Hierarchy_kdamond_def, rule set_paused_emits,
      rule emits_at_mcatch [OF store_emits store_keeps], rule pause_parts_emit)
    (auto intro!: emits_rules undo_emits split: sum.split)

lemma set_context_paused_emits:
  "emits (pause_event (mh_admin s) k c) (set_context_paused (traced E) k c paused s)"
  unfolding set_context_paused_def
  by (rule emits_read_mbind, rule reads_pause, rule pause_reads)
    (auto intro!: memits_mread reads_pause emits_rules change_pause_emits)

end
