(* ===== verification/Session.thy ===== *)
theory Session
  imports Capability_Lemmas Runtime_Lemmas
begin

text \<open>
  \<^verbatim>\<open>src/src/monitor/session.rs\<close>: the entry points that stage and own a hierarchy under the advisory
  session lock, and the session over a single kdamond, with the lock itself from
  \<^verbatim>\<open>src/src/monitor/ownership.rs\<close>. Beside the files of the hierarchy a process needs three more
  system calls for the lock, and for receipts the boot identifier: the file the kernel shows it in
  and the cell of the process that remembers it.
\<close>

section \<open>The process and the session lock\<close>

record 'k process =
  os_sysfs :: "'k sysfs"
  os_open_lock :: "path \<Rightarrow> 'k \<Rightarrow> (io_error + nat) \<times> 'k"
  os_flock :: "nat \<Rightarrow> 'k \<Rightarrow> (int + unit) \<times> 'k"
  os_close :: "nat \<Rightarrow> 'k \<Rightarrow> 'k"
  os_boot_cell :: "'k \<Rightarrow> string option"
  os_read_boot :: "'k \<Rightarrow> (io_error + string) \<times> 'k"
  os_init_boot :: "string \<Rightarrow> 'k \<Rightarrow> string \<times> 'k"

definition SessionLock_drop :: "'k process \<Rightarrow> nat \<Rightarrow> ('k, unit) comp" where
  "SessionLock_drop V fd w = (Inr (), w\<lparr>w_kernel := os_close V fd (w_kernel w)\<rparr>)"

definition flock_call :: "'k process \<Rightarrow> nat \<Rightarrow> ('k, int + unit) comp" where
  "flock_call V fd w = (case os_flock V fd (w_kernel w) of (r, k) \<Rightarrow> (Inr r, w\<lparr>w_kernel := k\<rparr>))"

definition WOULDBLOCK :: int where
  "WOULDBLOCK = 11"

definition SessionLock_acquire :: "'k process \<Rightarrow> path \<Rightarrow> ('k, nat) comp" where
  "SessionLock_acquire V p =
     sbind (call ''open session lock'' p (os_open_lock V p)) (\<lambda>fd.
     sbind (flock_call V fd) (\<lambda>r.
       case r of
         Inr _ \<Rightarrow> sret fd
       | Inl errno \<Rightarrow>
           sbind (SessionLock_drop V fd) (\<lambda>_.
             if errno = WOULDBLOCK then sfail (SessionLockBusy p)
             else io_fail ''lock session'' p (OsError errno))))"

text \<open>A lock held for the rest of a scope, and a lock given away only when the scope succeeds.\<close>

definition with_lock :: "'k process \<Rightarrow> path \<Rightarrow> ('k, 'a) comp \<Rightarrow> ('k, 'a) comp" where
  "with_lock V p m =
     sbind (SessionLock_acquire V p) (\<lambda>fd.
     stry m (\<lambda>r. sbind (SessionLock_drop V fd) (\<lambda>_. slift r)))"

definition lock_into :: "'k process \<Rightarrow> path \<Rightarrow> ('k, 'a) comp \<Rightarrow> ('k, 'a \<times> nat) comp" where
  "lock_into V p m =
     sbind (SessionLock_acquire V p) (\<lambda>fd.
     stry m (\<lambda>r.
       case r of
         Inr x \<Rightarrow> sret (x, fd)
       | Inl e \<Rightarrow> sbind (SessionLock_drop V fd) (\<lambda>_. sfail e)))"

section \<open>Entry points\<close>

definition DEFAULT_ADMIN_PATH :: path where
  "DEFAULT_ADMIN_PATH =
     RootDir # map Normal [''sys'', ''kernel'', ''mm'', ''damon'', ''admin'']"

definition DEFAULT_SESSION_LOCK_PATH :: path where
  "DEFAULT_SESSION_LOCK_PATH = RootDir # map Normal [''run'', ''lock'', ''damon-rs.lock'']"

record damon =
  dm_admin :: path
  dm_lock_path :: path

definition Damon_at_with_lock :: "'k process \<Rightarrow> path \<Rightarrow> path \<Rightarrow> ('k, damon) comp" where
  "Damon_at_with_lock V p lock_path =
     (if \<not> is_absolute p \<or> \<not> is_absolute lock_path then
        sfail (InvalidConfiguration ''high-level DAMON paths''
                 ''admin and advisory lock paths must be absolute'')
      else sbind (Admin_open (os_sysfs V) p) (\<lambda>admin.
        sret \<lparr>dm_admin = admin, dm_lock_path = lock_path\<rparr>))"

definition Damon_at :: "'k process \<Rightarrow> path \<Rightarrow> ('k, damon) comp" where
  "Damon_at V p = Damon_at_with_lock V p DEFAULT_SESSION_LOCK_PATH"

definition Damon_new :: "'k process \<Rightarrow> ('k, damon) comp" where
  "Damon_new V = Damon_at V DEFAULT_ADMIN_PATH"

definition observed_before_staging :: "'k sysfs \<Rightarrow> path \<Rightarrow> ('k, damon_config option) comp" where
  "observed_before_staging E admin =
     stry (retry_busy E (Admin_configuration E admin)) (\<lambda>r.
       case r of
         Inr observed \<Rightarrow> sret (Some observed)
       | Inl e \<Rightarrow> if replaceable_configuration_read_error e then sret None else sfail e)"

definition stage_or_restore ::
    "'k sysfs \<Rightarrow> path \<Rightarrow> damon_config \<Rightarrow> damon_config option \<Rightarrow> config_snapshot
       \<Rightarrow> ('k, staged_configuration) comp" where
  "stage_or_restore E admin config observed previous =
     stry (stage_and_verify_configuration E admin config observed) (\<lambda>r.
       case r of
         Inr current \<Rightarrow> sret \<lparr>sc_previous = previous, sc_current = current\<rparr>
       | Inl operation \<Rightarrow>
           stry (restore_configuration E admin previous) (\<lambda>rollback.
             sfail (with_rollback operation rollback)))"

definition stage_validated_configuration_locked ::
    "'k sysfs \<Rightarrow> path \<Rightarrow> damon_config \<Rightarrow> ('k, staged_configuration) comp" where
  "stage_validated_configuration_locked E admin config =
     sbind (retry_busy E (ensure_hierarchy_stopped E admin)) (\<lambda>_.
     sbind (retry_busy E (Admin_configuration_snapshot E admin)) (\<lambda>previous.
     sbind (observed_before_staging E admin) (\<lambda>observed.
     sbind (retry_busy E (values_match_current E previous)) (\<lambda>same.
       if \<not> same then
         sfail (OwnershipLost ''the DAMON hierarchy changed while it was being captured'')
       else
         sbind (retry_busy E (ensure_hierarchy_stopped E admin)) (\<lambda>_.
           if (case observed of None \<Rightarrow> False
               | Some ob \<Rightarrow> equivalent_after_kernel_normalization config ob)
           then sret \<lparr>sc_previous = previous, sc_current = previous\<rparr>
           else stage_or_restore E admin config observed previous)))))"

definition Damon_stage_configuration ::
    "'k process \<Rightarrow> u64 \<Rightarrow> damon \<Rightarrow> damon_config \<Rightarrow> ('k, unit) comp" where
  "Damon_stage_configuration V ps d config =
     sbind (slift (DamonConfig_validate ps config)) (\<lambda>_.
       with_lock V (dm_lock_path d)
         (sbind (stage_validated_configuration_locked (os_sysfs V) (dm_admin d) config)
            (\<lambda>_. sret ())))"

text \<open>An owner is the record of the hierarchy and the lock it holds.\<close>

type_synonym owner = "managed_hierarchy \<times> nat"

definition Damon_managed_hierarchy ::
    "'k process \<Rightarrow> u64 \<Rightarrow> damon \<Rightarrow> damon_config \<Rightarrow> ('k, owner) comp" where
  "Damon_managed_hierarchy V ps d config =
     sbind (slift (DamonConfig_validate_runnable ps config)) (\<lambda>_.
       lock_into V (dm_lock_path d)
         (sbind (stage_validated_configuration_locked (os_sysfs V) (dm_admin d) config) (\<lambda>staged.
            ManagedHierarchy_new (os_sysfs V) (dm_admin d) staged config)))"

definition Damon_observed_configuration ::
    "'k process \<Rightarrow> damon \<Rightarrow> ('k, observed_configuration) comp" where
  "Damon_observed_configuration V d =
     with_lock V (dm_lock_path d)
       (retry_busy (os_sysfs V) (Admin_observed_configuration (os_sysfs V) (dm_admin d)))"

definition exclusive_kdamond :: "damon_config \<Rightarrow> unit result" where
  "exclusive_kdamond config =
     (if length (d_kdamonds config) \<noteq> 1 then
        Inl (InvalidConfiguration ''exclusive session kdamond count''
               ''must contain exactly one kdamond'')
      else Inr ())"

definition Damon_exclusive_session ::
    "'k process \<Rightarrow> u64 \<Rightarrow> damon \<Rightarrow> damon_config \<Rightarrow> ('k, owner) comp" where
  "Damon_exclusive_session V ps d config =
     sbind (slift (exclusive_kdamond config)) (\<lambda>_. Damon_managed_hierarchy V ps d config)"

definition probe_kdamond :: "'k sysfs \<Rightarrow> path \<Rightarrow> ('k, capabilities \<times> fingerprint) comp" where
  "probe_kdamond E admin =
     sbind (retry_busy E (ensure_hierarchy_stopped E admin)) (\<lambda>_.
     sbind (retry_busy E (Admin_set_kdamond_count E admin 1)) (\<lambda>_.
       stage_capability_probe E (Admin_kdamond admin 0)))"

definition capabilities_locked :: "'k sysfs \<Rightarrow> path \<Rightarrow> ('k, capabilities) comp" where
  "capabilities_locked E admin =
     sbind (retry_busy E (ensure_hierarchy_stopped E admin)) (\<lambda>_.
     sbind (retry_busy E (Admin_configuration_snapshot E admin)) (\<lambda>previous.
     sbind (retry_busy E (values_match_current E previous)) (\<lambda>same.
       if \<not> same then
         sfail (OwnershipLost ''the DAMON hierarchy changed while capability probing captured it'')
       else
         stry (probe_kdamond E admin) (\<lambda>r.
           case r of
             Inr (found, fp) \<Rightarrow>
               sbind (restore_after_capability_probe E admin (Admin_kdamond admin 0) fp previous)
                 (\<lambda>_. sret found)
           | Inl operation \<Rightarrow>
               stry (restore_configuration E admin previous) (\<lambda>rollback.
                 sfail (with_rollback operation rollback))))))"

definition Damon_capabilities :: "'k process \<Rightarrow> damon \<Rightarrow> ('k, capabilities) comp" where
  "Damon_capabilities V d =
     with_lock V (dm_lock_path d) (capabilities_locked (os_sysfs V) (dm_admin d))"

text \<open>An owner that goes out of scope: its hierarchy is dropped, then its lock.\<close>

definition owner_drop :: "'k process \<Rightarrow> owner \<Rightarrow> ('k, unit) comp" where
  "owner_drop V ow =
     sbind (Hierarchy_drop (os_sysfs V) (fst ow)) (\<lambda>_. SessionLock_drop V (snd ow))"

definition owner_close :: "'k process \<Rightarrow> owner \<Rightarrow> ('k, unit) comp" where
  "owner_close V ow =
     sbind (close_inner (os_sysfs V) (fst ow)) (\<lambda>(r, s').
     sbind (owner_drop V (s', snd ow)) (\<lambda>_. slift r))"

section \<open>A session over one kdamond\<close>

definition Session_start :: "'k sysfs \<Rightarrow> ('k, unit) mcomp" where
  "Session_start E = start_all E"

definition Session_stop :: "'k sysfs \<Rightarrow> ('k, unit) mcomp" where
  "Session_stop E = stop_all E"

definition Session_close :: "'k process \<Rightarrow> owner \<Rightarrow> ('k, unit) comp" where
  "Session_close V ow = owner_close V ow"

definition Session_is_running :: "'k sysfs \<Rightarrow> managed_hierarchy \<Rightarrow> ('k, bool) comp" where
  "Session_is_running E s = Hierarchy_is_running E s 0"

definition Session_configuration :: "'k sysfs \<Rightarrow> managed_hierarchy \<Rightarrow> ('k, damon_config) comp" where
  "Session_configuration E s = Hierarchy_configuration E s"

definition Session_observed_configuration ::
    "'k sysfs \<Rightarrow> managed_hierarchy \<Rightarrow> ('k, observed_configuration) comp" where
  "Session_observed_configuration E s = Hierarchy_observed_configuration E s"

text \<open>The same capabilities seen from the view of one kdamond.\<close>

definition Managed_capabilities ::
    "'k sysfs \<Rightarrow> managed_hierarchy \<Rightarrow> usize \<Rightarrow> usize \<Rightarrow> usize \<Rightarrow> ('k, capabilities) comp" where
  "Managed_capabilities E s k c i = Hierarchy_capabilities E s k c i"

definition Session_capabilities_for_schemes ::
    "'k sysfs \<Rightarrow> managed_hierarchy \<Rightarrow> usize \<Rightarrow> usize list \<Rightarrow> ('k, capabilities) comp" where
  "Session_capabilities_for_schemes E s c is =
     sbind (verify_owned_state E s) (\<lambda>_.
     sbind (retry_busy E (Kdamond_capabilities_for_schemes E (Hierarchy_kdamond s 0) c is)) (\<lambda>found.
     sbind (verify_owned_state E s) (\<lambda>_. sret found)))"

definition Session_capabilities ::
    "'k sysfs \<Rightarrow> managed_hierarchy \<Rightarrow> usize \<Rightarrow> usize \<Rightarrow> ('k, capabilities) comp" where
  "Session_capabilities E s c i =
     sbind (verify_owned_state E s) (\<lambda>_.
     sbind (retry_busy E (Kdamond_capabilities E (Hierarchy_kdamond s 0) c i)) (\<lambda>found.
     sbind (verify_owned_state E s) (\<lambda>_. sret found)))"

definition Session_replace_staged_configuration ::
    "'k sysfs \<Rightarrow> u64 \<Rightarrow> damon_config \<Rightarrow> ('k, unit) mcomp" where
  "Session_replace_staged_configuration E ps config =
     mbind (mread (\<lambda>_. slift (exclusive_kdamond config))) (\<lambda>_.
       replace_staged_configuration E ps config)"

definition Session_commit :: "'k sysfs \<Rightarrow> managed_hierarchy \<Rightarrow> ('k, unit) comp" where
  "Session_commit E s =
     sbind (command_after_ownership_check E s 0 Commit) (\<lambda>_. verify_running_identity E s 0)"

definition Session_update_configuration ::
    "'k sysfs \<Rightarrow> u64 \<Rightarrow> damon_config \<Rightarrow> ('k, unit) mcomp" where
  "Session_update_configuration E ps config =
     mbind (mread (\<lambda>_. slift (exclusive_kdamond config))) (\<lambda>_. update_configuration E ps config [0])"

text \<open>The operations on the running kdamond, reached through the runtime access to kdamond 0.\<close>

definition on_runtime :: "(usize \<Rightarrow> ('k, 'a) mcomp) \<Rightarrow> ('k, 'a) mcomp" where
  "on_runtime operation = mbind (mread (\<lambda>s. slift (Managed_runtime s 0))) operation"

definition Session_update_scheme_quota_goals ::
    "'k sysfs \<Rightarrow> usize \<Rightarrow> usize \<Rightarrow> quota_goal_config list \<Rightarrow> ('k, unit) mcomp" where
  "Session_update_scheme_quota_goals E c i goals =
     on_runtime (\<lambda>k. update_scheme_quota_goals E k c i goals)"

definition Session_pause :: "'k sysfs \<Rightarrow> ('k, unit) mcomp" where
  "Session_pause E = on_runtime (\<lambda>k. pause_context E k 0)"

definition Session_resume :: "'k sysfs \<Rightarrow> ('k, unit) mcomp" where
  "Session_resume E = on_runtime (\<lambda>k. resume_context E k 0)"

definition Session_pause_context :: "'k sysfs \<Rightarrow> usize \<Rightarrow> ('k, unit) mcomp" where
  "Session_pause_context E c = on_runtime (\<lambda>k. pause_context E k c)"

definition Session_resume_context :: "'k sysfs \<Rightarrow> usize \<Rightarrow> ('k, unit) mcomp" where
  "Session_resume_context E c = on_runtime (\<lambda>k. resume_context E k c)"

definition Session_scheme_stats :: "'k sysfs \<Rightarrow> usize \<Rightarrow> usize \<Rightarrow> ('k, scheme_stats) mcomp" where
  "Session_scheme_stats E c i = on_runtime (\<lambda>k. Managed_scheme_stats E k c i)"

definition Session_tried_regions :: "'k sysfs \<Rightarrow> usize \<Rightarrow> usize \<Rightarrow> ('k, raw_snapshot) mcomp" where
  "Session_tried_regions E c i = on_runtime (\<lambda>k. Managed_tried_regions E k c i)"

definition Session_tried_bytes_units :: "'k sysfs \<Rightarrow> usize \<Rightarrow> usize \<Rightarrow> ('k, u64) mcomp" where
  "Session_tried_bytes_units E c i = on_runtime (\<lambda>k. Managed_tried_bytes_units E k c i)"

definition Session_effective_quota_units :: "'k sysfs \<Rightarrow> usize \<Rightarrow> usize \<Rightarrow> ('k, u64) mcomp" where
  "Session_effective_quota_units E c i = on_runtime (\<lambda>k. Managed_effective_quota_units E k c i)"

definition Session_runtime_batch :: "'k sysfs \<Rightarrow> ('k, 'a) bcomp \<Rightarrow> ('k, 'a) mcomp" where
  "Session_runtime_batch E operation = on_runtime (\<lambda>k. Managed_runtime_batch E k operation)"

definition Session_read_batch ::
    "'k sysfs \<Rightarrow> managed_hierarchy \<Rightarrow> ('k, 'a) bcomp \<Rightarrow> ('k, 'a) comp" where
  "Session_read_batch E s operation =
     Hierarchy_read_batch E s
       (sbind (slift (HierarchyReadBatch_kdamond s 0)) (\<lambda>b.
        sbind (operation b) (\<lambda>(result, _). slift result)))"

definition Session_update_tuned_intervals :: "'k sysfs \<Rightarrow> ('k, unit) mcomp" where
  "Session_update_tuned_intervals E = on_runtime (Managed_update_tuned_intervals E)"

definition Session_clear_tried_regions :: "'k sysfs \<Rightarrow> ('k, unit) mcomp" where
  "Session_clear_tried_regions E = on_runtime (Managed_clear_tried_regions E)"

text \<open>The cached reads, which check the running kdamond around one look-up.\<close>

definition Session_scheme ::
    "'k sysfs \<Rightarrow> managed_hierarchy \<Rightarrow> usize \<Rightarrow> usize \<Rightarrow> ('k, path) comp" where
  "Session_scheme E s c i =
     (let kdamond = Hierarchy_kdamond s 0 in
      sbind (Kdamond_context_count E kdamond) (\<lambda>nc.
        if c \<ge> nc then sfail (IndexOutOfBounds ''context'' c nc)
        else
          let ctx = Kdamond_context kdamond c in
          sbind (Context_scheme_count E ctx) (\<lambda>ns.
            if i \<ge> ns then sfail (IndexOutOfBounds ''scheme'' i ns)
            else sret (Context_scheme ctx i))))"

definition session_cached ::
    "'k sysfs \<Rightarrow> managed_hierarchy \<Rightarrow> usize \<Rightarrow> usize \<Rightarrow> (path \<Rightarrow> ('k, 'a) comp) \<Rightarrow> ('k, 'a) comp" where
  "session_cached E s c i read =
     sbind (verify_running E s 0) (\<lambda>_.
     sbind (Session_scheme E s c i) (\<lambda>scheme.
     sbind (read scheme) (\<lambda>x.
     sbind (verify_running_identity E s 0) (\<lambda>_. sret x))))"

definition Session_cached_scheme_stats ::
    "'k sysfs \<Rightarrow> managed_hierarchy \<Rightarrow> usize \<Rightarrow> usize \<Rightarrow> ('k, scheme_stats) comp" where
  "Session_cached_scheme_stats E s c i = session_cached E s c i (Scheme_stats E)"

definition Session_cached_tried_regions ::
    "'k sysfs \<Rightarrow> managed_hierarchy \<Rightarrow> usize \<Rightarrow> usize \<Rightarrow> ('k, raw_snapshot) comp" where
  "Session_cached_tried_regions E s c i = session_cached E s c i (Scheme_tried_regions E)"

definition Session_cached_tried_bytes_units ::
    "'k sysfs \<Rightarrow> managed_hierarchy \<Rightarrow> usize \<Rightarrow> usize \<Rightarrow> ('k, u64) comp" where
  "Session_cached_tried_bytes_units E s c i = session_cached E s c i (Scheme_tried_bytes_units E)"

definition Session_cached_effective_quota_units ::
    "'k sysfs \<Rightarrow> managed_hierarchy \<Rightarrow> usize \<Rightarrow> usize \<Rightarrow> ('k, u64) comp" where
  "Session_cached_effective_quota_units E s c i = session_cached E s c i (read_effective_quota E)"

end
