(* ===== verification/Receipt.thy ===== *)
theory Receipt
  imports Fingerprint
begin

text \<open>
  The receipt of a persistent hierarchy and its binary form, from
  \<^verbatim>\<open>src/src/monitor/persistent.rs\<close>: encoding, decoding with every check of untrusted input, and
  what the recorded values must agree on. Bytes are characters; a path is written as the bytes
  of its components, so a path that was parsed is written in its normal form.
\<close>

section \<open>Paths as bytes\<close>

fun split_slash :: "string \<Rightarrow> string list" where
  "split_slash [] = [[]]"
| "split_slash (c # s) =
     (if c = CHR ''/'' then [] # split_slash s
      else case split_slash s of t # ts \<Rightarrow> (c # t) # ts | [] \<Rightarrow> [[c]])"

definition component_of :: "string \<Rightarrow> component" where
  "component_of s = (if s = ''..'' then ParentDir else Normal s)"

text \<open>Empty components and \<open>.\<close> components vanish, but a leading \<open>.\<close> of a relative path stays.\<close>

definition ordinary_components :: "string list \<Rightarrow> component list" where
  "ordinary_components ts = map component_of (filter (\<lambda>t. t \<noteq> [] \<and> t \<noteq> ''.'') ts)"

definition path_of_bytes :: "string \<Rightarrow> path" where
  "path_of_bytes s =
     (case split_slash s of
        [] # ts \<Rightarrow> (if s = [] then [] else RootDir # ordinary_components ts)
      | t # ts \<Rightarrow>
          (if t = ''.'' then CurDir # ordinary_components ts else ordinary_components (t # ts))
      | [] \<Rightarrow> [])"

definition path_contains_nul :: "path \<Rightarrow> bool" where
  "path_contains_nul p = (\<exists>c\<in>set p. CHR 0x00 \<in> set (component_text c))"

section \<open>The receipt\<close>

record persistent_identity =
  pi_index :: usize
  pi_pid :: pid

record persistent_receipt =
  pr_admin :: path
  pr_lock :: path
  pr_boot :: string
  pr_values :: "writable_value list"
  pr_volatile :: "path list"
  pr_kdamond_count :: usize
  pr_identities :: "persistent_identity list"

definition RECEIPT_MAGIC :: string where
  "RECEIPT_MAGIC = ''DAMONR01''"

definition RECEIPT_VERSION :: u32 where
  "RECEIPT_VERSION = 1"

section \<open>Encoding\<close>

definition le_bytes :: "nat \<Rightarrow> nat \<Rightarrow> string" where
  "le_bytes k n = map (\<lambda>i. char_of (n div 256 ^ i mod 256)) [0..<k]"

definition encode_len :: "usize \<Rightarrow> string result" where
  "encode_len n =
     (if n < 2 ^ 64 then Inr (le_bytes 8 n)
      else Inl (InvalidReceipt ''contains a value too large to serialize''))"

definition encode_bytes :: "string \<Rightarrow> string result" where
  "encode_bytes s = and_then (encode_len (length s)) (\<lambda>l. Inr (l @ s))"

definition encode_path :: "path \<Rightarrow> string result" where
  "encode_path p = encode_bytes (bytes_of_path p)"

definition encode_value :: "writable_value \<Rightarrow> string result" where
  "encode_value v =
     and_then (encode_path (wv_path v)) (\<lambda>p.
     and_then (encode_bytes (wv_value v)) (\<lambda>s. Inr (p @ s)))"

definition encode_identity :: "persistent_identity \<Rightarrow> string result" where
  "encode_identity i =
     (if pi_index i < 2 ^ 64 then
        Inr (le_bytes 8 (pi_index i) @ le_bytes 4 (unat (pid_raw (pi_pid i))))
      else Inl (InvalidReceipt ''a kdamond index cannot be serialized''))"

fun encode_each :: "('a \<Rightarrow> string result) \<Rightarrow> 'a list \<Rightarrow> string result" where
  "encode_each f [] = Inr []"
| "encode_each f (x # xs) =
     and_then (f x) (\<lambda>s. and_then (encode_each f xs) (\<lambda>t. Inr (s @ t)))"

definition Receipt_to_bytes :: "persistent_receipt \<Rightarrow> string result" where
  "Receipt_to_bytes r =
     and_then (encode_path (pr_admin r)) (\<lambda>admin.
     and_then (encode_path (pr_lock r)) (\<lambda>lock.
     and_then (encode_bytes (pr_boot r)) (\<lambda>boot.
     and_then (encode_len (length (pr_values r))) (\<lambda>nv.
     and_then (encode_each encode_value (pr_values r)) (\<lambda>vs.
     and_then (encode_len (length (pr_volatile r))) (\<lambda>np.
     and_then (encode_each encode_path (pr_volatile r)) (\<lambda>ps.
     and_then (encode_len (pr_kdamond_count r)) (\<lambda>nk.
     and_then (encode_len (length (pr_identities r))) (\<lambda>ni.
     and_then (encode_each encode_identity (pr_identities r)) (\<lambda>ids.
       Inr (RECEIPT_MAGIC @ le_bytes 4 (unat RECEIPT_VERSION) @ admin @ lock @ boot
              @ nv @ vs @ np @ ps @ nk @ ni @ ids)))))))))))"

section \<open>The decoder\<close>

record decoder =
  de_bytes :: string
  de_offset :: usize

type_synonym 'a decode = "decoder \<Rightarrow> ('a \<times> decoder) result"

definition dret :: "'a \<Rightarrow> 'a decode" where
  "dret x d = Inr (x, d)"

definition dfail :: "string \<Rightarrow> 'a decode" where
  "dfail reason d = Inl (InvalidReceipt reason)"

definition dbind :: "'a decode \<Rightarrow> ('a \<Rightarrow> 'b decode) \<Rightarrow> 'b decode" where
  "dbind m f d = and_then (m d) (\<lambda>(x, d'). f x d')"

definition dcheck :: "bool \<Rightarrow> string \<Rightarrow> unit decode" where
  "dcheck ok reason = (if ok then dret () else dfail reason)"

definition dlift :: "'a result \<Rightarrow> 'a decode" where
  "dlift r d = and_then r (\<lambda>x. Inr (x, d))"

definition Decoder_take :: "nat \<Rightarrow> string decode" where
  "Decoder_take n d =
     (if de_offset d + n \<ge> 2 ^ 64 then Inl (InvalidReceipt ''contains an overflowing length'')
      else if de_offset d + n > length (de_bytes d) then Inl (InvalidReceipt ''is truncated'')
      else Inr (take n (drop (de_offset d) (de_bytes d)), d\<lparr>de_offset := de_offset d + n\<rparr>))"

definition from_le_bytes :: "string \<Rightarrow> nat" where
  "from_le_bytes s = foldr (\<lambda>c acc. byte_val c + 256 * acc) s 0"

definition read_le :: "nat \<Rightarrow> nat decode" where
  "read_le k = dbind (Decoder_take k) (\<lambda>s. dret (from_le_bytes s))"

definition Decoder_read_u32 :: "u32 decode" where
  "Decoder_read_u32 = dbind (read_le 4) (\<lambda>n. dret (of_nat n))"

definition Decoder_read_u64 :: "u64 decode" where
  "Decoder_read_u64 = dbind (read_le 8) (\<lambda>n. dret (of_nat n))"

definition remaining :: "decoder \<Rightarrow> nat" where
  "remaining d = length (de_bytes d) - de_offset d"

definition Decoder_read_count :: "usize decode" where
  "Decoder_read_count =
     dbind Decoder_read_u64 (\<lambda>n d.
       if unat n > remaining d then
         Inl (InvalidReceipt ''contains an impossible element count'')
       else Inr (unat n, d))"

definition Decoder_read_bytes :: "string decode" where
  "Decoder_read_bytes = dbind Decoder_read_count Decoder_take"

definition Decoder_read_path :: "path decode" where
  "Decoder_read_path = dbind Decoder_read_bytes (\<lambda>s. dret (path_of_bytes s))"

definition Decoder_is_empty :: "decoder \<Rightarrow> bool" where
  "Decoder_is_empty d = (de_offset d = length (de_bytes d))"

section \<open>Validation\<close>

definition ascii_hexdigit :: "char \<Rightarrow> bool" where
  "ascii_hexdigit c =
     (let b = byte_val c in 48 \<le> b \<and> b < 58 \<or> 65 \<le> b \<and> b < 71 \<or> 97 \<le> b \<and> b < 103)"

definition validate_boot_id :: "string \<Rightarrow> unit result" where
  "validate_boot_id value =
     (if length value = 36
         \<and> (\<forall>(i, c)\<in>set (enumerate 0 value).
              if i \<in> {8, 13, 18, 23} then c = CHR ''-'' else ascii_hexdigit c)
      then Inr ()
      else Inl (InvalidReceipt ''contains an invalid Linux boot identifier''))"

definition valid_relative_path :: "path \<Rightarrow> bool" where
  "valid_relative_path p =
     (p \<noteq> [] \<and> \<not> is_absolute p \<and> \<not> path_contains_nul p \<and> (\<forall>c\<in>set p. relative_component c))"

definition validate_relative_path :: "path \<Rightarrow> unit result" where
  "validate_relative_path p =
     (if valid_relative_path p then Inr ()
      else Inl (InvalidReceipt ''contains a non-relative configuration path''))"

definition tuned_intervals_path :: "path \<Rightarrow> usize \<Rightarrow> path option" where
  "tuned_intervals_path p kdamond_count =
     (case map component_text p of
        [kdamonds, k, contexts, c, attrs, intervals, goal, aggrs] \<Rightarrow>
          if kdamonds = ''kdamonds''
             \<and> utf8_valid k \<and> (case parse_usize k of Some i \<Rightarrow> i < kdamond_count | None \<Rightarrow> False)
             \<and> contexts = ''contexts'' \<and> utf8_valid c \<and> parse_usize c \<noteq> None
             \<and> attrs = ''monitoring_attrs'' \<and> intervals = ''intervals''
             \<and> goal = ''intervals_goal'' \<and> aggrs = ''aggrs''
          then Option.bind (parent p) parent else None
      | _ \<Rightarrow> None)"

definition interval_names :: "string list" where
  "interval_names = [''aggr_us'', ''sample_us'']"

fun recorded_intervals :: "writable_value list \<Rightarrow> path list \<Rightarrow> path list result" where
  "recorded_intervals vs [] = Inr []"
| "recorded_intervals vs (p # ps) =
     (if binary_search (map wv_path vs) p = None then
        Inl (InvalidReceipt ''omits an auto-tuned writable interval'')
      else and_then (recorded_intervals vs ps) (\<lambda>rest. Inr (p # rest)))"

definition expected_of_value ::
    "writable_value list \<Rightarrow> usize \<Rightarrow> writable_value \<Rightarrow> path list result" where
  "expected_of_value vs kdamond_count v =
     (case tuned_intervals_path (wv_path v) kdamond_count of
        None \<Rightarrow> Inr []
      | Some intervals \<Rightarrow>
          (case parse_u64 (trim (wv_value v)) of
             None \<Rightarrow> Inl (InvalidReceipt ''contains an invalid interval-goal aggregation count'')
           | Some n \<Rightarrow>
               if n = 0 then Inr []
               else recorded_intervals vs (map (\<lambda>name. sub intervals [name]) interval_names)))"

fun expected_from :: "writable_value list \<Rightarrow> usize \<Rightarrow> writable_value list \<Rightarrow> path list result" where
  "expected_from vs n [] = Inr []"
| "expected_from vs n (v # rest) =
     and_then (expected_of_value vs n v) (\<lambda>ps.
     and_then (expected_from vs n rest) (\<lambda>qs. Inr (ps @ qs)))"

definition expected_volatile_paths :: "writable_value list \<Rightarrow> usize \<Rightarrow> path list result" where
  "expected_volatile_paths vs n = and_then (expected_from vs n vs) (\<lambda>ps. Inr (sort_dedup ps))"

definition COUNT_PATH :: path where
  "COUNT_PATH = [Normal ''kdamonds'', Normal ''nr_kdamonds'']"

definition validate_receipt_configuration ::
    "writable_value list \<Rightarrow> path list \<Rightarrow> usize \<Rightarrow> unit result" where
  "validate_receipt_configuration vs volatile n =
     (if windows_any (\<lambda>a b. wv_path a \<ge> wv_path b) vs then
        Inl (InvalidReceipt ''writable configuration paths are not distinct and ordered'')
      else if windows_any (\<lambda>a b. a \<ge> b) volatile then
        Inl (InvalidReceipt ''volatile configuration paths are not distinct and ordered'')
      else case binary_search (map wv_path vs) COUNT_PATH of
        None \<Rightarrow> Inl (InvalidReceipt ''does not contain the kdamond count'')
      | Some i \<Rightarrow>
          (case parse_usize (trim (wv_value (vs ! i))) of
             None \<Rightarrow> Inl (InvalidReceipt ''contains an invalid writable kdamond count'')
           | Some recorded \<Rightarrow>
               if recorded \<noteq> n then Inl (InvalidReceipt ''contains inconsistent kdamond counts'')
               else and_then (expected_volatile_paths vs n) (\<lambda>expected.
                 if volatile \<noteq> expected then
                   Inl (InvalidReceipt ''contains inconsistent auto-tuned interval paths'')
                 else Inr ())))"

section \<open>Decoding a receipt\<close>

definition decode_value :: "writable_value decode" where
  "decode_value =
     dbind Decoder_read_path (\<lambda>p.
     dbind (dlift (validate_relative_path p)) (\<lambda>_.
     dbind Decoder_read_bytes (\<lambda>s.
     dbind (dcheck (utf8_valid s) ''contains a non-UTF-8 configuration value'') (\<lambda>_.
       dret \<lparr>wv_path = p, wv_value = s\<rparr>))))"

definition decode_volatile :: "path decode" where
  "decode_volatile =
     dbind Decoder_read_path (\<lambda>p. dbind (dlift (validate_relative_path p)) (\<lambda>_. dret p))"

fun decode_each :: "'a decode \<Rightarrow> nat \<Rightarrow> 'a list decode" where
  "decode_each m 0 = dret []"
| "decode_each m (Suc n) = dbind m (\<lambda>x. dbind (decode_each m n) (\<lambda>xs. dret (x # xs)))"

fun decode_identities :: "usize \<Rightarrow> usize option \<Rightarrow> nat \<Rightarrow> persistent_identity list decode" where
  "decode_identities kdamond_count previous 0 = dret []"
| "decode_identities kdamond_count previous (Suc n) =
     dbind Decoder_read_u64 (\<lambda>raw_index.
     let index = unat raw_index in
     dbind (dcheck (index < kdamond_count)
              ''contains a running identity outside the hierarchy'') (\<lambda>_.
     dbind (dcheck (case previous of None \<Rightarrow> True | Some p \<Rightarrow> p < index)
              ''running kdamond identities are not distinct and ordered'') (\<lambda>_.
     dbind Decoder_read_u32 (\<lambda>raw_pid.
     case Pid_new raw_pid of
       Inl _ \<Rightarrow> dfail ''contains an invalid kdamond kernel-thread ID''
     | Inr p \<Rightarrow>
         dbind (decode_identities kdamond_count (Some index) n) (\<lambda>rest.
           dret (\<lparr>pi_index = index, pi_pid = p\<rparr> # rest))))))"

definition decode_receipt :: "persistent_receipt decode" where
  "decode_receipt =
     dbind (Decoder_take (length RECEIPT_MAGIC)) (\<lambda>magic.
     dbind (dcheck (magic = RECEIPT_MAGIC) ''has an invalid format marker'') (\<lambda>_.
     dbind Decoder_read_u32 (\<lambda>version.
     dbind (dcheck (version = RECEIPT_VERSION) ''uses an unsupported format version'') (\<lambda>_.
     dbind Decoder_read_path (\<lambda>admin.
     dbind Decoder_read_path (\<lambda>lock.
     dbind Decoder_read_bytes (\<lambda>boot.
     dbind (dcheck (utf8_valid boot) ''contains a non-UTF-8 boot identifier'') (\<lambda>_.
     dbind (dcheck (is_absolute admin \<and> is_absolute lock
                      \<and> \<not> path_contains_nul admin \<and> \<not> path_contains_nul lock)
              ''admin and lock paths must be absolute and contain no NUL bytes'') (\<lambda>_.
     dbind (dlift (validate_boot_id boot)) (\<lambda>_.
     dbind Decoder_read_count (\<lambda>nv.
     dbind (decode_each decode_value nv) (\<lambda>vs.
     dbind Decoder_read_count (\<lambda>np.
     dbind (decode_each decode_volatile np) (\<lambda>ps.
     dbind Decoder_read_count (\<lambda>nk.
     dbind (dcheck (nk \<noteq> 0) ''contains no configured kdamonds'') (\<lambda>_.
     dbind (dlift (validate_receipt_configuration vs ps nk)) (\<lambda>_.
     dbind Decoder_read_count (\<lambda>ni.
     dbind (dcheck (ni \<le> nk)
              ''contains more running identities than configured kdamonds'') (\<lambda>_.
     dbind (decode_identities nk None ni) (\<lambda>ids.
       dret \<lparr>pr_admin = admin, pr_lock = lock, pr_boot = boot, pr_values = vs,
             pr_volatile = ps, pr_kdamond_count = nk, pr_identities = ids\<rparr>))))))))))))))))))))"

definition Receipt_from_bytes :: "string \<Rightarrow> persistent_receipt result" where
  "Receipt_from_bytes bytes =
     and_then (decode_receipt \<lparr>de_bytes = bytes, de_offset = 0\<rparr>) (\<lambda>(r, d).
       if Decoder_is_empty d then Inr r else Inl (InvalidReceipt ''contains trailing data''))"

end
