(* ===== verification/Receipt_Lemmas.thy ===== *)
theory Receipt_Lemmas
  imports Receipt
begin

text \<open>
  What the receipt format guarantees: an encoded receipt is read back, what is accepted is valid,
  and no accepted encoding is a proper prefix of another.
\<close>

section \<open>Paths\<close>

definition ordinary_name :: "string \<Rightarrow> bool" where
  "ordinary_name t \<longleftrightarrow> t \<noteq> [] \<and> CHR ''/'' \<notin> set t \<and> t \<noteq> ''.'' \<and> t \<noteq> ''..''"

definition ordinary :: "component \<Rightarrow> bool" where
  "ordinary c \<longleftrightarrow> (case c of Normal t \<Rightarrow> ordinary_name t | ParentDir \<Rightarrow> True | _ \<Rightarrow> False)"

definition canonical_path :: "path \<Rightarrow> bool" where
  "canonical_path p \<longleftrightarrow>
     (case p of [] \<Rightarrow> True
      | c # q \<Rightarrow> (c = RootDir \<or> c = CurDir \<or> ordinary c) \<and> (\<forall>d\<in>set q. ordinary d))"

lemma split_slash_nonempty [simp]: "split_slash s \<noteq> []"
  by (induction s) (auto split: list.splits)

lemma split_slash_no_slash: "t \<in> set (split_slash s) \<Longrightarrow> CHR ''/'' \<notin> set t"
  by (induction s arbitrary: t) (auto split: list.splits if_splits)

lemma split_slash_plain: "CHR ''/'' \<notin> set t \<Longrightarrow> split_slash t = [t]"
  by (induction t) auto

lemma split_slash_append:
  "CHR ''/'' \<notin> set t \<Longrightarrow> split_slash (t @ CHR ''/'' # s) = t # split_slash s"
  by (induction t) auto

lemma split_join: "ts \<noteq> [] \<Longrightarrow> \<forall>t\<in>set ts. CHR ''/'' \<notin> set t \<Longrightarrow> split_slash (join_slash ts) = ts"
  by (induction ts rule: join_slash.induct) (auto simp: split_slash_plain split_slash_append)

lemma ordinary_text:
  "ordinary c \<Longrightarrow> component_text c \<noteq> [] \<and> component_text c \<noteq> ''.''
     \<and> CHR ''/'' \<notin> set (component_text c) \<and> component_of (component_text c) = c"
  by (cases c) (auto simp: ordinary_def ordinary_name_def component_of_def)

lemma ordinary_components_texts:
  "\<forall>c\<in>set q. ordinary c \<Longrightarrow> ordinary_components (map component_text q) = q"
  by (induction q) (auto simp: ordinary_components_def dest: ordinary_text)

lemma ordinary_components_ordinary:
  "\<forall>t\<in>set ts. CHR ''/'' \<notin> set t \<Longrightarrow> \<forall>c\<in>set (ordinary_components ts). ordinary c"
  by (auto simp: ordinary_components_def component_of_def ordinary_def ordinary_name_def)

lemma path_bytes_roundtrip:
  assumes "canonical_path p"
  shows "path_of_bytes (bytes_of_path p) = p"
proof (cases p)
  case Nil
  then show ?thesis by (simp add: bytes_of_path_def path_of_bytes_def)
next
  case (Cons c q)
  with assms have q: "\<forall>d\<in>set q. ordinary d" and c: "c = RootDir \<or> c = CurDir \<or> ordinary c"
    by (simp_all add: canonical_path_def)
  have noslash: "\<forall>t\<in>set (map component_text q). CHR ''/'' \<notin> set t"
    using q ordinary_text by auto
  have texts: "split_slash (join_slash (map component_text q))
      = (if q = [] then [[]] else map component_text q)"
    using noslash split_join [of "map component_text q"] by auto
  show ?thesis
  proof (cases "c = RootDir")
    case True
    with Cons texts ordinary_components_texts [OF q] show ?thesis
      by (auto simp: bytes_of_path_def path_of_bytes_def ordinary_components_def)
  next
    case False
    then have ctext: "component_text c \<noteq> [] \<and> CHR ''/'' \<notin> set (component_text c)"
      using c ordinary_text [of c] by auto
    then have split: "split_slash (join_slash (map component_text p)) = component_text c # map component_text q"
      using split_join [of "map component_text p"] noslash Cons by simp
    have bytes: "bytes_of_path p = join_slash (map component_text p)"
      using Cons False by (cases c) (simp_all add: bytes_of_path_def)
    obtain a r where t: "component_text c = a # r" using ctext by (cases "component_text c") auto
    show ?thesis
    proof (cases "c = CurDir")
      case True
      with Cons ordinary_components_texts [OF q] show ?thesis
        unfolding path_of_bytes_def bytes split by simp
    next
      case cur: False
      with c False have "ordinary c" by simp
      then have "component_text c \<noteq> ''.''" "\<forall>d\<in>set (c # q). ordinary d"
        using ordinary_text q by auto
      with Cons t ordinary_components_texts [of "c # q"] show ?thesis
        unfolding path_of_bytes_def bytes split by auto
    qed
  qed
qed

lemma path_of_bytes_canonical: "canonical_path (path_of_bytes s)"
proof -
  obtain t ts where s: "split_slash s = t # ts" by (cases "split_slash s") auto
  have noslash: "\<forall>u\<in>set (t # ts). CHR ''/'' \<notin> set u"
    using split_slash_no_slash [of _ s] by (simp add: s)
  then have "\<forall>c\<in>set (ordinary_components (t # ts)). ordinary c"
    "\<forall>c\<in>set (ordinary_components ts). ordinary c"
    by (intro ordinary_components_ordinary; simp)+
  then show ?thesis
    unfolding path_of_bytes_def s
    by (cases t) (auto simp: canonical_path_def split: list.splits)
qed

section \<open>Little-endian integers\<close>

lemma byte_val_less [simp]: "byte_val c < 256"
  by (simp add: byte_val_def)

lemma byte_val_char [simp]: "byte_val (char_of n) = n mod 256"
  by (simp add: byte_val_def)

lemma length_le_bytes [simp]: "length (le_bytes k n) = k"
  by (simp add: le_bytes_def)

lemma le_bytes_Suc: "le_bytes (Suc k) n = char_of (n mod 256) # le_bytes k (n div 256)"
proof -
  have "[0..<Suc k] = 0 # map Suc [0..<k]"
    by (simp add: upt_conv_Cons map_Suc_upt del: upt_Suc)
  then show ?thesis
    by (simp add: le_bytes_def comp_def div_mult2_eq del: upt_Suc)
qed

lemma from_le_bytes_Cons [simp]: "from_le_bytes (c # s) = byte_val c + 256 * from_le_bytes s"
  by (simp add: from_le_bytes_def)

lemma from_le_bytes_Nil [simp]: "from_le_bytes [] = 0"
  by (simp add: from_le_bytes_def)

lemma from_le_bytes_le_bytes [simp]: "from_le_bytes (le_bytes k n) = n mod 256 ^ k"
proof (induction k arbitrary: n)
  case 0
  then show ?case by (simp add: le_bytes_def)
next
  case (Suc k)
  have "n mod 256 + 256 * (n div 256 mod 256 ^ k) = n mod 256 ^ Suc k"
    by (simp add: mod_mult2_eq)
  with Suc show ?case by (simp add: le_bytes_Suc)
qed

lemma from_le_bytes_less: "from_le_bytes s < 256 ^ length s"
proof (induction s)
  case (Cons c s)
  have "byte_val c + 256 * from_le_bytes s < 256 + 256 * from_le_bytes s"
    by simp
  also have "\<dots> = 256 * Suc (from_le_bytes s)" by simp
  also have "\<dots> \<le> 256 * 256 ^ length s" using Cons by (intro mult_le_mono2) simp
  finally show ?case by simp
qed simp

section \<open>Reading what was written\<close>

definition at :: "string \<Rightarrow> string \<Rightarrow> decoder" where
  "at before after = \<lparr>de_bytes = before @ after, de_offset = length before\<rparr>"

text \<open>
  \<open>reads k m s x\<close>: at the bytes \<open>s\<close>, followed by at least \<open>k\<close> more, \<open>m\<close> returns \<open>x\<close> and moves
  past them. \<open>rejects m s\<close>: where exactly the bytes \<open>s\<close> are left, \<open>m\<close> fails.
\<close>

definition reads :: "nat \<Rightarrow> 'a decode \<Rightarrow> string \<Rightarrow> 'a \<Rightarrow> bool" where
  "reads k m s x \<longleftrightarrow>
     (\<forall>pre post. length pre + length s + length post < 2 ^ 64 \<longrightarrow> k \<le> length post \<longrightarrow>
        m (at pre (s @ post)) = Inr (x, at (pre @ s) post))"

definition rejects :: "'a decode \<Rightarrow> string \<Rightarrow> bool" where
  "rejects m s \<longleftrightarrow>
     (\<forall>pre. length pre + length s < 2 ^ 64 \<longrightarrow> (\<exists>e. m (at pre s) = Inl e))"

lemma reads_dret [simp]: "reads k (dret x) [] x"
  by (simp add: reads_def dret_def)

lemma reads_dbind:
  assumes "reads k m s x" and "reads l (f x) t y" and "k \<le> n + length t" and "l \<le> n"
  shows "reads n (dbind m f) (s @ t) y"
  unfolding reads_def
proof (intro allI impI)
  fix pre post :: string
  assume size: "length pre + length (s @ t) + length post < 2 ^ 64" and n: "n \<le> length post"
  have "m (at pre (s @ t @ post)) = Inr (x, at (pre @ s) (t @ post))"
    using assms(1,3) size n by (simp add: reads_def)
  moreover have "f x (at (pre @ s) (t @ post)) = Inr (y, at ((pre @ s) @ t) post)"
    using assms(2,4) size n unfolding reads_def by simp
  ultimately show "dbind m f (at pre ((s @ t) @ post)) = Inr (y, at (pre @ s @ t) post)"
    by (simp add: dbind_def)
qed

lemma reads_dbind_last: "reads k m s x \<Longrightarrow> reads 0 (f x) [] y \<Longrightarrow> reads k (dbind m f) s y"
  using reads_dbind [of k m s x 0 f "[]" y k] by simp

lemma reads_check: "ok \<Longrightarrow> reads k (f ()) s y \<Longrightarrow> reads k (dbind (dcheck ok reason) f) s y"
  using reads_dbind [of 0 "dcheck ok reason" "[]" "()" k f s y k]
  by (simp add: dcheck_def)

lemma reads_lift: "r = Inr u \<Longrightarrow> reads k (f u) s y \<Longrightarrow> reads k (dbind (dlift r) f) s y"
  using reads_dbind [of 0 "dlift r" "[]" u k f s y k]
  by (simp add: reads_def dlift_def)

lemma rejects_dbind:
  "reads k m s x \<Longrightarrow> k \<le> length t \<Longrightarrow> rejects (f x) t \<Longrightarrow> rejects (dbind m f) (s @ t)"
  unfolding rejects_def reads_def dbind_def
  by (auto simp: add.assoc)

lemma rejects_check: "ok \<Longrightarrow> rejects (f ()) s \<Longrightarrow> rejects (dbind (dcheck ok reason) f) s"
  by (simp add: rejects_def dbind_def dcheck_def dret_def)

lemma rejects_lift: "r = Inr u \<Longrightarrow> rejects (f u) s \<Longrightarrow> rejects (dbind (dlift r) f) s"
  by (simp add: rejects_def dbind_def dlift_def)

lemma reads_take: "length s = n \<Longrightarrow> reads 0 (Decoder_take n) s s"
  by (auto simp: reads_def Decoder_take_def at_def)

lemma reads_u32: "n < 2 ^ 32 \<Longrightarrow> reads 0 Decoder_read_u32 (le_bytes 4 n) (of_nat n)"
  unfolding Decoder_read_u32_def read_le_def
  by (rule reads_dbind_last [where x = n], rule reads_dbind_last, rule reads_take) simp_all

lemma reads_u64: "n < 2 ^ 64 \<Longrightarrow> reads 0 Decoder_read_u64 (le_bytes 8 n) (of_nat n)"
  unfolding Decoder_read_u64_def read_le_def
  by (rule reads_dbind_last [where x = n], rule reads_dbind_last, rule reads_take) simp_all

lemma read_u64_at:
  assumes "n < 2 ^ 64" and "length pre + 8 + length post < 2 ^ 64"
  shows "Decoder_read_u64 (at pre (le_bytes 8 n @ post)) = Inr (of_nat n, at (pre @ le_bytes 8 n) post)"
  using reads_u64 [OF assms(1)] assms(2) by (simp add: reads_def)

lemma unat_of_nat_64: "n < 2 ^ 64 \<Longrightarrow> unat (of_nat n :: u64) = n"
  by (simp add: unat_of_nat)

lemma reads_count:
  assumes "n < 2 ^ 64"
  shows "reads n Decoder_read_count (le_bytes 8 n) n"
  unfolding reads_def Decoder_read_count_def
  using read_u64_at [OF assms] assms
  by (auto simp: dbind_def unat_of_nat_64 remaining_def at_def)

lemma count_rejects:
  assumes "n < 2 ^ 64" and "length t < n"
  shows "rejects (dbind Decoder_read_count f) (le_bytes 8 n @ t)"
  unfolding rejects_def Decoder_read_count_def
  using read_u64_at [OF assms(1)] assms
  by (auto simp: dbind_def unat_of_nat_64 remaining_def at_def)

lemma reads_bytes:
  assumes "encode_bytes s = Inr bs"
  shows "reads 0 Decoder_read_bytes bs s"
proof -
  have size: "length s < 2 ^ 64" and bs: "bs = le_bytes 8 (length s) @ s"
    using assms by (auto simp: encode_bytes_def encode_len_def split: if_splits)
  show ?thesis
    unfolding Decoder_read_bytes_def bs
    by (rule reads_dbind [OF reads_count [OF size] reads_take]) simp_all
qed

lemma reads_path:
  "canonical_path p \<Longrightarrow> encode_path p = Inr bs \<Longrightarrow> reads 0 Decoder_read_path bs p"
  unfolding Decoder_read_path_def encode_path_def
  by (rule reads_dbind_last, erule reads_bytes) (simp add: path_bytes_roundtrip)

lemma reads_each:
  assumes "\<And>x s. x \<in> set xs \<Longrightarrow> f x = Inr s \<Longrightarrow> reads 0 m s x" and "encode_each f xs = Inr bs"
  shows "reads 0 (decode_each m (length xs)) bs xs"
  using assms
proof (induction xs arbitrary: bs)
  case Nil
  then show ?case by simp
next
  case (Cons x xs)
  then obtain s t where s: "f x = Inr s" and t: "encode_each f xs = Inr t" and bs: "bs = s @ t"
    by (auto simp: and_then_Inr_iff)
  show ?case
    unfolding bs decode_each.simps list.size
    by (simp, rule reads_dbind [where k = 0 and l = 0], rule Cons.prems(1) [OF _ s], simp)
      (auto intro!: reads_dbind_last Cons.IH Cons.prems(1) t)
qed

lemma encode_each_length:
  assumes "\<And>x s. f x = Inr s \<Longrightarrow> c \<le> length s" and "encode_each f xs = Inr bs"
  shows "c * length xs \<le> length bs"
  using assms(2)
proof (induction xs arbitrary: bs)
  case (Cons x xs)
  then obtain s t where "f x = Inr s" "encode_each f xs = Inr t" "bs = s @ t"
    by (auto simp: and_then_Inr_iff)
  with Cons.IH [of t] assms(1) [of x s] show ?case by simp
qed simp

section \<open>Valid receipts\<close>

definition ascending_identities :: "usize \<Rightarrow> usize option \<Rightarrow> persistent_identity list \<Rightarrow> bool" where
  "ascending_identities n previous ids \<longleftrightarrow>
     sorted_wrt (<) (map pi_index ids)
     \<and> (\<forall>i\<in>set ids. pi_index i < n \<and> valid_pid (pi_pid i)
          \<and> (case previous of None \<Rightarrow> True | Some p \<Rightarrow> p < pi_index i))"

definition valid_receipt :: "persistent_receipt \<Rightarrow> bool" where
  "valid_receipt r \<longleftrightarrow>
     canonical_path (pr_admin r) \<and> is_absolute (pr_admin r) \<and> \<not> path_contains_nul (pr_admin r)
     \<and> canonical_path (pr_lock r) \<and> is_absolute (pr_lock r) \<and> \<not> path_contains_nul (pr_lock r)
     \<and> utf8_valid (pr_boot r) \<and> validate_boot_id (pr_boot r) = Inr ()
     \<and> (\<forall>v\<in>set (pr_values r). canonical_path (wv_path v) \<and> valid_relative_path (wv_path v)
          \<and> utf8_valid (wv_value v))
     \<and> (\<forall>p\<in>set (pr_volatile r). canonical_path p \<and> valid_relative_path p)
     \<and> 0 < pr_kdamond_count r \<and> pr_kdamond_count r < 2 ^ 64
     \<and> validate_receipt_configuration (pr_values r) (pr_volatile r) (pr_kdamond_count r) = Inr ()
     \<and> ascending_identities (pr_kdamond_count r) None (pr_identities r)"

lemma ascending_length: "ascending_identities n None ids \<Longrightarrow> length ids \<le> n"
proof -
  assume a: "ascending_identities n None ids"
  then have "sorted_wrt (<) (map pi_index ids)" "set (map pi_index ids) \<subseteq> {..<n}"
    by (auto simp: ascending_identities_def)
  then have "distinct (map pi_index ids)" by (simp add: strict_sorted_iff)
  then have "length ids = card (set (map pi_index ids))" using distinct_card by fastforce
  also have "\<dots> \<le> card {..<n}" by (rule card_mono) (use \<open>set (map pi_index ids) \<subseteq> {..<n}\<close> in auto)
  finally show ?thesis by simp
qed

lemma reads_value:
  assumes "canonical_path (wv_path v)" "valid_relative_path (wv_path v)" "utf8_valid (wv_value v)"
    and "encode_value v = Inr bs"
  shows "reads 0 decode_value bs v"
proof -
  obtain p s where p: "encode_path (wv_path v) = Inr p" and s: "encode_bytes (wv_value v) = Inr s"
    and bs: "bs = p @ s"
    using assms(4) by (auto simp: encode_value_def and_then_Inr_iff)
  show ?thesis
    unfolding decode_value_def bs
    by (rule reads_dbind [OF reads_path [OF assms(1) p]], rule reads_lift,
        simp add: validate_relative_path_def assms(2), rule reads_dbind_last, rule reads_bytes [OF s],
        rule reads_check [OF assms(3)]) (cases v, simp)+
qed

lemma reads_volatile:
  assumes "canonical_path p" "valid_relative_path p" and "encode_path p = Inr bs"
  shows "reads 0 decode_volatile bs p"
  unfolding decode_volatile_def
  by (rule reads_dbind_last [OF reads_path [OF assms(1,3)]], rule reads_lift)
    (simp_all add: validate_relative_path_def assms(2))

lemma reads_identities:
  "ascending_identities n previous ids \<Longrightarrow> n < 2 ^ 64 \<Longrightarrow> encode_each encode_identity ids = Inr bs \<Longrightarrow>
     reads 0 (decode_identities n previous (length ids)) bs ids"
proof (induction ids arbitrary: previous bs)
  case Nil
  then show ?case by simp
next
  case (Cons i ids)
  then obtain s t where s: "encode_identity i = Inr s"
    and t: "encode_each encode_identity ids = Inr t" and "bs = s @ t"
    by (auto simp: and_then_Inr_iff)
  then have bs: "bs = le_bytes 8 (pi_index i) @ le_bytes 4 (unat (pid_raw (pi_pid i))) @ t"
    by (auto simp: encode_identity_def split: if_splits)
  have i: "pi_index i < n" "valid_pid (pi_pid i)" "pi_index i < 2 ^ 64"
    "case previous of None \<Rightarrow> True | Some p \<Rightarrow> p < pi_index i"
    using Cons.prems by (auto simp: ascending_identities_def)
  have rest: "ascending_identities n (Some (pi_index i)) ids"
    using Cons.prems(1) by (auto simp: ascending_identities_def)
  have pid: "Pid_new (word_of_nat (unat (pid_raw (pi_pid i)))) = Inr (pi_pid i)"
    using i(2) by (simp add: Pid_new_valid)
  have tail: "reads 0 (dbind (decode_identities n (Some (pi_index i)) (length ids))
      (\<lambda>rest. dret (\<lparr>pi_index = pi_index i, pi_pid = pi_pid i\<rparr> # rest))) t (i # ids)"
    by (rule reads_dbind_last, rule Cons.IH [OF rest Cons.prems(2) t]) (cases i, simp)
  show ?case
    unfolding bs list.size decode_identities.simps add_0_right add_Suc_right
    apply (rule reads_dbind [where k = 0 and l = 0, OF reads_u64 [OF i(3)]])
      apply (simp only: Let_def unat_of_nat_64 [OF i(3)])
      apply (rule reads_check [OF i(1)], rule reads_check [OF i(4)])
      apply (rule reads_dbind [where k = 0 and l = 0, OF reads_u32])
    using unat_less [of "pid_raw (pi_pid i)"] tail pid apply simp_all
    done
qed

section \<open>The round trip\<close>

text \<open>\<open>m\<close> consumes the bytes \<open>s\<close> and goes on as \<open>m'\<close>.\<close>

definition reduces :: "nat \<Rightarrow> 'a decode \<Rightarrow> string \<Rightarrow> 'a decode \<Rightarrow> bool" where
  "reduces k m s m' \<longleftrightarrow>
     (\<forall>pre post. length pre + length s + length post < 2 ^ 64 \<longrightarrow> k \<le> length post \<longrightarrow>
        m (at pre (s @ post)) = m' (at (pre @ s) post))"

lemma reduces_refl: "reduces k m [] m"
  by (simp add: reduces_def)

lemma reduces_dbind:
  assumes "reads k m s x" and "reduces l (f x) t m'" and "k \<le> n + length t" and "l \<le> n"
  shows "reduces n (dbind m f) (s @ t) m'"
  unfolding reduces_def
proof (intro allI impI)
  fix pre post :: string
  assume size: "length pre + length (s @ t) + length post < 2 ^ 64" and n: "n \<le> length post"
  have "m (at pre (s @ t @ post)) = Inr (x, at (pre @ s) (t @ post))"
    using assms(1,3) size n by (simp add: reads_def)
  moreover have "f x (at (pre @ s) (t @ post)) = m' (at ((pre @ s) @ t) post)"
    using assms(2,4) size n unfolding reduces_def by simp
  ultimately show "dbind m f (at pre ((s @ t) @ post)) = m' (at (pre @ s @ t) post)"
    by (simp add: dbind_def)
qed

lemma reduces_check: "ok \<Longrightarrow> reduces k (f ()) s m' \<Longrightarrow> reduces k (dbind (dcheck ok reason) f) s m'"
  by (simp add: reduces_def dbind_def dcheck_def dret_def)

lemma reduces_lift: "r = Inr u \<Longrightarrow> reduces k (f u) s m' \<Longrightarrow> reduces k (dbind (dlift r) f) s m'"
  by (simp add: reduces_def dbind_def dlift_def)

lemma le_bytes_of_len: "encode_len n = Inr s \<Longrightarrow> n < 2 ^ 64 \<and> s = le_bytes 8 n"
  by (auto simp: encode_len_def split: if_splits)

lemma encode_path_length: "encode_path p = Inr s \<Longrightarrow> 8 \<le> length s"
  by (auto simp: encode_path_def encode_bytes_def encode_len_def and_then_Inr_iff split: if_splits)

lemma encode_value_length: "encode_value v = Inr s \<Longrightarrow> 1 \<le> length s"
  by (auto simp: encode_value_def and_then_Inr_iff dest!: encode_path_length)

text \<open>What follows the configuration: the count of kdamonds and the running identities.\<close>

definition decode_tail ::
    "path \<Rightarrow> path \<Rightarrow> string \<Rightarrow> writable_value list \<Rightarrow> path list \<Rightarrow> persistent_receipt decode" where
  "decode_tail admin lock boot vs ps =
     dbind Decoder_read_count (\<lambda>nk.
     dbind (dcheck (nk \<noteq> 0) ''contains no configured kdamonds'') (\<lambda>_.
     dbind (dlift (validate_receipt_configuration vs ps nk)) (\<lambda>_.
     dbind Decoder_read_count (\<lambda>ni.
     dbind (dcheck (ni \<le> nk)
              ''contains more running identities than configured kdamonds'') (\<lambda>_.
     dbind (decode_identities nk None ni) (\<lambda>ids.
       dret \<lparr>pr_admin = admin, pr_lock = lock, pr_boot = boot, pr_values = vs,
             pr_volatile = ps, pr_kdamond_count = nk, pr_identities = ids\<rparr>))))))"

lemma decode_head:
  assumes valid: "valid_receipt r"
    and e: "encode_path (pr_admin r) = Inr admin" "encode_path (pr_lock r) = Inr lock"
      "encode_bytes (pr_boot r) = Inr boot" "encode_len (length (pr_values r)) = Inr nv"
      "encode_each encode_value (pr_values r) = Inr vs"
      "encode_len (length (pr_volatile r)) = Inr np"
      "encode_each encode_path (pr_volatile r) = Inr ps"
  shows "reduces 0 decode_receipt
    (RECEIPT_MAGIC @ le_bytes 4 (unat RECEIPT_VERSION) @ admin @ lock @ boot @ nv @ vs @ np @ ps @ [])
    (decode_tail (pr_admin r) (pr_lock r) (pr_boot r) (pr_values r) (pr_volatile r))"
proof -
  note v = valid [unfolded valid_receipt_def]
  have nv: "length (pr_values r) < 2 ^ 64" "nv = le_bytes 8 (length (pr_values r))"
    and np: "length (pr_volatile r) < 2 ^ 64" "np = le_bytes 8 (length (pr_volatile r))"
    using e(4,6) by (auto dest: le_bytes_of_len)
  have long: "length (pr_values r) \<le> length vs" "length (pr_volatile r) \<le> length ps"
    using encode_each_length [where f = encode_value and c = 1, OF _ e(5)] encode_value_length
      encode_each_length [where f = encode_path and c = 8, OF _ e(7)] encode_path_length by fastforce+
  have entries: "reads 0 (decode_each decode_value (length (pr_values r))) vs (pr_values r)"
    by (rule reads_each [OF _ e(5)]) (use v in \<open>auto intro: reads_value\<close>)
  have vol: "reads 0 (decode_each decode_volatile (length (pr_volatile r))) ps (pr_volatile r)"
    by (rule reads_each [OF _ e(7)]) (use v in \<open>auto intro: reads_volatile\<close>)
  show ?thesis
    unfolding decode_receipt_def decode_tail_def nv(2) np(2)
    apply (rule reduces_dbind [where k = 0 and l = 0, OF reads_take [OF refl]])
      apply (rule reduces_check [OF refl])
      apply (rule reduces_dbind [where k = 0 and l = 0, OF reads_u32])
        apply (simp add: RECEIPT_VERSION_def)
       apply (rule reduces_check, simp)
       apply (rule reduces_dbind [where k = 0 and l = 0, OF reads_path [OF _ e(1)]], use v in simp)
         apply (rule reduces_dbind [where k = 0 and l = 0, OF reads_path [OF _ e(2)]], use v in simp)
           apply (rule reduces_dbind [where k = 0 and l = 0, OF reads_bytes [OF e(3)]])
             apply (rule reduces_check, use v in simp)
             apply (rule reduces_check, use v in simp)
             apply (rule reduces_lift, use v in simp)
             apply (rule reduces_dbind [OF reads_count [OF nv(1)], where l = 0])
               apply (rule reduces_dbind [where k = 0 and l = 0, OF entries])
                 apply (rule reduces_dbind [OF reads_count [OF np(1)], where l = 0])
                   apply (rule reduces_dbind [where k = 0 and l = 0, OF vol])
                     apply (rule reduces_refl)
                    apply (simp_all add: long trans_le_add1)
    done
qed

text \<open>
  The tail is read back exactly when the number of kdamonds does not exceed the bytes that follow
  it: the length of the identities and twelve bytes for each.
\<close>

lemma encode_identity_length: "encode_identity i = Inr s \<Longrightarrow> length s = 12"
  by (auto simp: encode_identity_def split: if_splits)

lemma tail_length: "encode_each encode_identity ids = Inr s \<Longrightarrow> length s = 12 * length ids"
proof (induction ids arbitrary: s)
  case (Cons i ids)
  then obtain a b where "encode_identity i = Inr a" "encode_each encode_identity ids = Inr b" "s = a @ b"
    by (auto simp: and_then_Inr_iff)
  with Cons.IH [of b] encode_identity_length [of i a] show ?case by simp
qed simp

lemma decode_tail_reads:
  assumes valid: "valid_receipt r"
    and n: "n = pr_kdamond_count r" and m: "m = length (pr_identities r)"
    and ids: "encode_each encode_identity (pr_identities r) = Inr ids"
    and fits: "n \<le> 8 + 12 * m"
  shows "reads 0 (decode_tail (pr_admin r) (pr_lock r) (pr_boot r) (pr_values r) (pr_volatile r))
    (le_bytes 8 n @ le_bytes 8 m @ ids) r"
proof -
  note v = valid [unfolded valid_receipt_def]
  have few: "m \<le> n" using ascending_length v n m by blast
  have small: "n < 2 ^ 64" "m < 2 ^ 64" using v n few by auto
  have identities: "reads 0 (decode_identities n None m) ids (pr_identities r)"
    unfolding n m by (rule reads_identities [OF _ _ ids]) (use v in simp_all)
  show ?thesis
    unfolding decode_tail_def
    apply (rule reads_dbind [OF reads_count [OF small(1)], where l = 0])
      apply (rule reads_check, use v n in simp, rule reads_lift, use v n in simp)
      apply (rule reads_dbind [OF reads_count [OF small(2)], where l = 0])
        apply (rule reads_check [OF few], rule reads_dbind_last [OF identities])
        apply (cases r, simp add: n)
       apply (simp_all add: tail_length [OF ids] m [symmetric] fits)
    done
qed

lemma decode_tail_rejects:
  assumes "n < 2 ^ 64" and "8 + 12 * m < n" and "length ids = 12 * m"
  shows "rejects (decode_tail admin lock boot vs ps) (le_bytes 8 n @ le_bytes 8 m @ ids)"
  unfolding decode_tail_def
  by (rule count_rejects [OF assms(1)]) (simp add: assms)

lemma receipt_roundtrip_iff:
  assumes valid: "valid_receipt r" and bytes: "Receipt_to_bytes r = Inr bs" and size: "length bs < 2 ^ 64"
  shows "Receipt_from_bytes bs = Inr r \<longleftrightarrow> pr_kdamond_count r \<le> 8 + 12 * length (pr_identities r)"
proof -
  let ?n = "pr_kdamond_count r" and ?m = "length (pr_identities r)"
  obtain admin lock boot nv vs np ps nk ni ids where e:
    "encode_path (pr_admin r) = Inr admin" "encode_path (pr_lock r) = Inr lock"
    "encode_bytes (pr_boot r) = Inr boot" "encode_len (length (pr_values r)) = Inr nv"
    "encode_each encode_value (pr_values r) = Inr vs"
    "encode_len (length (pr_volatile r)) = Inr np"
    "encode_each encode_path (pr_volatile r) = Inr ps"
    and t: "encode_len ?n = Inr nk" "encode_len ?m = Inr ni"
    "encode_each encode_identity (pr_identities r) = Inr ids"
    and bs: "bs = (RECEIPT_MAGIC @ le_bytes 4 (unat RECEIPT_VERSION) @ admin @ lock @ boot
                @ nv @ vs @ np @ ps @ []) @ (nk @ ni @ ids)"
    using bytes by (auto simp: Receipt_to_bytes_def and_then_Inr_iff)
  let ?head = "RECEIPT_MAGIC @ le_bytes 4 (unat RECEIPT_VERSION) @ admin @ lock @ boot
                @ nv @ vs @ np @ ps @ []"
  let ?decode = "decode_tail (pr_admin r) (pr_lock r) (pr_boot r) (pr_values r) (pr_volatile r)"
  have tail: "nk = le_bytes 8 ?n" "ni = le_bytes 8 ?m" "?n < 2 ^ 64"
    using t by (auto dest: le_bytes_of_len)
  have start: "decode_receipt (at [] bs) = ?decode (at ?head (nk @ ni @ ids))"
    using decode_head [OF valid e, unfolded reduces_def, rule_format, of "[]" "nk @ ni @ ids"] size
    unfolding bs by simp
  show ?thesis
  proof (cases "?n \<le> 8 + 12 * ?m")
    case True
    have "?decode (at ?head ((nk @ ni @ ids) @ [])) = Inr (r, at (?head @ (nk @ ni @ ids)) [])"
      using decode_tail_reads [OF valid refl refl t(3) True, unfolded reads_def, rule_format,
          of ?head "[]"] size
      unfolding tail bs by simp
    with start True show ?thesis
      by (simp add: Receipt_from_bytes_def at_def Decoder_is_empty_def)
  next
    case False
    have "\<exists>err. ?decode (at ?head (nk @ ni @ ids)) = Inl err"
      using decode_tail_rejects [OF tail(3) _ tail_length [OF t(3)], unfolded rejects_def,
          rule_format, of ?head] False size
      unfolding tail bs by (simp add: not_le)
    with start False show ?thesis
      by (auto simp: Receipt_from_bytes_def at_def)
  qed
qed

lemma encode_each_total:
  "\<forall>x\<in>set xs. \<exists>s. f x = Inr s \<Longrightarrow> \<exists>s. encode_each f xs = Inr s"
  by (induction xs) auto

section \<open>What is accepted is valid\<close>

definition accepts :: "('a \<Rightarrow> bool) \<Rightarrow> 'a decode \<Rightarrow> bool" where
  "accepts Q m \<longleftrightarrow> (\<forall>d x d'. m d = Inr (x, d') \<longrightarrow> Q x)"

lemma accepts_dret: "Q x \<Longrightarrow> accepts Q (dret x)"
  by (simp add: accepts_def dret_def)

lemma accepts_dfail: "accepts Q (dfail reason)"
  by (simp add: accepts_def dfail_def)

lemma accepts_dbind: "accepts P m \<Longrightarrow> (\<And>x. P x \<Longrightarrow> accepts Q (f x)) \<Longrightarrow> accepts Q (dbind m f)"
  unfolding accepts_def dbind_def and_then_Inr_iff by (auto; blast)

lemma accepts_any: "(\<And>x. accepts Q (f x)) \<Longrightarrow> accepts Q (dbind m f)"
  by (rule accepts_dbind [of "\<lambda>_. True"]) (simp_all add: accepts_def)

lemma accepts_check: "(ok \<Longrightarrow> accepts Q (f ())) \<Longrightarrow> accepts Q (dbind (dcheck ok reason) f)"
  by (simp add: accepts_def dbind_def dcheck_def dret_def dfail_def)

lemma accepts_lift: "(\<And>x. r = Inr x \<Longrightarrow> accepts Q (f x)) \<Longrightarrow> accepts Q (dbind (dlift r) f)"
  by (cases r) (simp_all add: accepts_def dbind_def dlift_def)

lemma read_path_accepts: "accepts canonical_path Decoder_read_path"
  unfolding Decoder_read_path_def by (intro accepts_any accepts_dret path_of_bytes_canonical)

lemma read_count_accepts: "accepts (\<lambda>n. n < 2 ^ 64) Decoder_read_count"
proof -
  have "unat (w :: u64) < 2 ^ 64" for w using unat_less [of w] by simp
  then show ?thesis
    unfolding Decoder_read_count_def
    by (intro accepts_any) (auto simp: accepts_def)
qed

lemma each_accepts: "accepts Q m \<Longrightarrow> accepts (\<lambda>xs. \<forall>x\<in>set xs. Q x) (decode_each m n)"
proof (induction n)
  case 0
  show ?case by (simp add: accepts_dret)
next
  case (Suc n)
  show ?case
    unfolding decode_each.simps
    by (rule accepts_dbind [OF Suc.prems], rule accepts_dbind [OF Suc.IH [OF Suc.prems]],
        rule accepts_dret) simp
qed

lemma decode_value_accepts:
  "accepts (\<lambda>v. canonical_path (wv_path v) \<and> valid_relative_path (wv_path v) \<and> utf8_valid (wv_value v))
     decode_value"
  unfolding decode_value_def
  by (rule accepts_dbind [OF read_path_accepts], rule accepts_lift, rule accepts_any, rule accepts_check)
    (auto intro!: accepts_dret simp: validate_relative_path_def split: if_splits)

lemma decode_volatile_accepts: "accepts (\<lambda>p. canonical_path p \<and> valid_relative_path p) decode_volatile"
  unfolding decode_volatile_def
  by (rule accepts_dbind [OF read_path_accepts], rule accepts_lift)
    (auto intro!: accepts_dret simp: validate_relative_path_def split: if_splits)

lemma identities_accepts:
  "accepts (ascending_identities n previous) (decode_identities n previous m)"
proof (induction n previous m rule: decode_identities.induct)
  case (1 n previous)
  show ?case by (simp add: accepts_dret ascending_identities_def)
next
  case (2 n previous m)
  show ?case
    unfolding decode_identities.simps Let_def
  proof (rule accepts_any, rule accepts_check, rule accepts_check, rule accepts_any)
    fix raw_index :: u64 and raw_pid :: u32
    let ?i = "unat raw_index"
    assume i: "?i < n" "case previous of None \<Rightarrow> True | Some p \<Rightarrow> p < ?i"
    have "accepts (ascending_identities n previous)
        (dbind (decode_identities n (Some ?i) m) (\<lambda>rest. dret (\<lparr>pi_index = ?i, pi_pid = p\<rparr> # rest)))"
      if p: "valid_pid p" for p
    proof (rule accepts_dbind)
      show "accepts (ascending_identities n (Some ?i)) (decode_identities n (Some ?i) m)"
        by (rule "2.IH", rule refl, rule Pid_new_valid [OF p])
      fix rest
      assume rest: "ascending_identities n (Some ?i) rest"
      show "accepts (ascending_identities n previous) (dret (\<lparr>pi_index = ?i, pi_pid = p\<rparr> # rest))"
      proof (rule accepts_dret)
        show "ascending_identities n previous (\<lparr>pi_index = ?i, pi_pid = p\<rparr> # rest)"
          using rest i p
          by (cases previous) (auto simp: ascending_identities_def dest!: bspec intro: less_trans)
      qed
    qed
    then show "accepts (ascending_identities n previous) (case Pid_new raw_pid of
        Inl _ \<Rightarrow> dfail ''contains an invalid kdamond kernel-thread ID''
      | Inr p \<Rightarrow> dbind (decode_identities n (Some ?i) m)
          (\<lambda>rest. dret (\<lparr>pi_index = ?i, pi_pid = p\<rparr> # rest)))"
      by (auto simp: accepts_dfail Pid_new_Inr_iff split: sum.split)
  qed
qed

lemma decode_receipt_accepts: "accepts valid_receipt decode_receipt"
  unfolding decode_receipt_def
  by (rule accepts_any, rule accepts_check, rule accepts_any, rule accepts_check,
      rule accepts_dbind [OF read_path_accepts], rule accepts_dbind [OF read_path_accepts],
      rule accepts_any, rule accepts_check, rule accepts_check, rule accepts_lift,
      rule accepts_any, rule accepts_dbind [OF each_accepts [OF decode_value_accepts]],
      rule accepts_any, rule accepts_dbind [OF each_accepts [OF decode_volatile_accepts]],
      rule accepts_dbind [OF read_count_accepts], rule accepts_check, rule accepts_lift,
      rule accepts_any, rule accepts_check, rule accepts_dbind [OF identities_accepts],
      rule accepts_dret)
    (simp add: valid_receipt_def)

lemma accepted_receipt_valid: "Receipt_from_bytes bs = Inr r \<Longrightarrow> valid_receipt r"
  using decode_receipt_accepts
  by (auto simp: Receipt_from_bytes_def and_then_Inr_iff accepts_def split: if_splits)

section \<open>No accepted encoding is a prefix of another\<close>

text \<open>More bytes after those a decoder needs do not change what it returns.\<close>

definition stable :: "'a decode \<Rightarrow> bool" where
  "stable m \<longleftrightarrow> (\<forall>xs ys i x d'. i \<le> length xs \<longrightarrow> m \<lparr>de_bytes = xs, de_offset = i\<rparr> = Inr (x, d') \<longrightarrow>
     de_bytes d' = xs \<and> de_offset d' \<le> length xs
     \<and> m \<lparr>de_bytes = xs @ ys, de_offset = i\<rparr> = Inr (x, \<lparr>de_bytes = xs @ ys, de_offset = de_offset d'\<rparr>))"

lemma stableD:
  assumes "stable m" "i \<le> length xs" "m \<lparr>de_bytes = xs, de_offset = i\<rparr> = Inr (x, d')"
  obtains j where "d' = \<lparr>de_bytes = xs, de_offset = j\<rparr>" "j \<le> length xs"
    "m \<lparr>de_bytes = xs @ ys, de_offset = i\<rparr> = Inr (x, \<lparr>de_bytes = xs @ ys, de_offset = j\<rparr>)"
  using assms unfolding stable_def by (metis decoder.surjective old.unit.exhaust)

lemma stable_simple: "stable (dret x)" "stable (dfail reason)" "stable (dcheck ok reason)" "stable (dlift r)"
  by (auto simp: stable_def dret_def dfail_def dcheck_def dlift_def and_then_Inr_iff)

lemma stable_dbind:
  assumes "stable m" and "\<And>x. stable (f x)"
  shows "stable (dbind m f)"
  unfolding stable_def
proof (intro allI impI)
  fix xs ys i y d'
  assume i: "i \<le> length xs" and run: "dbind m f \<lparr>de_bytes = xs, de_offset = i\<rparr> = Inr (y, d')"
  then obtain x e where m: "m \<lparr>de_bytes = xs, de_offset = i\<rparr> = Inr (x, e)" and f: "f x e = Inr (y, d')"
    by (auto simp: dbind_def and_then_Inr_iff)
  obtain j where j: "e = \<lparr>de_bytes = xs, de_offset = j\<rparr>" "j \<le> length xs"
    "m \<lparr>de_bytes = xs @ ys, de_offset = i\<rparr> = Inr (x, \<lparr>de_bytes = xs @ ys, de_offset = j\<rparr>)"
    by (rule stableD [OF assms(1) i m])
  obtain k where "d' = \<lparr>de_bytes = xs, de_offset = k\<rparr>" "k \<le> length xs"
    "f x \<lparr>de_bytes = xs @ ys, de_offset = j\<rparr> = Inr (y, \<lparr>de_bytes = xs @ ys, de_offset = k\<rparr>)"
    by (rule stableD [OF assms(2) j(2) f [unfolded j(1)]])
  with j show "de_bytes d' = xs \<and> de_offset d' \<le> length xs
      \<and> dbind m f \<lparr>de_bytes = xs @ ys, de_offset = i\<rparr>
        = Inr (y, \<lparr>de_bytes = xs @ ys, de_offset = de_offset d'\<rparr>)"
    by (simp add: dbind_def)
qed

lemma stable_take: "stable (Decoder_take n)"
  by (auto simp: stable_def Decoder_take_def)

lemma stable_count: "stable Decoder_read_count"
proof -
  have "stable (\<lambda>d. if unat n > remaining d then
      Inl (InvalidReceipt ''contains an impossible element count'') else Inr (unat n, d))" for n :: u64
    by (auto simp: stable_def remaining_def)
  then show ?thesis
    unfolding Decoder_read_count_def Decoder_read_u64_def read_le_def
    by (intro stable_dbind stable_take stable_simple)
qed

lemma stable_each: "stable m \<Longrightarrow> stable (decode_each m n)"
  by (induction n) (auto intro: stable_dbind stable_simple)

lemma stable_identities: "stable (decode_identities n previous m)"
proof (induction n previous m rule: decode_identities.induct)
  case (2 n previous m)
  have rest: "stable (case Pid_new raw_pid of
        Inl _ \<Rightarrow> dfail ''contains an invalid kdamond kernel-thread ID''
      | Inr p \<Rightarrow> dbind (decode_identities n (Some (unat i)) m)
          (\<lambda>rest. dret (\<lparr>pi_index = unat i, pi_pid = p\<rparr> # rest)))" for raw_pid and i :: u64
  proof (cases "Pid_new raw_pid")
    case (Inr p)
    have "stable (decode_identities n (Some (unat i)) m)"
      by (rule 2, rule refl, rule Inr)
    with Inr show ?thesis by (auto intro!: stable_dbind stable_simple)
  qed (simp add: stable_simple)
  show ?case
    unfolding decode_identities.simps Let_def Decoder_read_u64_def Decoder_read_u32_def read_le_def
    by (intro stable_dbind stable_take stable_simple rest)
qed (simp add: stable_simple)

lemma stable_decode_receipt: "stable decode_receipt"
  unfolding decode_receipt_def decode_value_def decode_volatile_def Decoder_read_u32_def read_le_def
    Decoder_read_path_def Decoder_read_bytes_def
  by (intro stable_dbind stable_take stable_simple stable_count stable_each stable_identities)

lemma receipt_prefix_free:
  assumes "Receipt_from_bytes bs = Inr r" and "extra \<noteq> []"
  shows "Receipt_from_bytes (bs @ extra) = Inl (InvalidReceipt ''contains trailing data'')"
proof -
  obtain d where d: "decode_receipt \<lparr>de_bytes = bs, de_offset = 0\<rparr> = Inr (r, d)" "Decoder_is_empty d"
    using assms(1) by (auto simp: Receipt_from_bytes_def and_then_Inr_iff split: if_splits)
  obtain j where "d = \<lparr>de_bytes = bs, de_offset = j\<rparr>"
    "decode_receipt \<lparr>de_bytes = bs @ extra, de_offset = 0\<rparr>
       = Inr (r, \<lparr>de_bytes = bs @ extra, de_offset = j\<rparr>)"
    by (rule stableD [OF stable_decode_receipt _ d(1)]) auto
  with d(2) assms(2) show ?thesis
    by (simp add: Receipt_from_bytes_def Decoder_is_empty_def)
qed

end
