(* ===== verification/Persistent.thy ===== *)
theory Persistent
  imports Session Receipt_Lemmas
begin

text \<open>
  The rest of \<^verbatim>\<open>src/src/monitor/persistent.rs\<close>: a hierarchy that outlives its process. A receipt is
  captured from an owner; later it is opened to an owner again, after the complete hierarchy was
  found to be the recorded one, and every attached operation gives the hierarchy up again
  without stopping or restoring it.
\<close>

section \<open>The boot identifier\<close>

definition BOOT_ID_PATH :: path where
  "BOOT_ID_PATH = RootDir # map Normal [''proc'', ''sys'', ''kernel'', ''random'', ''boot_id'']"

definition init_boot :: "'k process \<Rightarrow> string \<Rightarrow> ('k, string) comp" where
  "init_boot V v w = (case os_init_boot V v (w_kernel w) of (v', k) \<Rightarrow> (Inr v', w\<lparr>w_kernel := k\<rparr>))"

definition current_boot_id :: "'k process \<Rightarrow> ('k, string) comp" where
  "current_boot_id V w =
     (case os_boot_cell V (w_kernel w) of
        Some v \<Rightarrow> sret v
      | None \<Rightarrow>
          sbind (call ''read Linux boot identifier'' BOOT_ID_PATH (os_read_boot V)) (\<lambda>text_read.
          sbind (slift (validate_boot_id (trim text_read))) (\<lambda>_. init_boot V (trim text_read)))) w"

section \<open>Capturing a receipt\<close>

fun relative_volatile :: "path \<Rightarrow> path list \<Rightarrow> path list result" where
  "relative_volatile admin [] = Inr []"
| "relative_volatile admin (p # ps) =
     (case strip_prefix admin p of
        None \<Rightarrow> Inl (OwnershipLost ''a volatile configuration path escaped the DAMON admin root'')
      | Some q \<Rightarrow> and_then (relative_volatile admin ps) (\<lambda>qs. Inr (q # qs)))"

definition receipt_identities :: "(usize \<times> pid) list \<Rightarrow> persistent_identity list" where
  "receipt_identities ids = map (\<lambda>(i, p). \<lparr>pi_index = i, pi_pid = p\<rparr>) ids"

definition PersistentReceipt_capture ::
    "'k process \<Rightarrow> damon \<Rightarrow> managed_hierarchy \<Rightarrow> ('k, persistent_receipt) comp" where
  "PersistentReceipt_capture V d s =
     sbind (persistent_parts_of (os_sysfs V) s) (\<lambda>parts.
     sbind (slift (relative_volatile (dm_admin d) (pp_volatile parts))) (\<lambda>volatile.
     sbind (current_boot_id V) (\<lambda>boot.
       sret \<lparr>pr_admin = dm_admin d, pr_lock = dm_lock_path d, pr_boot = boot,
             pr_values = writable_values (pp_configuration parts), pr_volatile = volatile,
             pr_kdamond_count = pp_kdamond_count parts,
             pr_identities = receipt_identities (pp_identities parts)\<rparr>)))"

section \<open>Opening a receipt\<close>

definition verify_binding :: "'k process \<Rightarrow> persistent_receipt \<Rightarrow> damon \<Rightarrow> ('k, unit) comp" where
  "verify_binding V r d =
     (if pr_admin r \<noteq> dm_admin d then sfail (ReceiptMismatch ''DAMON admin path differs'')
      else if pr_lock r \<noteq> dm_lock_path d then sfail (ReceiptMismatch ''advisory lock path differs'')
      else
        sbind (current_boot_id V) (\<lambda>boot.
          if pr_boot r \<noteq> boot then sfail (ReceiptMismatch ''Linux boot identifier differs'')
          else sret ()))"

definition receipt_ownership :: "persistent_receipt \<Rightarrow> path \<Rightarrow> staged_ownership result" where
  "receipt_ownership r admin =
     and_then (from_writable_values admin (pr_values r)) (\<lambda>configuration.
       Inr (StagedOwnership_from_parts configuration (map (join_path admin) (pr_volatile r))
              (pr_kdamond_count r)))"

definition open_managed :: "'k process \<Rightarrow> persistent_receipt \<Rightarrow> damon \<Rightarrow> ('k, owner) comp" where
  "open_managed V r d =
     sbind (verify_binding V r d) (\<lambda>_.
       lock_into V (dm_lock_path d)
         (sbind (slift (receipt_ownership r (dm_admin d))) (\<lambda>staged.
            attach_persistent (os_sysfs V) (dm_admin d) staged
              (map (\<lambda>i. (pi_index i, pi_pid i)) (pr_identities r)))))"

section \<open>Attached hierarchies\<close>

record attached =
  ah_damon :: damon
  ah_receipt :: persistent_receipt

definition release :: "'k process \<Rightarrow> owner \<Rightarrow> ('k, unit) comp" where
  "release V ow = owner_drop V (disarm_cleanup (fst ow), snd ow)"

definition attached_read ::
    "'k process \<Rightarrow> attached \<Rightarrow> (managed_hierarchy \<Rightarrow> ('k, 'a) comp) \<Rightarrow> ('k, 'a) comp" where
  "attached_read V a read =
     sbind (open_managed V (ah_receipt a) (ah_damon a)) (\<lambda>ow.
     stry (read (fst ow)) (\<lambda>r. sbind (release V ow) (\<lambda>_. slift r)))"

definition Attached_configuration :: "'k process \<Rightarrow> attached \<Rightarrow> ('k, damon_config) comp" where
  "Attached_configuration V a = attached_read V a (Hierarchy_configuration (os_sysfs V))"

definition Attached_observed_configuration ::
    "'k process \<Rightarrow> attached \<Rightarrow> ('k, observed_configuration) comp" where
  "Attached_observed_configuration V a =
     attached_read V a (Hierarchy_observed_configuration (os_sysfs V))"

text \<open>What an attached change reports and which receipt it leaves.\<close>

fun attached_outcome ::
    "unit result \<Rightarrow> persistent_receipt result \<Rightarrow> attached \<Rightarrow> unit result \<times> attached" where
  "attached_outcome (Inr _) (Inr receipt) a = (Inr (), a\<lparr>ah_receipt := receipt\<rparr>)"
| "attached_outcome (Inl operation) (Inr receipt) a = (Inl operation, a\<lparr>ah_receipt := receipt\<rparr>)"
| "attached_outcome (Inr _) (Inl verification) a =
     (Inl (PersistentStateUncertain None verification), a)"
| "attached_outcome (Inl operation) (Inl verification) a =
     (Inl (PersistentStateUncertain (Some operation) verification), a)"

definition attached_change ::
    "'k process \<Rightarrow> ('k, unit) mcomp \<Rightarrow> (attached, 'k, unit) stcomp" where
  "attached_change V change =
     mbind (mread (\<lambda>a. open_managed V (ah_receipt a) (ah_damon a))) (\<lambda>ow a.
       sbind (change (fst ow)) (\<lambda>(operation, s').
       stry (PersistentReceipt_capture V (ah_damon a) s') (\<lambda>receipt.
       sbind (release V (s', snd ow)) (\<lambda>_. sret (attached_outcome operation receipt a)))))"

definition Attached_update_selected ::
    "'k process \<Rightarrow> u64 \<Rightarrow> damon_config \<Rightarrow> usize list \<Rightarrow> (attached, 'k, unit) stcomp" where
  "Attached_update_selected V ps config indices =
     attached_change V (update_configuration (os_sysfs V) ps config indices)"

definition Attached_update ::
    "'k process \<Rightarrow> u64 \<Rightarrow> damon_config \<Rightarrow> (attached, 'k, unit) stcomp" where
  "Attached_update V ps config a =
     Attached_update_selected V ps config (map pi_index (pr_identities (ah_receipt a))) a"

definition Attached_stop :: "'k process \<Rightarrow> (attached, 'k, unit) stcomp" where
  "Attached_stop V = attached_change V (stop_all (os_sysfs V))"

section \<open>Starting and attaching\<close>

definition leave_persistent :: "'k process \<Rightarrow> damon \<Rightarrow> owner \<Rightarrow> ('k, persistent_receipt) comp" where
  "leave_persistent V d ow =
     stry (PersistentReceipt_capture V d (fst ow)) (\<lambda>captured.
       case captured of
         Inr receipt \<Rightarrow> sbind (release V ow) (\<lambda>_. sret receipt)
       | Inl operation \<Rightarrow>
           sbind (close_inner (os_sysfs V) (fst ow)) (\<lambda>(closed, s').
           sbind (owner_drop V (s', snd ow)) (\<lambda>_. sfail (with_rollback operation closed))))"

definition start_persistent ::
    "'k process \<Rightarrow> u64 \<Rightarrow> damon \<Rightarrow> damon_config \<Rightarrow> ('k, persistent_receipt) comp" where
  "start_persistent V ps d config =
     sbind (Damon_managed_hierarchy V ps d config) (\<lambda>ow.
     sbind (start_all (os_sysfs V) (fst ow)) (\<lambda>(r, s).
       case r of
         Inl e \<Rightarrow> sbind (owner_drop V (s, snd ow)) (\<lambda>_. sfail e)
       | Inr _ \<Rightarrow> leave_persistent V d (s, snd ow)))"

definition attach :: "'k process \<Rightarrow> damon \<Rightarrow> persistent_receipt \<Rightarrow> ('k, attached) comp" where
  "attach V d r =
     sbind (open_managed V r d) (\<lambda>ow.
     sbind (release V ow) (\<lambda>_. sret \<lparr>ah_damon = d, ah_receipt = r\<rparr>))"

end
