(* ===== verification/Persistent_Lemmas.thy ===== *)
theory Persistent_Lemmas
  imports Persistent
begin

text \<open>
  What the lock guarantees; that a receipt describes the owner it was captured from; what attached
  operations write.
\<close>

section \<open>The lock\<close>

text \<open>Another holder: the lock file opens and the lock is refused.\<close>

definition lock_held :: "'k process \<Rightarrow> path \<Rightarrow> 'k \<Rightarrow> nat \<Rightarrow> 'k \<Rightarrow> bool" where
  "lock_held V p k fd k' \<longleftrightarrow>
     (\<exists>k1. os_open_lock V p k = (Inr fd, k1) \<and> os_flock V fd k1 = (Inl WOULDBLOCK, k'))"

lemma acquire_refused:
  assumes "lock_held V p (w_kernel w) fd k"
  shows "SessionLock_acquire V p w = (Inl (SessionLockBusy p), w\<lparr>w_kernel := os_close V fd k\<rparr>)"
  using assms
  by (auto simp: lock_held_def SessionLock_acquire_def call_def syscall_def flock_call_def
      SessionLock_drop_def sbind_def sret_def sfail_def)

lemma lock_refused:
  assumes "lock_held V p (w_kernel w) fd k"
  shows "with_lock V p m w = (Inl (SessionLockBusy p), w\<lparr>w_kernel := os_close V fd k\<rparr>)"
    and "lock_into V p n w = (Inl (SessionLockBusy p), w\<lparr>w_kernel := os_close V fd k\<rparr>)"
  by (simp_all add: with_lock_def lock_into_def sbind_def acquire_refused [OF assms])

lemma lock_into_Inr:
  assumes "lock_into V p m w = (Inr (x, fd), w')"
  shows "\<exists>w1. SessionLock_acquire V p w = (Inr fd, w1) \<and> m w1 = (Inr x, w')"
proof -
  from assms obtain fd' w1 where acquired: "SessionLock_acquire V p w = (Inr fd', w1)"
    by (auto simp: lock_into_def sbind_Inr_iff)
  obtain r w2 where run: "m w1 = (r, w2)" by (cases "m w1")
  from assms acquired run show ?thesis
    by (cases r) (auto simp: lock_into_def sbind_def stry_def sret_def sfail_def SessionLock_drop_def)
qed

section \<open>A receipt describes its owner\<close>

definition volatile_wf :: "path \<Rightarrow> path list \<Rightarrow> bool" where
  "volatile_wf admin ps \<longleftrightarrow> sorted ps \<and> distinct ps \<and> (\<forall>p\<in>set ps. descends admin p)"

definition owner_wf :: "managed_hierarchy \<Rightarrow> bool" where
  "owner_wf s \<longleftrightarrow>
     valid_snapshot (so_configuration (mh_staged s))
     \<and> cs_root (so_configuration (mh_staged s)) = mh_admin s
     \<and> volatile_wf (mh_admin s) (so_volatile (mh_staged s))
     \<and> so_kdamond_count (mh_staged s) = length (mh_states s)"

text \<open>What a configuration makes volatile is such a list.\<close>

lemma distinct_concat_enumerate:
  assumes "\<And>k x. distinct (f k x)" and "\<And>k l x y. k \<noteq> l \<Longrightarrow> set (f k x) \<inter> set (f l y) = {}"
  shows "distinct (concat (map (\<lambda>(k, x). f k x) (enumerate n xs)))"
proof (induction xs arbitrary: n)
  case (Cons x xs)
  have "set (f n x) \<inter> set (f k y) = {}" if "(k, y) \<in> set (enumerate (Suc n) xs)" for k y
    using that assms(2) [of n k x y] by (auto simp: in_set_enumerate_eq)
  with Cons assms(1) show ?case by fastforce
qed simp

lemma tuned_paths_set:
  "set (tuned_paths admin k c config) \<subseteq>
     {admin @ map Normal [''kdamonds'', dec k, ''contexts'', dec c, ''monitoring_attrs'', ''intervals'', name]
       | name. name \<in> {''sample_us'', ''aggr_us''}}"
  by (auto simp: tuned_paths_def Let_def sub_def child_def Kdamond_context_def Admin_kdamond_def)

lemma tuned_paths_disjoint:
  "(k, c) \<noteq> (l, e) \<Longrightarrow> set (tuned_paths admin k c x) \<inter> set (tuned_paths admin l e y) = {}"
  using tuned_paths_set [of admin k c x] tuned_paths_set [of admin l e y] by fastforce

definition kdamond_tuned :: "path \<Rightarrow> nat \<Rightarrow> kdamond_config \<Rightarrow> path list" where
  "kdamond_tuned admin k kc =
     concat (map (\<lambda>(c, x). tuned_paths admin k c x) (enumerate 0 (k_contexts kc)))"

lemma volatile_paths_kdamonds:
  "volatile_paths_of admin config =
     concat (map (\<lambda>(k, kc). kdamond_tuned admin k kc) (enumerate 0 (d_kdamonds config)))"
  by (simp add: volatile_paths_of_def kdamond_tuned_def)

lemma volatile_paths_distinct: "distinct (volatile_paths_of admin config)"
  unfolding volatile_paths_kdamonds
proof (rule distinct_concat_enumerate)
  show "distinct (kdamond_tuned admin k kc)" for k kc
    unfolding kdamond_tuned_def
    by (rule distinct_concat_enumerate, simp add: tuned_paths_def Let_def sub_def,
        rule tuned_paths_disjoint) simp
  show "set (kdamond_tuned admin k kc) \<inter> set (kdamond_tuned admin l lc) = {}" if "k \<noteq> l" for k l kc lc
  proof -
    have "set (tuned_paths admin k c x) \<inter> set (tuned_paths admin l e y) = {}" for c x e y
      by (rule tuned_paths_disjoint) (simp add: that)
    then show ?thesis by (fastforce simp: kdamond_tuned_def)
  qed
qed

lemma new_volatile_wf: "volatile_wf admin (so_volatile (StagedOwnership_new c admin config))"
proof -
  have "descends admin p" if "p \<in> set (volatile_paths_of admin config)" for p
    using that unfolding volatile_paths_of_def descends_def
    by (auto dest!: subsetD [OF tuned_paths_set])
  then show ?thesis
    by (simp add: volatile_wf_def StagedOwnership_new_def volatile_paths_distinct)
qed

lemma relative_volatile_Inr:
  "relative_volatile admin ps = Inr qs \<Longrightarrow> ps = map ((@) admin) qs"
  by (induction ps arbitrary: qs)
    (auto simp: and_then_Inr_iff strip_prefix_Some_iff split: option.splits)

lemma join_descends: "descends admin (admin @ q) \<Longrightarrow> join_path admin q = admin @ q"
  by (rule join_path_relative) (auto simp: descends_def)

lemma attach_running:
  "running_identities (length pre) states = Inr ids \<Longrightarrow>
     (case prev of None \<Rightarrow> True | Some q \<Rightarrow> q < length pre) \<Longrightarrow>
     attach_identities (pre @ replicate (length states) Staged) prev ids = Inr (pre @ states)"
proof (induction states arbitrary: pre prev ids)
  case Nil
  then show ?case by simp
next
  case (Cons st states)
  show ?case
  proof (cases st)
    case Staged
    with Cons.prems have "running_identities (length (pre @ [st])) states = Inr ids" by simp
    moreover have "case prev of None \<Rightarrow> True | Some q \<Rightarrow> q < length (pre @ [st])"
      using Cons.prems(2) by (simp split: option.splits)
    ultimately have "attach_identities ((pre @ [st]) @ replicate (length states) Staged) prev ids
        = Inr ((pre @ [st]) @ states)" by (rule Cons.IH)
    with Staged show ?thesis by simp
  next
    case (Running p)
    with Cons.prems(1) obtain rest where
      rest: "running_identities (length (pre @ [Running p])) states = Inr rest"
      and ids: "ids = (length pre, p) # rest"
      by (auto simp: and_then_Inr_iff)
    have "attach_identities ((pre @ [Running p]) @ replicate (length states) Staged)
        (Some (length pre)) rest = Inr ((pre @ [Running p]) @ states)"
      by (rule Cons.IH [OF rest]) simp
    moreover have "(pre @ Staged # replicate (length states) Staged)[length pre := Running p]
        = (pre @ [Running p]) @ replicate (length states) Staged" by simp
    ultimately show ?thesis
      using Cons.prems(2) Running by (auto simp: ids split: option.splits)
  next
    case UnidentifiedRunning
    with Cons.prems show ?thesis by simp
  qed
qed

lemma identities_pairs [simp]:
  "map (\<lambda>i. (pi_index i, pi_pid i)) (receipt_identities ids) = ids"
  by (induction ids) (auto simp: receipt_identities_def)

lemma sort_dedup_id: "sorted xs \<Longrightarrow> distinct xs \<Longrightarrow> sort_dedup xs = xs"
  by (simp add: sort_dedup_def sorted_sort_id remdups_adj_distinct)

lemma captured_receipt:
  assumes "PersistentReceipt_capture V d s w = (Inr r, w')"
    and "owner_wf s" and "dm_admin d = mh_admin s"
  shows "receipt_ownership r (mh_admin s) = Inr (mh_staged s)"
    and "attach_identities (replicate (length (mh_states s)) Staged) None
           (map (\<lambda>i. (pi_index i, pi_pid i)) (pr_identities r)) = Inr (mh_states s)"
    and "pr_kdamond_count r = length (mh_states s)"
proof -
  let ?so = "mh_staged s"
  from assms(1,3) obtain ids vol boot where
    ids: "running_identities 0 (mh_states s) = Inr ids"
    and vol: "relative_volatile (mh_admin s) (so_volatile ?so) = Inr vol"
    and r: "r = \<lparr>pr_admin = mh_admin s, pr_lock = dm_lock_path d, pr_boot = boot,
      pr_values = writable_values (so_configuration ?so), pr_volatile = vol,
      pr_kdamond_count = length (mh_states s), pr_identities = receipt_identities ids\<rparr>"
    by (auto simp: PersistentReceipt_capture_def persistent_parts_of_def sbind_Inr_iff slift_def sret_def)
  from relative_volatile_Inr [OF vol] assms(2)
  have volatile: "map (join_path (mh_admin s)) vol = so_volatile ?so"
    by (auto simp: owner_wf_def volatile_wf_def join_descends)
  have "from_writable_values (mh_admin s) (writable_values (so_configuration ?so))
      = Inr (so_configuration ?so)"
    using from_writable_values_roundtrip assms(2) by (metis owner_wf_def)
  then show "receipt_ownership r (mh_admin s) = Inr ?so"
    using assms(2)
    by (simp add: receipt_ownership_def r volatile StagedOwnership_from_parts_def owner_wf_def
        volatile_wf_def sort_dedup_id and_then_def)
  show "attach_identities (replicate (length (mh_states s)) Staged) None
      (map (\<lambda>i. (pi_index i, pi_pid i)) (pr_identities r)) = Inr (mh_states s)"
    using attach_running [of "[]" "mh_states s" ids None] ids by (simp add: r)
  show "pr_kdamond_count r = length (mh_states s)" by (simp add: r)
qed

lemma open_managed_Inr:
  assumes "open_managed V r d w = (Inr (s, fd), w')"
  shows "\<exists>staged. receipt_ownership r (dm_admin d) = Inr staged \<and> mh_staged s = staged
    \<and> mh_admin s = dm_admin d \<and> mh_previous s = None \<and> mh_owns s
    \<and> attach_identities (replicate (so_kdamond_count staged) Staged) None
        (map (\<lambda>i. (pi_index i, pi_pid i)) (pr_identities r)) = Inr (mh_states s)"
proof -
  from assms obtain staged states w1 where staged: "receipt_ownership r (dm_admin d) = Inr staged"
    and states: "attach_identities (replicate (so_kdamond_count staged) Staged) None
      (map (\<lambda>i. (pi_index i, pi_pid i)) (pr_identities r)) = Inr states"
    and s: "s = \<lparr>mh_admin = dm_admin d, mh_previous = None, mh_staged = staged,
      mh_states = states, mh_owns = True\<rparr>"
    by (auto simp: open_managed_def attach_persistent_def sbind_Inr_iff slift_def sret_def Let_def
        dest!: lock_into_Inr)
  then show ?thesis by simp
qed

end
