(* ===== verification/Session_Traces.thy ===== *)
theory Session_Traces
  imports Persistent_Lemmas
begin

text \<open>
  What the entry points write to the hierarchy: the system calls of the lock and of the boot
  identifier are not calls on the hierarchy and are not in the trace.
\<close>

section \<open>A traced process\<close>

definition beside_trace ::
    "('k \<times> event list \<Rightarrow> 'a \<times> ('k \<times> event list)) \<Rightarrow> 'k \<times> event list \<Rightarrow> 'a \<times> ('k \<times> event list)" where
  "beside_trace f k = (case f k of (r, k') \<Rightarrow> (r, (fst k', snd k)))"

definition traced_process :: "('k \<times> event list) process \<Rightarrow> ('k \<times> event list) process" where
  "traced_process V =
     \<lparr>os_sysfs = traced (os_sysfs V),
      os_open_lock = (\<lambda>p. beside_trace (os_open_lock V p)),
      os_flock = (\<lambda>fd. beside_trace (os_flock V fd)),
      os_close = (\<lambda>fd k. (fst (os_close V fd k), snd k)),
      os_boot_cell = os_boot_cell V,
      os_read_boot = beside_trace (os_read_boot V),
      os_init_boot = (\<lambda>v. beside_trace (os_init_boot V v))\<rparr>"

lemma traced_sysfs [simp]: "os_sysfs (traced_process V) = traced (os_sysfs V)"
  by (simp add: traced_process_def)

lemma snd_beside_trace [simp]: "snd (snd (beside_trace f k)) = snd k"
  by (simp add: beside_trace_def split: prod.splits)

lemma silent_syscall: "emits P (syscall (beside_trace f))"
  by (rule emits_silent) (simp add: syscall_def trace_def beside_trace_def split: prod.splits)

lemma lock_emits [emits_rules]:
  "emits P (SessionLock_drop (traced_process V) fd)"
  "emits P (flock_call (traced_process V) fd)"
  "emits P (SessionLock_acquire (traced_process V) p)"
proof -
  show drop: "emits P (SessionLock_drop (traced_process V) fd)" for fd
    by (rule emits_silent) (simp add: SessionLock_drop_def trace_def traced_process_def)
  show flock: "emits P (flock_call (traced_process V) fd)" for fd
    by (rule emits_silent)
      (simp add: flock_call_def trace_def traced_process_def beside_trace_def split: prod.splits)
  have open_file: "emits P (call op p (os_open_lock (traced_process V) p))" for op
    unfolding call_def traced_process_def process.select_convs
    by (intro emits_rules silent_syscall)
  show "emits P (SessionLock_acquire (traced_process V) p)"
    unfolding SessionLock_acquire_def by (intro emits_rules open_file flock drop)
qed

lemma boot_emits [emits_rules]:
  "emits P (current_boot_id (traced_process V))"
proof -
  have read: "emits P (call op p (os_read_boot (traced_process V)))" for op p
    unfolding call_def traced_process_def process.select_convs
    by (intro emits_rules silent_syscall)
  have init: "emits P (init_boot (traced_process V) v)" for v
    by (rule emits_silent)
      (simp add: init_boot_def trace_def traced_process_def beside_trace_def split: prod.splits)
  have at: "emits P (\<lambda>w. (case c of Some v \<Rightarrow> sret v | None \<Rightarrow>
      sbind (call op p (os_read_boot (traced_process V))) (\<lambda>text_read.
      sbind (slift (validate_boot_id (trim text_read))) (\<lambda>_. init_boot (traced_process V) (trim text_read)))) w)"
    for c op p
    by (cases c) (auto intro!: emits_rules read init)
  show ?thesis
    unfolding emits_def current_boot_id_def
    using at by (simp add: emits_def)
qed

lemma with_lock_emits [emits_rules]:
  "emits P m \<Longrightarrow> emits P (with_lock (traced_process V) p m)"
  "emits P n \<Longrightarrow> emits P (lock_into (traced_process V) p n)"
  unfolding with_lock_def lock_into_def by (intro emits_rules; assumption?)+

section \<open>Receipts\<close>

lemma persistent_parts_emits [emits_rules]:
  "writes_only Q (persistent_parts_of (traced E) s)"
  unfolding persistent_parts_of_def by (intro emits_rules)

lemma receipt_emits [emits_rules]:
  "writes_only Q (PersistentReceipt_capture (traced_process V) d s)"
  "writes_only Q (verify_binding (traced_process V) r d)"
  unfolding PersistentReceipt_capture_def verify_binding_def traced_sysfs
  by (intro emits_rules)+

lemma attach_persistent_emits [emits_rules]:
  "writes_only Q (attach_persistent (traced E) a so ids)"
  unfolding attach_persistent_def Let_def by (intro emits_rules)

lemma open_managed_emits [emits_rules]:
  "writes_only Q (open_managed (traced_process V) r d)"
  unfolding open_managed_def traced_sysfs by (intro emits_rules)

text \<open>A released owner is neither stopped nor restored.\<close>

lemma release_emits [emits_rules]: "emits P (release (traced_process V) ow)"
  unfolding release_def owner_drop_def Hierarchy_drop_def disarm_cleanup_def
  by (simp, intro emits_rules)

lemma attach_emits: "writes_only Q (attach (traced_process V) d r)"
  unfolding attach_def by (intro emits_rules)

lemma attached_read_emits:
  "(\<And>s. writes_only Q (f s)) \<Longrightarrow> writes_only Q (attached_read (traced_process V) a f)"
  unfolding attached_read_def by (intro emits_rules)

lemma attach_identities_length:
  "attach_identities states prev ids = Inr states' \<Longrightarrow> length states' = length states"
  by (induction states prev ids rule: attach_identities.induct) (auto split: if_splits)

text \<open>The owner a receipt opens to has the receipt's kdamonds.\<close>

definition opened_from :: "attached \<Rightarrow> managed_hierarchy \<Rightarrow> bool" where
  "opened_from a s \<longleftrightarrow>
     mh_admin s = dm_admin (ah_damon a) \<and> length (mh_states s) = pr_kdamond_count (ah_receipt a)"

lemma open_managed_yields:
  "yields (\<lambda>ow. opened_from a (fst ow)) (open_managed V (ah_receipt a) (ah_damon a))"
proof (unfold yields_def, intro allI impI)
  fix w w' and ow :: owner
  assume "open_managed V (ah_receipt a) (ah_damon a) w = (Inr ow, w')"
  then obtain staged where "receipt_ownership (ah_receipt a) (dm_admin (ah_damon a)) = Inr staged"
    "mh_admin (fst ow) = dm_admin (ah_damon a)"
    "length (mh_states (fst ow)) = so_kdamond_count staged"
    by (cases ow) (auto dest!: open_managed_Inr attach_identities_length)
  then show "opened_from a (fst ow)"
    by (auto simp: opened_from_def receipt_ownership_def StagedOwnership_from_parts_def and_then_Inr_iff)
qed

lemma attached_change_emits:
  assumes change: "\<And>s. opened_from a s \<Longrightarrow> emits P (change s)"
    and reads: "\<And>ev. writes_within (\<lambda>_. False) ev \<Longrightarrow> P ev"
  shows "emits P (attached_change (traced_process V) change a)"
  unfolding attached_change_def
proof (rule emits_mread_yields [where Q = "\<lambda>ow. opened_from a (fst ow)"], goal_cases)
  case 1
  show ?case by (rule emits_mono [OF open_managed_emits reads])
next
  case 2
  show ?case by (rule open_managed_yields)
next
  case (3 ow)
  then show ?case
    by (intro emits_sbind change emits_prod emits_stry emits_mono [OF receipt_emits(1) reads]
        release_emits emits_sret)
qed

lemma reads_are_update: "writes_within (\<lambda>_. False) ev \<Longrightarrow> update_event a I C ev"
  by (cases ev) (simp_all add: update_event_def)

lemma reads_are_command: "writes_within (\<lambda>_. False) ev \<Longrightarrow> commands_to a I C ev"
  by (cases ev) simp_all

lemma Attached_update_selected_emits:
  "emits (update_event (dm_admin (ah_damon a)) (set indices) {''commit''})
     (Attached_update_selected (traced_process V) ps config indices a)"
  unfolding Attached_update_selected_def traced_sysfs
proof (rule attached_change_emits [OF _ reads_are_update])
  fix s
  assume "opened_from a s"
  then have "mh_admin s = dm_admin (ah_damon a)" by (simp add: opened_from_def)
  then show "emits (update_event (dm_admin (ah_damon a)) (set indices) {''commit''})
      (update_configuration (traced (os_sysfs V)) ps config indices s)"
    using update_configuration_emits [of s indices "os_sysfs V" ps config] by simp
qed

lemma Attached_stop_emits:
  "emits (commands_to (dm_admin (ah_damon a)) {..<pr_kdamond_count (ah_receipt a)} {''off''})
     (Attached_stop (traced_process V) a)"
  unfolding Attached_stop_def traced_sysfs
proof (rule attached_change_emits [OF _ reads_are_command])
  fix s
  assume "opened_from a s"
  then have "mh_admin s = dm_admin (ah_damon a)" "length (mh_states s) = pr_kdamond_count (ah_receipt a)"
    by (simp_all add: opened_from_def)
  then show "emits (commands_to (dm_admin (ah_damon a)) {..<pr_kdamond_count (ah_receipt a)} {''off''})
      (stop_all (traced (os_sysfs V)) s)"
    using stop_all_emits [of s "os_sysfs V"] by simp
qed

section \<open>Entry points\<close>

lemma restore_captured_emits:
  "captured_snapshot admin previous \<Longrightarrow>
     writes_only (attribute_of admin) (restore_configuration (traced E) admin' previous)"
  by (rule writes_only_mono [OF restore_configuration_emits])
    (auto simp: restorable_def captured_snapshot_def captured_from_def)

lemma locked_staging_emits:
  "writes_only (attribute_of admin)
     (stage_validated_configuration_locked (traced E) admin config)"
proof -
  have stage: "writes_only (attribute_of admin)
      (stage_or_restore (traced E) admin config observed previous)"
    if "captured_snapshot admin previous" for observed previous
    unfolding stage_or_restore_def
    by (intro emits_stry emits_sum emits_sret emits_sfail stage_and_verify_emits descends_refl
        restore_captured_emits that)
  show ?thesis
    unfolding stage_validated_configuration_locked_def observed_before_staging_def
    by (rule emits_sbind, intro emits_rules, rule emits_sbind_yields [OF _ snapshot_yields],
        intro emits_rules, intro emits_rules stage)
qed

lemma locked_staging_yields:
  "yields (\<lambda>staged. captured_snapshot admin (sc_previous staged)
      \<and> captured_snapshot admin (sc_current staged))
    (stage_validated_configuration_locked E admin config)"
proof -
  have stage: "yields (\<lambda>staged. captured_snapshot admin (sc_previous staged)
      \<and> captured_snapshot admin (sc_current staged)) (stage_or_restore E admin config observed previous)"
    if "captured_snapshot admin previous" for observed previous
  proof (unfold yields_def, intro allI impI)
    fix w x w'
    assume run: "stage_or_restore E admin config observed previous w = (Inr x, w')"
    then obtain current w1 where "stage_and_verify_configuration E admin config observed w = (Inr current, w1)"
      "x = \<lparr>sc_previous = previous, sc_current = current\<rparr>"
      by (auto simp: stage_or_restore_def stry_def sret_def sfail_def split: prod.splits sum.splits)
    with yieldsD [OF stage_and_verify_yields this(1)] that
    show "captured_snapshot admin (sc_previous x) \<and> captured_snapshot admin (sc_current x)" by simp
  qed
  show ?thesis
    unfolding stage_validated_configuration_locked_def
    by (rule yields_sbind_any, rule yields_sbind [OF snapshot_yields])
      (auto intro!: yields_rules stage)
qed

lemma ManagedHierarchy_new_emits:
  "captured_snapshot admin (sc_previous staged) \<Longrightarrow>
     writes_only (attribute_of admin) (ManagedHierarchy_new (traced E) admin staged config)"
  unfolding ManagedHierarchy_new_def Let_def
  by (intro emits_stry emits_sum emits_sret emits_sfail ownership_checks_emit restore_captured_emits)

lemma capabilities_locked_emits:
  "writes_only (attribute_of admin) (capabilities_locked (traced E) admin)"
proof -
  have probe: "writes_only (attribute_of admin) (probe_kdamond (traced E) admin)"
    unfolding probe_kdamond_def
    by (intro emits_sbind stage_capability_probe_emits) (auto intro!: emits_rules simp: Admin_kdamond_def)
  have undo: "writes_only (attribute_of admin)
      (restore_after_capability_probe (traced E) admin kdamond fp previous)"
    if "captured_snapshot admin previous" for kdamond fp previous
    unfolding restore_after_capability_probe_def Admin_kdamond_count_def
    by (intro emits_rules restore_captured_emits that)
  show ?thesis
    unfolding capabilities_locked_def
    by (rule emits_sbind, intro emits_rules, rule emits_sbind_yields [OF _ snapshot_yields],
        intro emits_rules, intro emits_rules probe undo restore_captured_emits)
qed

lemma managed_hierarchy_emits:
  "writes_only (attribute_of (dm_admin d)) (Damon_managed_hierarchy (traced_process V) ps d config)"
  unfolding Damon_managed_hierarchy_def traced_sysfs
  by (intro emits_sbind emits_slift with_lock_emits
      emits_sbind_yields [OF locked_staging_emits locked_staging_yields] ManagedHierarchy_new_emits) simp

lemma entry_points_emit:
  "writes_only (attribute_of (dm_admin d)) (Damon_stage_configuration (traced_process V) ps d config)"
  "writes_only (attribute_of (dm_admin d)) (Damon_capabilities (traced_process V) d)"
  "writes_only (\<lambda>_. False) (Damon_observed_configuration (traced_process V) d)"
  unfolding Damon_stage_configuration_def Damon_capabilities_def Damon_observed_configuration_def
    traced_sysfs
  by (intro emits_rules locked_staging_emits capabilities_locked_emits)+

end
