(* ===== verification/Delivery.thy ===== *)
theory Delivery
  imports Session_Traces
begin

text \<open>
  What a success guarantees to have happened. \<open>delivers ev m\<close>: against every kernel, a successful
  run of \<open>m\<close> made the system call \<open>ev\<close>. With it: a successful update has delivered its commit to
  every selected kdamond, a successful start has switched every kdamond on, and a query that asks
  the kernel to write its results out has asked.
\<close>

section \<open>Rules\<close>

abbreviation grows :: "('k \<times> event list, 'a) comp \<Rightarrow> bool" where
  "grows m \<equiv> emits (\<lambda>_. True) m"

lemma growsI: "emits P m \<Longrightarrow> grows m"
  by (erule emits_mono) simp

definition delivers :: "event \<Rightarrow> ('k \<times> event list, 'a) comp \<Rightarrow> bool" where
  "delivers ev m \<longleftrightarrow>
     (\<forall>w x w'. m w = (Inr x, w') \<longrightarrow> (\<exists>evs. trace w' = trace w @ evs \<and> ev \<in> set evs))"

named_theorems delivers_rules \<open>which system calls a success implies\<close>

lemma growsD: "grows m \<Longrightarrow> m w = (r, w') \<Longrightarrow> \<exists>evs. trace w' = trace w @ evs"
  by (metis emits_def snd_conv)

lemma delivers_first:
  assumes "delivers ev m" and "\<And>x. grows (f x)"
  shows "delivers ev (sbind m f)"
  unfolding delivers_def sbind_Inr_iff
proof (intro allI impI, elim exE conjE)
  fix w y w'' x w'
  assume "m w = (Inr x, w')" and "f x w' = (Inr y, w'')"
  with assms obtain evs evs' where "trace w' = trace w @ evs" "ev \<in> set evs" "trace w'' = trace w' @ evs'"
    by (metis delivers_def growsD)
  then show "\<exists>evs. trace w'' = trace w @ evs \<and> ev \<in> set evs"
    by (intro exI [of _ "evs @ evs'"]) simp
qed

lemma delivers_then:
  assumes "grows m" and "\<And>x. delivers ev (f x)"
  shows "delivers ev (sbind m f)"
  unfolding delivers_def sbind_Inr_iff
proof (intro allI impI, elim exE conjE)
  fix w y w'' x w'
  assume "m w = (Inr x, w')" and "f x w' = (Inr y, w'')"
  with assms obtain evs evs' where "trace w' = trace w @ evs" "trace w'' = trace w' @ evs'" "ev \<in> set evs'"
    by (metis delivers_def growsD)
  then show "\<exists>evs. trace w'' = trace w @ evs \<and> ev \<in> set evs"
    by (intro exI [of _ "evs @ evs'"]) simp
qed

lemma delivers_sfail: "delivers ev (sfail e)" "delivers ev (io_fail op p err)"
  by (simp_all add: delivers_def sfail_def io_fail_def)

lemma delivers_if: "(b \<Longrightarrow> delivers ev m) \<Longrightarrow> (\<not> b \<Longrightarrow> delivers ev n) \<Longrightarrow> delivers ev (if b then m else n)"
  by simp

lemma delivers_seach:
  assumes "x \<in> set xs" and "delivers ev (f x)" and "\<And>y. grows (f y)"
  shows "delivers ev (seach f xs)"
  using assms(1)
proof (induction xs)
  case (Cons y ys)
  have rest: "grows (seach f ys)" by (rule emits_seach) (rule assms(3))
  show ?case
  proof (cases "y = x")
    case True
    then show ?thesis by (simp add: delivers_first assms(2) rest)
  next
    case False
    with Cons show ?thesis by (simp add: delivers_then assms(3))
  qed
qed simp

lemma delivers_retry_from:
  assumes "delivers ev m" and "grows m"
  shows "delivers ev (retry_from (traced E) m n)"
  using assms
proof (induction "traced E" m n rule: retry_from.induct)
  case (1 m n)
  show ?case
    unfolding delivers_def
  proof (intro allI impI)
    fix w x w'
    assume run: "retry_from (traced E) m n w = (Inr x, w')"
    obtain r w1 where m: "m w = (r, w1)" by (cases "m w")
    show "\<exists>evs. trace w' = trace w @ evs \<and> ev \<in> set evs"
    proof (cases r)
      case (Inr y)
      with run m have "w' = w1"
        by (subst (asm) retry_from.simps) (simp add: stry_def sret_def)
      with m Inr 1(2) show ?thesis by (metis delivers_def)
    next
      case (Inl e)
      let ?d = "from_millis (push_bit n INITIAL_DELAY_MS)"
      let ?again = "sbind (thread_sleep (traced E) ?d) (\<lambda>_. retry_from (traced E) m (Suc n))"
      from run m Inl have more: "is_resource_busy e \<and> n < MAX_RETRIES" "?again w1 = (Inr x, w')"
        by (subst (asm) retry_from.simps, simp add: stry_def sfail_def split: if_splits)+
      have "delivers ev ?again"
        by (rule delivers_then, rule thread_sleep_emits, simp)
          (rule "1.hyps" [OF more(1) "1.prems"])
      with more(2) obtain evs where "trace w' = trace w1 @ evs" "ev \<in> set evs"
        by (metis delivers_def)
      moreover obtain evs' where "trace w1 = trace w @ evs'" using growsD [OF 1(3) m] by blast
      ultimately show ?thesis by (intro exI [of _ "evs' @ evs"]) simp
    qed
  qed
qed

lemma delivers_retry: "delivers ev m \<Longrightarrow> grows m \<Longrightarrow> delivers ev (retry_busy (traced E) m)"
  by (simp add: retry_busy_def delivers_retry_from)

section \<open>Writes and commands\<close>

lemma write_once_delivers: "delivers (EvWrite p v) (write_once n (traced E) p v)"
proof (induction n)
  case 0
  then show ?case by (simp add: delivers_sfail)
next
  case (Suc n)
  show ?case
    unfolding delivers_def
  proof (intro allI impI)
    fix w x w'
    assume run: "write_once (Suc n) (traced E) p v w = (Inr x, w')"
    obtain r k where s: "sys_write E p v (w_kernel w) = (r, k)"
      by (cases "sys_write E p v (w_kernel w)")
    let ?w1 = "w\<lparr>w_kernel := (fst k, snd (w_kernel w) @ [EvWrite p v])\<rparr>"
    have call: "syscall (sys_write (traced E) p v) w = (Inr r, ?w1)"
      by (simp add: syscall_def logging_def s)
    have t: "trace ?w1 = trace w @ [EvWrite p v]" by (simp add: trace_def)
    have "w' = ?w1 \<or> write_once n (traced E) p v ?w1 = (Inr x, w')"
      using run call
      by (auto simp: sbind_def io_fail_def sfail_def sret_def split: sum.splits if_splits)
    then show "\<exists>evs. trace w' = trace w @ evs \<and> EvWrite p v \<in> set evs"
    proof
      assume "write_once n (traced E) p v ?w1 = (Inr x, w')"
      with Suc.IH t show ?thesis by (fastforce simp: delivers_def)
    qed (use t in auto)
  qed
qed

lemma write_bytes_delivers: "delivers (EvWrite p v) (write_bytes (traced E) p v)"
  unfolding write_bytes_def
  by (rule delivers_then, simp, rule emits_call, rule TrueI,
      rule delivers_first [OF write_once_delivers]) (rule emits_rules)

lemma command_delivers:
  "delivers (EvWrite (state_file a i) (KdamondCommand_kernel_name c))
     (retry_busy (traced E) (Kdamond_command (traced E) (Admin_kdamond a i) c))"
proof (rule delivers_retry)
  show "delivers (EvWrite (state_file a i) (KdamondCommand_kernel_name c))
      (Kdamond_command (traced E) (Admin_kdamond a i) c)"
    unfolding Kdamond_command_def state_file_def
    by (rule delivers_then) (rule emits_rules, rule write_bytes_delivers)
  show "grows (Kdamond_command (traced E) (Admin_kdamond a i) c)"
    unfolding Kdamond_command_def
    by (rule growsI [where P = "writes_within (\<lambda>_. True)"]) (intro emits_rules TrueI)
qed

lemma reads_grow: "writes_only (\<lambda>_. False) m \<Longrightarrow> grows m"
  by (rule growsI)

lemma commit_one_delivers:
  "delivers (EvWrite (state_file (mh_admin s) i) (KdamondCommand_kernel_name c))
     (commit_one (traced E) s c i)"
  unfolding commit_one_def Hierarchy_kdamond_def
  by (intro delivers_then delivers_first command_delivers reads_grow emits_rules)

lemma commit_one_grows: "grows (commit_one (traced E) s c i)"
  by (rule growsI [OF commit_one_emits [where I = UNIV and C = UNIV]]) simp_all

section \<open>Updates\<close>

definition mdelivers :: "event \<Rightarrow> ('s, 'k \<times> event list, 'a) stcomp \<Rightarrow> 's \<Rightarrow> bool" where
  "mdelivers ev m s \<longleftrightarrow>
     (\<forall>w x s' w'. m s w = (Inr (Inr x, s'), w') \<longrightarrow> (\<exists>evs. trace w' = trace w @ evs \<and> ev \<in> set evs))"

lemma mdelivers_read:
  assumes "grows (c s)" and "yields Q (c s)" and "\<And>x. Q x \<Longrightarrow> mdelivers ev (f x) s"
  shows "mdelivers ev (mbind (mread c) f) s"
  unfolding mdelivers_def
proof (intro allI impI)
  fix w x s' w'
  assume run: "mbind (mread c) f s w = (Inr (Inr x, s'), w')"
  obtain r w1 where c: "c s w = (r, w1)" by (cases "c s w")
  show "\<exists>evs. trace w' = trace w @ evs \<and> ev \<in> set evs"
  proof (cases r)
    case (Inl e)
    with run c show ?thesis
      by (simp add: mbind_def mcatch_def mread_def stry_def sbind_def sret_def mfail_def)
  next
    case (Inr y)
    with run c have "f y s w1 = (Inr (Inr x, s'), w')"
      by (simp add: mbind_def mcatch_def mread_def stry_def sbind_def sret_def)
    moreover have "Q y" using assms(2) c Inr by (auto dest: yieldsD)
    ultimately obtain evs where "trace w' = trace w1 @ evs" "ev \<in> set evs"
      using assms(3) by (metis mdelivers_def)
    moreover obtain evs' where "trace w1 = trace w @ evs'" using growsD [OF assms(1) c] by blast
    ultimately show ?thesis by (intro exI [of _ "evs' @ evs"]) simp
  qed
qed

lemma journalled_transaction_delivers:
  assumes "delivers ev (operation s)"
  shows "mdelivers ev (journalled_transaction operation rollback) s"
  unfolding mdelivers_def
proof (intro allI impI)
  fix w x s' w'
  assume run: "journalled_transaction operation rollback s w = (Inr (Inr x, s'), w')"
  let ?w = "w\<lparr>w_journal := Some []\<rparr>"
  obtain r w1 where op: "operation s ?w = (r, w1)" by (cases "operation s ?w")
  show "\<exists>evs. trace w' = trace w @ evs \<and> ev \<in> set evs"
  proof (cases r)
    case (Inl e)
    with run op show ?thesis
      by (auto simp: journalled_transaction_def collect_writes_def roll_back_def mfail_def sret_def
          stry_def split: if_splits prod.splits sum.splits)
  next
    case (Inr so)
    with run op have "w' = w1\<lparr>w_journal := None\<rparr>"
      by (simp add: journalled_transaction_def collect_writes_def sret_def)
    moreover obtain evs where "trace w1 = trace ?w @ evs" "ev \<in> set evs"
      using assms op Inr by (metis delivers_def)
    ultimately show ?thesis by (simp add: trace_def)
  qed
qed

lemma stage_and_commit_running_delivers:
  assumes "i \<in> set selected"
  shows "delivers (EvWrite (state_file (mh_admin s) i) ''commit'')
    (stage_and_commit_running (traced E) config observed selected s)"
proof -
  have commit: "delivers (EvWrite (state_file (mh_admin s) i) ''commit'')
      (seach (commit_one (traced E) s Commit) selected)"
    using commit_one_delivers [of s i Commit E]
    by (intro delivers_seach [OF assms] commit_one_grows) simp
  have update: "emits (update_event (mh_admin s) UNIV UNIV) m \<Longrightarrow> grows m"
    for m :: "('a \<times> event list, 'b) comp" by (rule growsI)
  show ?thesis
    unfolding stage_and_commit_running_def Let_def
    by (rule delivers_then, rule reads_grow, rule emits_rules, rule delivers_then,
        rule growsI, rule stage_running_emits, rule delivers_first [OF commit],
        rule growsI [where P = "update_event (mh_admin s) UNIV UNIV"])
      (intro emits_sbind emits_if emits_slift emits_sret reads_update stage_running_emits)
qed

lemma update_configuration_delivers:
  assumes "i \<in> set indices"
  shows "mdelivers (EvWrite (state_file (mh_admin s) i) ''commit'')
    (update_configuration (traced E) ps config indices) s"
  unfolding update_configuration_def
proof (rule mdelivers_read [where Q = "\<lambda>selected. selected = indices"], goal_cases)
  case 1
  show ?case by (rule emits_slift)
next
  case 2
  show ?case by (rule yields_slift) (simp add: check_update_request_Inr_iff)
next
  case (3 selected)
  show ?case
  proof (rule mdelivers_read [where Q = "\<lambda>_. True"], rule reads_grow, rule capture_emits, simp, goal_cases)
    case (1 captured)
    with 3 assms show ?case
      by (cases captured, simp, intro mdelivers_read [where Q = "\<lambda>_. True"] emits_slift yields_True
          journalled_transaction_delivers stage_and_commit_running_delivers) simp
  qed
qed

lemma stage_and_commit_quota_goals_delivers:
  "delivers (EvWrite (state_file (mh_admin s) k) ''commit_schemes_quota_goals'')
     (stage_and_commit_quota_goals (traced E) quotas goals observed k s)"
proof -
  have commit: "delivers (EvWrite (state_file (mh_admin s) k) ''commit_schemes_quota_goals'')
      (commit_one (traced E) s CommitSchemesQuotaGoals k)"
    using commit_one_delivers [of s k CommitSchemesQuotaGoals E] by simp
  have stage: "grows (retry_busy (traced E) (sbind (verify_owned_identities_only (traced E) s) (\<lambda>_.
      Quotas_stage_goals_from (traced E) quotas goals observed)))"
    by (rule growsI [where P = "writes_within (attribute_of quotas)"], intro emits_rules descends_refl)
  have read: "grows (unchanged_goals_match (traced E) s quotas goals observed)"
    using reads_update(7) by (rule growsI)
  show ?thesis
    unfolding stage_and_commit_quota_goals_def Let_def
    by (intro delivers_then delivers_if delivers_sfail stage read delivers_first [OF commit]
        reads_grow emits_rules)
qed

section \<open>Starting\<close>

lemma mdelivers_read_first:
  assumes "delivers ev (c s)" and "\<And>x. grows (f x s)"
  shows "mdelivers ev (mbind (mread c) f) s"
  unfolding mdelivers_def
proof (intro allI impI)
  fix w x s' w'
  assume run: "mbind (mread c) f s w = (Inr (Inr x, s'), w')"
  obtain r w1 where c: "c s w = (r, w1)" by (cases "c s w")
  show "\<exists>evs. trace w' = trace w @ evs \<and> ev \<in> set evs"
  proof (cases r)
    case (Inl e)
    with run c show ?thesis
      by (simp add: mbind_def mcatch_def mread_def stry_def sbind_def sret_def mfail_def)
  next
    case (Inr y)
    with run c have "f y s w1 = (Inr (Inr x, s'), w')"
      by (simp add: mbind_def mcatch_def mread_def stry_def sbind_def sret_def)
    then obtain evs where "trace w' = trace w1 @ evs" using growsD [OF assms(2)] by blast
    moreover obtain evs' where "trace w1 = trace w @ evs'" "ev \<in> set evs'"
      using assms(1) c Inr by (metis delivers_def)
    ultimately show ?thesis by (intro exI [of _ "evs' @ evs"]) simp
  qed
qed

lemma start_one_delivers:
  "mdelivers (EvWrite (state_file (mh_admin s) i) ''on'') (start_one (traced E) i) s"
  unfolding start_one_def
  by (rule mdelivers_read_first)
    (use command_delivers [of "mh_admin s" i CmdOn E] in
      \<open>auto simp: Hierarchy_kdamond_def intro!: emits_read_mbind emits_set_mbind memits_mread
        reads_grow emits_rules\<close>)

lemma start_from_Cons:
  assumes "start_from E (i # rest) s w = (Inr (Inr x, s'), w')"
  obtains w1 t w2 where
    "sbind (verify_count E (mh_staged s) (mh_admin s)) (\<lambda>_.
       verify_kdamond_configuration E (mh_staged s) (mh_admin s) i) w = (Inr (), w1)"
    "start_one E i s w1 = (Inr (Inr (), t), w2)" "start_from E rest t w2 = (Inr (Inr x, s'), w')"
proof -
  let ?check = "sbind (verify_count E (mh_staged s) (mh_admin s)) (\<lambda>_.
       verify_kdamond_configuration E (mh_staged s) (mh_admin s) i)"
  obtain r w1 where c: "?check w = (r, w1)" by (cases "?check w")
  obtain o1 w2 where one: "start_one E i s w1 = (o1, w2)" by (cases "start_one E i s w1")
  from assms c one show thesis
    by (auto simp: mcatch_def mread_def stry_def sbind_def sret_def fail_with_rollback_fails
        split: sum.splits intro: that)
qed

lemma start_from_delivers:
  "\<forall>j\<in>set is. j < length (mh_states s) \<Longrightarrow> i \<in> set is \<Longrightarrow>
     mdelivers (EvWrite (state_file (mh_admin s) i) ''on'') (start_from (traced E) is) s"
proof (induction "is" arbitrary: s)
  case Nil
  then show ?case by simp
next
  case (Cons j rest)
  show ?case
    unfolding mdelivers_def
  proof (intro allI impI)
    fix w x s' w'
    assume "start_from (traced E) (j # rest) s w = (Inr (Inr x, s'), w')"
    then obtain w1 t w2 where check: "sbind (verify_count (traced E) (mh_staged s) (mh_admin s)) (\<lambda>_.
        verify_kdamond_configuration (traced E) (mh_staged s) (mh_admin s) j) w = (Inr (), w1)"
      and one: "start_one (traced E) j s w1 = (Inr (Inr (), t), w2)"
      and rest: "start_from (traced E) rest t w2 = (Inr (Inr x, s'), w')"
      by (rule start_from_Cons)
    have "same_owner s t" using mwpD [OF start_one_wp one] by simp
    note t = same_owner_sels [OF this]
    have "grows (sbind (verify_count (traced E) (mh_staged s) (mh_admin s)) (\<lambda>_.
        verify_kdamond_configuration (traced E) (mh_staged s) (mh_admin s) j))"
      by (intro reads_grow emits_rules)
    then obtain evs where e: "trace w1 = trace w @ evs" using check growsD by blast
    obtain evs1 where e1: "trace w2 = trace w1 @ evs1"
      "EvWrite (state_file (mh_admin s) j) ''on'' \<in> set evs1"
      using start_one_delivers [of s j E] one unfolding mdelivers_def by meson
    have "emits (commands_to (mh_admin s) {..<length (mh_states s)} {''on'', ''off''})
        (start_from (traced E) rest t)"
      by (rule start_from_emits) (use t Cons.prems in auto)
    then obtain evs2 where e2: "trace w' = trace w2 @ evs2" using rest growsI growsD by metis
    show "\<exists>evs. trace w' = trace w @ evs \<and> EvWrite (state_file (mh_admin s) i) ''on'' \<in> set evs"
    proof (cases "i = j")
      case True
      with e e1 e2 show ?thesis by (intro exI [of _ "evs @ evs1 @ evs2"]) simp
    next
      case False
      with Cons.prems t have "mdelivers (EvWrite (state_file (mh_admin s) i) ''on'')
          (start_from (traced E) rest) t"
        using Cons.IH [of t] by simp
      with rest obtain evs3 where "trace w' = trace w2 @ evs3"
        "EvWrite (state_file (mh_admin s) i) ''on'' \<in> set evs3"
        unfolding mdelivers_def by meson
      with e e1 show ?thesis by (intro exI [of _ "evs @ evs1 @ evs3"]) simp
    qed
  qed
qed

lemma start_all_delivers:
  assumes "i < length (mh_states s)"
  shows "mdelivers (EvWrite (state_file (mh_admin s) i) ''on'') (start_all (traced E)) s"
proof (cases "mh_owns s \<and> check_startable 0 (mh_states s) = Inr ()")
  case True
  have "mdelivers (EvWrite (state_file (mh_admin s) i) ''on'')
      (mbind (mread (\<lambda>s. verify_staged (traced E) (mh_staged s) (mh_admin s))) (\<lambda>_.
       mbind (mread (\<lambda>s. seach (verify_off (traced E) s) [0..<length (mh_states s)])) (\<lambda>_.
         start_from (traced E) [0..<length (mh_states s)]))) s"
    by (intro mdelivers_read [where Q = "\<lambda>_. True"] reads_grow emits_rules yields_True
        start_from_delivers) (simp_all add: assms)
  with True show ?thesis by (simp add: mdelivers_def start_all_def)
next
  case False
  then show ?thesis
    by (auto simp: mdelivers_def start_all_def mfail_def sret_def split: sum.splits)
qed

end
