(* ===== verification/Properties_Update.thy ===== *)
theory Properties_Update
  imports Delivery Sample_Owner
begin

text \<open>
  The properties of the updates of a running hierarchy: what is refused before anything is
  touched, which configuration takes effect, what is written, what a success has delivered and
  what any outcome leaves of the owner's record.
\<close>

section \<open>Requests\<close>

text \<open>
  An update is refused before any system call, and leaves the owner's record as it was, unless
  the configuration may run, has one kdamond for each staged one, and the selection is a non-empty
  list of distinct running kdamonds.
\<close>

lemma update_refused_silently:
  assumes "\<not> (DamonConfig_validate_running_update ps config = Inr ()
      \<and> length (d_kdamonds config) = length (mh_states s) \<and> indices \<noteq> [] \<and> distinct indices
      \<and> (\<forall>i\<in>set indices. i < length (mh_states s) \<and> is_running_state (mh_states s ! i)))"
  shows "\<exists>e. update_configuration E ps config indices s w = (Inr (Inl e, s), w)"
proof -
  have "check_update_request ps config indices s \<noteq> Inr selected" for selected
    using assms by (auto simp: check_update_request_Inr_iff)
  then obtain e where "check_update_request ps config indices s = Inl e"
    by (metis sum.exhaust)
  then show ?thesis
    by (simp add: update_configuration_def mbind_def mcatch_def mread_def stry_def sbind_def
        slift_def sret_def mfail_def)
qed

lemma update_refused_silently_witness:
  "\<exists>e. update_configuration table_kernel 4096 sample_damon [0, 0] (sample_owner [Running \<lparr>pid_raw = 77\<rparr>])
         empty_world
     = (Inr (Inl e, sample_owner [Running \<lparr>pid_raw = 77\<rparr>]), empty_world)"
  by (rule update_refused_silently) simp

text \<open>
  C22. The configuration an update stages is the requested one for the selected kdamonds and the
  running one for all others; a request that differs from the running configuration of a kdamond
  it did not select, other than in what the kernel tunes by itself, is refused.
\<close>

theorem update_effective_configuration:
  assumes "effective_configuration config previous n selected = Inr effective"
    and "length (d_kdamonds config) = n"
  shows "length (d_kdamonds effective) = n
    \<and> (\<forall>i < n. d_kdamonds effective ! i =
         (if i \<in> set selected then d_kdamonds config ! i else d_kdamonds previous ! i))
    \<and> (\<exists>normalized. normalize_running_tuned_intervals config (Some previous) previous = Inr normalized
         \<and> (\<forall>i < n. i \<notin> set selected \<longrightarrow>
              kdamond_configurations_equivalent (d_kdamonds config ! i) (d_kdamonds normalized ! i)))"
proof -
  from assms(1) obtain normalized where
    n: "normalize_running_tuned_intervals config (Some previous) previous = Inr normalized"
    and keep: "keep_unselected config normalized previous selected [0..<n] config = Inr effective"
    by (auto simp: effective_configuration_def and_then_Inr_iff)
  from keep_unselected_nth [OF keep] n assms(2) show ?thesis by auto
qed

theorem update_effective_configuration_witness:
  "\<exists>effective. effective_configuration sample_damon sample_damon 1 [0] = Inr effective
     \<and> length (d_kdamonds effective) = 1 \<and> d_kdamonds effective ! 0 = d_kdamonds sample_damon ! 0"
proof -
  have one: "d_kdamonds sample_damon = [\<lparr>k_refresh = 0, k_contexts = [sample_context]\<rparr>]"
    by (simp add: sample_damon_def)
  have untuned: "goal_aggregations (c_intervals_goal sample_context) = 0" by (simp add: sample_defs)
  have run: "effective_configuration sample_damon sample_damon 1 [0] = Inr sample_damon"
    by (simp add: effective_configuration_def normalize_running_tuned_intervals_def
        normalize_context_def was_tuned_def validate_obsolete_target_updates_def one untuned
        and_then_def) (simp add: sample_defs)
  from update_effective_configuration [OF run] run one show ?thesis by (intro exI) auto
qed

section \<open>What an update does\<close>

text \<open>
  C4. Changing a running hierarchy writes attributes below the administration directory and one
  kind of command, to the \<open>state\<close> files of the kdamonds it is for: an update commits the selected
  kdamonds, a quota-goal update commits goals to its own, pausing writes one context's \<open>pause\<close> file
  and commits; replacing a stopped configuration commands nothing. Against every kernel, and
  whether the change succeeds, fails or rolls back.
\<close>

theorem update_writes:
  "emits (update_event (mh_admin s) (set indices) {''commit''})
     (update_configuration (traced E) ps config indices s)
   \<and> emits (update_event (mh_admin s) {k} {''commit_schemes_quota_goals''})
       (update_scheme_quota_goals (traced E) k c i goals s)
   \<and> emits (pause_event (mh_admin s) k c) (set_context_paused (traced E) k c paused s)
   \<and> writes_only (attribute_of (mh_admin s)) (replace_staged_configuration (traced E) ps config s)"
  by (intro conjI update_configuration_emits update_scheme_quota_goals_emits
      set_context_paused_emits replace_staged_configuration_emits)

text \<open>
  C23. Whatever the kernel answers, a change of a running or staged hierarchy ends, and the record
  it leaves differs at most in what is staged: the session states, the restoration snapshot and
  the ownership are kept, and what is staged is again a sorted capture of the administration
  directory with sorted ignored paths.
\<close>

theorem updates_only_restage:
  "mwp (update_configuration E ps config indices) s (only_restaged s)
   \<and> mwp (update_scheme_quota_goals E k c i goals) s (only_restaged s)
   \<and> mwp (set_context_paused E k c paused) s (only_restaged s)
   \<and> mwp (replace_staged_configuration E ps config) s (only_restaged s)"
  by (intro conjI update_configuration_wp update_scheme_quota_goals_wp set_context_paused_wp
      replace_staged_configuration_wp)



end
