(* ===== verification/Properties_Receipt.thy ===== *)
theory Properties_Receipt
  imports Session_Traces Sample_Owner
begin

text \<open>
  The properties of the session lock, of the entry points and of persistent hierarchies.
\<close>

section \<open>A process for the witnesses\<close>

text \<open>The table of files, a lock that is free or held by another process, and a boot identifier.\<close>

definition sample_boot :: string where
  "sample_boot = ''00000000-0000-0000-0000-000000000000''"

definition sample_process :: "bool \<Rightarrow> (path \<times> string) list process" where
  "sample_process free =
     \<lparr>os_sysfs = table_kernel, os_open_lock = (\<lambda>p k. (Inr 3, k)),
      os_flock = (\<lambda>fd k. (if free then Inr () else Inl WOULDBLOCK, k)), os_close = (\<lambda>fd k. k),
      os_boot_cell = (\<lambda>k. Some sample_boot), os_read_boot = (\<lambda>k. (Inr sample_boot, k)),
      os_init_boot = (\<lambda>v k. (v, k))\<rparr>"

definition sample_paths :: damon where
  "sample_paths = \<lparr>dm_admin = [RootDir], dm_lock_path = [RootDir, Normal ''lock'']\<rparr>"

section \<open>The session lock\<close>



text \<open>
  C31. The entry points are harmless: staging, taking over a hierarchy and probing the capabilities
  write only attributes below the administration directory and never a command, also when they
  fail and restore; reading the observed configuration, attaching to a persistent hierarchy and
  giving an owner up write nothing at all.
\<close>

theorem entry_points_harmless:
  "writes_only (attribute_of (dm_admin d)) (Damon_stage_configuration (traced_process V) ps d config)
   \<and> writes_only (attribute_of (dm_admin d)) (Damon_managed_hierarchy (traced_process V) ps d config)
   \<and> writes_only (attribute_of (dm_admin d)) (Damon_capabilities (traced_process V) d)
   \<and> writes_only (\<lambda>_. False) (Damon_observed_configuration (traced_process V) d)
   \<and> writes_only (\<lambda>_. False) (attach (traced_process V) d r)
   \<and> writes_only (\<lambda>_. False) (release (traced_process V) ow)"
  by (intro conjI entry_points_emit managed_hierarchy_emits attach_emits release_emits)

section \<open>Receipts\<close>

text \<open>
  C8. A receipt captured from an owner describes it: opening the receipt later yields an owner of
  the same staged configuration, ignored paths and session states, which keeps no restoration
  snapshot.
\<close>

theorem receipt_describes_owner:
  assumes "PersistentReceipt_capture V d s w = (Inr r, w')"
    and "owner_wf s" and "dm_admin d = mh_admin s"
    and "open_managed V' r d w1 = (Inr (s', fd), w2)"
  shows "s' = s\<lparr>mh_previous := None, mh_owns := True\<rparr>"
proof -
  from open_managed_Inr [OF assms(4)] captured_receipt [OF assms(1-3)] assms(2,3)
  have "mh_staged s' = mh_staged s" "mh_admin s' = mh_admin s" "mh_previous s' = None" "mh_owns s'"
    "mh_states s' = mh_states s"
    by (auto simp: owner_wf_def)
  then show ?thesis by (cases s'; cases s) simp
qed

lemma sample_capture:
  "PersistentReceipt_capture (sample_process True) sample_paths (sample_owner [Running \<lparr>pid_raw = 77\<rparr>])
     (one_kdamond ''on'')
   = (Inr \<lparr>pr_admin = [RootDir], pr_lock = [RootDir, Normal ''lock''], pr_boot = sample_boot,
           pr_values = [], pr_volatile = [], pr_kdamond_count = 1,
           pr_identities = [\<lparr>pi_index = 0, pi_pid = \<lparr>pid_raw = 77\<rparr>\<rparr>]\<rparr>, one_kdamond ''on'')"
  by (simp add: PersistentReceipt_capture_def persistent_parts_of_def owner_evaluation one_kdamond_def
      sample_process_def sample_paths_def current_boot_id_def receipt_identities_def
      writable_values_def and_then_def verify_complete_def
      snapshot_matches_complete_current_except_def equals_except_def)

lemma sample_open:
  "open_managed (sample_process True)
     \<lparr>pr_admin = [RootDir], pr_lock = [RootDir, Normal ''lock''], pr_boot = sample_boot,
      pr_values = [], pr_volatile = [], pr_kdamond_count = 1,
      pr_identities = [\<lparr>pi_index = 0, pi_pid = \<lparr>pid_raw = 77\<rparr>\<rparr>]\<rparr> sample_paths (one_kdamond ''on'')
   = (Inr (sample_owner [Running \<lparr>pid_raw = 77\<rparr>], 3), one_kdamond ''on'')"
  by (simp add: open_managed_def verify_binding_def lock_into_def SessionLock_acquire_def call_def syscall_def
      flock_call_def receipt_ownership_def attach_persistent_def owner_evaluation one_kdamond_def
      sample_process_def sample_paths_def current_boot_id_def from_writable_values_def and_then_def
      StagedOwnership_from_parts_def sort_dedup_def verify_complete_def SessionLock_drop_def
      snapshot_matches_complete_current_except_def equals_except_def)
theorem receipt_describes_owner_witness:
  "\<exists>r s fd w. PersistentReceipt_capture (sample_process True) sample_paths
         (sample_owner [Running \<lparr>pid_raw = 77\<rparr>]) (one_kdamond ''on'') = (Inr r, one_kdamond ''on'')
     \<and> open_managed (sample_process True) r sample_paths (one_kdamond ''on'') = (Inr (s, fd), w)
     \<and> s = (sample_owner [Running \<lparr>pid_raw = 77\<rparr>])\<lparr>mh_previous := None, mh_owns := True\<rparr>"
proof -
  let ?s = "sample_owner [Running \<lparr>pid_raw = 77\<rparr>]"
  have "owner_wf ?s"
    by (simp add: owner_wf_def sample_owner_def valid_snapshot_def sorted_entries_def volatile_wf_def)
  moreover have "dm_admin sample_paths = mh_admin ?s" by (simp add: sample_paths_def)
  ultimately show ?thesis
    using receipt_describes_owner [OF sample_capture _ _ sample_open] sample_capture sample_open
    by blast
qed

text \<open>
  C9. A valid receipt that is written and read again is the receipt that was written, exactly when
  it names no more kdamonds than bytes follow their count: the counts of the format are checked
  against the bytes that are left, and so is the number of kdamonds, which is no element count.
\<close>

theorem receipt_bytes_roundtrip:
  assumes "valid_receipt r" and "Receipt_to_bytes r = Inr bs" and "length bs < 2 ^ 64"
  shows "Receipt_from_bytes bs = Inr r \<longleftrightarrow> pr_kdamond_count r \<le> 8 + 12 * length (pr_identities r)"
  using assms by (rule receipt_roundtrip_iff)

definition sample_receipt :: "nat \<Rightarrow> persistent_receipt" where
  "sample_receipt n =
     \<lparr>pr_admin = [RootDir], pr_lock = [RootDir, Normal ''lock''], pr_boot = sample_boot,
      pr_values = [\<lparr>wv_path = COUNT_PATH, wv_value = dec n\<rparr>], pr_volatile = [],
      pr_kdamond_count = n, pr_identities = []\<rparr>"

lemma utf8_dec: "utf8_valid (dec n)"
  by (rule utf8_ascii, auto simp: byte_val_def dest!: dec_digits
      intro: byte_digit [unfolded byte_val_def])

lemma search_one: "binary_search [x] x = Some 0"
  using binary_search_sorted [of "[x]" x] by (fastforce dest: binary_search_SomeD)

lemma sample_boot_valid: "validate_boot_id sample_boot = Inr ()" "utf8_valid sample_boot"
  by (simp add: validate_boot_id_def sample_boot_def ascii_hexdigit_def byte_val_def Let_def
        eval_nat_numeral)
    (rule utf8_ascii, simp add: sample_boot_def byte_val_def)

lemma sample_receipt_valid:
  assumes "0 < n" and "n < 2 ^ 64"
  shows "valid_receipt (sample_receipt n)"
proof -
  let ?vs = "[\<lparr>wv_path = COUNT_PATH, wv_value = dec n\<rparr>]"
  have path: "canonical_path COUNT_PATH" "valid_relative_path COUNT_PATH"
    by (simp_all add: COUNT_PATH_def canonical_path_def ordinary_def ordinary_name_def
        valid_relative_path_def is_absolute_def path_contains_nul_def relative_component_def)
  have "tuned_intervals_path COUNT_PATH n = None"
    by (simp add: tuned_intervals_path_def COUNT_PATH_def)
  then have "validate_receipt_configuration ?vs [] n = Inr ()"
    using assms
    by (simp add: validate_receipt_configuration_def search_one parse_usize_dec and_then_def
        expected_volatile_paths_def expected_of_value_def sort_dedup_def)
  with assms path show ?thesis
    by (simp add: valid_receipt_def sample_receipt_def utf8_dec sample_boot_valid
        canonical_path_def ordinary_def ordinary_name_def path_contains_nul_def is_absolute_def
        ascending_identities_def)
qed

lemma sample_written:
  assumes "n < 10"
  shows "\<exists>bs. Receipt_to_bytes (sample_receipt n) = Inr bs \<and> length bs < 2 ^ 64"
proof -
  have "length (dec n) = 1" using assms by (simp add: dec.simps [of n])
  with assms show ?thesis
    by (simp add: Receipt_to_bytes_def sample_receipt_def encode_path_def encode_bytes_def
        encode_len_def encode_value_def bytes_of_path_def COUNT_PATH_def sample_boot_def
        RECEIPT_MAGIC_def and_then_def)
qed

lemma sample_accepted: "\<exists>bs. Receipt_from_bytes bs = Inr (sample_receipt 8)"
proof -
  obtain bs where "Receipt_to_bytes (sample_receipt 8) = Inr bs" "length bs < 2 ^ 64"
    using sample_written [of 8] by auto
  from receipt_roundtrip_iff [OF sample_receipt_valid this] show ?thesis
    by (auto simp: sample_receipt_def)
qed

text \<open>A stopped hierarchy of nine kdamonds has a valid receipt that cannot be read back.\<close>

theorem receipt_bytes_roundtrip_witness:
  "\<exists>bs cs. Receipt_to_bytes (sample_receipt 8) = Inr bs \<and> Receipt_from_bytes bs = Inr (sample_receipt 8)
     \<and> Receipt_to_bytes (sample_receipt 9) = Inr cs \<and> Receipt_from_bytes cs \<noteq> Inr (sample_receipt 9)"
proof -
  obtain bs where bs: "Receipt_to_bytes (sample_receipt 8) = Inr bs" "length bs < 2 ^ 64"
    using sample_written [of 8] by auto
  obtain cs where cs: "Receipt_to_bytes (sample_receipt 9) = Inr cs" "length cs < 2 ^ 64"
    using sample_written [of 9] by auto
  have "Receipt_from_bytes bs = Inr (sample_receipt 8)"
    using receipt_bytes_roundtrip [OF sample_receipt_valid bs] by (simp add: sample_receipt_def)
  moreover have "Receipt_from_bytes cs \<noteq> Inr (sample_receipt 9)"
    using receipt_bytes_roundtrip [OF sample_receipt_valid cs] by (simp add: sample_receipt_def)
  ultimately show ?thesis using bs(1) cs(1) by blast
qed



text \<open>
  No accepted receipt can be extended: an accepted receipt followed by further bytes is
  refused.
\<close>

lemma receipt_has_no_extension:
  assumes "Receipt_from_bytes bs = Inr r" and "extra \<noteq> []"
  shows "Receipt_from_bytes (bs @ extra) = Inl (InvalidReceipt ''contains trailing data'')"
  using assms by (rule receipt_prefix_free)

lemma receipt_has_no_extension_witness:
  "\<exists>bs. Receipt_from_bytes bs = Inr (sample_receipt 8)
     \<and> Receipt_from_bytes (bs @ ''x'') = Inl (InvalidReceipt ''contains trailing data'')"
  using sample_accepted receipt_has_no_extension [of _ "sample_receipt 8" "''x''"] by blast

text \<open>
  An attached hierarchy is changed only as an owner changes its own: an update writes attributes
  below the administration directory and commits the selected kdamonds, a stop switches
  the recorded kdamonds off, and giving the hierarchy up afterwards writes nothing.
\<close>

lemma attached_writes:
  "emits (update_event (dm_admin (ah_damon a)) (set indices) {''commit''})
     (Attached_update_selected (traced_process V) ps config indices a)
   \<and> emits (commands_to (dm_admin (ah_damon a)) {..<pr_kdamond_count (ah_receipt a)} {''off''})
     (Attached_stop (traced_process V) a)"
  by (intro conjI Attached_update_selected_emits Attached_stop_emits)

end
