(* ===== verification/Properties_Runtime.thy ===== *)
theory Properties_Runtime
  imports Session_Traces Sample_Owner
begin

text \<open>
  The properties of the queries on a running kdamond and of the capabilities of a hierarchy.
\<close>

section \<open>Queries\<close>

text \<open>The events of a query: one kind of command to the kdamond it is about.\<close>

lemma managed_query_emits:
  assumes "emits (batch_event (new_batch s k) C) (operation (new_batch s k))"
  shows "emits (commands_to (mh_admin s) {k} C) (Managed_runtime_batch (traced E) k operation s)"
  unfolding Managed_runtime_batch_def
  by (rule memits_mread, rule batch_between_checks_emits)
    (use assms in \<open>simp add: batch_event_def new_batch_def\<close>)

lemma managed_cached_emits:
  "(\<And>p. writes_only (\<lambda>_. False) (f p)) \<Longrightarrow>
     writes_only (\<lambda>_. False) (managed_cached (traced E) s k c i f)"
  unfolding managed_cached_def Hierarchy_scheme_def Let_def by (intro emits_rules)

text \<open>
  C36. A query on a running kdamond writes at most the one command that has the kernel write out the
  values it reads, and only to the \<open>state\<close> file of its kdamond; a query of values already written
  out writes nothing. Against every kernel.
\<close>

theorem queries_command_their_kdamond:
  "emits (commands_to (mh_admin s) {k} {''update_schemes_stats''}) (Managed_scheme_stats (traced E) k c i s)
   \<and> emits (commands_to (mh_admin s) {k} {''update_schemes_tried_regions''})
       (Managed_tried_regions (traced E) k c i s)
   \<and> emits (commands_to (mh_admin s) {k} {''update_schemes_tried_bytes''})
       (Managed_tried_bytes_units (traced E) k c i s)
   \<and> emits (commands_to (mh_admin s) {k} {''update_schemes_effective_quotas''})
       (Managed_effective_quota_units (traced E) k c i s)
   \<and> emits (commands_to (mh_admin s) {k} {''update_tuned_intervals''})
       (Managed_update_tuned_intervals (traced E) k s)
   \<and> emits (commands_to (mh_admin s) {k} {''clear_schemes_tried_regions''})
       (Managed_clear_tried_regions (traced E) k s)
   \<and> writes_only (\<lambda>_. False) (Managed_cached_scheme_stats (traced E) s k c i)
   \<and> writes_only (\<lambda>_. False) (Managed_cached_tried_regions (traced E) s k c i)
   \<and> writes_only (\<lambda>_. False) (Managed_cached_tried_bytes_units (traced E) s k c i)
   \<and> writes_only (\<lambda>_. False) (Managed_cached_effective_quota_units (traced E) s k c i)"
  unfolding Managed_scheme_stats_def Managed_tried_regions_def Managed_tried_bytes_units_def
    Managed_effective_quota_units_def Managed_update_tuned_intervals_def
    Managed_clear_tried_regions_def Managed_cached_scheme_stats_def Managed_cached_tried_regions_def
    Managed_cached_tried_bytes_units_def Managed_cached_effective_quota_units_def read_effective_quota_def
  by (intro conjI managed_query_emits query_emits managed_cached_emits new_batch_wf emits_rules)

text \<open>The files of one running kdamond with one context, one scheme and an effective quota of 5.\<close>

definition one_scheme :: "(path \<times> string) list world" where
  "one_scheme =
     (let kdamond = [RootDir, Normal ''kdamonds'', Normal ''0''] in
      \<lparr>w_kernel =
         (sub kdamond [''contexts'', ''nr_contexts''], dec_word (1 :: u64) @ newline)
         # (sub kdamond [''contexts'', ''0'', ''schemes'', ''nr_schemes''], dec_word (1 :: u64) @ newline)
         # (sub kdamond [''contexts'', ''0'', ''schemes'', ''0'', ''quotas'', ''effective_bytes''],
            dec_word (5 :: u64) @ newline)
         # w_kernel (one_kdamond ''on''),
       w_journal = None\<rparr>)"

abbreviation running_owner :: managed_hierarchy where
  "running_owner \<equiv> sample_owner [Running \<lparr>pid_raw = 77\<rparr>]"



text \<open>
  A batch's cached look-up of a scheme finds what the direct look-up finds, errors included,
  while the kernel still answers the counts the batch has cached.
\<close>

lemma cached_lookup_direct:
  assumes "batch_wf b" and "cache_current E b w"
    and "rb_index b < length (mh_states (rb_hierarchy b))"
  shows "stry (Hierarchy_scheme E (rb_hierarchy b) (rb_index b) c i) (\<lambda>r. sret r) w
    = sbind (cached_scheme E c i b) (\<lambda>(r, b'). sret r) w"
  using assms by (rule cached_scheme_direct)

definition filled_batch :: runtime_batch where
  "filled_batch =
     (new_batch running_owner 0)\<lparr>rb_context_count := Some 1,
        rb_cached := Some (0, [RootDir, Normal ''kdamonds'', Normal ''0'', Normal ''contexts'', Normal ''0''], 1)\<rparr>"

lemma cached_lookup_direct_witness:
  "stry (Hierarchy_scheme table_kernel running_owner 0 0 1) (\<lambda>r. sret r) one_scheme
     = sbind (cached_scheme table_kernel 0 1 filled_batch) (\<lambda>(r, b'). sret r) one_scheme"
proof -
  have "batch_wf filled_batch"
    by (simp add: batch_wf_def filled_batch_def new_batch_def Hierarchy_kdamond_def Admin_kdamond_def
        Kdamond_context_def child_def sub_def)
  moreover have "cache_current table_kernel filled_batch one_scheme"
    by (simp add: cache_current_def answers_def filled_batch_def new_batch_def Hierarchy_kdamond_def
        Admin_kdamond_def child_def sub_def one_scheme_def Kdamond_context_count_def
        Context_scheme_count_def read_usize_def sbind_def sret_def)
  ultimately show ?thesis
    using cached_lookup_direct [of filled_batch table_kernel one_scheme 0 1]
    by (simp add: filled_batch_def new_batch_def)
qed

section \<open>Capabilities\<close>

text \<open>
  C26. Whatever the kernel answers, capabilities that are discovered list every feature exactly once,
  say of the three known operations what the operation list says, and have sorted attribute paths,
  as binary searches in them need.
\<close>

theorem discovered_capabilities_complete:
  "yields capabilities_wf (Kdamond_capabilities_for_schemes E kdamond c is)
   \<and> distinct all_features \<and> set all_features = UNIV"
  using Kdamond_capabilities_for_schemes_wf all_features_distinct all_features_complete by auto

text \<open>
  Correcting capabilities by what a probe found keeps them so: a confirmed operation is
  supported, alone, and its feature with it; an attribute is found exactly when its path is listed.
\<close>

lemma corrected_capabilities:
  assumes "capabilities_wf c"
  shows "capabilities_wf (replace_operations ops (apply_feature_capabilities fs c))
    \<and> capabilities_wf (confirm_operation op c)
    \<and> operation_support (confirm_operation op c) op' =
        (if op' = op then Some Supported else operation_support c op')
    \<and> (has_attribute c p \<longleftrightarrow> p \<in> set (cap_attribute_paths c))"
  using assms by (simp add: corrections_wf confirm_operation_support has_attribute_member)

definition no_capabilities :: capabilities where
  "no_capabilities =
     \<lparr>cap_operations = [], cap_features = map (\<lambda>f. feature_capability f Unsupported) all_features,
      cap_attribute_paths = [''contexts/nr_contexts'', ''state'']\<rparr>"

lemma corrected_capabilities_witness:
  "capabilities_wf (confirm_operation VirtualAddress no_capabilities)
   \<and> operation_support (confirm_operation VirtualAddress no_capabilities) VirtualAddress = Some Supported
   \<and> has_attribute no_capabilities ''state''"
proof -
  have "feature_support (map (\<lambda>f. feature_capability f Unsupported) fs) f = Unsupported" for fs f
    by (induction fs) (simp_all add: feature_capability_def)
  then have "capabilities_wf no_capabilities"
    by (simp add: capabilities_wf_def no_capabilities_def Capabilities_feature_support_def
        operation_support_def comp_def)
  from corrected_capabilities [OF this, of "[]" "[]" VirtualAddress VirtualAddress "''state''"]
  show ?thesis by (simp add: no_capabilities_def)
qed

text \<open>
  Merging the features of several schemes gives each feature the best support any of them
  reports.
\<close>

lemma merged_support_is_best:
  "capability_support_rank (feature_support (merge_feature_capabilities cs additions) f) =
     Max (set (capability_support_rank (feature_support cs f) # ranks_of f additions))"
  by (rule merge_rank)

text \<open>
  Discovering capabilities writes nothing, and the probe of a staged kdamond writes attributes
  of that kdamond only, never a command, whatever the kernel answers.
\<close>

lemma capability_writes:
  "writes_only (\<lambda>_. False) (Kdamond_capabilities_for_schemes (traced E) kdamond c is)
   \<and> writes_only (\<lambda>_. False) (Hierarchy_capabilities (traced E) s k c i)
   \<and> writes_only (attribute_of kdamond) (stage_capability_probe (traced E) kdamond)"
  by (intro conjI capabilities_emit stage_capability_probe_emits descends_refl)

text \<open>
  C32. A probe that preserves the attribute it tries ends, whatever happened, by writing back the
  text it read first, and reports the candidates only when that write succeeded.
\<close>

theorem preserving_probe_writes_back:
  assumes "path_exists E p w = (Inr True, w1)" and "read_text E p w1 = (Inr original, w2)"
  shows "\<exists>m w3 r. smap (\<lambda>(f, v). sbind (try_preserving E p v) (\<lambda>s. sret (feature_capability f s)))
        candidates w2 = (m, w3)
    \<and> write_bytes E p original w3 = (r, snd (probe_accepted_values_preserving E p candidates w))
    \<and> (\<forall>fs. fst (probe_accepted_values_preserving E p candidates w) = Inr fs \<longrightarrow>
         m = Inr fs \<and> r = Inr ())"
proof -
  let ?m = "smap (\<lambda>(f, v). sbind (try_preserving E p v) (\<lambda>s. sret (feature_capability f s))) candidates"
  have run: "probe_accepted_values_preserving E p candidates w
      = probe_and_restore ?m (write_bytes E p original) w2"
    using assms by (simp add: probe_accepted_values_preserving_def sbind_def)
  obtain m w3 where m: "?m w2 = (m, w3)" by (cases "?m w2")
  obtain r w4 where r: "write_bytes E p original w3 = (r, w4)" by (cases "write_bytes E p original w3")
  have "snd (probe_accepted_values_preserving E p candidates w) = w4"
    by (simp add: run probe_and_restore_runs m r)
  moreover have "m = Inr fs \<and> r = Inr ()"
    if "fst (probe_accepted_values_preserving E p candidates w) = Inr fs" for fs
    using that probe_and_restore_Inr [of ?m "write_bytes E p original" w2 fs]
    by (metis m r run prod.collapse prod.inject)
  ultimately show ?thesis using m r by blast
qed

theorem preserving_probe_writes_back_witness:
  "map_of (w_kernel (snd (probe_accepted_values_preserving table_kernel [RootDir, Normal ''action'']
       [(Feature_CollapseAction, ''collapse'')] (file_in [RootDir, Normal ''action''] ''stat''))))
     [RootDir, Normal ''action''] = Some ''stat''"
proof -
  let ?p = "[RootDir, Normal ''action'']"
  have utf8: "utf8_valid ''stat''" "utf8_valid ''collapse''"
    by (rule utf8_ascii, simp add: byte_val_def)+
  obtain m w3 r where
    m: "smap (\<lambda>(f, v). sbind (try_preserving table_kernel ?p v) (\<lambda>s. sret (feature_capability f s)))
        [(Feature_CollapseAction, ''collapse'')] (file_in ?p ''stat'') = (m, w3)"
    and r: "write_bytes table_kernel ?p ''stat'' w3 = (r, snd (probe_accepted_values_preserving
        table_kernel ?p [(Feature_CollapseAction, ''collapse'')] (file_in ?p ''stat'')))"
    using preserving_probe_writes_back [of table_kernel ?p "file_in ?p ''stat''" _ "''stat''" _
        "[(Feature_CollapseAction, ''collapse'')]"] utf8 by fastforce
  from m utf8 have "map_of (w_kernel w3) ?p = Some ''collapse''" "w_journal w3 = None"
    by (auto simp: try_preserving_def stry_def sbind_def sret_def)
  with r show ?thesis by (auto dest: sym [of "w3\<lparr>w_kernel := _\<rparr>"])
qed

end
