(* ===== verification/Workflow_Config.thy ===== *)
theory Workflow_Config
  imports Session
begin

text \<open>
  The pure half of \<^verbatim>\<open>src/src/monitor/workflow.rs\<close>: the builders of a workflow, the configurations
  it prepares and the private schemes its snapshots query. The macro that gives the three builders
  their common methods changes their options only, so those methods are functions on the options.
\<close>

section \<open>Options and builders\<close>

record workflow_options =
  wo_damon :: damon
  wo_sample :: duration
  wo_aggregation :: duration
  wo_update :: duration
  wo_refresh :: duration
  wo_min_regions :: u64
  wo_max_regions :: u64
  wo_initial_regions :: "initial_region list"
  wo_probes :: "probe_config list"
  wo_schemes :: "scheme_config list"

definition WorkflowOptions_new :: "damon \<Rightarrow> workflow_options" where
  "WorkflowOptions_new d =
     \<lparr>wo_damon = d, wo_sample = intervals_sample MonitoringIntervals_default,
      wo_aggregation = intervals_aggregation MonitoringIntervals_default,
      wo_update = intervals_update MonitoringIntervals_default,
      wo_refresh = 0,
      wo_min_regions = bounds_min RegionBounds_default, wo_max_regions = bounds_max RegionBounds_default,
      wo_initial_regions = [], wo_probes = [], wo_schemes = []\<rparr>"

definition Options_intervals :: "monitoring_intervals \<Rightarrow> workflow_options \<Rightarrow> workflow_options" where
  "Options_intervals i o' =
     o'\<lparr>wo_sample := intervals_sample i, wo_aggregation := intervals_aggregation i,
        wo_update := intervals_update i\<rparr>"

definition Options_sample_interval :: "duration \<Rightarrow> workflow_options \<Rightarrow> workflow_options" where
  "Options_sample_interval d o' = o'\<lparr>wo_sample := d\<rparr>"

definition Options_aggregation_interval :: "duration \<Rightarrow> workflow_options \<Rightarrow> workflow_options" where
  "Options_aggregation_interval d o' = o'\<lparr>wo_aggregation := d\<rparr>"

definition Options_operations_update_interval :: "duration \<Rightarrow> workflow_options \<Rightarrow> workflow_options"
  where
  "Options_operations_update_interval d o' = o'\<lparr>wo_update := d\<rparr>"

definition Options_result_refresh_interval :: "duration \<Rightarrow> workflow_options \<Rightarrow> workflow_options" where
  "Options_result_refresh_interval d o' = o'\<lparr>wo_refresh := d\<rparr>"

definition Options_region_bounds :: "u64 \<Rightarrow> u64 \<Rightarrow> workflow_options \<Rightarrow> workflow_options" where
  "Options_region_bounds lo hi o' = o'\<lparr>wo_min_regions := lo, wo_max_regions := hi\<rparr>"

definition Options_probes :: "probe_config list \<Rightarrow> workflow_options \<Rightarrow> workflow_options" where
  "Options_probes ps o' = o'\<lparr>wo_probes := ps\<rparr>"

definition Options_probe :: "probe_config \<Rightarrow> workflow_options \<Rightarrow> workflow_options" where
  "Options_probe p o' = o'\<lparr>wo_probes := wo_probes o' @ [p]\<rparr>"

definition Options_schemes :: "scheme_config list \<Rightarrow> workflow_options \<Rightarrow> workflow_options" where
  "Options_schemes ss o' = o'\<lparr>wo_schemes := ss\<rparr>"

definition Options_scheme :: "scheme_config \<Rightarrow> workflow_options \<Rightarrow> workflow_options" where
  "Options_scheme s o' = o'\<lparr>wo_schemes := wo_schemes o' @ [s]\<rparr>"

record process_target =
  pt_pid :: pid
  pt_regions :: "initial_region list option"

definition ProcessTarget_new :: "pid \<Rightarrow> process_target" where
  "ProcessTarget_new p = \<lparr>pt_pid = p, pt_regions = None\<rparr>"

definition ProcessTarget_regions :: "initial_region list \<Rightarrow> process_target \<Rightarrow> process_target" where
  "ProcessTarget_regions rs t = t\<lparr>pt_regions := Some rs\<rparr>"

definition ProcessTarget_region :: "initial_region \<Rightarrow> process_target \<Rightarrow> process_target" where
  "ProcessTarget_region r t =
     t\<lparr>pt_regions := Some ((case pt_regions t of None \<Rightarrow> [] | Some rs \<Rightarrow> rs) @ [r])\<rparr>"

record vaddr_builder =
  vb_options :: workflow_options
  vb_targets :: "process_target list"

record fvaddr_builder =
  fb_options :: workflow_options
  fb_targets :: "process_target list"

record paddr_builder =
  pb_options :: workflow_options
  pb_unit :: address_unit

definition Damon_vaddr :: "damon \<Rightarrow> vaddr_builder" where
  "Damon_vaddr d = \<lparr>vb_options = WorkflowOptions_new d, vb_targets = []\<rparr>"

definition Damon_fvaddr :: "damon \<Rightarrow> fvaddr_builder" where
  "Damon_fvaddr d = \<lparr>fb_options = WorkflowOptions_new d, fb_targets = []\<rparr>"

definition Damon_paddr :: "damon \<Rightarrow> paddr_builder" where
  "Damon_paddr d = \<lparr>pb_options = WorkflowOptions_new d, pb_unit = AddressUnit_ONE\<rparr>"

definition Vaddr_pid :: "pid \<Rightarrow> vaddr_builder \<Rightarrow> vaddr_builder" where
  "Vaddr_pid p b = b\<lparr>vb_targets := [ProcessTarget_new p]\<rparr>"

definition Vaddr_targets :: "process_target list \<Rightarrow> vaddr_builder \<Rightarrow> vaddr_builder" where
  "Vaddr_targets ts b = b\<lparr>vb_targets := ts\<rparr>"

definition Vaddr_target :: "process_target \<Rightarrow> vaddr_builder \<Rightarrow> vaddr_builder" where
  "Vaddr_target t b = b\<lparr>vb_targets := vb_targets b @ [t]\<rparr>"

definition Vaddr_regions :: "initial_region list \<Rightarrow> vaddr_builder \<Rightarrow> vaddr_builder" where
  "Vaddr_regions rs b = b\<lparr>vb_options := (vb_options b)\<lparr>wo_initial_regions := rs\<rparr>\<rparr>"

definition Vaddr_region :: "initial_region \<Rightarrow> vaddr_builder \<Rightarrow> vaddr_builder" where
  "Vaddr_region r b =
     b\<lparr>vb_options := (vb_options b)\<lparr>wo_initial_regions := wo_initial_regions (vb_options b) @ [r]\<rparr>\<rparr>"

definition Damon_monitor_pid :: "damon \<Rightarrow> pid \<Rightarrow> vaddr_builder" where
  "Damon_monitor_pid d p = Vaddr_pid p (Damon_vaddr d)"

definition Fvaddr_pid :: "pid \<Rightarrow> fvaddr_builder \<Rightarrow> fvaddr_builder" where
  "Fvaddr_pid p b = b\<lparr>fb_targets := [ProcessTarget_new p]\<rparr>"

definition Fvaddr_targets :: "process_target list \<Rightarrow> fvaddr_builder \<Rightarrow> fvaddr_builder" where
  "Fvaddr_targets ts b = b\<lparr>fb_targets := ts\<rparr>"

definition Fvaddr_target :: "process_target \<Rightarrow> fvaddr_builder \<Rightarrow> fvaddr_builder" where
  "Fvaddr_target t b = b\<lparr>fb_targets := fb_targets b @ [t]\<rparr>"

definition Fvaddr_regions :: "initial_region list \<Rightarrow> fvaddr_builder \<Rightarrow> fvaddr_builder" where
  "Fvaddr_regions rs b = b\<lparr>fb_options := (fb_options b)\<lparr>wo_initial_regions := rs\<rparr>\<rparr>"

definition Fvaddr_region :: "initial_region \<Rightarrow> fvaddr_builder \<Rightarrow> fvaddr_builder" where
  "Fvaddr_region r b =
     b\<lparr>fb_options := (fb_options b)\<lparr>wo_initial_regions := wo_initial_regions (fb_options b) @ [r]\<rparr>\<rparr>"

definition Paddr_address_unit :: "address_unit \<Rightarrow> paddr_builder \<Rightarrow> paddr_builder" where
  "Paddr_address_unit u b = b\<lparr>pb_unit := u\<rparr>"

definition Paddr_regions_units :: "initial_region list \<Rightarrow> paddr_builder \<Rightarrow> paddr_builder" where
  "Paddr_regions_units rs b = b\<lparr>pb_options := (pb_options b)\<lparr>wo_initial_regions := rs\<rparr>\<rparr>"

definition Paddr_region_units :: "initial_region \<Rightarrow> paddr_builder \<Rightarrow> paddr_builder" where
  "Paddr_region_units r b =
     b\<lparr>pb_options := (pb_options b)\<lparr>wo_initial_regions := wo_initial_regions (pb_options b) @ [r]\<rparr>\<rparr>"

section \<open>Preparing a workflow\<close>

text \<open>The scheme that matches every region and only counts, with the ranges its constructors accept.\<close>

definition match_all :: access_pattern where
  "match_all =
     \<lparr>pattern_size = \<lparr>range_min = 0, range_max = -1\<rparr>,
      pattern_accesses = \<lparr>range32_min = 0, range32_max = -1\<rparr>,
      pattern_age = \<lparr>range32_min = 0, range32_max = -1\<rparr>\<rparr>"

definition snapshot_query_scheme :: "duration \<Rightarrow> scheme_config" where
  "snapshot_query_scheme apply_interval =
     (SchemeConfig_new Stat match_all)\<lparr>s_apply_interval := apply_interval\<rparr>"

text \<open>\<open>config.kdamonds[0].contexts[0].schemes\<close>, which panics when there is none.\<close>

definition first_schemes :: "damon_config \<Rightarrow> scheme_config list result" where
  "first_schemes config =
     (case d_kdamonds config of
        k # _ \<Rightarrow>
          (case k_contexts k of
             c # _ \<Rightarrow> Inr (c_schemes c) | [] \<Rightarrow> Inl (Panicked ''index out of bounds''))
      | [] \<Rightarrow> Inl (Panicked ''index out of bounds''))"

definition push_schemes :: "scheme_config list \<Rightarrow> damon_config \<Rightarrow> damon_config result" where
  "push_schemes ss config =
     (case d_kdamonds config of
        k # ks \<Rightarrow>
          (case k_contexts k of
             c # cs \<Rightarrow>
               Inr (config\<lparr>d_kdamonds :=
                      k\<lparr>k_contexts := c\<lparr>c_schemes := c_schemes c @ ss\<rparr> # cs\<rparr> # ks\<rparr>)
           | [] \<Rightarrow> Inl (Panicked ''index out of bounds''))
      | [] \<Rightarrow> Inl (Panicked ''index out of bounds''))"

record prepared_workflow =
  pw_base :: damon_config
  pw_capability :: damon_config
  pw_snapshot_index :: usize
  pw_identities :: "target_identity list"
  pw_custom_count :: usize
  pw_capacity_hint :: usize
  pw_sample :: duration
  pw_refresh :: duration

definition workflow_target :: "initial_region list \<Rightarrow> process_target \<Rightarrow> target_config" where
  "workflow_target common t =
     (TargetConfig_for_pid (pt_pid t))\<lparr>target_regions :=
        (case pt_regions t of Some rs \<Rightarrow> rs | None \<Rightarrow> common)\<rparr>"

definition workflow_targets ::
    "initial_region list \<Rightarrow> process_target list \<Rightarrow> target_config list \<times> target_identity list" where
  "workflow_targets common ts =
     (if ts = [] then
        ([TargetConfig_address_space\<lparr>target_regions := common\<rparr>],
         [\<lparr>identity_target_index = 0, identity_pid = None\<rparr>])
      else
        (map (workflow_target common) ts,
         map (\<lambda>(i, t). \<lparr>identity_target_index = i, identity_pid = Some (pt_pid t)\<rparr>) (enumerate 0 ts)))"

definition workflow_context ::
    "workflow_options \<Rightarrow> operation \<Rightarrow> address_unit \<Rightarrow> monitoring_intervals \<Rightarrow> region_bounds
       \<Rightarrow> target_config list \<Rightarrow> context_config" where
  "workflow_context o' op u intervals bounds targets =
     (ContextConfig_new op)\<lparr>c_unit := u, c_intervals := intervals, c_bounds := bounds,
        c_probes := wo_probes o', c_targets := targets, c_schemes := wo_schemes o'\<rparr>"

definition prepare_workflow ::
    "u64 \<Rightarrow> workflow_options \<Rightarrow> operation \<Rightarrow> process_target list \<Rightarrow> address_unit
       \<Rightarrow> prepared_workflow result" where
  "prepare_workflow ps o' op process_targets u =
     and_then (MonitoringIntervals_new (wo_sample o') (wo_aggregation o') (wo_update o')) (\<lambda>intervals.
     and_then (RegionBounds_new (wo_min_regions o') (wo_max_regions o')) (\<lambda>bounds.
     let (targets, identities) = workflow_targets (wo_initial_regions o') process_targets;
         base = \<lparr>d_kdamonds = [\<lparr>k_refresh = wo_refresh o',
                  k_contexts = [workflow_context o' op u intervals bounds targets]\<rparr>]\<rparr>;
         index = length (wo_schemes o') in
     and_then (DamonConfig_validate_runnable ps base) (\<lambda>_.
     and_then (push_schemes [snapshot_query_scheme 0] base) (\<lambda>capability.
     and_then (DamonConfig_validate_runnable ps capability) (\<lambda>_.
       Inr \<lparr>pw_base = base, pw_capability = capability, pw_snapshot_index = index,
            pw_identities = identities, pw_custom_count = index,
            pw_capacity_hint = unat (bounds_max bounds), pw_sample = intervals_sample intervals,
            pw_refresh = wo_refresh o'\<rparr>)))))"

section \<open>Errors of staging\<close>

fun classify_operation_staging_error :: "error \<Rightarrow> operation \<Rightarrow> error" where
  "classify_operation_staging_error (Io op p source) operation =
     (if file_name p = Some ''operations'' \<and> raw_os_error source = Some 22
      then UnsupportedOperation operation else Io op p source)"
| "classify_operation_staging_error (Rollback failed rollback) operation =
     Rollback (classify_operation_staging_error failed operation) rollback"
| "classify_operation_staging_error e operation = e"

fun target_filter_is_unsupported :: "error \<Rightarrow> bool" where
  "target_filter_is_unsupported (UnsupportedFeature _) = True"
| "target_filter_is_unsupported (Io _ p source) =
     (raw_os_error source = Some 22
      \<and> (\<exists>c\<in>set p. contains_text ''filter'' (to_string_lossy (component_text c))))"
| "target_filter_is_unsupported _ = False"

section \<open>Snapshot queries\<close>

record snapshot_descriptor =
  sd_scheme_index :: usize
  sd_scope :: snapshot_scope

definition target_query_scheme :: "duration \<Rightarrow> target_identity \<Rightarrow> scheme_config" where
  "target_query_scheme apply_interval identity =
     (snapshot_query_scheme apply_interval)\<lparr>s_filters :=
        [FilterConfig_target (identity_target_index identity) False False]\<rparr>"

definition snapshot_query_configuration ::
    "damon_config \<Rightarrow> target_identity list \<Rightarrow> duration \<Rightarrow> bool
       \<Rightarrow> (damon_config \<times> snapshot_descriptor list) result" where
  "snapshot_query_configuration base identities apply_interval isolate =
     and_then (first_schemes base) (\<lambda>schemes.
     let first = length schemes in
     case identities of
       [identity] \<Rightarrow>
         and_then (push_schemes [snapshot_query_scheme apply_interval] base) (\<lambda>config.
           Inr (config, [\<lparr>sd_scheme_index = first, sd_scope = ScopeTarget identity\<rparr>]))
     | _ \<Rightarrow>
         if isolate then
           and_then (push_schemes (map (target_query_scheme apply_interval) identities) base) (\<lambda>config.
             Inr (config, map (\<lambda>(i, identity). \<lparr>sd_scheme_index = i, sd_scope = ScopeTarget identity\<rparr>)
                            (enumerate first identities)))
         else
           and_then (push_schemes [snapshot_query_scheme apply_interval] base) (\<lambda>config.
             Inr (config, [\<lparr>sd_scheme_index = first, sd_scope = ScopeScheme\<rparr>])))"

definition effective_apply_interval :: "context_config \<Rightarrow> scheme_config \<Rightarrow> duration" where
  "effective_apply_interval c s =
     (if s_apply_interval s = 0 then intervals_aggregation (c_intervals c) else s_apply_interval s)"

definition maximum_effective_apply_interval :: "damon_config \<Rightarrow> duration" where
  "maximum_effective_apply_interval config =
     fold max (concat (map (\<lambda>c. map (effective_apply_interval c) (c_schemes c))
                 (concat (map k_contexts (d_kdamonds config))))) 0"

end
