(* ===== verification/Workflow.thy ===== *)
theory Workflow
  imports Workflow_Config
begin

text \<open>
  The effects of \<^verbatim>\<open>src/src/monitor/workflow.rs\<close>: starting a workflow, the monitor it returns with all
  its operations, and materializing snapshots. Beside the system calls of the process a monitor
  reads two clocks. The worker that materializes a snapshot in the background is in Snapshot_Request.
\<close>

section \<open>Clocks\<close>

record 'k host =
  ho_process :: "'k process"
  ho_system_time :: "'k \<Rightarrow> int \<times> 'k"
  ho_instant :: "'k \<Rightarrow> nat \<times> 'k"

abbreviation ho_sysfs :: "'k host \<Rightarrow> 'k sysfs" where
  "ho_sysfs H \<equiv> os_sysfs (ho_process H)"

definition read_clock :: "('k \<Rightarrow> 'a \<times> 'k) \<Rightarrow> ('k, 'a) comp" where
  "read_clock now w = (case now (w_kernel w) of (t, k) \<Rightarrow> (Inr t, w\<lparr>w_kernel := k\<rparr>))"

definition SystemTime_now :: "'k host \<Rightarrow> ('k, int) comp" where
  "SystemTime_now H = read_clock (ho_system_time H)"

definition Instant_now :: "'k host \<Rightarrow> ('k, nat) comp" where
  "Instant_now H = read_clock (ho_instant H)"

section \<open>Preparing the snapshot query\<close>

datatype snapshot_query =
    QueryUnsupported
  | QueryPermanent "snapshot_descriptor list"
  | QueryOnDemand damon_config damon_config "snapshot_descriptor list" bool

text \<open>A step that borrows the session and the capabilities mutably.\<close>

type_synonym ('k, 'a) qcomp = "(managed_hierarchy \<times> capabilities, 'k, 'a) stcomp"

definition on_hierarchy :: "('k, 'a) mcomp \<Rightarrow> ('k, 'a) qcomp" where
  "on_hierarchy m q =
     sbind (m (fst q)) (\<lambda>(r, s'). sret (r, (s', snd q)))"

definition set_capabilities :: "(capabilities \<Rightarrow> capabilities) \<Rightarrow> ('k, unit) qcomp" where
  "set_capabilities f q = sret (Inr (), (fst q, f (snd q)))"

definition ungrouped_query ::
    "damon_config \<Rightarrow> target_identity list \<Rightarrow> duration
       \<Rightarrow> ('k, damon_config \<times> snapshot_descriptor list) qcomp" where
  "ungrouped_query base identities apply_interval =
     mread (\<lambda>_. slift (snapshot_query_configuration base identities apply_interval False))"

definition isolated_query ::
    "'k sysfs \<Rightarrow> u64 \<Rightarrow> damon_config \<Rightarrow> target_identity list \<Rightarrow> duration
       \<Rightarrow> ('k, damon_config \<times> snapshot_descriptor list) qcomp" where
  "isolated_query E ps base identities apply_interval =
     mbind (mread (\<lambda>_. slift (snapshot_query_configuration base identities apply_interval True)))
       (\<lambda>(filtered, descriptors).
     mcatch (on_hierarchy (Session_replace_staged_configuration E ps filtered)) (\<lambda>r.
       case r of
         Inr _ \<Rightarrow>
           mbind (mread (\<lambda>_. slift (first_schemes filtered))) (\<lambda>schemes.
           mbind (mread (\<lambda>q. Session_capabilities_for_schemes E (fst q) 0 [0..<length schemes]))
             (\<lambda>found.
           mbind (set_capabilities (\<lambda>_. found)) (\<lambda>_.
           mbind (set_capabilities (confirm_feature Feature_SchemeFilterTarget)) (\<lambda>_.
             mret (filtered, descriptors)))))
       | Inl e \<Rightarrow>
           if target_filter_is_unsupported e then
             mbind (set_capabilities (reject_feature Feature_SchemeFilterTarget)) (\<lambda>_.
               ungrouped_query base identities apply_interval)
           else mfail e))"

definition query_apply_interval :: "capabilities \<Rightarrow> duration \<Rightarrow> duration" where
  "query_apply_interval capabilities sample_interval =
     (if Capabilities_feature_support capabilities Feature_OnlineParametersCommit = Supported
         \<and> Capabilities_feature_support capabilities Feature_SchemeApplyInterval = Supported
      then sample_interval else 0)"

definition isolates_targets :: "capabilities \<Rightarrow> target_identity list \<Rightarrow> bool" where
  "isolates_targets capabilities identities \<longleftrightarrow>
     Capabilities_feature_support capabilities Feature_TriedRegions = Supported
     \<and> length identities > 1
     \<and> Capabilities_feature_support capabilities Feature_SchemeFilterTarget \<noteq> Unsupported"

definition stage_snapshot_query ::
    "'k sysfs \<Rightarrow> u64 \<Rightarrow> capabilities \<Rightarrow> damon_config \<Rightarrow> damon_config \<Rightarrow> snapshot_descriptor list
       \<Rightarrow> ('k, snapshot_query) qcomp" where
  "stage_snapshot_query E ps initial base query descriptors =
     (if Capabilities_feature_support initial Feature_TriedRegions \<noteq> Supported then
        mbind (on_hierarchy (Session_replace_staged_configuration E ps base)) (\<lambda>_.
          mret QueryUnsupported)
      else if Capabilities_feature_support initial Feature_OnlineParametersCommit = Supported then
        mbind (on_hierarchy (Session_replace_staged_configuration E ps base)) (\<lambda>_.
          mret (QueryOnDemand base query descriptors False))
      else
        mbind (on_hierarchy (Session_replace_staged_configuration E ps query)) (\<lambda>_.
          mret (QueryPermanent descriptors)))"

text \<open>What is supported is decided on the capabilities the query starts with.\<close>

definition prepare_snapshot_query ::
    "'k sysfs \<Rightarrow> u64 \<Rightarrow> damon_config \<Rightarrow> target_identity list \<Rightarrow> duration
       \<Rightarrow> ('k, snapshot_query \<times> duration) qcomp" where
  "prepare_snapshot_query E ps base identities sample_interval q =
     (let initial = snd q; apply_interval = query_apply_interval initial sample_interval in
      mbind (if isolates_targets initial identities
             then isolated_query E ps base identities apply_interval
             else ungrouped_query base identities apply_interval) (\<lambda>(query, descriptors).
      mbind (stage_snapshot_query E ps initial base query descriptors) (\<lambda>snapshot_query.
        mret (snapshot_query, maximum_effective_apply_interval query))) q)"

section \<open>Starting a workflow\<close>

record monitor =
  mo_session :: "owner option"
  mo_capabilities :: capabilities
  mo_capacity_hint :: usize
  mo_operation :: operation
  mo_unit :: address_unit
  mo_query :: snapshot_query
  mo_custom_count :: usize
  mo_maximum_apply :: duration
  mo_refresh :: duration
  mo_cached :: "scoped_snapshot list"

text \<open>A workflow that fails after it took the hierarchy over closes the session.\<close>

definition close_failed :: "'k process \<Rightarrow> owner \<Rightarrow> error \<Rightarrow> ('k, 'a) comp" where
  "close_failed V session e =
     stry (Session_close V session) (\<lambda>close. sfail (with_rollback e close))"

definition is_rollback :: "error \<Rightarrow> bool" where
  "is_rollback e \<longleftrightarrow> (case e of Rollback _ _ \<Rightarrow> True | _ \<Rightarrow> False)"

definition start_prepared ::
    "'k process \<Rightarrow> prepared_workflow \<Rightarrow> operation \<Rightarrow> address_unit \<Rightarrow> owner \<Rightarrow> capabilities
       \<Rightarrow> snapshot_query \<times> duration \<Rightarrow> ('k, monitor) comp" where
  "start_prepared V p op u session capabilities query =
     sbind (Session_start (os_sysfs V) (fst session)) (\<lambda>(started, s').
       case started of
         Inl e \<Rightarrow>
           if is_rollback e
           then stry (Session_close V (s', snd session)) (\<lambda>_. sfail e)
           else close_failed V (s', snd session) e
       | Inr _ \<Rightarrow>
           sret \<lparr>mo_session = Some (s', snd session),
                 mo_capabilities = confirm_operation op capabilities,
                 mo_capacity_hint = pw_capacity_hint p, mo_operation = op, mo_unit = u,
                 mo_query = fst query, mo_custom_count = pw_custom_count p,
                 mo_maximum_apply = snd query, mo_refresh = pw_refresh p, mo_cached = []\<rparr>)"

definition query_and_start ::
    "'k process \<Rightarrow> u64 \<Rightarrow> prepared_workflow \<Rightarrow> operation \<Rightarrow> address_unit \<Rightarrow> owner \<Rightarrow> capabilities
       \<Rightarrow> ('k, monitor) comp" where
  "query_and_start V ps p op u session capabilities =
     sbind (prepare_snapshot_query (os_sysfs V) ps (pw_base p) (pw_identities p) (pw_sample p)
              (fst session, capabilities)) (\<lambda>(prepared, (s', capabilities')).
       case prepared of
         Inl e \<Rightarrow> close_failed V (s', snd session) e
       | Inr query \<Rightarrow> start_prepared V p op u (s', snd session) capabilities' query)"

definition check_and_start ::
    "'k process \<Rightarrow> u64 \<Rightarrow> prepared_workflow \<Rightarrow> operation \<Rightarrow> address_unit \<Rightarrow> owner
       \<Rightarrow> ('k, monitor) comp" where
  "check_and_start V ps p op u session =
     stry (Session_capabilities_for_schemes (os_sysfs V) (fst session) 0
             [0..<Suc (pw_snapshot_index p)]) (\<lambda>r.
       case r of
         Inl e \<Rightarrow> close_failed V session e
       | Inr capabilities \<Rightarrow>
           if operation_support capabilities op = Some Unsupported
           then close_failed V session (UnsupportedOperation op)
           else query_and_start V ps p op u session capabilities)"

definition start_workflow ::
    "'k process \<Rightarrow> u64 \<Rightarrow> workflow_options \<Rightarrow> operation \<Rightarrow> process_target list \<Rightarrow> address_unit
       \<Rightarrow> ('k, monitor) comp" where
  "start_workflow V ps options op targets u =
     sbind (slift (prepare_workflow ps options op targets u)) (\<lambda>p.
     stry (Damon_exclusive_session V ps (wo_damon options) (pw_capability p)) (\<lambda>r.
       case r of
         Inl e \<Rightarrow> sfail (classify_operation_staging_error e op)
       | Inr session \<Rightarrow> check_and_start V ps p op u session))"

definition Vaddr_start :: "'k process \<Rightarrow> u64 \<Rightarrow> vaddr_builder \<Rightarrow> ('k, monitor) comp" where
  "Vaddr_start V ps b =
     (if vb_targets b = [] then
        sfail (InvalidConfiguration ''virtual-address targets''
                 ''requires at least one process identifier'')
      else start_workflow V ps (vb_options b) VirtualAddress (vb_targets b) AddressUnit_ONE)"

definition Fvaddr_start :: "'k process \<Rightarrow> u64 \<Rightarrow> fvaddr_builder \<Rightarrow> ('k, monitor) comp" where
  "Fvaddr_start V ps b =
     (if fb_targets b = [] then
        sfail (InvalidConfiguration ''fixed virtual-address targets''
                 ''requires at least one process identifier'')
      else start_workflow V ps (fb_options b) FixedVirtualAddress (fb_targets b) AddressUnit_ONE)"

definition Paddr_start :: "'k process \<Rightarrow> u64 \<Rightarrow> paddr_builder \<Rightarrow> ('k, monitor) comp" where
  "Paddr_start V ps b = start_workflow V ps (pb_options b) PhysicalAddress [] (pb_unit b)"

section \<open>Materializing snapshots\<close>

type_synonym ('k, 'a) wcomp = "(monitor, 'k, 'a) stcomp"

text \<open>The first query refreshes the regions of every scheme; the others read what it wrote out.\<close>

fun collect_cached ::
    "'k sysfs \<Rightarrow> address_unit \<Rightarrow> snapshot_descriptor list
       \<Rightarrow> ('k, (snapshot_descriptor \<times> snapshot) list) bcomp" where
  "collect_cached E u [] = mret []"
| "collect_cached E u (d # ds) =
     mbind (Batch_cached_tried_regions E 0 (sd_scheme_index d)) (\<lambda>raw.
     mbind (collect_cached E u ds) (\<lambda>rest.
       mret ((d, with_effective_address_unit raw u) # rest)))"

definition collect_snapshots ::
    "'k sysfs \<Rightarrow> address_unit \<Rightarrow> snapshot_descriptor \<Rightarrow> snapshot_descriptor list
       \<Rightarrow> ('k, (snapshot_descriptor \<times> snapshot) list) bcomp" where
  "collect_snapshots E u d ds =
     mbind (Batch_tried_regions E 0 (sd_scheme_index d)) (\<lambda>raw.
     mbind (collect_cached E u ds) (\<lambda>rest.
       mret ((d, with_effective_address_unit raw u) # rest)))"

definition scope_snapshot :: "snapshot_timing \<Rightarrow> snapshot_descriptor \<times> snapshot \<Rightarrow> scoped_snapshot" where
  "scope_snapshot timing entry =
     \<lparr>scoped_kdamond = 0, scoped_context = 0, scoped_scheme = sd_scheme_index (fst entry),
      scoped_scope = sd_scope (fst entry), scoped_timing = timing, scoped_snapshot = snd entry\<rparr>"

definition materialize_scoped_snapshots ::
    "'k host \<Rightarrow> snapshot_descriptor list \<Rightarrow> address_unit \<Rightarrow> ('k, scoped_snapshot list) mcomp" where
  "materialize_scoped_snapshots H descriptors u =
     (case descriptors of
        [] \<Rightarrow> mfail (InvalidConfiguration ''snapshot query schemes'' ''requires at least one scheme'')
      | d # ds \<Rightarrow>
          mbind (mread (\<lambda>_. SystemTime_now H)) (\<lambda>requested_at.
          mbind (mread (\<lambda>_. Instant_now H)) (\<lambda>started_at.
          mbind (Session_runtime_batch (ho_sysfs H) (collect_snapshots (ho_sysfs H) u d ds))
            (\<lambda>raw_snapshots.
          mbind (mread (\<lambda>_. SystemTime_now H)) (\<lambda>completed_at.
          mbind (mread (\<lambda>_. Instant_now H)) (\<lambda>ended_at.
            mret (map (scope_snapshot \<lparr>timing_requested_at = requested_at,
                         timing_completed_at = completed_at, timing_elapsed = ended_at - started_at\<rparr>)
                   raw_snapshots)))))))"

text \<open>
  \<open>self.session.as_mut().ok_or(Error::NotRunning)\<close> and its shared counterpart. A step on the
  hierarchy of the session leaves the lock it holds as it is.
\<close>

definition on_session :: "('k, 'a) mcomp \<Rightarrow> ('k, 'a) wcomp" where
  "on_session operation m =
     (case mo_session m of
        None \<Rightarrow> mfail NotRunning m
      | Some (s, fd) \<Rightarrow>
          sbind (operation s) (\<lambda>(r, s'). sret (r, m\<lparr>mo_session := Some (s', fd)\<rparr>)))"

definition with_session :: "(managed_hierarchy \<Rightarrow> ('k, 'a) comp) \<Rightarrow> monitor \<Rightarrow> ('k, 'a) comp" where
  "with_session operation m =
     (case mo_session m of None \<Rightarrow> sfail NotRunning | Some (s, _) \<Rightarrow> operation s)"

definition set_query :: "snapshot_query \<Rightarrow> ('k, unit) wcomp" where
  "set_query query m = sret (Inr (), m\<lparr>mo_query := query\<rparr>)"

definition is_ownership_lost :: "error \<Rightarrow> bool" where
  "is_ownership_lost e \<longleftrightarrow> (case e of OwnershipLost _ \<Rightarrow> True | _ \<Rightarrow> False)"

definition restore_after_query ::
    "'k sysfs \<Rightarrow> u64 \<Rightarrow> damon_config \<Rightarrow> damon_config \<Rightarrow> snapshot_descriptor list
       \<Rightarrow> scoped_snapshot list result \<Rightarrow> ('k, scoped_snapshot list) wcomp" where
  "restore_after_query E ps base query descriptors operation =
     mcatch (on_session (Session_update_configuration E ps base)) (\<lambda>restoration.
       case (operation, restoration) of
         (Inr snapshots, Inr _) \<Rightarrow>
           mbind (set_query (QueryOnDemand base query descriptors False)) (\<lambda>_. mret snapshots)
       | (Inl e, Inr _) \<Rightarrow>
           mbind (set_query (QueryOnDemand base query descriptors False)) (\<lambda>_. mfail e)
       | (Inr _, Inl e) \<Rightarrow> mfail e
       | (Inl e, Inl e') \<Rightarrow> mfail (Rollback e e'))"

definition query_on_demand ::
    "'k host \<Rightarrow> u64 \<Rightarrow> address_unit \<Rightarrow> damon_config \<Rightarrow> damon_config \<Rightarrow> snapshot_descriptor list \<Rightarrow> bool
       \<Rightarrow> ('k, scoped_snapshot list) wcomp" where
  "query_on_demand H ps u base query descriptors installed =
     mbind (if installed then mret ()
            else mbind (on_session (Session_update_configuration (ho_sysfs H) ps query)) (\<lambda>_.
              set_query (QueryOnDemand base query descriptors True))) (\<lambda>_.
     mcatch (on_session (materialize_scoped_snapshots H descriptors u)) (\<lambda>operation.
       case operation of
         Inl e \<Rightarrow>
           if is_ownership_lost e then mfail e
           else restore_after_query (ho_sysfs H) ps base query descriptors operation
       | Inr _ \<Rightarrow> restore_after_query (ho_sysfs H) ps base query descriptors operation))"

definition run_query :: "'k host \<Rightarrow> u64 \<Rightarrow> ('k, scoped_snapshot list) wcomp" where
  "run_query H ps m =
     (case mo_session m of
        None \<Rightarrow> mfail NotRunning m
      | Some _ \<Rightarrow>
          (case mo_query m of
             QueryUnsupported \<Rightarrow> mfail (UnsupportedFeature ''DAMOS tried-region queries'') m
           | QueryPermanent descriptors \<Rightarrow>
               on_session (materialize_scoped_snapshots H descriptors (mo_unit m)) m
           | QueryOnDemand base query descriptors installed \<Rightarrow>
               query_on_demand H ps (mo_unit m) base query descriptors installed m))"

definition set_cached_snapshots :: "scoped_snapshot list \<Rightarrow> ('k, unit) wcomp" where
  "set_cached_snapshots snapshots m = sret (Inr (), m\<lparr>mo_cached := snapshots\<rparr>)"

definition materialize_snapshots :: "'k host \<Rightarrow> u64 \<Rightarrow> ('k, scoped_snapshot list) wcomp" where
  "materialize_snapshots H ps =
     mbind (run_query H ps) (\<lambda>snapshots.
     mbind (set_cached_snapshots snapshots) (\<lambda>_. mret snapshots))"

definition singular_query :: "monitor \<Rightarrow> unit result" where
  "singular_query m =
     (case mo_query m of
        QueryUnsupported \<Rightarrow> Inr ()
      | QueryPermanent ds \<Rightarrow>
          if length ds \<noteq> 1 then Inl (MultipleSnapshotResults (length ds)) else Inr ()
      | QueryOnDemand _ _ ds _ \<Rightarrow>
          if length ds \<noteq> 1 then Inl (MultipleSnapshotResults (length ds)) else Inr ())"

definition no_result :: error where
  "no_result = OwnershipLost ''a successful singular snapshot request returned no result''"

definition materialize_snapshot :: "'k host \<Rightarrow> u64 \<Rightarrow> ('k, scoped_snapshot) wcomp" where
  "materialize_snapshot H ps =
     mbind (mread (\<lambda>m. slift (singular_query m))) (\<lambda>_.
     mbind (materialize_snapshots H ps) (\<lambda>snapshots.
       case snapshots of [] \<Rightarrow> mfail no_result | s # _ \<Rightarrow> mret s))"

definition pop_cached :: "('k, scoped_snapshot) wcomp" where
  "pop_cached m =
     (case mo_cached m of
        [] \<Rightarrow> mfail no_result m
      | cached \<Rightarrow> sret (Inr (last cached), m\<lparr>mo_cached := butlast cached\<rparr>))"

definition materialize_snapshot_owned :: "'k host \<Rightarrow> u64 \<Rightarrow> ('k, scoped_snapshot) wcomp" where
  "materialize_snapshot_owned H ps =
     mbind (mread (\<lambda>m. slift (singular_query m))) (\<lambda>_.
     mbind (materialize_snapshots H ps) (\<lambda>_. pop_cached))"

definition take_cached_snapshots :: "('k, scoped_snapshot list) wcomp" where
  "take_cached_snapshots m = sret (Inr (mo_cached m), m\<lparr>mo_cached := []\<rparr>)"

definition materialize_snapshots_owned :: "'k host \<Rightarrow> u64 \<Rightarrow> ('k, scoped_snapshot list) wcomp" where
  "materialize_snapshots_owned H ps =
     mbind (materialize_snapshots H ps) (\<lambda>_. take_cached_snapshots)"

definition cached_snapshots :: "monitor \<Rightarrow> scoped_snapshot list" where
  "cached_snapshots m = mo_cached m"

definition cached_snapshot :: "monitor \<Rightarrow> scoped_snapshot option result" where
  "cached_snapshot m =
     (case mo_cached m of
        [] \<Rightarrow> Inr None
      | [s] \<Rightarrow> Inr (Some s)
      | cached \<Rightarrow> Inl (MultipleSnapshotResults (length cached)))"

section \<open>The other operations of a monitor\<close>

definition maximum_snapshot_apply_interval :: "monitor \<Rightarrow> duration option" where
  "maximum_snapshot_apply_interval m =
     (case mo_query m of
        QueryUnsupported \<Rightarrow> None
      | QueryPermanent _ \<Rightarrow> Some (mo_maximum_apply m)
      | QueryOnDemand _ _ _ _ \<Rightarrow> Some (mo_maximum_apply m))"

definition validate_custom_scheme_index :: "monitor \<Rightarrow> usize \<Rightarrow> unit result" where
  "validate_custom_scheme_index m i =
     (if i \<ge> mo_custom_count m then Inl (IndexOutOfBounds ''custom scheme'' i (mo_custom_count m))
      else Inr ())"

definition ensure_feature_supported :: "monitor \<Rightarrow> sysfs_feature \<Rightarrow> string \<Rightarrow> unit result" where
  "ensure_feature_supported m f name =
     (if Capabilities_feature_support (mo_capabilities m) f = Supported then Inr ()
      else Inl (UnsupportedFeature name))"

definition quota_reporting :: "monitor \<Rightarrow> unit result" where
  "quota_reporting m =
     ensure_feature_supported m Feature_SchemeQuotaEffectiveBytes ''DAMOS effective quota reporting''"

definition Monitor_scheme_stats :: "'k sysfs \<Rightarrow> usize \<Rightarrow> ('k, scheme_stats) wcomp" where
  "Monitor_scheme_stats E i =
     mbind (mread (\<lambda>m. slift (validate_custom_scheme_index m i))) (\<lambda>_.
       on_session (Session_scheme_stats E 0 i))"

definition Monitor_cached_scheme_stats :: "'k sysfs \<Rightarrow> monitor \<Rightarrow> usize \<Rightarrow> ('k, scheme_stats) comp" where
  "Monitor_cached_scheme_stats E m i =
     sbind (slift (validate_custom_scheme_index m i)) (\<lambda>_.
       with_session (\<lambda>s. Session_cached_scheme_stats E s 0 i) m)"

text \<open>One value per scheme, in order: the loop of the \<open>_all\<close> operations.\<close>

fun for_schemes :: "(usize \<Rightarrow> ('k, 'a) bcomp) \<Rightarrow> usize list \<Rightarrow> ('k, 'a list) bcomp" where
  "for_schemes query [] = mret []"
| "for_schemes query (i # is) =
     mbind (query i) (\<lambda>x. mbind (for_schemes query is) (\<lambda>xs. mret (x # xs)))"

text \<open>The first value refreshes; the loop over the others starts at one.\<close>

definition refresh_then_cached ::
    "(usize \<Rightarrow> ('k, 'a) bcomp) \<Rightarrow> (usize \<Rightarrow> ('k, 'a) bcomp) \<Rightarrow> usize \<Rightarrow> ('k, 'a list) bcomp" where
  "refresh_then_cached refreshed cached n =
     (if n \<noteq> 0 then
        mbind (refreshed 0) (\<lambda>x. mbind (for_schemes cached [1..<n]) (\<lambda>xs. mret (x # xs)))
      else mret [])"

definition Monitor_scheme_stats_all :: "'k sysfs \<Rightarrow> ('k, scheme_stats list) wcomp" where
  "Monitor_scheme_stats_all E m =
     on_session (Session_runtime_batch E
       (refresh_then_cached (Batch_scheme_stats E 0) (Batch_cached_scheme_stats E 0)
          (mo_custom_count m))) m"

definition Monitor_cached_scheme_stats_all :: "'k sysfs \<Rightarrow> monitor \<Rightarrow> ('k, scheme_stats list) comp"
  where
  "Monitor_cached_scheme_stats_all E m =
     with_session (\<lambda>s. Session_read_batch E s
       (for_schemes (ReadBatch_scheme_stats E 0) [0..<mo_custom_count m])) m"

definition Monitor_effective_quota_units :: "'k sysfs \<Rightarrow> usize \<Rightarrow> ('k, u64) wcomp" where
  "Monitor_effective_quota_units E i =
     mbind (mread (\<lambda>m. slift (validate_custom_scheme_index m i))) (\<lambda>_.
     mbind (mread (\<lambda>m. slift (quota_reporting m))) (\<lambda>_.
       on_session (Session_effective_quota_units E 0 i)))"

definition Monitor_cached_effective_quota_units :: "'k sysfs \<Rightarrow> monitor \<Rightarrow> usize \<Rightarrow> ('k, u64) comp" where
  "Monitor_cached_effective_quota_units E m i =
     sbind (slift (validate_custom_scheme_index m i)) (\<lambda>_.
     sbind (slift (quota_reporting m)) (\<lambda>_.
       with_session (\<lambda>s. Session_cached_effective_quota_units E s 0 i) m))"

definition Monitor_effective_quota_units_all :: "'k sysfs \<Rightarrow> ('k, u64 list) wcomp" where
  "Monitor_effective_quota_units_all E m =
     mbind (mread (\<lambda>m. slift (quota_reporting m))) (\<lambda>_.
       on_session (Session_runtime_batch E
         (refresh_then_cached (Batch_effective_quota_units E 0)
            (Batch_cached_effective_quota_units E 0) (mo_custom_count m)))) m"

definition Monitor_cached_effective_quota_units_all :: "'k sysfs \<Rightarrow> monitor \<Rightarrow> ('k, u64 list) comp" where
  "Monitor_cached_effective_quota_units_all E m =
     sbind (slift (quota_reporting m)) (\<lambda>_.
       with_session (\<lambda>s. Session_read_batch E s
         (for_schemes (ReadBatch_effective_quota_units E 0) [0..<mo_custom_count m])) m)"

definition Monitor_pause :: "'k sysfs \<Rightarrow> ('k, unit) wcomp" where
  "Monitor_pause E = on_session (Session_pause E)"

definition Monitor_resume :: "'k sysfs \<Rightarrow> ('k, unit) wcomp" where
  "Monitor_resume E = on_session (Session_resume E)"

definition Monitor_is_running :: "'k sysfs \<Rightarrow> monitor \<Rightarrow> ('k, bool) comp" where
  "Monitor_is_running E m =
     (case mo_session m of None \<Rightarrow> sret False | Some (s, _) \<Rightarrow> Session_is_running E s)"

text \<open>\<open>stop\<close> consumes the monitor; a monitor that goes out of scope drops its session.\<close>

definition Monitor_stop :: "'k process \<Rightarrow> monitor \<Rightarrow> ('k, unit) comp" where
  "Monitor_stop V m =
     (case mo_session m of None \<Rightarrow> sfail NotRunning | Some session \<Rightarrow> Session_close V session)"

definition Monitor_drop :: "'k process \<Rightarrow> monitor \<Rightarrow> ('k, unit) comp" where
  "Monitor_drop V m =
     (case mo_session m of None \<Rightarrow> sret () | Some session \<Rightarrow> owner_drop V session)"

end
