(* ===== verification/Workflow_Lemmas.thy ===== *)
theory Workflow_Lemmas
  imports Workflow
begin

text \<open>
  What prepared workflows look like, where the descriptors of a snapshot query point, and what the
  operations of a monitor leave of its record: weakest preconditions over the session it holds.
\<close>

section \<open>Prepared configurations\<close>

lemma match_all_valid:
  "u64_range_new name 0 (-1) = Inr \<lparr>range_min = 0, range_max = -1\<rparr>"
  "u32_range_new name 0 (-1) = Inr \<lparr>range32_min = 0, range32_max = -1\<rparr>"
  by (simp_all add: u64_range_new_def u32_range_new_def)

lemma workflow_targets_indexed:
  assumes "workflow_targets common ts = (targets, identities)"
  shows "length targets = length identities \<and> targets \<noteq> []
    \<and> (\<forall>i < length targets. identities ! i
         = \<lparr>identity_target_index = i, identity_pid = target_pid (targets ! i)\<rparr>)"
  using assms
  by (auto simp: workflow_targets_def workflow_target_def TargetConfig_for_pid_def
      TargetConfig_address_space_def nth_enumerate_eq split: if_splits)

lemma first_schemes_push:
  "first_schemes base = Inr ss \<Longrightarrow>
     \<exists>config. push_schemes qs base = Inr config \<and> first_schemes config = Inr (ss @ qs)"
  by (auto simp: first_schemes_def push_schemes_def split: list.splits)

text \<open>The three shapes of a query, over a configuration with the schemes \<open>ss\<close>.\<close>

lemma snapshot_query_cases:
  assumes "first_schemes base = Inr ss"
  shows "snapshot_query_configuration base [identity] interval isolate =
      and_then (push_schemes [snapshot_query_scheme interval] base) (\<lambda>config.
        Inr (config, [\<lparr>sd_scheme_index = length ss, sd_scope = ScopeTarget identity\<rparr>]))"
    and "length ids \<noteq> 1 \<Longrightarrow> snapshot_query_configuration base ids interval True =
      and_then (push_schemes (map (target_query_scheme interval) ids) base) (\<lambda>config.
        Inr (config, map (\<lambda>(i, identity). \<lparr>sd_scheme_index = i, sd_scope = ScopeTarget identity\<rparr>)
               (enumerate (length ss) ids)))"
    and "length ids \<noteq> 1 \<Longrightarrow> snapshot_query_configuration base ids interval False =
      and_then (push_schemes [snapshot_query_scheme interval] base) (\<lambda>config.
        Inr (config, [\<lparr>sd_scheme_index = length ss, sd_scope = ScopeScheme\<rparr>]))"
  by (auto simp: snapshot_query_configuration_def assms and_then_def [of "Inr ss"] Let_def
      split: list.split)

lemma snapshot_query_configuration_Inr:
  assumes "first_schemes base = Inr ss"
  shows "\<exists>config ds. snapshot_query_configuration base identities interval isolate = Inr (config, ds)"
proof -
  have then_Inr: "\<exists>config ds. and_then (push_schemes qs base) (\<lambda>config. Inr (config, ds')) = Inr (config, ds)"
    for qs ds'
    using first_schemes_push [OF assms, of qs] by (auto simp: and_then_def)
  show ?thesis
  proof (cases "length identities = 1")
    case True
    then show ?thesis by (auto simp: length_Suc_conv snapshot_query_cases [OF assms] then_Inr)
  next
    case False
    then show ?thesis by (cases isolate) (simp_all add: snapshot_query_cases [OF assms] then_Inr)
  qed
qed

lemma fold_max_upper: "x \<in> set xs \<or> x \<le> (a :: nat) \<Longrightarrow> x \<le> fold max xs a"
proof (induction xs arbitrary: a)
  case (Cons y ys)
  then have "x \<in> set ys \<or> x \<le> max y a" by (auto simp: le_max_iff_disj)
  then show ?case by (simp add: Cons.IH)
qed simp

lemma fold_max_member: "fold max xs (a :: nat) = a \<or> fold max xs a \<in> set xs"
proof (induction xs arbitrary: a)
  case (Cons x xs)
  then show ?case using Cons.IH [of "max x a"] by (auto simp: max_def split: if_splits)
qed simp

section \<open>Collecting snapshots\<close>

lemma read_and_verify_wp:
  "batch_wf b \<Longrightarrow> mwp (mbind (mread (\<lambda>_. c)) (\<lambda>x.
     mbind (Batch_verify_identity E) (\<lambda>_. mret x))) b (\<lambda>_ b'. batch_wf b')"
  by (rule mwp_mbind, rule mwp_mread_sum, simp, rule mwp_mbind, rule mwp_mono [OF verify_identity_same])
    (simp_all add: mwp_mret split: sum.split)

lemma cached_query_wp:
  assumes "batch_wf b"
  shows "mwp (cached_query E c i f) b (\<lambda>_ b'. batch_wf b')"
  unfolding cached_query_def
  by (rule mwp_mbind, rule mwp_mono [OF cached_scheme_wp [OF assms]])
    (simp add: scheme_of_def read_and_verify_wp split: sum.split)

lemma updated_query_wp:
  assumes "batch_wf b"
  shows "mwp (updated_query E command c i f) b (\<lambda>_ b'. batch_wf b')"
proof -
  have "mwp (mbind (Batch_issue_command E command) (\<lambda>_. mbind (mread (\<lambda>_. f p)) (\<lambda>x.
      mbind (Batch_verify_identity E) (\<lambda>_. mret x)))) b (\<lambda>_ b'. batch_wf b')" if "batch_wf b" for p b
    by (rule mwp_mbind, rule mwp_mono [OF Batch_issue_command_same])
      (simp add: that read_and_verify_wp split: sum.split)
  then show ?thesis
    unfolding updated_query_def
    by (intro mwp_mbind, rule_tac mwp_mono [OF cached_scheme_wp [OF assms]])
      (simp add: scheme_of_def split: sum.split)
qed

definition collected ::
    "address_unit \<Rightarrow> snapshot_descriptor list \<Rightarrow> (snapshot_descriptor \<times> snapshot) list \<Rightarrow> bool" where
  "collected u ds xs \<longleftrightarrow> map fst xs = ds \<and> (\<forall>d s. (d, s) \<in> set xs \<longrightarrow> snapshot_unit s = u)"

lemma collect_cached_wp:
  "batch_wf b \<Longrightarrow>
     mwp (collect_cached E u ds) b (\<lambda>r b'. batch_wf b' \<and> (\<forall>xs. r = Inr xs \<longrightarrow> collected u ds xs))"
proof (induction ds arbitrary: b)
  case Nil
  then show ?case by (auto simp: collected_def intro: mwp_mret)
next
  case (Cons d ds)
  show ?case
    unfolding collect_cached.simps Batch_cached_tried_regions_def
    by (rule mwp_mbind, rule mwp_mono [OF cached_query_wp [OF Cons.prems]])
      (auto split: sum.split intro!: mwp_mbind mwp_mret mwp_mono [OF Cons.IH]
        simp: collected_def with_effective_address_unit_def)
qed

lemma collect_snapshots_wp:
  assumes "batch_wf b"
  shows "mwp (collect_snapshots E u d ds) b (\<lambda>r _. \<forall>xs. r = Inr xs \<longrightarrow> collected u (d # ds) xs)"
  unfolding collect_snapshots_def Batch_tried_regions_def
  by (rule mwp_mbind, rule mwp_mono [OF updated_query_wp [OF assms]])
    (auto split: sum.split intro!: mwp_mbind mwp_mret mwp_mono [OF collect_cached_wp]
      simp: collected_def with_effective_address_unit_def)

lemma batch_between_checks_yields:
  assumes "mwp operation (new_batch s i) (\<lambda>r _. \<forall>x. r = Inr x \<longrightarrow> P x)"
  shows "yields P (batch_between_checks E s i operation)"
  unfolding yields_def
proof (intro allI impI)
  fix w x w'
  assume "batch_between_checks E s i operation w = (Inr x, w')"
  then obtain b w0 w1 where "operation (new_batch s i) w0 = (Inr (Inr x, b), w1)"
    using batch_between_checks_verified by metis
  from mwpD [OF assms this] show "P x" by simp
qed

lemma Session_runtime_batch_wp:
  assumes "\<And>i. mwp operation (new_batch s i) (\<lambda>r _. \<forall>x. r = Inr x \<longrightarrow> P x)"
  shows "mwp (Session_runtime_batch E operation) s (\<lambda>r s'. s' = s \<and> (\<forall>x. r = Inr x \<longrightarrow> P x))"
proof -
  have "mwp (Managed_runtime_batch E k operation) s (\<lambda>r s'. s' = s \<and> (\<forall>x. r = Inr x \<longrightarrow> P x))" for k
    unfolding Managed_runtime_batch_def
    by (rule mwp_mread_yields [where c = "\<lambda>s. batch_between_checks E s k operation",
          OF batch_between_checks_yields [OF assms]]) simp_all
  then show ?thesis
    unfolding Session_runtime_batch_def on_runtime_def
    by (intro mwp_mbind mwp_mread_sum) simp_all
qed

section \<open>Materialized snapshots\<close>

definition scoped_as :: "address_unit \<Rightarrow> snapshot_descriptor list \<Rightarrow> scoped_snapshot list \<Rightarrow> bool" where
  "scoped_as u ds xs \<longleftrightarrow>
     ds \<noteq> [] \<and> map scoped_scheme xs = map sd_scheme_index ds \<and> map scoped_scope xs = map sd_scope ds
     \<and> (\<forall>x\<in>set xs. snapshot_unit (scoped_snapshot x) = u \<and> scoped_timing x = scoped_timing (hd xs)
          \<and> scoped_kdamond x = 0 \<and> scoped_context x = 0)"

lemma scope_snapshot_scoped:
  assumes "collected u ds xs" "ds \<noteq> []"
  shows "scoped_as u ds (map (scope_snapshot timing) xs)"
proof -
  have timing: "scoped_timing (hd (map (scope_snapshot timing) xs)) = timing"
    using assms by (cases xs) (auto simp: collected_def scope_snapshot_def)
  show ?thesis
    using assms unfolding scoped_as_def timing
    by (auto simp: collected_def scope_snapshot_def)
qed

lemma materialize_scoped_wp:
  "mwp (materialize_scoped_snapshots H ds u) s
     (\<lambda>r s'. s' = s \<and> (\<forall>xs. r = Inr xs \<longrightarrow> scoped_as u ds xs))"
proof (cases ds)
  case Nil
  then show ?thesis by (auto simp: materialize_scoped_snapshots_def intro: mwp_mfail)
next
  case (Cons d rest)
  have batch: "mwp (Session_runtime_batch (ho_sysfs H) (collect_snapshots (ho_sysfs H) u d rest)) s
      (\<lambda>r s'. s' = s \<and> (\<forall>xs. r = Inr xs \<longrightarrow> collected u ds xs))"
    unfolding Cons by (intro Session_runtime_batch_wp collect_snapshots_wp new_batch_wf)
  show ?thesis
    by (simp only: materialize_scoped_snapshots_def Cons list.case, intro mwp_mbind mwp_mread_sum)
      (auto intro!: mwp_mono [OF batch] mwp_mbind mwp_mread_sum mwp_mret scope_snapshot_scoped
        simp: Cons split: sum.split)
qed

section \<open>What the operations of a monitor keep\<close>

text \<open>A query up to whether its private schemes are installed.\<close>

fun forget_installed :: "snapshot_query \<Rightarrow> snapshot_query" where
  "forget_installed (QueryOnDemand base query ds _) = QueryOnDemand base query ds False"
| "forget_installed q = q"

fun query_descriptors :: "snapshot_query \<Rightarrow> snapshot_descriptor list" where
  "query_descriptors QueryUnsupported = []"
| "query_descriptors (QueryPermanent ds) = ds"
| "query_descriptors (QueryOnDemand _ _ ds _) = ds"

definition same_session :: "owner option \<Rightarrow> owner option \<Rightarrow> bool" where
  "same_session = rel_option (\<lambda>(s, fd) (s', fd'). fd' = fd \<and> only_restaged s () s')"

definition kept_monitor :: "monitor \<Rightarrow> monitor \<Rightarrow> bool" where
  "kept_monitor m m' \<longleftrightarrow>
     mo_capabilities m' = mo_capabilities m \<and> mo_capacity_hint m' = mo_capacity_hint m
     \<and> mo_operation m' = mo_operation m \<and> mo_unit m' = mo_unit m
     \<and> mo_custom_count m' = mo_custom_count m \<and> mo_maximum_apply m' = mo_maximum_apply m
     \<and> mo_refresh m' = mo_refresh m
     \<and> same_session (mo_session m) (mo_session m')
     \<and> forget_installed (mo_query m') = forget_installed (mo_query m)"

lemma only_restaged_any: "only_restaged s r s' \<Longrightarrow> only_restaged s () s'"
  by (simp add: only_restaged_def)

lemma only_restaged_trans: "only_restaged s () s' \<Longrightarrow> only_restaged s' () s'' \<Longrightarrow> only_restaged s () s''"
  unfolding only_restaged_def
  by (metis (no_types, lifting) managed_hierarchy.select_convs(1) managed_hierarchy.surjective
      managed_hierarchy.update_convs(3))

lemma same_session_refl [simp]: "same_session x x"
  by (cases x) (auto simp: same_session_def)

lemma same_session_trans: "same_session x y \<Longrightarrow> same_session y z \<Longrightarrow> same_session x z"
  by (auto simp: same_session_def elim!: option.rel_cases intro: only_restaged_trans)

lemma kept_monitor_refl [simp]: "kept_monitor m m"
  by (simp add: kept_monitor_def)

lemma kept_monitor_trans: "kept_monitor m m' \<Longrightarrow> kept_monitor m' m'' \<Longrightarrow> kept_monitor m m''"
  by (auto simp: kept_monitor_def intro: same_session_trans)

lemma on_session_wp:
  assumes "\<And>s. mwp operation s (\<lambda>r s'. only_restaged s () s' \<and> P r)" and "P (Inl NotRunning)"
  shows "mwp (on_session operation) m
    (\<lambda>r m'. (\<exists>s'. m' = m\<lparr>mo_session := s'\<rparr> \<and> same_session (mo_session m) s') \<and> P r)"
  unfolding mwp_def
proof
  fix w
  show "\<exists>r m' w'. on_session operation m w = (Inr (r, m'), w')
      \<and> (\<exists>s'. m' = m\<lparr>mo_session := s'\<rparr> \<and> same_session (mo_session m) s') \<and> P r"
  proof (cases "mo_session m")
    case None
    have "m = m\<lparr>mo_session := None\<rparr>" by (rule monitor.equality) (simp_all add: None)
    with None assms(2) show ?thesis
      by (auto simp: on_session_def mfail_def sret_def intro!: exI [of _ None])
  next
    case (Some ow)
    obtain s fd where ow: "ow = (s, fd)" by (cases ow)
    obtain r s' w' where "operation s w = (Inr (r, s'), w')" "only_restaged s () s'" "P r"
      using assms(1) [of s] by (auto simp: mwp_def dest: spec [of _ w])
    with Some ow show ?thesis
      by (auto simp: on_session_def sbind_def sret_def same_session_def
          intro!: exI [of _ "Some (s', fd)"])
  qed
qed

lemma Session_update_configuration_wp:
  "mwp (Session_update_configuration E ps config) s (\<lambda>r s'. only_restaged s () s' \<and> True)"
  unfolding Session_update_configuration_def
  by (intro mwp_mbind mwp_mread_sum)
    (simp_all add: mwp_mono [OF update_configuration_wp] only_restaged_any)

lemma materialize_on_session_wp:
  "mwp (on_session (materialize_scoped_snapshots H ds u)) m
     (\<lambda>r m'. (\<exists>s'. m' = m\<lparr>mo_session := s'\<rparr> \<and> same_session (mo_session m) s')
        \<and> (\<forall>xs. r = Inr xs \<longrightarrow> scoped_as u ds xs))"
  by (rule on_session_wp, rule mwp_mono [OF materialize_scoped_wp]) simp_all

lemmas update_on_session_wp = on_session_wp [OF Session_update_configuration_wp, simplified]

lemma mwp_set_query [mwp_rules]:
  "Q (Inr ()) (m\<lparr>mo_query := q\<rparr>) \<Longrightarrow> mwp (set_query q) m Q"
  by (simp add: mwp_def set_query_def sret_def)

lemma mwp_set_cached_snapshots [mwp_rules]:
  "Q (Inr ()) (m\<lparr>mo_cached := xs\<rparr>) \<Longrightarrow> mwp (set_cached_snapshots xs) m Q"
  by (simp add: mwp_def set_cached_snapshots_def sret_def)

text \<open>A query keeps the cached snapshots; a successful one leaves no private scheme installed.\<close>

definition queried :: "monitor \<Rightarrow> scoped_snapshot list result \<Rightarrow> monitor \<Rightarrow> bool" where
  "queried m r m' \<longleftrightarrow>
     kept_monitor m m' \<and> mo_cached m' = mo_cached m
     \<and> (\<forall>xs. r = Inr xs \<longrightarrow>
          mo_query m' = forget_installed (mo_query m)
          \<and> scoped_as (mo_unit m) (query_descriptors (mo_query m)) xs)"

lemma restore_after_query_wp:
  assumes "mo_query m = QueryOnDemand base query ds True"
    and "\<forall>xs. operation = Inr xs \<longrightarrow> scoped_as (mo_unit m) ds xs"
  shows "mwp (restore_after_query E ps base query ds operation) m (queried m)"
  unfolding restore_after_query_def
  by (rule mwp_mcatch, rule mwp_mono [OF update_on_session_wp])
    (use assms in \<open>auto split: sum.split intro!: mwp_mbind mwp_set_query mwp_mret mwp_mfail
       simp: queried_def kept_monitor_def\<close>)

lemma queried_trans:
  assumes "kept_monitor m m'" "mo_cached m' = mo_cached m" "queried m' r m''"
  shows "queried m r m''"
proof -
  have "forget_installed (mo_query m') = forget_installed (mo_query m)" "mo_unit m' = mo_unit m"
    using assms(1) by (simp_all add: kept_monitor_def)
  moreover from this(1) have "query_descriptors (mo_query m') = query_descriptors (mo_query m)"
    by (cases "mo_query m"; cases "mo_query m'") auto
  ultimately show ?thesis
    using assms by (simp add: queried_def) (blast intro: kept_monitor_trans)
qed

section \<open>Leaving the lock\<close>

lemma mwp_total: "mwp m s Q \<Longrightarrow> m s w \<noteq> (Inl e, w')"
  by (metis Inl_Inr_False mwp_def prod.inject)

lemma Session_start_total: "Session_start E s w \<noteq> (Inl e, w')"
proof (cases "mh_owns s \<and> check_startable 0 (mh_states s) = Inr ()")
  case True
  then have "mwp (start_all E) s (start_outcome s)"
    by (intro start_all_wp) (auto simp: all_staged_def check_startable_Inr_iff)
  then show ?thesis unfolding Session_start_def by (rule mwp_total)
next
  case False
  then show ?thesis
    by (auto simp: Session_start_def start_all_def mfail_def sret_def split: sum.split)
qed

lemma close_inner_total: "close_inner E s w \<noteq> (Inl e, w')"
proof (cases "mh_owns s")
  case True
  from mwp_total [OF close_inner_wp [OF this]] show ?thesis .
qed (simp add: close_inner_def mret_def sret_def)

lemma Hierarchy_drop_total: "Hierarchy_drop E s w \<noteq> (Inl e, w')"
  using close_inner_total [of E s w]
  by (auto simp: Hierarchy_drop_def sbind_def sret_def split: prod.splits sum.splits)

lemma owner_drop_closes:
  "owner_drop V ow w = (r, w') \<Longrightarrow> \<exists>k. w_kernel w' = os_close V (snd ow) k"
  using Hierarchy_drop_total [of "os_sysfs V" "fst ow" w]
  by (auto simp: owner_drop_def sbind_def SessionLock_drop_def split: prod.splits sum.splits)

lemma Session_close_closes:
  assumes "Session_close V ow w = (r, w')"
  shows "\<exists>k. w_kernel w' = os_close V (snd ow) k"
proof -
  obtain r0 s' w0 where run: "close_inner (os_sysfs V) (fst ow) w = (Inr (r0, s'), w0)"
    using close_inner_total [of "os_sysfs V" "fst ow" w] by (metis old.prod.exhaust sum.exhaust_sel)
  obtain x w1 where drop: "owner_drop V (s', snd ow) w0 = (x, w1)" by (cases "owner_drop V (s', snd ow) w0")
  from owner_drop_closes [OF this] obtain k where "w_kernel w1 = os_close V (snd ow) k" by auto
  moreover have "w' = w1"
    using assms run drop by (auto simp: Session_close_def owner_close_def sbind_def slift_def split: sum.splits)
  ultimately show ?thesis by auto
qed

text \<open>A computation whose failures end by closing the given lock.\<close>

definition fails_closed :: "'k process \<Rightarrow> nat \<Rightarrow> ('k, 'a) comp \<Rightarrow> bool" where
  "fails_closed V fd m \<longleftrightarrow> (\<forall>w e w'. m w = (Inl e, w') \<longrightarrow> (\<exists>k. w_kernel w' = os_close V fd k))"

lemma close_failed_closed: "fails_closed V (snd ow) (close_failed V ow e)"
  unfolding fails_closed_def close_failed_def stry_def sfail_def
  by (auto dest: Session_close_closes split: prod.splits)

lemma fails_closed_total:
  assumes "\<And>w e w'. m w \<noteq> (Inl e, w')" and "\<And>x. fails_closed V fd (f x)"
  shows "fails_closed V fd (sbind m f)"
  using assms unfolding fails_closed_def sbind_def by (fastforce split: prod.splits sum.splits)

lemma fails_closed_stry: "(\<And>r. fails_closed V fd (f r)) \<Longrightarrow> fails_closed V fd (stry m f)"
  unfolding fails_closed_def stry_def by (auto split: prod.splits)

lemma start_prepared_closed: "fails_closed V (snd ow) (start_prepared V p op u ow capabilities query)"
proof -
  have "fails_closed V fd (stry (Session_close V (s', fd)) (\<lambda>_. sfail e))" for s' fd e
    unfolding fails_closed_def stry_def sfail_def
    by (auto dest!: Session_close_closes split: prod.splits)
  moreover have "fails_closed V fd (close_failed V (s', fd) e)" for s' fd e
    using close_failed_closed [of V "(s', fd)" e] by simp
  moreover have "fails_closed V fd (sret x)" for fd x by (simp add: fails_closed_def sret_def)
  ultimately show ?thesis
    unfolding start_prepared_def
    by (intro fails_closed_total) (auto simp: Session_start_total split: sum.split prod.split)
qed

lemma on_hierarchy_total:
  assumes "mwp m (fst q) Q"
  shows "mwp (on_hierarchy m) q (\<lambda>r q'. Q r (fst q') \<and> snd q' = snd q)"
  unfolding mwp_def
proof
  fix w
  obtain r s' w' where "m (fst q) w = (Inr (r, s'), w')" "Q r s'"
    using assms unfolding mwp_def by blast
  then show "\<exists>r q' w'. on_hierarchy m q w = (Inr (r, q'), w') \<and> Q r (fst q') \<and> snd q' = snd q"
    by (simp add: on_hierarchy_def sbind_def sret_def)
qed

lemma Session_replace_wp: "mwp (Session_replace_staged_configuration E ps config) s (\<lambda>_. only_restaged s ())"
  unfolding Session_replace_staged_configuration_def
  by (intro mwp_mbind mwp_mread_sum)
    (simp_all add: mwp_mono [OF replace_staged_configuration_wp] only_restaged_any)

lemmas replace_in_query_wp = on_hierarchy_total [OF Session_replace_wp]

lemma mwp_set_capabilities [mwp_rules]:
  "Q (Inr ()) (fst q, f (snd q)) \<Longrightarrow> mwp (set_capabilities f) q Q"
  by (simp add: mwp_def set_capabilities_def sret_def)

lemma ungrouped_query_wp: "mwp (ungrouped_query base ids interval) q (\<lambda>_ q'. fst q' = fst q)"
  unfolding ungrouped_query_def by (rule mwp_mread) simp

lemma isolated_query_wp:
  "mwp (isolated_query E ps base ids interval) q (\<lambda>_ q'. only_restaged (fst q) () (fst q'))"
proof -
  have reject: "mwp (mbind (set_capabilities f) (\<lambda>_. ungrouped_query base ids interval)) q'
      (\<lambda>_ q'. only_restaged (fst q) () (fst q'))" if "only_restaged (fst q) () (fst q')" for f q'
    by (rule mwp_mbind, rule mwp_set_capabilities)
      (auto intro!: mwp_mono [OF ungrouped_query_wp] simp: that)
  show ?thesis
    unfolding isolated_query_def
    by (intro mwp_mbind mwp_mread_sum, clarsimp split: prod.split sum.split,
        rule mwp_mcatch, rule mwp_mono [OF replace_in_query_wp])
      (auto split: sum.split intro!: mwp_mbind mwp_mread_sum mwp_set_capabilities mwp_mret mwp_mfail
        reject)
qed

lemma stage_snapshot_query_wp:
  "mwp (stage_snapshot_query E ps initial base query ds) q (\<lambda>_ q'. only_restaged (fst q) () (fst q'))"
  unfolding stage_snapshot_query_def
  by (auto intro!: mwp_mbind mwp_mono [OF replace_in_query_wp] mwp_mret split: sum.split)

end
