(* ===== verification/Snapshot_Request.thy ===== *)
theory Snapshot_Request
  imports Workflow
begin

text \<open>
  Snapshots in the background, from \<^verbatim>\<open>src/src/monitor/workflow.rs\<close>: the worker thread that owns the
  monitor while it materializes, the request that polls it, and the two channels between them. A
  flight is the state of both sides with the world the monitor acts on. The worker receives,
  materializes and sends; a request polls, waits, finishes or is dropped. How far the worker gets
  between two calls of the request is up to the scheduler.
\<close>

section \<open>The worker\<close>

type_synonym snapshot_outcome = "monitor \<times> scoped_snapshot list result"

text \<open>A worker that panics drops the monitor it owns and sends nothing.\<close>

datatype worker_state = WorkerWaiting | WorkerHolding monitor | WorkerExited | WorkerCrashed

record 'k flight =
  fl_world :: "'k world"
  fl_inbox :: "monitor option"
  fl_worker :: worker_state
  fl_mail :: "snapshot_outcome option"
  fl_handle :: bool
  fl_outcome :: "snapshot_outcome option"

definition worker_panicked :: "'a result \<Rightarrow> bool" where
  "worker_panicked r \<longleftrightarrow> (case r of Inl (Panicked _) \<Rightarrow> True | _ \<Rightarrow> False)"

definition worker_materialize :: "'k host \<Rightarrow> u64 \<Rightarrow> monitor \<Rightarrow> 'k flight \<Rightarrow> 'k flight" where
  "worker_materialize H ps m fl =
     (case materialize_snapshots_owned H ps m (fl_world fl) of
        (Inr (snapshots, m'), w') \<Rightarrow>
          if worker_panicked snapshots then
            fl\<lparr>fl_world := snd (Monitor_drop (ho_process H) m' w'), fl_worker := WorkerCrashed\<rparr>
          else fl\<lparr>fl_world := w', fl_worker := WorkerExited, fl_mail := Some (m', snapshots)\<rparr>
      | (Inl _, w') \<Rightarrow> fl\<lparr>fl_world := w', fl_worker := WorkerCrashed\<rparr>)"

text \<open>One step of \<open>run_snapshot_worker\<close>; none when it blocks or has ended.\<close>

definition run_snapshot_worker :: "'k host \<Rightarrow> u64 \<Rightarrow> 'k flight \<Rightarrow> 'k flight option" where
  "run_snapshot_worker H ps fl =
     (case fl_worker fl of
        WorkerWaiting \<Rightarrow>
          (case fl_inbox fl of
             Some m \<Rightarrow> Some (fl\<lparr>fl_inbox := None, fl_worker := WorkerHolding m\<rparr>)
           | None \<Rightarrow> None)
      | WorkerHolding m \<Rightarrow> Some (worker_materialize H ps m fl)
      | WorkerExited \<Rightarrow> None
      | WorkerCrashed \<Rightarrow> None)"

definition worker_rank :: "'k flight \<Rightarrow> nat" where
  "worker_rank fl =
     (case fl_worker fl of WorkerWaiting \<Rightarrow> 2 | WorkerHolding _ \<Rightarrow> 1 | WorkerExited \<Rightarrow> 0 | WorkerCrashed \<Rightarrow> 0)"

lemma run_snapshot_worker_rank:
  "run_snapshot_worker H ps fl = Some fl' \<Longrightarrow> worker_rank fl' < worker_rank fl"
  by (auto simp: run_snapshot_worker_def worker_rank_def worker_materialize_def
      split: worker_state.splits option.splits prod.splits sum.splits if_splits)

text \<open>At most so many steps, and as many as there are: the worker left to itself.\<close>

fun worker_steps :: "'k host \<Rightarrow> u64 \<Rightarrow> nat \<Rightarrow> 'k flight \<Rightarrow> 'k flight" where
  "worker_steps H ps 0 fl = fl"
| "worker_steps H ps (Suc n) fl =
     (case run_snapshot_worker H ps fl of None \<Rightarrow> fl | Some fl' \<Rightarrow> worker_steps H ps n fl')"

function worker_finish :: "'k host \<Rightarrow> u64 \<Rightarrow> 'k flight \<Rightarrow> 'k flight" where
  "worker_finish H ps fl =
     (case run_snapshot_worker H ps fl of None \<Rightarrow> fl | Some fl' \<Rightarrow> worker_finish H ps fl')"
  by auto
termination
  by (relation "measure (\<lambda>(H, ps, fl). worker_rank fl)") (auto dest: run_snapshot_worker_rank)

declare worker_finish.simps [simp del]

section \<open>The request\<close>

text \<open>What spawning the worker can come to: the thread may end before it receives anything.\<close>

datatype spawned = SpawnError io_error | SpawnGone | Spawned

definition request_snapshot_with :: "spawned \<Rightarrow> monitor \<Rightarrow> 'k world \<Rightarrow> error \<times> monitor + 'k flight" where
  "request_snapshot_with spawn m w =
     (case spawn of
        SpawnError source \<Rightarrow> Inl (SnapshotWorkerSpawn source, m)
      | SpawnGone \<Rightarrow> Inl (SnapshotWorkerDisconnected, m)
      | Spawned \<Rightarrow>
          Inr \<lparr>fl_world = w, fl_inbox = Some m, fl_worker = WorkerWaiting, fl_mail = None,
               fl_handle = True, fl_outcome = None\<rparr>)"

datatype received = Message snapshot_outcome | ChannelEmpty | Disconnected

definition receive :: "'k flight \<Rightarrow> received \<times> 'k flight" where
  "receive fl =
     (case fl_mail fl of
        Some outcome \<Rightarrow> (Message outcome, fl\<lparr>fl_mail := None\<rparr>)
      | None \<Rightarrow>
          if fl_worker fl = WorkerExited \<or> fl_worker fl = WorkerCrashed then (Disconnected, fl)
          else (ChannelEmpty, fl))"

text \<open>Joining happens only once the channel told that the worker is done.\<close>

definition join_worker :: "'k flight \<Rightarrow> unit result \<times> 'k flight" where
  "join_worker fl =
     (if fl_handle fl then
        (if fl_worker fl = WorkerCrashed then Inl SnapshotWorkerDisconnected else Inr (),
         fl\<lparr>fl_handle := False\<rparr>)
      else (Inr (), fl))"

definition take_message :: "'a \<Rightarrow> snapshot_outcome \<Rightarrow> 'k flight \<Rightarrow> 'a result \<times> 'k flight" where
  "take_message done outcome fl =
     (case join_worker (fl\<lparr>fl_outcome := Some outcome\<rparr>) of
        (Inl e, fl') \<Rightarrow> (Inl e, fl') | (Inr _, fl') \<Rightarrow> (Inr done, fl'))"

definition disconnected :: "'k flight \<Rightarrow> 'a result \<times> 'k flight" where
  "disconnected fl = (Inl SnapshotWorkerDisconnected, snd (join_worker fl))"

definition is_ready :: "'k flight \<Rightarrow> bool result \<times> 'k flight" where
  "is_ready fl =
     (if fl_outcome fl \<noteq> None then (Inr True, fl)
      else case receive fl of
        (Message outcome, fl') \<Rightarrow> take_message True outcome fl'
      | (ChannelEmpty, fl') \<Rightarrow> (Inr False, fl')
      | (Disconnected, fl') \<Rightarrow> disconnected fl')"

datatype snapshot_wait = WaitReady | WaitPending

text \<open>Waiting with a timeout, during which the worker takes some number of steps.\<close>

definition wait_until :: "'k host \<Rightarrow> u64 \<Rightarrow> nat \<Rightarrow> 'k flight \<Rightarrow> snapshot_wait result \<times> 'k flight" where
  "wait_until H ps n fl =
     (if fl_outcome fl \<noteq> None then (Inr WaitReady, fl)
      else case receive (worker_steps H ps n fl) of
        (Message outcome, fl') \<Rightarrow> take_message WaitReady outcome fl'
      | (ChannelEmpty, fl') \<Rightarrow> (Inr WaitPending, fl')
      | (Disconnected, fl') \<Rightarrow> disconnected fl')"

text \<open>Receiving without a timeout: no result when it blocks for ever.\<close>

definition receive_blocking :: "'k host \<Rightarrow> u64 \<Rightarrow> 'k flight \<Rightarrow> (snapshot_outcome option \<times> 'k flight) option"
  where
  "receive_blocking H ps fl =
     (case receive (worker_finish H ps fl) of
        (Message outcome, fl') \<Rightarrow> Some (Some outcome, fl'\<lparr>fl_outcome := Some outcome\<rparr>)
      | (Disconnected, fl') \<Rightarrow> Some (None, fl')
      | (ChannelEmpty, _) \<Rightarrow> None)"

definition finish_received :: "'k flight \<Rightarrow> snapshot_outcome result \<times> 'k flight" where
  "finish_received fl =
     (case join_worker fl of
        (Inl e, fl') \<Rightarrow> (Inl e, fl')
      | (Inr _, fl') \<Rightarrow>
          ((case fl_outcome fl' of Some outcome \<Rightarrow> Inr outcome | None \<Rightarrow> Inl SnapshotWorkerDisconnected),
           fl'\<lparr>fl_outcome := None\<rparr>))"

definition finish ::
    "'k host \<Rightarrow> u64 \<Rightarrow> 'k flight \<Rightarrow> (snapshot_outcome result \<times> 'k flight) option" where
  "finish H ps fl =
     (if fl_outcome fl \<noteq> None then Some (finish_received fl)
      else case receive_blocking H ps fl of
        None \<Rightarrow> None
      | Some (None, fl') \<Rightarrow> Some (Inl SnapshotWorkerDisconnected, fl')
      | Some (Some _, fl') \<Rightarrow> Some (finish_received fl'))"

text \<open>A dropped request waits for the worker; the outcome it held is dropped with it.\<close>

definition drop_request :: "'k host \<Rightarrow> u64 \<Rightarrow> 'k flight \<Rightarrow> 'k world option" where
  "drop_request H ps fl =
     (let closed = (\<lambda>fl. case fl_outcome fl of
                       None \<Rightarrow> fl_world fl
                     | Some (m, _) \<Rightarrow> snd (Monitor_drop (ho_process H) m (fl_world fl))) in
      if fl_outcome fl \<noteq> None then Some (closed fl)
      else map_option (\<lambda>(_, fl'). closed fl') (receive_blocking H ps fl))"

section \<open>Requests in flight\<close>

inductive flight_step :: "'k host \<Rightarrow> u64 \<Rightarrow> 'k flight \<Rightarrow> 'k flight \<Rightarrow> bool" for H ps where
  step_worker: "run_snapshot_worker H ps fl = Some fl' \<Longrightarrow> flight_step H ps fl fl'"
| step_poll: "is_ready fl = (r, fl') \<Longrightarrow> flight_step H ps fl fl'"
| step_wait: "wait_until H ps n fl = (r, fl') \<Longrightarrow> flight_step H ps fl fl'"

inductive_cases flight_stepE: "flight_step H ps fl fl'"

inductive in_flight :: "'k host \<Rightarrow> u64 \<Rightarrow> monitor \<Rightarrow> 'k world \<Rightarrow> 'k flight \<Rightarrow> bool" for H ps m w where
  launched: "request_snapshot_with Spawned m w = Inr fl \<Longrightarrow> in_flight H ps m w fl"
| moved: "in_flight H ps m w fl \<Longrightarrow> flight_step H ps fl fl' \<Longrightarrow> in_flight H ps m w fl'"

text \<open>Who has the monitor: the five places it can be.\<close>

definition holders :: "'k flight \<Rightarrow> nat" where
  "holders fl =
     (if fl_inbox fl = None then 0 else 1)
     + (case fl_worker fl of WorkerHolding _ \<Rightarrow> 1 | _ \<Rightarrow> 0)
     + (if fl_mail fl = None then 0 else 1)
     + (if fl_outcome fl = None then 0 else 1)"

text \<open>The stages of a flight, as the worker goes through them.\<close>

definition flight_stage :: "'k host \<Rightarrow> u64 \<Rightarrow> monitor \<Rightarrow> 'k world \<Rightarrow> 'k flight \<Rightarrow> bool" where
  "flight_stage H ps m w fl \<longleftrightarrow>
     (case fl_worker fl of
        WorkerWaiting \<Rightarrow> fl_inbox fl = Some m \<and> fl_mail fl = None \<and> fl_outcome fl = None
          \<and> fl_handle fl \<and> fl_world fl = w
      | WorkerHolding m' \<Rightarrow> m' = m \<and> fl_inbox fl = None \<and> fl_mail fl = None \<and> fl_outcome fl = None
          \<and> fl_handle fl \<and> fl_world fl = w
      | WorkerExited \<Rightarrow>
          (\<exists>snapshots m'. materialize_snapshots_owned H ps m w = (Inr (snapshots, m'), fl_world fl)
             \<and> \<not> worker_panicked snapshots \<and> fl_inbox fl = None
             \<and> (fl_mail fl = Some (m', snapshots) \<and> fl_outcome fl = None \<and> fl_handle fl
                \<or> fl_mail fl = None \<and> fl_outcome fl = Some (m', snapshots) \<and> \<not> fl_handle fl))
      | WorkerCrashed \<Rightarrow> fl_inbox fl = None \<and> fl_mail fl = None \<and> fl_outcome fl = None
          \<and> (\<forall>snapshots m' w'. materialize_snapshots_owned H ps m w = (Inr (snapshots, m'), w')
               \<longrightarrow> worker_panicked snapshots))"

lemma stage_worker:
  "flight_stage H ps m w fl \<Longrightarrow> run_snapshot_worker H ps fl = Some fl' \<Longrightarrow> flight_stage H ps m w fl'"
  by (auto simp: flight_stage_def run_snapshot_worker_def worker_materialize_def
      split: worker_state.splits option.splits prod.splits sum.splits if_splits)

lemma stage_steps: "flight_stage H ps m w fl \<Longrightarrow> flight_stage H ps m w (worker_steps H ps n fl)"
  by (induction n arbitrary: fl) (auto split: option.splits dest: stage_worker)

lemma stage_finish: "flight_stage H ps m w fl \<Longrightarrow> flight_stage H ps m w (worker_finish H ps fl)"
proof (induction H ps fl rule: worker_finish.induct)
  case (1 H ps fl)
  show ?case
  proof (cases "run_snapshot_worker H ps fl")
    case None
    then show ?thesis using 1(2) by (subst worker_finish.simps) simp
  next
    case (Some fl')
    then have "flight_stage H ps m w fl'" using 1(2) by (rule_tac stage_worker)
    then have "flight_stage H ps m w (worker_finish H ps fl')" by (rule 1(1) [OF Some])
    then show ?thesis by (subst worker_finish.simps) (simp add: Some)
  qed
qed

lemma worker_finish_ended:
  "run_snapshot_worker H ps (worker_finish H ps fl) = None"
  by (induction H ps fl rule: worker_finish.induct)
    (subst worker_finish.simps, simp split: option.split)

lemma stage_received:
  assumes "flight_stage H ps m w fl" and "fl_outcome fl = None" and "receive fl = (r, fl')"
  shows "flight_stage H ps m w
      (snd (case r of Message outcome \<Rightarrow> take_message x outcome fl'
            | ChannelEmpty \<Rightarrow> (y, fl') | Disconnected \<Rightarrow> disconnected fl'))"
  using assms
  by (auto simp: flight_stage_def receive_def take_message_def disconnected_def join_worker_def
      split: worker_state.splits option.splits prod.splits if_splits received.splits)

lemma stage_polled:
  assumes "flight_stage H ps m w fl" and "is_ready fl = (r, fl')"
  shows "flight_stage H ps m w fl'"
proof (cases "fl_outcome fl = None")
  case True
  obtain x fl1 where "receive fl = (x, fl1)" by (cases "receive fl")
  with stage_received [OF assms(1) True, of x fl1 True] assms(2) True show ?thesis
    by (auto simp: is_ready_def split: received.splits)
qed (use assms in \<open>simp add: is_ready_def\<close>)

lemma steps_outcome: "fl_outcome (worker_steps H ps n fl) = fl_outcome fl"
  by (induction n arbitrary: fl)
    (auto simp: run_snapshot_worker_def worker_materialize_def
      split: option.splits worker_state.splits prod.splits sum.splits)

lemma stage_waited:
  assumes "flight_stage H ps m w fl" and "wait_until H ps n fl = (r, fl')"
  shows "flight_stage H ps m w fl'"
proof (cases "fl_outcome fl = None")
  case True
  let ?fl = "worker_steps H ps n fl"
  obtain x fl1 where "receive ?fl = (x, fl1)" by (cases "receive ?fl")
  with stage_received [OF stage_steps [OF assms(1), of n], of x fl1 WaitReady] assms(2) True
  show ?thesis by (auto simp: wait_until_def steps_outcome split: received.splits)
qed (use assms in \<open>simp add: wait_until_def\<close>)

lemma in_flight_stage: "in_flight H ps m w fl \<Longrightarrow> flight_stage H ps m w fl"
proof (induction rule: in_flight.induct)
  case (launched fl)
  then show ?case by (auto simp: request_snapshot_with_def flight_stage_def)
next
  case (moved fl fl')
  from moved.hyps(2) moved.IH show ?case
    by cases (auto intro: stage_worker stage_polled stage_waited)
qed

lemma stage_holders:
  "flight_stage H ps m w fl \<Longrightarrow> holders fl = (if fl_worker fl = WorkerCrashed then 0 else 1)"
  by (auto simp: flight_stage_def holders_def split: worker_state.splits)

text \<open>Left to itself, the worker ends with the outcome sent or received, or crashed.\<close>

lemma stage_done:
  assumes "flight_stage H ps m w fl"
  shows "fl_worker (worker_finish H ps fl) = WorkerExited \<or> fl_worker (worker_finish H ps fl) = WorkerCrashed"
  using stage_finish [OF assms] worker_finish_ended [of H ps fl]
  by (auto simp: flight_stage_def run_snapshot_worker_def split: worker_state.splits option.splits)

lemma finish_outcome: "fl_outcome (worker_finish H ps fl) = fl_outcome fl"
proof (induction H ps fl rule: worker_finish.induct)
  case (1 H ps fl)
  show ?case
  proof (cases "run_snapshot_worker H ps fl")
    case (Some fl')
    then have "fl_outcome fl' = fl_outcome fl"
      by (auto simp: run_snapshot_worker_def worker_materialize_def
          split: option.splits worker_state.splits prod.splits sum.splits if_splits)
    with 1 [OF Some] Some show ?thesis by (subst worker_finish.simps) simp
  qed (subst worker_finish.simps, simp)
qed

lemma stage_recovered:
  assumes stage: "flight_stage H ps m w fl"
    and run: "materialize_snapshots_owned H ps m w = (Inr (snapshots, m'), w')" "\<not> worker_panicked snapshots"
  obtains fl' where "finish H ps fl = Some (Inr (m', snapshots), fl')" and "fl_world fl' = w'"
    and "\<not> fl_handle fl'"
proof (cases "fl_outcome fl")
  case (Some outcome)
  with stage have "fl_worker fl = WorkerExited"
    by (auto simp: flight_stage_def split: worker_state.splits)
  with stage Some run show thesis
    by (intro that [of "fl\<lparr>fl_outcome := None\<rparr>"])
      (auto simp: flight_stage_def finish_def finish_received_def join_worker_def)
next
  case None
  let ?fl = "worker_finish H ps fl"
  have at: "flight_stage H ps m w ?fl" by (rule stage_finish [OF stage])
  have "fl_worker ?fl \<noteq> WorkerCrashed" using at run by (auto simp: flight_stage_def)
  then have "fl_worker ?fl = WorkerExited" using stage_done [OF stage] by simp
  then have "fl_mail ?fl = Some (m', snapshots)" "fl_handle ?fl" "fl_world ?fl = w'"
    using at run finish_outcome [of H ps fl] None by (auto simp: flight_stage_def)
  then show thesis
    using \<open>fl_worker ?fl = WorkerExited\<close> None
    by (intro that [of "?fl\<lparr>fl_mail := None, fl_outcome := None, fl_handle := False\<rparr>"])
      (simp_all add: finish_def receive_blocking_def receive_def finish_received_def join_worker_def)
qed

end
