(* ===== verification/Properties_Workflow.thy ===== *)
theory Properties_Workflow
  imports Workflow_Lemmas Snapshot_Request Properties_Receipt
begin

text \<open>
  The properties of workflows: what is prepared, where a snapshot query points, what materializing
  leaves of the monitor, how a failed start ends and where the monitor of a background snapshot is.
\<close>

section \<open>Prepared workflows\<close>

text \<open>
  C12. A prepared workflow has one kdamond with one context of the requested operation; both of its
  configurations may run; they differ by the private counting scheme that follows the custom ones,
  and the target identities number the targets and name their processes.
\<close>

theorem prepared_workflow_shape:
  assumes "prepare_workflow ps options op ts u = Inr p"
  shows "\<exists>c. pw_base p = \<lparr>d_kdamonds = [\<lparr>k_refresh = wo_refresh options, k_contexts = [c]\<rparr>]\<rparr>
    \<and> pw_capability p = \<lparr>d_kdamonds = [\<lparr>k_refresh = wo_refresh options,
        k_contexts = [c\<lparr>c_schemes := c_schemes c @ [snapshot_query_scheme 0]\<rparr>]\<rparr>]\<rparr>
    \<and> DamonConfig_validate_runnable ps (pw_base p) = Inr ()
    \<and> DamonConfig_validate_runnable ps (pw_capability p) = Inr ()
    \<and> c_operation c = op \<and> c_unit c = u \<and> c_schemes c = wo_schemes options
    \<and> pw_snapshot_index p = length (c_schemes c) \<and> pw_custom_count p = length (c_schemes c)
    \<and> length (c_targets c) = length (pw_identities p) \<and> c_targets c \<noteq> []
    \<and> (\<forall>i < length (c_targets c). pw_identities p ! i
         = \<lparr>identity_target_index = i, identity_pid = target_pid (c_targets c ! i)\<rparr>)"
proof -
  obtain targets identities where ts: "workflow_targets (wo_initial_regions options) ts = (targets, identities)"
    by (cases "workflow_targets (wo_initial_regions options) ts")
  from assms workflow_targets_indexed [OF ts] show ?thesis
    by (auto simp: prepare_workflow_def and_then_Inr_iff ts push_schemes_def Let_def
        workflow_context_def ContextConfig_new_def)
qed

lemma counting_scheme_valid:
  "SchemeConfig_validate_for (snapshot_query_scheme 0) n = Inr ()"
  "SchemeConfig_validate_runnable_for (snapshot_query_scheme 0) PhysicalAddress n = Inr ()"
proof -
  show valid: "SchemeConfig_validate_for (snapshot_query_scheme 0) n = Inr ()"
    by (simp add: snapshot_query_scheme_def match_all_def scheme_checks sample_defs sample_token
        token_def byte_val_def ascii_whitespace_def)
  show "SchemeConfig_validate_runnable_for (snapshot_query_scheme 0) PhysicalAddress n = Inr ()"
    by (simp add: SchemeConfig_validate_runnable_for_def valid)
      (simp add: known_supported_def snapshot_query_scheme_def sample_defs)
qed

lemma other_schemes:
  "validate_weighted_probes (c\<lparr>c_schemes := ss\<rparr>) = validate_weighted_probes c"
  "validate_runnable_sample_control (c\<lparr>c_schemes := ss\<rparr>) = validate_runnable_sample_control c"
  "validate_runnable_targets (c\<lparr>c_schemes := ss\<rparr>) = validate_runnable_targets c"
proof -
  show "validate_weighted_probes (c\<lparr>c_schemes := ss\<rparr>) = validate_weighted_probes c"
    by (cases c, hypsubst) (unfold validate_weighted_probes_def context_config.simps, rule refl)
  show "validate_runnable_sample_control (c\<lparr>c_schemes := ss\<rparr>) = validate_runnable_sample_control c"
    by (cases c, hypsubst) (unfold validate_runnable_sample_control_def context_config.simps, rule refl)
  show "validate_runnable_targets (c\<lparr>c_schemes := ss\<rparr>) = validate_runnable_targets c"
    by (cases c, hypsubst)
      (unfold validate_runnable_targets_def retained_targets_def context_config.simps, rule refl)
qed

definition sample_options :: workflow_options where
  "sample_options =
     (WorkflowOptions_new sample_paths)
       \<lparr>wo_initial_regions := target_regions sample_target,
        wo_probes := c_probes sample_context, wo_schemes := [sample_scheme]\<rparr>"

lemma sample_prepared:
  "\<exists>p. prepare_workflow 4096 sample_options PhysicalAddress [] AddressUnit_ONE = Inr p
     \<and> pw_base p = sample_damon"
proof -
  let ?c = "sample_context\<lparr>c_schemes := [sample_scheme, snapshot_query_scheme 0]\<rparr>"
  let ?d = "\<lparr>d_kdamonds = [\<lparr>k_refresh = 0, k_contexts = [?c]\<rparr>]\<rparr>"
  have base: "workflow_context sample_options PhysicalAddress AddressUnit_ONE MonitoringIntervals_default
      RegionBounds_default [sample_target] = sample_context"
    by (simp add: workflow_context_def sample_options_def WorkflowOptions_new_def sample_defs)
  have fields: "c_schemes sample_context = [sample_scheme]" "c_operation ?c = PhysicalAddress"
      "c_operation sample_context = PhysicalAddress"
      "minimum_region_units ps op (c_unit ?c) = minimum_region_units ps op (c_unit sample_context)"
      "retained_targets ?c = retained_targets sample_context" for ps op
    by (simp_all add: sample_context_def ContextConfig_new_def retained_targets_def)
  have valid: "ContextConfig_validate 4096 ?c = Inr ()"
    using sample_context_checks
    by (simp add: ContextConfig_validate_def and_then_Inr_iff fields counting_scheme_valid
        KERNEL_INDEX_MAX_def validate_operation_unit_def sample_token)
  moreover have "validate_weighted_probes ?c = validate_weighted_probes sample_context"
      "validate_runnable_sample_control ?c = validate_runnable_sample_control sample_context"
      "validate_runnable_targets ?c = validate_runnable_targets sample_context"
    by (simp_all only: other_schemes)
  ultimately have "ContextConfig_validate_runnable 4096 ?c = Inr ()"
    using sample_context_valid
    unfolding ContextConfig_validate_runnable_def runnable_lifecycle_Inr_iff
    by (simp add: counting_scheme_valid fields)
  then have "DamonConfig_validate_runnable 4096 ?d = Inr ()"
    using valid
    by (simp add: DamonConfig_validate_runnable_def DamonConfig_runnable_Inr_iff DamonConfig_validate_def
        KdamondConfig_validate_def and_then_Inr_iff exact_refresh_millis_Inr_iff KERNEL_INDEX_MAX_def
        unat_eq_zero ContextConfig_validate_runnable_def)
  moreover have "MonitoringIntervals_new (wo_sample sample_options) (wo_aggregation sample_options)
      (wo_update sample_options) = Inr MonitoringIntervals_default"
    by (simp add: MonitoringIntervals_new_Inr_iff sample_options_def WorkflowOptions_new_def
        valid_intervals_def MonitoringIntervals_default_def)
  moreover have "RegionBounds_new (wo_min_regions sample_options) (wo_max_regions sample_options)
      = Inr RegionBounds_default"
    by (simp add: RegionBounds_new_def sample_options_def WorkflowOptions_new_def RegionBounds_default_def)
  moreover have "workflow_targets (wo_initial_regions sample_options) []
      = ([sample_target], [\<lparr>identity_target_index = 0, identity_pid = None\<rparr>])"
    by (simp add: workflow_targets_def sample_options_def WorkflowOptions_new_def
        TargetConfig_address_space_def sample_target_def)
  moreover have "wo_schemes sample_options = [sample_scheme]" "wo_refresh sample_options = 0"
    by (simp_all add: sample_options_def WorkflowOptions_new_def)
  ultimately show ?thesis
    using sample_valid
    by (simp add: prepare_workflow_def and_then_def base push_schemes_def sample_damon_def fields)
qed

theorem prepared_workflow_shape_witness:
  "\<exists>p. prepare_workflow 4096 sample_options PhysicalAddress [] AddressUnit_ONE = Inr p
     \<and> pw_snapshot_index p = 1 \<and> DamonConfig_validate_runnable 4096 (pw_capability p) = Inr ()"
proof -
  obtain p where p: "prepare_workflow 4096 sample_options PhysicalAddress [] AddressUnit_ONE = Inr p"
    using sample_prepared by blast
  with prepared_workflow_shape [OF p] show ?thesis
    by (auto simp: sample_options_def)
qed



section \<open>Materializing\<close>

lemma query_on_demand_wp:
  assumes "mo_query m = QueryOnDemand base query ds installed"
  shows "mwp (query_on_demand H ps (mo_unit m) base query ds installed) m (queried m)"
proof -
  let ?q = "\<lambda>b. QueryOnDemand base query ds b"
  let ?kept = "\<lambda>m'. kept_monitor m m' \<and> mo_cached m' = mo_cached m \<and> mo_unit m' = mo_unit m"
  have restore: "mwp (restore_after_query (ho_sysfs H) ps base query ds operation) m' (queried m)"
    if "?kept m'" "mo_query m' = ?q True" "\<forall>xs. operation = Inr xs \<longrightarrow> scoped_as (mo_unit m) ds xs"
    for operation m'
    by (rule mwp_mono [OF restore_after_query_wp]) (use that in \<open>auto intro: queried_trans\<close>)
  have run: "mwp (mcatch (on_session (materialize_scoped_snapshots H ds (mo_unit m))) (\<lambda>operation.
       case operation of
         Inl e \<Rightarrow>
           if is_ownership_lost e then mfail e
           else restore_after_query (ho_sysfs H) ps base query ds operation
       | Inr _ \<Rightarrow> restore_after_query (ho_sysfs H) ps base query ds operation)) m' (queried m)"
    if kept: "?kept m'" and "mo_query m' = ?q True" for m'
  proof (rule mwp_mcatch, rule mwp_mono [OF materialize_on_session_wp])
    fix r :: "scoped_snapshot list result" and m''
    assume "(\<exists>s'. m'' = m'\<lparr>mo_session := s'\<rparr> \<and> same_session (mo_session m') s')
        \<and> (\<forall>xs. r = Inr xs \<longrightarrow> scoped_as (mo_unit m) ds xs)"
    then obtain s' where m'': "m'' = m'\<lparr>mo_session := s'\<rparr>" "same_session (mo_session m') s'"
      and scoped: "\<forall>xs. r = Inr xs \<longrightarrow> scoped_as (mo_unit m) ds xs" by auto
    then have "?kept m''" "mo_query m'' = ?q True"
      using that by (auto simp: kept_monitor_def intro: same_session_trans)
    with scoped show "mwp (case r of
         Inl e \<Rightarrow>
           if is_ownership_lost e then mfail e
           else restore_after_query (ho_sysfs H) ps base query ds r
       | Inr _ \<Rightarrow> restore_after_query (ho_sysfs H) ps base query ds r) m'' (queried m)"
      by (auto split: sum.split intro!: restore mwp_mfail simp: queried_def)
  qed
  show ?thesis
  proof (cases installed)
    case True
    then show ?thesis
      unfolding query_on_demand_def
      by (intro mwp_mbind) (auto intro!: mwp_mret run simp: assms)
  next
    case False
    show ?thesis
      unfolding query_on_demand_def
      by (simp only: False if_False, intro mwp_mbind, rule mwp_mono [OF update_on_session_wp])
        (auto split: sum.split intro!: mwp_mbind mwp_set_query run
          simp: queried_def kept_monitor_def assms)
  qed
qed

lemma run_query_wp: "mwp (run_query H ps) m (queried m)"
proof (rule mwp_enter)
  show "mwp (\<lambda>_. run_query H ps m) m (queried m)"
  proof (cases "mo_session m")
    case None
    then show ?thesis
      by (simp add: run_query_def, intro mwp_leave mwp_mfail) (simp add: queried_def)
  next
    case (Some ow)
    show ?thesis
    proof (cases "mo_query m")
      case QueryUnsupported
      with Some show ?thesis
        by (simp add: run_query_def, intro mwp_leave mwp_mfail) (simp add: queried_def)
    next
      case (QueryPermanent ds)
      with Some show ?thesis
        by (simp add: run_query_def, intro mwp_leave mwp_mono [OF materialize_on_session_wp])
          (auto simp: queried_def kept_monitor_def)
    next
      case (QueryOnDemand base query ds installed)
      with Some show ?thesis
        by (simp add: run_query_def, intro mwp_leave query_on_demand_wp)
    qed
  qed
qed


section \<open>Starting\<close>

lemma prepare_snapshot_query_total: "prepare_snapshot_query E ps base ids interval q w \<noteq> (Inl e, w')"
proof -
  have "mwp (mbind (if b then isolated_query E ps base ids i else ungrouped_query base ids i)
      (\<lambda>(query, ds). mbind (stage_snapshot_query E ps initial base query ds) (\<lambda>snapshot_query.
        mret (snapshot_query, maximum_effective_apply_interval query)))) q (\<lambda>_ _. True)" for b i initial
    by (rule mwp_mbind)
      (auto split: sum.split prod.split intro!: mwp_mbind mwp_mono [OF isolated_query_wp]
        mwp_mono [OF ungrouped_query_wp] mwp_mono [OF stage_snapshot_query_wp] mwp_mret)
  from mwp_total [OF this] show ?thesis
    by (simp add: prepare_snapshot_query_def Let_def)
qed

lemma check_and_start_closed: "fails_closed V (snd ow) (check_and_start V ps p op u ow)"
proof -
  have closed: "fails_closed V fd (close_failed V (s', fd) e)" for s' fd e
    using close_failed_closed [of V "(s', fd)" e] by simp
  have start: "fails_closed V fd (start_prepared V p op u (s', fd) capabilities query)"
    for s' fd capabilities query
    using start_prepared_closed [of V "(s', fd)"] by simp
  have "fails_closed V (snd ow) (query_and_start V ps p op u ow capabilities)" for capabilities
    unfolding query_and_start_def
    by (rule fails_closed_total [OF prepare_snapshot_query_total])
      (auto split: prod.split sum.split intro: closed start)
  then show ?thesis
    unfolding check_and_start_def
    by (intro fails_closed_stry) (auto split: sum.split intro: close_failed_closed)
qed

lemma lock_into_opens:
  assumes "lock_into V p m w = (r, w')"
  shows "(\<exists>e x. r = Inl e \<and> os_open_lock V p (w_kernel w) = (Inl x, w_kernel w'))
    \<or> (\<exists>fd k. os_open_lock V p (w_kernel w) = (Inr fd, k)
        \<and> (case r of Inr (_, fd') \<Rightarrow> fd' = fd | Inl _ \<Rightarrow> \<exists>k'. w_kernel w' = os_close V fd k'))"
  using assms
  by (auto simp: lock_into_def SessionLock_acquire_def sbind_def stry_def call_def syscall_def slift_def
      flock_call_def SessionLock_drop_def sret_def sfail_def io_fail_def split: prod.splits sum.splits if_splits)

text \<open>
  C13. A workflow that fails to start has closed the lock file it opened, with its last system call,
  wherever it failed; it also fails when the lock file cannot be opened, and then nothing follows.
\<close>

theorem failed_start_closes_lock:
  assumes "start_workflow V ps options op ts u w = (Inl e, w')"
    and "prepare_workflow ps options op ts u = Inr p"
  shows "(\<exists>x. os_open_lock V (dm_lock_path (wo_damon options)) (w_kernel w) = (Inl x, w_kernel w'))
    \<or> (\<exists>fd k k'. os_open_lock V (dm_lock_path (wo_damon options)) (w_kernel w) = (Inr fd, k)
        \<and> w_kernel w' = os_close V fd k')"
proof -
  let ?d = "wo_damon options" and ?c = "pw_capability p"
  let ?stage = "sbind (stage_validated_configuration_locked (os_sysfs V) (dm_admin ?d) ?c) (\<lambda>staged.
            ManagedHierarchy_new (os_sysfs V) (dm_admin ?d) staged ?c)"
  have "DamonConfig_validate_runnable ps ?c = Inr ()" "exclusive_kdamond ?c = Inr ()"
    using prepared_workflow_shape [OF assms(2)] by (auto simp: exclusive_kdamond_def)
  then have session: "Damon_exclusive_session V ps ?d ?c w = lock_into V (dm_lock_path ?d) ?stage w"
    by (simp add: Damon_exclusive_session_def Damon_managed_hierarchy_def sbind_def slift_def)
  obtain r w1 where run: "lock_into V (dm_lock_path ?d) ?stage w = (r, w1)"
    by (cases "lock_into V (dm_lock_path ?d) ?stage w")
  show ?thesis
  proof (cases r)
    case (Inl e')
    with assms run session have "w' = w1"
      by (simp add: start_workflow_def sbind_def slift_def stry_def sfail_def)
    with lock_into_opens [OF run] Inl show ?thesis by auto
  next
    case (Inr ow)
    with assms run session have fails: "check_and_start V ps p op u ow w1 = (Inl e, w')"
      by (simp add: start_workflow_def sbind_def slift_def stry_def)
    with check_and_start_closed [of V ow ps p op u] obtain k' where "w_kernel w' = os_close V (snd ow) k'"
      unfolding fails_closed_def by blast
    with lock_into_opens [OF run] Inr show ?thesis by auto
  qed
qed

theorem failed_start_closes_lock_witness:
  "\<exists>k'. w_kernel (snd (start_workflow (sample_process False) 4096 sample_options PhysicalAddress []
       AddressUnit_ONE empty_world)) = os_close (sample_process False) 3 k'"
proof -
  obtain p where p: "prepare_workflow 4096 sample_options PhysicalAddress [] AddressUnit_ONE = Inr p"
    using sample_prepared by blast
  have valid: "DamonConfig_validate_runnable 4096 (pw_capability p) = Inr ()"
      "exclusive_kdamond (pw_capability p) = Inr ()"
    using prepared_workflow_shape [OF p] by (auto simp: exclusive_kdamond_def)
  have held: "lock_held (sample_process False) (dm_lock_path sample_paths) (w_kernel empty_world) 3
      (w_kernel empty_world)"
    by (simp add: lock_held_def sample_process_def)
  have "\<exists>e w'. start_workflow (sample_process False) 4096 sample_options PhysicalAddress []
       AddressUnit_ONE empty_world = (Inl e, w')"
    using p valid
    by (simp add: lock_refused [OF held] start_workflow_def Damon_exclusive_session_def Damon_managed_hierarchy_def sbind_def
        slift_def stry_def sfail_def sample_options_def WorkflowOptions_new_def)
  then obtain e w' where run: "start_workflow (sample_process False) 4096 sample_options PhysicalAddress []
       AddressUnit_ONE empty_world = (Inl e, w')" by blast
  from failed_start_closes_lock [OF run p] show ?thesis
    by (auto simp: run sample_process_def)
qed

section \<open>Snapshots in the background\<close>

text \<open>
  C24. While a snapshot request is in flight, whatever the worker has done and however it was
  polled, the monitor is in exactly one place: on its way to the worker, with the worker, on its way
  back or with the request. Only a worker that panicked has lost it.
\<close>

theorem monitor_in_one_place:
  assumes "in_flight H ps m w fl"
  shows "holders fl = (if fl_worker fl = WorkerCrashed then 0 else 1)"
  by (rule stage_holders [OF in_flight_stage [OF assms]])

definition sample_host :: "(path \<times> string) list host" where
  "sample_host =
     \<lparr>ho_process = sample_process True, ho_system_time = (\<lambda>k. (0, k)), ho_instant = (\<lambda>k. (0, k))\<rparr>"

definition sample_monitor :: monitor where
  "sample_monitor =
     \<lparr>mo_session = Some (sample_owner [Running \<lparr>pid_raw = 77\<rparr>], 3),
      mo_capabilities = \<lparr>cap_operations = [], cap_features = [], cap_attribute_paths = []\<rparr>,
      mo_capacity_hint = 10, mo_operation = PhysicalAddress, mo_unit = AddressUnit_ONE,
      mo_query = QueryUnsupported, mo_custom_count = 1, mo_maximum_apply = 0, mo_refresh = 0,
      mo_cached = []\<rparr>"

lemma sample_flight:
  "\<exists>fl. in_flight sample_host 4096 sample_monitor empty_world fl \<and> fl_worker fl = WorkerHolding sample_monitor"
proof -
  obtain fl where start: "request_snapshot_with Spawned sample_monitor empty_world = Inr fl"
    by (simp add: request_snapshot_with_def)
  then have "run_snapshot_worker sample_host 4096 fl
      = Some (fl\<lparr>fl_inbox := None, fl_worker := WorkerHolding sample_monitor\<rparr>)"
    by (auto simp: request_snapshot_with_def run_snapshot_worker_def)
  then have "in_flight sample_host 4096 sample_monitor empty_world
      (fl\<lparr>fl_inbox := None, fl_worker := WorkerHolding sample_monitor\<rparr>)"
    by (intro in_flight.moved [OF in_flight.launched [OF start]] step_worker)
  then show ?thesis by (intro exI) auto
qed

theorem monitor_in_one_place_witness:
  "\<exists>fl. in_flight sample_host 4096 sample_monitor empty_world fl \<and> holders fl = 1"
proof -
  obtain fl where fl: "in_flight sample_host 4096 sample_monitor empty_world fl"
    "fl_worker fl = WorkerHolding sample_monitor" using sample_flight by blast
  with monitor_in_one_place [OF fl(1)] show ?thesis by auto
qed

lemma materialize_owned_total:
  "\<exists>r m' w'. materialize_snapshots_owned H ps m w = (Inr (r, m'), w')"
proof -
  have "mwp (materialize_snapshots_owned H ps) m (\<lambda>_ _. True)"
    unfolding materialize_snapshots_owned_def materialize_snapshots_def
    by (intro mwp_mbind, rule mwp_mono [OF run_query_wp])
      (auto split: sum.split intro!: mwp_mbind mwp_set_cached_snapshots mwp_mret
        simp: mwp_def [of take_cached_snapshots] take_cached_snapshots_def sret_def)
  then show ?thesis by (auto simp: mwp_def)
qed

text \<open>
  C7. A request can always be finished: at any time, after any polls, finishing returns the monitor
  and the result of materializing with it from the state of the world at the request, and it fails
  only when the worker panicked.
\<close>

theorem request_always_finishes:
  assumes "in_flight H ps m w fl"
  shows "\<exists>snapshots m' w' fl'. materialize_snapshots_owned H ps m w = (Inr (snapshots, m'), w')
    \<and> (if worker_panicked snapshots then finish H ps fl = Some (Inl SnapshotWorkerDisconnected, fl')
       else finish H ps fl = Some (Inr (m', snapshots), fl') \<and> fl_world fl' = w')"
proof -
  note stage = in_flight_stage [OF assms]
  obtain snapshots m' w' where run: "materialize_snapshots_owned H ps m w = (Inr (snapshots, m'), w')"
    using materialize_owned_total by blast
  show ?thesis
  proof (cases "worker_panicked snapshots")
    case False
    with stage_recovered [OF stage run] run show ?thesis by (metis (no_types, lifting))
  next
    case True
    let ?fl = "worker_finish H ps fl"
    have "flight_stage H ps m w ?fl" by (rule stage_finish [OF stage])
    with stage_done [OF stage] run True have crashed: "fl_worker ?fl = WorkerCrashed" "fl_mail ?fl = None"
        "fl_outcome ?fl = None"
      by (auto simp: flight_stage_def)
    then have "finish H ps fl = Some (Inl SnapshotWorkerDisconnected, ?fl)"
      using finish_outcome [of H ps fl] by (simp add: finish_def receive_blocking_def receive_def)
    with run True show ?thesis by auto
  qed
qed

theorem request_always_finishes_witness:
  "\<exists>fl fl'. in_flight sample_host 4096 sample_monitor empty_world fl
     \<and> finish sample_host 4096 fl
         = Some (Inr (sample_monitor, Inl (UnsupportedFeature ''DAMOS tried-region queries'')), fl')"
proof -
  obtain fl where fl: "in_flight sample_host 4096 sample_monitor empty_world fl" using sample_flight by blast
  have "materialize_snapshots_owned sample_host 4096 sample_monitor empty_world
      = (Inr (Inl (UnsupportedFeature ''DAMOS tried-region queries''), sample_monitor), empty_world)"
    by (simp add: materialize_snapshots_owned_def materialize_snapshots_def run_query_def sample_monitor_def
        mbind_def mcatch_def sbind_def mfail_def sret_def)
  with request_always_finishes [OF fl] show ?thesis
    using fl by (auto simp: worker_panicked_def)
qed

end
