(* ===== verification/Backend_State.thy ===== *)
theory Backend_State
  imports Sysfs_IO
begin

text \<open>
  \<^verbatim>\<open>src/src/sysfs/test_backend/state.rs\<close>: the in-memory DAMON kernel of the unit tests. This theory
  holds its state and the directories it creates; paths are relative to the administration
  directory, and the ordered map of nodes is a list sorted by path. Operations that can fail
  return a fault beside the state they leave: an error of the kernel, or a panic of the model.
\<close>

section \<open>Ordered maps and faults\<close>

type_synonym 'a btree = "(path \<times> 'a) list"

fun bt_insert :: "path \<Rightarrow> 'a \<Rightarrow> 'a btree \<Rightarrow> 'a btree" where
  "bt_insert p v [] = [(p, v)]"
| "bt_insert p v ((q, w) # t) =
     (if p = q then (p, v) # t
      else if p < q then (p, v) # (q, w) # t
      else (q, w) # bt_insert p v t)"

definition bt_retain :: "(path \<Rightarrow> bool) \<Rightarrow> 'a btree \<Rightarrow> 'a btree" where
  "bt_retain keep t = filter (\<lambda>e. keep (fst e)) t"

definition bt_extend :: "(path \<times> 'a) list \<Rightarrow> 'a btree \<Rightarrow> 'a btree" where
  "bt_extend es t = fold (\<lambda>e. bt_insert (fst e) (snd e)) es t"

lemma map_of_bt_insert [simp]: "map_of (bt_insert p v t) = (map_of t)(p \<mapsto> v)"
  by (induction t) (auto simp: fun_eq_iff)

lemma map_of_bt_retain [simp]:
  "map_of (bt_retain keep t) p = (if keep p then map_of t p else None)"
  by (induction t) (auto simp: bt_retain_def)

lemma map_of_bt_extend: "map_of (bt_extend es t) = map_of t ++ map_of (rev es)"
  by (induction es arbitrary: t) (auto simp: bt_extend_def fun_eq_iff map_add_def split: option.splits)

datatype fault = Fault io_error | Panic string

type_synonym 'a faulty = "fault + 'a"

definition simple_error :: "io_kind \<Rightarrow> io_error" where
  "simple_error k = KindError k ''''"

definition errno :: "int \<Rightarrow> 'a faulty" where
  "errno code = Inl (Fault (OsError code))"

definition not_found :: "path \<Rightarrow> io_error" where
  "not_found p = KindError NotFound (''modeled sysfs path '' @ path_text p @ '' does not exist'')"

definition text_ends_with :: "string \<Rightarrow> string \<Rightarrow> bool" where
  "text_ends_with s t \<longleftrightarrow> drop (length s - length t) s = t"

text \<open>\<open>str::lines\<close>: a carriage return before the newline is not part of the line.\<close>

definition strip_return :: "string \<Rightarrow> string" where
  "strip_return s = (if s \<noteq> [] \<and> last s = CHR 0x0D then butlast s else s)"

fun lines_from :: "string \<Rightarrow> string \<Rightarrow> string list" where
  "lines_from line [] = (if line = [] then [] else [line])"
| "lines_from line (c # s) =
     (if c = CHR 0x0A then strip_return line # lines_from [] s else lines_from (line @ [c]) s)"

definition listed_value_contains :: "string \<Rightarrow> string \<Rightarrow> bool faulty" where
  "listed_value_contains listed requested =
     (if \<not> utf8_valid listed then Inl (Panic ''modeled capability values are UTF-8'')
      else Inr (\<exists>line\<in>set (lines_from [] listed). trim line = requested))"

section \<open>The state\<close>

datatype node = Directory | File string

record model_region =
  mr_start :: u64
  mr_end :: u64
  mr_accesses :: u32
  mr_age :: u32
  mr_passed :: "u64 option"
  mr_hits :: "u8 list"

record model_stats =
  ms_nr_tried :: u64
  ms_sz_tried :: u64
  ms_nr_applied :: u64
  ms_sz_applied :: u64
  ms_sz_passed :: u64
  ms_exceeds :: u64
  ms_snapshots :: u64

datatype mutation = SetFile path string | RemoveTree path | StartKdamond path

datatype hook_event = HookRead path | HookWrite path string

record hook =
  hk_event :: hook_event
  hk_mutations :: "mutation list"

record write_failure =
  wf_path :: path
  wf_errno :: int

record backend =
  be_nodes :: "node btree"
  be_extensions :: "string btree"
  be_available :: string
  be_recognized :: string
  be_expose_available :: bool
  be_expose_current :: bool
  be_expose_effective :: bool
  be_scheme_filters :: string
  be_probe_filters :: string
  be_actions :: string
  be_metrics :: string
  be_preparations :: string
  be_active :: "string btree option"
  be_next_pid :: u32
  be_regions :: "model_region list"
  be_stats :: "model_stats list"
  be_quotas :: "u64 list"
  be_hooks :: "hook list"
  be_failures :: "write_failure list"
  be_reads :: usize
  be_writes :: usize

abbreviation lookup :: "backend \<Rightarrow> path \<Rightarrow> node option" where
  "lookup st p \<equiv> map_of (be_nodes st) p"

definition directory :: "path \<Rightarrow> backend \<Rightarrow> backend" where
  "directory p st = st\<lparr>be_nodes := bt_insert p Directory (be_nodes st)\<rparr>"

definition State_file :: "path \<Rightarrow> string \<Rightarrow> backend \<Rightarrow> backend" where
  "State_file p v st = st\<lparr>be_nodes := bt_insert p (File v) (be_nodes st)\<rparr>"

definition retain_nodes :: "(path \<Rightarrow> bool) \<Rightarrow> backend \<Rightarrow> backend" where
  "retain_nodes keep st = st\<lparr>be_nodes := bt_retain keep (be_nodes st)\<rparr>"

definition remove_tree :: "path \<Rightarrow> backend \<Rightarrow> backend" where
  "remove_tree p = retain_nodes (\<lambda>q. q \<noteq> p \<and> \<not> starts_with q p)"

definition indexed_below :: "path \<Rightarrow> path \<Rightarrow> bool" where
  "indexed_below dir p =
     (case strip_prefix dir p of
        Some (c # _) \<Rightarrow> utf8_valid (component_text c) \<and> parse_usize (component_text c) \<noteq> None
      | _ \<Rightarrow> False)"

definition remove_indexed_children :: "path \<Rightarrow> backend \<Rightarrow> backend" where
  "remove_indexed_children dir = retain_nodes (\<lambda>q. \<not> indexed_below dir q)"

definition restore_extension_file :: "path \<times> string \<Rightarrow> backend \<Rightarrow> backend" where
  "restore_extension_file e st =
     (case parent (fst e) of
        Some dir \<Rightarrow> if lookup st dir = Some Directory then State_file (fst e) (snd e) st else st
      | None \<Rightarrow> st)"

definition restore_extension_files :: "backend \<Rightarrow> backend" where
  "restore_extension_files st = fold restore_extension_file (be_extensions st) st"

text \<open>The constant lists, one entry per line.\<close>

definition listing :: "string list \<Rightarrow> string" where
  "listing names = concat (map (\<lambda>s. s @ newline) names)"

definition empty_backend :: "string \<Rightarrow> string \<Rightarrow> bool \<Rightarrow> backend" where
  "empty_backend available recognized expose =
     \<lparr>be_nodes = [], be_extensions = [], be_available = available, be_recognized = recognized,
      be_expose_available = expose, be_expose_current = False, be_expose_effective = True,
      be_scheme_filters = listing [''anon'', ''memcg'', ''young'', ''addr'', ''target'',
        ''hugepage_size'', ''unmapped'', ''active''],
      be_probe_filters = listing [''anon'', ''memcg''],
      be_actions = listing [''willneed'', ''cold'', ''pageout'', ''hugepage'', ''nohugepage'',
        ''collapse'', ''lru_prio'', ''lru_deprio'', ''migrate_hot'', ''migrate_cold'', ''stat''],
      be_metrics = listing [''user_input'', ''some_mem_psi_us'', ''node_mem_used_bp'',
        ''node_mem_free_bp'', ''node_memcg_used_bp'', ''node_memcg_free_bp'', ''active_mem_bp'',
        ''inactive_mem_bp'', ''node_eligible_mem_bp''],
      be_preparations = listing [''set_pgidle''],
      be_active = None, be_next_pid = 10000, be_regions = [], be_stats = [], be_quotas = [],
      be_hooks = [], be_failures = [], be_reads = 0, be_writes = 0\<rparr>"

definition State_new :: "string \<Rightarrow> string \<Rightarrow> bool \<Rightarrow> backend" where
  "State_new available recognized expose =
     State_file (sub [] [''kdamonds'', ''nr_kdamonds'']) (''0'' @ newline)
       (directory (sub [] [''kdamonds'']) (directory [] (empty_backend available recognized expose)))"

section \<open>The directories the kernel creates\<close>

text \<open>Nodes made in one go: \<open>made\<close> adds them in order; \<open>mkfile\<close> and \<open>mkdir\<close> name them below a base.\<close>

definition made :: "(path \<times> node) list \<Rightarrow> backend \<Rightarrow> backend" where
  "made es st = st\<lparr>be_nodes := bt_extend es (be_nodes st)\<rparr>"

abbreviation mkfile :: "path \<Rightarrow> string list \<Rightarrow> string \<Rightarrow> path \<times> node" where
  "mkfile b names v \<equiv> (sub b names, File (v @ newline))"

abbreviation mkdir :: "path \<Rightarrow> string list \<Rightarrow> path \<times> node" where
  "mkdir b names \<equiv> (sub b names, Directory)"

definition zeros :: "path \<Rightarrow> string list \<Rightarrow> string list \<Rightarrow> (path \<times> node) list" where
  "zeros b names files = map (\<lambda>f. mkfile b (names @ [f]) ''0'') files"

definition create_kdamond :: "nat \<Rightarrow> backend \<Rightarrow> backend" where
  "create_kdamond i =
     (let b = child (sub [] [''kdamonds'']) i in
      made [mkdir b [], mkfile b [''state''] ''off'', mkfile b [''pid''] ''-1'', mkfile b [''refresh_ms''] ''0'',
            mkdir b [''contexts''], mkfile b [''contexts'', ''nr_contexts''] ''0''])"

definition context_attribute_nodes :: "path \<Rightarrow> (path \<times> node) list" where
  "context_attribute_nodes b =
     [mkfile b [''operations''] ''vaddr'', mkfile b [''addr_unit''] ''1'', mkfile b [''pause''] ''N'',
      mkdir b [''monitoring_attrs''], mkdir b [''monitoring_attrs'', ''intervals''],
      mkfile b [''monitoring_attrs'', ''intervals'', ''sample_us''] ''5000'',
      mkfile b [''monitoring_attrs'', ''intervals'', ''aggr_us''] ''100000'',
      mkfile b [''monitoring_attrs'', ''intervals'', ''update_us''] ''60000000'',
      mkdir b [''monitoring_attrs'', ''intervals'', ''intervals_goal'']]
     @ zeros b [''monitoring_attrs'', ''intervals'', ''intervals_goal'']
         [''access_bp'', ''aggrs'', ''min_sample_us'', ''max_sample_us'']
     @ [mkdir b [''monitoring_attrs'', ''nr_regions''],
        mkfile b [''monitoring_attrs'', ''nr_regions'', ''min''] ''10'',
        mkfile b [''monitoring_attrs'', ''nr_regions'', ''max''] ''1000'',
        mkdir b [''monitoring_attrs'', ''probes''],
        mkfile b [''monitoring_attrs'', ''probes'', ''nr_probes''] ''0'']"

definition current_extension_nodes :: "path \<Rightarrow> (path \<times> node) list" where
  "current_extension_nodes b =
     [mkdir b [''operations_attrs''], mkfile b [''operations_attrs'', ''use_reports''] ''N'',
      mkfile b [''operations_attrs'', ''write_only''] ''N'',
      mkfile b [''operations_attrs'', ''cpus''] ''all'', mkfile b [''operations_attrs'', ''tids''] '''',
      mkdir b [''monitoring_attrs'', ''sample''], mkdir b [''monitoring_attrs'', ''sample'', ''primitives''],
      mkfile b [''monitoring_attrs'', ''sample'', ''primitives'', ''page_table''] ''Y'',
      mkfile b [''monitoring_attrs'', ''sample'', ''primitives'', ''page_fault''] ''N'',
      mkdir b [''monitoring_attrs'', ''sample'', ''filters''],
      mkfile b [''monitoring_attrs'', ''sample'', ''filters'', ''nr_filters''] ''0'']"

definition create_context :: "path \<Rightarrow> nat \<Rightarrow> backend \<Rightarrow> backend" where
  "create_context base i st =
     (let b = child base i in
      made ([mkdir b []]
        @ (if be_expose_available st then [(sub b [''avail_operations''], File (be_available st))] else [])
        @ context_attribute_nodes b
        @ (if be_expose_current st then current_extension_nodes b else [])
        @ [mkdir b [''targets''], mkfile b [''targets'', ''nr_targets''] ''0'',
           mkdir b [''schemes''], mkfile b [''schemes'', ''nr_schemes''] ''0'']) st)"

definition create_target :: "path \<Rightarrow> nat \<Rightarrow> backend \<Rightarrow> backend" where
  "create_target base i =
     (let b = child base i in
      made [mkdir b [], mkfile b [''pid_target''] ''0'', mkfile b [''obsolete_target''] ''N'',
            mkdir b [''regions''], mkfile b [''regions'', ''nr_regions''] ''0''])"

definition create_target_region :: "path \<Rightarrow> nat \<Rightarrow> backend \<Rightarrow> backend" where
  "create_target_region base i =
     (let b = child base i in made [mkdir b [], mkfile b [''start''] ''0'', mkfile b [''end''] ''0''])"

definition pattern_nodes :: "path \<Rightarrow> (path \<times> node) list" where
  "pattern_nodes b =
     concat (map (\<lambda>r. [mkdir b [''access_pattern'', r],
         mkfile b [''access_pattern'', r, ''min''] ''0'', mkfile b [''access_pattern'', r, ''max''] ''0''])
       [''sz'', ''nr_accesses'', ''age''])"

definition quota_nodes :: "bool \<Rightarrow> path \<Rightarrow> (path \<times> node) list" where
  "quota_nodes effective b =
     [mkdir b [''quotas'']]
     @ zeros b [''quotas''] [''ms'', ''bytes'', ''reset_interval_ms'', ''fail_charge_num'', ''fail_charge_denom'']
     @ (if effective then [mkfile b [''quotas'', ''effective_bytes''] ''0''] else [])
     @ [mkfile b [''quotas'', ''goal_tuner''] ''consist'', mkdir b [''quotas'', ''weights'']]
     @ zeros b [''quotas'', ''weights''] [''sz_permil'', ''nr_accesses_permil'', ''age_permil'']
     @ [mkdir b [''quotas'', ''goals''], mkfile b [''quotas'', ''goals'', ''nr_goals''] ''0'']"

definition scheme_child_nodes :: "path \<Rightarrow> (path \<times> node) list" where
  "scheme_child_nodes b =
     [mkdir b [''watermarks''], mkfile b [''watermarks'', ''metric''] ''none'']
     @ zeros b [''watermarks''] [''interval_us'', ''high'', ''mid'', ''low'']
     @ concat (map (\<lambda>filters. [mkdir b [filters], mkfile b [filters, ''nr_filters''] ''0''])
         [''core_filters'', ''ops_filters'', ''filters''])
     @ [mkdir b [''dests''], mkfile b [''dests'', ''nr_dests''] ''0'', mkdir b [''stats'']]
     @ zeros b [''stats''] [''nr_tried'', ''sz_tried'', ''nr_applied'', ''sz_applied'',
         ''sz_ops_filter_passed'', ''qt_exceeds'', ''nr_snapshots'', ''max_nr_snapshots'']
     @ [mkdir b [''tried_regions''], mkfile b [''tried_regions'', ''total_bytes''] ''0'']"

definition create_scheme :: "path \<Rightarrow> nat \<Rightarrow> backend \<Rightarrow> backend" where
  "create_scheme base i st =
     (let b = child base i in
      made ([mkdir b [], mkfile b [''action''] ''stat'', mkfile b [''target_nid''] ''-1'',
             mkfile b [''apply_interval_us''] ''0'', mkdir b [''access_pattern'']]
        @ pattern_nodes b @ quota_nodes (be_expose_effective st) b @ scheme_child_nodes b) st)"

definition create_probe :: "path \<Rightarrow> nat \<Rightarrow> backend \<Rightarrow> backend" where
  "create_probe base i st =
     (let b = child base i in
      made ([mkdir b [], mkdir b [''filters''], mkfile b [''filters'', ''nr_filters''] ''0'']
        @ (if be_expose_current st
           then [mkfile b [''weight''] ''0'', mkdir b [''preps''], mkfile b [''preps'', ''nr_preps''] ''0'']
           else [])) st)"

definition create_probe_preparation :: "path \<Rightarrow> nat \<Rightarrow> backend \<Rightarrow> backend" where
  "create_probe_preparation base i =
     (let b = child base i in made [mkdir b [], mkfile b [''prep_action''] ''set_pgidle''])"

definition create_sample_filter :: "path \<Rightarrow> nat \<Rightarrow> backend \<Rightarrow> backend" where
  "create_sample_filter base i =
     (let b = child base i in
      made [mkdir b [], mkfile b [''type''] ''write'', mkfile b [''matching''] ''N'', mkfile b [''allow''] ''N'',
            mkfile b [''cpumask''] '''', mkfile b [''tid_arr''] ''''])"

definition create_probe_filter :: "path \<Rightarrow> nat \<Rightarrow> backend \<Rightarrow> backend" where
  "create_probe_filter base i =
     (let b = child base i in
      made [mkdir b [], mkfile b [''type''] ''anon'', mkfile b [''matching''] ''N'', mkfile b [''allow''] ''N'',
            mkfile b [''path''] ''''])"

definition create_scheme_filter :: "path \<Rightarrow> nat \<Rightarrow> backend \<Rightarrow> backend" where
  "create_scheme_filter base i =
     (let b = child base i in
      made ([mkdir b [], mkfile b [''type''] ''anon'', mkfile b [''matching''] ''N'', mkfile b [''allow''] ''N'',
             mkfile b [''memcg_path''] '''']
        @ zeros b [] [''addr_start'', ''addr_end'', ''damon_target_idx'', ''min'', ''max'']))"

definition create_quota_goal :: "path \<Rightarrow> nat \<Rightarrow> backend \<Rightarrow> backend" where
  "create_quota_goal base i =
     (let b = child base i in
      made ([mkdir b [], mkfile b [''target_metric''] ''user_input'']
        @ zeros b [] [''target_value'', ''current_value'', ''nid''] @ [mkfile b [''path''] '''']))"

definition create_destination :: "path \<Rightarrow> nat \<Rightarrow> backend \<Rightarrow> backend" where
  "create_destination base i =
     (let b = child base i in made [mkdir b [], mkfile b [''id''] ''0'', mkfile b [''weight''] ''0''])"

end
