(* ===== verification/Backend_Commands.thy ===== *)
theory Backend_Commands
  imports Backend_State
begin

text \<open>
  The behaviour of the in-memory kernel, from \<^verbatim>\<open>src/src/sysfs/test_backend/state.rs\<close>: rebuilding the
  children of a count, the commands of a kdamond's \<open>state\<close> file, writing an attribute, and the
  hooks that let a test interfere after a read or a write.
\<close>

section \<open>Faulty steps\<close>

type_synonym 'a bstep = "backend \<Rightarrow> 'a faulty \<times> backend"

definition bret :: "'a \<Rightarrow> 'a bstep" where
  "bret x st = (Inr x, st)"

definition bfail :: "fault \<Rightarrow> 'a bstep" where
  "bfail e st = (Inl e, st)"

definition bbind :: "'a bstep \<Rightarrow> ('a \<Rightarrow> 'b bstep) \<Rightarrow> 'b bstep" where
  "bbind m f st = (case m st of (Inl e, st') \<Rightarrow> (Inl e, st') | (Inr x, st') \<Rightarrow> f x st')"

definition bmodify :: "(backend \<Rightarrow> backend) \<Rightarrow> unit bstep" where
  "bmodify f st = (Inr (), f st)"

definition bget :: "(backend \<Rightarrow> 'a faulty) \<Rightarrow> 'a bstep" where
  "bget f st = (f st, st)"

fun beach :: "('a \<Rightarrow> unit bstep) \<Rightarrow> 'a list \<Rightarrow> unit bstep" where
  "beach f [] = bret ()"
| "beach f (x # xs) = bbind (f x) (\<lambda>_. beach f xs)"

section \<open>Counts and their children\<close>

definition parse_count :: "string \<Rightarrow> usize faulty" where
  "parse_count v =
     (if \<not> utf8_valid v then Inl (Fault (KindError InvalidInput ''non-UTF-8 count''))
      else case parse_usize (trim v) of
        None \<Rightarrow> Inl (Fault (KindError InvalidInput ''invalid count''))
      | Some n \<Rightarrow>
          if n > 128 then Inl (Fault (KindError InvalidInput ''test model count limit exceeded''))
          else Inr n)"

text \<open>The new children of one parent; extension files come back where their directory exists.\<close>

definition rebuild_children :: "path \<Rightarrow> nat \<Rightarrow> (nat \<Rightarrow> backend \<Rightarrow> backend) \<Rightarrow> backend \<Rightarrow> backend" where
  "rebuild_children dir n create st =
     restore_extension_files (fold create [0..<n] (remove_indexed_children dir st))"

definition rebuild_below ::
    "path \<Rightarrow> nat \<Rightarrow> (path \<Rightarrow> nat \<Rightarrow> backend \<Rightarrow> backend) \<Rightarrow> bool bstep" where
  "rebuild_below p n create =
     (case parent p of
        None \<Rightarrow> bfail (Panic ''count path has parent'')
      | Some dir \<Rightarrow> bbind (bmodify (rebuild_children dir n (create dir))) (\<lambda>_. bret True))"

definition some_kdamond_on :: "backend \<Rightarrow> bool" where
  "some_kdamond_on st =
     (\<exists>e\<in>set (be_nodes st). file_name (fst e) = Some ''state'' \<and> snd e = File (''on'' @ newline))"

definition rebuild_kdamonds :: "nat \<Rightarrow> bool bstep" where
  "rebuild_kdamonds n st =
     (if some_kdamond_on st then (errno 16, st)
      else (Inr True,
            restore_extension_files
              (fold create_kdamond [0..<n]
                ((remove_indexed_children (sub [] [''kdamonds'']) st)\<lparr>be_active := None\<rparr>))))"

definition create_filter :: "string \<Rightarrow> path \<Rightarrow> nat \<Rightarrow> backend \<Rightarrow> backend" where
  "create_filter t =
     (if contains_text ''/monitoring_attrs/sample/filters/'' t then create_sample_filter
      else if contains_text ''/monitoring_attrs/probes/'' t then create_probe_filter
      else create_scheme_filter)"

definition reconstruct_count :: "path \<Rightarrow> nat \<Rightarrow> bool bstep" where
  "reconstruct_count p n =
     (let t = path_text p in
      if t = ''kdamonds/nr_kdamonds'' then rebuild_kdamonds n
      else if text_ends_with t ''/contexts/nr_contexts'' then
        if n > 1 then
          bfail (Fault (KindError InvalidInput ''Linux 7.2 supports at most one context''))
        else rebuild_below p n create_context
      else if text_ends_with t ''/targets/nr_targets'' then rebuild_below p n create_target
      else if text_ends_with t ''/schemes/nr_schemes'' then rebuild_below p n create_scheme
      else if text_ends_with t ''/monitoring_attrs/probes/nr_probes'' then
        rebuild_below p n create_probe
      else if text_ends_with t ''/preps/nr_preps'' then rebuild_below p n create_probe_preparation
      else if text_ends_with t ''/filters/nr_filters'' \<or> text_ends_with t ''/core_filters/nr_filters''
              \<or> text_ends_with t ''/ops_filters/nr_filters'' then
        rebuild_below p n (create_filter t)
      else if text_ends_with t ''/quotas/goals/nr_goals'' then rebuild_below p n create_quota_goal
      else if text_ends_with t ''/dests/nr_dests'' then rebuild_below p n create_destination
      else if text_ends_with t ''/regions/nr_regions'' then rebuild_below p n create_target_region
      else bret False)"

section \<open>What a running kdamond uses\<close>

definition files_of :: "node btree \<Rightarrow> string btree" where
  "files_of t = concat (map (\<lambda>e. case snd e of File v \<Rightarrow> [(fst e, v)] | Directory \<Rightarrow> []) t)"

definition capture_active_files :: "path \<Rightarrow> backend \<Rightarrow> backend" where
  "capture_active_files k st =
     (let staged = filter (\<lambda>e. starts_with (fst e) k) (files_of (be_nodes st));
          active = (case be_active st of None \<Rightarrow> [] | Some a \<Rightarrow> a) in
      st\<lparr>be_active := Some (bt_extend staged (bt_retain (\<lambda>p. \<not> starts_with p k) active))\<rparr>)"

definition is_goal_file :: "path \<Rightarrow> path \<Rightarrow> bool" where
  "is_goal_file k p \<longleftrightarrow> starts_with p k \<and> contains_text ''/quotas/goals/'' (path_text p)"

definition commit_quota_goals :: "path \<Rightarrow> unit bstep" where
  "commit_quota_goals k st =
     (case be_active st of
        None \<Rightarrow> (Inl (Panic ''running model has active files''), st)
      | Some active \<Rightarrow>
          (Inr (), st\<lparr>be_active := Some
             (bt_extend (filter (\<lambda>e. is_goal_file k (fst e)) (files_of (be_nodes st)))
                (bt_retain (\<lambda>p. \<not> is_goal_file k p) active))\<rparr>))"

definition primitive_enabled :: "backend \<Rightarrow> path \<Rightarrow> bool option faulty" where
  "primitive_enabled st p =
     (case lookup st p of
        Some (File v) \<Rightarrow>
          if utf8_valid v \<and> trim v \<in> {''Y'', ''1''} then Inr (Some True)
          else if utf8_valid v \<and> trim v \<in> {''N'', ''0''} then Inr (Some False)
          else errno 22
      | Some Directory \<Rightarrow> Inl (Fault (simple_error IsADirectory))
      | None \<Rightarrow> Inr None)"

definition validate_sample_primitives :: "path \<Rightarrow> unit bstep" where
  "validate_sample_primitives k =
     (let primitive = (\<lambda>name. sub k [''contexts'', ''0'', ''monitoring_attrs'', ''sample'', ''primitives'', name]) in
      bbind (bget (\<lambda>st. primitive_enabled st (primitive ''page_table''))) (\<lambda>page_table.
      bbind (bget (\<lambda>st. primitive_enabled st (primitive ''page_fault''))) (\<lambda>page_fault.
        case (page_table, page_fault) of
          (Some a, Some b) \<Rightarrow> if a = b then bget (\<lambda>_. errno 22) else bret ()
        | _ \<Rightarrow> bret ())))"

section \<open>What the kernel writes out\<close>

definition checked_sub :: "u64 \<Rightarrow> u64 \<Rightarrow> u64 option" where
  "checked_sub a b = (if b \<le> a then Some (a - b) else None)"

fun region_total :: "u64 \<Rightarrow> model_region list \<Rightarrow> u64 faulty" where
  "region_total sum_units [] = Inr sum_units"
| "region_total sum_units (r # rs) =
     (case checked_sub (mr_end r) (mr_start r) of
        None \<Rightarrow> Inl (Fault (KindError InvalidData ''invalid modeled region''))
      | Some units \<Rightarrow>
          (case checked_add sum_units units of
             None \<Rightarrow> Inl (Fault (KindError InvalidData ''modeled total overflow''))
           | Some sum_units' \<Rightarrow> region_total sum_units' rs))"

definition scheme_count :: "path \<Rightarrow> backend \<Rightarrow> usize faulty" where
  "scheme_count k st =
     (let p = sub k [''contexts'', ''0'', ''schemes'', ''nr_schemes''] in
      case lookup st p of Some (File v) \<Rightarrow> parse_count v | _ \<Rightarrow> Inl (Fault (not_found p)))"

definition scheme_below :: "path \<Rightarrow> nat \<Rightarrow> string list \<Rightarrow> path" where
  "scheme_below k i names = sub (child (sub k [''contexts'', ''0'', ''schemes'']) i) names"

definition probe_nodes :: "path \<Rightarrow> nat \<times> u8 \<Rightarrow> (path \<times> node) list" where
  "probe_nodes b e =
     (let q = child (sub b [''probes'']) (fst e) in
      [mkdir q [], mkfile q [''hits''] (dec_word (snd e))])"

definition region_nodes :: "path \<Rightarrow> nat \<times> model_region \<Rightarrow> (path \<times> node) list" where
  "region_nodes base e =
     (let b = child base (fst e); r = snd e in
      [mkdir b [], mkfile b [''start''] (dec_word (mr_start r)), mkfile b [''end''] (dec_word (mr_end r)),
       mkfile b [''nr_accesses''] (dec_word (mr_accesses r)), mkfile b [''age''] (dec_word (mr_age r))]
      @ (case mr_passed r of
           Some units \<Rightarrow> [mkfile b [''sz_filter_passed''] (dec_word units)] | None \<Rightarrow> [])
      @ [mkdir b [''probes'']] @ concat (map (probe_nodes b) (enumerate 0 (mr_hits r))))"

definition materialize_scheme_regions :: "path \<Rightarrow> u64 \<Rightarrow> model_region list \<Rightarrow> nat \<Rightarrow> unit bstep" where
  "materialize_scheme_regions k sum_units regions i =
     (let base = scheme_below k i [''tried_regions''] in
      bbind (bget (\<lambda>st. if lookup st base = None then Inl (Fault (not_found base)) else Inr ())) (\<lambda>_.
      bbind (bmodify (remove_indexed_children base)) (\<lambda>_.
        bmodify (made (mkfile base [''total_bytes''] (dec_word sum_units)
                       # concat (map (region_nodes base) (enumerate 0 regions)))))))"

definition materialize_tried_regions :: "path \<Rightarrow> unit bstep" where
  "materialize_tried_regions k st =
     (let regions = be_regions st in
      bbind (bget (\<lambda>_. region_total 0 regions)) (\<lambda>sum_units.
      bbind (bget (scheme_count k)) (\<lambda>n.
        beach (materialize_scheme_regions k sum_units regions) [0..<n])) st)"

definition clear_scheme_regions :: "path \<Rightarrow> nat \<Rightarrow> unit bstep" where
  "clear_scheme_regions k i =
     (let base = scheme_below k i [''tried_regions''] in
      bbind (bget (\<lambda>st. if lookup st base = None then Inl (Fault (not_found base)) else Inr ())) (\<lambda>_.
      bbind (bmodify (remove_indexed_children base)) (\<lambda>_.
        bmodify (State_file (sub base [''total_bytes'']) (''0'' @ newline)))))"

definition clear_materialized_tried_regions :: "path \<Rightarrow> unit bstep" where
  "clear_materialized_tried_regions k =
     bbind (bget (scheme_count k)) (\<lambda>n. beach (clear_scheme_regions k) [0..<n])"

definition remove_scheme_regions :: "path \<Rightarrow> nat \<Rightarrow> unit bstep" where
  "remove_scheme_regions k i = bmodify (remove_indexed_children (scheme_below k i [''tried_regions'']))"

definition stats_nodes :: "path \<Rightarrow> model_stats \<Rightarrow> (path \<times> node) list" where
  "stats_nodes b s =
     map (\<lambda>(name, v). mkfile b [name] (dec_word v))
       [(''nr_tried'', ms_nr_tried s), (''sz_tried'', ms_sz_tried s), (''nr_applied'', ms_nr_applied s),
        (''sz_applied'', ms_sz_applied s), (''sz_ops_filter_passed'', ms_sz_passed s),
        (''qt_exceeds'', ms_exceeds s), (''nr_snapshots'', ms_snapshots s)]"

text \<open>Both loops stop at the first scheme that has no such directory or file.\<close>

fun write_stats :: "path \<Rightarrow> (nat \<times> model_stats) list \<Rightarrow> backend \<Rightarrow> backend" where
  "write_stats k [] st = st"
| "write_stats k ((i, s) # rest) st =
     (let b = scheme_below k i [''stats''] in
      if lookup st b = None then st else write_stats k rest (made (stats_nodes b s) st))"

definition materialize_scheme_stats :: "path \<Rightarrow> backend \<Rightarrow> backend" where
  "materialize_scheme_stats k st = write_stats k (enumerate 0 (be_stats st)) st"

fun write_quotas :: "path \<Rightarrow> (nat \<times> u64) list \<Rightarrow> backend \<Rightarrow> backend" where
  "write_quotas k [] st = st"
| "write_quotas k ((i, v) # rest) st =
     (let p = scheme_below k i [''quotas'', ''effective_bytes''] in
      if lookup st p = None then st else write_quotas k rest (State_file p (dec_word v @ newline) st))"

definition materialize_effective_quotas :: "path \<Rightarrow> backend \<Rightarrow> backend" where
  "materialize_effective_quotas k st = write_quotas k (enumerate 0 (be_quotas st)) st"

section \<open>Commands\<close>

definition selected_operations :: "path \<Rightarrow> backend \<Rightarrow> string faulty" where
  "selected_operations k st =
     (case lookup st (sub k [''contexts'', ''0'', ''operations'']) of
        Some (File v) \<Rightarrow>
          if utf8_valid v then Inr (trim v) else Inl (Fault (simple_error InvalidData))
      | _ \<Rightarrow> errno 22)"

text \<open>The identifiers of the threads are counted in 32 bits, with overflow checks.\<close>

definition take_pid :: "u32 bstep" where
  "take_pid st =
     (case checked_add (be_next_pid st) 1 of
        None \<Rightarrow> (Inl (Panic ''attempt to add with overflow''), st)
      | Some p \<Rightarrow> (Inr p, st\<lparr>be_next_pid := p\<rparr>))"

definition start_kdamond :: "path \<Rightarrow> unit bstep" where
  "start_kdamond k =
     bbind (bget (selected_operations k)) (\<lambda>selected.
     bbind (bget (\<lambda>st. listed_value_contains (be_available st) selected)) (\<lambda>available.
       if \<not> available then bget (\<lambda>_. errno 22)
       else
         bbind (validate_sample_primitives k) (\<lambda>_.
         bbind (bmodify (capture_active_files k)) (\<lambda>_.
         bbind take_pid (\<lambda>p.
         bbind (bmodify (State_file (sub k [''state'']) (''on'' @ newline))) (\<lambda>_.
           bmodify (State_file (sub k [''pid'']) (dec_word p @ newline))))))))"

definition is_on :: "backend \<Rightarrow> path \<Rightarrow> bool" where
  "is_on st p \<longleftrightarrow> lookup st p = Some (File (''on'' @ newline))"

definition ensure_running :: "path \<Rightarrow> unit bstep" where
  "ensure_running p =
     bget (\<lambda>st. if is_on st p then Inr ()
                else Inl (Fault (KindError InvalidInput ''modeled kdamond is not running'')))"

definition switch_on :: "path \<Rightarrow> path \<Rightarrow> unit bstep" where
  "switch_on p k =
     bbind (bget (\<lambda>st.
         if lookup st (sub k [''contexts'', ''nr_contexts'']) \<noteq> Some (File (''1'' @ newline)) then errno 22
         else if is_on st p then errno 16 else Inr ())) (\<lambda>_.
       start_kdamond k)"

definition switch_off :: "path \<Rightarrow> path \<Rightarrow> unit bstep" where
  "switch_off p k =
     bbind (bget (\<lambda>st.
         if be_active st = None then errno 22
         else if \<not> is_on st p then errno 1 else Inr ())) (\<lambda>_.
     bbind (bmodify (State_file p (''off'' @ newline))) (\<lambda>_.
       bmodify (State_file (sub k [''pid'']) (''-1'' @ newline))))"

definition running_command :: "path \<Rightarrow> unit bstep \<Rightarrow> unit bstep" where
  "running_command p m = bbind (ensure_running p) (\<lambda>_. m)"

definition update_tried_bytes :: "path \<Rightarrow> unit bstep" where
  "update_tried_bytes k =
     bbind (materialize_tried_regions k) (\<lambda>_.
     bbind (bget (scheme_count k)) (\<lambda>n. beach (remove_scheme_regions k) [0..<n]))"

definition commit_staged :: "path \<Rightarrow> unit bstep" where
  "commit_staged k =
     bbind (validate_sample_primitives k) (\<lambda>_. bmodify (capture_active_files k))"

definition obey :: "path \<Rightarrow> path \<Rightarrow> string \<Rightarrow> unit bstep" where
  "obey p k command =
     (if command = ''on'' then switch_on p k
      else if command = ''off'' then switch_off p k
      else if command = ''commit'' then running_command p (commit_staged k)
      else if command = ''commit_schemes_quota_goals'' then running_command p (commit_quota_goals k)
      else if command = ''update_schemes_tried_regions'' then
        running_command p (materialize_tried_regions k)
      else if command = ''update_schemes_tried_bytes'' then running_command p (update_tried_bytes k)
      else if command = ''clear_schemes_tried_regions'' then
        running_command p (clear_materialized_tried_regions k)
      else if command = ''update_schemes_stats'' then
        running_command p (bmodify (materialize_scheme_stats k))
      else if command = ''update_schemes_effective_quotas'' then
        running_command p (bmodify (materialize_effective_quotas k))
      else if command = ''update_tuned_intervals'' then ensure_running p
      else bfail (Fault (KindError InvalidInput ''unknown modeled state command'')))"

definition write_state :: "path \<Rightarrow> string \<Rightarrow> unit bstep" where
  "write_state p v =
     (if \<not> utf8_valid v then bfail (Fault (KindError InvalidInput ''non-UTF-8 command''))
      else case parent p of
        None \<Rightarrow> bfail (Panic ''state path has parent'')
      | Some k \<Rightarrow> obey p k (trim v))"

section \<open>Writing an attribute\<close>

definition take_failure :: "path \<Rightarrow> unit bstep" where
  "take_failure p st =
     (case find (\<lambda>f. wf_path f = p) (be_failures st) of
        None \<Rightarrow> (Inr (), st)
      | Some f \<Rightarrow> (errno (wf_errno f), st\<lparr>be_failures := remove1 f (be_failures st)\<rparr>))"

text \<open>One of the checks on a value: does not apply, or the value must be listed.\<close>

definition must_be_listed :: "bool \<Rightarrow> (backend \<Rightarrow> string) \<Rightarrow> string \<Rightarrow> unit bstep" where
  "must_be_listed applies listed v =
     (if \<not> applies then bret ()
      else if \<not> utf8_valid v then bfail (Fault (simple_error InvalidInput))
      else
        bbind (bget (\<lambda>st. listed_value_contains (listed st) (trim v))) (\<lambda>found.
          if found then bret () else bget (\<lambda>_. errno 22)))"

definition check_type :: "path \<Rightarrow> string \<Rightarrow> unit bstep" where
  "check_type p v =
     (if file_name p \<noteq> Some ''type'' then bret ()
      else if \<not> utf8_valid v then bfail (Fault (simple_error InvalidInput))
      else
        let t = path_text p in
        if contains_text ''/monitoring_attrs/probes/'' t then must_be_listed True be_probe_filters v
        else if contains_text ''/schemes/'' t
                \<and> (contains_text ''/filters/'' t \<or> contains_text ''/core_filters/'' t
                   \<or> contains_text ''/ops_filters/'' t) then must_be_listed True be_scheme_filters v
        else bret ())"

definition check_value :: "path \<Rightarrow> string \<Rightarrow> unit bstep" where
  "check_value p v =
     bbind (must_be_listed (file_name p = Some ''operations'') be_recognized v) (\<lambda>_.
     bbind (must_be_listed
              (file_name p = Some ''action'' \<and> contains_text ''/schemes/'' (path_text p)) be_actions v) (\<lambda>_.
     bbind (must_be_listed (file_name p = Some ''target_metric'') be_metrics v) (\<lambda>_.
     bbind (must_be_listed (file_name p = Some ''prep_action'') be_preparations v) (\<lambda>_.
       check_type p v))))"

definition is_count_path :: "string \<Rightarrow> bool" where
  "is_count_path t \<longleftrightarrow>
     t = ''kdamonds/nr_kdamonds''
     \<or> list_ex (text_ends_with t)
         [''/contexts/nr_contexts'', ''/targets/nr_targets'', ''/schemes/nr_schemes'',
          ''/monitoring_attrs/probes/nr_probes'', ''/preps/nr_preps'', ''/filters/nr_filters'',
          ''/core_filters/nr_filters'', ''/ops_filters/nr_filters'', ''/quotas/goals/nr_goals'',
          ''/dests/nr_dests'', ''/regions/nr_regions'']"

definition write_attribute :: "path \<Rightarrow> string \<Rightarrow> unit bstep" where
  "write_attribute p v =
     (if is_count_path (path_text p) then
        bbind (bget (\<lambda>_. parse_count v)) (\<lambda>n.
        bbind (reconstruct_count p n) (\<lambda>rebuilt.
          bmodify (State_file p (if rebuilt then dec n @ newline else v))))
      else bmodify (State_file p v))"

definition writable_node :: "path \<Rightarrow> unit bstep" where
  "writable_node p =
     bget (\<lambda>st. case lookup st p of
        Some (File _) \<Rightarrow> Inr ()
      | Some Directory \<Rightarrow> Inl (Fault (simple_error IsADirectory))
      | None \<Rightarrow> Inl (Fault (not_found p)))"

definition State_write :: "path \<Rightarrow> string \<Rightarrow> unit bstep" where
  "State_write p v =
     bbind (take_failure p) (\<lambda>_.
     bbind (writable_node p) (\<lambda>_.
       if file_name p = Some ''state'' then write_state p v
       else bbind (check_value p v) (\<lambda>_. write_attribute p v)))"

section \<open>Hooks\<close>

text \<open>An external start that fails is a mistake of the test.\<close>

definition apply_mutation :: "mutation \<Rightarrow> unit bstep" where
  "apply_mutation m =
     (case m of
        SetFile p v \<Rightarrow> bmodify (State_file p v)
      | RemoveTree p \<Rightarrow> bmodify (remove_tree p)
      | StartKdamond p \<Rightarrow>
          (\<lambda>st. case start_kdamond p st of
             (Inl (Fault _), st') \<Rightarrow> (Inl (Panic ''modeled external kdamond start must be valid''), st')
           | (r, st') \<Rightarrow> (r, st')))"

definition apply_hooks :: "hook_event \<Rightarrow> unit bstep" where
  "apply_hooks event st =
     (case find (\<lambda>h. hk_event h = event) (be_hooks st) of
        None \<Rightarrow> (Inr (), st)
      | Some h \<Rightarrow>
          beach apply_mutation (hk_mutations h) (st\<lparr>be_hooks := remove1 h (be_hooks st)\<rparr>))"

end
