(* ===== verification/Test_Backend.thy ===== *)
theory Test_Backend
  imports Backend_Commands Table_Kernel
begin

text \<open>
  \<^verbatim>\<open>src/src/sysfs/test_backend/mod.rs\<close>, the registry of the in-memory kernels and the file
  operations on them, and the \<^verbatim>\<open>cfg(test)\<close> branches of \<^verbatim>\<open>src/src/sysfs/io.rs\<close> that hand the paths below a
  registered root to it. The registry holds weak references: a model that was dropped is not found.
\<close>

section \<open>Models and their registry\<close>

record backends =
  bs_process :: nat
  bs_next :: nat
  bs_registry :: "(path \<times> nat) list"
  bs_states :: "nat \<Rightarrow> backend option"

record model =
  md_root :: path
  md_state :: nat

definition model_root :: "backends \<Rightarrow> path" where
  "model_root bs =
     [RootDir, Normal ''__damon_rs_model'',
      Normal (dec (bs_process bs) @ ''-'' @ dec (bs_next bs))]"

text \<open>A new model is referred to by its number.\<close>

definition with_operation_sets :: "string \<Rightarrow> string \<Rightarrow> bool \<Rightarrow> backends \<Rightarrow> model \<times> backends" where
  "with_operation_sets available recognized expose bs =
     (let root = model_root bs; r = bs_next bs in
      (\<lparr>md_root = root, md_state = r\<rparr>,
       bs\<lparr>bs_next := Suc r, bs_registry := bs_registry bs @ [(root, r)],
          bs_states := (bs_states bs)(r \<mapsto> State_new available recognized expose)\<rparr>))"

definition Model_new :: "string \<Rightarrow> backends \<Rightarrow> model \<times> backends" where
  "Model_new available = with_operation_sets available available True"

definition without_available_operations_file :: "string \<Rightarrow> backends \<Rightarrow> model \<times> backends" where
  "without_available_operations_file available = with_operation_sets available available False"

definition with_legacy_operation_sets :: "string \<Rightarrow> string \<Rightarrow> backends \<Rightarrow> model \<times> backends" where
  "with_legacy_operation_sets available recognized = with_operation_sets available recognized False"

definition Model_drop :: "model \<Rightarrow> backends \<Rightarrow> backends" where
  "Model_drop m bs = bs\<lparr>bs_states := (bs_states bs)(md_state m := None)\<rparr>"

definition on_model :: "(backend \<Rightarrow> backend) \<Rightarrow> model \<Rightarrow> backends \<Rightarrow> backends" where
  "on_model f m bs =
     bs\<lparr>bs_states := (bs_states bs)(md_state m := map_option f (bs_states bs (md_state m)))\<rparr>"

definition set_tried_regions :: "model_region list \<Rightarrow> backend \<Rightarrow> backend" where
  "set_tried_regions regions st = st\<lparr>be_regions := regions\<rparr>"

definition set_scheme_stats :: "model_stats list \<Rightarrow> backend \<Rightarrow> backend" where
  "set_scheme_stats stats st = st\<lparr>be_stats := stats\<rparr>"

definition set_effective_quota_bytes :: "u64 list \<Rightarrow> backend \<Rightarrow> backend" where
  "set_effective_quota_bytes quotas st = st\<lparr>be_quotas := quotas\<rparr>"

definition set_supported_scheme_filter_types :: "string \<Rightarrow> backend \<Rightarrow> backend" where
  "set_supported_scheme_filter_types types st = st\<lparr>be_scheme_filters := types\<rparr>"

definition set_supported_probe_filter_types :: "string \<Rightarrow> backend \<Rightarrow> backend" where
  "set_supported_probe_filter_types types st = st\<lparr>be_probe_filters := types\<rparr>"

definition set_supported_scheme_actions :: "string \<Rightarrow> backend \<Rightarrow> backend" where
  "set_supported_scheme_actions actions st = st\<lparr>be_actions := actions\<rparr>"

definition set_supported_quota_goal_metrics :: "string \<Rightarrow> backend \<Rightarrow> backend" where
  "set_supported_quota_goal_metrics metrics st = st\<lparr>be_metrics := metrics\<rparr>"

definition enable_current_damo_extensions :: "backend \<Rightarrow> backend" where
  "enable_current_damo_extensions st =
     st\<lparr>be_expose_current := True,
        be_probe_filters := listing [''anon'', ''memcg'', ''pgidle_unset'', ''pgidle_set''],
        be_scheme_filters := be_scheme_filters st @ listing [''probe_hits_wsum''],
        be_actions := be_actions st @ listing [''damos_alloc'', ''damos_free''],
        be_metrics := be_metrics st @ listing [''hugepage_mem_bp'']\<rparr>"

definition disable_effective_quota :: "backend \<Rightarrow> backend" where
  "disable_effective_quota st = st\<lparr>be_expose_effective := False\<rparr>"

definition set_file :: "path \<Rightarrow> string \<Rightarrow> backend \<Rightarrow> backend" where
  "set_file p v st =
     State_file p v
       (if lookup st p = None then st\<lparr>be_extensions := bt_insert p v (be_extensions st)\<rparr> else st)"

definition model_value :: "path \<Rightarrow> backend \<Rightarrow> string option" where
  "model_value p st =
     (case lookup st p of Some (File v) \<Rightarrow> Some (trim (to_string_lossy v)) | _ \<Rightarrow> None)"

definition active_value :: "path \<Rightarrow> backend \<Rightarrow> string option" where
  "active_value p st =
     (case be_active st of
        None \<Rightarrow> None | Some active \<Rightarrow> map_option (\<lambda>v. trim (to_string_lossy v)) (map_of active p))"

definition after_next_read :: "path \<Rightarrow> mutation list \<Rightarrow> backend \<Rightarrow> backend" where
  "after_next_read p ms st =
     st\<lparr>be_hooks := be_hooks st @ [\<lparr>hk_event = HookRead p, hk_mutations = ms\<rparr>]\<rparr>"

definition after_next_write :: "path \<Rightarrow> string \<Rightarrow> mutation list \<Rightarrow> backend \<Rightarrow> backend" where
  "after_next_write p v ms st =
     st\<lparr>be_hooks := be_hooks st @ [\<lparr>hk_event = HookWrite p v, hk_mutations = ms\<rparr>]\<rparr>"

definition fail_next_write :: "path \<Rightarrow> int \<Rightarrow> backend \<Rightarrow> backend" where
  "fail_next_write p code st =
     st\<lparr>be_failures := be_failures st @ [\<lparr>wf_path = p, wf_errno = code\<rparr>]\<rparr>"

section \<open>Resolving a path\<close>

text \<open>\<open>max_by_key\<close> keeps the last of several deepest roots.\<close>

fun deepest :: "(nat \<times> 'a) option \<Rightarrow> (nat \<times> 'a) list \<Rightarrow> (nat \<times> 'a) option" where
  "deepest best [] = best"
| "deepest best (e # es) =
     deepest (case best of None \<Rightarrow> Some e | Some b \<Rightarrow> if fst b \<le> fst e then Some e else Some b) es"

definition live_entries :: "backends \<Rightarrow> (path \<times> nat) list" where
  "live_entries bs = filter (\<lambda>e. bs_states bs (snd e) \<noteq> None) (bs_registry bs)"

definition matching_roots :: "path \<Rightarrow> (path \<times> nat) list \<Rightarrow> (nat \<times> nat \<times> path) list" where
  "matching_roots p entries =
     concat (map (\<lambda>e. case strip_prefix (fst e) p of
         None \<Rightarrow> [] | Some rest \<Rightarrow> [(length (fst e), snd e, rest)]) entries)"

definition resolve :: "path \<Rightarrow> backends \<Rightarrow> (nat \<times> path) option \<times> backends" where
  "resolve p bs =
     (let entries = live_entries bs in
      (map_option snd (deepest None (matching_roots p entries)), bs\<lparr>bs_registry := entries\<rparr>))"

definition backend_call :: "path \<Rightarrow> (path \<Rightarrow> 'a bstep) \<Rightarrow> backends \<Rightarrow> 'a faulty option \<times> backends" where
  "backend_call p f bs =
     (case resolve p bs of
        (None, bs') \<Rightarrow> (None, bs')
      | (Some (r, rest), bs') \<Rightarrow>
          (case bs_states bs' r of
             None \<Rightarrow> (None, bs')
           | Some st \<Rightarrow>
               (case f rest st of
                  (x, st') \<Rightarrow> (Some x, bs'\<lparr>bs_states := (bs_states bs')(r \<mapsto> st')\<rparr>))))"

section \<open>File operations\<close>

definition B_path_exists :: "path \<Rightarrow> bool bstep" where
  "B_path_exists p = bget (\<lambda>st. Inr (lookup st p \<noteq> None))"

definition B_path_is_dir :: "path \<Rightarrow> bool bstep" where
  "B_path_is_dir p = bget (\<lambda>st. Inr (lookup st p = Some Directory))"

definition child_index :: "path \<Rightarrow> path \<times> node \<Rightarrow> nat option" where
  "child_index p e =
     (if snd e \<noteq> Directory \<or> parent (fst e) \<noteq> Some p then None
      else case file_name (fst e) of
        None \<Rightarrow> None
      | Some name \<Rightarrow> if utf8_valid name then parse_usize name else None)"

definition numeric_directories :: "path \<Rightarrow> path \<Rightarrow> (nat \<times> path) list bstep" where
  "numeric_directories shown p =
     bget (\<lambda>st.
       case lookup st p of
         Some Directory \<Rightarrow>
           Inr (map (\<lambda>i. (i, child shown i)) (sort (List.map_filter (child_index p) (be_nodes st))))
       | Some (File _) \<Rightarrow> Inl (Fault (simple_error NotADirectory))
       | None \<Rightarrow> Inr [])"

definition B_all_files_recursive :: "path \<Rightarrow> path \<Rightarrow> path list bstep" where
  "B_all_files_recursive shown p =
     bget (\<lambda>st.
       if lookup st p \<noteq> Some Directory then Inl (Fault (not_found p))
       else Inr (List.map_filter (\<lambda>e. map_option (\<lambda>rest. join_path shown rest) (strip_prefix p (fst e)))
                   (filter (\<lambda>e. snd e \<noteq> Directory) (be_nodes st))))"

definition B_path_is_writable :: "path \<Rightarrow> bool bstep" where
  "B_path_is_writable p =
     bget (\<lambda>st. case lookup st p of
        Some (File _) \<Rightarrow> Inr True
      | Some Directory \<Rightarrow> Inl (Fault (simple_error IsADirectory))
      | None \<Rightarrow> Inl (Fault (not_found p)))"

definition node_content :: "path \<Rightarrow> backend \<Rightarrow> io_error + string" where
  "node_content p st =
     (case lookup st p of
        Some (File v) \<Rightarrow> Inr v
      | Some Directory \<Rightarrow> Inl (simple_error IsADirectory)
      | None \<Rightarrow> Inl (not_found p))"

text \<open>The content is taken before the hooks of the read run.\<close>

definition B_read :: "path \<Rightarrow> (io_error + string) bstep" where
  "B_read p st =
     bbind (apply_hooks (HookRead p)) (\<lambda>_. bret (node_content p st)) (st\<lparr>be_reads := Suc (be_reads st)\<rparr>)"

definition B_write :: "path \<Rightarrow> string \<Rightarrow> unit bstep" where
  "B_write p v =
     bbind (State_write p v) (\<lambda>_.
     bbind (bmodify (\<lambda>st. st\<lparr>be_writes := Suc (be_writes st)\<rparr>)) (\<lambda>_.
       apply_hooks (HookWrite p v)))"

section \<open>The test branches of the input and output functions\<close>

text \<open>The test process: the models beside the host's own kernel.\<close>

type_synonym ('h, 'a) tcomp = "(backends \<times> 'h, 'a) comp"

definition test_branch ::
    "path \<Rightarrow> (path \<Rightarrow> 'a bstep) \<Rightarrow> ('a faulty \<Rightarrow> ('h, 'b) tcomp) \<Rightarrow> ('h, 'b) tcomp \<Rightarrow> ('h, 'b) tcomp" where
  "test_branch p f found otherwise w =
     (case backend_call p f (fst (w_kernel w)) of
        (r, bs) \<Rightarrow>
          (let w' = w\<lparr>w_kernel := (bs, snd (w_kernel w))\<rparr> in
           case r of Some x \<Rightarrow> found x w' | None \<Rightarrow> otherwise w'))"

fun or_io_error :: "string \<Rightarrow> path \<Rightarrow> 'a faulty \<Rightarrow> ('h, 'a) tcomp" where
  "or_io_error op p (Inr x) = sret x"
| "or_io_error op p (Inl (Fault e)) = io_fail op p e"
| "or_io_error op p (Inl (Panic s)) = sfail (Panicked s)"

definition test_path_exists :: "(backends \<times> 'h) sysfs \<Rightarrow> path \<Rightarrow> ('h, bool) tcomp" where
  "test_path_exists E p = test_branch p B_path_exists (or_io_error ''inspect'' p) (path_exists E p)"

definition test_path_is_dir :: "(backends \<times> 'h) sysfs \<Rightarrow> path \<Rightarrow> ('h, bool) tcomp" where
  "test_path_is_dir E p = test_branch p B_path_is_dir (or_io_error ''inspect'' p) (path_is_dir E p)"

definition test_numeric_directory_indices :: "(backends \<times> 'h) sysfs \<Rightarrow> path \<Rightarrow> ('h, usize list) tcomp" where
  "test_numeric_directory_indices E p =
     test_branch p (numeric_directories p)
       (\<lambda>r. sbind (or_io_error ''list directory'' p r) (\<lambda>found. sret (map fst found)))
       (numeric_directory_indices E p)"

definition test_all_files_recursive :: "(backends \<times> 'h) sysfs \<Rightarrow> path \<Rightarrow> ('h, path list) tcomp" where
  "test_all_files_recursive E p =
     test_branch p (B_all_files_recursive p) (or_io_error ''walk hierarchy'' p) (all_files_recursive E p)"

definition test_path_is_writable :: "(backends \<times> 'h) sysfs \<Rightarrow> path \<Rightarrow> ('h, bool) tcomp" where
  "test_path_is_writable E p =
     test_branch p B_path_is_writable (or_io_error ''inspect permissions'' p) (path_is_writable E p)"

definition content_or_error :: "path \<Rightarrow> (io_error + string) faulty \<Rightarrow> ('h, string) tcomp" where
  "content_or_error p r =
     sbind (or_io_error ''read'' p r) (\<lambda>c. case c of Inl e \<Rightarrow> io_fail ''read'' p e | Inr v \<Rightarrow> sret v)"

definition test_read_text :: "(backends \<times> 'h) sysfs \<Rightarrow> path \<Rightarrow> ('h, string) tcomp" where
  "test_read_text E p =
     test_branch p B_read
       (\<lambda>r. sbind (content_or_error p r) (\<lambda>v.
          if utf8_valid v then sret v
          else sfail (invalid_kernel_value p ''<non-UTF-8 value>'' ''UTF-8 text'')))
       (read_text E p)"

definition configuration_bytes_equal :: "string \<Rightarrow> string \<Rightarrow> bool" where
  "configuration_bytes_equal bytes expected =
     (case match_configuration_chunk bytes expected (0, False) of
        None \<Rightarrow> False | Some (matched, _) \<Rightarrow> matched = length expected)"

definition test_read_configuration_value_equals ::
    "(backends \<times> 'h) sysfs \<Rightarrow> path \<Rightarrow> string \<Rightarrow> ('h, bool) tcomp" where
  "test_read_configuration_value_equals E p expected =
     test_branch p B_read
       (\<lambda>r. sbind (or_io_error ''read'' p r) (\<lambda>c.
          case c of
            Inr v \<Rightarrow> sret (configuration_bytes_equal v expected)
          | Inl e \<Rightarrow> if io_error_kind e = NotFound then sret False else io_fail ''read'' p e))
       (read_configuration_value_equals E p expected)"

definition test_read_u64 :: "(backends \<times> 'h) sysfs \<Rightarrow> path \<Rightarrow> ('h, u64) tcomp" where
  "test_read_u64 E p =
     test_branch p B_read
       (\<lambda>r. sbind (content_or_error p r) (\<lambda>v.
          if length v > 64 then sfail (invalid_kernel_value p ''<value too long>'' ''u64'')
          else if \<not> utf8_valid v then sfail (invalid_kernel_value p ''<non-UTF-8 value>'' ''u64'')
          else case parse_u64 (trim v) of
            None \<Rightarrow> sfail (invalid_kernel_value p (trim v) ''u64'') | Some n \<Rightarrow> sret n))
       (read_u64 E p)"

definition test_write_bytes :: "(backends \<times> 'h) sysfs \<Rightarrow> path \<Rightarrow> string \<Rightarrow> ('h, unit) tcomp" where
  "test_write_bytes E p v =
     test_branch p (\<lambda>rest. B_write rest v)
       (\<lambda>r. sbind (or_io_error ''write'' p r) (\<lambda>_. record_write p))
       (write_bytes E p v)"

end
