(* ===== verification/Backend_Lemmas.thy ===== *)
theory Backend_Lemmas
  imports Test_Backend
begin

text \<open>
  Lemmas on the in-memory kernel: its ordered maps, a small calculus for what a faulty step keeps,
  and what each operation leaves alone.
\<close>

section \<open>Ordered maps\<close>

definition ordered :: "'a btree \<Rightarrow> bool" where
  "ordered t \<longleftrightarrow> sorted_wrt (<) (map fst t)"

lemma fst_bt_insert: "fst ` set (bt_insert p v t) = insert p (fst ` set t)"
  by (metis dom_map_of_conv_image_fst dom_fun_upd map_of_bt_insert option.distinct(1))

lemma ordered_insert [simp]: "ordered t \<Longrightarrow> ordered (bt_insert p v t)"
proof (induction t)
  case (Cons e t)
  obtain q w where e: "e = (q, w)" by (cases e)
  have t: "ordered t" "\<forall>x\<in>fst ` set t. q < x" using Cons.prems e by (auto simp: ordered_def)
  show ?case
  proof (cases "p = q \<or> p < q")
    case True
    with t e show ?thesis by (auto simp: ordered_def)
  next
    case False
    then have "\<forall>x\<in>fst ` set (bt_insert p v t). q < x"
      using t(2) by (simp add: fst_bt_insert not_less le_less) blast
    then have "ordered ((q, w) # bt_insert p v t)"
      using Cons.IH [OF t(1)] by (simp add: ordered_def)
    with False e show ?thesis by simp
  qed
qed (simp add: ordered_def)

lemma ordered_retain [simp]: "ordered t \<Longrightarrow> ordered (bt_retain keep t)"
  by (induction t) (auto simp: ordered_def bt_retain_def)

lemma ordered_extend [simp]: "ordered t \<Longrightarrow> ordered (bt_extend es t)"
  by (induction es arbitrary: t) (simp_all add: bt_extend_def)

lemma ordered_Nil [simp]: "ordered []"
  by (simp add: ordered_def)

lemma ordered_distinct: "ordered t \<Longrightarrow> distinct (map fst t)"
  by (simp add: ordered_def strict_sorted_iff)

lemma map_of_rev_ordered: "ordered t \<Longrightarrow> map_of (rev t) = map_of t"
  using ordered_distinct [of t] by (simp add: map_of_inject_set rev_map [symmetric])

lemma bt_extend_append: "bt_extend (xs @ ys) t = bt_extend ys (bt_extend xs t)"
  by (simp add: bt_extend_def)

lemma bt_extend_Cons: "bt_extend (e # es) t = bt_extend es (bt_insert (fst e) (snd e) t)"
  by (simp add: bt_extend_def)

lemma map_of_bt_extend_other: "p \<notin> fst ` set es \<Longrightarrow> map_of (bt_extend es t) p = map_of t p"
  by (auto simp: map_of_bt_extend map_add_def map_of_eq_None_iff split: option.splits
           dest!: map_of_SomeD intro: rev_image_eqI)

lemma map_of_bt_extend_first:
  "p \<notin> fst ` set es \<Longrightarrow> map_of (bt_extend ((p, v) # es) t) p = Some v"
  by (simp add: bt_extend_Cons map_of_bt_extend_other)

section \<open>Steps and what they keep\<close>

lemma bbind_Inr_iff:
  "bbind m f st = (Inr y, st') \<longleftrightarrow> (\<exists>x st1. m st = (Inr x, st1) \<and> f x st1 = (Inr y, st'))"
  by (auto simp: bbind_def split: prod.splits sum.splits)

lemma bbind_Inl_iff:
  "bbind m f st = (Inl e, st') \<longleftrightarrow>
     m st = (Inl e, st') \<or> (\<exists>x st1. m st = (Inr x, st1) \<and> f x st1 = (Inl e, st'))"
  by (auto simp: bbind_def split: prod.splits sum.splits)

lemma bstep_results [simp]:
  "bret x st = (r, st') \<longleftrightarrow> r = Inr x \<and> st' = st"
  "bfail e st = (r', st') \<longleftrightarrow> r' = Inl e \<and> st' = st"
  "bmodify f st = (u, st') \<longleftrightarrow> u = Inr () \<and> st' = f st"
  "bget g st = (r'', st') \<longleftrightarrow> g st = r'' \<and> st' = st"
  by (auto simp: bret_def bfail_def bmodify_def bget_def)

text \<open>\<open>within R m\<close>: whatever the result, the step \<open>m\<close> takes a state to an \<open>R\<close>-related one.\<close>

definition within :: "(backend \<Rightarrow> backend \<Rightarrow> bool) \<Rightarrow> 'a bstep \<Rightarrow> bool" where
  "within R m \<longleftrightarrow> (\<forall>st. R st (snd (m st)))"

lemma within_D: "within R m \<Longrightarrow> m st = (r, st') \<Longrightarrow> R st st'"
  by (auto simp: within_def dest: spec [where x = st])

locale step_order =
  fixes R :: "backend \<Rightarrow> backend \<Rightarrow> bool"
  assumes refl: "R st st"
    and trans: "R st st1 \<Longrightarrow> R st1 st2 \<Longrightarrow> R st st2"
begin

lemma ret: "within R (bret x)"
  by (simp add: within_def bret_def refl)

lemma fail: "within R (bfail e)"
  by (simp add: within_def bfail_def refl)

lemma get: "within R (bget f)"
  by (simp add: within_def bget_def refl)

lemma modify: "(\<And>st. R st (f st)) \<Longrightarrow> within R (bmodify f)"
  by (simp add: within_def bmodify_def)

lemma bind: "within R m \<Longrightarrow> (\<And>x. within R (f x)) \<Longrightarrow> within R (bbind m f)"
proof (unfold within_def, rule allI)
  fix st
  assume m: "\<forall>st. R st (snd (m st))" and f: "\<And>x. \<forall>st. R st (snd (f x st))"
  obtain r st1 where eq: "m st = (r, st1)" by (cases "m st")
  with m have one: "R st st1" by (metis snd_conv)
  show "R st (snd (bbind m f st))"
  proof (cases r)
    case (Inl e)
    with eq one show ?thesis by (simp add: bbind_def)
  next
    case (Inr x)
    with eq trans [OF one] f show ?thesis by (simp add: bbind_def)
  qed
qed

lemma each: "(\<And>x. x \<in> set xs \<Longrightarrow> within R (f x)) \<Longrightarrow> within R (beach f xs)"
  by (induction xs) (simp_all add: ret bind)

lemma branch: "(b \<Longrightarrow> within R m) \<Longrightarrow> (\<not> b \<Longrightarrow> within R m') \<Longrightarrow> within R (if b then m else m')"
  by simp

lemma folds: "(\<And>x st. x \<in> set xs \<Longrightarrow> R st (f x st)) \<Longrightarrow> R st (fold f xs st)"
  by (induction xs arbitrary: st) (auto intro: refl trans)

lemmas rules = ret fail get bind each branch modify

end

section \<open>Directories and their children\<close>

lemma sub_simps [simp]:
  "sub b [] = b" "sub (sub b xs) ys = sub b (xs @ ys)" "sub b xs = sub b ys \<longleftrightarrow> xs = ys"
  by (auto simp: sub_def inj_def dest: map_injective)

lemma child_sub: "child b i = sub b [dec i]"
  by (simp add: child_def sub_def)

lemma sub_eq_base [simp]: "sub b xs = b \<longleftrightarrow> xs = []" "b = sub b xs \<longleftrightarrow> xs = []"
  by (simp_all add: sub_def)

lemma starts_with_sub [simp]: "starts_with (sub b xs) b"
  by (simp add: sub_def)

lemma file_name_sub [simp]: "xs \<noteq> [] \<Longrightarrow> file_name (sub b xs) = Some (last xs)"
  by (simp add: sub_def file_name_def last_map)

lemma parent_sub [simp]: "xs \<noteq> [] \<Longrightarrow> parent (sub b xs) = Some (sub b (butlast xs))"
  by (simp add: sub_def parent_def last_map map_butlast butlast_append)

lemma parent_file_name:
  "file_name p = Some name \<Longrightarrow> parent p = Some k \<Longrightarrow> p = sub k [name]"
  by (cases p rule: rev_cases)
    (auto simp: file_name_def parent_def sub_def split: component.splits if_splits)

lemma file_name_parent: "file_name p = Some name \<Longrightarrow> \<exists>k. parent p = Some k"
  by (auto simp: file_name_def parent_def split: if_splits)

lemma child_below_child:
  assumes "starts_with q (child d i)" "starts_with q (child d j)"
  shows "i = j"
  using assms by (auto simp: starts_with_iff child_def)

lemma utf8_decimal: "utf8_valid (dec n)"
  by (rule utf8_ascii, auto simp: byte_val_def dest!: dec_digits
      intro: byte_digit [unfolded byte_val_def])

lemma parse_count_dec: "n \<le> 128 \<Longrightarrow> parse_count (dec n) = Inr n"
  by (simp add: parse_count_def utf8_decimal parse_usize_dec)

lemma indexed_below_child: "i < 2 ^ 64 \<Longrightarrow> starts_with q (child d i) \<Longrightarrow> indexed_below d q"
  by (auto simp: indexed_below_def starts_with_iff strip_prefix_def child_def utf8_decimal parse_usize_dec)

abbreviation on_line :: string where "on_line \<equiv> ''on'' @ newline"

text \<open>Nodes properly below a directory, none of which is a running state file.\<close>

definition under :: "path \<Rightarrow> (path \<times> node) list \<Rightarrow> bool" where
  "under b es \<longleftrightarrow>
     (\<forall>e\<in>set es. \<exists>names. names \<noteq> [] \<and> fst e = sub b names \<and> (last names = ''state'' \<longrightarrow> snd e \<noteq> File on_line))"

lemma under_simps [simp]:
  "under b []" "under b (xs @ ys) \<longleftrightarrow> under b xs \<and> under b ys"
  "under b ((sub b names, n) # es) \<longleftrightarrow>
     names \<noteq> [] \<and> (last names = ''state'' \<longrightarrow> n \<noteq> File on_line) \<and> under b es"
  by (auto simp: under_def)

lemma under_sub: "under (sub b names) es \<Longrightarrow> under b es"
  unfolding under_def by (metis append_is_Nil_conv last_append sub_simps(2))

lemma under_concat: "(\<And>es. es \<in> set ess \<Longrightarrow> under b es) \<Longrightarrow> under b (concat ess)"
  by (auto simp: under_def)

lemma under_zeros [simp]: "\<forall>f\<in>set files. f \<noteq> ''state'' \<Longrightarrow> under b (zeros b names files)"
  by (induction files) (simp_all add: zeros_def)

lemma under_keys: "under b es \<Longrightarrow> q \<in> fst ` set es \<Longrightarrow> starts_with q b \<and> q \<noteq> b"
  by (auto simp: under_def dest!: bspec)

lemma under_context:
  "under b (context_attribute_nodes b)" "under b (current_extension_nodes b)"
  by (simp_all add: context_attribute_nodes_def current_extension_nodes_def)

lemma under_scheme:
  "under b (pattern_nodes b)" "under b (quota_nodes effective b)" "under b (scheme_child_nodes b)"
  by (simp_all add: pattern_nodes_def quota_nodes_def scheme_child_nodes_def)

text \<open>A function that creates the child of one index, and nothing outside it.\<close>

definition makes_child :: "path \<Rightarrow> (nat \<Rightarrow> backend \<Rightarrow> backend) \<Rightarrow> bool" where
  "makes_child d create \<longleftrightarrow>
     (\<forall>i st. \<exists>es. create i st = made ((child d i, Directory) # es) st \<and> under (child d i) es)"

named_theorems creators \<open>every creator makes one child\<close>

lemma makes_childI:
  "(\<And>i st. create i st = made ((sub (child d i) [], Directory) # f i st) st)
   \<Longrightarrow> (\<And>i st. under (child d i) (f i st)) \<Longrightarrow> makes_child d create"
  by (auto simp: makes_child_def)

lemma makes_kdamond [creators]: "makes_child (sub [] [''kdamonds'']) create_kdamond"
  by (rule makes_childI, simp only: create_kdamond_def Let_def, simp)

lemma makes_context [creators]: "makes_child d (create_context d)"
  by (rule makes_childI, simp only: create_context_def Let_def append.simps, simp add: under_context)

lemma makes_target [creators]: "makes_child d (create_target d)"
  by (rule makes_childI, simp only: create_target_def Let_def, simp)

lemma makes_target_region [creators]: "makes_child d (create_target_region d)"
  by (rule makes_childI, simp only: create_target_region_def Let_def, simp)

lemma makes_scheme [creators]: "makes_child d (create_scheme d)"
  by (rule makes_childI, simp only: create_scheme_def Let_def append.simps, simp add: under_scheme)

lemma makes_probe [creators]: "makes_child d (create_probe d)"
  by (rule makes_childI, simp only: create_probe_def Let_def append.simps, simp)

lemma makes_probe_preparation [creators]: "makes_child d (create_probe_preparation d)"
  by (rule makes_childI, simp only: create_probe_preparation_def Let_def, simp)

lemma makes_filter [creators]: "makes_child d (create_filter t d)"
proof -
  have "makes_child d (create_sample_filter d)"
    by (rule makes_childI, simp only: create_sample_filter_def Let_def, simp)
  moreover have "makes_child d (create_probe_filter d)"
    by (rule makes_childI, simp only: create_probe_filter_def Let_def, simp)
  moreover have "makes_child d (create_scheme_filter d)"
    by (rule makes_childI, simp only: create_scheme_filter_def Let_def append.simps, simp)
  ultimately show ?thesis by (simp add: create_filter_def)
qed

lemma makes_quota_goal [creators]: "makes_child d (create_quota_goal d)"
  by (rule makes_childI, simp only: create_quota_goal_def Let_def append.simps, simp)

lemma makes_destination [creators]: "makes_child d (create_destination d)"
  by (rule makes_childI, simp only: create_destination_def Let_def, simp)

section \<open>Frames\<close>

text \<open>Nodes in \<open>keep\<close> stay, and so do the files the running kdamonds use.\<close>

definition frames :: "(path \<Rightarrow> bool) \<Rightarrow> backend \<Rightarrow> backend \<Rightarrow> bool" where
  "frames keep st st' \<longleftrightarrow>
     be_active st' = be_active st \<and> be_extensions st' = be_extensions st
     \<and> (\<forall>q. keep q \<longrightarrow> lookup st' q = lookup st q)"

interpretation frame: step_order "frames keep" for keep
  by unfold_locales (auto simp: frames_def)

lemma lookup_made: "q \<notin> fst ` set es \<Longrightarrow> lookup (made es st) q = lookup st q"
  by (simp add: made_def map_of_bt_extend_other)

lemma made_fields [simp]:
  "be_active (made es st) = be_active st" "be_extensions (made es st) = be_extensions st"
  "be_active (State_file p v st) = be_active st" "be_extensions (State_file p v st) = be_extensions st"
  "be_active (retain_nodes g st) = be_active st" "be_extensions (retain_nodes g st) = be_extensions st"
  by (simp_all add: made_def State_file_def retain_nodes_def)

lemma lookup_simps [simp]:
  "lookup (State_file p v st) q = (if q = p then Some (File v) else lookup st q)"
  "lookup (retain_nodes g st) q = (if g q then lookup st q else None)"
  by (simp_all add: State_file_def retain_nodes_def)

lemma frames_made: "\<forall>q\<in>fst ` set es. \<not> keep q \<Longrightarrow> frames keep st (made es st)"
  by (auto simp: frames_def intro: lookup_made)

lemma frames_file: "\<not> keep p \<Longrightarrow> frames keep st (State_file p v st)"
  by (auto simp: frames_def)

lemma frames_retain: "(\<And>q. keep q \<Longrightarrow> g q) \<Longrightarrow> frames keep st (retain_nodes g st)"
  by (auto simp: frames_def)

lemma frames_child:
  assumes "makes_child d create"
  shows "frames (\<lambda>q. \<not> starts_with q (child d i)) st (create i st)"
    and "lookup (create i st) (child d i) = Some Directory"
proof -
  from assms obtain es where es: "create i st = made ((child d i, Directory) # es) st" "under (child d i) es"
    unfolding makes_child_def by blast
  have below: "starts_with q (child d i) \<and> q \<noteq> child d i" if "q \<in> fst ` set es" for q
    using under_keys [OF es(2) that] .
  show "frames (\<lambda>q. \<not> starts_with q (child d i)) st (create i st)"
    unfolding es(1) by (rule frames_made) (use below in \<open>auto simp: starts_with_iff\<close>)
  have "child d i \<notin> fst ` set es" using below by blast
  then show "lookup (create i st) (child d i) = Some Directory"
    unfolding es(1) made_def by (simp add: map_of_bt_extend_first)
qed

section \<open>Recounting the children of a directory\<close>

text \<open>What rebuilding leaves: exactly the children \<open>0, \<dots>, n - 1\<close>, up to the extension files.\<close>

definition recounted :: "path \<Rightarrow> nat \<Rightarrow> (path \<Rightarrow> bool) \<Rightarrow> (path \<Rightarrow> node option) \<Rightarrow> (path \<Rightarrow> node option) \<Rightarrow> bool"
where
  "recounted d n extra before after \<longleftrightarrow>
     (\<forall>q. \<not> extra q \<longrightarrow>
        (if indexed_below d q
         then (after q \<noteq> None \<longrightarrow> (\<exists>i<n. starts_with q (child d i)))
         else after q = before q))
     \<and> (\<forall>i<n. \<not> extra (child d i) \<longrightarrow> after (child d i) = Some Directory)"

lemma created_children:
  assumes creates: "makes_child d create" and small: "n \<le> 128"
    and empty: "\<forall>q. indexed_below d q \<longrightarrow> lookup st q = None"
  shows "recounted d n (\<lambda>_. False) (lookup st) (lookup (fold create [0..<n] st))
    \<and> be_active (fold create [0..<n] st) = be_active st
    \<and> be_extensions (fold create [0..<n] st) = be_extensions st"
  using small
proof (induction n)
  case 0
  then show ?case using empty by (auto simp: recounted_def)
next
  case (Suc n)
  let ?st = "fold create [0..<n] st"
  have IH: "recounted d n (\<lambda>_. False) (lookup st) (lookup ?st)"
    and fields: "be_active ?st = be_active st" "be_extensions ?st = be_extensions st"
    using Suc by auto
  have new: "frames (\<lambda>q. \<not> starts_with q (child d n)) ?st (create n ?st)"
    "lookup (create n ?st) (child d n) = Some Directory"
    using frames_child [OF creates] by blast+
  have inside: "indexed_below d q" if "starts_with q (child d n)" for q
    using indexed_below_child [OF _ that] Suc.prems by simp
  have other: "\<not> starts_with (child d i) (child d n)" if "i < n" for i
    using child_below_child [of "child d i" d i n] that by (auto simp: starts_with_iff)
  let ?new = "lookup (create n ?st)"
  have old: "?new q = lookup ?st q" if "\<not> starts_with q (child d n)" for q
    using new(1) that by (simp add: frames_def)
  have "if indexed_below d q then ?new q \<noteq> None \<longrightarrow> (\<exists>i<Suc n. starts_with q (child d i))
        else ?new q = lookup st q" for q
  proof (cases "starts_with q (child d n)")
    case True
    with inside show ?thesis by auto
  next
    case False
    have "if indexed_below d q then lookup ?st q \<noteq> None \<longrightarrow> (\<exists>i<n. starts_with q (child d i))
        else lookup ?st q = lookup st q"
      using IH by (simp add: recounted_def)
    then show ?thesis by (subst (1 2) old [OF False]) (metis less_Suc_eq)
  qed
  moreover have "?new (child d i) = Some Directory" if "i < Suc n" for i
    using IH new(2) old other that unfolding recounted_def by (auto simp: less_Suc_eq)
  ultimately have "recounted d (Suc n) (\<lambda>_. False) (lookup st) ?new"
    by (simp add: recounted_def)
  with new(1) fields show ?case by (simp add: frames_def)
qed

lemma frames_restore:
  "frames (\<lambda>q. map_of (be_extensions st) q = None) st (restore_extension_files st)"
proof -
  have one: "frames (\<lambda>q. q \<notin> fst ` set es) st' (restore_extension_file e st')" if "e \<in> set es" for e st' es
    using that by (cases "parent (fst e)")
      (auto simp: restore_extension_file_def frames_def)
  have "frames (\<lambda>q. q \<notin> fst ` set (be_extensions st)) st (fold restore_extension_file (be_extensions st) st)"
    by (rule frame.folds) (rule one)
  then show ?thesis
    by (auto simp: restore_extension_files_def frames_def map_of_eq_None_iff)
qed

lemma rebuilt_children:
  fixes st :: backend
  assumes "makes_child d create" "n \<le> 128"
  defines st': "st' \<equiv> rebuild_children d n create st"
  shows "recounted d n (\<lambda>q. map_of (be_extensions st) q \<noteq> None) (lookup st) (lookup st')"
    and "be_active st' = be_active st" "be_extensions st' = be_extensions st"
proof -
  define st1 where "st1 = remove_indexed_children d st"
  define st2 where "st2 = fold create [0..<n] st1"
  have "\<forall>q. indexed_below d q \<longrightarrow> lookup st1 q = None"
    by (simp add: st1_def remove_indexed_children_def)
  note made = created_children [OF assms(1,2) this, folded st2_def]
  have st1: "be_active st1 = be_active st" "be_extensions st1 = be_extensions st"
    "\<And>q. lookup st1 q = (if indexed_below d q then None else lookup st q)"
    by (simp_all add: st1_def remove_indexed_children_def)
  have eq: "st' = restore_extension_files st2"
    by (simp add: assms(3) st2_def st1_def rebuild_children_def)
  have restored: "frames (\<lambda>q. map_of (be_extensions st) q = None) st2 st'"
    using frames_restore [of st2] made st1 by (simp add: eq)
  show "be_active st' = be_active st" "be_extensions st' = be_extensions st"
    using restored made st1 by (simp_all add: frames_def)
  show "recounted d n (\<lambda>q. map_of (be_extensions st) q \<noteq> None) (lookup st) (lookup st')"
    using restored made st1(3) unfolding recounted_def frames_def by (metis (mono_tags, lifting))
qed

section \<open>The reports of the kernel\<close>

text \<open>The nodes that the update commands of a kdamond fill in.\<close>

definition reported :: "path \<Rightarrow> path \<Rightarrow> bool" where
  "reported k q \<longleftrightarrow>
     (\<exists>i. starts_with q (scheme_below k i [''tried_regions'']) \<or> starts_with q (scheme_below k i [''stats''])
        \<or> q = scheme_below k i [''quotas'', ''effective_bytes''])"

abbreviation reports_only :: "path \<Rightarrow> backend \<Rightarrow> backend \<Rightarrow> bool" where
  "reports_only k \<equiv> frames (\<lambda>q. \<not> reported k q)"

lemma scheme_below_sub: "sub (scheme_below k i xs) ys = scheme_below k i (xs @ ys)"
  by (simp add: scheme_below_def)

lemma indexed_below_starts: "indexed_below d q \<Longrightarrow> starts_with q d"
  by (auto simp: indexed_below_def strip_prefix_def split: option.splits if_splits)

lemma reported_regions: "starts_with q (scheme_below k i [''tried_regions'']) \<Longrightarrow> reported k q"
  by (auto simp: reported_def)

lemma reported_stats: "starts_with q (scheme_below k i [''stats'']) \<Longrightarrow> reported k q"
  by (auto simp: reported_def)

lemma reported_total: "reported k (sub (scheme_below k i [''tried_regions'']) xs)"
  by (rule reported_regions, rule starts_with_sub)

lemma reported_statistic: "reported k (sub (scheme_below k i [''stats'']) xs)"
  by (rule reported_stats, rule starts_with_sub)

lemma reports_remove:
  "reports_only k st (remove_indexed_children (scheme_below k i [''tried_regions'']) st)"
  unfolding remove_indexed_children_def
  by (rule frames_retain) (blast dest: indexed_below_starts intro: reported_regions)

lemma under_probes: "under b (probe_nodes b e)"
  by (simp add: probe_nodes_def child_sub Let_def)

lemma under_regions: "under base (region_nodes base e)"
proof -
  let ?b = "child base (fst e)"
  have probes: "under ?b (concat (map (probe_nodes ?b) xs))" for xs
    by (rule under_concat) (auto intro: under_probes)
  have "under base (region_nodes base e)
    \<longleftrightarrow> under base (concat (map (probe_nodes ?b) (enumerate 0 (mr_hits (snd e)))))"
    by (simp add: region_nodes_def child_sub Let_def split: option.splits)
  with under_sub [of base "[dec (fst e)]"] probes show ?thesis by (simp add: child_sub)
qed

lemma reports_regions: "within (reports_only k) (materialize_scheme_regions k n regions i)"
proof -
  let ?base = "scheme_below k i [''tried_regions'']"
  let ?es = "mkfile ?base [''total_bytes''] (dec_word n) # concat (map (region_nodes ?base) (enumerate 0 regions))"
  have "under ?base (concat (map (region_nodes ?base) xs))" for xs
    by (rule under_concat) (auto intro: under_regions)
  then have "under ?base ?es" by simp
  then have "\<forall>q\<in>fst ` set ?es. reported k q"
    by (blast dest: under_keys intro: reported_regions)
  then have "reports_only k st (made ?es st)" for st
    by (intro frames_made) blast
  then show ?thesis
    unfolding materialize_scheme_regions_def Let_def
    by (intro frame.rules) (auto intro: reports_remove)
qed

lemma reports_clear: "within (reports_only k) (clear_scheme_regions k i)"
  unfolding clear_scheme_regions_def Let_def
  by (intro frame.rules reports_remove frames_file) (simp add: reported_total)

lemma reports_tried: "within (reports_only k) (materialize_tried_regions k)"
proof -
  have "within (reports_only k) (bbind (bget (\<lambda>_. region_total 0 regions)) (\<lambda>sum_units.
      bbind (bget (scheme_count k)) (\<lambda>n.
        beach (materialize_scheme_regions k sum_units regions) [0..<n])))" for regions
    by (intro frame.rules reports_regions)
  then show ?thesis by (simp add: within_def materialize_tried_regions_def Let_def)
qed

lemma stats_nodes_files: "q \<in> fst ` set (stats_nodes b s) \<Longrightarrow> \<exists>name. q = sub b [name]"
proof -
  have "fst e \<in> range (\<lambda>name. sub b [name])"
    if "e \<in> set (map (\<lambda>(name, v). mkfile b [name] (dec_word v)) xs)" for e and xs :: "(string \<times> u64) list"
    using that by auto
  then show "q \<in> fst ` set (stats_nodes b s) \<Longrightarrow> \<exists>name. q = sub b [name]"
    unfolding stats_nodes_def by blast
qed

lemma reports_stats: "reports_only k st (write_stats k es st)"
proof (induction es arbitrary: st)
  case (Cons e es)
  obtain i s where e: "e = (i, s)" by (cases e)
  let ?b = "scheme_below k i [''stats'']"
  have "\<forall>q\<in>fst ` set (stats_nodes ?b s). reported k q"
    using stats_nodes_files reported_statistic by metis
  then have "reports_only k st (made (stats_nodes ?b s) st)" by (intro frames_made) blast
  from frame.trans [OF this Cons.IH] show ?case by (simp add: e Let_def frame.refl)
qed (simp add: frame.refl)

lemma reports_quotas: "reports_only k st (write_quotas k es st)"
proof (induction es arbitrary: st)
  case (Cons e es)
  obtain i v where e: "e = (i, v)" by (cases e)
  have "reports_only k st (State_file (scheme_below k i [''quotas'', ''effective_bytes'']) v' st)" for v'
    by (rule frames_file) (auto simp: reported_def)
  from frame.trans [OF this Cons.IH] show ?case by (simp add: e Let_def frame.refl)
qed (simp add: frame.refl)

lemmas reports_simps =
  running_command_def ensure_running_def update_tried_bytes_def clear_materialized_tried_regions_def
  remove_scheme_regions_def materialize_scheme_stats_def materialize_effective_quotas_def

definition takes_effect :: "string \<Rightarrow> bool" where
  "takes_effect command \<longleftrightarrow>
     command \<in> {''on'', ''off'', ''commit'', ''commit_schemes_quota_goals''}"

lemma reports_obey:
  assumes "\<not> takes_effect command"
  shows "within (reports_only k) (obey p k command)"
proof -
  have "command \<noteq> ''on''" "command \<noteq> ''off''" "command \<noteq> ''commit''"
    "command \<noteq> ''commit_schemes_quota_goals''"
    using assms by (auto simp: takes_effect_def)
  then show ?thesis
    unfolding obey_def reports_simps
    by (simp only: if_False)
      (intro frame.rules reports_tried reports_clear reports_remove reports_stats reports_quotas)
qed

end
