(* ===== verification/Simulation.thy ===== *)
theory Simulation
  imports Damon_Prelude
begin

text \<open>Runs of labelled steps, and the refinement of one kind of step by another.\<close>

section \<open>Runs\<close>

inductive run :: "('s \<Rightarrow> 'l \<Rightarrow> 's \<Rightarrow> bool) \<Rightarrow> 's \<Rightarrow> 'l list \<Rightarrow> 's \<Rightarrow> bool"
  for step :: "'s \<Rightarrow> 'l \<Rightarrow> 's \<Rightarrow> bool" where
  nothing: "run step s [] s"
| next_step: "run step s ls t \<Longrightarrow> step t l u \<Longrightarrow> run step s (ls @ [l]) u"

lemma run_single: "step s l t \<Longrightarrow> run step s [l] t"
  using run.next_step [of step s "[]" s l t] by (simp add: run.nothing)

section \<open>Simulation\<close>

locale simulation =
  fixes step :: "'s \<Rightarrow> 'l \<Rightarrow> 's \<Rightarrow> bool"
    and spec :: "'a \<Rightarrow> 'l \<Rightarrow> 'a \<Rightarrow> bool"
    and view :: "'s \<Rightarrow> 'a"
  assumes simulated: "step s l t \<Longrightarrow> spec (view s) l (view t)"
begin

lemma refined: "run step s ls t \<Longrightarrow> run spec (view s) ls (view t)"
  by (induction rule: run.induct) (auto intro: run.intros simulated)

text \<open>An invariant of the specification is one of what refines it.\<close>

lemma transfer:
  assumes "run step s ls t" and "I (view s)" and "\<And>a l b. spec a l b \<Longrightarrow> I a \<Longrightarrow> I b"
  shows "I (view t)"
proof -
  have "run spec (view s) ls (view t)" using assms(1) by (rule refined)
  then show ?thesis using assms(2) by (induction rule: run.induct) (auto intro: assms(3))
qed

end

end
