(* ===== verification/Backend_Kernel.thy ===== *)
theory Backend_Kernel
  imports Backend_Lemmas Simulation
begin

text \<open>
  The states the in-memory kernel can reach, the invariant they share, and the small kernel it
  implements: a staged tree, and the files that the running kdamonds were last given.
\<close>

section \<open>The invariant\<close>

definition quiet_mutation :: "mutation \<Rightarrow> bool" where
  "quiet_mutation m = (case m of SetFile p _ \<Rightarrow> file_name p \<noteq> Some ''state'' | _ \<Rightarrow> True)"

text \<open>Only a kdamond that was given files runs; nobody but the kernel writes a state file.\<close>

definition sound :: "backend \<Rightarrow> bool" where
  "sound st \<longleftrightarrow>
     ordered (be_nodes st) \<and> ordered (be_extensions st)
     \<and> (\<forall>a. be_active st = Some a \<longrightarrow> ordered a)
     \<and> (\<forall>q. file_name q = Some ''state'' \<and> is_on st q \<longrightarrow> be_active st \<noteq> None)
     \<and> (\<forall>q\<in>fst ` set (be_extensions st). file_name q \<noteq> Some ''state'')
     \<and> (\<forall>h\<in>set (be_hooks st). \<forall>m\<in>set (hk_mutations h). quiet_mutation m)
     \<and> (\<forall>s\<in>{be_available st, be_recognized st, be_scheme_filters st, be_probe_filters st,
             be_actions st, be_metrics st, be_preparations st}. utf8_valid s)"

lemma soundD:
  assumes "sound st"
  shows "ordered (be_nodes st)" "ordered (be_extensions st)"
    "be_active st = Some a \<Longrightarrow> ordered a"
    "file_name q = Some ''state'' \<Longrightarrow> is_on st q \<Longrightarrow> be_active st \<noteq> None"
    "q \<in> fst ` set (be_extensions st) \<Longrightarrow> file_name q \<noteq> Some ''state''"
    "h \<in> set (be_hooks st) \<Longrightarrow> m \<in> set (hk_mutations h) \<Longrightarrow> quiet_mutation m"
    "utf8_valid (be_available st)" "utf8_valid (be_recognized st)" "utf8_valid (be_scheme_filters st)"
    "utf8_valid (be_probe_filters st)" "utf8_valid (be_actions st)" "utf8_valid (be_metrics st)"
    "utf8_valid (be_preparations st)"
  using assms unfolding sound_def by blast+

abbreviation keeps_sound :: "backend \<Rightarrow> backend \<Rightarrow> bool" where
  "keeps_sound st st' \<equiv> sound st \<longrightarrow> sound st'"

interpretation sound: step_order keeps_sound
  by unfold_locales auto

lemma sound_nodes:
  assumes "sound st" "ordered t"
    "\<And>q. file_name q = Some ''state'' \<Longrightarrow> map_of t q = Some (File on_line)
       \<Longrightarrow> is_on st q \<or> be_active st \<noteq> None"
  shows "sound (st\<lparr>be_nodes := t\<rparr>)"
  using assms(1,2) assms(3) soundD(4) [OF assms(1)]
  unfolding sound_def is_on_def by (simp) blast

lemma sound_file:
  assumes "sound st" "file_name p = Some ''state'' \<Longrightarrow> v = on_line \<Longrightarrow> be_active st \<noteq> None"
  shows "sound (State_file p v st)"
  unfolding State_file_def
  by (rule sound_nodes [OF assms(1)])
    (use assms soundD(1) [OF assms(1)] in \<open>auto simp: is_on_def split: if_splits\<close>)

lemma sound_retain: "sound st \<Longrightarrow> sound (retain_nodes g st)"
  unfolding retain_nodes_def
  by (rule sound_nodes) (auto simp: is_on_def soundD(1) split: if_splits)

lemma sound_made:
  assumes "sound st" "\<And>e. e \<in> set es \<Longrightarrow> file_name (fst e) = Some ''state'' \<Longrightarrow> snd e \<noteq> File on_line"
  shows "sound (made es st)"
  unfolding made_def
proof (rule sound_nodes [OF assms(1)])
  fix q
  assume q: "file_name q = Some ''state''" "map_of (bt_extend es (be_nodes st)) q = Some (File on_line)"
  have "map_of (rev es) q \<noteq> Some (File on_line)"
    using assms(2) [of "(q, File on_line)"] q(1) map_of_SomeD [of "rev es" q "File on_line"] by auto
  with q(2) have "lookup st q = Some (File on_line)"
    by (auto simp: map_of_bt_extend map_add_def split: option.splits)
  then show "is_on st q \<or> be_active st \<noteq> None" by (simp add: is_on_def)
qed (simp add: soundD(1) [OF assms(1)])

lemma sound_under:
  assumes "sound st" "under b es"
  shows "sound (made es st)"
proof (rule sound_made [OF assms(1)])
  fix e assume e: "e \<in> set es" "file_name (fst e) = Some ''state''"
  with assms(2) show "snd e \<noteq> File on_line" unfolding under_def by fastforce
qed

lemma sound_create:
  assumes "makes_child d create" "sound st"
  shows "sound (create i st)"
proof -
  from assms(1) obtain es where es: "create i st = made ((child d i, Directory) # es) st" "under (child d i) es"
    unfolding makes_child_def by blast
  have "under d ((child d i, Directory) # es)"
    using under_sub [of d "[dec i]" es] es(2) by (simp add: child_sub)
  with assms(2) show ?thesis unfolding es(1) by (rule sound_under)
qed

lemma sound_restore: "sound st \<Longrightarrow> sound (restore_extension_files st)"
proof -
  have "sound st \<and> (\<forall>e\<in>set es. file_name (fst e) \<noteq> Some ''state'')
        \<Longrightarrow> sound (fold restore_extension_file es st)" for es
  proof (induction es arbitrary: st)
    case (Cons e es)
    then have "sound (restore_extension_file e st)"
      by (auto simp: restore_extension_file_def intro: sound_file split: option.splits)
    with Cons show ?case by simp
  qed simp
  then show "sound st \<Longrightarrow> ?thesis"
    unfolding restore_extension_files_def by (simp add: soundD(5))
qed

lemma sound_children:
  assumes "makes_child d create" "sound st"
  shows "sound (rebuild_children d n create st)"
proof -
  have "keeps_sound st' (fold create [0..<n] st')" for st'
    by (rule sound.folds) (blast intro: sound_create [OF assms(1)])
  then show ?thesis
    unfolding rebuild_children_def remove_indexed_children_def
    using assms(2) sound_retain sound_restore by blast
qed

section \<open>Every step keeps the invariant\<close>

lemma ordered_filter: "ordered t \<Longrightarrow> ordered (filter P t)"
  by (simp add: ordered_def sorted_wrt_filter sorted_wrt_map)

lemma sound_active:
  assumes "sound st" "ordered a"
  shows "sound (st\<lparr>be_active := Some a\<rparr>)"
  using assms unfolding sound_def is_on_def by simp

lemma active_ordered:
  "sound st \<Longrightarrow> ordered (case be_active st of None \<Rightarrow> [] | Some a \<Rightarrow> a)"
  by (auto dest: soundD(3) split: option.splits)

lemma sound_capture: "sound st \<Longrightarrow> sound (capture_active_files k st)"
  unfolding capture_active_files_def Let_def
  by (intro sound_active ordered_extend ordered_retain active_ordered)

lemma sound_goals: "within keeps_sound (commit_quota_goals k)"
proof (unfold within_def, intro allI impI)
  fix st assume "sound st"
  then show "sound (snd (commit_quota_goals k st))"
    by (cases "be_active st")
      (auto simp: commit_quota_goals_def intro!: sound_active ordered_extend ordered_retain intro: soundD(3))
qed

lemma sound_kdamonds: "within keeps_sound (rebuild_kdamonds n)"
proof (unfold within_def, intro allI impI)
  fix st assume s: "sound st"
  show "sound (snd (rebuild_kdamonds n st))"
  proof (cases "some_kdamond_on st")
    case False
    let ?st = "remove_indexed_children (sub [] [''kdamonds'']) st"
    have off: "\<not> is_on ?st q" if "file_name q = Some ''state''" for q
    proof
      assume "is_on ?st q"
      then have "(q, File on_line) \<in> set (be_nodes st)"
        by (intro map_of_SomeD) (simp add: is_on_def remove_indexed_children_def split: if_splits)
      with that False show False unfolding some_kdamond_on_def by force
    qed
    have "sound ?st" using s by (simp add: remove_indexed_children_def sound_retain)
    with off have "sound (?st\<lparr>be_active := None\<rparr>)" unfolding sound_def is_on_def by simp
    then have "sound (fold create_kdamond [0..<n] (?st\<lparr>be_active := None\<rparr>))"
      using sound.folds [of "[0..<n]" create_kdamond] sound_create [OF makes_kdamond] by blast
    with False show ?thesis by (simp add: rebuild_kdamonds_def sound_restore)
  qed (use s in \<open>simp add: rebuild_kdamonds_def\<close>)
qed

lemma sound_rebuild_below:
  assumes "\<And>d. makes_child d (create d)"
  shows "within keeps_sound (rebuild_below p n create)"
  unfolding rebuild_below_def
  by (cases "parent p") (auto intro!: sound.rules sound_children assms)

lemma sound_reconstruct: "within keeps_sound (reconstruct_count p n)"
  unfolding reconstruct_count_def Let_def
  by (intro sound.rules sound_kdamonds sound_rebuild_below creators)

lemma sound_regions: "within keeps_sound (materialize_scheme_regions k n regions i)"
proof -
  let ?base = "scheme_below k i [''tried_regions'']"
  let ?es = "mkfile ?base [''total_bytes''] (dec_word n) # concat (map (region_nodes ?base) (enumerate 0 regions))"
  have "under ?base (concat (map (region_nodes ?base) (enumerate 0 regions)))"
    by (rule under_concat) (auto intro: under_regions)
  then have "under ?base ?es" by simp
  then have add: "within keeps_sound (bmodify (made ?es))"
    using sound_under by (intro sound.modify) blast
  have "within keeps_sound (bmodify (remove_indexed_children ?base))"
    unfolding remove_indexed_children_def by (intro sound.modify impI sound_retain)
  from sound.bind [OF sound.get sound.bind [OF this add]] show ?thesis
    unfolding materialize_scheme_regions_def Let_def .
qed

lemma sound_tried: "within keeps_sound (materialize_tried_regions k)"
proof -
  have "within keeps_sound (bbind (bget (\<lambda>_. region_total 0 regions)) (\<lambda>sum_units.
      bbind (bget (scheme_count k)) (\<lambda>n.
        beach (materialize_scheme_regions k sum_units regions) [0..<n])))" for regions
    by (intro sound.rules sound_regions)
  then show ?thesis by (simp add: within_def materialize_tried_regions_def Let_def)
qed

lemma under_stats: "under b (stats_nodes b s)"
  by (simp add: stats_nodes_def)

lemma sound_stats: "sound st \<Longrightarrow> sound (write_stats k es st)"
proof (induction es arbitrary: st)
  case (Cons e es)
  then show ?case by (cases e) (simp add: Let_def sound_under [OF _ under_stats])
qed simp

lemma sound_quotas: "sound st \<Longrightarrow> sound (write_quotas k es st)"
proof (induction es arbitrary: st)
  case (Cons e es)
  have "file_name (scheme_below k i [''quotas'', ''effective_bytes'']) \<noteq> Some ''state''" for i
    by (simp add: scheme_below_def)
  then have "sound (State_file (scheme_below k i [''quotas'', ''effective_bytes'']) v st)" for i v
    using sound_file [OF Cons.prems] by blast
  with Cons show ?case by (cases e) (simp add: Let_def)
qed simp

lemma sound_clear: "within keeps_sound (clear_scheme_regions k i)"
proof -
  have "file_name (sub (scheme_below k i [''tried_regions'']) [''total_bytes'']) \<noteq> Some ''state''"
    by simp
  then show ?thesis
    unfolding clear_scheme_regions_def Let_def remove_indexed_children_def
    by (intro sound.rules impI sound_retain sound_file) blast+
qed

lemma sound_pid:
  "within keeps_sound take_pid" "within keeps_sound (validate_sample_primitives k)"
proof -
  show "within keeps_sound take_pid"
    by (auto simp: within_def take_pid_def sound_def is_on_def split: option.splits)
  show "within keeps_sound (validate_sample_primitives k)"
    unfolding validate_sample_primitives_def Let_def
    by (intro sound.rules) (auto intro: sound.rules split: option.splits)
qed

text \<open>A start gives the kdamond its files before its state file says that it runs.\<close>

lemma sound_start: "within keeps_sound (start_kdamond k)"
proof -
  let ?run = "\<lambda>p. bbind (bmodify (State_file (sub k [''state'']) on_line)) (\<lambda>_.
      bmodify (State_file (sub k [''pid'']) (dec_word p @ newline)))"
  have "keeps_sound st (snd (bbind (bmodify (capture_active_files k)) (\<lambda>_. bbind take_pid ?run) st))" for st
  proof
    assume "sound st"
    then have "sound (capture_active_files k st)" "be_active (capture_active_files k st) \<noteq> None"
      by (simp_all add: sound_capture, simp add: capture_active_files_def Let_def)
    moreover have "sound (snd (take_pid st')) \<and> be_active (snd (take_pid st')) \<noteq> None"
      if "sound st'" "be_active st' \<noteq> None" for st'
      using that sound_pid(1) unfolding within_def
      by (auto simp: take_pid_def split: option.splits)
    moreover have "sound (snd (?run p st'))" if "sound st'" "be_active st' \<noteq> None" for st' p
    proof -
      have "sound (State_file (sub k [''state'']) on_line st')" using that by (intro sound_file) auto
      then have "sound (State_file (sub k [''pid'']) v (State_file (sub k [''state'']) on_line st'))" for v
        by (rule sound_file) simp
      then show ?thesis by (simp add: bbind_def bmodify_def)
    qed
    ultimately show "sound (snd (bbind (bmodify (capture_active_files k)) (\<lambda>_. bbind take_pid ?run) st))"
      by (fastforce simp: bbind_def [of "bmodify (capture_active_files k)"] bbind_def [of take_pid] bmodify_def
          [of "capture_active_files k"] split: prod.splits sum.splits dest: spec)
  qed
  then have "within keeps_sound (bbind (bmodify (capture_active_files k)) (\<lambda>_. bbind take_pid ?run))"
    by (simp add: within_def)
  from sound.bind [OF sound.get sound.bind [OF sound.get sound.branch
      [OF sound.get sound.bind [OF sound_pid(2) this]]]]
  show ?thesis unfolding start_kdamond_def .
qed

lemma sound_state_off: "keeps_sound st (State_file p (''off'' @ newline) st)"
  by (auto intro: sound_file)

lemma sound_pid_file: "keeps_sound st (State_file (sub k [''pid'']) v st)"
  by (auto intro: sound_file)

lemma sound_running: "within keeps_sound m \<Longrightarrow> within keeps_sound (running_command p m)"
  unfolding running_command_def ensure_running_def by (intro sound.rules)

lemma sound_switch:
  "within keeps_sound (switch_on p k)" "within keeps_sound (switch_off p k)"
  "within keeps_sound (commit_staged k)" "within keeps_sound (update_tried_bytes k)"
  "within keeps_sound (clear_materialized_tried_regions k)" "within keeps_sound (ensure_running p)"
  "within keeps_sound (bmodify (materialize_scheme_stats k))"
  "within keeps_sound (bmodify (materialize_effective_quotas k))"
proof -
  have remove: "within keeps_sound (remove_scheme_regions k i)" for i
    unfolding remove_scheme_regions_def remove_indexed_children_def
    by (intro sound.modify impI sound_retain)
  show "within keeps_sound (switch_on p k)" unfolding switch_on_def
    by (rule sound.bind [OF sound.get sound_start])
  show "within keeps_sound (switch_off p k)" unfolding switch_off_def
    by (intro sound.bind sound.get sound.modify sound_state_off sound_pid_file)
  show "within keeps_sound (commit_staged k)" unfolding commit_staged_def
    by (intro sound.bind sound_pid sound.modify impI sound_capture)
  show "within keeps_sound (update_tried_bytes k)" unfolding update_tried_bytes_def
    by (intro sound.bind sound.get sound.each sound_tried remove)
  show "within keeps_sound (clear_materialized_tried_regions k)"
    unfolding clear_materialized_tried_regions_def by (intro sound.bind sound.get sound.each sound_clear)
  show "within keeps_sound (ensure_running p)" unfolding ensure_running_def by (rule sound.get)
  show "within keeps_sound (bmodify (materialize_scheme_stats k))"
    "within keeps_sound (bmodify (materialize_effective_quotas k))"
    unfolding materialize_scheme_stats_def materialize_effective_quotas_def
    using sound_stats sound_quotas by (intro sound.modify; blast)+
qed

lemma sound_obey: "within keeps_sound (obey p k command)"
  unfolding obey_def
  by (intro sound.branch sound_running sound_switch sound_tried sound_goals sound.fail)

lemma sound_write_state: "within keeps_sound (write_state p v)"
  unfolding write_state_def
  by (cases "parent p") (simp_all add: sound.fail sound_obey)

lemma sound_must_be_listed: "within keeps_sound (must_be_listed applies listed v)"
  unfolding must_be_listed_def by (intro sound.rules)

lemma sound_check: "within keeps_sound (check_value p v)"
  unfolding check_value_def check_type_def Let_def
  by (intro sound.bind sound.branch sound.ret sound.fail sound_must_be_listed)

lemma sound_attribute:
  assumes "file_name p \<noteq> Some ''state''"
  shows "within keeps_sound (write_attribute p v)"
proof -
  have set_value: "within keeps_sound (bmodify (State_file p w))" for w
    by (rule sound.modify) (use assms in \<open>auto intro: sound_file\<close>)
  show ?thesis unfolding write_attribute_def
    by (intro sound.branch sound.bind sound.get sound_reconstruct set_value)
qed

lemma sound_failures: "within keeps_sound (take_failure p)"
  by (auto simp: within_def take_failure_def sound_def is_on_def split: option.splits)

lemma sound_State_write: "within keeps_sound (State_write p v)"
  unfolding State_write_def writable_node_def
  by (intro sound.bind sound.branch sound.get sound_failures sound_write_state sound_check sound_attribute)

lemma sound_mutation: "quiet_mutation m \<Longrightarrow> within keeps_sound (apply_mutation m)"
proof (cases m)
  case (SetFile p v)
  moreover assume "quiet_mutation m"
  ultimately show ?thesis
    unfolding apply_mutation_def by (auto simp: quiet_mutation_def intro!: sound.modify sound_file)
next
  case (RemoveTree p)
  then show ?thesis
    unfolding apply_mutation_def remove_tree_def by (auto intro!: sound.modify sound_retain)
next
  case (StartKdamond p)
  have "snd (apply_mutation m st) = snd (start_kdamond p st)" for st
    by (auto simp: apply_mutation_def StartKdamond split: prod.splits sum.splits fault.splits)
  then show ?thesis using sound_start by (simp add: within_def)
qed

lemma sound_hooks: "within keeps_sound (apply_hooks event)"
proof (unfold within_def, intro allI impI)
  fix st assume s: "sound st"
  show "sound (snd (apply_hooks event st))"
  proof (cases "find (\<lambda>h. hk_event h = event) (be_hooks st)")
    case (Some h)
    then have h: "h \<in> set (be_hooks st)" by (auto simp: find_Some_iff)
    have "set (remove1 h (be_hooks st)) \<subseteq> set (be_hooks st)" by (rule set_remove1_subset)
    then have "sound (st\<lparr>be_hooks := remove1 h (be_hooks st)\<rparr>)"
      using s unfolding sound_def is_on_def by (simp add: subset_iff) blast
    moreover have "within keeps_sound (beach apply_mutation (hk_mutations h))"
      by (rule sound.each) (blast intro: sound_mutation soundD(6) [OF s h])
    ultimately show ?thesis using Some by (simp add: apply_hooks_def within_def)
  qed (simp add: apply_hooks_def s)
qed

lemma sound_counters: "keeps_sound st (st\<lparr>be_writes := n\<rparr>)" "keeps_sound st (st\<lparr>be_reads := n\<rparr>)"
  by (simp_all add: sound_def is_on_def)

lemma sound_B_write: "within keeps_sound (B_write p v)"
  unfolding B_write_def
  by (intro sound.bind sound_State_write sound.modify sound_counters sound_hooks)

lemma sound_B_read: "within keeps_sound (B_read p)"
proof -
  have "within keeps_sound (bbind (apply_hooks (HookRead p)) (\<lambda>_. bret c))" for c :: "io_error + string"
    by (intro sound.bind sound_hooks sound.ret)
  then show ?thesis using sound_counters(2) by (simp add: within_def B_read_def)
qed

lemma sound_new:
  assumes "utf8_valid available" "utf8_valid recognized"
  shows "sound (State_new available recognized expose)"
proof -
  have "ordered []" by simp
  have lists: "utf8_valid (be_scheme_filters (empty_backend available recognized expose))"
    "utf8_valid (be_probe_filters (empty_backend available recognized expose))"
    "utf8_valid (be_actions (empty_backend available recognized expose))"
    "utf8_valid (be_metrics (empty_backend available recognized expose))"
    "utf8_valid (be_preparations (empty_backend available recognized expose))"
    by (rule utf8_ascii, simp add: empty_backend_def listing_def byte_val_def)+
  have "be_nodes (empty_backend available recognized expose) = []" by (simp add: empty_backend_def)
  then have "sound (empty_backend available recognized expose)"
    using lists assms unfolding sound_def is_on_def
    by (simp add: empty_backend_def)
  then have "sound (directory (sub [] [''kdamonds'']) (directory [] (empty_backend available recognized expose)))"
    unfolding directory_def
    by (intro sound_nodes) (auto simp: is_on_def soundD(1) split: if_splits)
  then show ?thesis unfolding State_new_def by (rule sound_file) simp
qed

section \<open>Reachable states\<close>

text \<open>
  What a test can do to a model: write and read its files, and arrange values, hooks and failures.
  Its lists come as \<open>&str\<close>, so they are UTF-8. It leaves the state files to the kernel.
\<close>

inductive reached :: "backend \<Rightarrow> bool" where
  new: "utf8_valid available \<Longrightarrow> utf8_valid recognized \<Longrightarrow> reached (State_new available recognized expose)"
| write_file: "reached st \<Longrightarrow> reached (snd (B_write p v st))"
| read_file: "reached st \<Longrightarrow> reached (snd (B_read p st))"
| set_file: "reached st \<Longrightarrow> file_name p \<noteq> Some ''state'' \<Longrightarrow> reached (set_file p v st)"
| remove_tree: "reached st \<Longrightarrow> reached (remove_tree p st)"
| tried_regions: "reached st \<Longrightarrow> reached (set_tried_regions regions st)"
| scheme_stats: "reached st \<Longrightarrow> reached (set_scheme_stats stats st)"
| quotas: "reached st \<Longrightarrow> reached (set_effective_quota_bytes bytes st)"
| scheme_filters: "reached st \<Longrightarrow> utf8_valid s \<Longrightarrow> reached (set_supported_scheme_filter_types s st)"
| probe_filters: "reached st \<Longrightarrow> utf8_valid s \<Longrightarrow> reached (set_supported_probe_filter_types s st)"
| actions: "reached st \<Longrightarrow> utf8_valid s \<Longrightarrow> reached (set_supported_scheme_actions s st)"
| metrics: "reached st \<Longrightarrow> utf8_valid s \<Longrightarrow> reached (set_supported_quota_goal_metrics s st)"
| current: "reached st \<Longrightarrow> reached (enable_current_damo_extensions st)"
| no_effective: "reached st \<Longrightarrow> reached (disable_effective_quota st)"
| on_read: "reached st \<Longrightarrow> \<forall>m\<in>set ms. quiet_mutation m \<Longrightarrow> reached (after_next_read p ms st)"
| on_write: "reached st \<Longrightarrow> \<forall>m\<in>set ms. quiet_mutation m \<Longrightarrow> reached (after_next_write p v ms st)"
| failing: "reached st \<Longrightarrow> reached (fail_next_write p code st)"

text \<open>Appending ASCII lines to UTF-8 text gives UTF-8 text.\<close>

lemma utf8_append_ascii:
  "utf8_bytes bs \<Longrightarrow> \<forall>b\<in>set cs. b < 128 \<Longrightarrow> utf8_bytes (bs @ cs)"
proof (induction bs rule: utf8_bytes.induct)
  case 1
  then show ?case by (induction cs) simp_all
next
  case (2 b bs)
  show ?case
  proof (cases "b < 128")
    case True
    with 2 show ?thesis by simp
  next
    case one: False
    with 2 obtain c bs2 where bs: "bs = c # bs2" by (cases bs) simp_all
    show ?thesis
    proof (cases "194 \<le> b \<and> b < 224")
      case True
      with 2 one bs show ?thesis by simp
    next
      case two: False
      with 2 one bs obtain d bs3 where bs2: "bs2 = d # bs3" by (cases bs2) simp_all
      show ?thesis
      proof (cases "224 \<le> b \<and> b < 240")
        case True
        with 2 one two bs bs2 show ?thesis by (simp split del: if_split) blast
      next
        case three: False
        with 2 one two bs bs2 obtain e bs4 where "bs3 = e # bs4" by (cases bs3) simp_all
        with 2 one two three bs bs2 show ?thesis by (simp split del: if_split) blast
      qed
    qed
  qed
qed

lemma utf8_append: "utf8_valid s \<Longrightarrow> \<forall>c\<in>set t. byte_val c < 128 \<Longrightarrow> utf8_valid (s @ t)"
  by (simp add: utf8_valid_def utf8_append_ascii)

lemma sound_settings:
  assumes "sound st"
  shows "sound (set_tried_regions regions st)" "sound (set_scheme_stats stats st)"
    "sound (set_effective_quota_bytes bytes st)"
    "utf8_valid s \<Longrightarrow> sound (set_supported_scheme_filter_types s st)"
    "utf8_valid s \<Longrightarrow> sound (set_supported_probe_filter_types s st)"
    "utf8_valid s \<Longrightarrow> sound (set_supported_scheme_actions s st)"
    "utf8_valid s \<Longrightarrow> sound (set_supported_quota_goal_metrics s st)"
    "sound (disable_effective_quota st)" "sound (fail_next_write p code st)"
    "\<forall>m\<in>set ms. quiet_mutation m \<Longrightarrow> sound (after_next_read p ms st)"
    "\<forall>m\<in>set ms. quiet_mutation m \<Longrightarrow> sound (after_next_write p v ms st)"
  using assms unfolding sound_def is_on_def
  by (simp_all add: set_tried_regions_def set_scheme_stats_def
    set_effective_quota_bytes_def set_supported_scheme_filter_types_def
    set_supported_probe_filter_types_def set_supported_scheme_actions_def
    set_supported_quota_goal_metrics_def disable_effective_quota_def after_next_read_def
    after_next_write_def fail_next_write_def)

theorem reached_sound: "reached st \<Longrightarrow> sound st"
proof (induction rule: reached.induct)
  case (set_file st p v)
  have "\<forall>q\<in>fst ` set (bt_insert p v (be_extensions st)). file_name q \<noteq> Some ''state''"
    using set_file.hyps(2) soundD(5) [OF set_file.IH] by (auto simp only: fst_bt_insert)
  then have "keeps_sound st (if lookup st p = None then st\<lparr>be_extensions := bt_insert p v (be_extensions st)\<rparr> else st)"
    unfolding sound_def is_on_def by simp
  with set_file show ?case by (auto simp: set_file_def intro!: sound_file)
next
  case (current st)
  note lists = soundD(9,11,12) [OF current.IH]
  have ascii: "\<forall>c\<in>set (listing names). byte_val c < 128"
    if "\<forall>s\<in>set names. \<forall>c\<in>set s. byte_val c < 128" for names
    using that by (auto simp: listing_def byte_val_def)
  have "utf8_valid (listing [''anon'', ''memcg'', ''pgidle_unset'', ''pgidle_set''])"
    by (rule utf8_ascii, rule ascii, simp add: byte_val_def)
  moreover have "utf8_valid (be_scheme_filters st @ listing [''probe_hits_wsum''])"
    by (rule utf8_append [OF lists(1)], rule ascii, simp add: byte_val_def)
  moreover have "utf8_valid (be_actions st @ listing [''damos_alloc'', ''damos_free''])"
    by (rule utf8_append [OF lists(2)], rule ascii, simp add: byte_val_def)
  moreover have "utf8_valid (be_metrics st @ listing [''hugepage_mem_bp''])"
    by (rule utf8_append [OF lists(3)], rule ascii, simp add: byte_val_def)
  ultimately show ?case using current.IH
    unfolding enable_current_damo_extensions_def sound_def is_on_def by simp
next
  case (write_file st p v)
  then show ?case using sound_B_write by (simp add: within_def)
next
  case (read_file st p)
  then show ?case using sound_B_read by (simp add: within_def)
next
  case (remove_tree st p)
  then show ?case by (simp add: remove_tree_def sound_retain)
next
  case (new available recognized expose)
  then show ?case by (rule sound_new)
qed (simp_all only: sound_settings)

section \<open>Panics\<close>

text \<open>\<open>calm E m\<close>: from a sound state, \<open>m\<close> panics only when \<open>E\<close> holds and no identifier is left.\<close>

definition calm :: "bool \<Rightarrow> 'a bstep \<Rightarrow> bool" where
  "calm E m \<longleftrightarrow>
     (\<forall>st s st'. sound st \<longrightarrow> m st = (Inl (Panic s), st') \<longrightarrow> E \<and> be_next_pid st' = u32_max)"

lemma calm_simple:
  "calm E (bret x)" "calm E (bfail (Fault e))" "calm E (bmodify f)"
  "(\<And>st s. sound st \<Longrightarrow> f' st \<noteq> Inl (Panic s)) \<Longrightarrow> calm E (bget f')"
  by (auto simp: calm_def)

lemma calm_if: "(b \<Longrightarrow> calm E m) \<Longrightarrow> (\<not> b \<Longrightarrow> calm E m') \<Longrightarrow> calm E (if b then m else m')"
  by simp

lemma calm_bind:
  assumes "calm E m" "within keeps_sound m" "\<And>x. calm E (f x)"
  shows "calm E (bbind m f)"
  unfolding calm_def bbind_Inl_iff
  using assms(1,3) within_D [OF assms(2)] unfolding calm_def by metis

lemma calm_each:
  "(\<And>x. calm E (f x)) \<Longrightarrow> (\<And>x. within keeps_sound (f x)) \<Longrightarrow> calm E (beach f xs)"
  by (induction xs) (simp_all add: calm_simple calm_bind)

lemma listed_calm:
  "utf8_valid listed \<Longrightarrow> listed_value_contains listed v \<noteq> Inl (Panic s)"
  by (simp add: listed_value_contains_def)

lemma calm_listed:
  "(\<And>st. sound st \<Longrightarrow> utf8_valid (listed st)) \<Longrightarrow> calm E (must_be_listed applies listed v)"
  unfolding must_be_listed_def errno_def
  by (intro calm_if calm_bind sound.get calm_simple listed_calm) auto

lemma calm_check: "calm E (check_value p v)"
  unfolding check_value_def check_type_def Let_def
  by (intro calm_bind calm_if calm_simple calm_listed sound_must_be_listed) (simp_all add: soundD)

lemma calm_primitives: "calm E (validate_sample_primitives k)"
proof -
  have "primitive_enabled st p \<noteq> Inl (Panic s)" for st p s
    by (auto simp: primitive_enabled_def errno_def split: option.splits node.splits)
  then show ?thesis
    unfolding validate_sample_primitives_def Let_def
    by (intro calm_bind sound.get calm_simple)
      (auto intro!: calm_simple simp: errno_def split: option.splits)
qed

lemma calm_pid: "calm True take_pid"
proof -
  have "a = u32_max" if "checked_add a 1 = None" for a :: u32
  proof -
    have "unat a = 2 ^ 32 - 1"
      using that unat_less [of a] by (simp add: checked_add_None_iff)
    then have "unat a = unat u32_max" by (simp add: unsigned_minus_1_eq_mask mask_eq_exp_minus_1)
    then show ?thesis by (simp add: word_unat_eq_iff)
  qed
  then show ?thesis by (auto simp: calm_def take_pid_def split: option.splits)
qed

lemma calm_scheme_count: "sound st \<Longrightarrow> scheme_count k st \<noteq> Inl (Panic s)"
  by (auto simp: scheme_count_def parse_count_def Let_def split: option.splits node.splits)

lemma calm_region_total: "region_total n rs \<noteq> Inl (Panic s)"
  by (induction n rs rule: region_total.induct) (auto split: option.splits)

lemma calm_scheme_regions: "calm E (materialize_scheme_regions k n regions i)"
  unfolding materialize_scheme_regions_def Let_def remove_indexed_children_def
  by (intro calm_bind calm_simple sound.get sound.modify impI sound_retain) auto

lemma calm_tried: "calm E (materialize_tried_regions k)"
proof -
  have "calm E (bbind (bget (\<lambda>_. region_total 0 regions)) (\<lambda>sum_units.
      bbind (bget (scheme_count k)) (\<lambda>n.
        beach (materialize_scheme_regions k sum_units regions) [0..<n])))" for regions
    by (intro calm_bind calm_each calm_simple sound.get calm_scheme_count calm_region_total
        calm_scheme_regions sound_regions)
  then show ?thesis by (auto simp: calm_def materialize_tried_regions_def Let_def)
qed

lemma calm_start: "calm True (start_kdamond k)"
proof -
  have "selected_operations k st \<noteq> Inl (Panic s)" for st s
    by (auto simp: selected_operations_def errno_def split: option.splits node.splits)
  moreover have "listed_value_contains (be_available st) x \<noteq> Inl (Panic s)" if "sound st" for st x s
    using that by (simp add: listed_calm soundD)
  moreover have "within keeps_sound (bmodify (capture_active_files k))"
    using sound_capture by (intro sound.modify) blast
  moreover have "calm True (bbind take_pid (\<lambda>p. bbind (bmodify (f p)) (\<lambda>_. bmodify (g p))))" for f g
    by (rule calm_bind [OF calm_pid sound_pid(1)]) (auto simp: calm_def bbind_Inl_iff)
  ultimately show ?thesis
    unfolding start_kdamond_def errno_def
    by (intro calm_bind [OF calm_simple(4)] calm_bind [OF calm_primitives] calm_bind [OF calm_simple(3)]
        calm_if calm_simple sound.get sound_pid(2)) simp_all
qed

lemma calm_running: "calm E m \<Longrightarrow> calm E (running_command p m)"
  unfolding running_command_def ensure_running_def
  by (intro calm_bind calm_simple sound.get) auto

lemma calm_goals:
  assumes "file_name p = Some ''state''"
  shows "calm E (running_command p (commit_quota_goals k))"
proof (unfold calm_def, intro allI impI)
  fix st s st'
  assume s: "sound st" and m: "running_command p (commit_quota_goals k) st = (Inl (Panic s), st')"
  show "E \<and> be_next_pid st' = u32_max"
  proof (cases "is_on st p")
    case True
    with soundD(4) [OF s assms] obtain a where "be_active st = Some a" by auto
    with m True show ?thesis
      by (simp add: running_command_def ensure_running_def bbind_def bget_def commit_quota_goals_def)
  next
    case False
    with m show ?thesis by (simp add: running_command_def ensure_running_def bbind_def bget_def)
  qed
qed

lemma calm_obey:
  assumes "file_name p = Some ''state''"
  shows "calm (command = ''on'') (obey p k command)"
proof -
  have on: "calm True (switch_on p k)" unfolding switch_on_def errno_def
    by (intro calm_bind calm_simple calm_start sound.get) auto
  have off: "calm E (switch_off p k)" for E unfolding switch_off_def errno_def
    by (intro calm_bind calm_simple sound.get sound.modify sound_state_off) auto
  have staged: "calm E (commit_staged k)" for E unfolding commit_staged_def
    by (intro calm_bind calm_primitives calm_simple sound_pid)
  have clear: "calm E (clear_scheme_regions k i)" for E i
    unfolding clear_scheme_regions_def Let_def remove_indexed_children_def
    by (intro calm_bind calm_simple sound.get sound.modify impI sound_retain) auto
  have clear_all: "calm E (clear_materialized_tried_regions k)" for E
    unfolding clear_materialized_tried_regions_def
    by (intro calm_bind calm_each calm_simple calm_scheme_count clear sound.get sound_clear)
  have remove: "within keeps_sound (remove_scheme_regions k i)" for i
    unfolding remove_scheme_regions_def remove_indexed_children_def
    by (intro sound.modify impI sound_retain)
  have calm_remove: "calm E (remove_scheme_regions k i)" for E i
    unfolding remove_scheme_regions_def by (rule calm_simple)
  have bytes: "calm E (update_tried_bytes k)" for E unfolding update_tried_bytes_def
    by (intro calm_bind calm_each calm_tried sound_tried calm_simple calm_scheme_count sound.get remove calm_remove)
  have update: "calm E (bmodify f)" "calm E (ensure_running p)" for E f
    unfolding ensure_running_def by (intro calm_simple; simp)+
  show ?thesis
    unfolding obey_def
    using on by (intro calm_if calm_running calm_goals [OF assms] off staged clear_all bytes update calm_tried)
      (auto intro: calm_simple calm_running off staged)
qed

lemma calm_count:
  assumes "RootDir \<notin> set p" "p \<noteq> []"
  shows "calm E (reconstruct_count p n)"
proof -
  have "last p \<noteq> RootDir" using assms last_in_set [of p] by metis
  with assms obtain d where "parent p = Some d" by (simp add: parent_def)
  then have below: "calm E (rebuild_below p n create)" for create
    by (auto simp: rebuild_below_def calm_def bbind_Inl_iff)
  have kdamonds: "calm E (rebuild_kdamonds n)"
    by (auto simp: calm_def rebuild_kdamonds_def errno_def)
  show ?thesis
    unfolding reconstruct_count_def Let_def
    by (intro calm_if below kdamonds calm_simple)
qed

lemma calm_write:
  assumes "RootDir \<notin> set p"
  shows "calm (file_name p = Some ''state'' \<and> trim v = ''on'') (State_write p v)"
proof -
  let ?E = "file_name p = Some ''state'' \<and> trim v = ''on''"
  have failure: "calm ?E (take_failure p)"
    by (auto simp: calm_def take_failure_def errno_def split: option.splits)
  have node: "calm ?E (writable_node p)" unfolding writable_node_def
    by (intro calm_simple) (auto split: option.splits node.splits)
  have state: "calm ?E (write_state p v)" if "file_name p = Some ''state''"
    using file_name_parent [OF that] calm_obey [OF that, of "trim v"] that
    by (auto simp: write_state_def calm_simple)
  have "parse_count v \<noteq> Inl (Panic s)" for s
    by (auto simp: parse_count_def split: option.splits)
  moreover have "p \<noteq> []" if "is_count_path (path_text p)"
    using that by (auto simp: is_count_path_def path_text_def bytes_of_path_def text_ends_with_def
        to_string_lossy_valid utf8_valid_def)
  ultimately have attribute: "calm ?E (write_attribute p v)" unfolding write_attribute_def
    by (intro calm_if calm_bind calm_simple calm_count assms sound.get sound_reconstruct)
  show ?thesis unfolding State_write_def
    by (intro calm_bind calm_if failure node state calm_check attribute sound_failures sound_check)
      (simp add: writable_node_def sound.get)
qed

section \<open>The kernel it implements\<close>

text \<open>
  A staged tree, the files the running kdamonds were last given, and the files a test added by hand,
  which come back with their first value whenever children are rebuilt.
\<close>

record kernel =
  kn_tree :: "path \<Rightarrow> node option"
  kn_active :: "(path \<Rightarrow> string option) option"
  kn_added :: "path \<Rightarrow> string option"

definition kernel_of :: "backend \<Rightarrow> kernel" where
  "kernel_of st =
     \<lparr>kn_tree = map_of (be_nodes st), kn_active = map_option map_of (be_active st),
      kn_added = map_of (be_extensions st)\<rparr>"

definition staged_file :: "(path \<Rightarrow> node option) \<Rightarrow> path \<Rightarrow> string option" where
  "staged_file tree q = (case tree q of Some (File v) \<Rightarrow> Some v | _ \<Rightarrow> None)"

text \<open>The staged files of a part of the tree replace what was active there.\<close>

definition committed :: "(path \<Rightarrow> bool) \<Rightarrow> kernel \<Rightarrow> path \<Rightarrow> string option" where
  "committed part kn q =
     (if part q then staged_file (kn_tree kn) q
      else case kn_active kn of None \<Rightarrow> None | Some active \<Rightarrow> active q)"

abbreviation runs :: "kernel \<Rightarrow> path \<Rightarrow> bool" where
  "runs kn k \<equiv> kn_tree kn (sub k [''state'']) = Some (File on_line)"

text \<open>One accepted write of a value \<open>v\<close> to the file \<open>p\<close>.\<close>

inductive kernel_step :: "kernel \<Rightarrow> path \<Rightarrow> string \<Rightarrow> kernel \<Rightarrow> bool" where
  start: "trim v = ''on'' \<Longrightarrow> kn_tree kn (sub k [''state'']) = Some (File w) \<Longrightarrow> w \<noteq> on_line
    \<Longrightarrow> kn_tree kn (sub k [''contexts'', ''nr_contexts'']) = Some (File (''1'' @ newline))
    \<Longrightarrow> kernel_step kn (sub k [''state'']) v
          (kn\<lparr>kn_tree := (kn_tree kn)(sub k [''state''] \<mapsto> File on_line, sub k [''pid''] \<mapsto> File (dec n @ newline)),
              kn_active := Some (committed (\<lambda>q. starts_with q k) kn)\<rparr>)"
| stop: "trim v = ''off'' \<Longrightarrow> runs kn k
    \<Longrightarrow> kernel_step kn (sub k [''state'']) v
          (kn\<lparr>kn_tree := (kn_tree kn)(sub k [''state''] \<mapsto> File (''off'' @ newline),
                                   sub k [''pid''] \<mapsto> File (''-1'' @ newline))\<rparr>)"
| commit: "trim v = ''commit'' \<Longrightarrow> runs kn k
    \<Longrightarrow> kernel_step kn (sub k [''state'']) v (kn\<lparr>kn_active := Some (committed (\<lambda>q. starts_with q k) kn)\<rparr>)"
| commit_goals: "trim v = ''commit_schemes_quota_goals'' \<Longrightarrow> runs kn k
    \<Longrightarrow> kernel_step kn (sub k [''state'']) v (kn\<lparr>kn_active := Some (committed (is_goal_file k) kn)\<rparr>)"
| report: "\<not> takes_effect (trim v) \<Longrightarrow> runs kn k
    \<Longrightarrow> \<forall>q. \<not> reported k q \<longrightarrow> tree q = kn_tree kn q
    \<Longrightarrow> kernel_step kn (sub k [''state'']) v (kn\<lparr>kn_tree := tree\<rparr>)"
| attribute: "file_name p \<noteq> Some ''state'' \<Longrightarrow> \<not> is_count_path (path_text p)
    \<Longrightarrow> kn_tree kn p = Some (File w)
    \<Longrightarrow> kernel_step kn p v (kn\<lparr>kn_tree := (kn_tree kn)(p \<mapsto> File v)\<rparr>)"
| count: "file_name p \<noteq> Some ''state'' \<Longrightarrow> is_count_path (path_text p)
    \<Longrightarrow> path_text p \<noteq> ''kdamonds/nr_kdamonds'' \<Longrightarrow> parent p = Some d
    \<Longrightarrow> kn_tree kn p = Some (File w)
    \<Longrightarrow> parse_count v = Inr n \<Longrightarrow> recounted d n (\<lambda>q. kn_added kn q \<noteq> None) (kn_tree kn) tree
    \<Longrightarrow> kernel_step kn p v (kn\<lparr>kn_tree := tree(p \<mapsto> File (dec n @ newline))\<rparr>)"
| kdamonds: "file_name p \<noteq> Some ''state'' \<Longrightarrow> path_text p = ''kdamonds/nr_kdamonds''
    \<Longrightarrow> kn_tree kn p = Some (File w) \<Longrightarrow> \<forall>k. \<not> runs kn k \<Longrightarrow> parse_count v = Inr n
    \<Longrightarrow> recounted (sub [] [''kdamonds'']) n (\<lambda>q. kn_added kn q \<noteq> None) (kn_tree kn) tree
    \<Longrightarrow> kernel_step kn p v
          (kn\<lparr>kn_tree := tree(p \<mapsto> File (dec n @ newline)), kn_active := None\<rparr>)"

section \<open>What the abstract kernel promises\<close>

inductive_cases state_stepE: "kernel_step kn (sub k [''state'']) v kn'"

lemma state_file_sub: "sub k [''state''] = sub k' [''state''] \<longleftrightarrow> k = k'"
  by (simp add: sub_def)

text \<open>A commit makes exactly the staged files below the kdamond active and stages nothing.\<close>

lemma commit_activates:
  assumes "kernel_step kn (sub k [''state'']) v kn'" "trim v = ''commit''"
  shows "runs kn k" "kn_tree kn' = kn_tree kn"
    "starts_with q k \<Longrightarrow> \<exists>active. kn_active kn' = Some active \<and> active q = staged_file (kn_tree kn) q"
  using assms(1)
  by (rule state_stepE; use assms(2) in \<open>simp add: state_file_sub takes_effect_def committed_def\<close>)+

text \<open>Nothing else than a start or a commit changes what is active, short of discarding all of it.\<close>

lemma only_commands_activate:
  assumes "kernel_step kn p v kn'" "kn_active kn' \<noteq> kn_active kn"
  shows "(\<exists>k. p = sub k [''state''] \<and> trim v \<in> {''on'', ''commit'', ''commit_schemes_quota_goals''})
    \<or> path_text p = ''kdamonds/nr_kdamonds'' \<and> (\<forall>k. \<not> runs kn k) \<and> kn_active kn' = None"
  using assms by (cases rule: kernel_step.cases) auto

section \<open>It implements that kernel\<close>

lemma kernel_of_simps [simp]:
  "kn_tree (kernel_of st) = map_of (be_nodes st)"
  "kn_active (kernel_of st) = map_option map_of (be_active st)"
  "kn_added (kernel_of st) = map_of (be_extensions st)"
  by (simp_all add: kernel_of_def)

lemma files_of_Cons: "files_of (e # t) = (case snd e of File v \<Rightarrow> [(fst e, v)] | Directory \<Rightarrow> []) @ files_of t"
  by (simp add: files_of_def)

lemma fst_files_of: "fst ` set (files_of t) \<subseteq> fst ` set t"
  by (induction t) (auto simp: files_of_Cons files_of_def split: node.splits)

lemma ordered_Cons: "ordered (e # t) \<longleftrightarrow> (\<forall>q\<in>fst ` set t. fst e < q) \<and> ordered t"
  by (simp add: ordered_def)

lemma ordered_files_of: "ordered t \<Longrightarrow> ordered (files_of t)"
proof (induction t)
  case (Cons e t)
  then have "\<forall>q\<in>fst ` set (files_of t). fst e < q" "ordered (files_of t)"
    using fst_files_of [of t] by (auto simp only: ordered_Cons)
  then show ?case by (auto simp: files_of_Cons ordered_Cons split: node.splits)
qed (simp add: files_of_def)

lemma map_of_files_of: "ordered t \<Longrightarrow> map_of (files_of t) q = staged_file (map_of t) q"
proof (induction t)
  case (Cons e t)
  obtain p n where e: "e = (p, n)" by (cases e)
  have "map_of t p = None" using Cons.prems by (force simp: e ordered_Cons map_of_eq_None_iff)
  with Cons show ?case by (auto simp: e files_of_Cons ordered_Cons staged_file_def split: node.splits)
qed (simp add: files_of_def staged_file_def)

lemma map_of_committed:
  assumes "ordered t"
  shows "map_of (bt_extend (filter (\<lambda>e. part (fst e)) (files_of t)) (bt_retain (\<lambda>q. \<not> part q) active)) q
    = (if part q then staged_file (map_of t) q else map_of active q)"
proof -
  let ?staged = "bt_retain part (files_of t)"
  have "map_of (rev ?staged) q = (if part q then staged_file (map_of t) q else None)"
    using assms by (simp add: map_of_rev_ordered ordered_files_of map_of_files_of)
  then show ?thesis
    by (simp add: map_of_bt_extend map_add_def flip: bt_retain_def split: option.splits)
qed

lemma kernel_of_capture:
  assumes "sound st"
  shows "kernel_of (capture_active_files k st)
    = (kernel_of st)\<lparr>kn_active := Some (committed (\<lambda>q. starts_with q k) (kernel_of st))\<rparr>"
  using map_of_committed [OF soundD(1) [OF assms], of "\<lambda>q. starts_with q k"]
  by (auto simp: kernel_of_def capture_active_files_def Let_def committed_def fun_eq_iff
      split: option.splits)

lemma kernel_of_goals:
  assumes "sound st" "be_active st = Some a"
  shows "commit_quota_goals k st = (r, st') \<Longrightarrow> r = Inr () \<and> kernel_of st'
    = (kernel_of st)\<lparr>kn_active := Some (committed (is_goal_file k) (kernel_of st))\<rparr>"
  using map_of_committed [OF soundD(1) [OF assms(1)], of "is_goal_file k"] assms(2)
  by (auto simp: kernel_of_def commit_quota_goals_def committed_def fun_eq_iff)

lemma kernel_of_file:
  "kernel_of (State_file p v st) = (kernel_of st)\<lparr>kn_tree := (kn_tree (kernel_of st))(p \<mapsto> File v)\<rparr>"
  by (simp add: kernel_of_def State_file_def)

lemma kernel_of_failure: "take_failure p st = (Inr u, st') \<Longrightarrow> st' = st"
  by (auto simp: take_failure_def errno_def split: option.splits)

text \<open>Checks change nothing.\<close>

interpretation check: step_order "\<lambda>st st'. st' = st"
  by unfold_locales auto

lemma checks_pure:
  "within (\<lambda>st st'. st' = st) (validate_sample_primitives k)"
  "within (\<lambda>st st'. st' = st) (check_value p v)"
  "within (\<lambda>st st'. st' = st) (writable_node p)"
proof -
  show "within (\<lambda>st st'. st' = st) (validate_sample_primitives k)"
    unfolding validate_sample_primitives_def Let_def
    by (intro check.bind check.get) (auto intro: check.ret check.get split: option.splits)
  have "within (\<lambda>st st'. st' = st) (must_be_listed applies listed v)" for applies listed
    unfolding must_be_listed_def by (intro check.branch check.bind check.get check.ret check.fail)
  then show "within (\<lambda>st st'. st' = st) (check_value p v)"
    unfolding check_value_def check_type_def Let_def
    by (intro check.bind check.branch check.ret check.fail)
  show "within (\<lambda>st st'. st' = st) (writable_node p)"
    unfolding writable_node_def by (rule check.get)
qed

lemma start_refines:
  assumes "sound st" "start_kdamond k st = (Inr u, st')"
  shows "\<exists>n. kernel_of st' = (kernel_of st)\<lparr>
      kn_tree := (kn_tree (kernel_of st))(sub k [''state''] \<mapsto> File on_line, sub k [''pid''] \<mapsto> File (dec n @ newline)),
      kn_active := Some (committed (\<lambda>q. starts_with q k) (kernel_of st))\<rparr>"
proof -
  from assms(2) obtain n st1 where
    v: "validate_sample_primitives k st = (Inr (), st1)" and
    st': "st' = State_file (sub k [''pid'']) (dec_word n @ newline)
      (State_file (sub k [''state'']) on_line ((capture_active_files k st1)\<lparr>be_next_pid := n\<rparr>))"
    by (auto simp: start_kdamond_def bbind_Inr_iff take_pid_def errno_def split: if_splits option.splits)
  have "st1 = st" using within_D [OF checks_pure(1) v] by simp
  moreover define st2 where "st2 = (capture_active_files k st1)\<lparr>be_next_pid := n\<rparr>"
  ultimately have st2: "kernel_of st2 = kernel_of (capture_active_files k st)"
    by (simp add: kernel_of_def)
  have "kernel_of st' = (kernel_of st2)\<lparr>
      kn_tree := (kn_tree (kernel_of st2))(sub k [''state''] \<mapsto> File on_line, sub k [''pid''] \<mapsto> File (dec (unat n) @ newline))\<rparr>"
    unfolding st' st2_def [symmetric] kernel_of_file dec_word_def by simp
  then show ?thesis
    unfolding st2 kernel_of_capture [OF assms(1)]
    by (intro exI [of _ "unat n"]) (simp add: kernel_of_def)
qed

lemma obey_refines:
  fixes k :: path
  defines "p \<equiv> sub k [''state'']"
  assumes s: "sound st" and node: "lookup st p = Some (File w)" and m: "obey p k (trim v) st = (Inr u, st')"
  shows "kernel_step (kernel_of st) p v (kernel_of st')"
proof -
  have running: "runs (kernel_of st) k" if "is_on st p"
    using that by (simp add: is_on_def p_def)
  consider "trim v = ''on''" | "trim v = ''off''" | "trim v = ''commit''"
    | "trim v = ''commit_schemes_quota_goals''" | "\<not> takes_effect (trim v)"
    by (auto simp: takes_effect_def)
  then show ?thesis
  proof cases
    case 1
    with m have on: "switch_on p k st = (Inr u, st')" by (simp add: obey_def)
    then have "start_kdamond k st = (Inr u, st')" "\<not> is_on st p"
      "lookup st (sub k [''contexts'', ''nr_contexts'']) = Some (File (''1'' @ newline))"
      by (auto simp: switch_on_def bbind_Inr_iff errno_def split: if_splits)
    with start_refines [OF s] obtain n where
      "kernel_of st' = (kernel_of st)\<lparr>
        kn_tree := (kn_tree (kernel_of st))(sub k [''state''] \<mapsto> File on_line, sub k [''pid''] \<mapsto> File (dec n @ newline)),
        kn_active := Some (committed (\<lambda>q. starts_with q k) (kernel_of st))\<rparr>" by blast
    with kernel_step.start [of v "kernel_of st" k w n] 1 node \<open>\<not> is_on st p\<close>
      \<open>lookup st (sub k [''contexts'', ''nr_contexts'']) = _\<close>
    show ?thesis by (simp add: is_on_def p_def)
  next
    case 2
    with m have "switch_off p k st = (Inr u, st')" by (simp add: obey_def)
    then have "is_on st p" "st' = State_file (sub k [''pid'']) (''-1'' @ newline) (State_file p (''off'' @ newline) st)"
      by (auto simp: switch_off_def bbind_Inr_iff errno_def split: if_splits)
    with 2 running show ?thesis
      using kernel_step.stop [of v "kernel_of st" k] by (simp add: kernel_of_file p_def)
  next
    case 3
    with m obtain st1 where "is_on st p" "validate_sample_primitives k st = (Inr (), st1)" "st' = capture_active_files k st1"
      by (auto simp: obey_def running_command_def ensure_running_def commit_staged_def bbind_Inr_iff split: if_splits)
    with 3 running kernel_step.commit [of v "kernel_of st" k] within_D [OF checks_pure(1)] show ?thesis
      by (fastforce simp: kernel_of_capture [OF s] p_def)
  next
    case 4
    with m have on: "is_on st p" and goals: "commit_quota_goals k st = (Inr u, st')"
      by (auto simp: obey_def running_command_def ensure_running_def bbind_Inr_iff split: if_splits)
    from soundD(4) [OF s _ on] obtain a where "be_active st = Some a" by (auto simp: p_def)
    from kernel_of_goals [OF s this goals] 4 running [OF on] kernel_step.commit_goals [of v "kernel_of st" k]
    show ?thesis by (simp add: p_def)
  next
    case 5
    from within_D [OF reports_obey [OF 5] m] have f: "reports_only k st st'" .
    have on: "is_on st p"
      using m 5 by (auto simp: takes_effect_def obey_def running_command_def ensure_running_def bbind_Inr_iff
          split: if_splits)
    have after: "kernel_of st' = (kernel_of st)\<lparr>kn_tree := map_of (be_nodes st')\<rparr>"
      using f by (simp add: kernel_of_def frames_def)
    show ?thesis unfolding after p_def
      by (rule kernel_step.report) (use 5 running [OF on] f in \<open>auto simp: frames_def\<close>)
  qed
qed

lemma rebuilt_below_refines:
  assumes "rebuild_below p n create st = (Inr b, st')" "\<And>d. makes_child d (create d)" "n \<le> 128"
  shows "b \<and> (\<exists>d. parent p = Some d \<and> be_active st' = be_active st \<and> be_extensions st' = be_extensions st
    \<and> recounted d n (\<lambda>q. map_of (be_extensions st) q \<noteq> None) (lookup st) (lookup st'))"
  using assms(1) rebuilt_children [OF assms(2,3), of _ st]
  by (auto simp: rebuild_below_def bbind_Inr_iff split: option.splits)

lemma kdamonds_refine:
  assumes "rebuild_kdamonds n st = (Inr b, st')" "n \<le> 128"
  shows "b \<and> \<not> some_kdamond_on st \<and> be_active st' = None \<and> be_extensions st' = be_extensions st
    \<and> recounted (sub [] [''kdamonds'']) n (\<lambda>q. map_of (be_extensions st) q \<noteq> None) (lookup st) (lookup st')"
proof -
  define st1 where "st1 = st\<lparr>be_active := None\<rparr>"
  from assms(1) have off: "\<not> some_kdamond_on st" and b: b
    and st': "st' = rebuild_children (sub [] [''kdamonds'']) n create_kdamond st1"
    by (cases st; auto simp: rebuild_kdamonds_def rebuild_children_def st1_def remove_indexed_children_def
        retain_nodes_def errno_def split: if_splits)+
  show ?thesis
    using rebuilt_children [OF makes_kdamond assms(2), of st1] off b by (simp add: st' st1_def)
qed

lemma reconstruct_refines:
  assumes count: "is_count_path (path_text p)" and m: "reconstruct_count p n st = (Inr b, st')" and n: "n \<le> 128"
  shows "b \<and> be_extensions st' = be_extensions st \<and> (\<exists>d.
    recounted d n (\<lambda>q. map_of (be_extensions st) q \<noteq> None) (lookup st) (lookup st')
    \<and> (if path_text p = ''kdamonds/nr_kdamonds''
       then d = sub [] [''kdamonds''] \<and> \<not> some_kdamond_on st \<and> be_active st' = None
       else parent p = Some d \<and> be_active st' = be_active st))"
proof (cases "path_text p = ''kdamonds/nr_kdamonds''")
  case True
  with m have "rebuild_kdamonds n st = (Inr b, st')" by (simp add: reconstruct_count_def)
  from kdamonds_refine [OF this n] True show ?thesis by auto
next
  case False
  have "\<exists>create. (\<forall>d. makes_child d (create d)) \<and> rebuild_below p n create st = (Inr b, st')"
    using m count False unfolding reconstruct_count_def Let_def is_count_path_def
    by (auto split: if_splits intro: creators)
  then obtain create where "\<And>d. makes_child d (create d)" "rebuild_below p n create st = (Inr b, st')"
    by blast
  from rebuilt_below_refines [OF this(2,1) n] False show ?thesis by auto
qed

lemma nothing_runs: "\<not> some_kdamond_on st \<Longrightarrow> \<not> runs (kernel_of st) k"
  using map_of_SomeD [of "be_nodes st" "sub k [''state'']" "File on_line"]
  by (force simp: some_kdamond_on_def)

lemma attribute_refines:
  assumes name: "file_name p \<noteq> Some ''state''" and node: "lookup st p = Some (File w)"
    and m: "write_attribute p v st = (Inr u, st')"
  shows "kernel_step (kernel_of st) p v (kernel_of st')"
proof (cases "is_count_path (path_text p)")
  case False
  with m have "st' = State_file p v st" by (simp add: write_attribute_def)
  with False name node kernel_step.attribute [of p "kernel_of st" w v] show ?thesis
    by (simp add: kernel_of_file)
next
  case True
  with m obtain n b st1 where n: "parse_count v = Inr n" and r: "reconstruct_count p n st = (Inr b, st1)"
    and st': "st' = State_file p (if b then dec n @ newline else v) st1"
    by (auto simp: write_attribute_def bbind_Inr_iff)
  have "n \<le> 128" using n by (auto simp: parse_count_def split: if_splits option.splits)
  from reconstruct_refines [OF True r this] obtain d where b: b and ext: "be_extensions st1 = be_extensions st"
    and rec: "recounted d n (\<lambda>q. map_of (be_extensions st) q \<noteq> None) (lookup st) (lookup st1)"
    and d: "if path_text p = ''kdamonds/nr_kdamonds''
       then d = sub [] [''kdamonds''] \<and> \<not> some_kdamond_on st \<and> be_active st1 = None
       else parent p = Some d \<and> be_active st1 = be_active st" by blast
  have st1: "kernel_of st' = \<lparr>kn_tree = (map_of (be_nodes st1))(p \<mapsto> File (dec n @ newline)),
      kn_active = map_option map_of (be_active st1), kn_added = map_of (be_extensions st)\<rparr>"
    using b ext by (simp add: st' kernel_of_def State_file_def)
  show ?thesis
  proof (cases "path_text p = ''kdamonds/nr_kdamonds''")
    case kd: True
    with d nothing_runs have "\<forall>k. \<not> runs (kernel_of st) k" by auto
    with kd d rec n name node
      kernel_step.kdamonds [of p "kernel_of st" w v n "map_of (be_nodes st1)"]
    show ?thesis unfolding st1 by (simp add: kernel_of_def)
  next
    case False
    with True d rec n name node
      kernel_step.count [of p d "kernel_of st" w v n "map_of (be_nodes st1)"]
    show ?thesis unfolding st1 by (simp add: kernel_of_def)
  qed
qed

theorem write_refines:
  assumes s: "sound st" and m: "State_write p v st = (Inr u, st')"
  shows "kernel_step (kernel_of st) p v (kernel_of st')"
proof -
  from m obtain st1 u1 st2 u2 where steps: "take_failure p st = (Inr u1, st1)" "writable_node p st1 = (Inr u2, st2)"
    and rest: "(if file_name p = Some ''state'' then write_state p v
      else bbind (check_value p v) (\<lambda>_. write_attribute p v)) st2 = (Inr u, st')"
    by (auto simp: State_write_def bbind_Inr_iff)
  have st2: "st2 = st"
    using kernel_of_failure [OF steps(1)] within_D [OF checks_pure(3) steps(2)] by simp
  obtain w where w: "lookup st p = Some (File w)"
    using steps(2) kernel_of_failure [OF steps(1)]
    by (auto simp: writable_node_def split: option.splits node.splits)
  show ?thesis
  proof (cases "file_name p = Some ''state''")
    case True
    with rest st2 have "write_state p v st = (Inr u, st')" by simp
    then obtain k where k: "parent p = Some k" "obey p k (trim v) st = (Inr u, st')"
      by (auto simp: write_state_def split: if_splits option.splits)
    have "p = sub k [''state'']" by (rule parent_file_name [OF True k(1)])
    with obey_refines [OF s] w k(2) show ?thesis by simp
  next
    case False
    with rest st2 obtain st3 u3 where c: "check_value p v st = (Inr u3, st3)"
      and a: "write_attribute p v st3 = (Inr u, st')"
      by (auto simp: bbind_Inr_iff)
    have "st3 = st" by (rule within_D [OF checks_pure(2) c])
    with attribute_refines [OF False w] a show ?thesis by simp
  qed
qed

section \<open>Refused writes\<close>

text \<open>An error of the kernel, as opposed to a panic, is found before anything is staged or committed.\<close>

lemma refused_start: "start_kdamond k st = (Inl (Fault e), st') \<Longrightarrow> st' = st"
proof -
  assume m: "start_kdamond k st = (Inl (Fault e), st')"
  have "take_pid x = (Inl (Fault e), y) \<longleftrightarrow> False" for x y
    by (auto simp: take_pid_def split: option.splits)
  with m consider "st' = st" | "validate_sample_primitives k st = (Inl (Fault e), st')"
    by (auto simp: start_kdamond_def bbind_Inl_iff split: if_splits)
  then show ?thesis using within_D [OF checks_pure(1)] by cases auto
qed

lemma refused_obey:
  assumes "obey p k command st = (Inl (Fault e), st')"
  shows "reports_only k st st'"
proof (cases "takes_effect command")
  case False
  from within_D [OF reports_obey [OF False] assms] show ?thesis .
next
  case True
  have goals: "commit_quota_goals k x = (Inl (Fault e), y) \<longleftrightarrow> False" for x y
    by (auto simp: commit_quota_goals_def split: option.splits)
  have "st' = st"
    using True assms refused_start within_D [OF checks_pure(1)]
    by (auto simp: takes_effect_def obey_def switch_on_def switch_off_def running_command_def
        ensure_running_def commit_staged_def bbind_Inl_iff goals split: if_splits)
  then show ?thesis by (simp add: frame.refl)
qed

lemma refused_attribute: "write_attribute p v st = (Inl (Fault e), st') \<Longrightarrow> st' = st"
proof -
  have below: "rebuild_below p n create st = (Inl (Fault e), st') \<Longrightarrow> st' = st" for n create
    by (auto simp: rebuild_below_def bbind_Inl_iff split: option.splits)
  have kdamonds: "rebuild_kdamonds n st = (Inl (Fault e), st') \<Longrightarrow> st' = st" for n
    by (auto simp: rebuild_kdamonds_def split: if_splits)
  have "reconstruct_count p n st = (Inl (Fault e), st') \<Longrightarrow> st' = st" for n
    unfolding reconstruct_count_def Let_def
    by (auto split: if_splits dest: below kdamonds)
  then show "write_attribute p v st = (Inl (Fault e), st') \<Longrightarrow> st' = st"
    by (auto simp: write_attribute_def bbind_Inl_iff split: if_splits)
qed

theorem refused_write:
  assumes m: "State_write p v st = (Inl (Fault e), st')"
  shows "if file_name p = Some ''state'' then \<exists>k. parent p = Some k \<and> reports_only k st st'
         else be_nodes st' = be_nodes st \<and> be_active st' = be_active st"
proof -
  consider "take_failure p st = (Inl (Fault e), st')"
    | u st1 where "take_failure p st = (Inr u, st1)" "writable_node p st1 = (Inl (Fault e), st')"
    | u st1 u2 st2 where "take_failure p st = (Inr u, st1)" "writable_node p st1 = (Inr u2, st2)"
      "(if file_name p = Some ''state'' then write_state p v
        else bbind (check_value p v) (\<lambda>_. write_attribute p v)) st2 = (Inl (Fault e), st')"
    using m by (auto simp: State_write_def bbind_Inl_iff)
  then show ?thesis
  proof cases
    case 1
    then have "be_nodes st' = be_nodes st \<and> be_active st' = be_active st \<and> be_extensions st' = be_extensions st"
      by (auto simp: take_failure_def split: option.splits)
    then show ?thesis using file_name_parent by (auto simp: frames_def)
  next
    case 2
    then have "st' = st" using kernel_of_failure within_D [OF checks_pure(3)] by metis
    then show ?thesis using file_name_parent by (auto simp: frames_def)
  next
    case 3
    then have st2: "st2 = st" using kernel_of_failure within_D [OF checks_pure(3)] by metis
    show ?thesis
    proof (cases "file_name p = Some ''state''")
      case True
      with 3 st2 file_name_parent [OF True] show ?thesis
        by (auto simp: write_state_def frame.refl dest: refused_obey split: if_splits)
    next
      case False
      with 3 st2 have "bbind (check_value p v) (\<lambda>_. write_attribute p v) st = (Inl (Fault e), st')" by simp
      with within_D [OF checks_pure(2)] have "st' = st"
        by (auto simp: bbind_Inl_iff dest: refused_attribute)
      with False show ?thesis by simp
    qed
  qed
qed

section \<open>Sequences of accepted writes\<close>

definition accepted_write :: "backend \<Rightarrow> path \<times> string \<Rightarrow> backend \<Rightarrow> bool" where
  "accepted_write st l st' \<longleftrightarrow> sound st \<and> State_write (fst l) (snd l) st = (Inr (), st')"

definition kernel_write :: "kernel \<Rightarrow> path \<times> string \<Rightarrow> kernel \<Rightarrow> bool" where
  "kernel_write a l b \<longleftrightarrow> kernel_step a (fst l) (snd l) b"

interpretation accepted: simulation accepted_write kernel_write kernel_of
  by unfold_locales (auto simp: accepted_write_def kernel_write_def intro: write_refines)

text \<open>Writes that command nothing and leave the number of kdamonds are only staged.\<close>

definition only_stages :: "path \<times> string \<Rightarrow> bool" where
  "only_stages l \<longleftrightarrow> file_name (fst l) \<noteq> Some ''state'' \<and> path_text (fst l) \<noteq> ''kdamonds/nr_kdamonds''"

lemma staged_write: "kernel_write a l b \<Longrightarrow> only_stages l \<Longrightarrow> kn_active b = kn_active a"
  using only_commands_activate [of a "fst l" "snd l" b]
  by (cases "kn_active b = kn_active a") (auto simp: kernel_write_def only_stages_def file_name_sub)

lemma staged_writes:
  "run kernel_write a ls b \<Longrightarrow> list_all only_stages ls \<Longrightarrow> kn_active b = kn_active a"
  by (induction rule: run.induct) (auto dest: staged_write)

lemma accepted_writes_stage:
  "run accepted_write st ls st' \<Longrightarrow> list_all only_stages ls \<Longrightarrow>
     kn_active (kernel_of st') = kn_active (kernel_of st)"
  by (rule staged_writes [OF accepted.refined])

end
