(* ===== verification/Backend_View.thy ===== *)
theory Backend_View
  imports Backend_Kernel
begin

text \<open>
  The in-memory kernel seen through system calls. The unit tests replace the input and output
  functions by calls on the in-memory kernel; here the production functions run on a kernel that
  answers its system calls from the same state, and the two are compared.
\<close>

section \<open>The system calls of a model\<close>

definition answer :: "'a faulty option \<Rightarrow> io_error + 'a" where
  "answer r =
     (case r of
        Some (Inr x) \<Rightarrow> Inr x
      | Some (Inl (Fault e)) \<Rightarrow> Inl e
      | _ \<Rightarrow> Inl (KindError OtherKind ''no answer''))"

definition served :: "path \<Rightarrow> (path \<Rightarrow> 'a bstep) \<Rightarrow> backends \<times> 'h \<Rightarrow> (io_error + 'a) \<times> (backends \<times> 'h)" where
  "served p f k = (case backend_call p f (fst k) of (r, bs) \<Rightarrow> (answer r, (bs, snd k)))"

definition node_metadata :: "path \<Rightarrow> metadata bstep" where
  "node_metadata p =
     bget (\<lambda>st. case lookup st p of
        None \<Rightarrow> Inl (Fault (not_found p))
      | Some n \<Rightarrow> Inr \<lparr>meta_is_dir = (n = Directory), meta_readonly = False\<rparr>)"

definition child_entry :: "path \<Rightarrow> path \<times> node \<Rightarrow> dir_entry option" where
  "child_entry p e =
     (if parent (fst e) \<noteq> Some p then None
      else map_option (\<lambda>name. \<lparr>entry_name = name,
             entry_kind = Inr (if snd e = Directory then KindDir else KindFile)\<rparr>) (file_name (fst e)))"

definition directory_entries :: "path \<Rightarrow> (io_error + dir_entry) list bstep" where
  "directory_entries p =
     bget (\<lambda>st. case lookup st p of
        Some Directory \<Rightarrow> Inr (map Inr (List.map_filter (child_entry p) (be_nodes st)))
      | Some (File _) \<Rightarrow> Inl (Fault (simple_error NotADirectory))
      | None \<Rightarrow> Inl (Fault (not_found p)))"

text \<open>A file is read in one piece; an empty one has none.\<close>

definition whole :: "string \<Rightarrow> handle" where
  "whole v = \<lparr>h_pieces = (if v = [] then [] else [v]), h_failure = None\<rparr>"

definition model_sysfs :: "nat \<Rightarrow> (backends \<times> 'h) sysfs" where
  "model_sysfs n =
     \<lparr>sys_exists = \<lambda>p. served p B_path_exists,
      sys_metadata = \<lambda>p. served p node_metadata,
      sys_read_dir = \<lambda>p. served p directory_entries,
      sys_open_read = \<lambda>p k. case served p B_read k of
          (r, k') \<Rightarrow> (case r of Inl e \<Rightarrow> Inl e | Inr (Inl e) \<Rightarrow> Inl e | Inr (Inr v) \<Rightarrow> Inr (whole v), k'),
      sys_open_write = \<lambda>p. served p writable_node,
      sys_write = \<lambda>p v k. case served p (\<lambda>q. B_write q v) k of
          (r, k') \<Rightarrow> (case r of Inl e \<Rightarrow> Inl e | Inr _ \<Rightarrow> Inr (length v), k'),
      sys_sleep = \<lambda>d k. k,
      sys_fuel = n\<rparr>"

section \<open>Agreement\<close>

text \<open>Both succeed with the same value, or both fail, and they leave the same world.\<close>

definition same_answer :: "'a result \<times> 'k world \<Rightarrow> 'a result \<times> 'k world \<Rightarrow> bool" where
  "same_answer x y \<longleftrightarrow>
     snd x = snd y
     \<and> (case fst x of Inr v \<Rightarrow> fst y = Inr v | Inl _ \<Rightarrow> (\<exists>e. fst y = Inl e))"

definition resolves_to :: "path \<Rightarrow> backends \<Rightarrow> nat \<Rightarrow> path \<Rightarrow> backend \<Rightarrow> bool" where
  "resolves_to p bs r rest st \<longleftrightarrow> fst (resolve p bs) = Some (r, rest) \<and> bs_states bs r = Some st"

lemma resolve_states [simp]: "bs_states (snd (resolve p bs)) = bs_states bs"
  by (simp add: resolve_def Let_def)

lemma backend_call_resolved:
  assumes "resolves_to p bs r rest st"
  shows "backend_call p f bs =
    (case f rest st of (x, st') \<Rightarrow>
       (Some x, (snd (resolve p bs))\<lparr>bs_states := (bs_states bs)(r \<mapsto> st')\<rparr>))"
proof -
  obtain bs' where "resolve p bs = (Some (r, rest), bs')"
    using assms by (cases "resolve p bs") (simp add: resolves_to_def)
  then show ?thesis
    using assms resolve_states [of p bs] by (simp add: backend_call_def resolves_to_def)
qed

text \<open>The registry without its dropped models is the registry of the next call too.\<close>

lemma resolves_again:
  fixes st' :: backend
  assumes "resolves_to p bs r rest st"
  defines bs': "bs' \<equiv> (snd (resolve p bs))\<lparr>bs_states := (bs_states bs)(r \<mapsto> st')\<rparr>"
  shows "resolves_to p bs' r rest st'" "snd (resolve p bs') = bs'"
proof -
  have same: "((bs_states bs)(r \<mapsto> st')) x \<noteq> None \<longleftrightarrow> bs_states bs x \<noteq> None" for x
    using assms(1) by (simp add: resolves_to_def)
  have live: "live_entries bs' = live_entries bs"
    using same by (simp add: bs' live_entries_def resolve_def Let_def)
  show "resolves_to p bs' r rest st'"
    using assms(1) live by (simp add: resolves_to_def resolve_def Let_def bs')
  show "snd (resolve p bs') = bs'"
    using live by (simp add: resolve_def Let_def bs')
qed

lemma holds_whole: "holds_content (whole v) v"
  by (simp add: holds_content_def whole_def)

lemma numeric_entries_map:
  "numeric_entries shown (map Inr (List.map_filter (child_entry p) nodes)) is
     = Inr (is @ List.map_filter (child_index p) nodes)"
  by (induction nodes arbitrary: "is")
    (auto simp: map_filter_simps child_entry_def child_index_def split: option.splits)

lemmas view_simps =
  test_branch_def or_io_error.simps call_def syscall_def sbind_def sret_def sfail_def io_fail_def
  served_def answer_def model_sysfs_def same_answer_def Let_def

lemma test_inspect_agrees:
  assumes "resolves_to p (fst (w_kernel w)) r rest st"
  shows "same_answer (test_path_exists E p w) (path_exists (model_sysfs n) p w)"
    and "same_answer (test_path_is_dir E p w) (path_is_dir (model_sysfs n) p w)"
proof -
  note resolved = backend_call_resolved [OF assms]
  show "same_answer (test_path_exists E p w) (path_exists (model_sysfs n) p w)"
    by (simp add: test_path_exists_def path_exists_def view_simps resolved B_path_exists_def bget_def)
  show "same_answer (test_path_is_dir E p w) (path_is_dir (model_sysfs n) p w)"
    by (auto simp add: test_path_is_dir_def path_is_dir_def view_simps resolved B_path_is_dir_def
        node_metadata_def bget_def not_found_def split: option.splits)
qed

lemma test_indices_agree:
  assumes "resolves_to p (fst (w_kernel w)) r rest st"
  shows "same_answer (test_numeric_directory_indices E p w) (numeric_directory_indices (model_sysfs n) p w)"
  by (auto simp: test_numeric_directory_indices_def numeric_directory_indices_def view_simps
      backend_call_resolved [OF assms] numeric_directories_def directory_entries_def bget_def slift_def
      numeric_entries_map not_found_def simple_error_def comp_def split: option.splits node.splits)

section \<open>Reading\<close>

lemma configuration_bytes_equal_iff:
  "configuration_bytes_equal v expected \<longleftrightarrow> v = expected \<or> v = expected @ newline"
proof -
  have "match_configuration_chunk v expected (0, False) =
    (if config_prefix v expected then Some (chunk_state expected v) else None)"
    using match_configuration_chunk_spec [of "[]" expected v]
    by (simp add: config_prefix_def chunk_state_def)
  moreover have "config_prefix v expected" if "v = expected \<or> v = expected @ newline"
    using that by (auto simp: config_prefix_def)
  ultimately show ?thesis
    using config_prefix_complete [of v expected]
    by (cases "chunk_state expected v") (auto simp: configuration_bytes_equal_def)
qed

lemma B_read_cases:
  obtains (hook) f st' where "B_read p st = (Inl f, st')"
    | (failed) e st' where "B_read p st = (Inr (Inl e), st')" "node_content p st = Inl e"
    | (content) v st' where "B_read p st = (Inr (Inr v), st')" "node_content p st = Inr v"
  by (cases "apply_hooks (HookRead p) (st\<lparr>be_reads := Suc (be_reads st)\<rparr>)"; cases "node_content p st";
      cases "fst (apply_hooks (HookRead p) (st\<lparr>be_reads := Suc (be_reads st)\<rparr>))")
    (auto simp: B_read_def bbind_def bret_def node_content_def)

lemma apply_hooks_no_fault: "fst (apply_hooks event st) \<noteq> Inl (Fault e)"
proof -
  have one: "fst (apply_mutation m st') \<noteq> Inl (Fault e)" for m st'
    by (auto simp: apply_mutation_def bmodify_def split: mutation.splits prod.splits sum.splits fault.splits)
  have "fst (beach apply_mutation ms st') \<noteq> Inl (Fault e)" for ms st'
  proof (induction ms arbitrary: st')
    case (Cons m ms)
    with one show ?case by (auto simp: bbind_def split: prod.splits sum.splits) (metis fst_conv)
  qed (simp add: bret_def)
  then show ?thesis by (auto simp: apply_hooks_def split: option.splits)
qed

lemma B_read_no_fault: "fst (B_read p st) \<noteq> Inl (Fault e)"
  using apply_hooks_no_fault [of "HookRead p" "st\<lparr>be_reads := Suc (be_reads st)\<rparr>" e]
  by (auto simp: B_read_def bbind_def bret_def split: prod.splits sum.splits)

lemma test_reads_agree:
  assumes res: "resolves_to p (fst (w_kernel w)) r rest st"
  shows "same_answer (test_read_text E p w) (read_text (model_sysfs n) p w)"
    and "same_answer (test_read_configuration_value_equals E p expected w)
          (read_configuration_value_equals (model_sysfs n) p expected w)"
    and "node_content rest st = Inr v \<Longrightarrow> length v \<noteq> 64 \<Longrightarrow>
          same_answer (test_read_u64 E p w) (read_u64 (model_sysfs n) p w)"
    and "node_content rest st = Inl e \<Longrightarrow>
          same_answer (test_read_u64 E p w) (read_u64 (model_sysfs n) p w)"
proof -
  note resolved = backend_call_resolved [OF res]
  note reads = test_read_text_def read_text_def content_or_error_def
  note equal = test_read_configuration_value_equals_def read_configuration_value_equals_def
  note number = test_read_u64_def read_u64_def content_or_error_def fill_buffer_content [OF holds_whole]
  note pieces = read_to_string_content [OF holds_whole] match_loop_spec [OF holds_whole]
    configuration_bytes_equal_iff
  consider (hook) s st' where "B_read rest st = (Inl (Panic s), st')"
    | (failed) e st' where "B_read rest st = (Inr (Inl e), st')" "node_content rest st = Inl e"
    | (content) v st' where "B_read rest st = (Inr (Inr v), st')" "node_content rest st = Inr v"
    using B_read_no_fault [of rest st] by (cases rest st rule: B_read_cases) (metis fault.exhaust fst_conv)+
  note cases = this
  show "same_answer (test_read_text E p w) (read_text (model_sysfs n) p w)"
    using cases by cases (simp_all add: reads view_simps resolved pieces)
  show "same_answer (test_read_configuration_value_equals E p expected w)
          (read_configuration_value_equals (model_sysfs n) p expected w)"
    using cases by cases (simp_all add: equal view_simps resolved pieces)
  show "same_answer (test_read_u64 E p w) (read_u64 (model_sysfs n) p w)"
    if "node_content rest st = Inr v" "length v \<noteq> 64"
    using cases that by cases (auto simp: number view_simps resolved split: option.splits)
  show "same_answer (test_read_u64 E p w) (read_u64 (model_sysfs n) p w)"
    if "node_content rest st = Inl e"
    using cases that by cases (auto simp: number view_simps resolved split: option.splits)
qed

section \<open>Interruptions\<close>

text \<open>No step of the model itself fails as interrupted; only an injected failure does.\<close>

definition steady :: "'a bstep \<Rightarrow> bool" where
  "steady m \<longleftrightarrow> (\<forall>st e st'. m st = (Inl (Fault e), st') \<longrightarrow> io_error_kind e \<noteq> Interrupted)"

lemma steady_simple:
  "steady (bret x)" "steady (bmodify f)" "steady (bfail (Panic s))"
  "io_error_kind e \<noteq> Interrupted \<Longrightarrow> steady (bfail (Fault e))"
  "(\<And>st e. f' st = Inl (Fault e) \<Longrightarrow> io_error_kind e \<noteq> Interrupted) \<Longrightarrow> steady (bget f')"
  by (auto simp: steady_def)

lemma steady_if: "(b \<Longrightarrow> steady m) \<Longrightarrow> (\<not> b \<Longrightarrow> steady m') \<Longrightarrow> steady (if b then m else m')"
  by simp

lemma steady_bind: "steady m \<Longrightarrow> (\<And>x. steady (f x)) \<Longrightarrow> steady (bbind m f)"
  unfolding steady_def bbind_Inl_iff by blast

lemma steady_each: "(\<And>x. steady (f x)) \<Longrightarrow> steady (beach f xs)"
  by (induction xs) (simp_all add: steady_simple steady_bind)

lemmas steady_rules = steady_bind steady_if steady_each steady_simple

lemma steady_gets:
  "listed_value_contains s v = Inl (Fault e) \<Longrightarrow> io_error_kind e \<noteq> Interrupted"
  "selected_operations k st = Inl (Fault e) \<Longrightarrow> io_error_kind e \<noteq> Interrupted"
  "scheme_count k st = Inl (Fault e) \<Longrightarrow> io_error_kind e \<noteq> Interrupted"
  "parse_count v = Inl (Fault e) \<Longrightarrow> io_error_kind e \<noteq> Interrupted"
  "primitive_enabled st p = Inl (Fault e) \<Longrightarrow> io_error_kind e \<noteq> Interrupted"
  "region_total n rs = Inl (Fault e) \<Longrightarrow> io_error_kind e \<noteq> Interrupted"
proof -
  show "parse_count v = Inl (Fault e) \<Longrightarrow> io_error_kind e \<noteq> Interrupted" for v
    by (auto simp: parse_count_def split: if_splits option.splits)
  then show "scheme_count k st = Inl (Fault e) \<Longrightarrow> io_error_kind e \<noteq> Interrupted"
    by (auto simp: scheme_count_def Let_def not_found_def split: option.splits node.splits)
  show "region_total n rs = Inl (Fault e) \<Longrightarrow> io_error_kind e \<noteq> Interrupted"
    by (induction n rs rule: region_total.induct) (auto split: option.splits)
qed (auto simp: listed_value_contains_def selected_operations_def primitive_enabled_def errno_def
    simple_error_def split: if_splits option.splits node.splits)

lemma steady_validate: "steady (validate_sample_primitives k)"
  unfolding validate_sample_primitives_def Let_def
  by (intro steady_rules steady_gets(5); assumption?)
    (auto intro!: steady_simple simp: errno_def split: option.splits)

lemma steady_start: "steady (start_kdamond k)"
proof -
  have "steady take_pid" by (auto simp: steady_def take_pid_def split: option.splits)
  then show ?thesis
    unfolding start_kdamond_def
    by (intro steady_bind steady_if steady_validate steady_simple)
      (auto dest: steady_gets simp: errno_def)
qed

lemma steady_obey: "steady (obey p k command)"
proof -
  have "steady (bbind (bget (\<lambda>_. region_total 0 regions)) (\<lambda>sum_units.
      bbind (bget (scheme_count k)) (\<lambda>n.
        beach (materialize_scheme_regions k sum_units regions) [0..<n])))" for regions
    unfolding materialize_scheme_regions_def Let_def
    by (intro steady_rules) (auto dest: steady_gets simp: not_found_def split: if_splits)
  then have tried: "steady (materialize_tried_regions k)"
    by (auto simp: steady_def materialize_tried_regions_def Let_def)
  have "steady (commit_quota_goals k)"
    by (auto simp: steady_def commit_quota_goals_def split: option.splits)
  with tried steady_start steady_validate show ?thesis
    unfolding obey_def switch_on_def switch_off_def running_command_def ensure_running_def
      commit_staged_def update_tried_bytes_def clear_materialized_tried_regions_def
      clear_scheme_regions_def remove_scheme_regions_def Let_def
    by (intro steady_bind steady_if steady_each steady_simple)
      (auto dest: steady_gets simp: errno_def not_found_def split: if_splits)
qed

lemma steady_State_write:
  assumes "State_write p v st = (Inl (Fault e), st')" "io_error_kind e = Interrupted"
  shows "\<exists>f\<in>set (be_failures st). wf_path f = p \<and> wf_errno f = 4"
proof -
  have node: "steady (writable_node p)" unfolding writable_node_def
    by (intro steady_simple) (auto simp: not_found_def simple_error_def split: option.splits node.splits)
  have listed: "steady (must_be_listed applies listed v)" for applies listed
    unfolding must_be_listed_def
    by (intro steady_rules) (auto dest: steady_gets simp: errno_def simple_error_def)
  have check: "steady (check_value p v)" unfolding check_value_def check_type_def Let_def
    by (intro steady_bind steady_if steady_simple listed) (simp_all add: simple_error_def)
  have state: "steady (write_state p v)"
    using steady_obey by (auto simp: write_state_def intro!: steady_if steady_simple split: option.splits)
  have below: "steady (rebuild_below p n create)" for n create
    by (auto simp: rebuild_below_def intro!: steady_bind steady_simple split: option.splits)
  have kdamonds: "steady (rebuild_kdamonds n)" for n
    by (auto simp: steady_def rebuild_kdamonds_def errno_def)
  have attribute: "steady (write_attribute p v)"
    unfolding write_attribute_def reconstruct_count_def Let_def
    by (intro steady_bind steady_if steady_simple below kdamonds) (auto dest: steady_gets)
  have "take_failure p st = (Inl (Fault e), st')"
    using assms node check state attribute
    unfolding steady_def by (fastforce simp: State_write_def bbind_Inl_iff split: if_splits)
  then obtain f where "find (\<lambda>f. wf_path f = p) (be_failures st) = Some f" "e = OsError (wf_errno f)"
    by (auto simp: take_failure_def errno_def split: option.splits)
  with assms(2) show ?thesis by (auto simp: find_Some_iff split: if_splits intro!: bexI [of _ f])
qed

section \<open>Writing\<close>

text \<open>Opening the file first, which the tests do not do, changes nothing that the write sees.\<close>

lemma test_write_agrees:
  assumes res: "resolves_to p (fst (w_kernel w)) r rest st" and node: "lookup st rest = Some (File old)"
    and uninterrupted: "\<forall>f\<in>set (be_failures st). wf_path f = rest \<longrightarrow> wf_errno f \<noteq> 4"
  shows "same_answer (test_write_bytes E p v w) (write_bytes (model_sysfs (Suc n)) p v w)"
proof -
  have calm: "io_error_kind e \<noteq> Interrupted" if "fst (B_write rest v st) = Inl (Fault e)" for e
  proof -
    from that have "fst (State_write rest v st) = Inl (Fault e)"
      using apply_hooks_no_fault
      by (cases "B_write rest v st") (auto simp: B_write_def bbind_Inl_iff dest!: arg_cong [where f = fst])
    then have "State_write rest v st = (Inl (Fault e), snd (State_write rest v st))"
      by (metis prod.collapse)
    with steady_State_write uninterrupted show ?thesis by blast
  qed
  let ?bs = "(snd (resolve p (fst (w_kernel w))))\<lparr>bs_states := (bs_states (fst (w_kernel w)))(r \<mapsto> st)\<rparr>"
  have same: "(bs_states (fst (w_kernel w)))(r \<mapsto> st) = bs_states (fst (w_kernel w))"
    using res by (auto simp: resolves_to_def)
  note again = resolves_again [OF res, of st]
  have opened: "backend_call p writable_node (fst (w_kernel w)) = (Some (Inr ()), ?bs)"
    by (simp add: backend_call_resolved [OF res] writable_node_def bget_def node)
  obtain x st' where x: "B_write rest v st = (x, st')" by (cases "B_write rest v st")
  have tested: "backend_call p (\<lambda>q. B_write q v) (fst (w_kernel w))
      = (Some x, (snd (resolve p (fst (w_kernel w))))\<lparr>bs_states := (bs_states (fst (w_kernel w)))(r \<mapsto> st')\<rparr>)"
    by (simp add: backend_call_resolved [OF res] x)
  have written: "backend_call p (\<lambda>q. B_write q v) ?bs
      = (Some x, (snd (resolve p (fst (w_kernel w))))\<lparr>bs_states := (bs_states (fst (w_kernel w)))(r \<mapsto> st')\<rparr>)"
    by (subst backend_call_resolved [OF again(1)], subst again(2)) (simp add: x)
  show ?thesis
  proof (cases x)
    case (Inr u)
    then show ?thesis
      by (simp add: test_write_bytes_def write_bytes_def view_simps opened tested written record_write_def)
  next
    case (Inl f)
    show ?thesis
    proof (cases f)
      case (Fault e)
      with Inl x calm have "io_error_kind e \<noteq> Interrupted" by simp
      with Inl Fault show ?thesis
        by (simp add: test_write_bytes_def write_bytes_def view_simps opened tested written)
    next
      case (Panic s)
      with Inl show ?thesis
        by (simp add: test_write_bytes_def write_bytes_def view_simps opened tested written)
    qed
  qed
qed

text \<open>A production write that succeeds on a model found a file there.\<close>

lemma write_bytes_found:
  assumes res: "resolves_to p (fst (w_kernel w)) r rest st"
    and success: "write_bytes (model_sysfs n) p v w = (Inr (), w')"
  obtains old where "lookup st rest = Some (File old)"
proof -
  have "\<exists>u. fst (writable_node rest st) = Inr u"
  proof (rule ccontr)
    assume "\<not> ?thesis"
    then obtain f where "writable_node rest st = (Inl f, st)"
      by (cases "fst (writable_node rest st)") (auto simp: writable_node_def bget_def)
    then have "\<exists>e k. served p writable_node (w_kernel w) = (Inl e, k)"
      by (cases f) (simp_all add: served_def answer_def backend_call_resolved [OF res])
    with success show False
      by (auto simp: write_bytes_def call_def syscall_def sbind_def io_fail_def sfail_def model_sysfs_def)
  qed
  then show thesis
    using that by (auto simp: writable_node_def bget_def split: option.splits node.splits)
qed

lemma production_write_steps:
  assumes res: "resolves_to p (fst (w_kernel w)) r rest st" and st: "reached st"
    and uninterrupted: "\<forall>f\<in>set (be_failures st). wf_path f = rest \<longrightarrow> wf_errno f \<noteq> 4"
    and success: "write_bytes (model_sysfs (Suc n)) p v w = (Inr (), w')"
  shows "\<exists>st1 st'. kernel_step (kernel_of st) rest v (kernel_of st1)
    \<and> apply_hooks (HookWrite rest v) (st1\<lparr>be_writes := Suc (be_writes st1)\<rparr>) = (Inr (), st')
    \<and> resolves_to p (fst (w_kernel w')) r rest st' \<and> reached st'"
proof -
  obtain old where old: "lookup st rest = Some (File old)" by (rule write_bytes_found [OF res success])
  have "same_answer (test_write_bytes (model_sysfs n) p v w) (write_bytes (model_sysfs (Suc n)) p v w)"
    by (rule test_write_agrees [OF res old uninterrupted])
  then have test: "test_write_bytes (model_sysfs n) p v w = (Inr (), w')"
    using success by (cases "test_write_bytes (model_sysfs n) p v w") (auto simp: same_answer_def split: sum.splits)
  obtain x st' where x: "B_write rest v st = (x, st')" by (cases "B_write rest v st")
  have called: "backend_call p (\<lambda>q. B_write q v) (fst (w_kernel w))
      = (Some x, (snd (resolve p (fst (w_kernel w))))\<lparr>bs_states := (bs_states (fst (w_kernel w)))(r \<mapsto> st')\<rparr>)"
    by (simp add: backend_call_resolved [OF res] x)
  have ok: "x = Inr ()"
    and w': "fst (w_kernel w') = (snd (resolve p (fst (w_kernel w))))\<lparr>bs_states := (bs_states (fst (w_kernel w)))(r \<mapsto> st')\<rparr>"
    using test by (cases "(''write'', p, x)" rule: or_io_error.cases;
        auto simp: test_write_bytes_def test_branch_def called Let_def sbind_def sret_def io_fail_def sfail_def
          record_write_def)+
  obtain st1 where "State_write rest v st = (Inr (), st1)"
    and hooks: "apply_hooks (HookWrite rest v) (st1\<lparr>be_writes := Suc (be_writes st1)\<rparr>) = (Inr (), st')"
    using x ok by (auto simp: B_write_def bbind_Inr_iff)
  from write_refines [OF reached_sound [OF st] this(1)] hooks
    resolves_again(1) [OF res, of st'] reached.write_file [OF st, of rest v] x
  show ?thesis unfolding w' by auto
qed

end
