(* ===== verification/Same_Kernel.thy ===== *)
theory Same_Kernel
  imports Staging
begin

text \<open>
  Two kernels that answer alike: each state of \<open>S\<close> stands for a state of \<open>K\<close>, and each system call
  gives the same answer and leads to states that stand for each other again. The locale
  \<open>same_kernel\<close> shows that a computation of the crate cannot tell them apart: it returns the same
  result, and ends in worlds that stand for each other. The rules follow the combinators, so each
  function is proved from its text alone.
\<close>

section \<open>Computations that agree\<close>

definition viewed :: "('l \<Rightarrow> 'k) \<Rightarrow> 'l world \<Rightarrow> 'k world" where
  "viewed V w = \<lparr>w_kernel = V (w_kernel w), w_journal = w_journal w\<rparr>"

definition mimics :: "('l \<Rightarrow> 'k) \<Rightarrow> ('l, 'a) comp \<Rightarrow> ('k, 'a) comp \<Rightarrow> bool" where
  "mimics V m' m \<longleftrightarrow> (\<forall>w. m (viewed V w) = map_prod id (viewed V) (m' w))"

named_theorems mimics_rules \<open>computations that agree on two kernels\<close>

lemma viewed_sels [simp]:
  "w_kernel (viewed V w) = V (w_kernel w)" "w_journal (viewed V w) = w_journal w"
  "viewed V (w\<lparr>w_kernel := l\<rparr>) = (viewed V w)\<lparr>w_kernel := V l\<rparr>"
  "viewed V (w\<lparr>w_journal := j\<rparr>) = (viewed V w)\<lparr>w_journal := j\<rparr>"
  by (simp_all add: viewed_def)

lemma mimicsD: "mimics V m' m \<Longrightarrow> m (viewed V w) = (fst (m' w), viewed V (snd (m' w)))"
  by (simp add: mimics_def map_prod_def split_beta)

lemma mimics_pure [mimics_rules]:
  "mimics V (sret x) (sret x)" "mimics V (sfail e) (sfail e)" "mimics V (slift r) (slift r)"
  "mimics V (io_fail op p err) (io_fail op p err)" "mimics V (record_write p) (record_write p)"
  by (simp_all add: mimics_def sret_def sfail_def slift_def io_fail_def record_write_def split: option.split)

lemma mimics_sbind [mimics_rules]:
  "mimics V m' m \<Longrightarrow> (\<And>x. mimics V (f' x) (f x)) \<Longrightarrow> mimics V (sbind m' f') (sbind m f)"
  by (simp add: mimics_def sbind_def map_prod_def split_beta split: sum.splits)

lemma mimics_stry [mimics_rules]:
  "mimics V m' m \<Longrightarrow> (\<And>r. mimics V (f' r) (f r)) \<Longrightarrow> mimics V (stry m' f') (stry m f)"
  by (simp add: mimics_def stry_def map_prod_def split_beta)

lemma mimics_collect [mimics_rules]:
  "mimics V m' m \<Longrightarrow> (\<And>r ps. mimics V (f' r ps) (f r ps)) \<Longrightarrow>
     mimics V (collect_writes m' f') (collect_writes m f)"
  by (simp add: mimics_def collect_writes_def map_prod_def split_beta flip: viewed_sels(4))

lemma mimics_cases [mimics_rules]:
  "mimics V m' m \<Longrightarrow> mimics V n' n \<Longrightarrow> mimics V (if b then m' else n') (if b then m else n)"
  "mimics V m' m \<Longrightarrow> (\<And>y. mimics V (f' y) (f y)) \<Longrightarrow>
     mimics V (case x of None \<Rightarrow> m' | Some y \<Rightarrow> f' y) (case x of None \<Rightarrow> m | Some y \<Rightarrow> f y)"
  "(\<And>e. mimics V (g' e) (g e)) \<Longrightarrow> (\<And>y. mimics V (h' y) (h y)) \<Longrightarrow>
     mimics V (case s of Inl e \<Rightarrow> g' e | Inr y \<Rightarrow> h' y) (case s of Inl e \<Rightarrow> g e | Inr y \<Rightarrow> h y)"
  "(\<And>a b. mimics V (k' a b) (k a b)) \<Longrightarrow>
     mimics V (case q of (a, b) \<Rightarrow> k' a b) (case q of (a, b) \<Rightarrow> k a b)"
  "mimics V m' m \<Longrightarrow> (\<And>y ys. mimics V (l' y ys) (l y ys)) \<Longrightarrow>
     mimics V (case zs of [] \<Rightarrow> m' | y # ys \<Rightarrow> l' y ys) (case zs of [] \<Rightarrow> m | y # ys \<Rightarrow> l y ys)"
  by (simp_all split: option.split sum.split prod.split list.split)

lemma mimics_steps [mimics_rules]:
  "mimics V (steps []) (steps [])"
  "mimics V m' m \<Longrightarrow> mimics V (steps ms') (steps ms) \<Longrightarrow> mimics V (steps (m' # ms')) (steps (m # ms))"
  by (simp_all add: mimics_rules)

lemma mimics_lists [mimics_rules]:
  "(\<And>x. mimics V (f' x) (f x)) \<Longrightarrow> mimics V (seach f' xs) (seach f xs)"
  "(\<And>x. mimics V (g' x) (g x)) \<Longrightarrow> mimics V (smap g' xs) (smap g xs)"
  by (induction xs) (simp_all add: mimics_rules)

lemma mimics_helpers [mimics_rules]:
  "(\<And>i. mimics V (a' i) (a i)) \<Longrightarrow> mimics V (read_indexed n a') (read_indexed n a)"
  "(\<And>v. mimics V (b' v) (b v)) \<Longrightarrow> mimics V (select_kernel_ulong_max b') (select_kernel_ulong_max b)"
  "mimics V m' m \<Longrightarrow> mimics V (stage_if c m') (stage_if c m)"
  "(\<And>v. mimics V (d' v) (d v)) \<Longrightarrow> mimics V (stage_option d' x) (stage_option d x)"
  "(\<And>i y ob. mimics V (f' i y ob) (f i y ob)) \<Longrightarrow> mimics V (stage_children f' ys obs) (stage_children f ys obs)"
  "(\<And>i z. mimics V (g' i z) (g i z)) \<Longrightarrow> mimics V (stage_changed g' zs obs') (stage_changed g zs obs')"
  unfolding read_indexed_def select_kernel_ulong_max_def stage_if_def stage_option_def
    stage_children_def stage_changed_def
  by (intro mimics_rules; assumption)+

section \<open>Kernels that answer alike\<close>

locale same_kernel =
  fixes S :: "'l sysfs" and K :: "'k sysfs" and V :: "'l \<Rightarrow> 'k"
  assumes exists: "sys_exists K p (V l) = map_prod id V (sys_exists S p l)"
    and metadata: "sys_metadata K p (V l) = map_prod id V (sys_metadata S p l)"
    and read_dir: "sys_read_dir K p (V l) = map_prod id V (sys_read_dir S p l)"
    and open_read: "sys_open_read K p (V l) = map_prod id V (sys_open_read S p l)"
    and open_write: "sys_open_write K p (V l) = map_prod id V (sys_open_write S p l)"
    and wrote: "sys_write K p v (V l) = map_prod id V (sys_write S p v l)"
    and sleep: "sys_sleep K d (V l) = V (sys_sleep S d l)"
    and fuel: "sys_fuel S = sys_fuel K"
begin

lemma same_calls [mimics_rules]:
  "mimics V (syscall (sys_exists S p)) (syscall (sys_exists K p))"
  "mimics V (syscall (sys_metadata S p)) (syscall (sys_metadata K p))"
  "mimics V (syscall (sys_read_dir S p)) (syscall (sys_read_dir K p))"
  "mimics V (syscall (sys_open_read S p)) (syscall (sys_open_read K p))"
  "mimics V (syscall (sys_open_write S p)) (syscall (sys_open_write K p))"
  "mimics V (syscall (sys_write S p v)) (syscall (sys_write K p v))"
  by (simp_all add: mimics_def syscall_def exists metadata read_dir open_read open_write wrote split_beta)

lemma same_named_calls [mimics_rules]:
  "mimics V (call op p (sys_exists S q)) (call op p (sys_exists K q))"
  "mimics V (call op p (sys_metadata S q)) (call op p (sys_metadata K q))"
  "mimics V (call op p (sys_read_dir S q)) (call op p (sys_read_dir K q))"
  "mimics V (call op p (sys_open_read S q)) (call op p (sys_open_read K q))"
  "mimics V (call op p (sys_open_write S q)) (call op p (sys_open_write K q))"
  unfolding call_def by (intro mimics_rules)+

lemma same_walk [mimics_rules]: "mimics V (walk n S ps fs) (walk n K ps fs)"
proof (induction n arbitrary: ps fs)
  case 0
  show ?case by (cases ps) (auto intro!: mimics_rules)
next
  case (Suc n)
  then show ?case by (cases ps) (auto intro!: mimics_rules)
qed

lemma same_fuel [mimics_rules]:
  "mimics V (walk (sys_fuel S) S ps fs) (walk (sys_fuel K) K ps fs)"
  by (simp add: fuel mimics_rules)

lemma mimics_filled [mimics_rules]:
  "mimics V a' a \<Longrightarrow> (\<And>e. mimics V (b' e) (b e)) \<Longrightarrow> (\<And>s. mimics V (c' s) (c s)) \<Longrightarrow>
     mimics V (case x of TooLong \<Rightarrow> a' | ReadError e \<Rightarrow> b' e | Filled s \<Rightarrow> c' s)
       (case x of TooLong \<Rightarrow> a | ReadError e \<Rightarrow> b e | Filled s \<Rightarrow> c s)"
  by (cases x) simp_all

lemma same_write_once: "mimics V (write_once n S p v) (write_once n K p v)"
  by (induction n) (auto intro!: mimics_rules)

lemma same_write_once_fuel [mimics_rules]:
  "mimics V (write_once (sys_fuel S) S p v) (write_once (sys_fuel K) K p v)"
  by (simp add: fuel same_write_once)

lemma same_sysfs_io_1 [mimics_rules]:
  shows
    "mimics V (path_exists S x1) (path_exists K x1)"
    "mimics V (path_is_dir S x2) (path_is_dir K x2)"
    "mimics V (path_is_writable S x3) (path_is_writable K x3)"
    "mimics V (numeric_directory_indices S x4) (numeric_directory_indices K x4)"
    "mimics V (all_files_recursive S x5) (all_files_recursive K x5)"
    "mimics V (read_text S x6) (read_text K x6)"
    "mimics V (read_configuration_value_equals S x7 x8) (read_configuration_value_equals K x7 x8)"
    "mimics V (read_u64 S x9) (read_u64 K x9)"
  unfolding Let_def path_exists_def path_is_dir_def path_is_writable_def
    numeric_directory_indices_def all_files_recursive_def read_text_def
    read_configuration_value_equals_def read_u64_def
  by (intro mimics_rules)+

lemma same_sysfs_io_2 [mimics_rules]:
  shows
    "mimics V (read_usize S x1) (read_usize K x1)"
    "mimics V (read_u32 S x2) (read_u32 K x2)"
    "mimics V (read_u8 S x3) (read_u8 K x3)"
    "mimics V (read_i32 S x4) (read_i32 K x4)"
    "mimics V (read_bool S x5) (read_bool K x5)"
    "mimics V (read_sysfs_string S x6) (read_sysfs_string K x6)"
    "mimics V (write_bytes S x7 x8) (write_bytes K x7 x8)"
  unfolding Let_def read_usize_def read_u32_def read_u8_def read_i32_def read_bool_def
    read_sysfs_string_def write_bytes_def
  by (intro mimics_rules)+

lemma same_sysfs_io_3 [mimics_rules]:
  shows
    "mimics V (write_value S x1 x2) (write_value K x1 x2)"
    "mimics V (write_usize S x3 x4) (write_usize K x3 x4)"
    "mimics V (write_i32 S x5 x6) (write_i32 K x5 x6)"
  unfolding Let_def write_value_def write_usize_def write_i32_def
  by (intro mimics_rules)+

lemma same_sysfs_io_4 [mimics_rules]:
  shows
    "mimics V (write_value_if_present S x1 x2) (write_value_if_present K x1 x2)"
    "mimics V (write_bool S x3 x4) (write_bool K x3 x4)"
    "mimics V (write_enum S x5 x6) (write_enum K x5 x6)"
    "mimics V (ensure_count S x7 x8) (ensure_count K x7 x8)"
  unfolding Let_def write_value_if_present_def write_bool_def write_enum_def ensure_count_def
  by (intro mimics_rules)+

lemma same_optional [mimics_rules]:
  "mimics V (read_enum S p f) (read_enum K p f)"
  "mimics V r' r \<Longrightarrow> mimics V (optional_read S p r') (optional_read K p r)"
  "mimics V r' r \<Longrightarrow> mimics V (optional_pair S p q r') (optional_pair K p q r)"
  "mimics V u' u \<Longrightarrow> mimics V (stage_optional_default S p x y feature u') (stage_optional_default K p x y feature u)"
  unfolding read_enum_def optional_read_def optional_pair_def stage_optional_default_def
  by (intro mimics_rules; assumption?)+

section \<open>Fingerprints and handles\<close>

lemma same_fingerprint_1 [mimics_rules]:
  shows
    "mimics V (read_configuration_value S x1) (read_configuration_value K x1)"
  unfolding Let_def read_configuration_value_def
  by (intro mimics_rules)+

lemma same_select [mimics_rules]:
  "mimics V (select_writable S root ps sel) (select_writable K root ps sel)"
  by (induction ps arbitrary: sel) (auto intro!: mimics_rules)

lemma same_fingerprint_2 [mimics_rules]:
  shows
    "mimics V (writable_configuration_files S x1) (writable_configuration_files K x1)"
  unfolding Let_def writable_configuration_files_def
  by (intro mimics_rules)+

lemma same_fingerprint_3 [mimics_rules]:
  shows
    "mimics V (capture_configuration S x1) (capture_configuration K x1)"
    "mimics V (observed_attribute_paths S x2) (observed_attribute_paths K x2)"
  unfolding Let_def capture_configuration_def observed_attribute_paths_def
  by (intro mimics_rules)+

lemma same_check [mimics_rules]:
  "mimics V (check_entries S skip es) (check_entries K skip es)"
  by (induction es) (auto intro!: mimics_rules)

lemma same_fingerprint_4 [mimics_rules]:
  shows
    "mimics V (matches_current_except S x1 x2) (matches_current_except K x1 x2)"
  unfolding Let_def matches_current_except_def
  by (intro mimics_rules)+

lemma same_fingerprint_5 [mimics_rules]:
  shows
    "mimics V (fingerprint_matches_current S x1) (fingerprint_matches_current K x1)"
    "mimics V (matches_current_under_except S x2 x3 x4) (matches_current_under_except K x2 x3 x4)"
    "mimics V (matches_current_outside_except S x5 x6 x7) (matches_current_outside_except K x5 x6 x7)"
  unfolding Let_def fingerprint_matches_current_def matches_current_under_except_def
    matches_current_outside_except_def
  by (intro mimics_rules)+

lemma same_refresh [mimics_rules]:
  "mimics V (refresh_entries S ps es) (refresh_entries K ps es)"
  by (induction ps arbitrary: es) (auto intro!: mimics_rules)

lemma same_fingerprint_6 [mimics_rules]:
  shows
    "mimics V (refreshed_paths_except S x1 x2 x3) (refreshed_paths_except K x1 x2 x3)"
    "mimics V (snapshot_capture S x4) (snapshot_capture K x4)"
    "mimics V (snapshot_matches_current_except S x5 x6) (snapshot_matches_current_except K x5 x6)"
    "mimics V (snapshot_matches_complete_current_except S x7 x8) (snapshot_matches_complete_current_except K x7 x8)"
    "mimics V (snapshot_matches_current_under_except S x9 x10 x11) (snapshot_matches_current_under_except K x9 x10 x11)"
    "mimics V (snapshot_matches_current_outside_except S x12 x13 x14) (snapshot_matches_current_outside_except K x12 x13 x14)"
  unfolding Let_def refreshed_paths_except_def snapshot_capture_def
    snapshot_matches_current_except_def snapshot_matches_complete_current_except_def
    snapshot_matches_current_under_except_def snapshot_matches_current_outside_except_def
  by (intro mimics_rules)+

lemma same_fingerprint_7 [mimics_rules]:
  shows
    "mimics V (snapshot_refreshed_paths_except S x1 x2 x3) (snapshot_refreshed_paths_except K x1 x2 x3)"
    "mimics V (snapshot_matches_current S x4) (snapshot_matches_current K x4)"
    "mimics V (values_match_current S x5) (values_match_current K x5)"
    "mimics V (restore_entry S x6 x7) (restore_entry K x6 x7)"
  unfolding Let_def snapshot_refreshed_paths_except_def snapshot_matches_current_def
    values_match_current_def restore_entry_def
  by (intro mimics_rules)+

lemma same_fingerprint_8 [mimics_rules]:
  shows
    "mimics V (restore_except S x1 x2) (restore_except K x1 x2)"
  unfolding Let_def restore_except_def
  by (intro mimics_rules)+

lemma same_fingerprint_9 [mimics_rules]:
  shows
    "mimics V (restore S x1) (restore K x1)"
    "mimics V (verify_restored S x2) (verify_restored K x2)"
  unfolding Let_def restore_def verify_restored_def
  by (intro mimics_rules)+

lemma same_fingerprint_10 [mimics_rules]:
  shows
    "mimics V (restore_paths_except S x1 x2 x3) (restore_paths_except K x1 x2 x3)"
  unfolding Let_def restore_paths_except_def
  by (intro mimics_rules)+

lemma same_handles_1 [mimics_rules]:
  shows
    "mimics V (Admin_kdamond_count S x1) (Admin_kdamond_count K x1)"
    "mimics V (Admin_set_kdamond_count S x2 x3) (Admin_set_kdamond_count K x2 x3)"
  unfolding Let_def Admin_kdamond_count_def Admin_set_kdamond_count_def
  by (intro mimics_rules)+

lemma same_handles_2 [mimics_rules]:
  shows
    "mimics V (Admin_open S x1) (Admin_open K x1)"
    "mimics V (Kdamond_state S x2) (Kdamond_state K x2)"
    "mimics V (Kdamond_command S x3 x4) (Kdamond_command K x3 x4)"
    "mimics V (Kdamond_pid S x5) (Kdamond_pid K x5)"
    "mimics V (Kdamond_refresh_interval S x6) (Kdamond_refresh_interval K x6)"
    "mimics V (Kdamond_set_refresh_interval S x7 x8) (Kdamond_set_refresh_interval K x7 x8)"
    "mimics V (Kdamond_set_default_refresh_interval_if_present S x9) (Kdamond_set_default_refresh_interval_if_present K x9)"
    "mimics V (Kdamond_context_count S x10) (Kdamond_context_count K x10)"
    "mimics V (Kdamond_set_context_count S x11 x12) (Kdamond_set_context_count K x11 x12)"
    "mimics V (Admin_configuration_snapshot S x13) (Admin_configuration_snapshot K x13)"
    "mimics V (Kdamond_configuration_fingerprint S x14) (Kdamond_configuration_fingerprint K x14)"
    "mimics V (Context_available_operations S x15) (Context_available_operations K x15)"
  unfolding Let_def Admin_open_def Kdamond_state_def Kdamond_command_def Kdamond_pid_def
    Kdamond_refresh_interval_def Kdamond_set_refresh_interval_def
    Kdamond_set_default_refresh_interval_if_present_def Kdamond_context_count_def
    Kdamond_set_context_count_def Admin_configuration_snapshot_def
    Kdamond_configuration_fingerprint_def Context_available_operations_def
  by (intro mimics_rules)+

lemma same_handles_3 [mimics_rules]:
  shows
    "mimics V (Context_available_operations_if_present S x1) (Context_available_operations_if_present K x1)"
    "mimics V (Context_operation S x2) (Context_operation K x2)"
    "mimics V (Context_set_operation S x3 x4) (Context_set_operation K x3 x4)"
    "mimics V (Context_address_unit S x5) (Context_address_unit K x5)"
    "mimics V (Context_set_address_unit S x6 x7) (Context_set_address_unit K x6 x7)"
    "mimics V (Context_pause_control_available S x8) (Context_pause_control_available K x8)"
    "mimics V (Context_intervals S x9) (Context_intervals K x9)"
    "mimics V (Context_set_intervals S x10 x11) (Context_set_intervals K x10 x11)"
    "mimics V (Context_region_bounds S x12) (Context_region_bounds K x12)"
    "mimics V (Context_set_region_bounds S x13 x14) (Context_set_region_bounds K x13 x14)"
    "mimics V (Context_is_paused S x15) (Context_is_paused K x15)"
    "mimics V (Context_set_paused S x16 x17) (Context_set_paused K x16 x17)"
    "mimics V (Context_probe_count S x18) (Context_probe_count K x18)"
    "mimics V (Context_set_probe_count S x19 x20) (Context_set_probe_count K x19 x20)"
    "mimics V (Context_target_count S x21) (Context_target_count K x21)"
    "mimics V (Context_set_target_count S x22 x23) (Context_set_target_count K x22 x23)"
    "mimics V (Context_scheme_count S x24) (Context_scheme_count K x24)"
    "mimics V (Context_set_scheme_count S x25 x26) (Context_set_scheme_count K x25 x26)"
    "mimics V (Target_pid S x27) (Target_pid K x27)"
    "mimics V (Target_set_pid S x28 x29) (Target_set_pid K x28 x29)"
    "mimics V (Target_clear_pid S x30) (Target_clear_pid K x30)"
    "mimics V (Target_is_obsolete S x31) (Target_is_obsolete K x31)"
    "mimics V (Target_set_obsolete S x32 x33) (Target_set_obsolete K x32 x33)"
    "mimics V (Target_initial_region_count S x34) (Target_initial_region_count K x34)"
    "mimics V (Target_set_initial_region_count S x35 x36) (Target_set_initial_region_count K x35 x36)"
    "mimics V (Probe_filter_count S x37) (Probe_filter_count K x37)"
    "mimics V (Probe_set_filter_count S x38 x39) (Probe_set_filter_count K x38 x39)"
    "mimics V (ProbeFilter_filter_type S x40) (ProbeFilter_filter_type K x40)"
    "mimics V (ProbeFilter_set_filter_type S x41 x42) (ProbeFilter_set_filter_type K x41 x42)"
    "mimics V (ProbeFilter_matching S x43) (ProbeFilter_matching K x43)"
    "mimics V (ProbeFilter_set_matching S x44 x45) (ProbeFilter_set_matching K x44 x45)"
    "mimics V (ProbeFilter_allowed S x46) (ProbeFilter_allowed K x46)"
    "mimics V (ProbeFilter_set_allowed S x47 x48) (ProbeFilter_set_allowed K x47 x48)"
    "mimics V (ProbeFilter_cgroup_path S x49) (ProbeFilter_cgroup_path K x49)"
    "mimics V (ProbeFilter_set_cgroup_path S x50 x51) (ProbeFilter_set_cgroup_path K x50 x51)"
    "mimics V (write_kernel_ulong_max S x52) (write_kernel_ulong_max K x52)"
    "mimics V (read_region_size_range S x53) (read_region_size_range K x53)"
    "mimics V (read_access_count_range S x54) (read_access_count_range K x54)"
    "mimics V (read_age_range S x55) (read_age_range K x55)"
    "mimics V (write_region_size_range S x56 x57) (write_region_size_range K x56 x57)"
  unfolding Let_def Context_available_operations_if_present_def Context_operation_def
    Context_set_operation_def Context_address_unit_def Context_set_address_unit_def
    Context_pause_control_available_def Context_intervals_def Context_set_intervals_def
    Context_region_bounds_def Context_set_region_bounds_def Context_is_paused_def
    Context_set_paused_def Context_probe_count_def Context_set_probe_count_def
    Context_target_count_def Context_set_target_count_def Context_scheme_count_def
    Context_set_scheme_count_def Target_pid_def Target_set_pid_def Target_clear_pid_def
    Target_is_obsolete_def Target_set_obsolete_def Target_initial_region_count_def
    Target_set_initial_region_count_def Probe_filter_count_def Probe_set_filter_count_def
    ProbeFilter_filter_type_def ProbeFilter_set_filter_type_def ProbeFilter_matching_def
    ProbeFilter_set_matching_def ProbeFilter_allowed_def ProbeFilter_set_allowed_def
    ProbeFilter_cgroup_path_def ProbeFilter_set_cgroup_path_def write_kernel_ulong_max_def
    read_region_size_range_def read_access_count_range_def read_age_range_def
    write_region_size_range_def
  by (intro mimics_rules)+

lemma same_handles_4 [mimics_rules]:
  shows
    "mimics V (write_access_count_range S x1 x2) (write_access_count_range K x1 x2)"
    "mimics V (write_age_range S x3 x4) (write_age_range K x3 x4)"
    "mimics V (Scheme_access_pattern S x5) (Scheme_access_pattern K x5)"
  unfolding Let_def write_access_count_range_def write_age_range_def Scheme_access_pattern_def
  by (intro mimics_rules)+

lemma same_handles_5 [mimics_rules]:
  shows
    "mimics V (Scheme_set_access_pattern S x1 x2) (Scheme_set_access_pattern K x1 x2)"
    "mimics V (Scheme_set_access_pattern_adaptive S x3 x4) (Scheme_set_access_pattern_adaptive K x3 x4)"
    "mimics V (Scheme_set_match_all S x5) (Scheme_set_match_all K x5)"
    "mimics V (Scheme_set_apply_interval S x6 x7) (Scheme_set_apply_interval K x6 x7)"
    "mimics V (read_probe_result S x8 x9) (read_probe_result K x8 x9)"
  unfolding Let_def Scheme_set_access_pattern_def Scheme_set_access_pattern_adaptive_def
    Scheme_set_match_all_def Scheme_set_apply_interval_def read_probe_result_def
  by (intro mimics_rules)+

lemma same_handles_6 [mimics_rules]:
  shows
    "mimics V (read_probe_results S x1) (read_probe_results K x1)"
  unfolding Let_def read_probe_results_def
  by (intro mimics_rules)+

lemma same_handles_7 [mimics_rules]:
  shows
    "mimics V (read_region S x1) (read_region K x1)"
  unfolding Let_def read_region_def
  by (intro mimics_rules)+

lemma same_regions [mimics_rules]:
  "mimics V (read_regions S base is c rs) (read_regions K base is c rs)"
  by (induction "is" arbitrary: c rs) (auto intro!: mimics_rules)

lemma same_handles_8 [mimics_rules]:
  shows
    "mimics V (Scheme_tried_regions S x1) (Scheme_tried_regions K x1)"
    "mimics V (Scheme_action S x2) (Scheme_action K x2)"
    "mimics V (Scheme_set_action S x3 x4) (Scheme_set_action K x3 x4)"
    "mimics V (Scheme_apply_interval S x5) (Scheme_apply_interval K x5)"
    "mimics V (Scheme_tried_bytes_units S x6) (Scheme_tried_bytes_units K x6)"
  unfolding Let_def Scheme_tried_regions_def Scheme_action_def Scheme_set_action_def
    Scheme_apply_interval_def Scheme_tried_bytes_units_def
  by (intro mimics_rules)+

end

end
