(* ===== verification/Same_Staging.thy ===== *)
theory Same_Staging
  imports Same_Kernel
begin

text \<open>Reading and staging a configuration on two kernels that answer alike.\<close>

lemma mimics_sample_filter_type [mimics_rules]:
  "mimics V a' a \<Longrightarrow> mimics V b' b \<Longrightarrow> mimics V c' c \<Longrightarrow> (\<And>u. mimics V (d' u) (d u)) \<Longrightarrow>
     mimics V (case_sample_filter_type a' b' c' d' x) (case_sample_filter_type a b c d x)"
  by (cases x) simp_all

lemma mimics_probe_filter_type [mimics_rules]:
  "mimics V a' a \<Longrightarrow> mimics V b' b \<Longrightarrow> mimics V c' c \<Longrightarrow> mimics V d' d \<Longrightarrow> (\<And>u. mimics V (e' u) (e u)) \<Longrightarrow>
     mimics V (case_probe_filter_type a' b' c' d' e' x) (case_probe_filter_type a b c d e x)"
  by (cases x) simp_all

lemma mimics_scheme_filter_type [mimics_rules]:
  "mimics V a' a \<Longrightarrow> mimics V b' b \<Longrightarrow> mimics V c' c \<Longrightarrow> mimics V d' d \<Longrightarrow> mimics V e' e \<Longrightarrow> mimics V f' f \<Longrightarrow> mimics V g' g \<Longrightarrow> mimics V h' h \<Longrightarrow> mimics V i' i \<Longrightarrow> (\<And>u. mimics V (j' u) (j u)) \<Longrightarrow>
     mimics V (case_scheme_filter_type a' b' c' d' e' f' g' h' i' j' x) (case_scheme_filter_type a b c d e f g h i j x)"
  by (cases x) simp_all

context same_kernel
begin

lemma same_attributes_1 [mimics_rules]:
  shows
    "mimics V (InitialRegion_start S x1) (InitialRegion_start K x1)"
    "mimics V (InitialRegion_set_start S x2 x3) (InitialRegion_set_start K x2 x3)"
    "mimics V (InitialRegion_end S x4) (InitialRegion_end K x4)"
    "mimics V (InitialRegion_set_end S x5 x6) (InitialRegion_set_end K x5 x6)"
  unfolding Let_def InitialRegion_start_def InitialRegion_set_start_def InitialRegion_end_def
    InitialRegion_set_end_def
  by (intro mimics_rules)+

lemma same_attributes_2 [mimics_rules]:
  shows
    "mimics V (InitialRegion_configuration S x1) (InitialRegion_configuration K x1)"
    "mimics V (InitialRegion_stage_configuration S x2 x3) (InitialRegion_stage_configuration K x2 x3)"
    "mimics V (OperationAttributes_use_reports S x4) (OperationAttributes_use_reports K x4)"
    "mimics V (OperationAttributes_set_use_reports S x5 x6) (OperationAttributes_set_use_reports K x5 x6)"
    "mimics V (OperationAttributes_write_only S x7) (OperationAttributes_write_only K x7)"
    "mimics V (OperationAttributes_set_write_only S x8 x9) (OperationAttributes_set_write_only K x8 x9)"
    "mimics V (OperationAttributes_cpus S x10) (OperationAttributes_cpus K x10)"
    "mimics V (OperationAttributes_set_cpus S x11 x12) (OperationAttributes_set_cpus K x11 x12)"
    "mimics V (OperationAttributes_thread_ids S x13) (OperationAttributes_thread_ids K x13)"
    "mimics V (OperationAttributes_set_thread_ids S x14 x15) (OperationAttributes_set_thread_ids K x14 x15)"
  unfolding Let_def InitialRegion_configuration_def InitialRegion_stage_configuration_def
    OperationAttributes_use_reports_def OperationAttributes_set_use_reports_def
    OperationAttributes_write_only_def OperationAttributes_set_write_only_def
    OperationAttributes_cpus_def OperationAttributes_set_cpus_def
    OperationAttributes_thread_ids_def OperationAttributes_set_thread_ids_def
  by (intro mimics_rules)+

lemma same_attributes_3 [mimics_rules]:
  shows
    "mimics V (OperationAttributes_configuration S x1) (OperationAttributes_configuration K x1)"
    "mimics V (OperationAttributes_stage_configuration S x2 x3) (OperationAttributes_stage_configuration K x2 x3)"
    "mimics V (ProbePreparation_action S x4) (ProbePreparation_action K x4)"
    "mimics V (ProbePreparation_set_action S x5 x6) (ProbePreparation_set_action K x5 x6)"
  unfolding Let_def OperationAttributes_configuration_def
    OperationAttributes_stage_configuration_def ProbePreparation_action_def
    ProbePreparation_set_action_def
  by (intro mimics_rules)+

lemma same_attributes_4 [mimics_rules]:
  shows
    "mimics V (ProbePreparation_configuration S x1) (ProbePreparation_configuration K x1)"
    "mimics V (ProbePreparation_stage_configuration S x2 x3) (ProbePreparation_stage_configuration K x2 x3)"
    "mimics V (SampleFilter_filter_type S x4) (SampleFilter_filter_type K x4)"
    "mimics V (SampleFilter_set_filter_type S x5 x6) (SampleFilter_set_filter_type K x5 x6)"
    "mimics V (SampleFilter_matching S x7) (SampleFilter_matching K x7)"
    "mimics V (SampleFilter_set_matching S x8 x9) (SampleFilter_set_matching K x8 x9)"
    "mimics V (SampleFilter_allowed S x10) (SampleFilter_allowed K x10)"
    "mimics V (SampleFilter_set_allowed S x11 x12) (SampleFilter_set_allowed K x11 x12)"
    "mimics V (SampleFilter_cpu_mask S x13) (SampleFilter_cpu_mask K x13)"
    "mimics V (SampleFilter_set_cpu_mask S x14 x15) (SampleFilter_set_cpu_mask K x14 x15)"
    "mimics V (SampleFilter_thread_ids S x16) (SampleFilter_thread_ids K x16)"
    "mimics V (SampleFilter_set_thread_ids S x17 x18) (SampleFilter_set_thread_ids K x17 x18)"
    "mimics V (SampleControl_page_table_enabled S x19) (SampleControl_page_table_enabled K x19)"
    "mimics V (SampleControl_set_page_table_enabled S x20 x21) (SampleControl_set_page_table_enabled K x20 x21)"
    "mimics V (SampleControl_page_fault_enabled S x22) (SampleControl_page_fault_enabled K x22)"
    "mimics V (SampleControl_set_page_fault_enabled S x23 x24) (SampleControl_set_page_fault_enabled K x23 x24)"
    "mimics V (SampleControl_filter_count S x25) (SampleControl_filter_count K x25)"
    "mimics V (SampleControl_set_filter_count S x26 x27) (SampleControl_set_filter_count K x26 x27)"
  unfolding Let_def ProbePreparation_configuration_def ProbePreparation_stage_configuration_def
    SampleFilter_filter_type_def SampleFilter_set_filter_type_def SampleFilter_matching_def
    SampleFilter_set_matching_def SampleFilter_allowed_def SampleFilter_set_allowed_def
    SampleFilter_cpu_mask_def SampleFilter_set_cpu_mask_def SampleFilter_thread_ids_def
    SampleFilter_set_thread_ids_def SampleControl_page_table_enabled_def
    SampleControl_set_page_table_enabled_def SampleControl_page_fault_enabled_def
    SampleControl_set_page_fault_enabled_def SampleControl_filter_count_def
    SampleControl_set_filter_count_def
  by (intro mimics_rules)+

lemma same_attributes_5 [mimics_rules]:
  shows
    "mimics V (SampleFilter_configuration S x1) (SampleFilter_configuration K x1)"
    "mimics V (SampleFilter_stage_configuration S x2 x3) (SampleFilter_stage_configuration K x2 x3)"
  unfolding Let_def SampleFilter_configuration_def SampleFilter_stage_configuration_def
  by (intro mimics_rules)+

lemma same_attributes_6 [mimics_rules]:
  shows
    "mimics V (SampleControl_configuration S x1) (SampleControl_configuration K x1)"
    "mimics V (SampleControl_stage_configuration S x2 x3) (SampleControl_stage_configuration K x2 x3)"
    "mimics V (QuotaGoal_metric S x4) (QuotaGoal_metric K x4)"
    "mimics V (QuotaGoal_set_metric S x5 x6) (QuotaGoal_set_metric K x5 x6)"
    "mimics V (QuotaGoal_target_value S x7) (QuotaGoal_target_value K x7)"
    "mimics V (QuotaGoal_set_target_value S x8 x9) (QuotaGoal_set_target_value K x8 x9)"
    "mimics V (QuotaGoal_current_value S x10) (QuotaGoal_current_value K x10)"
    "mimics V (QuotaGoal_set_current_value S x11 x12) (QuotaGoal_set_current_value K x11 x12)"
    "mimics V (QuotaGoal_node_id S x13) (QuotaGoal_node_id K x13)"
    "mimics V (QuotaGoal_set_node_id S x14 x15) (QuotaGoal_set_node_id K x14 x15)"
    "mimics V (QuotaGoal_cgroup_path S x16) (QuotaGoal_cgroup_path K x16)"
    "mimics V (QuotaGoal_set_cgroup_path S x17 x18) (QuotaGoal_set_cgroup_path K x17 x18)"
    "mimics V (Quotas_time S x19) (Quotas_time K x19)"
    "mimics V (Quotas_set_time S x20 x21) (Quotas_set_time K x20 x21)"
    "mimics V (Quotas_size_units S x22) (Quotas_size_units K x22)"
    "mimics V (Quotas_set_size_units S x23 x24) (Quotas_set_size_units K x23 x24)"
    "mimics V (Quotas_reset_interval S x25) (Quotas_reset_interval K x25)"
    "mimics V (Quotas_set_reset_interval S x26 x27) (Quotas_set_reset_interval K x26 x27)"
    "mimics V (Quotas_effective_size_units S x28) (Quotas_effective_size_units K x28)"
    "mimics V (Quotas_goal_tuner S x29) (Quotas_goal_tuner K x29)"
    "mimics V (Quotas_set_goal_tuner S x30 x31) (Quotas_set_goal_tuner K x30 x31)"
    "mimics V (Quotas_failure_charge_numerator S x32) (Quotas_failure_charge_numerator K x32)"
    "mimics V (Quotas_set_failure_charge_numerator S x33 x34) (Quotas_set_failure_charge_numerator K x33 x34)"
    "mimics V (Quotas_failure_charge_denominator S x35) (Quotas_failure_charge_denominator K x35)"
    "mimics V (Quotas_set_failure_charge_denominator S x36 x37) (Quotas_set_failure_charge_denominator K x36 x37)"
    "mimics V (Quotas_goal_count S x38) (Quotas_goal_count K x38)"
    "mimics V (Quotas_set_goal_count S x39 x40) (Quotas_set_goal_count K x39 x40)"
  unfolding Let_def SampleControl_configuration_def SampleControl_stage_configuration_def
    QuotaGoal_metric_def QuotaGoal_set_metric_def QuotaGoal_target_value_def
    QuotaGoal_set_target_value_def QuotaGoal_current_value_def QuotaGoal_set_current_value_def
    QuotaGoal_node_id_def QuotaGoal_set_node_id_def QuotaGoal_cgroup_path_def
    QuotaGoal_set_cgroup_path_def Quotas_time_def Quotas_set_time_def Quotas_size_units_def
    Quotas_set_size_units_def Quotas_reset_interval_def Quotas_set_reset_interval_def
    Quotas_effective_size_units_def Quotas_goal_tuner_def Quotas_set_goal_tuner_def
    Quotas_failure_charge_numerator_def Quotas_set_failure_charge_numerator_def
    Quotas_failure_charge_denominator_def Quotas_set_failure_charge_denominator_def
    Quotas_goal_count_def Quotas_set_goal_count_def
  by (intro mimics_rules)+

lemma same_attributes_7 [mimics_rules]:
  shows
    "mimics V (QuotaGoal_configuration S x1) (QuotaGoal_configuration K x1)"
    "mimics V (QuotaGoal_stage_configuration S x2 x3) (QuotaGoal_stage_configuration K x2 x3)"
    "mimics V (Quotas_weights S x4) (Quotas_weights K x4)"
    "mimics V (Quotas_set_weights S x5 x6) (Quotas_set_weights K x5 x6)"
  unfolding Let_def QuotaGoal_configuration_def QuotaGoal_stage_configuration_def
    Quotas_weights_def Quotas_set_weights_def
  by (intro mimics_rules)+

lemma same_attributes_8 [mimics_rules]:
  shows
    "mimics V (Quotas_goal_configurations S x1) (Quotas_goal_configurations K x1)"
  unfolding Let_def Quotas_goal_configurations_def
  by (intro mimics_rules)+

lemma same_attributes_9 [mimics_rules]:
  shows
    "mimics V (Quotas_configuration S x1) (Quotas_configuration K x1)"
    "mimics V (Quotas_stage_goals_from S x2 x3 x4) (Quotas_stage_goals_from K x2 x3 x4)"
  unfolding Let_def Quotas_configuration_def Quotas_stage_goals_from_def
  by (intro mimics_rules)+

lemma same_attributes_10 [mimics_rules]:
  shows
    "mimics V (Quotas_stage_configuration_from S x1 x2 x3) (Quotas_stage_configuration_from K x1 x2 x3)"
    "mimics V (Watermarks_metric S x4) (Watermarks_metric K x4)"
    "mimics V (Watermarks_set_metric S x5 x6) (Watermarks_set_metric K x5 x6)"
    "mimics V (Watermarks_interval S x7) (Watermarks_interval K x7)"
    "mimics V (Watermarks_set_interval S x8 x9) (Watermarks_set_interval K x8 x9)"
    "mimics V (Watermarks_high S x10) (Watermarks_high K x10)"
    "mimics V (Watermarks_set_high S x11 x12) (Watermarks_set_high K x11 x12)"
    "mimics V (Watermarks_middle S x13) (Watermarks_middle K x13)"
    "mimics V (Watermarks_set_middle S x14 x15) (Watermarks_set_middle K x14 x15)"
    "mimics V (Watermarks_low S x16) (Watermarks_low K x16)"
    "mimics V (Watermarks_set_low S x17 x18) (Watermarks_set_low K x17 x18)"
  unfolding Let_def Quotas_stage_configuration_from_def Watermarks_metric_def
    Watermarks_set_metric_def Watermarks_interval_def Watermarks_set_interval_def
    Watermarks_high_def Watermarks_set_high_def Watermarks_middle_def Watermarks_set_middle_def
    Watermarks_low_def Watermarks_set_low_def
  by (intro mimics_rules)+

lemma same_attributes_11 [mimics_rules]:
  shows
    "mimics V (Watermarks_configuration S x1) (Watermarks_configuration K x1)"
    "mimics V (Watermarks_stage_configuration_from S x2 x3 x4) (Watermarks_stage_configuration_from K x2 x3 x4)"
    "mimics V (SchemeFilter_filter_type S x5) (SchemeFilter_filter_type K x5)"
    "mimics V (SchemeFilter_set_filter_type S x6 x7) (SchemeFilter_set_filter_type K x6 x7)"
    "mimics V (SchemeFilter_matching S x8) (SchemeFilter_matching K x8)"
    "mimics V (SchemeFilter_set_matching S x9 x10) (SchemeFilter_set_matching K x9 x10)"
    "mimics V (SchemeFilter_cgroup_path S x11) (SchemeFilter_cgroup_path K x11)"
    "mimics V (SchemeFilter_set_cgroup_path S x12 x13) (SchemeFilter_set_cgroup_path K x12 x13)"
    "mimics V (SchemeFilter_address_start S x14) (SchemeFilter_address_start K x14)"
    "mimics V (SchemeFilter_set_address_start S x15 x16) (SchemeFilter_set_address_start K x15 x16)"
    "mimics V (SchemeFilter_address_end S x17) (SchemeFilter_address_end K x17)"
    "mimics V (SchemeFilter_set_address_end S x18 x19) (SchemeFilter_set_address_end K x18 x19)"
    "mimics V (SchemeFilter_minimum_size_bytes S x20) (SchemeFilter_minimum_size_bytes K x20)"
    "mimics V (SchemeFilter_set_minimum_size_bytes S x21 x22) (SchemeFilter_set_minimum_size_bytes K x21 x22)"
    "mimics V (SchemeFilter_maximum_size_bytes S x23) (SchemeFilter_maximum_size_bytes K x23)"
    "mimics V (SchemeFilter_set_maximum_size_bytes S x24 x25) (SchemeFilter_set_maximum_size_bytes K x24 x25)"
    "mimics V (SchemeFilter_minimum_probe_hits_weighted_sum S x26) (SchemeFilter_minimum_probe_hits_weighted_sum K x26)"
    "mimics V (SchemeFilter_set_minimum_probe_hits_weighted_sum S x27 x28) (SchemeFilter_set_minimum_probe_hits_weighted_sum K x27 x28)"
    "mimics V (SchemeFilter_maximum_probe_hits_weighted_sum S x29) (SchemeFilter_maximum_probe_hits_weighted_sum K x29)"
    "mimics V (SchemeFilter_set_maximum_probe_hits_weighted_sum S x30 x31) (SchemeFilter_set_maximum_probe_hits_weighted_sum K x30 x31)"
    "mimics V (SchemeFilter_set_target_index S x32 x33) (SchemeFilter_set_target_index K x32 x33)"
  unfolding Let_def Watermarks_configuration_def Watermarks_stage_configuration_from_def
    SchemeFilter_filter_type_def SchemeFilter_set_filter_type_def SchemeFilter_matching_def
    SchemeFilter_set_matching_def SchemeFilter_cgroup_path_def SchemeFilter_set_cgroup_path_def
    SchemeFilter_address_start_def SchemeFilter_set_address_start_def SchemeFilter_address_end_def
    SchemeFilter_set_address_end_def SchemeFilter_minimum_size_bytes_def
    SchemeFilter_set_minimum_size_bytes_def SchemeFilter_maximum_size_bytes_def
    SchemeFilter_set_maximum_size_bytes_def SchemeFilter_minimum_probe_hits_weighted_sum_def
    SchemeFilter_set_minimum_probe_hits_weighted_sum_def
    SchemeFilter_maximum_probe_hits_weighted_sum_def
    SchemeFilter_set_maximum_probe_hits_weighted_sum_def SchemeFilter_set_target_index_def
  by (intro mimics_rules)+

lemma same_first_existing [mimics_rules]: "mimics V (first_existing S ps) (first_existing K ps)"
  by (induction ps) (auto intro!: mimics_rules)

lemma same_attributes_12 [mimics_rules]:
  shows
    "mimics V (SchemeFilter_allow_path S x1) (SchemeFilter_allow_path K x1)"
  unfolding Let_def SchemeFilter_allow_path_def
  by (intro mimics_rules)+

lemma same_attributes_13 [mimics_rules]:
  shows
    "mimics V (SchemeFilter_allowed S x1) (SchemeFilter_allowed K x1)"
    "mimics V (SchemeFilter_set_allowed S x2 x3) (SchemeFilter_set_allowed K x2 x3)"
    "mimics V (SchemeFilter_target_index S x4) (SchemeFilter_target_index K x4)"
    "mimics V (SchemeFilter_size_range S x5) (SchemeFilter_size_range K x5)"
  unfolding Let_def SchemeFilter_allowed_def SchemeFilter_set_allowed_def
    SchemeFilter_target_index_def SchemeFilter_size_range_def
  by (intro mimics_rules)+

lemma same_attributes_14 [mimics_rules]:
  shows
    "mimics V (SchemeFilter_configuration S x1) (SchemeFilter_configuration K x1)"
    "mimics V (SchemeFilter_stage_configuration S x2 x3) (SchemeFilter_stage_configuration K x2 x3)"
    "mimics V (Destination_node_id S x4) (Destination_node_id K x4)"
    "mimics V (Destination_set_node_id S x5 x6) (Destination_set_node_id K x5 x6)"
    "mimics V (Destination_weight S x7) (Destination_weight K x7)"
    "mimics V (Destination_set_weight S x8 x9) (Destination_set_weight K x8 x9)"
  unfolding Let_def SchemeFilter_configuration_def SchemeFilter_stage_configuration_def
    Destination_node_id_def Destination_set_node_id_def Destination_weight_def
    Destination_set_weight_def
  by (intro mimics_rules)+

lemma same_attributes_15 [mimics_rules]:
  shows
    "mimics V (Destination_configuration S x1) (Destination_configuration K x1)"
    "mimics V (Destination_stage_configuration S x2 x3) (Destination_stage_configuration K x2 x3)"
  unfolding Let_def Destination_configuration_def Destination_stage_configuration_def
  by (intro mimics_rules)+

lemma same_staging_1 [mimics_rules]:
  shows
    "mimics V (Target_configuration S x1) (Target_configuration K x1)"
    "mimics V (Target_stage_configuration_from S x2 x3 x4) (Target_stage_configuration_from K x2 x3 x4)"
    "mimics V (Probe_weight S x5) (Probe_weight K x5)"
    "mimics V (Probe_set_weight S x6 x7) (Probe_set_weight K x6 x7)"
    "mimics V (Probe_preparation_count S x8) (Probe_preparation_count K x8)"
    "mimics V (Probe_set_preparation_count S x9 x10) (Probe_set_preparation_count K x9 x10)"
    "mimics V (ProbeFilter_configuration S x11) (ProbeFilter_configuration K x11)"
    "mimics V (ProbeFilter_stage_configuration S x12 x13) (ProbeFilter_stage_configuration K x12 x13)"
  unfolding Let_def Target_configuration_def Target_stage_configuration_from_def Probe_weight_def
    Probe_set_weight_def Probe_preparation_count_def Probe_set_preparation_count_def
    ProbeFilter_configuration_def ProbeFilter_stage_configuration_def
  by (intro mimics_rules)+

lemma same_staging_2 [mimics_rules]:
  shows
    "mimics V (Probe_configuration S x1) (Probe_configuration K x1)"
    "mimics V (Probe_stage_configuration_from S x2 x3 x4) (Probe_stage_configuration_from K x2 x3 x4)"
    "mimics V (Scheme_target_node S x5) (Scheme_target_node K x5)"
    "mimics V (Scheme_set_target_node S x6 x7) (Scheme_set_target_node K x6 x7)"
    "mimics V (Scheme_destination_count S x8) (Scheme_destination_count K x8)"
    "mimics V (Scheme_set_destination_count S x9 x10) (Scheme_set_destination_count K x9 x10)"
    "mimics V (Scheme_application_snapshot_limit S x11) (Scheme_application_snapshot_limit K x11)"
    "mimics V (Scheme_set_application_snapshot_limit S x12 x13) (Scheme_set_application_snapshot_limit K x12 x13)"
    "mimics V (Scheme_filter_count S x14 x15) (Scheme_filter_count K x14 x15)"
    "mimics V (Scheme_set_filter_count S x16 x17 x18) (Scheme_set_filter_count K x16 x17 x18)"
    "mimics V (Scheme_stats S x19) (Scheme_stats K x19)"
  unfolding Let_def Probe_configuration_def Probe_stage_configuration_from_def
    Scheme_target_node_def Scheme_set_target_node_def Scheme_destination_count_def
    Scheme_set_destination_count_def Scheme_application_snapshot_limit_def
    Scheme_set_application_snapshot_limit_def Scheme_filter_count_def Scheme_set_filter_count_def
    Scheme_stats_def
  by (intro mimics_rules)+

lemma same_staging_3 [mimics_rules]:
  shows
    "mimics V (Scheme_read_filter_layer S x1 x2) (Scheme_read_filter_layer K x1 x2)"
    "mimics V (Scheme_read_destinations S x3) (Scheme_read_destinations K x3)"
  unfolding Let_def Scheme_read_filter_layer_def Scheme_read_destinations_def
  by (intro mimics_rules)+

lemma same_staging_4 [mimics_rules]:
  shows
    "mimics V (Scheme_configuration S x1) (Scheme_configuration K x1)"
    "mimics V (Scheme_stage_filter_layer S x2 x3 x4) (Scheme_stage_filter_layer K x2 x3 x4)"
  unfolding Let_def Scheme_configuration_def Scheme_stage_filter_layer_def
  by (intro mimics_rules)+

lemma same_staging_5 [mimics_rules]:
  shows
    "mimics V (Scheme_stage_filter_layer_if_present S x1 x2 x3 x4) (Scheme_stage_filter_layer_if_present K x1 x2 x3 x4)"
  unfolding Let_def Scheme_stage_filter_layer_if_present_def
  by (intro mimics_rules)+

lemma same_staging_6 [mimics_rules]:
  shows
    "mimics V (Scheme_stage_semantic_filters S x1 x2) (Scheme_stage_semantic_filters K x1 x2)"
  unfolding Let_def Scheme_stage_semantic_filters_def
  by (intro mimics_rules)+

lemma same_staging_7 [mimics_rules]:
  shows
    "mimics V (Scheme_stage_configuration_from S x1 x2 x3) (Scheme_stage_configuration_from K x1 x2 x3)"
    "mimics V (Context_intervals_goal S x4) (Context_intervals_goal K x4)"
    "mimics V (Context_write_intervals_goal S x5 x6) (Context_write_intervals_goal K x5 x6)"
  unfolding Let_def Scheme_stage_configuration_from_def Context_intervals_goal_def
    Context_write_intervals_goal_def
  by (intro mimics_rules)+

lemma same_staging_8 [mimics_rules]:
  shows
    "mimics V (Context_set_intervals_goal S x1 x2) (Context_set_intervals_goal K x1 x2)"
    "mimics V (Context_configuration S x3) (Context_configuration K x3)"
    "mimics V (Context_stage_scalar_configuration_from S x4 x5 x6) (Context_stage_scalar_configuration_from K x4 x5 x6)"
    "mimics V (Context_stage_child_configuration_from S x7 x8 x9) (Context_stage_child_configuration_from K x7 x8 x9)"
  unfolding Let_def Context_set_intervals_goal_def Context_configuration_def
    Context_stage_scalar_configuration_from_def Context_stage_child_configuration_from_def
  by (intro mimics_rules)+

lemma same_staging_9 [mimics_rules]:
  shows
    "mimics V (Context_stage_validated_configuration_from S x1 x2 x3) (Context_stage_validated_configuration_from K x1 x2 x3)"
  unfolding Let_def Context_stage_validated_configuration_from_def
  by (intro mimics_rules)+

lemma same_staging_10 [mimics_rules]:
  shows
    "mimics V (Context_stage_configuration x1 S x2 x3) (Context_stage_configuration x1 K x2 x3)"
    "mimics V (Kdamond_configuration S x4) (Kdamond_configuration K x4)"
    "mimics V (Kdamond_stage_validated_configuration_from S x5 x6 x7) (Kdamond_stage_validated_configuration_from K x5 x6 x7)"
  unfolding Let_def Context_stage_configuration_def Kdamond_configuration_def
    Kdamond_stage_validated_configuration_from_def
  by (intro mimics_rules)+

lemma same_staging_11 [mimics_rules]:
  shows
    "mimics V (Kdamond_stage_configuration x1 S x2 x3) (Kdamond_stage_configuration x1 K x2 x3)"
    "mimics V (Admin_configuration S x4) (Admin_configuration K x4)"
    "mimics V (Admin_stage_validated_configuration_from S x5 x6 x7) (Admin_stage_validated_configuration_from K x5 x6 x7)"
  unfolding Let_def Kdamond_stage_configuration_def Admin_configuration_def
    Admin_stage_validated_configuration_from_def
  by (intro mimics_rules)+

lemma same_staging_12 [mimics_rules]:
  shows
    "mimics V (Admin_stage_configuration x1 S x2 x3) (Admin_stage_configuration x1 K x2 x3)"
    "mimics V (Admin_observed_configuration S x4) (Admin_observed_configuration K x4)"
  unfolding Let_def Admin_stage_configuration_def Admin_observed_configuration_def
  by (intro mimics_rules)+

end

end
