(* ===== verification/Same_Owner.thy ===== *)
theory Same_Owner
  imports Same_Staging Hierarchy_Update
begin

text \<open>The operations of an owner on two kernels that answer alike.\<close>

section \<open>Stateful computations that agree\<close>

lemma mimics_stateful [mimics_rules]:
  "mimics V (mret x s) (mret x s)" "mimics V (mfail e s) (mfail e s)"
  "mimics V (mset_state i st o1) (mset_state i st o1)" "mimics V (mset_staged so o2) (mset_staged so o2)"
  "mimics V (mset_owns b o3) (mset_owns b o3)"
  by (simp_all add: mret_def mfail_def mset_state_def mset_staged_def mset_owns_def mimics_rules)

lemma mimics_mread [mimics_rules]: "mimics V (c' s) (c s) \<Longrightarrow> mimics V (mread c' s) (mread c s)"
  unfolding mread_def by (intro mimics_rules)

lemma mimics_mcatch [mimics_rules]:
  "mimics V (m' s) (m s) \<Longrightarrow> (\<And>r s. mimics V (f' r s) (f r s)) \<Longrightarrow> mimics V (mcatch m' f' s) (mcatch m f s)"
  unfolding mcatch_def by (intro mimics_rules) simp_all

lemma mimics_applied_cases [mimics_rules]:
  "mimics V (m' s) (m s) \<Longrightarrow> mimics V (n' s) (n s) \<Longrightarrow>
     mimics V ((if b then m' else n') s) ((if b then m else n) s)"
  "mimics V (m' s) (m s) \<Longrightarrow> (\<And>y. mimics V (f' y s) (f y s)) \<Longrightarrow>
     mimics V ((case x of None \<Rightarrow> m' | Some y \<Rightarrow> f' y) s) ((case x of None \<Rightarrow> m | Some y \<Rightarrow> f y) s)"
  "(\<And>e. mimics V (g' e s) (g e s)) \<Longrightarrow> (\<And>y. mimics V (h' y s) (h y s)) \<Longrightarrow>
     mimics V ((case r of Inl e \<Rightarrow> g' e | Inr y \<Rightarrow> h' y) s) ((case r of Inl e \<Rightarrow> g e | Inr y \<Rightarrow> h y) s)"
  "(\<And>a b. mimics V (k' a b s) (k a b s)) \<Longrightarrow>
     mimics V ((case q of (a, b) \<Rightarrow> k' a b) s) ((case q of (a, b) \<Rightarrow> k a b) s)"
  by (simp_all split: option.split sum.split prod.split)

lemma mimics_mbind [mimics_rules]:
  "mimics V (m' s) (m s) \<Longrightarrow> (\<And>x s. mimics V (f' x s) (f x s)) \<Longrightarrow> mimics V (mbind m' f' s) (mbind m f s)"
  unfolding mbind_def by (intro mimics_rules)

lemma mimics_states [mimics_rules]:
  "mimics V a' a \<Longrightarrow> mimics V b' b \<Longrightarrow> (\<And>u. mimics V (c' u) (c u)) \<Longrightarrow>
     mimics V (case_kdamond_state a' b' c' x) (case_kdamond_state a b c x)"
  "mimics V (f' s) (f s) \<Longrightarrow> mimics V (g' s) (g s) \<Longrightarrow> (\<And>u. mimics V (h' u s) (h u s)) \<Longrightarrow>
     mimics V (case_kdamond_state f' g' h' x s) (case_kdamond_state f g h x s)"
  "mimics V d' d \<Longrightarrow> (\<And>p. mimics V (e' p) (e p)) \<Longrightarrow> mimics V i' i \<Longrightarrow>
     mimics V (case_session_state d' e' i' y) (case_session_state d e i y)"
  "mimics V (j' s) (j s) \<Longrightarrow> (\<And>p. mimics V (k' p s) (k p s)) \<Longrightarrow> mimics V (l' s) (l s) \<Longrightarrow>
     mimics V (case_session_state j' k' l' y s) (case_session_state j k l y s)"
  by (cases x; cases y; simp)+

lemma mimics_transaction [mimics_rules]:
  "mimics V r' r \<Longrightarrow> mimics V (roll_back r' e s) (roll_back r e s)"
  "mimics V (o' s) (oper s) \<Longrightarrow> (\<And>ws. mimics V (b' ws s) (b ws s)) \<Longrightarrow>
     mimics V (journalled_transaction o' b' s) (journalled_transaction oper b s)"
proof -
  show undo: "mimics V (roll_back r' e s) (roll_back r e s)" if "mimics V r' r" for r' r e
    unfolding roll_back_def by (intro mimics_rules that)
  show "mimics V (journalled_transaction o' b' s) (journalled_transaction oper b s)"
    if "mimics V (o' s) (oper s)" "\<And>ws. mimics V (b' ws s) (b ws s)" for oper and b
    unfolding journalled_transaction_def by (intro mimics_rules undo that)
qed

context same_kernel
begin

section \<open>Retries\<close>

lemma same_sleep [mimics_rules]: "mimics V (thread_sleep S d) (thread_sleep K d)"
  by (simp add: mimics_def thread_sleep_def sleep)

lemma same_retry_from: "mimics V m' m \<Longrightarrow> mimics V (retry_from S m' n) (retry_from K m n)"
proof (induction "MAX_RETRIES - n" arbitrary: n rule: less_induct)
  case less
  then have "mimics V (retry_from S m' (Suc n)) (retry_from K m (Suc n))" if "n < MAX_RETRIES"
    using that by simp
  then show ?case
    unfolding retry_from.simps [of S m' n] retry_from.simps [of K m n]
    using less.prems by (cases "n < MAX_RETRIES") (simp_all, (intro mimics_rules; assumption?)+)
qed

lemma same_retry [mimics_rules]: "mimics V m' m \<Longrightarrow> mimics V (retry_busy S m') (retry_busy K m)"
  unfolding retry_busy_def by (rule same_retry_from)

lemma same_ensure_stopped [mimics_rules]:
  "mimics V (ensure_stopped_from S admin is) (ensure_stopped_from K admin is)"
  by (induction "is") (auto intro!: mimics_rules)

lemma same_ownership_1 [mimics_rules]:
  shows
    "mimics V (ensure_hierarchy_stopped S x1) (ensure_hierarchy_stopped K x1)"
  unfolding Let_def ensure_hierarchy_stopped_def
  by (intro mimics_rules)+

lemma same_ownership_2 [mimics_rules]:
  shows
    "mimics V (stage_and_verify_configuration S x1 x2 x3) (stage_and_verify_configuration K x1 x2 x3)"
    "mimics V (restore_configuration S x4 x5) (restore_configuration K x4 x5)"
  unfolding Let_def stage_and_verify_configuration_def restore_configuration_def
  by (intro mimics_rules)+

lemma same_ownership_3 [mimics_rules]:
  shows
    "mimics V (restore_after_capability_probe S x1 x2 x3 x4) (restore_after_capability_probe K x1 x2 x3 x4)"
    "mimics V (verify_count S x5 x6) (verify_count K x5 x6)"
  unfolding Let_def restore_after_capability_probe_def verify_count_def
  by (intro mimics_rules)+

lemma same_ownership_4 [mimics_rules]:
  shows
    "mimics V (verify_staged S x1 x2) (verify_staged K x1 x2)"
    "mimics V (verify_complete S x3 x4) (verify_complete K x3 x4)"
    "mimics V (verify_kdamond_configuration S x5 x6 x7) (verify_kdamond_configuration K x5 x6 x7)"
    "mimics V (running_thread_pid S x8) (running_thread_pid K x8)"
  unfolding Let_def verify_staged_def verify_complete_def verify_kdamond_configuration_def
    running_thread_pid_def
  by (intro mimics_rules)+

lemma same_hierarchy_1 [mimics_rules]:
  shows
    "mimics V (current_pid S x1) (current_pid K x1)"
  unfolding Let_def current_pid_def
  by (intro mimics_rules)+

lemma same_hierarchy_2 [mimics_rules]:
  shows
    "mimics V (verify_running_identity_with S x1 x2 x3) (verify_running_identity_with K x1 x2 x3)"
  unfolding Let_def verify_running_identity_with_def
  by (intro mimics_rules)+

lemma same_hierarchy_3 [mimics_rules]:
  shows
    "mimics V (verify_running_identity_only S x1 x2) (verify_running_identity_only K x1 x2)"
  unfolding Let_def verify_running_identity_only_def
  by (intro mimics_rules)+

lemma same_hierarchy_4 [mimics_rules]:
  shows
    "mimics V (verify_running_identity S x1 x2) (verify_running_identity K x1 x2)"
    "mimics V (verify_running_identity_without_count S x3 x4) (verify_running_identity_without_count K x3 x4)"
    "mimics V (verify_running_state_and_identity_without_count S x5 x6) (verify_running_state_and_identity_without_count K x5 x6)"
  unfolding Let_def verify_running_identity_def verify_running_identity_without_count_def
    verify_running_state_and_identity_without_count_def
  by (intro mimics_rules)+

lemma same_hierarchy_5 [mimics_rules]:
  shows
    "mimics V (verify_running S x1 x2) (verify_running K x1 x2)"
    "mimics V (verify_off S x3 x4) (verify_off K x3 x4)"
  unfolding Let_def verify_running_def verify_off_def
  by (intro mimics_rules)+

lemma same_hierarchy_6 [mimics_rules]:
  shows
    "mimics V (verify_owned_one S x1 x2) (verify_owned_one K x1 x2)"
  unfolding Let_def verify_owned_one_def
  by (intro mimics_rules)+

lemma same_hierarchy_7 [mimics_rules]:
  shows
    "mimics V (verify_owned_state S x1) (verify_owned_state K x1)"
    "mimics V (verify_identity_one S x2 x3) (verify_identity_one K x2 x3)"
  unfolding Let_def verify_owned_state_def verify_identity_one_def
  by (intro mimics_rules)+

lemma same_hierarchy_8 [mimics_rules]:
  shows
    "mimics V (verify_owned_identities_only S x1) (verify_owned_identities_only K x1)"
    "mimics V (command_after_ownership_check S x2 x3 x4) (command_after_ownership_check K x2 x3 x4)"
    "mimics V (ManagedHierarchy_new S x5 x6 x7) (ManagedHierarchy_new K x5 x6 x7)"
  unfolding Let_def verify_owned_identities_only_def command_after_ownership_check_def
    ManagedHierarchy_new_def
  by (intro mimics_rules)+

lemma same_batches [mimics_rules]:
  "(\<And>s. mimics V (o' s) (oper s)) \<Longrightarrow>
     mimics V (Hierarchy_runtime_batch S o' s) (Hierarchy_runtime_batch K oper s)"
  "mimics V m' m \<Longrightarrow> mimics V (Hierarchy_read_batch S s m') (Hierarchy_read_batch K s m)"
  unfolding Hierarchy_runtime_batch_def Hierarchy_read_batch_def by (intro mimics_rules; assumption)+

lemma same_hierarchy_9 [mimics_rules]:
  shows
    "mimics V (Hierarchy_is_running S x1 x2) (Hierarchy_is_running K x1 x2)"
    "mimics V (Hierarchy_configuration S x3) (Hierarchy_configuration K x3)"
    "mimics V (Hierarchy_observed_configuration S x4) (Hierarchy_observed_configuration K x4)"
    "mimics V (Hierarchy_scheme S x5 x6 x7 x8) (Hierarchy_scheme K x5 x6 x7 x8)"
    "mimics V (start_one S x9 s) (start_one K x9 s)"
    "mimics V (read_state S x10 s) (read_state K x10 s)"
  unfolding Let_def Hierarchy_is_running_def Hierarchy_configuration_def
    Hierarchy_observed_configuration_def Hierarchy_scheme_def start_one_def read_state_def
  by (intro mimics_rules)+

lemma same_hierarchy_10 [mimics_rules]:
  shows
    "mimics V (stop_running S x1 x2 s) (stop_running K x1 x2 s)"
  unfolding Let_def stop_running_def
  by (intro mimics_rules)+

lemma same_hierarchy_11 [mimics_rules]:
  shows
    "mimics V (stop_in_state S x1 x2 s) (stop_in_state K x1 x2 s)"
  unfolding Let_def stop_in_state_def
  by (intro mimics_rules)+

lemma same_hierarchy_12 [mimics_rules]:
  shows
    "mimics V (stop_one S x1 s) (stop_one K x1 s)"
  unfolding Let_def stop_one_def
  by (intro mimics_rules)+

lemma same_rollback [mimics_rules]:
  "mimics V (rollback_from S is e s) (rollback_from K is e s)"
  by (induction "is" arbitrary: e s) (auto intro!: mimics_rules)

lemma same_hierarchy_13 [mimics_rules]:
  shows
    "mimics V (rollback_started S s) (rollback_started K s)"
  unfolding Let_def rollback_started_def
  by (intro mimics_rules)+

lemma same_hierarchy_14 [mimics_rules]:
  shows
    "mimics V (fail_with_rollback S x1 s) (fail_with_rollback K x1 s)"
  unfolding Let_def fail_with_rollback_def
  by (intro mimics_rules)+

lemma same_start [mimics_rules]:
  "mimics V (start_from S is s) (start_from K is s)"
  by (induction "is" arbitrary: s) (auto intro!: mimics_rules)

lemma same_hierarchy_15 [mimics_rules]:
  shows
    "mimics V (start_all S s) (start_all K s)"
  unfolding Let_def start_all_def
  by (intro mimics_rules)+

lemma same_stop [mimics_rules]:
  "mimics V (stop_from S is e s) (stop_from K is e s)"
  by (induction "is" arbitrary: e s) (auto intro!: mimics_rules)

lemma same_hierarchy_16 [mimics_rules]:
  shows
    "mimics V (stop_all S s) (stop_all K s)"
  unfolding Let_def stop_all_def
  by (intro mimics_rules)+

lemma same_hierarchy_17 [mimics_rules]:
  shows
    "mimics V (close_inner S s) (close_inner K s)"
  unfolding Let_def close_inner_def
  by (intro mimics_rules)+

lemma same_hierarchy_18 [mimics_rules]:
  shows
    "mimics V (Hierarchy_drop S x1) (Hierarchy_drop K x1)"
    "mimics V (attach_persistent S x2 x3 x4) (attach_persistent K x2 x3 x4)"
    "mimics V (persistent_parts_of S x5) (persistent_parts_of K x5)"
  unfolding Let_def Hierarchy_drop_def attach_persistent_def persistent_parts_of_def
  by (intro mimics_rules)+

lemma same_hierarchy_update_1 [mimics_rules]:
  shows
    "mimics V (commit_one S x1 x2 x3) (commit_one K x1 x2 x3)"
    "mimics V (stage_running S x4 x5 x6 x7) (stage_running K x4 x5 x6 x7)"
  unfolding Let_def commit_one_def stage_running_def
  by (intro mimics_rules)+

lemma same_hierarchy_update_2 [mimics_rules]:
  shows
    "mimics V (stage_and_commit_running S x1 x2 x3 x4) (stage_and_commit_running K x1 x2 x3 x4)"
    "mimics V (unchanged_goals_match S x5 x6 x7 x8) (unchanged_goals_match K x5 x6 x7 x8)"
  unfolding Let_def stage_and_commit_running_def unchanged_goals_match_def
  by (intro mimics_rules)+

lemma same_hierarchy_update_3 [mimics_rules]:
  shows
    "mimics V (stage_and_commit_quota_goals S x1 x2 x3 x4 x5) (stage_and_commit_quota_goals K x1 x2 x3 x4 x5)"
    "mimics V (restore_written S x6 x7 x8) (restore_written K x6 x7 x8)"
    "mimics V (unchanged_except_volatile S x9 x10 x11) (unchanged_except_volatile K x9 x10 x11)"
  unfolding Let_def stage_and_commit_quota_goals_def restore_written_def
    unchanged_except_volatile_def
  by (intro mimics_rules)+

lemma same_hierarchy_update_4 [mimics_rules]:
  shows
    "mimics V (restore_written_and_commit_running S x1 x2 x3 x4) (restore_written_and_commit_running K x1 x2 x3 x4)"
    "mimics V (restore_written_and_commit_quota_goals S x5 x6 x7 x8) (restore_written_and_commit_quota_goals K x5 x6 x7 x8)"
    "mimics V (verify_rollback_boundary S x9 x10 x11) (verify_rollback_boundary K x9 x10 x11)"
  unfolding Let_def restore_written_and_commit_running_def
    restore_written_and_commit_quota_goals_def verify_rollback_boundary_def
  by (intro mimics_rules)+

lemma same_hierarchy_update_5 [mimics_rules]:
  shows
    "mimics V (restore_and_commit_running S x1 x2 x3 x4 x5) (restore_and_commit_running K x1 x2 x3 x4 x5)"
    "mimics V (restore_and_commit_quota_goals S x6 x7 x8 x9) (restore_and_commit_quota_goals K x6 x7 x8 x9)"
    "mimics V (capture_rollback_state S x10) (capture_rollback_state K x10)"
  unfolding Let_def restore_and_commit_running_def restore_and_commit_quota_goals_def
    capture_rollback_state_def
  by (intro mimics_rules)+

lemma same_hierarchy_update_6 [mimics_rules]:
  shows
    "mimics V (update_configuration S x1 x2 x3 s) (update_configuration K x1 x2 x3 s)"
    "mimics V (capture_quota S x4 x5 x6 x7) (capture_quota K x4 x5 x6 x7)"
  unfolding Let_def update_configuration_def capture_quota_def
  by (intro mimics_rules)+

lemma same_hierarchy_update_7 [mimics_rules]:
  shows
    "mimics V (update_scheme_quota_goals S x1 x2 x3 x4 s) (update_scheme_quota_goals K x1 x2 x3 x4 s)"
    "mimics V (capture_staged S x5) (capture_staged K x5)"
    "mimics V (stage_replacement S x6 x7 x8) (stage_replacement K x6 x7 x8)"
  unfolding Let_def update_scheme_quota_goals_def capture_staged_def stage_replacement_def
  by (intro mimics_rules)+

lemma same_hierarchy_update_8 [mimics_rules]:
  shows
    "mimics V (replace_staged_configuration S x1 x2 s) (replace_staged_configuration K x1 x2 s)"
  unfolding Let_def replace_staged_configuration_def
  by (intro mimics_rules)+

end

end
