(* ===== verification/Sourced_Kernel.thy ===== *)
theory Sourced_Kernel
  imports Same_Owner
begin

text \<open>
  A kernel kept as the list of the calls made on it. It answers each call as the kernel does after
  the calls in the list, so a computation cannot tell the two apart. What a computation is known to
  emit against every kernel thus tells what it does to this one: an invariant that every emitted
  call keeps holds in the end.
\<close>

fun effect :: "'k sysfs \<Rightarrow> event \<Rightarrow> 'k \<Rightarrow> 'k" where
  "effect K (EvExists p) k = snd (sys_exists K p k)"
| "effect K (EvMetadata p) k = snd (sys_metadata K p k)"
| "effect K (EvReadDir p) k = snd (sys_read_dir K p k)"
| "effect K (EvOpenRead p) k = snd (sys_open_read K p k)"
| "effect K (EvOpenWrite p) k = snd (sys_open_write K p k)"
| "effect K (EvWrite p v) k = snd (sys_write K p v k)"
| "effect K (EvSleep d) k = sys_sleep K d k"

definition after_calls :: "'k sysfs \<Rightarrow> 'k \<Rightarrow> event list \<Rightarrow> 'k" where
  "after_calls K k0 evs = fold (effect K) evs k0"

definition recalled :: "'k sysfs \<Rightarrow> 'k \<Rightarrow> ('k \<Rightarrow> 'a \<times> 'k) \<Rightarrow> 'l \<times> event list \<Rightarrow> 'a \<times> ('l \<times> event list)" where
  "recalled K k0 f l = (fst (f (after_calls K k0 (snd l))), l)"

definition sourced :: "'k sysfs \<Rightarrow> 'k \<Rightarrow> (unit \<times> event list) sysfs" where
  "sourced K k0 =
     \<lparr>sys_exists = (\<lambda>p. recalled K k0 (sys_exists K p)), sys_metadata = (\<lambda>p. recalled K k0 (sys_metadata K p)),
      sys_read_dir = (\<lambda>p. recalled K k0 (sys_read_dir K p)),
      sys_open_read = (\<lambda>p. recalled K k0 (sys_open_read K p)),
      sys_open_write = (\<lambda>p. recalled K k0 (sys_open_write K p)),
      sys_write = (\<lambda>p v. recalled K k0 (sys_write K p v)),
      sys_sleep = (\<lambda>d l. l), sys_fuel = sys_fuel K\<rparr>"

lemma after_calls_append: "after_calls K k0 (evs @ evs') = after_calls K (after_calls K k0 evs) evs'"
  by (simp add: after_calls_def)

lemma recalled_same:
  "snd (f (after_calls K k0 (snd l))) = effect K ev (after_calls K k0 (snd l)) \<Longrightarrow>
     f (after_calls K k0 (snd l))
       = map_prod id (\<lambda>l. after_calls K k0 (snd l)) (logging ev (recalled K k0 f) l)"
  by (simp add: logging_def recalled_def after_calls_def prod_eq_iff)

interpretation sourced: same_kernel "traced (sourced K k0)" K "\<lambda>l. after_calls K k0 (snd l)" for K k0
proof
  show "sys_sleep K d (after_calls K k0 (snd l)) = after_calls K k0 (snd (sys_sleep (traced (sourced K k0)) d l))"
    for d l by (simp add: traced_def after_calls_def)
qed (unfold traced_sels, simp_all add: sourced_def recalled_same)

text \<open>What every emitted call keeps holds in the end.\<close>

lemma emits_keeps:
  assumes "emits P m" and "\<And>ev k. P ev \<Longrightarrow> J k \<Longrightarrow> J (effect K ev k)"
    and "J (after_calls K k0 (trace w))"
  shows "J (after_calls K k0 (trace (snd (m w))))"
proof -
  obtain evs where "trace (snd (m w)) = trace w @ evs" "\<forall>ev\<in>set evs. P ev"
    using assms(1) by (auto simp: emits_def)
  moreover have "J (after_calls K k evs)" if "J k" "\<forall>ev\<in>set evs. P ev" for k evs
    using that
  proof (induction evs arbitrary: k)
    case (Cons ev evs)
    then show ?case using assms(2) [of ev k] by (simp add: after_calls_def)
  qed (simp add: after_calls_def)
  ultimately show ?thesis using assms(3) by (simp add: after_calls_append)
qed

lemma emitted_calls_keep:
  fixes m' :: "(unit \<times> event list, 'a) comp"
  assumes same: "mimics (\<lambda>l. after_calls K (w_kernel w) (snd l)) m' m" and "emits P m'"
    and "\<And>ev k. P ev \<Longrightarrow> J k \<Longrightarrow> J (effect K ev k)" and "J (w_kernel w)"
  shows "J (w_kernel (snd (m w)))"
proof -
  let ?V = "\<lambda>l. after_calls K (w_kernel w) (snd l)"
  let ?w = "\<lparr>w_kernel = ((), [] :: event list), w_journal = w_journal w\<rparr>"
  have "viewed ?V ?w = w" by (simp add: viewed_def after_calls_def)
  with mimicsD [OF same, of ?w] have "w_kernel (snd (m w)) = after_calls K (w_kernel w) (trace (snd (m' ?w)))"
    by (simp add: trace_def)
  moreover have "J (after_calls K (w_kernel w) (trace ?w))"
    using assms(4) by (simp add: trace_def after_calls_def)
  ultimately show ?thesis using emits_keeps [OF assms(2), of J K "w_kernel w" ?w] assms(3) by simp
qed

end
