(* ===== verification/Backend_Frame.thy ===== *)
theory Backend_Frame
  imports Backend_View Sourced_Kernel
begin

text \<open>
  What calls that command nothing leave of a model: whatever is read, and whatever is written to
  attributes, no hook appears and what the running kdamonds use is kept or, when the kdamonds are
  recreated, discarded.
\<close>

section \<open>Steps that stage\<close>

definition stages :: "backend \<Rightarrow> backend \<Rightarrow> bool" where
  "stages st st' \<longleftrightarrow> be_hooks st' = be_hooks st \<and> (be_active st' = be_active st \<or> be_active st' = None)"

interpretation staging: step_order stages
  by unfold_locales (auto simp: stages_def)

lemma stages_fields [simp]:
  "stages st (made es st)" "stages st (State_file p v st)" "stages st (retain_nodes keep st)"
  "stages st (st\<lparr>be_active := None\<rparr>)" "stages st (st\<lparr>be_failures := fs\<rparr>)"
  "stages st (st\<lparr>be_reads := m\<rparr>)" "stages st (st\<lparr>be_writes := n\<rparr>)"
  by (simp_all add: stages_def made_def State_file_def retain_nodes_def)

lemma stages_create [simp]:
  "stages st (create_kdamond i st)" "stages st (create_context d i st)" "stages st (create_target d i st)"
  "stages st (create_target_region d i st)" "stages st (create_scheme d i st)" "stages st (create_probe d i st)"
  "stages st (create_probe_preparation d i st)" "stages st (create_quota_goal d i st)"
  "stages st (create_destination d i st)" "stages st (create_filter t d i st)"
  by (simp_all add: create_kdamond_def create_context_def create_target_def create_target_region_def
      create_scheme_def create_probe_def create_probe_preparation_def create_quota_goal_def
      create_destination_def create_filter_def create_sample_filter_def create_probe_filter_def
      create_scheme_filter_def Let_def)

lemma stages_restore: "stages st (restore_extension_files st)"
  unfolding restore_extension_files_def
  by (rule staging.folds) (auto simp: restore_extension_file_def staging.refl split: option.splits)

lemma stages_children:
  assumes "\<And>i st. stages st (create i st)"
  shows "stages st (rebuild_children d n create st)"
  unfolding rebuild_children_def remove_indexed_children_def
  by (rule staging.trans [OF _ stages_restore], rule staging.trans [OF _ staging.folds]) (simp_all add: assms)

lemma stages_below:
  assumes "\<And>d i st. stages st (create d i st)"
  shows "within stages (rebuild_below p n create)"
  unfolding rebuild_below_def
  by (auto split: option.split intro!: staging.rules stages_children assms)

lemma stages_kdamonds: "within stages (rebuild_kdamonds n)"
proof -
  have "stages st (restore_extension_files (fold create_kdamond [0..<n]
      ((remove_indexed_children (sub [] [''kdamonds'']) st)\<lparr>be_active := None\<rparr>)))" for st
    unfolding remove_indexed_children_def
    by (rule staging.trans [OF _ stages_restore], rule staging.trans [OF _ staging.folds],
        rule staging.trans [OF stages_fields(3) stages_fields(4)]) simp
  then show ?thesis by (simp add: within_def rebuild_kdamonds_def staging.refl)
qed

lemma within_weaken: "within (\<lambda>st st'. st' = st) m \<Longrightarrow> within stages m"
  unfolding within_def by (metis staging.refl)

lemma stages_write:
  assumes "file_name p \<noteq> Some ''state''"
  shows "within stages (State_write p v)"
proof -
  have failure: "within stages (take_failure p)"
    by (simp add: within_def take_failure_def staging.refl split: option.split)
  have count: "within stages (reconstruct_count p n)" for n
    unfolding reconstruct_count_def Let_def
    by (intro staging.branch stages_below stages_kdamonds staging.rules stages_create)
  have "within stages (write_attribute p v)"
    unfolding write_attribute_def by (intro staging.rules count) simp_all
  then show ?thesis
    unfolding State_write_def using assms
    by (auto intro!: staging.bind failure within_weaken [OF checks_pure(3)] within_weaken [OF checks_pure(2)])
qed

section \<open>A model that nobody else touches\<close>

text \<open>
  The model \<open>r\<close> is found below its root \<open>admin\<close>, its invariant holds, no hook waits, and \<open>R\<close> relates
  the state \<open>st0\<close> it had to the state it has.
\<close>

definition model_at :: "path \<Rightarrow> nat \<Rightarrow> backends \<Rightarrow> bool" where
  "model_at admin r bs \<longleftrightarrow> (\<forall>names. fst (resolve (admin @ map Normal names) bs) = Some (r, map Normal names))"

definition settled :: "backend \<Rightarrow> bool" where
  "settled st \<longleftrightarrow> sound st \<and> be_hooks st = []"

definition moved :: "(backend \<Rightarrow> backend \<Rightarrow> bool) \<Rightarrow> path \<Rightarrow> nat \<Rightarrow> backend \<Rightarrow> backends \<times> 'h \<Rightarrow> bool" where
  "moved R admin r st0 k \<longleftrightarrow>
     model_at admin r (fst k) \<and> (\<exists>st. bs_states (fst k) r = Some st \<and> settled st \<and> R st0 st)"

lemma live_after_call: "live_entries (snd (backend_call p f bs)) = live_entries bs"
  by (auto simp: backend_call_def resolve_def Let_def live_entries_def intro!: filter_cong
      split: option.splits prod.splits)

lemma model_at_call: "model_at admin r bs \<Longrightarrow> model_at admin r (snd (backend_call p f bs))"
  by (simp add: model_at_def resolve_def Let_def live_after_call)

lemma moved_call:
  assumes k: "moved R admin r st0 k"
    and f: "\<And>q st. fst (resolve p (fst k)) = Some (r, q) \<Longrightarrow> settled st \<Longrightarrow> R st0 st \<Longrightarrow>
      settled (snd (f q st)) \<and> R st0 (snd (f q st))"
  shows "moved R admin r st0 (snd (served p f k))"
proof -
  obtain st where st: "bs_states (fst k) r = Some st" "settled st" "R st0 st"
    using k by (auto simp: moved_def)
  let ?bs = "snd (backend_call p f (fst k))"
  have "\<exists>st'. bs_states ?bs r = Some st' \<and> settled st' \<and> R st0 st'"
  proof (cases "resolve p (fst k)")
    case (Pair found bs')
    then have states: "bs_states bs' = bs_states (fst k)" using resolve_states [of p "fst k"] by simp
    show ?thesis
    proof (cases "\<exists>q. found = Some (r, q)")
      case True
      then obtain q where q: "found = Some (r, q)" by blast
      obtain x st' where run: "f q st = (x, st')" by (cases "f q st")
      have "settled st'" "R st0 st'"
        using f [of q st] Pair q run st(2,3) by simp_all
      with st Pair q states run show ?thesis by (auto simp: backend_call_def)
    next
      case False
      with st Pair states show ?thesis
        by (auto simp: backend_call_def split: option.splits prod.splits)
    qed
  qed
  then show ?thesis
    using k model_at_call [of admin r "fst k" p f]
    by (cases "backend_call p f (fst k)") (auto simp: moved_def served_def)
qed

lemma moved_pure: "moved R admin r st0 k \<Longrightarrow> (\<And>q st. snd (f q st) = st) \<Longrightarrow> moved R admin r st0 (snd (served p f k))"
  by (erule moved_call) simp

lemma read_state_of: "settled st \<Longrightarrow> snd (B_read p st) = st\<lparr>be_reads := Suc (be_reads st)\<rparr>"
  by (simp add: settled_def B_read_def bbind_def bret_def apply_hooks_def)

lemma settled_read:
  assumes "settled st"
  shows "settled (snd (B_read p st))"
proof -
  have "sound (snd (B_read p st))"
    using assms sound_B_read [of p] by (simp only: settled_def within_def)
  then show ?thesis
    using assms read_state_of [OF assms, of p] by (simp add: settled_def)
qed

lemma B_write_state:
  assumes "be_hooks (snd (State_write p v st)) = []"
  shows "\<exists>n. snd (B_write p v st) = (snd (State_write p v st))\<lparr>be_writes := n\<rparr>"
proof (cases "State_write p v st")
  case (Pair x st')
  show ?thesis
  proof (cases x)
    case (Inl f)
    with Pair have "snd (B_write p v st) = st'" by (simp add: B_write_def bbind_def)
    with Pair show ?thesis by (intro exI [of _ "be_writes st'"]) simp
  next
    case (Inr u)
    with Pair assms show ?thesis
      by (intro exI [of _ "Suc (be_writes st')"]) (simp add: B_write_def bbind_def bmodify_def apply_hooks_def)
  qed
qed

text \<open>A call keeps a relation when a write to the model does; reads and counters are nothing to it.\<close>

lemma moved_effect:
  assumes k: "moved R admin r st0 k"
    and counters: "\<And>st n. R st0 st \<Longrightarrow> R st0 (st\<lparr>be_reads := n\<rparr>)" "\<And>st n. R st0 st \<Longrightarrow> R st0 (st\<lparr>be_writes := n\<rparr>)"
    and writes: "\<And>p v q st. ev = EvWrite p v \<Longrightarrow> fst (resolve p (fst k)) = Some (r, q) \<Longrightarrow> settled st \<Longrightarrow>
      R st0 st \<Longrightarrow> be_hooks (snd (State_write q v st)) = [] \<and> R st0 (snd (State_write q v st))"
  shows "moved R admin r st0 (effect (model_sysfs n) ev k)"
proof -
  have reading: "moved R admin r st0 (snd (served p B_read k))" for p
    by (rule moved_call [where R = R, OF k])
      (use settled_read counters(1) in \<open>simp add: read_state_of\<close>)
  have writing: "moved R admin r st0 (snd (served p (\<lambda>q. B_write q v) k))" if "ev = EvWrite p v" for p v
  proof (rule moved_call [where R = R, OF k])
    fix q st assume q: "fst (resolve p (fst k)) = Some (r, q)" and st: "settled st" "R st0 st"
    have after: "be_hooks (snd (State_write q v st)) = []" "R st0 (snd (State_write q v st))"
      using writes [OF that q st] by auto
    obtain m where m: "snd (B_write q v st) = (snd (State_write q v st))\<lparr>be_writes := m\<rparr>"
      using B_write_state [OF after(1)] by blast
    moreover have "sound (snd (B_write q v st))"
      using st(1) sound_B_write [of q v] by (simp add: settled_def within_def)
    ultimately show "settled (snd (B_write q v st)) \<and> R st0 (snd (B_write q v st))"
      using after counters(2) by (simp add: settled_def)
  qed
  have looking: "snd (B_path_exists q st) = st" "snd (node_metadata q st) = st"
    "snd (directory_entries q st) = st" "snd (writable_node q st) = st" for q st
    by (simp_all add: B_path_exists_def node_metadata_def directory_entries_def writable_node_def bget_def)
  show ?thesis
  proof (cases ev)
    case (EvOpenRead p)
    then show ?thesis using reading [of p] by (cases "served p B_read k") (simp add: model_sysfs_def)
  next
    case (EvWrite p v)
    then show ?thesis using writing [of p v]
      by (cases "served p (\<lambda>q. B_write q v) k") (simp add: model_sysfs_def)
  qed (simp_all add: model_sysfs_def k moved_pure [OF k] looking)
qed

text \<open>So a computation of the crate keeps it when it emits only writes that do.\<close>

lemma attribute_name:
  assumes "attribute_of admin p" and "model_at admin r bs" and "fst (resolve p bs) = Some (r, q)"
  shows "file_name q \<noteq> Some ''state''"
proof -
  obtain names where "p = admin @ map Normal names" "names \<noteq> []" "last names \<noteq> ''state''"
    using assms(1) by (auto simp: attribute_of_def)
  with assms(2,3) show ?thesis by (auto simp: model_at_def file_name_def last_map)
qed

lemma stages_counters [simp]:
  "stages st0 st \<Longrightarrow> stages st0 (st\<lparr>be_reads := n\<rparr>)" "stages st0 st \<Longrightarrow> stages st0 (st\<lparr>be_writes := n\<rparr>)"
  by (simp_all add: stages_def)

lemma staged_effect:
  assumes "writes_within (attribute_of admin) ev" and k: "moved stages admin r st0 k"
  shows "moved stages admin r st0 (effect (model_sysfs n) ev k)"
proof (rule moved_effect [OF k])
  fix p v q st
  assume "ev = EvWrite p v" and q: "fst (resolve p (fst k)) = Some (r, q)"
    and st: "settled st" "stages st0 st"
  with assms(1) k have "file_name q \<noteq> Some ''state''"
    by (auto simp: moved_def dest: attribute_name [OF _ _ q])
  with stages_write [of q v] have "stages st (snd (State_write q v st))" by (simp add: within_def)
  with st show "be_hooks (snd (State_write q v st)) = [] \<and> stages st0 (snd (State_write q v st))"
    by (auto simp: settled_def stages_def)
qed simp_all

section \<open>What staging leaves\<close>

lemma commandless_keeps_running:
  fixes w :: "(backends \<times> 'h) world" and m' :: "(unit \<times> event list, 'a) comp"
  assumes "mimics (\<lambda>l. after_calls (model_sysfs n) (w_kernel w) (snd l)) m' m"
    and "writes_only (attribute_of admin) m'"
    and "model_at admin r (fst (w_kernel w))" and "bs_states (fst (w_kernel w)) r = Some st" and "settled st"
  shows "\<exists>st'. bs_states (fst (w_kernel (snd (m w)))) r = Some st'
    \<and> model_at admin r (fst (w_kernel (snd (m w)))) \<and> settled st'
    \<and> (be_active st' = be_active st \<or> be_active st' = None \<and> (\<nexists>q. file_name q = Some ''state'' \<and> is_on st' q))"
proof -
  have "moved stages admin r st (w_kernel w)"
    using assms(3-5) by (simp add: moved_def staging.refl)
  with emitted_calls_keep [where J = "moved stages admin r st", OF assms(1,2) staged_effect]
  have "moved stages admin r st (w_kernel (snd (m w)))" by simp
  then obtain st' where st': "model_at admin r (fst (w_kernel (snd (m w))))"
    "bs_states (fst (w_kernel (snd (m w)))) r = Some st'" "settled st'" "stages st st'"
    by (auto simp: moved_def)
  moreover have "\<nexists>q. file_name q = Some ''state'' \<and> is_on st' q" if "be_active st' = None"
    using that st'(3) soundD(4) [of st'] by (auto simp: settled_def)
  ultimately show ?thesis by (auto simp: stages_def)
qed

end
