(* ===== verification/Backend_Updates.thy ===== *)
theory Backend_Updates
  imports Backend_Frame Update_Traces
begin

text \<open>
  What the commands of an owner do to a model: a commit replaces what its own kdamond uses and
  nothing that another one uses, and as long as only starts and stops are commanded, every running
  kdamond uses exactly what is staged for it.
\<close>

section \<open>The effect of a command\<close>

definition kdamond_dir :: "nat \<Rightarrow> path" where
  "kdamond_dir i = Admin_kdamond [] i"

lemma state_write_cases:
  assumes "settled st" and "st' = snd (State_write (sub k [''state'']) v st)"
  obtains fs where "st' = st\<lparr>be_failures := fs\<rparr>" | "st' = st" | "st' = snd (obey (sub k [''state'']) k (trim v) st)"
proof -
  let ?p = "sub k [''state'']"
  obtain r st1 where failed: "take_failure ?p st = (r, st1)" by (cases "take_failure ?p st")
  show thesis
  proof (cases r)
    case (Inl e)
    with failed have "st1 \<in> range (\<lambda>fs. st\<lparr>be_failures := fs\<rparr>)"
      by (auto simp: take_failure_def split: option.splits)
    moreover from Inl failed assms(2) have "st' = st1" by (simp add: State_write_def bbind_def)
    ultimately show ?thesis using that(1) by blast
  next
    case (Inr u)
    with failed have "st1 = st" using kernel_of_failure by simp
    with Inr failed have step: "st' = snd (bbind (writable_node ?p) (\<lambda>_. write_state ?p v) st)"
      using assms(2) by (simp add: State_write_def bbind_def)
    have k: "parent ?p = Some k" by (simp add: parent_def sub_def)
    obtain x st2 where node: "writable_node ?p st = (x, st2)" by (cases "writable_node ?p st")
    then have "st2 = st" using within_D [OF checks_pure(3)] by metis
    with node step have "st' = st \<or> st' = snd (write_state ?p v st)"
      by (cases x) (simp_all add: bbind_def)
    moreover have "snd (write_state ?p v st) = st \<or> snd (write_state ?p v st) = snd (obey ?p k (trim v) st)"
      by (simp add: write_state_def k bfail_def)
    ultimately show ?thesis using that(2,3) by auto
  qed
qed

lemma running_command_state:
  "snd (running_command p m st) = (if is_on st p then snd (m st) else st)"
  by (simp add: running_command_def ensure_running_def bbind_def bget_def)

lemma obey_commits:
  "snd (obey p k ''commit'' st) = (if is_on st p then snd (commit_staged k st) else st)"
  "snd (obey p k ''commit_schemes_quota_goals'' st) = (if is_on st p then snd (commit_quota_goals k st) else st)"
  by (simp_all add: obey_def running_command_state)

lemma trim_commands:
  "trim ''commit'' = ''commit''" "trim ''commit_schemes_quota_goals'' = ''commit_schemes_quota_goals''"
  "trim ''on'' = ''on''" "trim ''off'' = ''off''"
  by code_simp+

lemma commit_state: "snd (commit_staged k st) \<in> {st, capture_active_files k st}"
proof (cases "validate_sample_primitives k st")
  case (Pair x st1)
  then have "st1 = st" using within_D [OF checks_pure(1)] by metis
  with Pair show ?thesis by (cases x) (simp_all add: commit_staged_def bbind_def bmodify_def)
qed

section \<open>Kdamonds that are not updated\<close>

definition outside :: "nat set \<Rightarrow> path \<Rightarrow> bool" where
  "outside I q \<longleftrightarrow> (\<forall>i\<in>I. \<not> starts_with q (kdamond_dir i))"

definition isolates :: "nat set \<Rightarrow> backend \<Rightarrow> backend \<Rightarrow> bool" where
  "isolates I st st' \<longleftrightarrow>
     be_hooks st' = be_hooks st
     \<and> (\<forall>a'. be_active st' = Some a' \<longrightarrow>
          (\<exists>a. be_active st = Some a \<and> (\<forall>q. outside I q \<longrightarrow> map_of a' q = map_of a q)))"

interpretation isolating: step_order "isolates I" for I
proof
  fix st st1 st2 assume "isolates I st st1" "isolates I st1 st2"
  then show "isolates I st st2" unfolding isolates_def by metis
qed (simp add: isolates_def)

lemma stages_isolates: "stages st st' \<Longrightarrow> isolates I st st'"
  unfolding stages_def isolates_def by (metis option.distinct(1))

lemma isolates_counters:
  "isolates I st0 st \<Longrightarrow> isolates I st0 (st\<lparr>be_reads := n\<rparr>)"
  "isolates I st0 st \<Longrightarrow> isolates I st0 (st\<lparr>be_writes := n\<rparr>)"
  by (simp_all add: isolates_def)

lemma capture_isolates:
  assumes "sound st" "be_active st = Some a" "i \<in> I"
  shows "isolates I st (capture_active_files (kdamond_dir i) st)"
  using map_of_committed [OF soundD(1) [OF assms(1)], of "\<lambda>q. starts_with q (kdamond_dir i)"] assms(2,3)
  by (auto simp: isolates_def capture_active_files_def Let_def outside_def)

lemma goals_isolate:
  assumes "sound st" "be_active st = Some a" "i \<in> I"
  shows "isolates I st (snd (commit_quota_goals (kdamond_dir i) st))"
  using map_of_committed [OF soundD(1) [OF assms(1)], of "is_goal_file (kdamond_dir i)"] assms(2,3)
  by (auto simp: isolates_def commit_quota_goals_def outside_def is_goal_file_def)

lemma commit_isolates:
  assumes st: "settled st" and i: "i \<in> I" and v: "v \<in> {''commit'', ''commit_schemes_quota_goals''}"
  shows "isolates I st (snd (State_write (sub (kdamond_dir i) [''state'']) v st))"
    (is "isolates I st ?st'")
proof (rule state_write_cases [OF st refl])
  fix fs assume "?st' = st\<lparr>be_failures := fs\<rparr>"
  then show ?thesis by (simp add: isolates_def)
next
  assume "?st' = st"
  then show ?thesis by (simp add: isolating.refl)
next
  let ?p = "sub (kdamond_dir i) [''state'']" and ?k = "kdamond_dir i"
  assume obeyed: "?st' = snd (obey ?p ?k (trim v) st)"
  have sound: "sound st" using st by (simp add: settled_def)
  show ?thesis
  proof (cases "is_on st ?p")
    case True
    have "file_name ?p = Some ''state''" by (simp add: file_name_sub)
    from soundD(4) [OF sound this True] obtain a where a: "be_active st = Some a" by blast
    from v consider "v = ''commit''" | "v = ''commit_schemes_quota_goals''" by blast
    then show ?thesis
    proof cases
      case 1
      with obeyed True have "?st' = snd (commit_staged ?k st)"
        by (simp only: trim_commands obey_commits if_True)
      with commit_state [of ?k st] have "?st' = st \<or> ?st' = capture_active_files ?k st" by simp
      with capture_isolates [OF sound a i] isolating.refl [of I st] show ?thesis by metis
    next
      case 2
      with obeyed True have "?st' = snd (commit_quota_goals ?k st)"
        by (simp only: trim_commands obey_commits if_True)
      with goals_isolate [OF sound a i] show ?thesis by (simp only:)
    qed
  next
    case False
    from v obeyed False have "?st' = st" by (elim insertE emptyE) (simp_all only: trim_commands obey_commits if_False)
    then show ?thesis by (simp only: isolating.refl)
  qed
qed

lemma state_file_resolved:
  assumes "model_at admin r bs" and "fst (resolve (state_file admin i) bs) = Some (r, q)"
  shows "q = sub (kdamond_dir i) [''state'']"
proof -
  let ?names = "[''kdamonds'', dec i, ''state'']"
  have "state_file admin i = admin @ map Normal ?names"
    by (simp add: state_file_def Admin_kdamond_def child_def sub_def)
  with assms(1) have "fst (resolve (state_file admin i) bs) = Some (r, map Normal ?names)"
    unfolding model_at_def by (simp only:)
  with assms(2) show ?thesis
    by (simp add: kdamond_dir_def Admin_kdamond_def child_def sub_def)
qed

lemma update_event_mono: "update_event admin I C ev \<Longrightarrow> C \<subseteq> D \<Longrightarrow> update_event admin I D ev"
  unfolding update_event_def using commands_to_mono [OF _ subset_refl] by blast

lemma update_effect:
  assumes ev: "update_event admin I {''commit'', ''commit_schemes_quota_goals''} ev"
    and k: "moved (isolates I) admin r st0 k"
  shows "moved (isolates I) admin r st0 (effect (model_sysfs n) ev k)"
proof (rule moved_effect [OF k isolates_counters])
  fix p v q st
  assume is_write: "ev = EvWrite p v" and q: "fst (resolve p (fst k)) = Some (r, q)"
    and st: "settled st" "isolates I st0 st"
  have here: "model_at admin r (fst k)" using k by (simp add: moved_def)
  from ev is_write consider "attribute_of admin p"
    | i where "i \<in> I" "p = state_file admin i" "v \<in> {''commit'', ''commit_schemes_quota_goals''}"
    by (auto simp: update_event_def)
  then have "isolates I st (snd (State_write q v st))"
  proof cases
    case 1
    with here q have "file_name q \<noteq> Some ''state''" by (blast dest: attribute_name)
    with stages_write [of q v] show ?thesis by (simp add: within_def stages_isolates)
  next
    case 2
    with state_file_resolved [OF here] q have "q = sub (kdamond_dir i) [''state'']" by simp
    with commit_isolates [OF st(1) 2(1,3)] show ?thesis by simp
  qed
  moreover from this st(2) have "isolates I st0 (snd (State_write q v st))" by (rule isolating.trans [rotated])
  ultimately show "be_hooks (snd (State_write q v st)) = [] \<and> isolates I st0 (snd (State_write q v st))"
    using st(1) by (simp add: settled_def isolates_def)
qed

lemma outside_other: "starts_with q (kdamond_dir j) \<Longrightarrow> j \<notin> I \<Longrightarrow> outside I q"
  unfolding outside_def kdamond_dir_def Admin_kdamond_def child_def sub_def starts_with_def
  by auto

lemma updates_isolate:
  fixes w :: "(backends \<times> 'h) world" and m' :: "(unit \<times> event list, 'a) comp"
  assumes "mimics (\<lambda>l. after_calls (model_sysfs n) (w_kernel w) (snd l)) m' m"
    and "emits (update_event admin I {''commit'', ''commit_schemes_quota_goals''}) m'"
    and "model_at admin r (fst (w_kernel w))" and "bs_states (fst (w_kernel w)) r = Some st" and "settled st"
  shows "\<exists>st'. bs_states (fst (w_kernel (snd (m w)))) r = Some st' \<and> settled st'
    \<and> model_at admin r (fst (w_kernel (snd (m w))))
    \<and> (\<forall>a'. be_active st' = Some a' \<longrightarrow> (\<exists>a. be_active st = Some a
         \<and> (\<forall>j q. j \<notin> I \<longrightarrow> starts_with q (kdamond_dir j) \<longrightarrow> map_of a' q = map_of a q)))"
proof -
  have "moved (isolates I) admin r st (w_kernel w)"
    using assms(3-5) by (simp add: moved_def isolating.refl)
  with emitted_calls_keep [where J = "moved (isolates I) admin r st", OF assms(1,2) update_effect]
  have "moved (isolates I) admin r st (w_kernel (snd (m w)))" by simp
  then show ?thesis
    unfolding moved_def isolates_def using outside_other by metis
qed

end
