(* ===== verification/Backend_Starts.thy ===== *)
theory Backend_Starts
  imports Backend_Updates
begin

text \<open>
  Starting and stopping on a model: every kdamond whose state file says that it runs uses exactly
  the files staged for it, whatever is started, stopped or rolled back; and a start that succeeds
  has seen every kdamond run.
\<close>

section \<open>Running on what is staged\<close>

definition state_of :: "nat \<Rightarrow> path" where
  "state_of i = sub (kdamond_dir i) [''state'']"

definition pid_of :: "nat \<Rightarrow> path" where
  "pid_of i = sub (kdamond_dir i) [''pid'']"

text \<open>The state file of a kdamond, as its readers trim it, says that it runs.\<close>

definition reads_on :: "backend \<Rightarrow> nat \<Rightarrow> bool" where
  "reads_on st i \<longleftrightarrow> (\<exists>v. lookup st (state_of i) = Some (File v) \<and> trim v = ''on'')"

definition uses_staged :: "backend \<Rightarrow> nat \<Rightarrow> bool" where
  "uses_staged st i \<longleftrightarrow> (\<exists>a. be_active st = Some a
     \<and> (\<forall>q. starts_with q (kdamond_dir i) \<longrightarrow> q \<notin> {state_of i, pid_of i} \<longrightarrow>
          map_of a q = staged_file (map_of (be_nodes st)) q))"

definition runs_staged :: "backend \<Rightarrow> bool" where
  "runs_staged st \<longleftrightarrow> (\<forall>i. reads_on st i \<longrightarrow> uses_staged st i)"

lemma runs_staged_simps [simp]:
  "runs_staged (st\<lparr>be_reads := n\<rparr>) = runs_staged st" "runs_staged (st\<lparr>be_writes := n\<rparr>) = runs_staged st"
  "runs_staged (st\<lparr>be_failures := fs\<rparr>) = runs_staged st" "runs_staged (st\<lparr>be_next_pid := p\<rparr>) = runs_staged st"
  "uses_staged (st\<lparr>be_next_pid := p\<rparr>) = uses_staged st"
  by (simp_all add: runs_staged_def reads_on_def uses_staged_def fun_eq_iff)

lemma kdamond_files_differ:
  "starts_with q (kdamond_dir j) \<Longrightarrow> q \<in> {state_of i, pid_of i} \<Longrightarrow> q \<in> {state_of j, pid_of j}"
  by (auto simp: kdamond_dir_def Admin_kdamond_def child_def sub_def starts_with_def state_of_def pid_of_def)

lemma state_files_differ [simp]: "state_of i = state_of j \<longleftrightarrow> i = j" "state_of i \<noteq> pid_of j"
  by (auto simp: kdamond_dir_def Admin_kdamond_def child_def sub_def state_of_def pid_of_def)

lemma uses_staged_file:
  assumes "q \<in> {state_of i, pid_of i}"
  shows "uses_staged (State_file q v st) j = uses_staged st j"
proof -
  have "staged_file (map_of (be_nodes (State_file q v st))) p = staged_file (map_of (be_nodes st)) p"
    if "starts_with p (kdamond_dir j)" "p \<notin> {state_of j, pid_of j}" for p
  proof -
    have "p \<noteq> q" using kdamond_files_differ [OF that(1), of i] that(2) assms by blast
    then show ?thesis by (simp add: State_file_def staged_file_def)
  qed
  then show ?thesis by (auto simp: uses_staged_def State_file_def)
qed

lemma uses_staged_own [simp]:
  "uses_staged (State_file (state_of i) v st) j = uses_staged st j"
  "uses_staged (State_file (pid_of i) v st) j = uses_staged st j"
  by (rule uses_staged_file [of _ i], simp)+

lemma reads_on_pid: "reads_on (State_file (pid_of i) v st) j = reads_on st j"
proof -
  have "state_of j \<noteq> pid_of i" by simp
  then show ?thesis unfolding reads_on_def State_file_def by simp
qed

lemma reads_on_state:
  "reads_on (State_file (state_of i) v st) j = (if j = i then trim v = ''on'' else reads_on st j)"
  unfolding reads_on_def State_file_def by auto

lemma capture_uses_staged:
  assumes "sound st"
  shows "uses_staged (capture_active_files (kdamond_dir i) st) i"
    and "uses_staged st j \<Longrightarrow> uses_staged (capture_active_files (kdamond_dir i) st) j"
proof -
  note committed = map_of_committed [OF soundD(1) [OF assms], of "\<lambda>q. starts_with q (kdamond_dir i)"]
  show "uses_staged (capture_active_files (kdamond_dir i) st) i"
    using committed by (simp add: uses_staged_def capture_active_files_def Let_def)
  show "uses_staged (capture_active_files (kdamond_dir i) st) j" if "uses_staged st j"
    using committed that by (auto simp: uses_staged_def capture_active_files_def Let_def)
qed

lemma reads_on_capture: "reads_on (capture_active_files k st) = reads_on st"
  by (simp add: reads_on_def capture_active_files_def Let_def fun_eq_iff)

lemma capture_runs_staged: "sound st \<Longrightarrow> runs_staged st \<Longrightarrow> runs_staged (capture_active_files (kdamond_dir i) st)"
  by (simp add: runs_staged_def reads_on_capture capture_uses_staged(2))

text \<open>A start that gets to the end, and one that runs out of thread identifiers after the capture.\<close>

lemma start_state_cases:
  obtains "snd (start_kdamond k st) = st" | "snd (start_kdamond k st) = capture_active_files k st"
  | n v where "snd (start_kdamond k st) = State_file (sub k [''pid'']) v
      (State_file (sub k [''state'']) (''on'' @ newline) ((capture_active_files k st)\<lparr>be_next_pid := n\<rparr>))"
proof -
  obtain x st1 where check: "validate_sample_primitives k st = (x, st1)"
    by (cases "validate_sample_primitives k st")
  then have "st1 = st" using within_D [OF checks_pure(1)] by metis
  with check have "snd (start_kdamond k st) = st
    \<or> snd (start_kdamond k st) = snd (bbind take_pid (\<lambda>p.
         bbind (bmodify (State_file (sub k [''state'']) (''on'' @ newline))) (\<lambda>_.
           bmodify (State_file (sub k [''pid'']) (dec_word p @ newline)))) (capture_active_files k st))"
    by (cases x)
      (auto simp: start_kdamond_def bbind_def [of "bget _"] bbind_def [of "validate_sample_primitives _"]
        bbind_def [of "bmodify (capture_active_files _)"] bget_def bmodify_def split: sum.split)
  then show thesis
    using that by (cases "checked_add (be_next_pid (capture_active_files k st)) 1")
      (auto simp: bbind_def take_pid_def bmodify_def)
qed

lemma started_runs_staged:
  assumes st: "sound st" "runs_staged st"
  shows "runs_staged (snd (start_kdamond (kdamond_dir i) st))"
proof (rule start_state_cases [of "kdamond_dir i" st])
  fix n v
  let ?st1 = "(capture_active_files (kdamond_dir i) st)\<lparr>be_next_pid := n\<rparr>"
  assume run: "snd (start_kdamond (kdamond_dir i) st) = State_file (sub (kdamond_dir i) [''pid'']) v
      (State_file (sub (kdamond_dir i) [''state'']) (''on'' @ newline) ?st1)"
  have "uses_staged ?st1 i" using capture_uses_staged(1) [OF st(1)] by simp
  moreover have "uses_staged ?st1 j" if "reads_on ?st1 j" for j
  proof -
    have "reads_on st j" using that by (simp add: reads_on_def capture_active_files_def Let_def)
    with st show ?thesis by (simp add: runs_staged_def capture_uses_staged(2))
  qed
  ultimately show ?thesis
    unfolding run state_of_def [symmetric] pid_of_def [symmetric]
    by (auto simp: runs_staged_def reads_on_pid reads_on_state)
qed (simp_all add: st capture_runs_staged)

lemma obey_lifecycle:
  "snd (obey p k ''on'' st) = st \<or> snd (obey p k ''on'' st) = snd (start_kdamond k st)"
  "snd (obey p k ''off'' st) = st \<or> snd (obey p k ''off'' st)
     = State_file (sub k [''pid'']) (''-1'' @ newline) (State_file p (''off'' @ newline) st)"
  by (auto simp: obey_def switch_on_def switch_off_def bbind_def bget_def bmodify_def split: sum.split)

lemma stopped_runs_staged:
  assumes "runs_staged st"
  shows "runs_staged (State_file (pid_of i) u (State_file (state_of i) (''off'' @ newline) st))"
proof -
  have "trim (''off'' @ newline) \<noteq> ''on''" by code_simp
  with assms show ?thesis
    by (simp add: runs_staged_def reads_on_pid reads_on_state del: append.simps)
qed

lemma start_hooks: "be_hooks (snd (start_kdamond k st)) = be_hooks st"
  by (rule start_state_cases [of k st])
    (simp_all add: State_file_def capture_active_files_def Let_def)

lemma lifecycle_runs_staged:
  assumes st: "settled st" "runs_staged st" and v: "v \<in> {''on'', ''off''}"
  shows "be_hooks (snd (State_write (state_of i) v st)) = [] \<and> runs_staged (snd (State_write (state_of i) v st))"
    (is "?P (snd (State_write (state_of i) v st))")
proof (rule state_write_cases [OF st(1) refl, of "kdamond_dir i" v, folded state_of_def])
  fix fs assume "snd (State_write (state_of i) v st) = st\<lparr>be_failures := fs\<rparr>"
  with st show ?thesis by (simp add: settled_def)
next
  assume "snd (State_write (state_of i) v st) = st"
  with st show ?thesis by (simp add: settled_def)
next
  let ?k = "kdamond_dir i"
  assume obeyed: "snd (State_write (state_of i) v st) = snd (obey (state_of i) ?k (trim v) st)"
  have same: "?P st" using st by (simp add: settled_def)
  have started: "?P (snd (start_kdamond ?k st))"
    using st started_runs_staged [of st i] by (simp add: settled_def start_hooks)
  have stopped: "?P (State_file (sub ?k [''pid'']) (''-1'' @ newline) (State_file (state_of i) (''off'' @ newline) st))"
    using st stopped_runs_staged [of st i "''-1'' @ newline"]
    unfolding pid_of_def [symmetric] by (simp add: settled_def State_file_def)
  from v show ?thesis
  proof (elim insertE emptyE)
    assume "v = ''on''"
    with obeyed obey_lifecycle(1) [of "state_of i" ?k st] same started show ?thesis
      by (simp only: trim_commands) metis
  next
    assume "v = ''off''"
    with obeyed obey_lifecycle(2) [of "state_of i" ?k st] same stopped show ?thesis
      by (simp only: trim_commands) metis
  qed
qed

lemma lifecycle_effect:
  assumes ev: "commands_to admin I {''on'', ''off''} ev"
    and k: "moved (\<lambda>_. runs_staged) admin r st0 k"
  shows "moved (\<lambda>_. runs_staged) admin r st0 (effect (model_sysfs n) ev k)"
proof (rule moved_effect [OF k])
  fix p v q st
  assume is_write: "ev = EvWrite p v" and q: "fst (resolve p (fst k)) = Some (r, q)"
    and st: "settled st" "runs_staged st"
  have here: "model_at admin r (fst k)" using k by (simp add: moved_def)
  from ev is_write obtain i where p: "p = state_file admin i" and v: "v \<in> {''on'', ''off''}" by auto
  have "q = state_of i" unfolding state_of_def by (rule state_file_resolved [OF here q [unfolded p]])
  with lifecycle_runs_staged [OF st v, of i]
  show "be_hooks (snd (State_write q v st)) = [] \<and> runs_staged (snd (State_write q v st))" by simp
qed simp_all

text \<open>What reading leaves: everything but the counter of reads.\<close>

definition read_from :: "backend \<Rightarrow> backend \<Rightarrow> bool" where
  "read_from st st' \<longleftrightarrow> be_nodes st' = be_nodes st \<and> be_active st' = be_active st"

lemma reading_effect:
  assumes ev: "writes_within (\<lambda>_. False) ev" and k: "moved read_from admin r st0 k"
  shows "moved read_from admin r st0 (effect (model_sysfs n) ev k)"
  by (rule moved_effect [OF k]) (use ev in \<open>simp_all add: read_from_def\<close>)

section \<open>A start that succeeds has seen every kdamond run\<close>

text \<open>
  \<open>finds J Q m\<close>: from worlds that satisfy \<open>J\<close> the computation leads to such worlds, and when it
  succeeds what it returns satisfies \<open>Q\<close>.
\<close>

definition finds :: "('k \<Rightarrow> bool) \<Rightarrow> ('a \<Rightarrow> bool) \<Rightarrow> ('k, 'a) comp \<Rightarrow> bool" where
  "finds J Q m \<longleftrightarrow> (\<forall>w r w'. J (w_kernel w) \<longrightarrow> m w = (r, w') \<longrightarrow>
     J (w_kernel w') \<and> (\<forall>x. r = Inr x \<longrightarrow> Q x))"

lemma findsI:
  "(\<And>w r w'. J (w_kernel w) \<Longrightarrow> m w = (r, w') \<Longrightarrow> J (w_kernel w') \<and> (\<forall>x. r = Inr x \<longrightarrow> Q x)) \<Longrightarrow> finds J Q m"
  unfolding finds_def by blast

lemma findsD:
  "finds J Q m \<Longrightarrow> J (w_kernel w) \<Longrightarrow> m w = (r, w') \<Longrightarrow> J (w_kernel w') \<and> (\<forall>x. r = Inr x \<longrightarrow> Q x)"
  unfolding finds_def by blast

lemma finds_mono: "finds J Q m \<Longrightarrow> (\<And>x. Q x \<Longrightarrow> R x) \<Longrightarrow> finds J R m"
  unfolding finds_def by blast

lemma finds_pure: "Q x \<Longrightarrow> finds J Q (sret x)" "finds J Q (sfail e)"
  by (simp_all add: finds_def sret_def sfail_def)

lemma finds_slift: "(\<And>x. r = Inr x \<Longrightarrow> Q x) \<Longrightarrow> finds J Q (slift r)"
  by (simp add: finds_def slift_def)

lemma finds_sbind:
  assumes m: "finds J Q m" and f: "\<And>x. Q x \<Longrightarrow> finds J R (f x)"
  shows "finds J R (sbind m f)"
proof (rule findsI)
  fix w r w' assume J: "J (w_kernel w)" and run: "sbind m f w = (r, w')"
  obtain r1 w1 where first: "m w = (r1, w1)" by (cases "m w")
  note after = findsD [OF m J first]
  show "J (w_kernel w') \<and> (\<forall>x. r = Inr x \<longrightarrow> R x)"
  proof (cases r1)
    case (Inl e)
    with run first after show ?thesis by (auto simp: sbind_def)
  next
    case (Inr x)
    with run first have "f x w1 = (r, w')" by (simp add: sbind_def)
    with after Inr findsD [OF f [of x]] show ?thesis by blast
  qed
qed

lemma finds_stry:
  assumes m: "finds J Q m" and f: "\<And>x. Q x \<Longrightarrow> finds J R (f (Inr x))" "\<And>e. finds J R (f (Inl e))"
  shows "finds J R (stry m f)"
proof (rule findsI)
  fix w r w' assume J: "J (w_kernel w)" and run: "stry m f w = (r, w')"
  obtain r1 w1 where first: "m w = (r1, w1)" by (cases "m w")
  note after = findsD [OF m J first]
  have "f r1 w1 = (r, w')" using run first by (simp add: stry_def)
  moreover have "finds J R (f r1)" using after f by (cases r1) auto
  ultimately show "J (w_kernel w') \<and> (\<forall>x. r = Inr x \<longrightarrow> R x)" using after findsD by blast
qed

lemma finds_if: "(b \<Longrightarrow> finds J Q m) \<Longrightarrow> (\<not> b \<Longrightarrow> finds J Q n) \<Longrightarrow> finds J Q (if b then m else n)"
  by simp

lemma finds_seach:
  "(\<And>x. x \<in> set xs \<Longrightarrow> finds J (\<lambda>_. F x) (f x)) \<Longrightarrow> finds J (\<lambda>_. \<forall>x\<in>set xs. F x) (seach f xs)"
proof (induction xs)
  case (Cons x xs)
  then have first: "finds J (\<lambda>_. F x) (f x)" and rest: "finds J (\<lambda>_. \<forall>y\<in>set xs. F y) (seach f xs)" by auto
  have "finds J (\<lambda>_. F x \<and> (\<forall>y\<in>set xs. F y)) (sbind (f x) (\<lambda>_. seach f xs))"
    by (rule finds_sbind [OF first], rule finds_mono [OF rest], simp)
  then show ?case by simp
qed (simp add: finds_pure)

lemma finds_retry_from:
  assumes m: "finds J Q m" and sleep: "\<And>d k. J k \<Longrightarrow> J (sys_sleep E d k)"
  shows "finds J Q (retry_from E m n)"
proof (induction "MAX_RETRIES - n" arbitrary: n rule: less_induct)
  case less
  have again: "finds J Q (sbind (thread_sleep E d) (\<lambda>_. retry_from E m (Suc n)))" if "n < MAX_RETRIES" for d
  proof (rule finds_sbind [where Q = "\<lambda>_. True"])
    show "finds J (\<lambda>_. True) (thread_sleep E d)"
      using sleep by (auto simp: finds_def thread_sleep_def)
    show "finds J Q (retry_from E m (Suc n))" using that by (intro less) simp
  qed
  show ?case
    by (subst retry_from.simps, rule finds_stry [OF m])
      (auto intro!: finds_pure finds_if again)
qed

lemma finds_retry:
  "finds J Q m \<Longrightarrow> (\<And>d k. J k \<Longrightarrow> J (sys_sleep E d k)) \<Longrightarrow> finds J Q (retry_busy E m)"
  unfolding retry_busy_def by (rule finds_retry_from)

section \<open>The checks of a start, on a model\<close>

lemma reads_find:
  fixes m' :: "backends \<times> 'h \<Rightarrow> (unit \<times> event list, 'a) comp"
  assumes "\<And>k0. mimics (\<lambda>l. after_calls (model_sysfs n) k0 (snd l)) (m' k0) m"
    and "\<And>k0. writes_only (\<lambda>_. False) (m' k0)"
  shows "finds (moved read_from admin r st0) (\<lambda>_. True) m"
proof (rule findsI)
  fix w :: "(backends \<times> 'h) world" and x w'
  assume J: "moved read_from admin r st0 (w_kernel w)" and run: "m w = (x, w')"
  have "moved read_from admin r st0 (w_kernel (snd (m w)))"
    by (rule emitted_calls_keep [where J = "moved read_from admin r st0", OF assms reading_effect J])
  with run show "moved read_from admin r st0 (w_kernel w') \<and> (\<forall>y. x = Inr y \<longrightarrow> True)" by simp
qed

lemma lifecycle_finds:
  fixes m' :: "backends \<times> 'h \<Rightarrow> (unit \<times> event list, 'a) comp"
  assumes "\<And>k0. mimics (\<lambda>l. after_calls (model_sysfs n) k0 (snd l)) (m' k0) m"
    and "\<And>k0. emits (commands_to admin I {''on'', ''off''}) (m' k0)"
  shows "finds (moved (\<lambda>_. runs_staged) admin r st0) (\<lambda>_. True) m"
proof (rule findsI)
  fix w :: "(backends \<times> 'h) world" and x w'
  assume J: "moved (\<lambda>_. runs_staged) admin r st0 (w_kernel w)" and run: "m w = (x, w')"
  have "moved (\<lambda>_. runs_staged) admin r st0 (w_kernel (snd (m w)))"
    by (rule emitted_calls_keep [where J = "moved (\<lambda>_. runs_staged) admin r st0", OF assms lifecycle_effect J])
  with run show "moved (\<lambda>_. runs_staged) admin r st0 (w_kernel w') \<and> (\<forall>y. x = Inr y \<longrightarrow> True)" by simp
qed

lemma model_sleeps: "moved R admin r st0 k \<Longrightarrow> moved R admin r st0 (sys_sleep (model_sysfs n) d k)"
  by (simp add: model_sysfs_def)

lemma state_file_at:
  assumes "model_at admin r bs"
  shows "fst (resolve (state_file admin i) bs) = Some (r, state_of i)"
proof -
  let ?names = "[''kdamonds'', dec i, ''state'']"
  have "state_file admin i = admin @ map Normal ?names"
    by (simp add: state_file_def Admin_kdamond_def child_def sub_def)
  with assms have "fst (resolve (state_file admin i) bs) = Some (r, map Normal ?names)"
    unfolding model_at_def by (simp only:)
  then show ?thesis by (simp add: state_of_def kdamond_dir_def Admin_kdamond_def child_def sub_def)
qed

lemma read_text_finds:
  "finds (moved read_from admin r st0) (\<lambda>v. lookup st0 (state_of i) = Some (File v))
     (read_text (model_sysfs n) (state_file admin i))"
proof (rule findsI)
  fix w :: "(backends \<times> 'h) world" and x w'
  assume J: "moved read_from admin r st0 (w_kernel w)"
    and run: "read_text (model_sysfs n) (state_file admin i) w = (x, w')"
  have "finds (moved read_from admin r st0) (\<lambda>_. True) (read_text (model_sysfs n) (state_file admin i))"
    by (rule reads_find [where n = n and m' = "\<lambda>k0. read_text (traced (sourced (model_sysfs n) k0)) (state_file admin i)"])
      (intro mimics_rules emits_rules)+
  from findsD [OF this J run] have after: "moved read_from admin r st0 (w_kernel w')" by simp
  obtain st where st: "model_at admin r (fst (w_kernel w))" "bs_states (fst (w_kernel w)) r = Some st"
    "settled st" "read_from st0 st"
    using J by (auto simp: moved_def)
  have res: "resolves_to (state_file admin i) (fst (w_kernel w)) r (state_of i) st"
    using state_file_at [OF st(1)] st(2) by (simp add: resolves_to_def)
  have read: "B_read (state_of i) st = (Inr (node_content (state_of i) st), st\<lparr>be_reads := Suc (be_reads st)\<rparr>)"
    using st(3) by (simp add: settled_def B_read_def bbind_def bret_def apply_hooks_def node_content_def)
  have "node_content (state_of i) st = Inr v" if "x = Inr v" for v
  proof (cases "node_content (state_of i) st")
    case (Inl e)
    with run that show ?thesis
      by (simp add: read_text_def view_simps backend_call_resolved [OF res] read)
  next
    case (Inr u)
    with run that show ?thesis
      by (simp add: read_text_def view_simps backend_call_resolved [OF res] read
          read_to_string_content [OF holds_whole] split: if_splits)
  qed
  moreover have "lookup st (state_of i) = Some (File v)" if "node_content (state_of i) st = Inr v" for v
    using that by (simp add: node_content_def split: option.splits node.splits)
  moreover have "lookup st = lookup st0" using st(4) by (simp add: read_from_def fun_eq_iff)
  ultimately show "moved read_from admin r st0 (w_kernel w')
      \<and> (\<forall>v. x = Inr v \<longrightarrow> lookup st0 (state_of i) = Some (File v))"
    using after by auto
qed

lemma state_finds:
  "finds (moved read_from admin r st0) (\<lambda>x. x = StateOn \<longrightarrow> reads_on st0 i)
     (Kdamond_state (model_sysfs n) (Admin_kdamond admin i))"
  unfolding Kdamond_state_def state_file_def [symmetric]
  by (rule finds_sbind [OF read_text_finds])
    (auto intro!: finds_slift simp: KdamondState_from_str_def KdamondState_parse_def reads_on_def
      and_then_def split: sum.splits if_splits)

lemma running_finds:
  "finds (moved read_from admin r st0) (\<lambda>_. reads_on st0 i)
     (running_thread_pid (model_sysfs n) (Admin_kdamond admin i))"
proof -
  have pid: "finds (moved read_from admin r st0) (\<lambda>_. True) (retry_busy (model_sysfs n)
      (Kdamond_pid (model_sysfs n) (Admin_kdamond admin i)))"
    by (rule reads_find [where n = n and m' = "\<lambda>k0. retry_busy (traced (sourced (model_sysfs n) k0))
        (Kdamond_pid (traced (sourced (model_sysfs n) k0)) (Admin_kdamond admin i))"])
      (intro mimics_rules emits_rules)+
  show ?thesis
    unfolding running_thread_pid_def
  proof (rule finds_sbind [OF finds_retry [OF state_finds model_sleeps]])
    fix x assume on: "x = StateOn \<longrightarrow> reads_on st0 i"
    show "finds (moved read_from admin r st0) (\<lambda>_. reads_on st0 i)
        (case x of StateOn \<Rightarrow> sbind (retry_busy (model_sysfs n) (Kdamond_pid (model_sysfs n) (Admin_kdamond admin i)))
             (\<lambda>p. case p of None \<Rightarrow> sfail (OwnershipLost ''a running kdamond did not expose a kernel-thread ID'')
                          | Some v \<Rightarrow> sret v)
         | StateOff \<Rightarrow> sfail NotRunning | UnknownState s \<Rightarrow> sfail (UnexpectedKdamondState s))"
    proof (cases x)
      case StateOn
      with on have "reads_on st0 i" by simp
      then show ?thesis unfolding StateOn kdamond_state.case
        by (intro finds_sbind [OF pid]) (simp add: finds_pure split: option.split)
    qed (simp_all add: finds_pure)
  qed
qed

lemma owned_one_finds:
  assumes "mh_admin s = admin"
  shows "finds (moved read_from admin r st0)
     (\<lambda>_. case mh_states s ! i of Running _ \<Rightarrow> reads_on st0 i | _ \<Rightarrow> True)
     (verify_owned_one (model_sysfs n) s i)"
proof (cases "mh_states s ! i")
  case Staged
  have "finds (moved read_from admin r st0) (\<lambda>_. True) (verify_off (model_sysfs n) s i)"
    by (rule reads_find [where n = n and m' = "\<lambda>k0. verify_off (traced (sourced (model_sysfs n) k0)) s i"])
      (intro mimics_rules emits_rules)+
  with Staged show ?thesis by (simp add: verify_owned_one_def)
next
  case (Running p)
  have "finds (moved read_from admin r st0) (\<lambda>_. reads_on st0 i)
      (verify_running_state_and_identity_without_count (model_sysfs n) s i)"
    unfolding verify_running_state_and_identity_without_count_def Hierarchy_kdamond_def assms
    by (rule finds_sbind [OF finds_slift [where Q = "\<lambda>_. True"]], simp,
        rule finds_sbind [OF running_finds], intro finds_if finds_pure)
  with Running show ?thesis by (simp add: verify_owned_one_def)
qed (simp add: verify_owned_one_def finds_pure)

lemma owned_state_finds:
  assumes "mh_admin s = admin"
  shows "finds (moved read_from admin r st0)
     (\<lambda>_. \<forall>i<length (mh_states s). case mh_states s ! i of Running _ \<Rightarrow> reads_on st0 i | _ \<Rightarrow> True)
     (verify_owned_state (model_sysfs n) s)"
proof -
  let ?F = "\<lambda>i. case mh_states s ! i of Running _ \<Rightarrow> reads_on st0 i | _ \<Rightarrow> True"
  have staged: "finds (moved read_from admin r st0) (\<lambda>_. True)
      (verify_staged (model_sysfs n) (mh_staged s) (mh_admin s))"
    by (rule reads_find [where n = n and m' = "\<lambda>k0. verify_staged (traced (sourced (model_sysfs n) k0)) (mh_staged s) (mh_admin s)"])
      (intro mimics_rules emits_rules)+
  have "finds (moved read_from admin r st0) (\<lambda>_. \<forall>i\<in>set [0..<length (mh_states s)]. ?F i)
      (seach (verify_owned_one (model_sysfs n) s) [0..<length (mh_states s)])"
    by (rule finds_seach) (rule owned_one_finds [OF assms])
  then have each: "finds (moved read_from admin r st0) (\<lambda>_. \<forall>i<length (mh_states s). ?F i)
      (seach (verify_owned_one (model_sysfs n) s) [0..<length (mh_states s)])"
    by (rule finds_mono) simp
  show ?thesis
    unfolding verify_owned_state_def
    by (intro finds_if finds_pure finds_sbind [OF staged] each)
qed

section \<open>Starting\<close>

lemma mread_run: "mread c s w = (r, w') \<longleftrightarrow> (\<exists>x. c s w = (x, w') \<and> r = Inr (x, s))"
  by (auto simp: mread_def stry_def sret_def split: prod.splits)

lemma mcatch_read_run:
  "mcatch (mread c) f s w = f (fst (c s w)) s (snd (c s w))"
  by (simp add: mcatch_def mread_def stry_def sbind_def sret_def split: prod.splits)

lemma mbind_read_run:
  "mbind (mread c) f s w
    = (case c s w of (Inl e, w1) \<Rightarrow> (Inr (Inl e, s), w1) | (Inr x, w1) \<Rightarrow> f x s w1)"
  by (simp add: mbind_def mcatch_read_run mfail_def sret_def split: prod.splits sum.splits)

text \<open>The last thing a successful start does is to check the owner it returns.\<close>

lemma start_from_checked:
  assumes checks: "\<And>so i. finds J (\<lambda>_. True) (sbind (verify_count E so admin) (\<lambda>_. verify_kdamond_configuration E so admin i))"
    and starts: "\<And>i s. mh_admin s = admin \<Longrightarrow> finds J (\<lambda>_. True) (start_one E i s)"
  shows "start_from E is s w = (Inr (Inr (), s'), w') \<Longrightarrow> J (w_kernel w) \<Longrightarrow> mh_admin s = admin \<Longrightarrow>
    \<exists>w1. J (w_kernel w1) \<and> mh_admin s' = admin \<and> verify_owned_state E s' w1 = (Inr (), w')"
proof (induction "is" arbitrary: s w)
  case Nil
  then show ?case
    by (cases "verify_owned_state E s w")
      (auto simp: mcatch_read_run mret_def sret_def fail_with_rollback_fails split: sum.splits)
next
  case (Cons i rest)
  let ?check = "\<lambda>s. sbind (verify_count E (mh_staged s) (mh_admin s)) (\<lambda>_.
      verify_kdamond_configuration E (mh_staged s) (mh_admin s) i)"
  obtain c w1 where check: "?check s w = (c, w1)" by (cases "?check s w")
  with Cons.prems(1) obtain u where "c = Inr u"
    by (cases c) (auto simp: mcatch_read_run fail_with_rollback_fails)
  with Cons.prems(1) check have after: "mcatch (start_one E i) (\<lambda>r. case r of
      Inl e \<Rightarrow> fail_with_rollback E e | Inr _ \<Rightarrow> start_from E rest) s w1 = (Inr (Inr (), s'), w')"
    by (simp add: mcatch_read_run)
  have J1: "J (w_kernel w1)"
    using findsD [OF checks Cons.prems(2) check [unfolded Cons.prems(3)]] by simp
  obtain y w2 where one: "start_one E i s w1 = (y, w2)" by (cases "start_one E i s w1")
  have J2: "J (w_kernel w2)" using findsD [OF starts [OF Cons.prems(3)] J1 one] by simp
  from after one obtain r s2 where y: "y = Inr (r, s2)"
    by (cases y) (auto simp: mcatch_def sbind_def)
  have own: "same_owner s s2" using mwpD [OF start_one_wp one [unfolded y]] by simp
  from after one y obtain v where "r = Inr v" "start_from E rest s2 w2 = (Inr (Inr (), s'), w')"
    by (cases r) (auto simp: mcatch_def sbind_def fail_with_rollback_fails)
  with Cons.IH [of s2 w2] J2 Cons.prems(3) same_owner_sels [OF own] show ?case by simp
qed

lemma start_all_checked:
  fixes w :: "(backends \<times> 'h) world" and st0 :: backend and s :: managed_hierarchy and r :: nat
  defines "J \<equiv> moved (\<lambda>_. runs_staged) (mh_admin s) r st0"
  assumes run: "start_all (model_sysfs n) s w = (Inr (Inr (), s'), w')" and w: "J (w_kernel w)"
  shows "\<exists>w1. J (w_kernel w1) \<and> mh_admin s' = mh_admin s \<and> all_running s'
    \<and> length (mh_states s') = length (mh_states s) \<and> verify_owned_state (model_sysfs n) s' w1 = (Inr (), w')"
proof -
  let ?E = "model_sysfs n :: (backends \<times> 'h) sysfs"
  let ?T = "\<lambda>k0. traced (sourced ?E k0)"
  note commands = reads_are_commands [where a = "mh_admin s" and I = UNIV and C = "{''on'', ''off''}"]
  have own: "mh_owns s" and startable: "check_startable 0 (mh_states s) = Inr ()"
    using run by (auto simp: start_all_def mfail_def sret_def split: if_splits sum.splits)
  then have staged: "all_staged s" by (simp add: check_startable_Inr_iff all_staged_def)
  have body: "mbind (mread (\<lambda>s. verify_staged ?E (mh_staged s) (mh_admin s))) (\<lambda>_.
      mbind (mread (\<lambda>s. seach (verify_off ?E s) [0..<length (mh_states s)])) (\<lambda>_.
        start_from ?E [0..<length (mh_states s)])) s w = (Inr (Inr (), s'), w')"
    using run own startable by (simp add: start_all_def)
  obtain a w2 where one: "verify_staged ?E (mh_staged s) (mh_admin s) w = (a, w2)"
    by (cases "verify_staged ?E (mh_staged s) (mh_admin s) w")
  have "finds J (\<lambda>_. True) (verify_staged ?E (mh_staged s) (mh_admin s))"
    unfolding J_def
    by (rule lifecycle_finds [where n = n and I = UNIV and m' = "\<lambda>k0. verify_staged (?T k0) (mh_staged s) (mh_admin s)"])
      (intro mimics_rules commands emits_rules)+
  with one w have w2: "J (w_kernel w2)" by (blast dest: findsD)
  obtain b w3 where two: "seach (verify_off ?E s) [0..<length (mh_states s)] w2 = (b, w3)"
    by (cases "seach (verify_off ?E s) [0..<length (mh_states s)] w2")
  have "finds J (\<lambda>_. True) (seach (verify_off ?E s) [0..<length (mh_states s)])"
    unfolding J_def
    by (rule lifecycle_finds [where n = n and I = UNIV and m' = "\<lambda>k0. seach (verify_off (?T k0) s) [0..<length (mh_states s)]"])
      (intro mimics_rules commands emits_rules)+
  with two w2 have w3: "J (w_kernel w3)" by (blast dest: findsD)
  have from_w3: "start_from ?E [0..<length (mh_states s)] s w3 = (Inr (Inr (), s'), w')"
    using body one two by (cases a; cases b) (simp_all add: mbind_read_run)
  have checks: "finds J (\<lambda>_. True) (sbind (verify_count ?E so (mh_admin s))
      (\<lambda>_. verify_kdamond_configuration ?E so (mh_admin s) i))" for so i
    unfolding J_def
    by (rule lifecycle_finds [where n = n and I = UNIV and m' = "\<lambda>k0. sbind (verify_count (?T k0) so (mh_admin s))
        (\<lambda>_. verify_kdamond_configuration (?T k0) so (mh_admin s) i)"])
      (intro mimics_rules commands emits_rules)+
  have starts: "finds J (\<lambda>_. True) (start_one ?E i t)" if "mh_admin t = mh_admin s" for i t
    unfolding J_def
  proof (rule lifecycle_finds [where n = n and I = UNIV and m' = "\<lambda>k0. start_one (?T k0) i t"])
    show "mimics (\<lambda>l. after_calls ?E k0 (snd l)) (start_one (?T k0) i t) (start_one ?E i t)" for k0
      by (intro mimics_rules)
    show "emits (commands_to (mh_admin s) UNIV {''on'', ''off''}) (start_one (?T k0) i t)" for k0
      using start_one_emits [of i UNIV t "mh_admin s" "sourced ?E k0"] that
      by (auto elim!: emits_mono commands_to_mono)
  qed
  from start_from_checked [OF checks starts from_w3 w3 refl] mwpD [OF start_all_wp [OF own staged] run]
  show ?thesis by (auto simp: start_outcome_def dest: same_owner_sels)
qed

lemma start_takes_effect:
  fixes w :: "(backends \<times> 'h) world"
  assumes "model_at (mh_admin s) r (fst (w_kernel w))" and "bs_states (fst (w_kernel w)) r = Some st"
    and "settled st" and "runs_staged st"
    and run: "start_all (model_sysfs n) s w = (Inr (Inr (), s'), w')"
  shows "\<exists>st'. bs_states (fst (w_kernel w')) r = Some st' \<and> settled st' \<and> runs_staged st'
    \<and> length (mh_states s') = length (mh_states s)
    \<and> (\<forall>i<length (mh_states s). reads_on st' i \<and> uses_staged st' i)"
proof -
  have "moved (\<lambda>_. runs_staged) (mh_admin s) r st (w_kernel w)" using assms by (simp add: moved_def)
  from start_all_checked [OF run this] obtain w1 where
    w1: "moved (\<lambda>_. runs_staged) (mh_admin s) r st (w_kernel w1)" "mh_admin s' = mh_admin s"
      "all_running s'" "length (mh_states s') = length (mh_states s)"
    and check: "verify_owned_state (model_sysfs n) s' w1 = (Inr (), w')" by blast
  obtain st1 where st1: "model_at (mh_admin s) r (fst (w_kernel w1))"
    "bs_states (fst (w_kernel w1)) r = Some st1" "settled st1" "runs_staged st1"
    using w1(1) by (auto simp: moved_def)
  then have "moved read_from (mh_admin s) r st1 (w_kernel w1)" by (simp add: moved_def read_from_def)
  from findsD [OF owned_state_finds [OF w1(2)] this check]
  have after: "moved read_from (mh_admin s) r st1 (w_kernel w')"
    and seen: "\<forall>i<length (mh_states s'). case mh_states s' ! i of Running _ \<Rightarrow> reads_on st1 i | _ \<Rightarrow> True"
    by auto
  from after obtain st' where st': "bs_states (fst (w_kernel w')) r = Some st'" "settled st'" "read_from st1 st'"
    by (auto simp: moved_def)
  have on: "reads_on st1 i" if "i < length (mh_states s)" for i
  proof -
    have "is_running_state (mh_states s' ! i)" using w1(3,4) that by (simp add: all_running_def)
    with seen that w1(4) show ?thesis by (auto simp: is_running_state_def split: session_state.splits)
  qed
  have same: "reads_on st' = reads_on st1" "uses_staged st' = uses_staged st1"
    using st'(3) by (simp_all add: read_from_def reads_on_def uses_staged_def fun_eq_iff)
  with st' on st1(4) w1(4) show ?thesis by (auto simp: runs_staged_def)
qed

end
