(* ===== verification/Backend_Liveness.thy ===== *)
theory Backend_Liveness
  imports Backend_Starts
begin

text \<open>
  A start on a model that holds the staged files succeeds: total correctness, the other half of
  \<^verbatim>\<open>Backend_Starts\<close>. The calls are followed one by one, each with the value it returns and the state
  it leaves.
\<close>

section \<open>Computations that return\<close>

text \<open>The model is at its root in the state \<open>st\<close>, up to its counters of reads and writes.\<close>

definition model_in :: "path \<Rightarrow> nat \<Rightarrow> backend \<Rightarrow> backends \<times> 'h \<Rightarrow> bool" where
  "model_in admin r st k \<longleftrightarrow> model_at admin r (fst k)
     \<and> (\<exists>a b. bs_states (fst k) r = Some (st\<lparr>be_reads := a, be_writes := b\<rparr>))"

definition gives :: "('k \<Rightarrow> bool) \<Rightarrow> ('k, 'a) comp \<Rightarrow> 'a \<Rightarrow> ('k \<Rightarrow> bool) \<Rightarrow> bool" where
  "gives J m x J' \<longleftrightarrow> (\<forall>w. J (w_kernel w) \<longrightarrow> (\<exists>w'. m w = (Inr x, w') \<and> J' (w_kernel w')))"

lemma givesI: "(\<And>w. J (w_kernel w) \<Longrightarrow> \<exists>w'. m w = (Inr x, w') \<and> J' (w_kernel w')) \<Longrightarrow> gives J m x J'"
  by (simp add: gives_def)

lemma givesD:
  assumes "gives J m x J'" "J (w_kernel w)"
  obtains w' where "m w = (Inr x, w')" "J' (w_kernel w')"
  using assms unfolding gives_def by blast

lemma gives_sret: "gives J (sret x) x J"
  by (simp add: gives_def sret_def)

lemma gives_slift: "r = Inr x \<Longrightarrow> gives J (slift r) x J"
  by (simp add: gives_def slift_def)

lemma gives_sbind: "gives J m x J1 \<Longrightarrow> gives J1 (f x) y J2 \<Longrightarrow> gives J (sbind m f) y J2"
  unfolding gives_def sbind_def by fastforce

lemma gives_retry: "gives J m x J' \<Longrightarrow> gives J (retry_busy E m) x J'"
  unfolding retry_busy_def
  by (subst retry_from.simps) (fastforce simp: gives_def stry_def sret_def)

lemma gives_seach: "(\<And>x. x \<in> set xs \<Longrightarrow> gives J (f x) () J) \<Longrightarrow> gives J (seach f xs) () J"
  by (induction xs) (auto intro: gives_sret gives_sbind)

text \<open>The same for the owner, whose state goes from \<open>s\<close> to \<open>s'\<close>.\<close>

definition moves :: "('k \<Rightarrow> bool) \<Rightarrow> ('s, 'k, 'a) stcomp \<Rightarrow> 's \<Rightarrow> 'a \<Rightarrow> 's \<Rightarrow> ('k \<Rightarrow> bool) \<Rightarrow> bool" where
  "moves J m s x s' J' \<longleftrightarrow> gives J (m s) (Inr x, s') J'"

lemma moves_mread: "gives J (c s) x J' \<Longrightarrow> moves J (mread c) s x s J'"
  unfolding moves_def gives_def mread_def stry_def sret_def by fastforce

lemma moves_mcatch: "moves J m s x s1 J1 \<Longrightarrow> moves J1 (f (Inr x)) s1 y s2 J2 \<Longrightarrow> moves J (mcatch m f) s y s2 J2"
  unfolding moves_def mcatch_def by (erule gives_sbind) (simp only: prod.case)

lemma moves_mbind: "moves J m s x s1 J1 \<Longrightarrow> moves J1 (f x) s1 y s2 J2 \<Longrightarrow> moves J (mbind m f) s y s2 J2"
  unfolding mbind_def by (rule moves_mcatch) simp_all

lemma moves_mret: "moves J (mret x) s x s J"
  by (simp add: moves_def mret_def gives_sret)

lemma moves_mset_state: "moves J (mset_state i v) s () (s\<lparr>mh_states := (mh_states s)[i := v]\<rparr>) J"
  by (simp add: moves_def mset_state_def gives_sret)

section \<open>Reading\<close>

lemma model_in_served:
  assumes k: "model_in admin r st k"
    and f: "\<And>a b. \<exists>a' b'. f (map Normal names) (st\<lparr>be_reads := a, be_writes := b\<rparr>)
      = (Inr x, st'\<lparr>be_reads := a', be_writes := b'\<rparr>)"
  shows "\<exists>k'. served (admin @ map Normal names) f k = (Inr x, k') \<and> model_in admin r st' k'"
proof -
  let ?p = "admin @ map Normal names"
  obtain a b where res: "resolves_to ?p (fst k) r (map Normal names) (st\<lparr>be_reads := a, be_writes := b\<rparr>)"
    using k by (auto simp: model_in_def model_at_def resolves_to_def)
  obtain a' b' where run: "f (map Normal names) (st\<lparr>be_reads := a, be_writes := b\<rparr>)
      = (Inr x, st'\<lparr>be_reads := a', be_writes := b'\<rparr>)"
    using f by blast
  let ?bs = "(snd (resolve ?p (fst k)))\<lparr>bs_states := (bs_states (fst k))(r \<mapsto> st'\<lparr>be_reads := a', be_writes := b'\<rparr>)\<rparr>"
  have called: "backend_call ?p f (fst k) = (Some (Inr x), ?bs)"
    by (simp add: backend_call_resolved [OF res] run)
  then have "model_at admin r ?bs"
    using k model_at_call [of admin r "fst k" ?p f] by (simp add: model_in_def)
  moreover have "bs_states ?bs r = Some (st'\<lparr>be_reads := a', be_writes := b'\<rparr>)" by simp
  moreover have "served ?p f k = (Inr x, (?bs, snd k))"
    using called by (simp add: served_def answer_def)
  ultimately show ?thesis unfolding model_in_def by (metis fst_conv)
qed

lemma model_in_opens:
  assumes "settled st" and "model_in admin r st (w_kernel w)"
    and "lookup st (map Normal names) = Some (File v)"
  shows "\<exists>k. opens (model_sysfs n) (admin @ map Normal names) w (whole v) k \<and> model_in admin r st k"
proof -
  have "\<exists>a' b'. B_read (map Normal names) (st\<lparr>be_reads := a, be_writes := b\<rparr>)
      = (Inr (Inr v), st\<lparr>be_reads := a', be_writes := b'\<rparr>)" for a b
    using assms(1,3)
    by (intro exI [of _ "Suc a"] exI [of _ b])
      (simp add: settled_def B_read_def bbind_def bret_def apply_hooks_def node_content_def)
  from model_in_served [where f = B_read and names = names, OF assms(2) this] show ?thesis by (auto simp: model_sysfs_def)
qed

lemmas content_reads = read_text_content [OF _ holds_whole] read_configuration_value_equals_content [OF _ holds_whole]
  read_u64_content [OF _ holds_whole]

lemma reads_give:
  assumes st: "settled st" and q: "lookup st (map Normal names) = Some (File v)"
  shows "utf8_valid v \<Longrightarrow> gives (model_in admin r st) (read_text (model_sysfs n) (admin @ map Normal names)) v
      (model_in admin r st)"
    and "v = u \<or> v = u @ newline \<Longrightarrow> gives (model_in admin r st)
      (read_configuration_value_equals (model_sysfs n) (admin @ map Normal names) u) True (model_in admin r st)"
    and "length v < 64 \<Longrightarrow> utf8_valid v \<Longrightarrow> parse_u64 (trim v) = Some i \<Longrightarrow> gives (model_in admin r st)
      (read_u64 (model_sysfs n) (admin @ map Normal names)) i (model_in admin r st)"
  by (rule givesI, drule model_in_opens [OF st _ q, where n = n], force simp: content_reads ok_or_def)+

lemma kdamond_paths:
  "sub admin [''kdamonds'', ''nr_kdamonds''] = admin @ map Normal [''kdamonds'', ''nr_kdamonds'']"
  "sub (Admin_kdamond admin i) [''state''] = admin @ map Normal [''kdamonds'', dec i, ''state'']"
  "sub (Admin_kdamond admin i) [''pid''] = admin @ map Normal [''kdamonds'', dec i, ''pid'']"
  "state_of i = map Normal [''kdamonds'', dec i, ''state'']"
  "pid_of i = map Normal [''kdamonds'', dec i, ''pid'']"
  by (simp_all add: state_of_def pid_of_def kdamond_dir_def Admin_kdamond_def child_def sub_def)

lemma trim_lines:
  "trim (CHR ''o'' # CHR ''n'' # newline) = ''on''" "trim (CHR ''o'' # CHR ''f'' # CHR ''f'' # newline) = ''off''"
  by code_simp+

abbreviation count_file :: path where "count_file \<equiv> map Normal [''kdamonds'', ''nr_kdamonds'']"

text \<open>The count file shows \<open>n\<close> to its reader.\<close>

definition shows_count :: "backend \<Rightarrow> nat \<Rightarrow> bool" where
  "shows_count st n \<longleftrightarrow> (\<exists>v c. lookup st count_file = Some (File v) \<and> length v < 64 \<and> utf8_valid v
     \<and> parse_u64 (trim v) = Some c \<and> unat c = n)"

lemma count_gives:
  assumes "settled st" "shows_count st m"
  shows "gives (model_in admin r st) (Admin_kdamond_count (model_sysfs n) admin) m (model_in admin r st)"
proof -
  obtain v c where v: "lookup st count_file = Some (File v)" "length v < 64" "utf8_valid v"
      "parse_u64 (trim v) = Some c" and c: "unat c = m"
    using assms(2) by (auto simp: shows_count_def)
  show ?thesis
    unfolding Admin_kdamond_count_def read_usize_def kdamond_paths
    by (rule gives_sbind [OF reads_give(3) [OF assms(1) v]]) (simp add: c gives_sret)
qed

lemma state_gives:
  assumes "settled st" "lookup st (state_of i) = Some (File (v @ newline))" "v \<in> {''on'', ''off''}"
  shows "gives (model_in admin r st) (Kdamond_state (model_sysfs n) (Admin_kdamond admin i))
    (if v = ''on'' then StateOn else StateOff) (model_in admin r st)"
proof -
  have "utf8_valid (v @ newline)" "trim (v @ newline) = v"
    using assms(3) by (auto simp: trim_lines intro!: utf8_ascii simp: byte_val_def)
  then show ?thesis
    unfolding Kdamond_state_def kdamond_paths
    using assms(3) by (intro gives_sbind [OF reads_give(1) [OF assms(1) assms(2) [unfolded kdamond_paths]]])
      (auto intro!: gives_slift simp: KdamondState_from_str_def KdamondState_parse_def and_then_def
        validate_token_def byte_val_def ascii_whitespace_def)
qed

lemma pid_gives:
  assumes "settled st" "lookup st (pid_of i) = Some (File (dec_word (pid_raw p) @ newline))" "valid_pid p"
  shows "gives (model_in admin r st) (Kdamond_pid (model_sysfs n) (Admin_kdamond admin i)) (Some p)
    (model_in admin r st)"
proof -
  define m where "m = unat (pid_raw p)"
  have m: "m < 2 ^ 31" "of_nat m = pid_raw p" using assms(3) by (simp_all add: m_def valid_pid_def)
  have shown: "dec_word (pid_raw p) = dec_int (int m)" "trim (dec_int (int m) @ newline) = dec_int (int m)"
    by (simp_all add: m_def dec_word_def dec_int_def)
  have "gives (model_in admin r st) (read_i32 (model_sysfs n) (sub (Admin_kdamond admin i) [''pid'']))
      (int m) (model_in admin r st)"
    unfolding read_i32_def kdamond_paths
    by (rule gives_sbind [OF reads_give(1) [OF assms(1) assms(2) [unfolded kdamond_paths] utf8_dec_word(2)]])
      (use m(1) in \<open>simp add: shown parse_i32_dec_int gives_sret\<close>)
  then show ?thesis
    unfolding Kdamond_pid_def
    by (rule gives_sbind) (simp add: m(2) Pid_new_valid [OF assms(3)] gives_sret)
qed

section \<open>Switching one kdamond on\<close>

text \<open>What the kernel requires of a kdamond before it starts it.\<close>

definition startable :: "backend \<Rightarrow> nat \<Rightarrow> bool" where
  "startable st i \<longleftrightarrow>
     lookup st (state_of i) = Some (File (''off'' @ newline))
     \<and> lookup st (sub (kdamond_dir i) [''contexts'', ''nr_contexts'']) = Some (File (''1'' @ newline))
     \<and> (\<exists>v. selected_operations (kdamond_dir i) st = Inr v \<and> listed_value_contains (be_available st) v = Inr True)
     \<and> fst (validate_sample_primitives (kdamond_dir i) st) = Inr ()"

definition started :: "nat \<Rightarrow> backend \<Rightarrow> backend" where
  "started i st = State_file (pid_of i) (dec_word (be_next_pid st + 1) @ newline)
     (State_file (state_of i) (''on'' @ newline)
       ((capture_active_files (kdamond_dir i) st)\<lparr>be_next_pid := be_next_pid st + 1\<rparr>))"

lemma lookup_started:
  "lookup (started i st) q = (if q = pid_of i then Some (File (dec_word (be_next_pid st + 1) @ newline))
     else if q = state_of i then Some (File (''on'' @ newline)) else lookup st q)"
  by (simp add: started_def State_file_def capture_active_files_def Let_def)

text \<open>The files other than the state and identifier files of the first \<open>n\<close> kdamonds are the same.\<close>

definition same_files :: "nat \<Rightarrow> backend \<Rightarrow> backend \<Rightarrow> bool" where
  "same_files n st st' \<longleftrightarrow> (\<forall>q. (\<forall>i<n. q \<noteq> state_of i \<and> q \<noteq> pid_of i) \<longrightarrow> lookup st' q = lookup st q)"

lemma same_files_refl: "same_files n st st"
  by (simp add: same_files_def)

lemma same_files_trans: "same_files n st st1 \<Longrightarrow> same_files n st1 st2 \<Longrightarrow> same_files n st st2"
  by (simp add: same_files_def)

lemma same_files_started: "i < n \<Longrightarrow> same_files n st (started i st)"
  by (auto simp: same_files_def lookup_started)

lemma started_fields [simp]:
  "be_failures (started i st) = be_failures st" "be_hooks (started i st) = be_hooks st"
  "be_next_pid (started i st) = be_next_pid st + 1" "be_available (started i st) = be_available st"
  by (simp_all add: started_def State_file_def capture_active_files_def Let_def)

lemma started_counters:
  "started i (st\<lparr>be_reads := a, be_writes := b\<rparr>) = (started i st)\<lparr>be_reads := a, be_writes := b\<rparr>"
  by (simp add: started_def State_file_def capture_active_files_def Let_def)

lemma validate_lookup:
  assumes "\<And>name. lookup st' (sub k [''contexts'', ''0'', ''monitoring_attrs'', ''sample'', ''primitives'', name])
    = lookup st (sub k [''contexts'', ''0'', ''monitoring_attrs'', ''sample'', ''primitives'', name])"
  shows "fst (validate_sample_primitives k st') = fst (validate_sample_primitives k st)"
  by (simp add: validate_sample_primitives_def Let_def bbind_def bget_def bret_def primitive_enabled_def assms
      split: sum.split option.split)

lemma startable_lookup:
  assumes "\<And>q. starts_with q (kdamond_dir i) \<Longrightarrow> q \<noteq> pid_of i \<Longrightarrow> lookup st' q = lookup st q"
    and "be_available st' = be_available st"
  shows "startable st' i = startable st i"
proof -
  have below: "lookup st' (sub (kdamond_dir i) (name # names)) = lookup st (sub (kdamond_dir i) (name # names))"
    if "name \<noteq> ''pid''" for name names
    by (rule assms(1)) (use that in \<open>auto simp: starts_with_iff strip_prefix_def pid_of_def sub_def\<close>)
  have state: "lookup st' (state_of i) = lookup st (state_of i)"
    unfolding state_of_def by (rule below) simp
  have "fst (validate_sample_primitives (kdamond_dir i) st') = fst (validate_sample_primitives (kdamond_dir i) st)"
    by (rule validate_lookup) (simp add: below)
  then show ?thesis
    by (simp add: startable_def state below selected_operations_def assms(2))
qed

lemma startable_simps [simp]: "startable (st\<lparr>be_reads := a, be_writes := b\<rparr>) i = startable st i"
  by (rule startable_lookup) simp_all

lemma startable_started: "i \<noteq> j \<Longrightarrow> startable (started i st) j = startable st j"
proof (rule startable_lookup)
  fix q assume "i \<noteq> j" and q: "starts_with q (kdamond_dir j)" "q \<noteq> pid_of j"
  then have "q \<noteq> state_of i" "q \<noteq> pid_of i"
    using kdamond_files_differ [OF q(1), of i] by (auto simp: state_files_differ(2) [THEN not_sym])
  then show "lookup (started i st) q = lookup st q" by (simp add: lookup_started)
qed simp

lemma start_writes:
  assumes "startable st i" and "be_failures st = []" and "unat (be_next_pid st) + 1 < 2 ^ 31"
  shows "State_write (state_of i) ''on'' st = (Inr (), started i st)"
proof -
  have off: "lookup st (state_of i) = Some (File (''off'' @ newline))" and "\<not> is_on st (state_of i)"
    and one: "lookup st (sub (kdamond_dir i) [''contexts'', ''nr_contexts'']) = Some (File (''1'' @ newline))"
    using assms(1) by (simp_all add: startable_def is_on_def)
  obtain v where v: "selected_operations (kdamond_dir i) st = Inr v" "listed_value_contains (be_available st) v = Inr True"
    using assms(1) by (auto simp: startable_def)
  have "validate_sample_primitives (kdamond_dir i) st = (Inr (), st)"
    using assms(1) within_D [OF checks_pure(1), of "kdamond_dir i" st]
    by (cases "validate_sample_primitives (kdamond_dir i) st") (simp add: startable_def)
  moreover have "take_pid ((capture_active_files (kdamond_dir i) st))
      = (Inr (be_next_pid st + 1), (capture_active_files (kdamond_dir i) st)\<lparr>be_next_pid := be_next_pid st + 1\<rparr>)"
    using assms(3) by (simp add: take_pid_def capture_active_files_def Let_def checked_add_def)
  ultimately have "start_kdamond (kdamond_dir i) st = (Inr (), started i st)"
    by (simp add: start_kdamond_def bbind_def bget_def bmodify_def v started_def state_of_def pid_of_def)
  moreover have "parent (state_of i) = Some (kdamond_dir i)" "file_name (state_of i) = Some ''state''"
    by (simp_all add: state_of_def parent_def sub_def file_name_def)
  moreover have "utf8_valid ''on''" by (rule utf8_ascii) (simp add: byte_val_def)
  ultimately show ?thesis
    using assms(2) off one \<open>\<not> is_on st (state_of i)\<close>
    by (simp add: State_write_def bbind_def take_failure_def writable_node_def bget_def write_state_def
        trim_commands obey_def switch_on_def)
qed

lemma settled_started:
  assumes "settled st" "startable st i" "be_failures st = []" "unat (be_next_pid st) + 1 < 2 ^ 31"
  shows "settled (started i st)"
proof -
  have "sound (started i st)"
    using sound_State_write [of "state_of i" "''on''"] start_writes [OF assms(2-4)] assms(1)
    by (auto simp: within_def settled_def dest: spec [of _ st])
  with assms(1) show ?thesis by (simp add: settled_def)
qed

lemma command_gives:
  assumes "settled st" "lookup st (state_of i) = Some (File old)" "c \<in> {CmdOn, CmdOff}"
    and writes: "\<And>a b. State_write (state_of i) (KdamondCommand_kernel_name c) (st\<lparr>be_reads := a, be_writes := b\<rparr>)
      = (Inr (), st'\<lparr>be_reads := a, be_writes := b\<rparr>)" "be_hooks st' = []"
  shows "gives (model_in admin r st) (Kdamond_command (model_sysfs (Suc n)) (Admin_kdamond admin i) c) ()
    (model_in admin r st')"
proof -
  let ?names = "[''kdamonds'', dec i, ''state'']" and ?v = "KdamondCommand_kernel_name c"
  let ?p = "admin @ map Normal ?names"
  have token: "validate_token ''kdamond command'' ?v = Inr ()"
    using assms(3) by (auto simp: validate_token_def byte_val_def ascii_whitespace_def)
  have "\<exists>w'. write_bytes (model_sysfs (Suc n)) ?p ?v w = (Inr (), w') \<and> model_in admin r st' (w_kernel w')"
    if w: "model_in admin r st (w_kernel w)" for w :: "(backends \<times> 'h) world"
  proof -
    have "\<exists>a' b'. writable_node (map Normal ?names) (st\<lparr>be_reads := a, be_writes := b\<rparr>)
        = (Inr (), st\<lparr>be_reads := a', be_writes := b'\<rparr>)" for a b
      using assms(2) unfolding kdamond_paths
      by (intro exI [of _ a] exI [of _ b]) (simp add: writable_node_def bget_def)
    from model_in_served [where f = writable_node and names = ?names, OF w this] obtain k1
      where k1: "served ?p writable_node (w_kernel w) = (Inr (), k1)" "model_in admin r st k1" by blast
    have "\<exists>a' b'. B_write (map Normal ?names) ?v (st\<lparr>be_reads := a, be_writes := b\<rparr>)
        = (Inr (), st'\<lparr>be_reads := a', be_writes := b'\<rparr>)" for a b
      using writes(1) [where a = a and b = b] writes(2) unfolding kdamond_paths
      by (intro exI [of _ a] exI [of _ "Suc b"]) (simp add: B_write_def bbind_def bmodify_def apply_hooks_def)
    from model_in_served [where f = "\<lambda>q. B_write q ?v" and names = ?names, OF k1(2) this]
    obtain k2 where k2: "served ?p (\<lambda>q. B_write q ?v) k1 = (Inr (), k2)" "model_in admin r st' k2" by blast
    with k1 show ?thesis
      by (simp add: write_bytes_def call_def syscall_def sbind_def sret_def record_write_def model_sysfs_def)
  qed
  then show ?thesis
    unfolding Kdamond_command_def kdamond_paths
    by (intro gives_sbind [OF gives_slift] givesI) (simp_all add: token)
qed

lemma on_gives:
  assumes st: "settled st" "startable st i" "be_failures st = []" "unat (be_next_pid st) + 1 < 2 ^ 31"
  shows "gives (model_in admin r st) (Kdamond_command (model_sysfs (Suc n)) (Admin_kdamond admin i) CmdOn) ()
    (model_in admin r (started i st))"
proof (rule command_gives [OF st(1)])
  show "lookup st (state_of i) = Some (File (''off'' @ newline))" using st(2) by (simp add: startable_def)
  show "State_write (state_of i) (KdamondCommand_kernel_name CmdOn) (st\<lparr>be_reads := a, be_writes := b\<rparr>)
      = (Inr (), (started i st)\<lparr>be_reads := a, be_writes := b\<rparr>)" for a b
    using start_writes [of "st\<lparr>be_reads := a, be_writes := b\<rparr>" i] st by (simp add: started_counters)
qed (use st(1) in \<open>simp_all add: settled_def\<close>)

section \<open>The checks of an owner whose files are there\<close>

text \<open>The model holds the count and the configuration files that the owner staged.\<close>

definition holds_entry :: "path \<Rightarrow> backend \<Rightarrow> config_entry \<Rightarrow> bool" where
  "holds_entry admin st e \<longleftrightarrow> (\<exists>names v. ce_path e = admin @ map Normal names
     \<and> \<not> is_runtime_attribute (map Normal names)
     \<and> lookup st (map Normal names) = Some (File v) \<and> (v = ce_value e \<or> v = ce_value e @ newline))"

definition holds_staged :: "backend \<Rightarrow> managed_hierarchy \<Rightarrow> bool" where
  "holds_staged st s \<longleftrightarrow>
     shows_count st (length (mh_states s)) \<and> so_kdamond_count (mh_staged s) = length (mh_states s)
     \<and> (\<forall>e\<in>set (cs_entries (so_configuration (mh_staged s))).
          is_member (so_volatile (mh_staged s)) (ce_path e) \<or> holds_entry (mh_admin s) st e)"

definition runs_as :: "backend \<Rightarrow> nat \<Rightarrow> pid \<Rightarrow> bool" where
  "runs_as st i p \<longleftrightarrow> lookup st (state_of i) = Some (File (''on'' @ newline))
     \<and> lookup st (pid_of i) = Some (File (dec_word (pid_raw p) @ newline)) \<and> valid_pid p \<and> uses_staged st i"

lemma holds_staged_states:
  "length states = length (mh_states s) \<Longrightarrow> holds_staged st (s\<lparr>mh_states := states\<rparr>) = holds_staged st s"
  by (simp add: holds_staged_def)

lemma holds_staged_same:
  assumes "holds_staged st s" "same_files n st st'"
  shows "holds_staged st' s"
proof -
  have entry: "holds_entry admin st' e" if holds: "holds_entry admin st e" for admin e
  proof -
    have "q \<noteq> state_of i \<and> q \<noteq> pid_of i" if "\<not> is_runtime_attribute q" for q i
      using that by (auto simp: is_runtime_attribute_def state_of_def pid_of_def file_name_sub)
    with holds assms(2) show ?thesis unfolding holds_entry_def same_files_def by metis
  qed
  have "lookup st' count_file = lookup st count_file"
    using assms(2) by (simp add: same_files_def kdamond_paths)
  with assms(1) entry show ?thesis unfolding holds_staged_def shows_count_def by fastforce
qed

lemma holds_staged_started: "holds_staged st s \<Longrightarrow> holds_staged (started i st) s"
  by (rule holds_staged_same [OF _ same_files_started [of i "Suc i"]]) simp_all

lemma uses_staged_started:
  assumes "settled st"
  shows "uses_staged (started i st) i" "uses_staged st j \<Longrightarrow> uses_staged (started i st) j"
  using capture_uses_staged(1) [of st i] capture_uses_staged(2) [of st j i] assms by (simp_all add: started_def settled_def)

lemma runs_as_started:
  assumes "settled st"
  shows "valid_pid \<lparr>pid_raw = be_next_pid st + 1\<rparr> \<Longrightarrow> runs_as (started i st) i \<lparr>pid_raw = be_next_pid st + 1\<rparr>"
    and "i \<noteq> j \<Longrightarrow> runs_as st j p \<Longrightarrow> runs_as (started i st) j p"
proof -
  have "pid_of j \<noteq> pid_of i" if "i \<noteq> j"
    using that by (simp add: pid_of_def kdamond_dir_def Admin_kdamond_def child_def sub_def)
  then show "i \<noteq> j \<Longrightarrow> runs_as st j p \<Longrightarrow> runs_as (started i st) j p"
    by (simp add: runs_as_def lookup_started uses_staged_started [OF assms] state_files_differ(2) [THEN not_sym])
qed (simp add: runs_as_def lookup_started uses_staged_started [OF assms] state_files_differ(2) [THEN not_sym])

lemma entries_give:
  assumes "settled st" "\<forall>e\<in>set es. skip e \<or> holds_entry admin st e"
  shows "gives (model_in admin r st) (check_entries (model_sysfs n) skip es) True (model_in admin r st)"
  using assms(2)
proof (induction es)
  case (Cons e es)
  show ?case
  proof (cases "skip e")
    case False
    with Cons.prems obtain names v where e: "ce_path e = admin @ map Normal names"
      "lookup st (map Normal names) = Some (File v)" "v = ce_value e \<or> v = ce_value e @ newline"
      by (auto simp: holds_entry_def)
    with False Cons show ?thesis
      by (auto intro!: gives_sbind [OF reads_give(2) [OF assms(1) e(2,3)]])
  qed (use Cons in simp)
qed (simp add: gives_sret)

lemma staged_checks_give:
  assumes "settled st" "holds_staged st s"
  shows "gives (model_in (mh_admin s) r st) (verify_count (model_sysfs n) (mh_staged s) (mh_admin s)) ()
      (model_in (mh_admin s) r st)"
    and "gives (model_in (mh_admin s) r st) (verify_kdamond_configuration (model_sysfs n) (mh_staged s) (mh_admin s) i) ()
      (model_in (mh_admin s) r st)"
    and "gives (model_in (mh_admin s) r st) (verify_staged (model_sysfs n) (mh_staged s) (mh_admin s)) ()
      (model_in (mh_admin s) r st)"
proof -
  have c: "shows_count st (so_kdamond_count (mh_staged s))"
    and es: "\<forall>e\<in>set (cs_entries (so_configuration (mh_staged s))).
      is_member (so_volatile (mh_staged s)) (ce_path e) \<or> holds_entry (mh_admin s) st e"
    using assms(2) by (auto simp: holds_staged_def)
  show count: "gives (model_in (mh_admin s) r st) (verify_count (model_sysfs n) (mh_staged s) (mh_admin s)) ()
      (model_in (mh_admin s) r st)"
    unfolding verify_count_def
    by (rule gives_sbind [OF count_gives [OF assms(1) c]]) (simp add: gives_sret)
  show "gives (model_in (mh_admin s) r st) (verify_kdamond_configuration (model_sysfs n) (mh_staged s) (mh_admin s) i) ()
      (model_in (mh_admin s) r st)"
    unfolding verify_kdamond_configuration_def snapshot_matches_current_under_except_def
      matches_current_under_except_def Let_def
    by (rule gives_sbind [OF entries_give [OF assms(1)]])
      (use es in \<open>auto simp: gives_sret dest!: set_takeWhileD in_set_dropD\<close>)
  show "gives (model_in (mh_admin s) r st) (verify_staged (model_sysfs n) (mh_staged s) (mh_admin s)) ()
      (model_in (mh_admin s) r st)"
    unfolding verify_staged_def snapshot_matches_current_except_def matches_current_except_def
    by (rule gives_sbind [OF count], rule gives_sbind [OF entries_give [OF assms(1) es]])
      (simp add: gives_sret)
qed

lemma running_pid_gives:
  assumes "settled st" "runs_as st i p"
  shows "gives (model_in admin r st) (running_thread_pid (model_sysfs n) (Admin_kdamond admin i)) p (model_in admin r st)"
    and "gives (model_in admin r st) (current_pid (model_sysfs n) (Admin_kdamond admin i)) p (model_in admin r st)"
proof -
  have state: "gives (model_in admin r st) (Kdamond_state (model_sysfs n) (Admin_kdamond admin i)) StateOn (model_in admin r st)"
    using state_gives [OF assms(1), of i "''on''"] assms(2) by (simp add: runs_as_def)
  have pid: "gives (model_in admin r st) (Kdamond_pid (model_sysfs n) (Admin_kdamond admin i)) (Some p) (model_in admin r st)"
    by (rule pid_gives [OF assms(1)]) (use assms(2) in \<open>simp_all add: runs_as_def\<close>)
  show "gives (model_in admin r st) (running_thread_pid (model_sysfs n) (Admin_kdamond admin i)) p (model_in admin r st)"
    unfolding running_thread_pid_def
    by (rule gives_sbind [OF gives_retry [OF state]], simp, rule gives_sbind [OF gives_retry [OF pid]])
      (simp add: gives_sret)
  show "gives (model_in admin r st) (current_pid (model_sysfs n) (Admin_kdamond admin i)) p (model_in admin r st)"
    unfolding current_pid_def
    by (rule gives_sbind [OF gives_retry [OF pid]]) (simp add: gives_sret)
qed

lemma off_gives:
  assumes "settled st" "startable st i"
  shows "gives (model_in (mh_admin s) r st) (verify_off (model_sysfs n) s i) () (model_in (mh_admin s) r st)"
proof -
  have off: "gives (model_in (mh_admin s) r st) (Kdamond_state (model_sysfs n) (Admin_kdamond (mh_admin s) i)) StateOff
      (model_in (mh_admin s) r st)"
    using state_gives [OF assms(1), of i "''off''"] assms(2) by (simp add: startable_def)
  show ?thesis
    unfolding verify_off_def Hierarchy_kdamond_def
    by (rule gives_sbind [OF gives_retry [OF off]]) (simp add: gives_sret)
qed

lemma expected_gives: "i < length (mh_states s) \<Longrightarrow> mh_states s ! i = Running p \<Longrightarrow> expected_running_pid s i = Inr p"
  by (simp add: expected_running_pid_def validate_kdamond_index_def and_then_def)

lemma identity_gives:
  assumes "settled st" "holds_staged st s" "i < length (mh_states s)" "mh_states s ! i = Running p" "runs_as st i p"
  shows "gives (model_in (mh_admin s) r st) (verify_running_identity_only (model_sysfs n) s i) () (model_in (mh_admin s) r st)"
proof -
  have c: "shows_count st (length (mh_states s))"
    using assms(2) by (simp add: holds_staged_def)
  note index = gives_sbind [OF gives_slift [where r = "validate_kdamond_index s i" and x = "()"]]
  show ?thesis
    unfolding verify_running_identity_only_def verify_running_identity_with_def Hierarchy_kdamond_def
  proof (rule index)
    show "validate_kdamond_index s i = Inr ()" using assms(3) by (simp add: validate_kdamond_index_def)
    show "gives (model_in (mh_admin s) r st)
        (sbind (Admin_kdamond_count (model_sysfs n) (mh_admin s)) (\<lambda>m.
          if m \<noteq> length (mh_states s) then sfail (OwnershipLost ''the staged kdamond count changed'')
          else sbind (slift (expected_running_pid s i)) (\<lambda>expected.
            sbind (current_pid (model_sysfs n) (Admin_kdamond (mh_admin s) i)) (\<lambda>current.
              if current \<noteq> expected then sfail PID_CHANGED else sret ())))) () (model_in (mh_admin s) r st)"
      by (rule gives_sbind [OF count_gives [OF assms(1) c]])
        (auto intro!: gives_sbind [OF gives_slift [OF expected_gives [OF assms(3,4)]]]
          gives_sbind [OF running_pid_gives(2) [OF assms(1,5)]] gives_sret)
  qed
qed

lemma owned_state_gives:
  assumes "settled st" "holds_staged st s" "mh_owns s"
    and all: "\<forall>i<length (mh_states s). \<exists>p. mh_states s ! i = Running p \<and> runs_as st i p"
  shows "gives (model_in (mh_admin s) r st) (verify_owned_state (model_sysfs n) s) () (model_in (mh_admin s) r st)"
proof -
  have "gives (model_in (mh_admin s) r st) (verify_owned_one (model_sysfs n) s i) () (model_in (mh_admin s) r st)"
    if i: "i < length (mh_states s)" for i
  proof -
    obtain p where p: "mh_states s ! i = Running p" "runs_as st i p" using all i by blast
    then show ?thesis
      unfolding verify_owned_one_def verify_running_state_and_identity_without_count_def Hierarchy_kdamond_def
      by (auto intro!: gives_sbind [OF gives_slift [OF expected_gives [OF i p(1)]]]
          gives_sbind [OF running_pid_gives(1) [OF assms(1) p(2)]] gives_sret)
  qed
  then show ?thesis
    using assms(3) unfolding verify_owned_state_def
    by (auto intro!: gives_sbind [OF staged_checks_give(3) [OF assms(1,2)]] gives_seach)
qed

section \<open>Starting all\<close>

abbreviation next_pid :: "backend \<Rightarrow> pid" where
  "next_pid st \<equiv> \<lparr>pid_raw = be_next_pid st + 1\<rparr>"

abbreviation running_as :: "nat \<Rightarrow> pid \<Rightarrow> managed_hierarchy \<Rightarrow> managed_hierarchy" where
  "running_as i p s \<equiv> s\<lparr>mh_states := (mh_states s)[i := Running p]\<rparr>"

lemma start_one_moves:
  assumes st: "settled st" "be_failures st = []" "startable st i" "unat (be_next_pid st) + 1 < 2 ^ 31"
    and s: "holds_staged st s" "i < length (mh_states s)"
  shows "moves (model_in (mh_admin s) r st) (start_one (model_sysfs (Suc n)) i) s () (running_as i (next_pid st) s)
    (model_in (mh_admin s) r (started i st))"
proof -
  let ?E = "model_sysfs (Suc n)" and ?st = "started i st"
  let ?s1 = "s\<lparr>mh_states := (mh_states s)[i := UnidentifiedRunning]\<rparr>" and ?s2 = "running_as i (next_pid st) s"
  have "unat (be_next_pid st + 1) = unat (be_next_pid st) + 1"
    using st(4) by (subst unat_add_lem [THEN iffD1]) simp_all
  then have p: "valid_pid (next_pid st)" using st(4) by (simp add: valid_pid_def)
  have st': "settled ?st" by (rule settled_started [OF st(1,3,2,4)])
  have runs: "runs_as ?st i (next_pid st)" by (rule runs_as_started(1) [OF st(1) p])
  have holds: "holds_staged ?st ?s2" using s(1) by (simp add: holds_staged_started holds_staged_states)
  have on: "moves (model_in (mh_admin s) r st) (mread (\<lambda>s. retry_busy ?E (Kdamond_command ?E (Hierarchy_kdamond s i) CmdOn)))
      s () s (model_in (mh_admin s) r ?st)"
    unfolding Hierarchy_kdamond_def by (rule moves_mread, rule gives_retry, rule on_gives [OF st(1,3,2,4)])
  have pid: "moves (model_in (mh_admin s) r ?st) (mread (\<lambda>s. running_thread_pid ?E (Hierarchy_kdamond s i)))
      ?s1 (next_pid st) ?s1 (model_in (mh_admin s) r ?st)"
    unfolding Hierarchy_kdamond_def by (rule moves_mread) (simp add: running_pid_gives(1) [OF st' runs])
  have set: "moves (model_in (mh_admin s) r ?st) (mset_state i (Running (next_pid st))) ?s1 () ?s2 (model_in (mh_admin s) r ?st)"
    using moves_mset_state [of "model_in (mh_admin s) r ?st" i "Running (next_pid st)" ?s1] by simp
  have identity: "moves (model_in (mh_admin s) r ?st) (mread (\<lambda>s. verify_running_identity_only ?E s i)) ?s2 () ?s2
      (model_in (mh_admin s) r ?st)"
    by (rule moves_mread, rule identity_gives [OF st' holds _ _ runs, simplified]) (use s(2) in simp_all)
  have configuration: "moves (model_in (mh_admin s) r ?st)
      (mread (\<lambda>s. verify_kdamond_configuration ?E (mh_staged s) (mh_admin s) i)) ?s2 () ?s2 (model_in (mh_admin s) r ?st)"
    by (rule moves_mread) (simp add: staged_checks_give(2) [OF st' holds, simplified])
  show ?thesis
    unfolding start_one_def
    by (rule moves_mbind [OF on], rule moves_mbind [OF moves_mset_state], rule moves_mbind [OF pid],
        rule moves_mbind [OF set], rule moves_mbind [OF identity], rule configuration)
qed

lemma start_from_moves:
  assumes "settled st" "be_failures st = []" "holds_staged st s" "mh_owns s" "distinct is"
    and "\<forall>i\<in>set is. i < length (mh_states s) \<and> startable st i" "unat (be_next_pid st) + length is < 2 ^ 31"
    and "\<forall>i<length (mh_states s). i \<notin> set is \<longrightarrow> (\<exists>p. mh_states s ! i = Running p \<and> runs_as st i p)"
  shows "\<exists>s' st'. moves (model_in (mh_admin s) r st) (start_from (model_sysfs (Suc n)) is) s () s'
      (model_in (mh_admin s) r st' :: backends \<times> 'h \<Rightarrow> bool)
    \<and> same_owner s s' \<and> settled st' \<and> be_failures st' = [] \<and> holds_staged st' s'
    \<and> same_files (length (mh_states s)) st st'
    \<and> (\<forall>i<length (mh_states s). \<exists>p. mh_states s' ! i = Running p \<and> runs_as st' i p)"
  using assms
proof (induction "is" arbitrary: st s)
  case Nil
  have "moves (model_in (mh_admin s) r st) (start_from (model_sysfs (Suc n)) []) s () s
      (model_in (mh_admin s) r st :: backends \<times> 'h \<Rightarrow> bool)"
    unfolding start_from.simps
    by (rule moves_mcatch, rule moves_mread, rule owned_state_gives)
      (use Nil.prems in \<open>simp_all add: moves_mret\<close>)
  moreover have "\<forall>i<length (mh_states s). \<exists>p. mh_states s ! i = Running p \<and> runs_as st i p"
    using Nil.prems(8) by simp
  ultimately show ?case using Nil.prems(1-3) same_owner_refl same_files_refl by blast
next
  case (Cons i "is")
  let ?s = "running_as i (next_pid st) s" and ?st = "started i st" and ?E = "model_sysfs (Suc n)"
  have i: "i < length (mh_states s)" "startable st i" "i \<notin> set is" "unat (be_next_pid st) + 1 < 2 ^ 31"
    using Cons.prems(5-7) by auto
  have pid: "unat (be_next_pid st + 1) = unat (be_next_pid st) + 1"
    using i(4) by (subst unat_add_lem [THEN iffD1]) simp_all
  have own: "same_owner s ?s" by (simp add: same_owner_def)
  have "\<exists>s' st'. moves (model_in (mh_admin ?s) r ?st) (start_from ?E is) ?s () s'
      (model_in (mh_admin ?s) r st' :: backends \<times> 'h \<Rightarrow> bool)
    \<and> same_owner ?s s' \<and> settled st' \<and> be_failures st' = [] \<and> holds_staged st' s'
    \<and> same_files (length (mh_states ?s)) ?st st'
    \<and> (\<forall>i<length (mh_states ?s). \<exists>p. mh_states s' ! i = Running p \<and> runs_as st' i p)"
  proof (rule Cons.IH)
    show "settled ?st" by (rule settled_started [OF Cons.prems(1) i(2) Cons.prems(2) i(4)])
    show "holds_staged ?st ?s" using Cons.prems(3) by (simp add: holds_staged_started holds_staged_states)
    show "\<forall>j\<in>set is. j < length (mh_states ?s) \<and> startable ?st j"
    proof
      fix j assume j: "j \<in> set is"
      with i(3) have "i \<noteq> j" by blast
      with j Cons.prems(6) show "j < length (mh_states ?s) \<and> startable ?st j" by (simp add: startable_started)
    qed
    have "valid_pid (next_pid st)" using i(4) by (simp add: valid_pid_def pid)
    then show "\<forall>j<length (mh_states ?s). j \<notin> set is \<longrightarrow> (\<exists>p. mh_states ?s ! j = Running p \<and> runs_as ?st j p)"
      using Cons.prems(8) i(1) runs_as_started [OF Cons.prems(1), of i]
      by (auto simp: nth_list_update)
  qed (use Cons.prems pid in simp_all)
  then obtain s' st' where rest: "moves (model_in (mh_admin s) r ?st) (start_from ?E is) ?s () s'
      (model_in (mh_admin s) r st' :: backends \<times> 'h \<Rightarrow> bool)"
    and after: "same_owner ?s s'" "settled st'" "be_failures st' = []" "holds_staged st' s'"
      "same_files (length (mh_states s)) ?st st'"
      "\<forall>i<length (mh_states s). \<exists>p. mh_states s' ! i = Running p \<and> runs_as st' i p"
    by auto
  have check: "gives (model_in (mh_admin s) r st :: backends \<times> 'h \<Rightarrow> bool)
      (sbind (verify_count ?E (mh_staged s) (mh_admin s)) (\<lambda>_. verify_kdamond_configuration ?E (mh_staged s) (mh_admin s) i))
      () (model_in (mh_admin s) r st)"
    by (rule gives_sbind [OF staged_checks_give(1) [OF Cons.prems(1,3)] staged_checks_give(2) [OF Cons.prems(1,3)]])
  have "moves (model_in (mh_admin s) r st) (start_from ?E (i # is)) s () s'
      (model_in (mh_admin s) r st' :: backends \<times> 'h \<Rightarrow> bool)"
    unfolding start_from.simps
    by (rule moves_mcatch, rule moves_mread, rule check, unfold sum.case,
        rule moves_mcatch [OF start_one_moves [OF Cons.prems(1,2) i(2,4) Cons.prems(3) i(1)]], unfold sum.case, rule rest)
  moreover have "same_files (length (mh_states s)) st st'"
    using same_files_trans [OF same_files_started [OF i(1)]] after(5) by blast
  ultimately show ?case using after own same_owner_trans by blast
qed

lemma start_all_moves:
  assumes "settled st" "be_failures st = []" "holds_staged st s" "mh_owns s" "all_staged s"
    and "\<forall>i<length (mh_states s). startable st i" "unat (be_next_pid st) + length (mh_states s) < 2 ^ 31"
  shows "\<exists>s' st'. moves (model_in (mh_admin s) r st) (start_all (model_sysfs (Suc n))) s () s'
      (model_in (mh_admin s) r st' :: backends \<times> 'h \<Rightarrow> bool)
    \<and> same_owner s s' \<and> settled st' \<and> be_failures st' = [] \<and> holds_staged st' s'
    \<and> same_files (length (mh_states s)) st st'
    \<and> (\<forall>i<length (mh_states s). \<exists>p. mh_states s' ! i = Running p \<and> runs_as st' i p)"
proof -
  have "check_startable 0 (mh_states s) = Inr ()"
    using assms(5) by (simp add: check_startable_Inr_iff all_staged_def)
  then have body: "start_all (model_sysfs (Suc n)) s
    = mbind (mread (\<lambda>s. verify_staged (model_sysfs (Suc n)) (mh_staged s) (mh_admin s))) (\<lambda>_.
        mbind (mread (\<lambda>s. seach (verify_off (model_sysfs (Suc n)) s) [0..<length (mh_states s)])) (\<lambda>_.
          start_from (model_sysfs (Suc n)) [0..<length (mh_states s)])) s"
    using assms(4) by (simp add: start_all_def)
  obtain s' st' where from_here: "moves (model_in (mh_admin s) r st) (start_from (model_sysfs (Suc n)) [0..<length (mh_states s)])
      s () s' (model_in (mh_admin s) r st' :: backends \<times> 'h \<Rightarrow> bool)"
    and after: "same_owner s s'" "settled st'" "be_failures st' = []" "holds_staged st' s'"
      "same_files (length (mh_states s)) st st'"
      "\<forall>i<length (mh_states s). \<exists>p. mh_states s' ! i = Running p \<and> runs_as st' i p"
    using start_from_moves [of st s "[0..<length (mh_states s)]" r n, where 'h = 'h] assms by auto
  have off: "gives (model_in (mh_admin s) r st :: backends \<times> 'h \<Rightarrow> bool)
      (seach (verify_off (model_sysfs (Suc n)) s) [0..<length (mh_states s)]) () (model_in (mh_admin s) r st)"
    by (rule gives_seach, rule off_gives [OF assms(1)]) (use assms(6) in simp)
  have "moves (model_in (mh_admin s) r st)
      (mbind (mread (\<lambda>s. verify_staged (model_sysfs (Suc n)) (mh_staged s) (mh_admin s))) (\<lambda>_.
        mbind (mread (\<lambda>s. seach (verify_off (model_sysfs (Suc n)) s) [0..<length (mh_states s)])) (\<lambda>_.
          start_from (model_sysfs (Suc n)) [0..<length (mh_states s)])))
      s () s' (model_in (mh_admin s) r st' :: backends \<times> 'h \<Rightarrow> bool)"
    by (rule moves_mbind, rule moves_mread, rule staged_checks_give(3) [OF assms(1,3)],
        rule moves_mbind, rule moves_mread, rule off, rule from_here)
  then have "moves (model_in (mh_admin s) r st) (start_all (model_sysfs (Suc n))) s () s'
      (model_in (mh_admin s) r st' :: backends \<times> 'h \<Rightarrow> bool)"
    unfolding moves_def body .
  with after show ?thesis by blast
qed

lemma start_succeeds:
  fixes w :: "(backends \<times> 'h) world"
  assumes "model_at (mh_admin s) r (fst (w_kernel w))" "bs_states (fst (w_kernel w)) r = Some st"
    and "settled st" "be_failures st = []" "holds_staged st s" "mh_owns s" "all_staged s"
    and "\<forall>i<length (mh_states s). startable st i" "unat (be_next_pid st) + length (mh_states s) < 2 ^ 31"
  shows "\<exists>s' w' st'. start_all (model_sysfs (Suc n)) s w = (Inr (Inr (), s'), w')
    \<and> all_running s' \<and> length (mh_states s') = length (mh_states s)
    \<and> bs_states (fst (w_kernel w')) r = Some st' \<and> (\<forall>i<length (mh_states s). reads_on st' i \<and> uses_staged st' i)"
proof -
  have w: "model_in (mh_admin s) r st (w_kernel w)"
    using assms(1,2) unfolding model_in_def
    by (intro conjI exI [of _ "be_reads st"] exI [of _ "be_writes st"]) simp_all
  from start_all_moves [OF assms(3-9), of r n, where 'h = 'h] obtain s' st'
    where run: "gives (model_in (mh_admin s) r st) (start_all (model_sysfs (Suc n)) s) (Inr (), s')
      (model_in (mh_admin s) r st' :: backends \<times> 'h \<Rightarrow> bool)"
    and own: "same_owner s s'" and runs: "\<forall>i<length (mh_states s). \<exists>p. mh_states s' ! i = Running p \<and> runs_as st' i p"
    unfolding moves_def by blast
  obtain w' where w': "start_all (model_sysfs (Suc n)) s w = (Inr (Inr (), s'), w')" "model_in (mh_admin s) r st' (w_kernel w')"
    by (rule givesD [OF run w])
  have len: "length (mh_states s') = length (mh_states s)" using same_owner_sels [OF own] by simp
  then have "all_running s'"
    using runs by (fastforce simp: all_running_def is_running_state_def in_set_conv_nth)
  moreover have "reads_on st' i \<and> uses_staged st' i" if "i < length (mh_states s)" for i
    using runs that trim_lines by (fastforce simp: runs_as_def reads_on_def)
  moreover have "reads_on (st'\<lparr>be_reads := a, be_writes := b\<rparr>) i = reads_on st' i"
    "uses_staged (st'\<lparr>be_reads := a, be_writes := b\<rparr>) i = uses_staged st' i" for a b i
    by (simp_all add: reads_on_def uses_staged_def)
  ultimately show ?thesis using w' len by (auto simp: model_in_def)
qed

end
