(* ===== verification/Backend_Roundtrip.thy ===== *)
theory Backend_Roundtrip
  imports Backend_Liveness
begin

text \<open>
  A stop on a model on which the owner's kdamonds run succeeds, and after a start and a stop the
  owner is the same again and so is every file of the model.
\<close>

section \<open>Switching one kdamond off\<close>

definition stopped :: "nat \<Rightarrow> backend \<Rightarrow> backend" where
  "stopped i st = State_file (pid_of i) (''-1'' @ newline) (State_file (state_of i) (''off'' @ newline) st)"

definition shows_off :: "backend \<Rightarrow> nat \<Rightarrow> bool" where
  "shows_off st i \<longleftrightarrow> lookup st (state_of i) = Some (File (''off'' @ newline)) \<and> lookup st (pid_of i) = Some (File (''-1'' @ newline))"

lemma lookup_stopped:
  "lookup (stopped i st) q = (if q = pid_of i then Some (File (''-1'' @ newline))
     else if q = state_of i then Some (File (''off'' @ newline)) else lookup st q)"
  by (simp add: stopped_def State_file_def)

lemma stopped_fields [simp]:
  "be_failures (stopped i st) = be_failures st" "be_hooks (stopped i st) = be_hooks st"
  by (simp_all add: stopped_def State_file_def)

lemma stopped_counters:
  "stopped i (st\<lparr>be_reads := a, be_writes := b\<rparr>) = (stopped i st)\<lparr>be_reads := a, be_writes := b\<rparr>"
  by (simp add: stopped_def State_file_def)

lemma same_files_stopped: "i < n \<Longrightarrow> same_files n st (stopped i st)"
  by (auto simp: same_files_def lookup_stopped)

lemma other_files: "i \<noteq> j \<Longrightarrow> state_of j \<noteq> state_of i \<and> state_of j \<noteq> pid_of i \<and> pid_of j \<noteq> state_of i \<and> pid_of j \<noteq> pid_of i"
  by (simp add: pid_of_def state_of_def kdamond_dir_def Admin_kdamond_def child_def sub_def)

lemma shows_off_stopped: "shows_off (stopped i st) i" "i \<noteq> j \<Longrightarrow> shows_off (stopped i st) j = shows_off st j"
  using other_files [of i j] by (simp_all add: shows_off_def lookup_stopped)

lemma runs_as_stopped: "i \<noteq> j \<Longrightarrow> runs_as (stopped i st) j p = runs_as st j p"
  using other_files [of i j] by (simp add: runs_as_def lookup_stopped) (simp add: stopped_def)

lemma settled_counters [simp]: "settled (st\<lparr>be_reads := a, be_writes := b\<rparr>) = settled st"
  by (simp add: settled_def sound_def is_on_def)

lemma stop_writes:
  assumes "settled st" "be_failures st = []" "lookup st (state_of i) = Some (File (''on'' @ newline))"
  shows "State_write (state_of i) ''off'' st = (Inr (), stopped i st)"
proof -
  have name: "parent (state_of i) = Some (kdamond_dir i)" "file_name (state_of i) = Some ''state''"
    by (simp_all add: state_of_def parent_def sub_def file_name_def)
  have on: "is_on st (state_of i)" using assms(3) by (simp add: is_on_def)
  then obtain used where "be_active st = Some used"
    using assms(1) soundD(4) [of st "state_of i"] name(2) by (auto simp: settled_def)
  moreover have "utf8_valid ''off''" by (rule utf8_ascii) (simp add: byte_val_def)
  moreover have "stopped i st = State_file (sub (kdamond_dir i) [''pid'']) (''-1'' @ newline)
      (State_file (state_of i) (''off'' @ newline) st)"
    by (simp add: stopped_def pid_of_def)
  ultimately show ?thesis
    using assms(2,3) on name
    by (simp add: State_write_def bbind_def take_failure_def writable_node_def bget_def bmodify_def write_state_def
        trim_commands obey_def switch_off_def)
qed

lemma settled_stopped:
  assumes "settled st" "be_failures st = []" "lookup st (state_of i) = Some (File (''on'' @ newline))"
  shows "settled (stopped i st)"
proof -
  have "sound (stopped i st)"
    using sound_State_write [of "state_of i" "''off''"] stop_writes [OF assms] assms(1)
    by (auto simp: within_def settled_def dest: spec [of _ st])
  with assms(1) show ?thesis by (simp add: settled_def)
qed

lemma stop_one_moves:
  assumes st: "settled st" "be_failures st = []" "runs_as st i p"
    and s: "i < length (mh_states s)" "mh_states s ! i = Running p"
  shows "moves (model_in (mh_admin s) r st) (stop_one (model_sysfs (Suc n)) i) s ()
    (s\<lparr>mh_states := (mh_states s)[i := Staged]\<rparr>) (model_in (mh_admin s) r (stopped i st))"
proof -
  let ?E = "model_sysfs (Suc n)" and ?st = "stopped i st" and ?k = "Admin_kdamond (mh_admin s) i"
  have on: "lookup st (state_of i) = Some (File (''on'' @ newline))" using st(3) by (simp add: runs_as_def)
  have st': "settled ?st" by (rule settled_stopped [OF st(1,2) on])
  have state: "moves (model_in (mh_admin s) r st) (read_state ?E i) s StateOn s (model_in (mh_admin s) r st)"
    unfolding read_state_def Hierarchy_kdamond_def
    by (rule moves_mread, rule gives_retry) (rule state_gives [OF st(1), of i "''on''", simplified], simp add: on)
  have after: "moves (model_in (mh_admin s) r ?st) (read_state ?E i) s StateOff s (model_in (mh_admin s) r ?st)"
    unfolding read_state_def Hierarchy_kdamond_def
    by (rule moves_mread, rule gives_retry) (rule state_gives [OF st', of i "''off''", simplified], simp add: lookup_stopped)
  have pid: "moves (model_in (mh_admin s) r st) (mread (\<lambda>s. current_pid ?E (Hierarchy_kdamond s i))) s p s
      (model_in (mh_admin s) r st)"
    unfolding Hierarchy_kdamond_def by (rule moves_mread, rule running_pid_gives(2) [OF st(1,3)])
  have off: "moves (model_in (mh_admin s) r st) (mread (\<lambda>s. retry_busy ?E (Kdamond_command ?E (Hierarchy_kdamond s i) CmdOff)))
      s () s (model_in (mh_admin s) r ?st)"
    unfolding Hierarchy_kdamond_def
  proof (rule moves_mread, rule gives_retry, rule command_gives [OF st(1) on])
    show "State_write (state_of i) (KdamondCommand_kernel_name CmdOff) (st\<lparr>be_reads := a, be_writes := b\<rparr>)
        = (Inr (), ?st\<lparr>be_reads := a, be_writes := b\<rparr>)" for a b
      using stop_writes [of "st\<lparr>be_reads := a, be_writes := b\<rparr>" i] st(1,2) on
      by (simp add: stopped_counters)
  qed (use st(1) in \<open>simp_all add: settled_def\<close>)
  have "moves (model_in (mh_admin s) r st) (stop_running ?E i p) s () (s\<lparr>mh_states := (mh_states s)[i := Staged]\<rparr>)
      (model_in (mh_admin s) r ?st)"
    unfolding stop_running_def
    by (rule moves_mbind [OF pid], simp, rule moves_mbind [OF off], rule moves_mbind [OF after])
      (simp add: moves_mset_state)
  then have "moves (model_in (mh_admin s) r st) (stop_in_state ?E i (Running p)) s ()
      (s\<lparr>mh_states := (mh_states s)[i := Staged]\<rparr>) (model_in (mh_admin s) r ?st)"
    unfolding stop_in_state_def session_state.case by (intro moves_mbind [OF state]) simp
  then show ?thesis by (simp add: moves_def stop_one_def s(2))
qed

section \<open>Stopping all\<close>

lemma stop_from_moves:
  assumes "settled st" "be_failures st = []" "holds_staged st s" "distinct is"
    and "\<forall>i\<in>set is. i < length (mh_states s) \<and> (\<exists>p. mh_states s ! i = Running p \<and> runs_as st i p)"
    and "\<forall>i<length (mh_states s). i \<notin> set is \<longrightarrow> mh_states s ! i = Staged \<and> shows_off st i"
  shows "\<exists>s' st'. moves (model_in (mh_admin s) r st) (stop_from (model_sysfs (Suc n)) is None) s None s'
      (model_in (mh_admin s) r st' :: backends \<times> 'h \<Rightarrow> bool)
    \<and> same_owner s s' \<and> settled st' \<and> holds_staged st' s' \<and> same_files (length (mh_states s)) st st'
    \<and> (\<forall>i<length (mh_states s). mh_states s' ! i = Staged \<and> shows_off st' i)"
  using assms
proof (induction "is" arbitrary: st s)
  case Nil
  have "moves (model_in (mh_admin s) r st) (stop_from (model_sysfs (Suc n)) [] None) s None s
      (model_in (mh_admin s) r st :: backends \<times> 'h \<Rightarrow> bool)"
    by (simp add: moves_mret)
  moreover have "\<forall>i<length (mh_states s). mh_states s ! i = Staged \<and> shows_off st i" using Nil.prems(6) by simp
  ultimately show ?case using Nil.prems(1-3) same_owner_refl same_files_refl by blast
next
  case (Cons i "is")
  let ?s = "s\<lparr>mh_states := (mh_states s)[i := Staged]\<rparr>" and ?st = "stopped i st" and ?E = "model_sysfs (Suc n)"
  obtain p where i: "i < length (mh_states s)" "i \<notin> set is" "mh_states s ! i = Running p" "runs_as st i p"
    using Cons.prems(4,5) by auto
  have on: "lookup st (state_of i) = Some (File (''on'' @ newline))" using i(4) by (simp add: runs_as_def)
  have own: "same_owner s ?s" by (simp add: same_owner_def)
  have "\<exists>s' st'. moves (model_in (mh_admin ?s) r ?st) (stop_from ?E is None) ?s None s'
      (model_in (mh_admin ?s) r st' :: backends \<times> 'h \<Rightarrow> bool)
    \<and> same_owner ?s s' \<and> settled st' \<and> holds_staged st' s' \<and> same_files (length (mh_states ?s)) ?st st'
    \<and> (\<forall>i<length (mh_states ?s). mh_states s' ! i = Staged \<and> shows_off st' i)"
  proof (rule Cons.IH)
    show "settled ?st" by (rule settled_stopped [OF Cons.prems(1,2) on])
    show "holds_staged ?st ?s"
      using holds_staged_same [OF Cons.prems(3) same_files_stopped [OF i(1)]] by (simp add: holds_staged_states)
    show "\<forall>j\<in>set is. j < length (mh_states ?s) \<and> (\<exists>p. mh_states ?s ! j = Running p \<and> runs_as ?st j p)"
    proof
      fix j assume j: "j \<in> set is"
      with i(2) have "i \<noteq> j" by blast
      with j Cons.prems(5) show "j < length (mh_states ?s) \<and> (\<exists>p. mh_states ?s ! j = Running p \<and> runs_as ?st j p)"
        by (simp add: runs_as_stopped)
    qed
    show "\<forall>j<length (mh_states ?s). j \<notin> set is \<longrightarrow> mh_states ?s ! j = Staged \<and> shows_off ?st j"
    proof (intro allI impI)
      fix j assume j: "j < length (mh_states ?s)" "j \<notin> set is"
      then show "mh_states ?s ! j = Staged \<and> shows_off ?st j"
        using Cons.prems(6) shows_off_stopped [of i] by (cases "j = i") simp_all
    qed
  qed (use Cons.prems in simp_all)
  then obtain s' st' where rest: "moves (model_in (mh_admin s) r ?st) (stop_from ?E is None) ?s None s'
      (model_in (mh_admin s) r st' :: backends \<times> 'h \<Rightarrow> bool)"
    and after: "same_owner ?s s'" "settled st'" "holds_staged st' s'" "same_files (length (mh_states s)) ?st st'"
      "\<forall>i<length (mh_states s). mh_states s' ! i = Staged \<and> shows_off st' i"
    by auto
  have "moves (model_in (mh_admin s) r st) (stop_from ?E (i # is) None) s None s'
      (model_in (mh_admin s) r st' :: backends \<times> 'h \<Rightarrow> bool)"
    unfolding stop_from.simps
    by (rule moves_mcatch, rule moves_mread, rule staged_checks_give(1) [OF Cons.prems(1,3)], unfold sum.case,
        rule moves_mcatch, rule moves_mread, rule staged_checks_give(2) [OF Cons.prems(1,3)], unfold sum.case,
        rule moves_mcatch [OF stop_one_moves [OF Cons.prems(1,2) i(4,1,3)]], unfold sum.case, rule rest)
  moreover have "same_files (length (mh_states s)) st st'"
    using same_files_trans [OF same_files_stopped [OF i(1)]] after(4) by blast
  ultimately show ?case using after own same_owner_trans by blast
qed

lemma stop_all_moves:
  assumes "settled st" "be_failures st = []" "holds_staged st s" "mh_owns s"
    and "\<forall>i<length (mh_states s). \<exists>p. mh_states s ! i = Running p \<and> runs_as st i p"
  shows "\<exists>s' st'. moves (model_in (mh_admin s) r st) (stop_all (model_sysfs (Suc n))) s () s'
      (model_in (mh_admin s) r st' :: backends \<times> 'h \<Rightarrow> bool)
    \<and> same_owner s s' \<and> settled st' \<and> same_files (length (mh_states s)) st st'
    \<and> (\<forall>i<length (mh_states s). mh_states s' ! i = Staged \<and> shows_off st' i)"
proof -
  let ?E = "model_sysfs (Suc n)" and ?all = "rev [0..<length (mh_states s)]"
  obtain s' st' where from_here: "moves (model_in (mh_admin s) r st) (stop_from ?E ?all None) s None s'
      (model_in (mh_admin s) r st' :: backends \<times> 'h \<Rightarrow> bool)"
    and after: "same_owner s s'" "settled st'" "holds_staged st' s'" "same_files (length (mh_states s)) st st'"
      "\<forall>i<length (mh_states s). mh_states s' ! i = Staged \<and> shows_off st' i"
    using stop_from_moves [of st s ?all r n, where 'h = 'h] assms by auto
  have admin: "mh_admin s' = mh_admin s" using same_owner_sels [OF after(1)] by simp
  have check: "moves (model_in (mh_admin s) r st') (mread (\<lambda>s. verify_staged ?E (mh_staged s) (mh_admin s))) s' () s'
      (model_in (mh_admin s) r st' :: backends \<times> 'h \<Rightarrow> bool)"
    unfolding admin [symmetric] by (rule moves_mread, rule staged_checks_give(3) [OF after(2,3)])
  have "moves (model_in (mh_admin s) r st)
      (mbind (mread (\<lambda>s. verify_count ?E (mh_staged s) (mh_admin s))) (\<lambda>_.
        mbind (stop_from ?E ?all None) (\<lambda>first_error.
          case first_error of
            Some e \<Rightarrow> mfail e
          | None \<Rightarrow> mread (\<lambda>s. verify_staged ?E (mh_staged s) (mh_admin s)))))
      s () s' (model_in (mh_admin s) r st' :: backends \<times> 'h \<Rightarrow> bool)"
    by (rule moves_mbind, rule moves_mread, rule staged_checks_give(1) [OF assms(1,3)],
        rule moves_mbind [OF from_here], unfold option.case, rule check)
  then have "moves (model_in (mh_admin s) r st) (stop_all ?E) s () s'
      (model_in (mh_admin s) r st' :: backends \<times> 'h \<Rightarrow> bool)"
    unfolding moves_def stop_all_def using assms(4) by simp
  with after show ?thesis by blast
qed

section \<open>A start and a stop\<close>

lemma start_stop_restores:
  fixes w :: "(backends \<times> 'h) world"
  assumes "model_at (mh_admin s) r (fst (w_kernel w))" "bs_states (fst (w_kernel w)) r = Some st"
    and "settled st" "be_failures st = []" "holds_staged st s" "mh_owns s" "all_staged s"
    and "\<forall>i<length (mh_states s). startable st i \<and> shows_off st i" "unat (be_next_pid st) + length (mh_states s) < 2 ^ 31"
  shows "\<exists>s1 w1 w2 st2. start_all (model_sysfs (Suc n)) s w = (Inr (Inr (), s1), w1)
    \<and> stop_all (model_sysfs (Suc n)) s1 w1 = (Inr (Inr (), s), w2)
    \<and> bs_states (fst (w_kernel w2)) r = Some st2 \<and> lookup st2 = lookup st"
proof -
  let ?n = "length (mh_states s)"
  have w: "model_in (mh_admin s) r st (w_kernel w)"
    using assms(1,2) unfolding model_in_def
    by (intro conjI exI [of _ "be_reads st"] exI [of _ "be_writes st"]) simp_all
  have startable: "\<forall>i<?n. startable st i" using assms(8) by blast
  from start_all_moves [OF assms(3-7) startable assms(9), of r n, where 'h = 'h] obtain s1 st1
    where start: "gives (model_in (mh_admin s) r st) (start_all (model_sysfs (Suc n)) s) (Inr (), s1)
      (model_in (mh_admin s) r st1 :: backends \<times> 'h \<Rightarrow> bool)"
    and own1: "same_owner s s1" and st1: "settled st1" "be_failures st1 = []" "holds_staged st1 s1"
      "same_files ?n st st1"
    and runs: "\<forall>i<?n. \<exists>p. mh_states s1 ! i = Running p \<and> runs_as st1 i p"
    unfolding moves_def by blast
  have s1: "mh_admin s1 = mh_admin s" "mh_owns s1" "length (mh_states s1) = ?n"
    using same_owner_sels [OF own1] assms(6) by simp_all
  from stop_all_moves [OF st1(1-3) s1(2), of r n, where 'h = 'h] runs obtain s2 st2
    where stop: "gives (model_in (mh_admin s) r st1) (stop_all (model_sysfs (Suc n)) s1) (Inr (), s2)
      (model_in (mh_admin s) r st2 :: backends \<times> 'h \<Rightarrow> bool)"
    and own2: "same_owner s1 s2" and st2: "same_files ?n st1 st2"
    and stopped: "\<forall>i<?n. mh_states s2 ! i = Staged \<and> shows_off st2 i"
    unfolding moves_def s1(1,3) by blast
  have own: "same_owner s s2" by (rule same_owner_trans [OF own1 own2])
  then have "length (mh_states s2) = ?n" using same_owner_sels by simp
  then have "mh_states s2 = mh_states s"
    using stopped assms(7) nth_mem by (intro nth_equalityI) (fastforce simp: all_staged_def)+
  with own have same_owner_again: "s2 = s" by (cases s; cases s2) (simp add: same_owner_def)
  have "lookup st2 q = lookup st q" for q
  proof (cases "\<exists>i<?n. q = state_of i \<or> q = pid_of i")
    case True
    then show ?thesis using stopped assms(8) by (auto simp: shows_off_def)
  next
    case False
    then show ?thesis using same_files_trans [OF st1(4) st2] by (auto simp: same_files_def)
  qed
  then have same: "lookup st2 = lookup st" by (rule ext)
  obtain w1 where w1: "start_all (model_sysfs (Suc n)) s w = (Inr (Inr (), s1), w1)" "model_in (mh_admin s) r st1 (w_kernel w1)"
    by (rule givesD [OF start w])
  obtain w2 where "stop_all (model_sysfs (Suc n)) s1 w1 = (Inr (Inr (), s2), w2)" "model_in (mh_admin s) r st2 (w_kernel w2)"
    by (rule givesD [OF stop w1(2)])
  with w1 same_owner_again same show ?thesis by (auto simp: model_in_def)
qed

end
