(* ===== verification/Backend_Checks.thy ===== *)
theory Backend_Checks
  imports Backend_Liveness
begin

text \<open>
  What the checks of ownership find out about a model: reading decides what the files hold, so a
  check succeeds exactly when the model holds the count and the files that were captured.
\<close>

section \<open>Computations that decide\<close>

text \<open>
  From every world in \<open>J\<close> the computation ends in one, and it returns \<open>x\<close> exactly when \<open>P\<close>.
\<close>

definition decides :: "('k \<Rightarrow> bool) \<Rightarrow> ('k, 'a) comp \<Rightarrow> 'a \<Rightarrow> bool \<Rightarrow> bool" where
  "decides J m x P \<longleftrightarrow> (\<forall>w. J (w_kernel w) \<longrightarrow> J (w_kernel (snd (m w))) \<and> (fst (m w) = Inr x \<longleftrightarrow> P))"

lemma decidesI:
  "(\<And>w. J (w_kernel w) \<Longrightarrow> \<exists>r w'. m w = (r, w') \<and> J (w_kernel w') \<and> (r = Inr x \<longleftrightarrow> P)) \<Longrightarrow> decides J m x P"
  unfolding decides_def by fastforce

lemma decides_sret: "decides J (sret y) x (y = x)"
  by (simp add: decides_def sret_def)

lemma decides_sfail: "decides J (sfail e) x False"
  by (simp add: decides_def sfail_def)

lemma decides_if: "decides J m x P \<Longrightarrow> decides J n x Q \<Longrightarrow> decides J (if b then m else n) x (if b then P else Q)"
  by simp

lemma decides_sbind:
  fixes J :: "'k \<Rightarrow> bool" and m :: "('k, 'a) comp"
  assumes m: "decides J m x P" and f: "\<And>y. decides J (f y) z (y = x \<and> Q)"
  shows "decides J (sbind m f) z (P \<and> Q)"
proof (rule decidesI)
  fix w :: "'k world" assume J: "J (w_kernel w)"
  obtain r w1 where run: "m w = (r, w1)" by (cases "m w")
  with m J have one: "J (w_kernel w1)" "r = Inr x \<longleftrightarrow> P" unfolding decides_def by fastforce+
  show "\<exists>r w'. sbind m f w = (r, w') \<and> J (w_kernel w') \<and> (r = Inr z \<longleftrightarrow> P \<and> Q)"
  proof (cases r)
    case (Inl e)
    with run one show ?thesis by (simp add: sbind_def)
  next
    case (Inr y)
    have "J (w_kernel (snd (f y w1)))" "fst (f y w1) = Inr z \<longleftrightarrow> y = x \<and> Q"
      using f [of y] one(1) unfolding decides_def by blast+
    with run one Inr show ?thesis
      by (intro exI [of _ "fst (f y w1)"] exI [of _ "snd (f y w1)"]) (auto simp: sbind_def)
  qed
qed

text \<open>A check of the result.\<close>

lemma decides_check: "decides J m x P \<Longrightarrow> decides J (sbind m (\<lambda>y. if y \<noteq> x then sfail e else sret ())) () P"
  using decides_sbind [of J m x P "\<lambda>y. if y \<noteq> x then sfail e else sret ()" "()" True]
  by (simp add: decides_def sret_def sfail_def)

lemma decides_same: "decides J m True P \<Longrightarrow> decides J (sbind m (\<lambda>same. if \<not> same then sfail e else sret ())) () P"
  using decides_sbind [of J m True P "\<lambda>same. if \<not> same then sfail e else sret ()" "()" True]
  by (simp add: decides_def sret_def sfail_def)

section \<open>Reading decides\<close>

lemma model_in_open:
  assumes "settled st" and w: "model_in admin r st (w_kernel w)"
  obtains (content) v k where "opens (model_sysfs n) (admin @ map Normal names) w (whole v) k"
      "model_in admin r st k" "lookup st (map Normal names) = Some (File v)"
    | (failed) e k where "sys_open_read (model_sysfs n) (admin @ map Normal names) (w_kernel w) = (Inl e, k)"
      "model_in admin r st k" "\<nexists>v. lookup st (map Normal names) = Some (File v)"
proof (cases "\<exists>v. lookup st (map Normal names) = Some (File v)")
  case True
  then show ?thesis using model_in_opens [OF assms, where n = n] content by blast
next
  case False
  then obtain e where e: "node_content (map Normal names) st = Inl e"
    by (cases "node_content (map Normal names) st") (auto simp: node_content_def split: option.splits node.splits)
  have "\<exists>a' b'. B_read (map Normal names) (st\<lparr>be_reads := a, be_writes := b\<rparr>)
      = (Inr (Inl e), st\<lparr>be_reads := a', be_writes := b'\<rparr>)" for a b
    using assms(1) e
    by (intro exI [of _ "Suc a"] exI [of _ b])
      (simp add: settled_def B_read_def bbind_def bret_def apply_hooks_def node_content_def)
  from model_in_served [where f = B_read and names = names, OF w this]
  obtain k where "served (admin @ map Normal names) B_read (w_kernel w) = (Inr (Inl e), k)" "model_in admin r st k"
    by blast
  then show ?thesis using failed False by (simp add: model_sysfs_def)
qed

lemma value_decides:
  assumes "settled st"
  shows "decides (model_in admin r st :: backends \<times> 'h \<Rightarrow> bool) (read_configuration_value_equals (model_sysfs n) (admin @ map Normal names) u) True
    (\<exists>v. lookup st (map Normal names) = Some (File v) \<and> (v = u \<or> v = u @ newline))"
proof (rule decidesI)
  fix w :: "(backends \<times> 'h) world"
  assume w: "model_in admin r st (w_kernel w)"
  show "\<exists>x w'. read_configuration_value_equals (model_sysfs n) (admin @ map Normal names) u w = (x, w')
      \<and> model_in admin r st (w_kernel w')
      \<and> (x = Inr True \<longleftrightarrow> (\<exists>v. lookup st (map Normal names) = Some (File v) \<and> (v = u \<or> v = u @ newline)))"
  proof (cases rule: model_in_open [OF assms w, of n names, case_names content failed])
    case (content v k)
    then show ?thesis by (auto simp: content_reads)
  next
    case (failed e k)
    then show ?thesis
      by (auto simp: read_configuration_value_equals_def syscall_def sbind_def sret_def io_fail_def sfail_def)
  qed
qed

lemma count_decides:
  assumes "settled st"
  shows "decides (model_in admin r st :: backends \<times> 'h \<Rightarrow> bool) (Admin_kdamond_count (model_sysfs n) admin) m (shows_count st m)"
proof (rule decidesI)
  fix w :: "(backends \<times> 'h) world"
  assume w: "model_in admin r st (w_kernel w)"
  let ?names = "[''kdamonds'', ''nr_kdamonds'']"
  show "\<exists>x w'. Admin_kdamond_count (model_sysfs n) admin w = (x, w') \<and> model_in admin r st (w_kernel w')
      \<and> (x = Inr m \<longleftrightarrow> shows_count st m)"
    unfolding Admin_kdamond_count_def read_usize_def kdamond_paths
  proof (cases rule: model_in_open [OF assms w, of n ?names, case_names content failed])
    case (content v k)
    then show "\<exists>x w'. sbind (read_u64 (model_sysfs n) (admin @ map Normal ?names)) (\<lambda>v. sret (unat v)) w = (x, w')
        \<and> model_in admin r st (w_kernel w') \<and> (x = Inr m \<longleftrightarrow> shows_count st m)"
      by (cases "parse_u64 (trim v)")
        (auto simp: content_reads sbind_def sret_def shows_count_def ok_or_def)
  next
    case (failed e k)
    then show "\<exists>x w'. sbind (read_u64 (model_sysfs n) (admin @ map Normal ?names)) (\<lambda>v. sret (unat v)) w = (x, w')
        \<and> model_in admin r st (w_kernel w') \<and> (x = Inr m \<longleftrightarrow> shows_count st m)"
      by (auto simp: read_u64_def call_def syscall_def sbind_def sret_def io_fail_def sfail_def shows_count_def)
  qed
qed

section \<open>The checks of ownership\<close>

definition holds_value :: "path \<Rightarrow> backend \<Rightarrow> config_entry \<Rightarrow> bool" where
  "holds_value admin st e \<longleftrightarrow> (\<exists>names v. ce_path e = admin @ map Normal names
     \<and> lookup st (map Normal names) = Some (File v) \<and> (v = ce_value e \<or> v = ce_value e @ newline))"

lemma entries_decide:
  assumes "settled st" "\<forall>e\<in>set es. \<exists>names. ce_path e = admin @ map Normal names"
  shows "decides (model_in admin r st :: backends \<times> 'h \<Rightarrow> bool) (check_entries (model_sysfs n) skip es) True
    (\<forall>e\<in>set es. skip e \<or> holds_value admin st e)"
  using assms(2)
proof (induction es)
  case (Cons e es)
  let ?J = "model_in admin r st :: backends \<times> 'h \<Rightarrow> bool" and ?P = "\<forall>e\<in>set es. skip e \<or> holds_value admin st e"
  have rest: "decides ?J (check_entries (model_sysfs n) skip es) True ?P" using Cons by simp
  show ?case
  proof (cases "skip e")
    case False
    obtain names where names: "ce_path e = admin @ map Normal names" using Cons.prems by auto
    have "inj Normal" by (simp add: inj_def)
    then have "holds_value admin st e
        \<longleftrightarrow> (\<exists>v. lookup st (map Normal names) = Some (File v) \<and> (v = ce_value e \<or> v = ce_value e @ newline))"
      by (auto simp: holds_value_def names map_injective)
    then have "decides ?J (read_configuration_value_equals (model_sysfs n) (ce_path e) (ce_value e)) True
        (holds_value admin st e)"
      unfolding names using value_decides [OF assms(1), of admin r n names "ce_value e", where 'h = 'h] by simp
    then have "decides ?J (sbind (read_configuration_value_equals (model_sysfs n) (ce_path e) (ce_value e))
        (\<lambda>equal. if \<not> equal then sret False else check_entries (model_sysfs n) skip es)) True (holds_value admin st e \<and> ?P)"
      by (rule decides_sbind) (use rest in \<open>simp add: decides_def sret_def\<close>)
    with False show ?thesis by simp
  next
    case True
    with rest show ?thesis by simp
  qed
qed (simp add: decides_def sret_def)

lemma verify_staged_decides:
  assumes "settled st" "\<forall>e\<in>set (cs_entries (so_configuration so)). \<exists>names. ce_path e = admin @ map Normal names"
  shows "decides (model_in admin r st :: backends \<times> 'h \<Rightarrow> bool) (verify_staged (model_sysfs n) so admin) ()
    (shows_count st (so_kdamond_count so)
      \<and> (\<forall>e\<in>set (cs_entries (so_configuration so)). is_member (so_volatile so) (ce_path e) \<or> holds_value admin st e))"
  unfolding verify_staged_def snapshot_matches_current_except_def matches_current_except_def verify_count_def
  by (rule decides_sbind [OF decides_check [OF count_decides [OF assms(1)]]], simp,
      rule decides_same [OF entries_decide [OF assms]])

end
