(* ===== verification/Properties_Backend.thy ===== *)
theory Properties_Backend
  imports Backend_Roundtrip Backend_Checks Samples
begin

text \<open>Properties of the in-memory kernel of the unit tests, with their witnesses.\<close>

section \<open>A model with no kdamonds\<close>

abbreviation new_model :: backend where "new_model \<equiv> State_new ''vaddr'' ''vaddr'' True"
abbreviation kdamond_count :: path where "kdamond_count \<equiv> sub [] [''kdamonds'', ''nr_kdamonds'']"

lemma new_model_reached: "reached new_model"
  by (rule reached.new) (rule utf8_ascii, simp add: byte_val_def)+

lemma new_model_nodes:
  "be_nodes new_model = [([], Directory), (sub [] [''kdamonds''], Directory), (kdamond_count, File (''0'' @ newline))]"
  "be_failures new_model = []" "be_hooks new_model = []" "be_extensions new_model = []"
  by (simp_all add: State_new_def State_file_def directory_def empty_backend_def sub_def)

lemma kdamond_count_text: "path_text kdamond_count = ''kdamonds/nr_kdamonds''"
  by code_simp

lemma count_accepted: "parse_count ''1'' = Inr 1"
proof -
  have "''1'' = dec 1" by (subst dec.simps) (simp add: digit_char_def)
  then show ?thesis using parse_count_dec [of 1] by simp
qed

lemma new_model_fields:
  "be_active new_model = None" "be_extensions new_model = []" "be_available new_model = ''vaddr''"
  "be_next_pid new_model = 10000" "be_writes new_model = 0"
  by (simp_all add: State_new_def State_file_def directory_def empty_backend_def)

lemma decimals: "dec 0 = ''0''" "dec (Suc 0) = ''1''"
  by (subst dec.simps, simp add: digit_char_def)+

lemma retained_model: "remove_indexed_children (sub [] [''kdamonds'']) new_model = new_model"
proof -
  have "utf8_valid ''nr_kdamonds''" by (rule utf8_ascii) (simp add: byte_val_def)
  moreover have "parse_usize ''nr_kdamonds'' = None" by code_simp
  ultimately have "be_nodes (remove_indexed_children (sub [] [''kdamonds'']) new_model) = be_nodes new_model"
    by (simp add: remove_indexed_children_def retain_nodes_def bt_retain_def new_model_nodes indexed_below_def
        strip_prefix_def sub_def)
  then show ?thesis by (simp add: remove_indexed_children_def retain_nodes_def)
qed

text \<open>The model with one kdamond.\<close>

definition counted_model :: backend where
  "counted_model = State_file kdamond_count (''1'' @ newline) (create_kdamond 0 new_model)"

lemma counted_model_fields:
  "be_hooks counted_model = []" "be_failures counted_model = []" "be_active counted_model = None"
  "be_extensions counted_model = []" "be_available counted_model = ''vaddr''" "be_next_pid counted_model = 10000"
  by (simp_all add: counted_model_def State_file_def create_kdamond_def made_def Let_def new_model_nodes new_model_fields)

lemma new_model_write: "State_write kdamond_count ''1'' new_model = (Inr (), counted_model)"
proof -
  have "take_failure kdamond_count new_model = (Inr (), new_model)"
    "writable_node kdamond_count new_model = (Inr (), new_model)"
    by (simp_all add: take_failure_def writable_node_def bget_def new_model_nodes)
  moreover have "check_value kdamond_count ''1'' new_model = (Inr (), new_model)"
    by (simp add: check_value_def check_type_def must_be_listed_def bbind_def bret_def)
  moreover have "new_model\<lparr>be_active := None\<rparr> = new_model" using new_model_fields(1) by simp
  then have "reconstruct_count kdamond_count 1 new_model = (Inr True, create_kdamond 0 new_model)"
    by (simp add: reconstruct_count_def kdamond_count_text rebuild_kdamonds_def some_kdamond_on_def
        new_model_nodes restore_extension_files_def retained_model create_kdamond_def made_def Let_def new_model_fields)
  ultimately show ?thesis
    by (simp add: State_write_def bbind_def write_attribute_def is_count_path_def kdamond_count_text
        bget_def count_accepted bmodify_def decimals counted_model_def)
qed

lemma new_model_counts:
  "B_write kdamond_count ''1'' new_model = (Inr (), counted_model\<lparr>be_writes := Suc (be_writes counted_model)\<rparr>)"
  by (simp add: B_write_def bbind_def bmodify_def apply_hooks_def new_model_write counted_model_fields)

text \<open>
  C14. Every write that the in-memory kernel accepts, in any state a test can bring it to, is a step
  of the abstract kernel: a start and a commit replace what the running kdamond uses by the files
  staged below it, a commit of goals only its goal files, a stop nothing; the other commands fill
  in reports; an attribute changes itself, and a count leaves exactly the numbered children of its
  directory, up to the files the test added.
\<close>

theorem backend_refines_kernel:
  assumes "reached st" "State_write p v st = (Inr (), st')"
  shows "kernel_step (kernel_of st) p v (kernel_of st')"
  using write_refines [OF reached_sound [OF assms(1)] assms(2)] .

theorem backend_refines_kernel_witness:
  "kernel_step (kernel_of new_model) kdamond_count ''1''
     (kernel_of counted_model)"
  by (rule backend_refines_kernel [OF new_model_reached new_model_write])



text \<open>
  A write that is refused with an error leaves what the running kdamonds use, and every node
  that is not a report of the kdamond commanded.
\<close>

lemma refused_write_stages_nothing:
  assumes "State_write p v st = (Inl (Fault e), st')"
  shows "be_active st' = be_active st
    \<and> {q. lookup st' q \<noteq> lookup st q} \<subseteq> {q. \<exists>k. p = sub k [''state''] \<and> reported k q}"
  using refused_write [OF assms] parent_file_name [of p "''state''"]
  by (auto simp: frames_def split: if_splits)

lemma bad_count_refused:
  "State_write kdamond_count ''x'' new_model = (Inl (Fault (KindError InvalidInput ''invalid count'')), new_model)"
proof -
  have "parse_count ''x'' = Inl (Fault (KindError InvalidInput ''invalid count''))"
    by code_simp
  then show ?thesis
    by (simp add: State_write_def bbind_def bret_def bget_def take_failure_def writable_node_def new_model_nodes
        check_value_def check_type_def must_be_listed_def write_attribute_def is_count_path_def kdamond_count_text)
qed

lemma refused_write_stages_nothing_witness:
  "be_active new_model = be_active new_model
    \<and> {q. lookup new_model q \<noteq> lookup new_model q}
        \<subseteq> {q. \<exists>k. kdamond_count = sub k [''state''] \<and> reported k q}"
  by (rule refused_write_stages_nothing [OF bad_count_refused])

section \<open>A process with one model\<close>

definition one_model :: backends where
  "one_model = snd (Model_new ''vaddr'' \<lparr>bs_process = 1, bs_next = 0, bs_registry = [], bs_states = \<lambda>_. None\<rparr>)"

definition one_world :: "(backends \<times> unit) world" where
  "one_world = \<lparr>w_kernel = (one_model, ()), w_journal = None\<rparr>"

abbreviation model_file :: path where
  "model_file \<equiv> [RootDir, Normal ''__damon_rs_model'', Normal ''1-0''] @ kdamond_count"

lemma one_model_resolves: "resolves_to model_file (fst (w_kernel one_world)) 0 kdamond_count new_model"
proof -
  show ?thesis
    by (simp add: decimals one_world_def one_model_def Model_new_def with_operation_sets_def model_root_def Let_def
        resolves_to_def resolve_def live_entries_def matching_roots_def strip_prefix_def starts_with_def)
qed




text \<open>
  C34. For a file of a model on which no interruption is injected, the writer of the test build and the
  production writer on the model's system calls both succeed or both fail, and leave the same state
  and the same journal.
\<close>

theorem test_writes_agree_with_production:
  assumes "resolves_to p (fst (w_kernel w)) r rest st" and "lookup st rest = Some (File old)"
    and "\<forall>f\<in>set (be_failures st). wf_path f = rest \<longrightarrow> wf_errno f \<noteq> 4"
  shows "same_answer (test_write_bytes E p v w) (write_bytes (model_sysfs (Suc n)) p v w)"
  using test_write_agrees [OF assms] .

theorem test_writes_agree_with_production_witness:
  "same_answer (test_write_bytes (model_sysfs 0) model_file ''1'' one_world)
     (write_bytes (model_sysfs (Suc 0)) model_file ''1'' one_world)"
  by (rule test_writes_agree_with_production [OF one_model_resolves]) (simp_all add: new_model_nodes)

text \<open>
  C15. A production write that succeeds on a reachable model, on whose file no interruption is
  injected, is a step of the abstract kernel, after which the hooks of the write run; the model
  is reachable and found at the same root again, so the next write is such a step too.
\<close>

theorem production_writes_refine_kernel:
  assumes "resolves_to p (fst (w_kernel w)) r rest st" and "reached st"
    and "\<forall>f\<in>set (be_failures st). wf_path f = rest \<longrightarrow> wf_errno f \<noteq> 4"
    and "write_bytes (model_sysfs (Suc n)) p v w = (Inr (), w')"
  shows "\<exists>st1 st'. kernel_step (kernel_of st) rest v (kernel_of st1)
    \<and> apply_hooks (HookWrite rest v) (st1\<lparr>be_writes := Suc (be_writes st1)\<rparr>) = (Inr (), st')
    \<and> resolves_to p (fst (w_kernel w')) r rest st' \<and> reached st'"
  using production_write_steps [OF assms] .

lemma one_model_written:
  "write_bytes (model_sysfs (Suc 0)) model_file ''1'' one_world
    = (Inr (), snd (write_bytes (model_sysfs (Suc 0)) model_file ''1'' one_world))"
proof -
  have "fst (test_write_bytes (model_sysfs 0) model_file ''1'' one_world) = Inr ()"
    unfolding test_write_bytes_def test_branch_def backend_call_resolved [OF one_model_resolves]
    by (simp add: Let_def sbind_def sret_def record_write_def new_model_counts)
  moreover have "same_answer (test_write_bytes (model_sysfs 0) model_file ''1'' one_world)
     (write_bytes (model_sysfs (Suc 0)) model_file ''1'' one_world)"
    by (rule test_write_agrees [OF one_model_resolves]) (simp_all add: new_model_nodes)
  ultimately have "fst (write_bytes (model_sysfs (Suc 0)) model_file ''1'' one_world) = Inr ()"
    by (simp add: same_answer_def)
  then show ?thesis by (metis prod.collapse)
qed

theorem production_writes_refine_kernel_witness:
  "\<exists>st1 st'. kernel_step (kernel_of new_model) kdamond_count ''1'' (kernel_of st1)
    \<and> apply_hooks (HookWrite kdamond_count ''1'') (st1\<lparr>be_writes := Suc (be_writes st1)\<rparr>) = (Inr (), st')
    \<and> resolves_to model_file (fst (w_kernel (snd (write_bytes (model_sysfs (Suc 0)) model_file ''1'' one_world))))
        0 kdamond_count st' \<and> reached st'"
  by (rule production_writes_refine_kernel [OF one_model_resolves new_model_reached _ one_model_written])
    (simp add: new_model_nodes)

lemma one_model_at: "model_at [RootDir, Normal ''__damon_rs_model'', Normal ''1-0''] 0 one_model"
proof -
  show ?thesis
    by (simp add: decimals one_model_def Model_new_def with_operation_sets_def model_root_def Let_def model_at_def
        resolve_def live_entries_def matching_roots_def strip_prefix_def starts_with_def)
qed

lemma one_model_state: "bs_states one_model 0 = Some new_model"
  using one_model_resolves by (simp add: one_world_def resolves_to_def)

abbreviation model_admin :: path where
  "model_admin \<equiv> [RootDir, Normal ''__damon_rs_model'', Normal ''1-0'']"

lemma one_world_model:
  "model_at model_admin 0 (fst (w_kernel one_world))" "bs_states (fst (w_kernel one_world)) 0 = Some new_model"
  "settled new_model"
  using reached_sound [OF new_model_reached]
  by (simp_all add: one_world_def one_model_at one_model_state settled_def new_model_nodes)

text \<open>
  C20. Staging by the production code, of any configuration and with or without the final comparison,
  through the paths of a model on which no hook waits, leaves what the running kdamonds use as it
  was: afterwards the model is at its root and well formed, and if a kdamond runs on it, the
  files the kernel uses are those it used before.
\<close>

theorem staging_keeps_running:
  fixes w :: "(backends \<times> 'h) world"
  assumes "model_at admin r (fst (w_kernel w))" and "bs_states (fst (w_kernel w)) r = Some st" and "settled st"
    and "w' = snd (Admin_stage_configuration ps (model_sysfs n) admin config w)
      \<or> w' = snd (Admin_stage_validated_configuration_from (model_sysfs n) admin config observed w)"
  shows "\<exists>st'. bs_states (fst (w_kernel w')) r = Some st' \<and> model_at admin r (fst (w_kernel w')) \<and> settled st'
    \<and> (be_active st' = be_active st \<or> be_active st' = None \<and> (\<nexists>q. file_name q = Some ''state'' \<and> is_on st' q))"
  using assms(4)
proof (elim disjE)
  let ?T = "traced (sourced (model_sysfs n) (w_kernel w))"
  have "mimics (\<lambda>l. after_calls (model_sysfs n) (w_kernel w) (snd l))
      (Admin_stage_configuration ps ?T admin config) (Admin_stage_configuration ps (model_sysfs n) admin config)"
    by (intro mimics_rules)
  moreover have "writes_only (attribute_of admin) (Admin_stage_configuration ps ?T admin config)"
    by (auto intro: emits_rules)
  ultimately show ?thesis if "w' = snd (Admin_stage_configuration ps (model_sysfs n) admin config w)"
    unfolding that by (rule commandless_keeps_running [OF _ _ assms(1-3)])
next
  let ?T = "traced (sourced (model_sysfs n) (w_kernel w))"
  have "mimics (\<lambda>l. after_calls (model_sysfs n) (w_kernel w) (snd l))
      (Admin_stage_validated_configuration_from ?T admin config observed)
      (Admin_stage_validated_configuration_from (model_sysfs n) admin config observed)"
    by (intro mimics_rules)
  moreover have "writes_only (attribute_of admin) (Admin_stage_validated_configuration_from ?T admin config observed)"
    by (auto intro: emits_rules)
  ultimately show ?thesis if "w' = snd (Admin_stage_validated_configuration_from (model_sysfs n) admin config observed w)"
    unfolding that by (rule commandless_keeps_running [OF _ _ assms(1-3)])
qed

theorem staging_keeps_running_witness:
  "\<exists>st'. bs_states (fst (w_kernel (snd (Admin_stage_configuration 4096 (model_sysfs 1) model_admin sample_damon one_world)))) 0
        = Some st'
    \<and> model_at model_admin 0 (fst (w_kernel (snd (Admin_stage_configuration 4096 (model_sysfs 1) model_admin sample_damon one_world))))
    \<and> settled st'
    \<and> (be_active st' = be_active new_model \<or> be_active st' = None
        \<and> (\<nexists>q. file_name q = Some ''state'' \<and> is_on st' q))"
  by (rule staging_keeps_running [OF one_world_model disjI1 [OF refl]])

section \<open>A model with one kdamond that may start\<close>

text \<open>The contexts are counted and have the operation that this kernel offers.\<close>

abbreviation contexts_count :: path where
  "contexts_count \<equiv> map Normal [''kdamonds'', ''0'', ''contexts'', ''nr_contexts'']"

abbreviation operations_file :: path where
  "operations_file \<equiv> map Normal [''kdamonds'', ''0'', ''contexts'', ''0'', ''operations'']"

definition ready_model :: backend where
  "ready_model = set_file operations_file (''vaddr'' @ newline) (set_file contexts_count (''1'' @ newline)
     (snd (B_write kdamond_count ''1'' new_model)))"

definition ready_world :: "(backends \<times> unit) world" where
  "ready_world = \<lparr>w_kernel = (one_model\<lparr>bs_states := [0 \<mapsto> ready_model]\<rparr>, ()), w_journal = None\<rparr>"

text \<open>An owner of that kdamond that captured one of its files.\<close>

definition ready_owner :: managed_hierarchy where
  "ready_owner =
     \<lparr>mh_admin = model_admin, mh_previous = None,
      mh_staged = \<lparr>so_configuration = \<lparr>cs_root = model_admin,
          cs_entries = [\<lparr>ce_path = model_admin @ contexts_count, ce_value = ''1''\<rparr>]\<rparr>,
        so_volatile = [], so_kdamond_count = 1\<rparr>,
      mh_states = [Staged], mh_owns = True\<rparr>"

lemma ready_model_reached: "reached ready_model"
  unfolding ready_model_def
  by (intro reached.set_file reached.write_file new_model_reached) (simp_all add: file_name_def)

lemma ready_model_fields:
  "be_hooks ready_model = []" "be_failures ready_model = []" "be_next_pid ready_model = 10000"
  "be_available ready_model = ''vaddr''"
  by (simp_all add: ready_model_def set_file_def State_file_def new_model_counts counted_model_fields)

lemma lookup_set_file: "lookup (set_file p v st) = (lookup st)(p \<mapsto> File v)"
  by (rule ext) (simp add: set_file_def State_file_def)

lemma ready_model_nodes:
  "lookup ready_model = (lookup new_model)(sub [] [''kdamonds'', ''0''] \<mapsto> Directory,
     state_of 0 \<mapsto> File (''off'' @ newline), pid_of 0 \<mapsto> File (''-1'' @ newline),
     sub [] [''kdamonds'', ''0'', ''refresh_ms''] \<mapsto> File (''0'' @ newline),
     sub [] [''kdamonds'', ''0'', ''contexts''] \<mapsto> Directory, contexts_count \<mapsto> File (''0'' @ newline),
     kdamond_count \<mapsto> File (''1'' @ newline), contexts_count \<mapsto> File (''1'' @ newline),
     operations_file \<mapsto> File (''vaddr'' @ newline))"
proof -
  have counted: "lookup counted_model = (lookup new_model)(sub [] [''kdamonds'', ''0''] \<mapsto> Directory,
     state_of 0 \<mapsto> File (''off'' @ newline), pid_of 0 \<mapsto> File (''-1'' @ newline),
     sub [] [''kdamonds'', ''0'', ''refresh_ms''] \<mapsto> File (''0'' @ newline),
     sub [] [''kdamonds'', ''0'', ''contexts''] \<mapsto> Directory, contexts_count \<mapsto> File (''0'' @ newline),
     kdamond_count \<mapsto> File (''1'' @ newline))"
    by (rule ext) (simp add: counted_model_def State_file_def create_kdamond_def made_def Let_def bt_extend_def
        state_of_def pid_of_def kdamond_dir_def Admin_kdamond_def sub_def child_def decimals)
  have "lookup (snd (B_write kdamond_count ''1'' new_model)) = lookup counted_model" by (simp add: new_model_counts)
  then show ?thesis by (simp only: ready_model_def lookup_set_file counted)
qed

lemmas ready_paths = state_of_def pid_of_def kdamond_dir_def Admin_kdamond_def sub_def child_def decimals

lemma ready_model_settled: "settled ready_model"
  using reached_sound [OF ready_model_reached] ready_model_fields by (simp add: settled_def)

lemma ready_model_starts: "startable ready_model 0" "shows_off ready_model 0"
proof -
  have files: "lookup ready_model (state_of 0) = Some (File (''off'' @ newline))"
    "lookup ready_model (pid_of 0) = Some (File (''-1'' @ newline))"
    "lookup ready_model (sub (kdamond_dir 0) [''contexts'', ''nr_contexts'']) = Some (File (''1'' @ newline))"
    "lookup ready_model (sub (kdamond_dir 0) [''contexts'', ''0'', ''operations'']) = Some (File (''vaddr'' @ newline))"
    "lookup ready_model (sub (kdamond_dir 0) [''contexts'', ''0'', ''monitoring_attrs'', ''sample'', ''primitives'', name]) = None"
    for name by (simp_all add: ready_model_nodes ready_paths new_model_nodes)
  have "utf8_valid (''vaddr'' @ newline)" by (rule utf8_ascii) (simp add: byte_val_def)
  moreover have "trim (''vaddr'' @ newline) = ''vaddr''" by code_simp
  ultimately have "selected_operations (kdamond_dir 0) ready_model = Inr ''vaddr''"
    by (simp add: selected_operations_def files)
  moreover have "listed_value_contains ''vaddr'' ''vaddr'' = Inr True" by code_simp
  moreover have "fst (validate_sample_primitives (kdamond_dir 0) ready_model) = Inr ()"
    by (simp add: validate_sample_primitives_def Let_def bbind_def bget_def bret_def primitive_enabled_def files)
  ultimately show "startable ready_model 0" "shows_off ready_model 0"
    by (simp_all add: startable_def shows_off_def files ready_model_fields)
qed

lemma ready_model_holds: "holds_staged ready_model ready_owner"
proof -
  have "shows_count ready_model 1"
    unfolding shows_count_def
  proof (intro exI conjI)
    show "lookup ready_model count_file = Some (File (dec_word (1 :: u64) @ newline))"
      by (simp add: ready_model_nodes ready_paths dec_word_def)
    show "parse_u64 (trim (dec_word (1 :: u64) @ newline)) = Some 1"
      using trim_dec(2) [of "unat (1 :: u64)"] parse_u64_dec_word [of 1] by (simp add: dec_word_def)
    show "utf8_valid (dec_word (1 :: u64) @ newline)" by (rule utf8_dec_word)
  qed (simp_all add: dec_word_def decimals)
  moreover have "holds_entry model_admin ready_model \<lparr>ce_path = model_admin @ contexts_count, ce_value = ''1''\<rparr>"
    unfolding holds_entry_def config_entry.select_convs
  proof (intro exI conjI)
    show "model_admin @ contexts_count = model_admin @ contexts_count" by (rule refl)
    show "\<not> is_runtime_attribute contexts_count" by code_simp
    show "lookup ready_model contexts_count = Some (File (''1'' @ newline))"
      by (simp add: ready_model_nodes)
  qed simp
  ultimately show ?thesis
    unfolding holds_staged_def ready_owner_def by simp
qed

lemma ready_world_model:
  "model_at (mh_admin ready_owner) 0 (fst (w_kernel ready_world))"
  "bs_states (fst (w_kernel ready_world)) 0 = Some ready_model"
proof -
  have "model_at model_admin 0 (one_model\<lparr>bs_states := [0 \<mapsto> ready_model]\<rparr>)"
    using one_model_at by (auto simp: model_at_def resolve_def Let_def live_entries_def one_model_def Model_new_def
        with_operation_sets_def)
  then show "model_at (mh_admin ready_owner) 0 (fst (w_kernel ready_world))"
    by (simp add: ready_world_def ready_owner_def)
qed (simp add: ready_world_def)

section \<open>Starts, stops and updates\<close>

text \<open>
  C16. A start by the production code on a model succeeds when the model holds what the owner staged,
  no hook waits and no failure is injected, every kdamond is off, has one context of an operation
  the kernel offers and may be sampled, and the thread identifiers stay positive in 32 bits.
  Afterwards every kdamond is recorded as running, its state file says so, and the kernel uses for
  it exactly the files staged below it.
\<close>

theorem start_succeeds_on_model:
  fixes w :: "(backends \<times> 'h) world"
  assumes "model_at (mh_admin s) r (fst (w_kernel w))" and "bs_states (fst (w_kernel w)) r = Some st"
    and "settled st" and "be_failures st = []" and "holds_staged st s" and "mh_owns s" and "all_staged s"
    and "\<forall>i<length (mh_states s). startable st i" and "unat (be_next_pid st) + length (mh_states s) < 2 ^ 31"
  shows "\<exists>s' w' st'. start_all (model_sysfs (Suc n)) s w = (Inr (Inr (), s'), w')
    \<and> all_running s' \<and> length (mh_states s') = length (mh_states s)
    \<and> bs_states (fst (w_kernel w')) r = Some st' \<and> (\<forall>i<length (mh_states s). reads_on st' i \<and> uses_staged st' i)"
  by (rule start_succeeds [OF assms])

lemma ready_owner_fields:
  "mh_owns ready_owner" "all_staged ready_owner" "length (mh_states ready_owner) = 1"
  "\<forall>i<length (mh_states ready_owner). startable ready_model i"
  "\<forall>i<length (mh_states ready_owner). startable ready_model i \<and> shows_off ready_model i"
  "unat (be_next_pid ready_model) + length (mh_states ready_owner) < 2 ^ 31"
  by (simp_all add: ready_owner_def all_staged_def ready_model_starts ready_model_fields)

lemmas ready = ready_world_model ready_model_settled ready_model_fields(2) ready_model_holds ready_owner_fields(1,2)

theorem start_succeeds_on_model_witness:
  "\<exists>s' w' st'. start_all (model_sysfs (Suc 0)) ready_owner ready_world = (Inr (Inr (), s'), w')
    \<and> all_running s' \<and> length (mh_states s') = length (mh_states ready_owner)
    \<and> bs_states (fst (w_kernel w')) 0 = Some st'
    \<and> (\<forall>i<length (mh_states ready_owner). reads_on st' i \<and> uses_staged st' i)"
  by (rule start_succeeds_on_model [OF ready ready_owner_fields(4,6)])

text \<open>
  C17. A start and then a stop on such a model, whose kdamonds show no thread, both succeed, and
  give back the owner as it was and every file and directory of the model as it was.
\<close>

theorem start_stop_restores_model:
  fixes w :: "(backends \<times> 'h) world"
  assumes "model_at (mh_admin s) r (fst (w_kernel w))" and "bs_states (fst (w_kernel w)) r = Some st"
    and "settled st" and "be_failures st = []" and "holds_staged st s" and "mh_owns s" and "all_staged s"
    and "\<forall>i<length (mh_states s). startable st i \<and> shows_off st i"
    and "unat (be_next_pid st) + length (mh_states s) < 2 ^ 31"
  shows "\<exists>s1 w1 w2 st2. start_all (model_sysfs (Suc n)) s w = (Inr (Inr (), s1), w1)
    \<and> stop_all (model_sysfs (Suc n)) s1 w1 = (Inr (Inr (), s), w2)
    \<and> bs_states (fst (w_kernel w2)) r = Some st2 \<and> lookup st2 = lookup st"
  by (rule start_stop_restores [OF assms])

theorem start_stop_restores_model_witness:
  "\<exists>s1 w1 w2 st2. start_all (model_sysfs (Suc 0)) ready_owner ready_world = (Inr (Inr (), s1), w1)
    \<and> stop_all (model_sysfs (Suc 0)) s1 w1 = (Inr (Inr (), ready_owner), w2)
    \<and> bs_states (fst (w_kernel w2)) 0 = Some st2 \<and> lookup st2 = lookup ready_model"
  by (rule start_stop_restores_model [OF ready ready_owner_fields(5,6)])

text \<open>
  C19. Whenever a start by the production code succeeds on a model on which no hook waits, whatever
  failures are injected and whatever already ran on what was staged for it, every kdamond of the
  owner runs as its state file shows, and the kernel uses for it, as for every kdamond that runs,
  exactly the files staged below it.
\<close>

theorem successful_start_runs_staged:
  fixes w :: "(backends \<times> 'h) world"
  assumes "model_at (mh_admin s) r (fst (w_kernel w))" and "bs_states (fst (w_kernel w)) r = Some st"
    and "settled st" and "runs_staged st"
    and "start_all (model_sysfs n) s w = (Inr (Inr (), s'), w')"
  shows "\<exists>st'. bs_states (fst (w_kernel w')) r = Some st' \<and> settled st' \<and> runs_staged st'
    \<and> length (mh_states s') = length (mh_states s)
    \<and> (\<forall>i<length (mh_states s). reads_on st' i \<and> uses_staged st' i)"
  by (rule start_takes_effect [OF assms])

lemma ready_model_runs_staged: "runs_staged ready_model"
proof -
  have "trim (''off'' @ newline) \<noteq> ''on''" by code_simp
  then have "\<not> reads_on ready_model i" for i
    by (auto simp: reads_on_def ready_model_nodes ready_paths new_model_nodes)
  then show ?thesis by (simp add: runs_staged_def)
qed

theorem successful_start_runs_staged_witness:
  "\<exists>s' w' st'. start_all (model_sysfs (Suc 0)) ready_owner ready_world = (Inr (Inr (), s'), w')
    \<and> bs_states (fst (w_kernel w')) 0 = Some st' \<and> settled st' \<and> runs_staged st'
    \<and> length (mh_states s') = length (mh_states ready_owner)
    \<and> (\<forall>i<length (mh_states ready_owner). reads_on st' i \<and> uses_staged st' i)"
proof -
  obtain s' w' where "start_all (model_sysfs (Suc 0)) ready_owner ready_world = (Inr (Inr (), s'), w')"
    using start_succeeds [OF ready ready_owner_fields(4,6), of 0] by blast
  with successful_start_runs_staged [OF ready_world_model ready_model_settled ready_model_runs_staged this]
  show ?thesis by blast
qed

text \<open>
  C18. On a model on which no hook waits, the check of ownership that precedes and follows every
  operation succeeds exactly when the model shows the staged number of kdamonds and holds every
  captured file that is not ignored, with the value captured.
\<close>

theorem ownership_check_decides:
  fixes w :: "(backends \<times> 'h) world"
  assumes "model_at admin r (fst (w_kernel w))" and "bs_states (fst (w_kernel w)) r = Some st" and "settled st"
    and "\<forall>e\<in>set (cs_entries (so_configuration so)). \<exists>names. ce_path e = admin @ map Normal names"
  shows "fst (verify_staged (model_sysfs n) so admin w) = Inr () \<longleftrightarrow>
    shows_count st (so_kdamond_count so)
      \<and> (\<forall>e\<in>set (cs_entries (so_configuration so)). is_member (so_volatile so) (ce_path e) \<or> holds_value admin st e)"
proof -
  have "model_in admin r st (w_kernel w)"
    using assms(1,2) unfolding model_in_def
    by (intro conjI exI [of _ "be_reads st"] exI [of _ "be_writes st"]) simp_all
  with verify_staged_decides [OF assms(3,4), of r n, where 'h = 'h] show ?thesis unfolding decides_def by blast
qed

theorem ownership_check_decides_witness:
  "fst (verify_staged (model_sysfs 1) (mh_staged ready_owner) (mh_admin ready_owner) ready_world) = Inr () \<longleftrightarrow>
    shows_count ready_model (so_kdamond_count (mh_staged ready_owner))
      \<and> (\<forall>e\<in>set (cs_entries (so_configuration (mh_staged ready_owner))).
           is_member (so_volatile (mh_staged ready_owner)) (ce_path e) \<or> holds_value (mh_admin ready_owner) ready_model e)"
proof (rule ownership_check_decides [OF ready_world_model ready_model_settled])
  show "\<forall>e\<in>set (cs_entries (so_configuration (mh_staged ready_owner))).
      \<exists>names. ce_path e = mh_admin ready_owner @ map Normal names"
    unfolding ready_owner_def managed_hierarchy.select_convs staged_ownership.select_convs config_snapshot.select_convs
    by (auto intro!: exI [of _ "[''kdamonds'', ''0'', ''contexts'', ''nr_contexts'']"])
qed

text \<open>
  C21. An update of selected kdamonds by the production code, or of the quota goals of one, through
  the paths of a model on which no hook waits, whether it succeeds, fails or rolls back, leaves
  what the kernel uses for every other kdamond as it was, unless nothing runs any more.
\<close>

theorem updates_isolate_kdamonds:
  fixes w :: "(backends \<times> 'h) world"
  assumes "model_at (mh_admin s) r (fst (w_kernel w))" and "bs_states (fst (w_kernel w)) r = Some st"
    and "settled st"
    and "I = set indices \<and> w' = snd (update_configuration (model_sysfs n) ps config indices s w)
      \<or> I = {k} \<and> w' = snd (update_scheme_quota_goals (model_sysfs n) k c i goals s w)"
  shows "\<exists>st'. bs_states (fst (w_kernel w')) r = Some st' \<and> settled st'
    \<and> model_at (mh_admin s) r (fst (w_kernel w'))
    \<and> (\<forall>a'. be_active st' = Some a' \<longrightarrow> (\<exists>a. be_active st = Some a
         \<and> (\<forall>j q. j \<notin> I \<longrightarrow> starts_with q (kdamond_dir j) \<longrightarrow> map_of a' q = map_of a q)))"
  using assms(4)
proof (elim disjE conjE)
  let ?E = "model_sysfs n :: (backends \<times> 'h) sysfs" and ?T = "traced (sourced (model_sysfs n) (w_kernel w))"
  assume I: "I = set indices" and w': "w' = snd (update_configuration ?E ps config indices s w)"
  have same: "mimics (\<lambda>l. after_calls ?E (w_kernel w) (snd l)) (update_configuration ?T ps config indices s)
      (update_configuration ?E ps config indices s)"
    by (intro mimics_rules)
  show ?thesis
    unfolding I w' by (rule updates_isolate [OF same _ assms(1-3)])
      (rule emits_mono [OF update_configuration_emits], erule update_event_mono, simp)
next
  let ?E = "model_sysfs n :: (backends \<times> 'h) sysfs" and ?T = "traced (sourced (model_sysfs n) (w_kernel w))"
  assume I: "I = {k}" and w': "w' = snd (update_scheme_quota_goals ?E k c i goals s w)"
  have same: "mimics (\<lambda>l. after_calls ?E (w_kernel w) (snd l)) (update_scheme_quota_goals ?T k c i goals s)
      (update_scheme_quota_goals ?E k c i goals s)"
    by (intro mimics_rules)
  show ?thesis
    unfolding I w' by (rule updates_isolate [OF same _ assms(1-3)])
      (rule emits_mono [OF update_scheme_quota_goals_emits], erule update_event_mono, simp)
qed

theorem updates_isolate_kdamonds_witness:
  "\<exists>st'. bs_states (fst (w_kernel (snd (update_configuration (model_sysfs 1) 4096 sample_damon [0] ready_owner ready_world)))) 0
        = Some st' \<and> settled st'
    \<and> model_at (mh_admin ready_owner) 0
        (fst (w_kernel (snd (update_configuration (model_sysfs 1) 4096 sample_damon [0] ready_owner ready_world))))
    \<and> (\<forall>a'. be_active st' = Some a' \<longrightarrow> (\<exists>a. be_active ready_model = Some a
         \<and> (\<forall>j q. j \<notin> set [0] \<longrightarrow> starts_with q (kdamond_dir j) \<longrightarrow> map_of a' q = map_of a q)))"
  by (rule updates_isolate_kdamonds [OF ready_world_model ready_model_settled disjI1 [OF conjI [OF refl refl]]])

text \<open>
  The one value on which the readers differ: with exactly 64 bytes, \<open>read_u64\<close> of the tests parses,
  that of production reports a value that is too long.
\<close>

lemma sixty_four_bytes_differ:
  assumes "resolves_to p (fst (w_kernel w)) r rest st" "be_hooks st = []"
    and "node_content rest st = Inr v" "length v = 64" "utf8_valid v" "parse_u64 (trim v) = Some m"
  shows "fst (test_read_u64 E p w) = Inr m"
    and "fst (read_u64 (model_sysfs n) p w) = Inl (InvalidKernelValue p ''<value too long>'' ''u64'')"
proof -
  obtain st' where "B_read rest st = (Inr (Inr v), st')"
    using assms(2,3) by (simp add: B_read_def apply_hooks_def bbind_def bret_def node_content_def)
  then show "fst (test_read_u64 E p w) = Inr m"
    "fst (read_u64 (model_sysfs n) p w) = Inl (InvalidKernelValue p ''<value too long>'' ''u64'')"
    using assms(4-6)
    by (simp_all add: test_read_u64_def content_or_error_def read_u64_def view_simps
        backend_call_resolved [OF assms(1)] fill_buffer_content [OF holds_whole] invalid_kernel_value_def)
qed

end
