(* ===== verification/Lifecycle.thy ===== *)
theory Lifecycle
  imports Simulation Session Runtime_Lemmas Sample_Owner
begin

text \<open>
  The life of the owner of a hierarchy, as a client drives it: starts, stops, changes, queries and
  closes in any order, against a kernel that may answer and change in any way between them. An
  abstract automaton over the activity of each kdamond says what each operation may do; the
  owner of \<^verbatim>\<open>src/src/monitor/hierarchy.rs\<close> refines it.
\<close>

section \<open>The specification\<close>

datatype activity = Idle | Active | Unidentified

record life =
  lf_owned :: bool
  lf_activity :: "activity list"

datatype owner_operation =
    Start | Stop | Close
  | Replace
  | Update "nat list"
  | ChangeGoals nat
  | Pause nat
  | Query nat

datatype outcome = Succeeded | Failed | NotUndone

definition outcome_of :: "'a result \<Rightarrow> outcome" where
  "outcome_of r =
     (case r of Inr _ \<Rightarrow> Succeeded | Inl e \<Rightarrow> (case e of Rollback _ _ \<Rightarrow> NotUndone | _ \<Rightarrow> Failed))"

definition idle :: "life \<Rightarrow> bool" where
  "idle a \<longleftrightarrow> set (lf_activity a) \<subseteq> {Idle}"

definition active_at :: "life \<Rightarrow> nat \<Rightarrow> bool" where
  "active_at a i \<longleftrightarrow> i < length (lf_activity a) \<and> lf_activity a ! i = Active"

text \<open>What an operation that changes or queries the configuration needs to succeed.\<close>

fun possible :: "life \<Rightarrow> owner_operation \<Rightarrow> bool" where
  "possible a Replace = idle a"
| "possible a (Update is) = (lf_owned a \<and> is \<noteq> [] \<and> (\<forall>i\<in>set is. active_at a i))"
| "possible a (ChangeGoals k) = (lf_owned a \<and> active_at a k)"
| "possible a (Pause k) = active_at a k"
| "possible a (Query k) = active_at a k"
| "possible a operation = False"

definition all_set :: "activity \<Rightarrow> life \<Rightarrow> life" where
  "all_set v a = a\<lparr>lf_activity := map (\<lambda>_. v) (lf_activity a)\<rparr>"

definition partly_idle :: "activity list \<Rightarrow> activity list \<Rightarrow> bool" where
  "partly_idle = list_all2 (\<lambda>x y. y = Idle \<or> y = x)"

inductive life_step :: "life \<Rightarrow> owner_operation \<times> outcome \<Rightarrow> life \<Rightarrow> bool" where
  started: "lf_owned a \<Longrightarrow> idle a \<Longrightarrow> life_step a (Start, Succeeded) (all_set Active a)"
| not_started: "life_step a (Start, Failed) a"
| start_not_undone: "lf_owned a \<Longrightarrow> idle a \<Longrightarrow> length left = length (lf_activity a) \<Longrightarrow>
    life_step a (Start, NotUndone) (a\<lparr>lf_activity := left\<rparr>)"
| stopped: "lf_owned a \<Longrightarrow> life_step a (Stop, Succeeded) (all_set Idle a)"
| closed: "lf_owned a \<Longrightarrow> life_step a (Close, Succeeded) ((all_set Idle a)\<lparr>lf_owned := False\<rparr>)"
| not_owned: "\<not> lf_owned a \<Longrightarrow> op \<in> {Stop, Close} \<Longrightarrow> life_step a (op, Succeeded) a"
| not_stopped: "lf_owned a \<Longrightarrow> op \<in> {Stop, Close} \<Longrightarrow> result \<noteq> Succeeded \<Longrightarrow>
    partly_idle (lf_activity a) left \<Longrightarrow> life_step a (op, result) (a\<lparr>lf_activity := left\<rparr>)"
| changed: "possible a op \<Longrightarrow> life_step a (op, Succeeded) a"
| not_changed: "op \<notin> {Start, Stop, Close} \<Longrightarrow> result \<noteq> Succeeded \<Longrightarrow> life_step a (op, result) a"

text \<open>Only a hierarchy that is owned runs, and what is given up is not taken back.\<close>

definition life_inv :: "life \<Rightarrow> bool" where
  "life_inv a \<longleftrightarrow> lf_owned a \<or> idle a"

lemma idle_all_set [simp]: "idle (all_set Idle a)"
  by (auto simp: idle_def all_set_def)

lemma life_step_inv: "life_step a l b \<Longrightarrow> life_inv a \<Longrightarrow> life_inv b"
  by (induction rule: life_step.induct) (auto simp: life_inv_def idle_def all_set_def)

lemma life_step_owned: "life_step a l b \<Longrightarrow> lf_owned b \<Longrightarrow> lf_owned a"
  by (induction rule: life_step.induct) (auto simp: all_set_def)

lemma life_step_length: "life_step a l b \<Longrightarrow> length (lf_activity b) = length (lf_activity a)"
  by (induction rule: life_step.induct) (auto simp: all_set_def partly_idle_def list_all2_lengthD)

text \<open>
  The kdamonds run all together or not at all, as long as every stop and close succeeds and every
  failed start is undone.
\<close>

definition uniform :: "life \<Rightarrow> bool" where
  "uniform a \<longleftrightarrow> idle a \<or> set (lf_activity a) \<subseteq> {Active}"

fun undisturbed :: "owner_operation \<times> outcome \<Rightarrow> bool" where
  "undisturbed (Start, result) = (result \<noteq> NotUndone)"
| "undisturbed (Stop, result) = (result = Succeeded)"
| "undisturbed (Close, result) = (result = Succeeded)"
| "undisturbed (operation, result) = True"

lemma life_step_uniform: "life_step a l b \<Longrightarrow> undisturbed l \<Longrightarrow> uniform a \<Longrightarrow> uniform b"
  by (induction rule: life_step.induct) (auto simp: uniform_def all_set_def idle_def)

lemma life_run_uniform:
  "run life_step a ls b \<Longrightarrow> list_all undisturbed ls \<Longrightarrow> uniform a \<Longrightarrow> uniform b"
  by (induction rule: run.induct) (auto intro: life_step_uniform)

section \<open>The owner\<close>

fun activity_of :: "session_state \<Rightarrow> activity" where
  "activity_of Staged = Idle"
| "activity_of (Running p) = Active"
| "activity_of UnidentifiedRunning = Unidentified"

definition life_of :: "managed_hierarchy \<Rightarrow> life" where
  "life_of s = \<lparr>lf_owned = mh_owns s, lf_activity = map activity_of (mh_states s)\<rparr>"

text \<open>One operation of a client, with its outcome, in any world.\<close>

inductive owner_step ::
    "'k sysfs \<Rightarrow> managed_hierarchy \<Rightarrow> owner_operation \<times> outcome \<Rightarrow> managed_hierarchy \<Rightarrow> bool"
  for E :: "'k sysfs" where
  start: "start_all E s w = (Inr (r, s'), w') \<Longrightarrow> owner_step E s (Start, outcome_of r) s'"
| stop: "stop_all E s w = (Inr (r, s'), w') \<Longrightarrow> owner_step E s (Stop, outcome_of r) s'"
| close: "close_inner E s w = (Inr (r, s'), w') \<Longrightarrow> owner_step E s (Close, outcome_of r) s'"
| replace: "replace_staged_configuration E ps config s w = (Inr (r, s'), w') \<Longrightarrow>
    owner_step E s (Replace, outcome_of r) s'"
| update: "update_configuration E ps config is s w = (Inr (r, s'), w') \<Longrightarrow>
    owner_step E s (Update is, outcome_of r) s'"
| goals: "update_scheme_quota_goals E k c i goals s w = (Inr (r, s'), w') \<Longrightarrow>
    owner_step E s (ChangeGoals k, outcome_of r) s'"
| pause: "set_context_paused E k c paused s w = (Inr (r, s'), w') \<Longrightarrow>
    owner_step E s (Pause k, outcome_of r) s'"
| query: "Managed_runtime_batch E k operation s w = (Inr (r, s'), w') \<Longrightarrow>
    owner_step E s (Query k, outcome_of (r :: unit result)) s'"

lemma activity_Idle [simp]: "activity_of st = Idle \<longleftrightarrow> st = Staged"
  by (cases st) simp_all

lemma activity_Active [simp]: "activity_of st = Active \<longleftrightarrow> is_running_state st"
  by (cases st) (simp_all add: is_running_state_def)

lemma life_of_simps [simp]:
  "lf_owned (life_of s) = mh_owns s" "lf_activity (life_of s) = map activity_of (mh_states s)"
  "idle (life_of s) \<longleftrightarrow> all_staged s"
  by (auto simp: life_of_def idle_def all_staged_def)

lemma outcome_of_simps [simp]:
  "outcome_of (Inr x) = Succeeded" "outcome_of (Inl (Rollback e b)) = NotUndone"
  "outcome_of r = Succeeded \<longleftrightarrow> is_ok r"
  by (auto simp: outcome_of_def is_ok_def split: sum.splits error.splits)

section \<open>The owner refines the specification\<close>

lemma all_set_eq: "length left = length (lf_activity a) \<Longrightarrow> set left \<subseteq> {v} \<Longrightarrow>
    all_set v a = a\<lparr>lf_activity := left\<rparr>"
  using replicate_eqI [of left "length left" v] by (auto simp: all_set_def map_replicate_const)

lemma same_owner_life: "same_owner s s' \<Longrightarrow>
    life_of s' = (life_of s)\<lparr>lf_activity := map activity_of (mh_states s')\<rparr>"
  by (cases s; cases s') (auto simp: same_owner_def life_of_def)

lemma only_stops_partly: "only_stops s s' \<Longrightarrow>
    partly_idle (lf_activity (life_of s)) (lf_activity (life_of s'))"
  by (auto simp: only_stops_def same_owner_def partly_idle_def list_all2_conv_all_nth)

lemma all_staged_life: "same_owner s s' \<Longrightarrow> all_staged s' \<Longrightarrow> life_of s' = all_set Idle (life_of s)"
  by (subst all_set_eq [where left = "map activity_of (mh_states s')"])
    (auto simp: same_owner_life all_staged_def same_owner_def)

lemma all_running_life: "same_owner s s' \<Longrightarrow> all_running s' \<Longrightarrow> life_of s' = all_set Active (life_of s)"
  by (subst all_set_eq [where left = "map activity_of (mh_states s')"])
    (auto simp: same_owner_life all_running_def same_owner_def)

lemma check_startable_Inl: "check_startable n sts = Inl e \<Longrightarrow> outcome_of (Inl e :: unit result) = Failed"
  by (induction n sts rule: check_startable.induct) (auto simp: outcome_of_def UNIDENTIFIED_def)

lemma start_unready:
  assumes "\<not> (mh_owns s \<and> all_staged s)" and "start_all E s w = (Inr (r, s'), w')"
  shows "s' = s \<and> outcome_of r = Failed"
proof (cases "mh_owns s")
  case True
  with assms(1) obtain e where e: "check_startable 0 (mh_states s) = Inl e"
    by (cases "check_startable 0 (mh_states s)") (auto simp: check_startable_Inr_iff all_staged_def)
  with assms(2) True have "r = Inl e" "s' = s" by (simp_all add: start_all_def mfail_def sret_def)
  with check_startable_Inl [OF e] show ?thesis by simp
next
  case False
  with assms show ?thesis by (auto simp: start_all_def mfail_def sret_def outcome_of_def)
qed

lemma start_all_refines:
  assumes "start_all E s w = (Inr (r, s'), w')"
  shows "life_step (life_of s) (Start, outcome_of r) (life_of s')"
proof (cases "mh_owns s \<and> all_staged s")
  case True
  then have start: "same_owner s s'"
    "case r of Inr _ \<Rightarrow> all_running s' | Inl e \<Rightarrow> all_staged s' \<or> (\<exists>a b. e = Rollback a b)"
    using mwpD [OF start_all_wp assms] by (simp_all add: start_outcome_def)
  have same: "life_of s' = life_of s" if "all_staged s'"
    using all_staged_life [OF start(1) that] all_staged_life [OF same_owner_refl] True by simp
  have left: "life_step (life_of s) (Start, NotUndone) (life_of s')"
    using life_step.start_not_undone [of "life_of s" "map activity_of (mh_states s')"] True start(1)
    by (simp add: same_owner_life [OF start(1)]) (simp add: same_owner_def)
  show ?thesis
  proof (cases "outcome_of r")
    case Succeeded
    then have "all_running s'" using start(2) by (simp add: is_ok_iff split: sum.splits)
    from all_running_life [OF start(1) this] show ?thesis
      unfolding Succeeded
      using True by (simp add: life_step.started)
  next
    case Failed
    then have "all_staged s'"
      using start(2) by (auto simp: outcome_of_def split: sum.splits error.splits)
    with Failed show ?thesis by (simp add: same life_step.not_started)
  qed (simp add: left)
next
  case False
  with start_unready [OF this assms] show ?thesis by (simp add: life_step.not_started)
qed

lemma failed_stop_refines:
  assumes "only_stops s s'" and "mh_owns s" and "op \<in> {Stop, Close}" and "result \<noteq> Succeeded"
  shows "life_step (life_of s) (op, result) (life_of s')"
  using life_step.not_stopped [of "life_of s" op result, OF _ assms(3,4) only_stops_partly [OF assms(1)]] assms
  by (simp add: same_owner_life [of s s'] only_stops_def)

lemma stop_all_refines:
  assumes "stop_all E s w = (Inr (r, s'), w')"
  shows "life_step (life_of s) (Stop, outcome_of r) (life_of s')"
proof (cases "mh_owns s")
  case True
  then have stop: "only_stops s s'" "r = Inr () \<Longrightarrow> all_staged s'"
    using mwpD [OF stop_all_wp assms] by simp_all
  show ?thesis
  proof (cases r)
    case (Inr u)
    then have "life_of s' = all_set Idle (life_of s)"
      using stop by (intro all_staged_life) (simp_all add: only_stops_def)
    with Inr True show ?thesis by (simp add: life_step.stopped)
  qed (use stop True in \<open>simp add: failed_stop_refines\<close>)
next
  case False
  with assms show ?thesis by (auto simp: stop_all_def mret_def sret_def life_step.not_owned)
qed

lemma close_refines:
  assumes "close_inner E s w = (Inr (r, s'), w')"
  shows "life_step (life_of s) (Close, outcome_of r) (life_of s')"
proof (cases "mh_owns s")
  case True
  then have close: "closed_from s r s'"
    using mwpD [OF close_inner_wp assms] by simp
  show ?thesis
  proof (cases r)
    case (Inr u)
    let ?t = "s'\<lparr>mh_owns := True\<rparr>"
    have "life_of ?t = all_set Idle (life_of s)"
      using close Inr by (intro all_staged_life) (simp_all add: closed_from_def only_stops_def all_staged_def)
    moreover have "life_of s' = (life_of ?t)\<lparr>lf_owned := False\<rparr>"
      using close Inr by (simp add: closed_from_def life_of_def)
    ultimately show ?thesis using Inr True by (simp add: life_step.closed)
  qed (use close True in \<open>simp add: failed_stop_refines closed_from_def\<close>)
next
  case False
  with assms show ?thesis by (auto simp: close_inner_def mret_def sret_def life_step.not_owned)
qed

text \<open>A change leaves the activity; what a successful one checked first is what it needs.\<close>

lemma restaged_life: "only_restaged s r s' \<Longrightarrow> life_of s' = life_of s"
  by (cases s; cases s') (auto simp: only_restaged_def life_of_def)

lemma change_refines:
  assumes "life_of s' = life_of s" and "op \<notin> {Start, Stop, Close}"
    and "is_ok r \<Longrightarrow> possible (life_of s) op"
  shows "life_step (life_of s) (op, outcome_of r) (life_of s')"
proof (cases "is_ok r")
  case True
  then have "outcome_of r = Succeeded" by simp
  with assms(1) life_step.changed [OF assms(3) [OF True]] show ?thesis by metis
next
  case False
  then show ?thesis using assms(1,2) by (simp add: life_step.not_changed)
qed

lemma read_first_Inr:
  assumes "mbind (mread c) f s w = (Inr (Inr x, s'), w')"
  obtains y w1 where "c s w = (Inr y, w1)" "f y s w1 = (Inr (Inr x, s'), w')"
  using assms
  by (auto simp: mbind_def mcatch_def mread_def sbind_def stry_def sret_def mfail_def
      split: prod.splits sum.splits)

lemma slift_Inr_iff: "slift r w = (Inr y, w') \<longleftrightarrow> r = Inr y \<and> w' = w"
  by (auto simp: slift_def sret_def sfail_def split: sum.splits)

lemma expected_active: "expected_running_pid s i = Inr p \<Longrightarrow> active_at (life_of s) i"
  by (auto simp: expected_running_pid_def and_then_Inr_iff validate_kdamond_index_def active_at_def
      is_running_state_def split: session_state.splits if_splits)

lemma verify_owned_owns: "verify_owned_state E s w = (Inr u, w') \<Longrightarrow> mh_owns s"
  by (auto simp: verify_owned_state_def sfail_def split: if_splits)

lemma replace_refines:
  assumes "replace_staged_configuration E ps config s w = (Inr (r, s'), w')"
  shows "life_step (life_of s) (Replace, outcome_of r) (life_of s')"
proof (rule change_refines)
  show "life_of s' = life_of s"
    using mwpD [OF replace_staged_configuration_wp assms] by (rule restaged_life)
  have staged: "first_unstaged n sts = None \<longleftrightarrow> (\<forall>st\<in>set sts. st = Staged)" for n sts
    by (induction n sts rule: first_unstaged.induct) auto
  assume "is_ok r"
  with assms have "check_replacement ps config s = Inr ()"
    by (auto simp: is_ok_iff replace_staged_configuration_def slift_Inr_iff elim: read_first_Inr)
  then show "possible (life_of s) Replace"
    by (auto simp: check_replacement_def and_then_Inr_iff invalid_def staged all_staged_def
        split: if_splits option.splits)
qed simp

lemma update_refines:
  assumes "update_configuration E ps config is s w = (Inr (r, s'), w')"
  shows "life_step (life_of s) (Update is, outcome_of r) (life_of s')"
proof (rule change_refines)
  show "life_of s' = life_of s"
    using mwpD [OF update_configuration_wp assms] by (rule restaged_life)
  assume "is_ok r"
  with assms obtain selected y w1 where
    checked: "check_update_request ps config is s = Inr selected"
    and captured: "capture_rollback_state E s w = (Inr y, w1)"
    by (auto simp: is_ok_iff update_configuration_def slift_Inr_iff elim!: read_first_Inr)
  from captured have "mh_owns s"
    by (auto simp: capture_rollback_state_def sbind_Inr_iff dest: verify_owned_owns)
  moreover from checked have "is \<noteq> []" "\<forall>i\<in>set is. active_at (life_of s) i"
    by (auto simp: check_update_request_def and_then_Inr_iff validate_selected_indices_Inr_iff
        try_each_Inr_iff invalid_def dest!: expected_active split: if_splits)
  ultimately show "possible (life_of s) (Update is)" by simp
qed simp

lemma goals_refine:
  assumes "update_scheme_quota_goals E k c i goals s w = (Inr (r, s'), w')"
  shows "life_step (life_of s) (ChangeGoals k, outcome_of r) (life_of s')"
proof (rule change_refines)
  show "life_of s' = life_of s"
    using mwpD [OF update_scheme_quota_goals_wp assms] by (rule restaged_life)
  assume "is_ok r"
  with assms obtain y w1 where
    checked: "check_goals_request k goals s = Inr ()"
    and captured: "capture_quota E k c i s w = (Inr y, w1)"
    by (auto simp: is_ok_iff update_scheme_quota_goals_def slift_Inr_iff elim!: read_first_Inr)
  from captured have "mh_owns s"
    by (auto simp: capture_quota_def sbind_Inr_iff dest: verify_owned_owns)
  moreover from checked have "active_at (life_of s) k"
    by (auto simp: check_goals_request_def and_then_Inr_iff dest: expected_active)
  ultimately show "possible (life_of s) (ChangeGoals k)" by simp
qed simp

lemma running_active: "verify_running E s k w = (Inr u, w') \<Longrightarrow> active_at (life_of s) k"
  by (auto simp: verify_running_def verify_running_state_and_identity_without_count_def
      sbind_Inr_iff slift_Inr_iff dest: expected_active)

lemma pause_refines:
  assumes "set_context_paused E k c paused s w = (Inr (r, s'), w')"
  shows "life_step (life_of s) (Pause k, outcome_of r) (life_of s')"
proof (rule change_refines)
  show "life_of s' = life_of s"
    using mwpD [OF set_context_paused_wp assms] by (rule restaged_life)
  assume "is_ok r"
  with assms obtain y w1 where "check_pause E s k c w = (Inr y, w1)"
    by (auto simp: is_ok_iff set_context_paused_def elim: read_first_Inr)
  then show "possible (life_of s) (Pause k)"
    by (auto simp: check_pause_def sbind_Inr_iff dest: running_active)
qed simp

lemma query_refines:
  assumes "Managed_runtime_batch E k operation s w = (Inr (r, s'), w')"
  shows "life_step (life_of s) (Query k, outcome_of r) (life_of s')"
proof (rule change_refines)
  have run: "s' = s" "batch_between_checks E s k operation w = (r, w')"
    using assms by (auto simp: Managed_runtime_batch_def mread_def stry_def sret_def split: prod.splits)
  show "life_of s' = life_of s" by (simp add: run(1))
  assume "is_ok r"
  with run(2) show "possible (life_of s) (Query k)"
    by (auto simp: is_ok_iff batch_between_checks_def sbind_Inr_iff dest: running_active)
qed simp

lemma owner_step_refines: "owner_step E s l s' \<Longrightarrow> life_step (life_of s) l (life_of s')"
  by (induction rule: owner_step.induct)
    (blast intro: start_all_refines stop_all_refines close_refines replace_refines update_refines goals_refine
      pause_refines query_refines)+

interpretation lifecycle: simulation "owner_step E" life_step life_of for E
  by unfold_locales (rule owner_step_refines)

end
