(* ===== verification/Properties_Lifecycle.thy ===== *)
theory Properties_Lifecycle
  imports Lifecycle
begin

text \<open>Properties of the whole life of an owner, with their witnesses.\<close>

section \<open>What every operation keeps\<close>

text \<open>The owner's record outside the states, the ownership and what is staged.\<close>

definition same_hierarchy :: "managed_hierarchy \<Rightarrow> managed_hierarchy \<Rightarrow> bool" where
  "same_hierarchy s s' \<longleftrightarrow> mh_admin s' = mh_admin s \<and> mh_previous s' = mh_previous s
     \<and> length (mh_states s') = length (mh_states s)
     \<and> (staged_wf (mh_admin s) (mh_staged s) \<longrightarrow> staged_wf (mh_admin s) (mh_staged s'))"

lemma same_hierarchy_refl: "same_hierarchy s s"
  by (simp add: same_hierarchy_def)

lemma same_hierarchy_trans: "same_hierarchy s t \<Longrightarrow> same_hierarchy t u \<Longrightarrow> same_hierarchy s u"
  by (simp add: same_hierarchy_def)

lemma same_owner_hierarchy: "same_owner s s' \<Longrightarrow> same_hierarchy s s'"
  by (cases s; cases s') (simp add: same_owner_def same_hierarchy_def)

lemma only_restaged_hierarchy: "only_restaged s r s' \<Longrightarrow> same_hierarchy s s'"
  by (cases s; cases s') (simp add: only_restaged_def same_hierarchy_def)

lemma closed_hierarchy: "closed_from s r s' \<Longrightarrow> same_hierarchy s s'"
  by (cases r; cases s') (auto simp: closed_from_def only_stops_def dest!: same_owner_hierarchy
      simp: same_hierarchy_def)

lemma owner_step_hierarchy: "owner_step E s l s' \<Longrightarrow> same_hierarchy s s'"
proof (induction rule: owner_step.induct)
  case (start s w r s' w')
  then show ?case
    using mwpD [OF start_all_wp start] start_unready [OF _ start]
    by (cases "mh_owns s \<and> all_staged s")
      (auto simp: start_outcome_def same_hierarchy_refl intro: same_owner_hierarchy)
next
  case (stop s w r s' w')
  then show ?case
    using mwpD [OF stop_all_wp stop]
    by (cases "mh_owns s") (auto simp: only_stops_def stop_all_def mret_def sret_def same_hierarchy_refl
        intro: same_owner_hierarchy)
next
  case (close s w r s' w')
  then show ?case
    using mwpD [OF close_inner_wp close]
    by (cases "mh_owns s") (auto simp: close_inner_def mret_def sret_def same_hierarchy_refl
        intro: closed_hierarchy)
next
  case (query k operation s w r s' w')
  then have "s' = s" by (auto simp: Managed_runtime_batch_def mread_def stry_def sret_def split: prod.splits)
  then show ?case by (simp add: same_hierarchy_refl)
qed (blast intro: only_restaged_hierarchy mwpD [OF replace_staged_configuration_wp]
    mwpD [OF update_configuration_wp] mwpD [OF update_scheme_quota_goals_wp] mwpD [OF set_context_paused_wp])+

lemma run_hierarchy: "run (owner_step E) s ls s' \<Longrightarrow> same_hierarchy s s'"
  by (induction rule: run.induct)
    (auto intro: same_hierarchy_refl same_hierarchy_trans owner_step_hierarchy)

lemma uniform_life: "uniform (life_of s) \<longleftrightarrow> all_staged s \<or> all_running s"
  by (auto simp: uniform_def all_running_def)

text \<open>An owner that was just created runs nothing.\<close>

lemma new_owner_idle:
  "ManagedHierarchy_new E admin staged config w = (Inr s, w') \<Longrightarrow> mh_owns s \<and> all_staged s"
  by (auto simp: ManagedHierarchy_new_def Let_def all_staged_def stry_def sret_def sfail_def
      split: prod.splits sum.splits)

section \<open>The properties\<close>

lemma sample_started:
  obtains s' where "run (owner_step table_kernel) (sample_owner [Staged]) [(Start, Succeeded)] s'"
proof -
  have "\<exists>s' w'. start_all table_kernel (sample_owner [Staged]) (one_kdamond ''off'') = (Inr (Inr (), s'), w')"
    by (simp add: start_all_def start_one_def owner_evaluation one_kdamond_def)
  then obtain s' w' where
    "start_all table_kernel (sample_owner [Staged]) (one_kdamond ''off'') = (Inr (Inr (), s'), w')" by blast
  from owner_step.start [OF this] show thesis by (intro that run_single) simp
qed

text \<open>
  C2. Whatever a client does with an owner, in whatever order and against whatever kernel, is a run
  of the abstract life cycle: a start needs everything idle and activates everything, a stop or
  close that succeeds idles everything and one that fails only idles; changes and queries leave the
  activity and succeed only for kdamonds that run, a replacement only when none does.
\<close>

theorem owner_refines_lifecycle:
  assumes "run (owner_step E) s operations s'"
  shows "run life_step (life_of s) operations (life_of s')"
  using assms by (rule lifecycle.refined)

theorem owner_refines_lifecycle_witness:
  "\<exists>s'. run life_step \<lparr>lf_owned = True, lf_activity = [Idle]\<rparr> [(Start, Succeeded)] (life_of s')"
proof -
  obtain s' where "run (owner_step table_kernel) (sample_owner [Staged]) [(Start, Succeeded)] s'"
    by (rule sample_started)
  from owner_refines_lifecycle [OF this] show ?thesis by (auto simp: life_of_def sample_owner_def)
qed

text \<open>
  C3. A hierarchy runs completely or not at all, through every run of operations in which each stop
  and close succeeds and each failed start is undone; it never runs without its owner. In every run
  the administration directory, the restoration snapshot and the number of kdamonds stay as they
  were, and what is staged stays a sorted capture of that directory.
\<close>

theorem hierarchy_runs_together:
  assumes "run (owner_step E) s operations s'" and "list_all undisturbed operations"
    and "mh_owns s" and "all_staged s \<or> all_running s"
  shows "(all_staged s' \<or> all_running s') \<and> (mh_owns s' \<or> all_staged s') \<and> same_hierarchy s s'"
proof (intro conjI)
  have "run life_step (life_of s) operations (life_of s')" using assms(1) by (rule lifecycle.refined)
  from life_run_uniform [OF this assms(2)] assms(4) show "all_staged s' \<or> all_running s'"
    by (simp add: uniform_life)
  have "life_inv (life_of s')"
    by (rule lifecycle.transfer [OF assms(1)]) (auto simp: life_inv_def assms(3) dest: life_step_inv)
  then show "mh_owns s' \<or> all_staged s'" by (simp add: life_inv_def)
  show "same_hierarchy s s'" using assms(1) by (rule run_hierarchy)
qed

theorem hierarchy_runs_together_witness:
  "\<exists>s'. run (owner_step table_kernel) (sample_owner [Staged]) [(Start, Succeeded)] s'
    \<and> (all_staged s' \<or> all_running s') \<and> (mh_owns s' \<or> all_staged s') \<and> same_hierarchy (sample_owner [Staged]) s'"
proof -
  obtain s' where run: "run (owner_step table_kernel) (sample_owner [Staged]) [(Start, Succeeded)] s'"
    by (rule sample_started)
  from hierarchy_runs_together [OF run] run show ?thesis
    by (auto simp: sample_owner_def all_staged_def)
qed

end
