(* ===== verification/Error_Text.thy ===== *)
theory Error_Text
  imports Abi
begin

text \<open>
  The texts of errors, the \<open>Display\<close> of \<^verbatim>\<open>src/src/error.rs\<close>. What the standard library prints is a
  parameter: an I/O error, a string in \<open>Debug\<close> form, and the two \<open>Debug\<close> renderings a mismatch
  carries. A nested error is printed inside the outer one.
\<close>

record renderings =
  rd_io :: "io_error \<Rightarrow> string"
  rd_debug :: "string \<Rightarrow> string"
  rd_mismatch :: "string \<Rightarrow> string \<times> string"

text \<open>\<open>{:#x}\<close>: lower-case hexadecimal digits after \<open>0x\<close>.\<close>

fun hex_digits :: "nat \<Rightarrow> string" where
  "hex_digits n =
     (if n < 16 then [''0123456789abcdef'' ! n]
      else hex_digits (n div 16) @ [''0123456789abcdef'' ! (n mod 16)])"

declare hex_digits.simps [simp del]

definition hex_word :: "'w::len word \<Rightarrow> string" where
  "hex_word w = ''0x'' @ hex_digits (unat w)"

text \<open>The depth of nested errors decides the recursion.\<close>

function (sequential) Error_fmt :: "renderings \<Rightarrow> error \<Rightarrow> string result"
  and Error_fmt_operational :: "renderings \<Rightarrow> error \<Rightarrow> string result" where
  "Error_fmt R (Unavailable p) =
     Inr (''DAMON sysfs admin interface is unavailable at '' @ path_text p)"
| "Error_fmt R UnsupportedPlatform = Inr ''the default DAMON interface is only available on Linux''"
| "Error_fmt R (InvalidConfiguration field reason) = Inr (''invalid '' @ field @ '': '' @ reason)"
| "Error_fmt R (UnsupportedOperation op) =
     Inr (''kernel does not support DAMON operation '' @ Operation_kernel_name op)"
| "Error_fmt R (UnsupportedFeature feature) =
     Inr (''kernel does not expose required DAMON feature '' @ feature)"
| "Error_fmt R (InUse n) = Inr (''DAMON is already configured with '' @ dec n @ '' kdamond(s)'')"
| "Error_fmt R (KdamondRunning i) = Inr (''DAMON kdamond '' @ dec i @ '' is running'')"
| "Error_fmt R (ConfigurationMismatch p) =
     (case rd_mismatch R p of (expected, observed) \<Rightarrow>
        Inr (''staged DAMON value at '' @ p @ '' is '' @ observed @ '', expected '' @ expected))"
| "Error_fmt R NotRunning = Inr ''the DAMON monitor is not running''"
| "Error_fmt R (UnexpectedKdamondState s) =
     Inr (''kernel returned unknown kdamond state '' @ rd_debug R s)"
| "Error_fmt R (InvalidKernelValue p v expected) =
     Inr (''invalid value '' @ rd_debug R v @ '' in '' @ path_text p @ '' (expected '' @ expected @ '')'')"
| "Error_fmt R (InvalidRegion a b) =
     Inr (''kernel returned invalid region '' @ hex_word a @ ''-'' @ hex_word b)"
| "Error_fmt R SnapshotSizeOverflow = Inr ''DAMON snapshot total size exceeds u64::MAX''"
| "Error_fmt R (MultipleSnapshotResults n) =
     Inr (''DAMON query produced '' @ dec n @ '' scoped snapshots, use materialize_snapshots()'')"
| "Error_fmt R (AddressConversionOverflow units per_unit) =
     Inr (''DAMON address conversion overflows u64 ('' @ dec_word units @ '' units at ''
          @ dec_word per_unit @ '' bytes each)'')"
| "Error_fmt R (AddressConversionInexact bytes per_unit) =
     Inr (''DAMON address conversion is inexact ('' @ dec_word bytes @ '' bytes at ''
          @ dec_word per_unit @ '' bytes per unit)'')"
| "Error_fmt R (IndexOutOfBounds kind i n) =
     Inr (''DAMON '' @ kind @ '' index '' @ dec i @ '' is out of bounds for '' @ dec n @ '' staged children'')"
| "Error_fmt R (SessionLockBusy p) =
     Inr (''another DAMON session holds the advisory lock '' @ path_text p)"
| "Error_fmt R e = Error_fmt_operational R e"
| "Error_fmt_operational R (InvalidReceipt reason) =
     Inr (''invalid DAMON persistent receipt: '' @ reason)"
| "Error_fmt_operational R (ReceiptMismatch reason) =
     Inr (''DAMON persistent receipt does not match: '' @ reason)"
| "Error_fmt_operational R (SnapshotWorkerSpawn source) =
     Inr (''failed to spawn DAMON snapshot worker: '' @ rd_io R source)"
| "Error_fmt_operational R SnapshotWorkerDisconnected =
     Inr ''DAMON snapshot worker terminated without returning its monitor''"
| "Error_fmt_operational R (PersistentStateUncertain (Some operation) verification) =
     and_then (Error_fmt R operation) (\<lambda>o_text.
     and_then (Error_fmt R verification) (\<lambda>v_text.
       Inr (''persistent DAMON operation failed ('' @ o_text
            @ '') and its resulting state could not be verified ('' @ v_text @ '')'')))"
| "Error_fmt_operational R (PersistentStateUncertain None verification) =
     and_then (Error_fmt R verification) (\<lambda>v_text.
       Inr (''persistent DAMON operation completed but its resulting state could not be verified (''
            @ v_text @ '')''))"
| "Error_fmt_operational R (OwnershipLost reason) =
     Inr (''DAMON session ownership was lost: '' @ reason)"
| "Error_fmt_operational R (Io op p source) =
     Inr (''failed to '' @ op @ '' '' @ path_text p @ '': '' @ rd_io R source)"
| "Error_fmt_operational R (Rollback operation rollback) =
     and_then (Error_fmt R operation) (\<lambda>o_text.
     and_then (Error_fmt R rollback) (\<lambda>r_text.
       Inr (''DAMON operation failed ('' @ o_text @ ''); restoring the prior state also failed (''
            @ r_text @ '')'')))"
| "Error_fmt_operational R e = Inl (Panicked ''only operational errors use this formatter'')"
  by pat_completeness auto
termination
  by (relation "measures [\<lambda>x. case x of Inl (_, e) \<Rightarrow> size e | Inr (_, e) \<Rightarrow> size e,
        \<lambda>x. case x of Inl _ \<Rightarrow> 1 | Inr _ \<Rightarrow> 0]") simp_all

text \<open>An error of the crate: no panic anywhere inside.\<close>

fun proper_error :: "error \<Rightarrow> bool" where
  "proper_error (Panicked _) = False"
| "proper_error (Rollback operation rollback) = (proper_error operation \<and> proper_error rollback)"
| "proper_error (PersistentStateUncertain operation verification) =
     ((case operation of Some e \<Rightarrow> proper_error e | None \<Rightarrow> True) \<and> proper_error verification)"
| "proper_error _ = True"

lemma Error_fmt_total: "proper_error e \<Longrightarrow> \<exists>s. Error_fmt R e = Inr s"
proof (induction e rule: proper_error.induct)
  case (3 operation verification)
  then show ?case by (cases operation) (auto split: prod.splits)
qed (auto split: prod.splits)

end
