(* ===== verification/Spec2Isabelle.thy ===== *)
theory Spec2Isabelle
  imports Properties_Config Properties_Sysfs Properties_Monitor Properties_Update Properties_Receipt
    Properties_Runtime Properties_Workflow Properties_Backend Properties_Lifecycle Error_Text
begin

text \<open>
  A verification of damon-rs, a Rust library that configures and controls DAMON, the Linux
  kernel's data access monitor, through its sysfs interface.

  \<^bold>\<open>The program.\<close> The crate has two layers. The sysfs layer (\<^verbatim>\<open>src/src/sysfs\<close>) gives typed access
  to the attribute files below one administration directory: values and enumerations, a model of
  a whole configuration (kdamonds, contexts, targets, schemes) with its validation, the staging
  of a configuration into the files, its reading back, and snapshots of all writable files that
  can be compared and restored. The monitor layer (\<^verbatim>\<open>src/src/monitor\<close>) owns a staged hierarchy:
  it stages under verification, starts and stops the kdamonds, checks before every step that
  nobody else changed the hierarchy, updates it while it runs, and puts back on closing what it
  found. A hierarchy can also outlive its process: a receipt describes it, and a later process
  that finds it unchanged can attach to it. On top of the session over one kdamond, a workflow
  prepares a configuration, starts it and returns a monitor that takes snapshots, also in the
  background. The unit tests run all of this against an in-memory kernel of their own.

  \<^bold>\<open>The theories.\<close> Each follows one part of the sources, in the order of their dependencies.
  \<^item> \<open>Damon_Prelude\<close>: results (\<open>Inl\<close> an error, \<open>Inr\<close> a value), slices, checked arithmetic.
  \<^item> \<open>Rust_Base\<close>: what the sources use of the standard library: decimal texts, trimming, UTF-8,
    paths as lists of components with their order, durations in nanoseconds.
  \<^item> \<open>Errors\<close> and \<open>Error_Text\<close>: \<^verbatim>\<open>error.rs\<close>. \<open>Units\<close>: \<^verbatim>\<open>config.rs\<close>. \<open>Region\<close>: \<^verbatim>\<open>region.rs\<close>.
  \<^item> \<open>Abi\<close>: \<^verbatim>\<open>sysfs/abi.rs\<close> and the enumerations of \<^verbatim>\<open>sysfs/configuration/model.rs\<close>; the locale
    \<open>kernel_enum\<close> states what every text enumeration promises, and each interprets it.
  \<^item> \<open>Config_Target\<close>, \<open>Config_Scheme\<close>, \<open>Config_Context\<close>: \<^verbatim>\<open>sysfs/configuration/model\<close> and the
    validation helpers of \<^verbatim>\<open>sysfs/configuration/helpers.rs\<close>.
  \<^item> \<open>Sysfs_IO\<close>: \<^verbatim>\<open>sysfs/io.rs\<close> over an arbitrary kernel. \<open>Fingerprint\<close>: \<^verbatim>\<open>sysfs/ownership.rs\<close>.
  \<^item> \<open>Handles\<close>, \<open>Attributes\<close>, \<open>Staging\<close>: the directories as handles (\<^verbatim>\<open>sysfs/admin.rs\<close>,
    \<^verbatim>\<open>context.rs\<close>, \<^verbatim>\<open>target.rs\<close>, \<^verbatim>\<open>probe.rs\<close>, \<^verbatim>\<open>scheme/mod.rs\<close>), the groups of attributes
    (\<^verbatim>\<open>sysfs/configuration/attributes\<close>) and the staging of a hierarchy
    (\<^verbatim>\<open>sysfs/configuration/staging.rs\<close>).
  \<^item> \<open>Capabilities\<close>, \<open>Discovery\<close>, \<open>Capability_Probe\<close>: \<^verbatim>\<open>sysfs/capabilities\<close>, the model of what
    a kernel supports, its passive discovery and the probing that tries values and puts them back.
  \<^item> \<open>Ownership\<close>: \<^verbatim>\<open>monitor/ownership.rs\<close>. \<open>Stateful\<close>: computations on a record. \<open>Hierarchy\<close> and
    \<open>Hierarchy_Update\<close>: \<^verbatim>\<open>monitor/hierarchy.rs\<close>, the owner's record, its checks, its life cycle
    and its updates. \<open>Lifecycle\<close>: the abstract life cycle of an owner, which these operations refine
    in every order a client calls them. \<open>Runtime\<close>: \<^verbatim>\<open>monitor/runtime.rs\<close>. \<open>Session\<close>: \<^verbatim>\<open>monitor/session.rs\<close> and the
    session lock. \<open>Receipt\<close> and \<open>Persistent\<close>: \<^verbatim>\<open>monitor/persistent.rs\<close>.
  \<^item> \<open>Workflow_Config\<close>, \<open>Workflow\<close>, \<open>Snapshot_Request\<close>: \<^verbatim>\<open>monitor/workflow.rs\<close>, the builders and the
    configurations they prepare, the monitor, and the snapshot taken by a worker thread as a
    transition system of the worker and the request.
  \<^item> \<open>Backend_State\<close>, \<open>Backend_Commands\<close>, \<open>Test_Backend\<close>: \<^verbatim>\<open>sysfs/test_backend\<close>, the in-memory
    kernel of the unit tests, and the branches of \<^verbatim>\<open>sysfs/io.rs\<close> that use it. \<open>Backend_Kernel\<close>: its
    reachable states, their invariant and the abstract kernel it implements. \<open>Backend_View\<close>: the
    same states behind the system calls that the production functions make.
  \<^item> \<open>Same_Kernel\<close>, \<open>Same_Staging\<close>, \<open>Same_Owner\<close>: the code cannot tell two kernels apart of which
    one answers as a view of the other, one rule per operation in the locale \<open>same_kernel\<close>.
    \<open>Sourced_Kernel\<close> interprets it for a kernel kept as the list of the calls made on it, which
    turns what a computation emits into what it does to any one kernel. On the in-memory kernel:
    \<open>Backend_Frame\<close> says what calls that command nothing leave, \<open>Backend_Updates\<close> which kdamonds
    an update reaches, \<open>Backend_Starts\<close> what runs after a start that succeeds, \<open>Backend_Liveness\<close>
    when a start succeeds, \<open>Backend_Checks\<close> what the checks of ownership find out, and
    \<open>Backend_Roundtrip\<close> that a stop then puts everything back.
  \<^item> \<open>Yields\<close>, \<open>Traces\<close>, \<open>Delivery\<close> and the theories in \<open>_Lemmas\<close> and \<open>_Traces\<close>: what a computation
    returns, which system calls it can make, which it has made when it succeeds, and what that
    says of the components.
  \<^item> \<open>Simulation\<close>: runs of labelled steps and the refinement of steps, a locale that the owner and
    the in-memory kernel interpret.
  \<^item> \<open>Samples\<close>, \<open>Table_Kernel\<close> and \<open>Sample_Owner\<close>: concrete inputs for the witnesses.
  \<^item> \<open>Properties_Config\<close>, \<open>Properties_Sysfs\<close>, \<open>Properties_Monitor\<close>, \<open>Properties_Update\<close>,
    \<open>Properties_Receipt\<close>, \<open>Properties_Runtime\<close>, \<open>Properties_Workflow\<close>, \<open>Properties_Backend\<close>,
    \<open>Properties_Lifecycle\<close>: the properties.

  \<^bold>\<open>Conventions.\<close> Structs are records, enums are datatypes, \<open>u64\<close>, \<open>u32\<close> and \<open>u8\<close> are words,
  \<open>usize\<close> is \<open>nat\<close>, strings are lists of bytes. A fallible function returns \<open>error + 'a\<close>; the
  \<open>?\<close> operator is \<open>and_then\<close> on pure results and \<open>sbind\<close> on computations. Values of the host
  that the sources ask for (the page size) are arguments.

  \<^bold>\<open>The kernel\<close> is the record \<open>'k sysfs\<close> of the system calls the crate makes, each a function of a
  kernel state of arbitrary type that it may change. Nothing is assumed about it, so every
  theorem over an arbitrary \<open>E\<close> also covers other processes that write between two calls. A
  computation takes a world, the kernel and the thread's write journal, to a result and the next
  world. \<open>traced E\<close> logs every call, and \<open>emits P m\<close> says that against every kernel, also one
  whose answers depend on the log, each call \<open>m\<close> makes satisfies \<open>P\<close>; there is one rule per
  combinator, so a proof follows the program.
  An operation on the owner of a hierarchy also returns the owner's record, changed even when it
  fails; \<open>mwp m s Q\<close> is its weakest precondition over every kernel. \<open>yields Q m\<close> says that what \<open>m\<close>
  returns on success satisfies \<open>Q\<close>, and \<open>delivers ev m\<close> that on success it has made the call \<open>ev\<close>.
  The record \<open>'k process\<close> adds the system calls of the session lock and of the boot identifier,
  and the cell of the process that remembers the latter; \<open>'k host\<close> adds two clocks.

  \<^bold>\<open>Bounds.\<close> Reading loops end because each read shortens the file's remaining content. Two
  loops of the sources have no bound of their own: the directory walk and the repetition of an
  interrupted write. Both take \<open>sys_fuel\<close>, a field of the kernel, and fail with an error when it
  runs out; the theorems hold for every value of it. \<open>retry_busy\<close> is bounded by the sources.

  \<^bold>\<open>What the lemmas show.\<close> For values: conversions are exact or tight, and round trip. For
  configurations: validation decides its specification (disjoint and aligned regions, sums that
  fit, one runnable context per kdamond), and the comparison with the kernel's report decides
  equivalence. For sysfs: readers depend on content only, snapshots compare and restore exactly
  what they captured, staging never issues a command. For the owner: starting is all or nothing,
  stopping stops, a foreign kernel thread is never stopped, closing gives up ownership exactly
  when it succeeds, and the life cycle writes nothing but its commands and its snapshot; any
  sequence of operations is a run of the abstract life cycle, in which a hierarchy runs completely
  or not at all while stops and closes succeed and failed starts are undone. For
  updates: a refused request touches nothing, unselected kdamonds keep what runs, every outcome
  leaves a record that describes the hierarchy, a success has committed every selected kdamond.
  For queries and capabilities: they command their own kdamond at most, values are handed out
  only under verified ownership, discovery covers every feature, probes write back. For persistent
  hierarchies: a receipt opens to the owner it describes, accepted bytes are valid receipts and
  cannot be extended, and reading back what was written succeeds exactly when the number of
  kdamonds does not exceed the bytes after it. For workflows: what is prepared may run, a snapshot
  query points at its own private schemes, materializing takes them out again, a failed start ends
  by closing the lock file, and the monitor of a background snapshot is always recovered. For the
  tests: every write their kernel accepts is a step of an abstract kernel that keeps the staged
  files apart from those in use, it panics only when its thread identifiers run out, and the test
  branches agree with the production functions, but for numbers of exactly 64 bytes. For the
  composition of the production code with that kernel: staging and its reading back touch nothing
  that runs, an update reaches the selected kdamonds only, the check of ownership decides whether
  the captured files are unchanged, a start succeeds whenever the model holds
  what was staged and its kdamonds may start, every kdamond then runs on exactly its staged files,
  and a stop afterwards gives back the owner and every file.

  \<^bold>\<open>Not modelled.\<close> What the standard library prints of an I/O error or in \<open>Debug\<close> form is a
  parameter, and the trait implementations that only forward are left out, as are the branches for
  platforms other than Linux. The locks around a model of the tests are left out, so a panic does
  not poison it. Opening and locking the lock file are system calls of the model, so what the
  kernel promises about advisory locks is not a theorem.
\<close>

end
